(* ===== verification/Trader_Prelude.thy ===== *)
theory Trader_Prelude
  imports Main "HOL-Library.Char_ord"
begin

text \<open>
  Shared vocabulary of the development: results that may raise (\<open>'e + 'a\<close>, \<open>Inl\<close> the
  exception), the handful of Python string and list operations the trader uses, and the
  collections of simplification facts the component proofs carry.

  Strings are ASCII: \<open>str.upper\<close>, \<open>str.lower\<close> and \<open>str.strip\<close> are modelled on the ASCII
  range, which is the alphabet of the symbols, sides, states and identifiers handled here.
\<close>

named_theorems run_simps \<open>evaluation of computations that may raise\<close>
named_theorems guard_defs \<open>definitions of guards that proofs unfold\<close>

section \<open>Computations that may raise\<close>

text \<open>The exception classes the modelled code raises, with their messages.\<close>

datatype Exn =
    ValueError string
  | ValidationError string string
  | TypeError string
  | KeyError string
  | LookupError string
  | AssertionError string
  | TransitionError string
  | LiquidationGuardError string
  | SizingError string
  | ProtectionContractError string
  | LiveDispatchDisabled string
  | BaselineRefused string
  | OwnedQuantityEvidenceError string
  | StorageError string
  | AdapterError string
  | LiveSetupError string
  | BitgetApiError string string   \<comment> \<open>provider code and message\<close>
  | BitgetUnknownResultError string
  | BitgetReadModelError string
  | KillSwitchTrigger string
  | TimeoutError string
  | SourceFreshnessExpired string
  | BitgetEntryVeto string
  | SourceManagementReconciliationPending string
  | OtherError string string   \<comment> \<open>class name and message of an exception of code outside the repository\<close>

text \<open>\<open>type(exc).__name__\<close>; a foreign exception whose class derives from \<open>ValueError\<close> is a \<open>ValueError\<close> here.\<close>

fun exn_name :: "Exn \<Rightarrow> string" where
  "exn_name (ValueError _) = ''ValueError''"
| "exn_name (ValidationError _ _) = ''ValidationError''"
| "exn_name (TypeError _) = ''TypeError''"
| "exn_name (KeyError _) = ''KeyError''"
| "exn_name (LookupError _) = ''LookupError''"
| "exn_name (AssertionError _) = ''AssertionError''"
| "exn_name (TransitionError _) = ''TransitionError''"
| "exn_name (LiquidationGuardError _) = ''LiquidationGuardError''"
| "exn_name (SizingError _) = ''SizingError''"
| "exn_name (ProtectionContractError _) = ''ProtectionContractError''"
| "exn_name (LiveDispatchDisabled _) = ''LiveDispatchDisabled''"
| "exn_name (BaselineRefused _) = ''BaselineRefused''"
| "exn_name (OwnedQuantityEvidenceError _) = ''OwnedQuantityEvidenceError''"
| "exn_name (StorageError _) = ''IntegrityError''"
| "exn_name (AdapterError _) = ''AdapterError''"
| "exn_name (LiveSetupError _) = ''LiveSetupError''"
| "exn_name (BitgetApiError _ _) = ''BitgetApiError''"
| "exn_name (BitgetUnknownResultError _) = ''BitgetUnknownResultError''"
| "exn_name (BitgetReadModelError _) = ''BitgetReadModelError''"
| "exn_name (KillSwitchTrigger _) = ''KillSwitchTrigger''"
| "exn_name (TimeoutError _) = ''TimeoutError''"
| "exn_name (SourceFreshnessExpired _) = ''SourceFreshnessExpired''"
| "exn_name (BitgetEntryVeto _) = ''BitgetEntryVeto''"
| "exn_name (SourceManagementReconciliationPending _) = ''SourceManagementReconciliationPending''"
| "exn_name (OtherError name _) = name"

text \<open>\<open>isinstance(exc, ValueError)\<close>.\<close>

fun is_value_error :: "Exn \<Rightarrow> bool" where
  "is_value_error (ValueError _) = True"
| "is_value_error (ValidationError _ _) = True"
| "is_value_error (TransitionError _) = True"
| "is_value_error (LiquidationGuardError _) = True"
| "is_value_error (SizingError _) = True"
| "is_value_error (ProtectionContractError _) = True"
| "is_value_error (BaselineRefused _) = True"
| "is_value_error (OwnedQuantityEvidenceError _) = True"
| "is_value_error (LiveSetupError _) = True"
| "is_value_error (SourceFreshnessExpired _) = True"
| "is_value_error (BitgetReadModelError _) = True"
| "is_value_error _ = False"

text \<open>The message, \<open>exc.args[0]\<close>.\<close>

fun exn_message :: "Exn \<Rightarrow> string" where
  "exn_message (ValueError m) = m"
| "exn_message (ValidationError _ m) = m"
| "exn_message (TypeError m) = m"
| "exn_message (KeyError m) = m"
| "exn_message (LookupError m) = m"
| "exn_message (AssertionError m) = m"
| "exn_message (TransitionError m) = m"
| "exn_message (LiquidationGuardError m) = m"
| "exn_message (SizingError m) = m"
| "exn_message (ProtectionContractError m) = m"
| "exn_message (LiveDispatchDisabled m) = m"
| "exn_message (BaselineRefused m) = m"
| "exn_message (OwnedQuantityEvidenceError m) = m"
| "exn_message (StorageError m) = m"
| "exn_message (AdapterError m) = m"
| "exn_message (LiveSetupError m) = m"
| "exn_message (BitgetApiError _ m) = m"
| "exn_message (BitgetUnknownResultError m) = m"
| "exn_message (BitgetReadModelError m) = m"
| "exn_message (KillSwitchTrigger reason) = ''kill switch: '' @ reason"
| "exn_message (TimeoutError m) = m"
| "exn_message (SourceFreshnessExpired m) = m"
| "exn_message (BitgetEntryVeto m) = m"
| "exn_message (SourceManagementReconciliationPending m) = m"
| "exn_message (OtherError _ m) = m"

type_synonym ('e, 'a) raises = "'e + 'a"

fun bindE :: "('e, 'a) raises \<Rightarrow> ('a \<Rightarrow> ('e, 'b) raises) \<Rightarrow> ('e, 'b) raises" where
  "bindE (Inl e) f = Inl e"
| "bindE (Inr x) f = f x"

definition ensure :: "bool \<Rightarrow> 'e \<Rightarrow> ('e, unit) raises" where
  "ensure b e = (if b then Inr () else Inl e)"

fun mapE :: "('a \<Rightarrow> ('e, 'b) raises) \<Rightarrow> 'a list \<Rightarrow> ('e, 'b list) raises" where
  "mapE f [] = Inr []"
| "mapE f (x # xs) = bindE (f x) (\<lambda>y. bindE (mapE f xs) (\<lambda>ys. Inr (y # ys)))"

lemma bindE_case [code_unfold]: "bindE x f = (case x of Inl e \<Rightarrow> Inl e | Inr a \<Rightarrow> f a)"
  by (cases x) simp_all

lemma returned_pair: "\<not> isl x \<Longrightarrow> x = Inr (fst (projr x), snd (projr x))"
  by (cases x) simp_all

lemma bindE_Inr_iff [run_simps]: "bindE m f = Inr y \<longleftrightarrow> (\<exists>x. m = Inr x \<and> f x = Inr y)"
  by (cases m) auto

lemma bindE_Inl_iff [run_simps]:
  "bindE m f = Inl e \<longleftrightarrow> m = Inl e \<or> (\<exists>x. m = Inr x \<and> f x = Inl e)"
  by (cases m) auto

lemma ensure_Inr_iff [run_simps]: "ensure b e = Inr u \<longleftrightarrow> b"
  by (simp add: ensure_def)

lemma ensure_Inl_iff [run_simps]: "ensure b e = Inl e' \<longleftrightarrow> \<not> b \<and> e' = e"
  by (auto simp: ensure_def)

lemma mapE_Inr_iff:
  "mapE f xs = Inr ys \<longleftrightarrow> list_all2 (\<lambda>x y. f x = Inr y) xs ys"
proof (induction xs arbitrary: ys)
  case Nil
  then show ?case by auto
next
  case (Cons x xs)
  then show ?case by (cases ys) (auto simp: run_simps)
qed

section \<open>Python strings\<close>

definition is_space :: "char \<Rightarrow> bool" where
  "is_space c \<longleftrightarrow> (let n = (of_char c :: nat) in (9 \<le> n \<and> n \<le> 13) \<or> (28 \<le> n \<and> n \<le> 32))"

definition upper_char :: "char \<Rightarrow> char" where
  "upper_char c = (let n = (of_char c :: nat) in if 97 \<le> n \<and> n \<le> 122 then char_of (n - 32) else c)"

definition lower_char :: "char \<Rightarrow> char" where
  "lower_char c = (let n = (of_char c :: nat) in if 65 \<le> n \<and> n \<le> 90 then char_of (n + 32) else c)"

definition str_upper :: "string \<Rightarrow> string" where
  "str_upper s = map upper_char s"

definition str_lower :: "string \<Rightarrow> string" where
  "str_lower s = map lower_char s"

definition str_strip :: "string \<Rightarrow> string" where
  "str_strip s = rev (dropWhile is_space (rev (dropWhile is_space s)))"

definition starts_with :: "string \<Rightarrow> string \<Rightarrow> bool" where
  "starts_with s p \<longleftrightarrow> take (length p) s = p"

definition ends_with :: "string \<Rightarrow> string \<Rightarrow> bool" where
  "ends_with s p \<longleftrightarrow> length p \<le> length s \<and> drop (length s - length p) s = p"

fun contains_str :: "string \<Rightarrow> string \<Rightarrow> bool" where
  "contains_str [] p \<longleftrightarrow> p = []"
| "contains_str (c # cs) p \<longleftrightarrow> starts_with (c # cs) p \<or> contains_str cs p"

text \<open>\<open>last_chars n s\<close> is the Python slice \<open>s[-n:]\<close>.\<close>

definition last_chars :: "nat \<Rightarrow> string \<Rightarrow> string" where
  "last_chars n s = drop (length s - n) s"

lemma char_of_of_char [simp]: "char_of (of_char c :: nat) = c"
  by simp

lemma upper_char_idem [simp]: "upper_char (upper_char c) = upper_char c"
proof (cases "97 \<le> (of_char c :: nat) \<and> (of_char c :: nat) \<le> 122")
  case True
  then have "((of_char c :: nat) - 32) mod 256 = of_char c - 32"
    by (intro mod_less) linarith
  with True show ?thesis by (auto simp: upper_char_def Let_def)
next
  case False
  then show ?thesis by (auto simp: upper_char_def Let_def)
qed

lemma str_upper_idem [simp]: "str_upper (str_upper s) = str_upper s"
  by (simp add: str_upper_def)

lemma length_str_upper [simp]: "length (str_upper s) = length s"
  by (simp add: str_upper_def)

lemma str_strip_Nil_iff: "str_strip s = [] \<longleftrightarrow> (\<forall>c \<in> set s. is_space c)"
proof
  assume "str_strip s = []"
  then have all: "\<forall>c \<in> set (dropWhile is_space s). is_space c"
    by (simp add: str_strip_def)
  have "dropWhile is_space s = []"
  proof (rule ccontr)
    assume ne: "dropWhile is_space s \<noteq> []"
    then have "\<not> is_space (hd (dropWhile is_space s))" by (rule hd_dropWhile)
    with all ne show False by simp
  qed
  then show "\<forall>c \<in> set s. is_space c" by simp
next
  assume "\<forall>c \<in> set s. is_space c"
  then have "dropWhile is_space s = []" by simp
  then have "str_strip s = rev (dropWhile is_space (rev []))"
    unfolding str_strip_def by (simp only:)
  then show "str_strip s = []" by simp
qed

lemma lower_char_idem [simp]: "lower_char (lower_char c) = lower_char c"
proof (cases "65 \<le> (of_char c :: nat) \<and> (of_char c :: nat) \<le> 90")
  case True
  then have "((of_char c :: nat) + 32) mod 256 = of_char c + 32" by (intro mod_less) linarith
  with True show ?thesis by (auto simp: lower_char_def Let_def)
next
  case False
  then show ?thesis by (auto simp: lower_char_def Let_def)
qed

lemma str_lower_Nil [simp]: "str_lower s = [] \<longleftrightarrow> s = []"
  by (simp add: str_lower_def)

lemma str_upper_Nil [simp]: "str_upper s = [] \<longleftrightarrow> s = []"
  by (simp add: str_upper_def)

lemma strip_drop: "dropWhile is_space (str_strip s) = str_strip s"
proof -
  have "str_strip s = [] \<or> \<not> is_space (hd (str_strip s))"
  proof (cases "dropWhile is_space s")
    case Nil
    then have "str_strip s = rev (dropWhile is_space (rev []))" unfolding str_strip_def by (simp only:)
    then show ?thesis by simp
  next
    case (Cons x xs)
    then have x: "\<not> is_space x" by (metis hd_dropWhile list.distinct(1) list.sel(1))
    have "str_strip s = x # rev (dropWhile is_space (rev xs))"
      unfolding str_strip_def Cons using x by (simp add: dropWhile_append)
    then show ?thesis using x by simp
  qed
  then show ?thesis by (cases "str_strip s") auto
qed

lemma strip_strip [simp]: "str_strip (str_strip s) = str_strip s"
proof -
  have "dropWhile is_space (rev (str_strip s)) = rev (str_strip s)"
    unfolding str_strip_def by (simp add: dropWhile_idem)
  then show ?thesis by (simp add: str_strip_def [of "str_strip s"] strip_drop)
qed

lemma case_keeps_space: "is_space (upper_char c) = is_space c" "is_space (lower_char c) = is_space c"
  by (auto simp: is_space_def upper_char_def lower_char_def Let_def)

lemma strip_case_Nil:
  "str_strip (str_upper s) = [] \<longleftrightarrow> str_strip s = []" "str_strip (str_lower s) = [] \<longleftrightarrow> str_strip s = []"
  by (simp_all add: str_strip_Nil_iff str_upper_def str_lower_def case_keeps_space)

section \<open>Stateful code that may raise\<close>

text \<open>A step that changes a world and may raise: the changes made before the exception stand.\<close>

type_synonym ('w, 'a) prog = "'w \<Rightarrow> (Exn, 'a) raises \<times> 'w"

definition returnW :: "'a \<Rightarrow> ('w, 'a) prog" where
  "returnW x w = (Inr x, w)"

definition raiseW :: "Exn \<Rightarrow> ('w, 'a) prog" where
  "raiseW e w = (Inl e, w)"

definition bindW :: "('w, 'a) prog \<Rightarrow> ('a \<Rightarrow> ('w, 'b) prog) \<Rightarrow> ('w, 'b) prog" where
  "bindW m f w = (case m w of (Inl e, w1) \<Rightarrow> (Inl e, w1) | (Inr x, w1) \<Rightarrow> f x w1)"

definition tryW :: "('w, 'a) prog \<Rightarrow> (Exn \<Rightarrow> bool) \<Rightarrow> (Exn \<Rightarrow> ('w, 'a) prog) \<Rightarrow> ('w, 'a) prog" where
  "tryW m caught handler w =
     (case m w of (Inl e, w1) \<Rightarrow> if caught e then handler e w1 else (Inl e, w1) | (Inr x, w1) \<Rightarrow> (Inr x, w1))"

text \<open>\<open>try: ... except Exception\<close>: the outcome as a value.\<close>

definition attemptW :: "('w, 'a) prog \<Rightarrow> ('w, Exn + 'a) prog" where
  "attemptW p w = (case p w of (r, w') \<Rightarrow> (Inr r, w'))"

definition liftE :: "(Exn, 'a) raises \<Rightarrow> ('w, 'a) prog" where
  "liftE r w = (r, w)"

text \<open>A relation between the world before and after a program, whatever it returns.\<close>

definition keepsW :: "('w \<Rightarrow> 'w \<Rightarrow> bool) \<Rightarrow> ('w, 'a) prog \<Rightarrow> bool" where
  "keepsW R p \<longleftrightarrow> (\<forall>w. R w (snd (p w)))"

lemma keepsW_D: "keepsW R p \<Longrightarrow> p w = (r, w') \<Longrightarrow> R w w'"
  by (metis keepsW_def snd_conv)

lemma keepsW_return: "reflp R \<Longrightarrow> keepsW R (returnW x)"
  by (simp add: keepsW_def returnW_def reflpD)

lemma keepsW_raise: "reflp R \<Longrightarrow> keepsW R (raiseW e)"
  by (simp add: keepsW_def raiseW_def reflpD)

lemma keepsW_liftE: "reflp R \<Longrightarrow> keepsW R (liftE x)"
  by (simp add: keepsW_def liftE_def reflpD)

lemma keepsW_bind:
  assumes "transp R" "keepsW R m" "\<And>x. keepsW R (f x)"
  shows "keepsW R (bindW m f)"
  unfolding keepsW_def
proof
  fix w
  obtain r w1 where m: "m w = (r, w1)" by (cases "m w")
  have one: "R w w1" using keepsW_D [OF assms(2) m] .
  show "R w (snd (bindW m f w))"
  proof (cases r)
    case (Inr x)
    have "R w1 (snd (f x w1))" using assms(3) by (simp add: keepsW_def)
    then have "R w (snd (f x w1))" using transpD [OF assms(1) one] by blast
    then show ?thesis using Inr m by (simp add: bindW_def)
  qed (use one m in \<open>simp add: bindW_def\<close>)
qed

lemma keepsW_try:
  assumes "transp R" "keepsW R m" "\<And>e. keepsW R (h e)"
  shows "keepsW R (tryW m c h)"
  unfolding keepsW_def
proof
  fix w
  obtain r w1 where m: "m w = (r, w1)" by (cases "m w")
  have one: "R w w1" using keepsW_D [OF assms(2) m] .
  show "R w (snd (tryW m c h w))"
  proof (cases r)
    case (Inl e)
    have "R w1 (snd (h e w1))" using assms(3) by (simp add: keepsW_def)
    then have "R w (snd (h e w1))" using transpD [OF assms(1) one] by blast
    then show ?thesis using Inl m one by (simp add: tryW_def)
  qed (use one m in \<open>simp add: tryW_def\<close>)
qed

lemma keepsW_attempt: "keepsW R p \<Longrightarrow> keepsW R (attemptW p)"
  by (simp add: keepsW_def attemptW_def split: prod.split) (metis snd_conv)

lemma bindW_cases:
  assumes "bindW m f w = (r, w')"
  obtains (raised) e where "m w = (Inl e, w')" "r = Inl e"
  | (returned) x w1 where "m w = (Inr x, w1)" "f x w1 = (r, w')"
proof (cases "m w")
  case (Pair r1 w1)
  then show ?thesis using assms raised returned by (cases r1) (auto simp: bindW_def)
qed

lemma bindW_InrE:
  assumes "bindW m f w = (Inr x, w')"
  obtains y w1 where "m w = (Inr y, w1)" "f y w1 = (Inr x, w')"
  using assms by (auto elim: bindW_cases)

lemma keepsW_mono: "keepsW R p \<Longrightarrow> (\<And>w w'. R w w' \<Longrightarrow> S w w') \<Longrightarrow> keepsW S p"
  by (simp add: keepsW_def)

lemma bind_liftE [simp]: "bindW (liftE (Inr x)) f w = f x w" "bindW (liftE (Inl e)) f w = (Inl e, w)"
  by (simp_all add: bindW_def liftE_def)

text \<open>A partial-correctness triple with one postcondition for a returned value and one for an exception.\<close>

definition triple :: "('w \<Rightarrow> bool) \<Rightarrow> ('w, 'a) prog \<Rightarrow> ('a \<Rightarrow> 'w \<Rightarrow> bool) \<Rightarrow> (Exn \<Rightarrow> 'w \<Rightarrow> bool) \<Rightarrow> bool" where
  "triple P p Q E \<longleftrightarrow> (\<forall>w. P w \<longrightarrow> (case p w of (Inr x, w') \<Rightarrow> Q x w' | (Inl e, w') \<Rightarrow> E e w'))"

named_theorems triple_rules \<open>rules that take a program apart\<close>

lemma triple_return [triple_rules]: "(\<And>w. P w \<Longrightarrow> Q x w) \<Longrightarrow> triple P (returnW x) Q E"
  by (simp add: triple_def returnW_def)

lemma triple_raise [triple_rules]: "(\<And>w. P w \<Longrightarrow> E e w) \<Longrightarrow> triple P (raiseW e) Q E"
  by (simp add: triple_def raiseW_def)

lemma triple_bind [triple_rules]:
  assumes "triple P m R E" "\<And>x. triple (R x) (f x) Q E"
  shows "triple P (bindW m f) Q E"
  unfolding triple_def
proof (intro allI impI)
  fix w assume "P w"
  then have one: "case m w of (Inr x, w') \<Rightarrow> R x w' | (Inl e, w') \<Rightarrow> E e w'" using assms(1) by (simp add: triple_def)
  obtain r w1 where m: "m w = (r, w1)" by (cases "m w")
  show "case bindW m f w of (Inr x, w') \<Rightarrow> Q x w' | (Inl e, w') \<Rightarrow> E e w'"
  proof (cases r)
    case (Inl e)
    then show ?thesis using one m by (simp add: bindW_def)
  next
    case (Inr x)
    then have "R x w1" using one m by simp
    then show ?thesis using assms(2) [of x] Inr m by (simp add: triple_def bindW_def)
  qed
qed

lemma triple_try [triple_rules]:
  assumes "triple P m Q R" "\<And>e. c e \<Longrightarrow> triple (R e) (h e) Q E" "\<And>e w. \<not> c e \<Longrightarrow> R e w \<Longrightarrow> E e w"
  shows "triple P (tryW m c h) Q E"
  unfolding triple_def
proof (intro allI impI)
  fix w assume "P w"
  then have one: "case m w of (Inr x, w') \<Rightarrow> Q x w' | (Inl e, w') \<Rightarrow> R e w'" using assms(1) by (simp add: triple_def)
  obtain r w1 where m: "m w = (r, w1)" by (cases "m w")
  show "case tryW m c h w of (Inr x, w') \<Rightarrow> Q x w' | (Inl e, w') \<Rightarrow> E e w'"
  proof (cases r)
    case (Inl e)
    then have "R e w1" using one m by simp
    then show ?thesis using assms(2,3) [of e] Inl m by (auto simp: triple_def tryW_def)
  next
    case (Inr x)
    then show ?thesis using one m by (simp add: tryW_def)
  qed
qed

lemma triple_pre: "triple P' p Q E \<Longrightarrow> (\<And>w. P w \<Longrightarrow> P' w) \<Longrightarrow> triple P p Q E"
  by (simp add: triple_def)

lemma triple_post:
  "triple P p Q' E' \<Longrightarrow> (\<And>x w. Q' x w \<Longrightarrow> Q x w) \<Longrightarrow> (\<And>e w. E' e w \<Longrightarrow> E e w) \<Longrightarrow> triple P p Q E"
  by (fastforce simp: triple_def split: sum.splits)

lemma triple_if [triple_rules]:
  "(b \<Longrightarrow> triple P p Q E) \<Longrightarrow> (\<not> b \<Longrightarrow> triple P q Q E) \<Longrightarrow> triple P (if b then p else q) Q E"
  by simp

lemma triple_attempt:
  assumes "triple P p Q E"
  shows "triple P (attemptW p) (\<lambda>r w. case r of Inl e \<Rightarrow> E e w | Inr x \<Rightarrow> Q x w) E'"
  using assms by (fastforce simp: triple_def attemptW_def split: prod.splits sum.splits)

lemma tripleD: "triple P p Q E \<Longrightarrow> P w \<Longrightarrow> p w = (Inr x, w') \<Longrightarrow> Q x w'"
  by (auto simp: triple_def split: prod.splits sum.splits)

lemma tripleDE: "triple P p Q E \<Longrightarrow> P w \<Longrightarrow> p w = (Inl e, w') \<Longrightarrow> E e w'"
  by (auto simp: triple_def split: prod.splits sum.splits)

section \<open>Python collections\<close>

text \<open>\<open>dict.fromkeys(xs)\<close> as a list of keys: the first occurrence of each element, in order.\<close>

definition unique :: "'a list \<Rightarrow> 'a list" where
  "unique xs = rev (remdups (rev xs))"

lemma set_unique [simp]: "set (unique xs) = set xs"
  by (simp add: unique_def)

lemma distinct_unique [simp]: "distinct (unique xs)"
  by (simp add: unique_def)

text \<open>First element satisfying a predicate (\<open>next((x for x in xs if p(x)), None)\<close>) is \<open>List.find\<close>.\<close>

lemma find_None_iff_none: "List.find P xs = None \<longleftrightarrow> (\<forall>x \<in> set xs. \<not> P x)"
  by (induction xs) auto

lemma find_Some_props: "List.find P xs = Some x \<Longrightarrow> x \<in> set xs \<and> P x"
  by (induction xs) (auto split: if_splits)

lemma find_in_append:
  "List.find P (xs @ ys) = (case List.find P xs of None \<Rightarrow> List.find P ys | Some x \<Rightarrow> Some x)"
  by (induction xs) auto

text \<open>Pointwise update of a table held as a list of rows (SQL \<open>UPDATE ... WHERE\<close>).\<close>

definition update_where :: "('r \<Rightarrow> bool) \<Rightarrow> ('r \<Rightarrow> 'r) \<Rightarrow> 'r list \<Rightarrow> 'r list" where
  "update_where p f = map (\<lambda>r. if p r then f r else r)"

lemma length_update_where [simp]: "length (update_where p f rs) = length rs"
  by (simp add: update_where_def)

lemma set_update_where:
  "set (update_where p f rs) = f ` {r \<in> set rs. p r} \<union> {r \<in> set rs. \<not> p r}"
  by (auto simp: update_where_def)

lemma map_update_where:
  "(\<And>r. p r \<Longrightarrow> g (f r) = g r) \<Longrightarrow> map g (update_where p f rs) = map g rs"
  by (auto simp: update_where_def)

lemma update_where_Nil [simp]: "update_where p f [] = []"
  by (simp add: update_where_def)

lemma update_where_Cons [simp]:
  "update_where p f (r # rs) = (if p r then f r else r) # update_where p f rs"
  by (simp add: update_where_def)

end
