(* ===== verification/Dec28.thy ===== *)
theory Dec28
  imports Trader_Prelude Complex_Main
begin

text \<open>
  Python's \<open>decimal.Decimal\<close> under the default context the trader runs with: 28 significant
  digits, \<open>ROUND_HALF_EVEN\<close>. A finite decimal is the rational number it denotes; \<open>+\<close>, \<open>-\<close>,
  \<open>*\<close> and \<open>/\<close> are the exact operation followed by \<open>dec_round\<close>, comparisons and
  \<open>to_integral_value\<close> are exact, as in the language. Trailing zeros of a coefficient (visible
  only in \<open>str\<close>) and the exponent limits \<open>Emax\<close>/\<open>Emin\<close> of magnitude \<open>10 ^ 999999\<close> are
  not represented, except in \<open>dec_overflows\<close>. Division by zero raises in Python; each use
  below has a divisor that an earlier guard of the same function makes positive.

  The laws the rest of the development uses of the rounding are the locale
  \<open>decimal_context\<close>; \<open>dec_round\<close> is shown to satisfy them.
\<close>

type_synonym dec = rat

section \<open>Rounding to 28 significant digits\<close>

function ndigits :: "int \<Rightarrow> nat" where
  "ndigits n = (if n \<le> 0 then 0 else Suc (ndigits (n div 10)))"
  by pat_completeness auto
termination
  by (relation "measure nat") auto

declare ndigits.simps [simp del]

definition pow10 :: "int \<Rightarrow> rat" where
  "pow10 k = (if 0 \<le> k then 10 ^ nat k else 1 / 10 ^ nat (- k))"

text \<open>\<open>adjusted x\<close> is \<open>Decimal.adjusted\<close>: the exponent of the most significant digit of \<open>x > 0\<close>.\<close>

definition adjusted :: "rat \<Rightarrow> int" where
  "adjusted x =
     (let (p, q) = quotient_of x; d = int (ndigits p) - int (ndigits q)
      in if pow10 d \<le> x then d else d - 1)"

definition round_half_even :: "rat \<Rightarrow> int" where
  "round_half_even x =
     (let f = \<lfloor>x\<rfloor>; r = x - of_int f
      in if r < 1 / 2 then f else if 1 / 2 < r then f + 1 else if even f then f else f + 1)"

definition dec_round :: "rat \<Rightarrow> dec" where
  "dec_round x =
     (if x = 0 then 0
      else let u = pow10 (adjusted \<bar>x\<bar> - 27)
           in sgn x * (of_int (round_half_even (\<bar>x\<bar> / u)) * u))"

section \<open>Arithmetic\<close>

definition dec_add :: "dec \<Rightarrow> dec \<Rightarrow> dec" where "dec_add a b = dec_round (a + b)"
definition dec_sub :: "dec \<Rightarrow> dec \<Rightarrow> dec" where "dec_sub a b = dec_round (a - b)"
definition dec_mul :: "dec \<Rightarrow> dec \<Rightarrow> dec" where "dec_mul a b = dec_round (a * b)"
definition dec_div :: "dec \<Rightarrow> dec \<Rightarrow> dec" where "dec_div a b = dec_round (a / b)"
definition dec_abs :: "dec \<Rightarrow> dec" where "dec_abs a = dec_round \<bar>a\<bar>"

fun dec_sum :: "dec list \<Rightarrow> dec \<Rightarrow> dec" where
  "dec_sum [] acc = acc"
| "dec_sum (x # xs) acc = dec_sum xs (dec_add acc x)"

text \<open>\<open>Decimal.to_integral_value\<close> under the three rounding modes the trader names.\<close>

definition integral_ceiling :: "dec \<Rightarrow> dec" where "integral_ceiling x = of_int \<lceil>x\<rceil>"

definition integral_down :: "dec \<Rightarrow> dec" where
  "integral_down x = (if 0 \<le> x then of_int \<lfloor>x\<rfloor> else of_int \<lceil>x\<rceil>)"

definition integral_half_up :: "dec \<Rightarrow> dec" where
  "integral_half_up x = (if 0 \<le> x then of_int \<lfloor>x + 1 / 2\<rfloor> else of_int \<lceil>x - 1 / 2\<rceil>)"

text \<open>The quotient's adjusted exponent exceeds \<open>Emax\<close>, so the context raises \<open>Overflow\<close>.\<close>

definition dec_overflows :: "rat \<Rightarrow> bool" where
  "dec_overflows x \<longleftrightarrow> x \<noteq> 0 \<and> 999999 < adjusted \<bar>x\<bar>"

section \<open>The digit count\<close>

lemma ndigits_bounds: "0 < n \<Longrightarrow> 0 < ndigits n \<and> 10 ^ (ndigits n - 1) \<le> n \<and> n < 10 ^ ndigits n"
proof (induction n rule: ndigits.induct)
  case (1 n)
  show ?case
  proof (cases "n < 10")
    case True
    then have "n div 10 = 0" using 1(2) by simp
    then have "ndigits n = 1" using 1(2) by (simp add: ndigits.simps)
    with True 1(2) show ?thesis by simp
  next
    case False
    then have pos: "0 < n div 10" and n0: "\<not> n \<le> 0" by auto
    let ?d = "ndigits (n div 10)"
    from 1(1)[OF n0 pos] have IH: "0 < ?d" "10 ^ (?d - 1) \<le> n div 10" "n div 10 < 10 ^ ?d"
      by auto
    from IH(1) obtain k where k: "?d = Suc k" by (cases ?d) auto
    have "ndigits n = Suc ?d" using n0 by (simp add: ndigits.simps)
    moreover have "10 ^ ?d \<le> n"
    proof -
      have "10 ^ ?d = 10 * 10 ^ k" using k by simp
      also have "\<dots> \<le> 10 * (n div 10)" using IH(2) k by simp
      also have "\<dots> \<le> n" by simp
      finally show ?thesis .
    qed
    moreover have "n < 10 ^ Suc ?d"
    proof -
      have "n < 10 * (n div 10 + 1)" by simp
      also have "\<dots> \<le> 10 * 10 ^ ?d" using IH(3) by simp
      finally show ?thesis by simp
    qed
    ultimately show ?thesis by simp
  qed
qed

section \<open>Powers of ten\<close>

lemma pow10_pos [simp]: "0 < pow10 k"
  by (simp add: pow10_def)

lemma pow10_nonzero [simp]: "pow10 k \<noteq> 0"
  using pow10_pos [of k] by linarith

lemma pow10_nonneg [simp]: "0 \<le> pow10 k"
  using pow10_pos [of k] by linarith

lemma pow10_eq_powi: "pow10 k = 10 powi k"
  by (simp add: pow10_def power_int_def inverse_eq_divide power_one_over)

lemma pow10_add: "pow10 (a + b) = pow10 a * pow10 b"
  by (simp add: pow10_eq_powi power_int_add)

lemma pow10_mono: "a \<le> b \<Longrightarrow> pow10 a \<le> pow10 b"
  by (simp add: pow10_eq_powi power_int_increasing)

lemma pow10_strict_mono: "a < b \<Longrightarrow> pow10 a < pow10 b"
  by (simp add: pow10_eq_powi power_int_strict_increasing)

lemma pow10_less_iff [simp]: "pow10 a < pow10 b \<longleftrightarrow> a < b"
  by (meson linorder_not_le pow10_mono pow10_strict_mono leD)

lemma pow10_nat [simp]: "pow10 (int n) = 10 ^ n"
  by (simp add: pow10_def)

lemma pow10_Suc_int: "pow10 (k + 1) = 10 * pow10 k"
  by (simp add: pow10_add) (simp add: pow10_def)

lemma pow10_digits:
  assumes "0 < d" "10 ^ (d - 1) \<le> n" "n < 10 ^ d"
  shows "pow10 (int d - 1) \<le> of_int n" and "of_int n < pow10 (int d)"
proof -
  have "pow10 (int d - 1) = 10 ^ (d - 1)"
    using assms(1) pow10_nat [of "d - 1"] by (simp del: pow10_nat)
  also have "\<dots> = of_int (10 ^ (d - 1))" by simp
  also have "\<dots> \<le> of_int n" using assms(2) by (simp only: of_int_le_iff)
  finally show "pow10 (int d - 1) \<le> of_int n" .
  have "(of_int n :: rat) < of_int (10 ^ d)" using assms(3) by (simp only: of_int_less_iff)
  then show "of_int n < pow10 (int d)" by simp
qed

lemma adjusted_bounds:
  assumes "0 < x"
  shows "pow10 (adjusted x) \<le> x" and "x < pow10 (adjusted x + 1)"
proof -
  obtain p q where pq: "quotient_of x = (p, q)" by (cases "quotient_of x")
  have q: "0 < q" using pq by (rule quotient_of_denom_pos)
  have x: "x = of_int p / of_int q" using pq by (rule quotient_of_div)
  have p: "0 < p" using assms q x by (simp add: zero_less_divide_iff)
  let ?a = "ndigits p" and ?b = "ndigits q"
  have a: "0 < ?a" "10 ^ (?a - 1) \<le> p" "p < 10 ^ ?a" using ndigits_bounds [OF p] by auto
  have b: "0 < ?b" "10 ^ (?b - 1) \<le> q" "q < 10 ^ ?b" using ndigits_bounds [OF q] by auto
  define P Q :: rat where "P = of_int p" and "Q = of_int q"
  have PQ: "x = P / Q" "0 < P" "0 < Q" using x p q by (auto simp: P_def Q_def)
  have P: "pow10 (int ?a - 1) \<le> P" "P < pow10 (int ?a)"
    using pow10_digits [OF a] by (simp_all add: P_def)
  have Q: "pow10 (int ?b - 1) \<le> Q" "Q < pow10 (int ?b)"
    using pow10_digits [OF b] by (simp_all add: Q_def)
  let ?d = "int ?a - int ?b"
  have lower: "pow10 (?d - 1) \<le> x"
  proof -
    have "pow10 (?d - 1) * Q \<le> pow10 (?d - 1) * pow10 (int ?b)" using Q(2) by simp
    also have "\<dots> = pow10 (int ?a - 1)" by (simp del: pow10_nat flip: pow10_add)
    also have "\<dots> \<le> P" by (rule P(1))
    finally show ?thesis using PQ by (simp add: pos_le_divide_eq)
  qed
  have upper: "x < pow10 (?d + 1)"
  proof -
    have "P < pow10 (int ?a)" by (rule P(2))
    also have "\<dots> = pow10 (?d + 1) * pow10 (int ?b - 1)" by (simp del: pow10_nat flip: pow10_add)
    also have "\<dots> \<le> pow10 (?d + 1) * Q" using Q(1) by simp
    finally show ?thesis using PQ by (simp add: pos_divide_less_eq)
  qed
  have adj: "adjusted x = (if pow10 ?d \<le> x then ?d else ?d - 1)"
    by (simp add: adjusted_def pq)
  show "pow10 (adjusted x) \<le> x" "x < pow10 (adjusted x + 1)"
    using lower upper unfolding adj by (auto simp: not_le)
qed

lemma adjusted_mono: "0 < x \<Longrightarrow> x \<le> y \<Longrightarrow> adjusted x \<le> adjusted y"
proof (rule ccontr)
  assume x: "0 < x" "x \<le> y" and "\<not> adjusted x \<le> adjusted y"
  then have "pow10 (adjusted y + 1) \<le> pow10 (adjusted x)" by (intro pow10_mono) simp
  also have "\<dots> \<le> x" using x by (simp add: adjusted_bounds)
  also have "\<dots> \<le> y" by (rule x)
  also have "\<dots> < pow10 (adjusted y + 1)" using x by (intro adjusted_bounds) linarith
  finally show False by simp
qed

lemma adjusted_unique: "pow10 k \<le> x \<Longrightarrow> x < pow10 (k + 1) \<Longrightarrow> adjusted x = k"
proof -
  assume k: "pow10 k \<le> x" "x < pow10 (k + 1)"
  then have x: "0 < x" using pow10_pos [of k] by linarith
  have "pow10 k < pow10 (adjusted x + 1)" using k(1) adjusted_bounds(2) [OF x] by (rule le_less_trans)
  moreover have "pow10 (adjusted x) < pow10 (k + 1)" using adjusted_bounds(1) [OF x] k(2) by (rule le_less_trans)
  ultimately show ?thesis by simp
qed

section \<open>Rounding to an integer\<close>

lemma round_half_even_bounds: "of_int (round_half_even x) \<le> x + 1 / 2" "x - 1 / 2 \<le> of_int (round_half_even x)"
  by (auto simp: round_half_even_def Let_def) linarith+

lemma round_half_even_of_int [simp]: "round_half_even (of_int n) = n"
  by (simp add: round_half_even_def)

lemma round_half_even_mono: "x \<le> y \<Longrightarrow> round_half_even x \<le> round_half_even y"
proof (cases "\<lfloor>x\<rfloor> = \<lfloor>y\<rfloor>")
  case True
  assume "x \<le> y"
  with True show ?thesis by (auto simp: round_half_even_def Let_def)
next
  case False
  assume xy: "x \<le> y"
  then have "\<lfloor>x\<rfloor> \<le> \<lfloor>y\<rfloor>" by (rule floor_mono)
  with False have "\<lfloor>x\<rfloor> + 1 \<le> \<lfloor>y\<rfloor>" by linarith
  moreover have "round_half_even x \<le> \<lfloor>x\<rfloor> + 1" by (auto simp: round_half_even_def Let_def)
  moreover have "\<lfloor>y\<rfloor> \<le> round_half_even y" by (auto simp: round_half_even_def Let_def)
  ultimately show ?thesis by linarith
qed

section \<open>Rounding a decimal\<close>

lemma dec_round_zero [simp]: "dec_round 0 = 0"
  by (simp add: dec_round_def)

lemma dec_round_minus [simp]: "dec_round (- x) = - dec_round x"
  by (simp add: dec_round_def Let_def)

lemma dec_round_pos_eq:
  "0 < x \<Longrightarrow> dec_round x = of_int (round_half_even (x / pow10 (adjusted x - 27))) * pow10 (adjusted x - 27)"
  by (simp add: dec_round_def Let_def)

lemma scaled_bounds:
  assumes "0 < x"
  shows "10 ^ 27 \<le> x / pow10 (adjusted x - 27)" and "x / pow10 (adjusted x - 27) < 10 ^ 28"
proof -
  let ?u = "pow10 (adjusted x - 27)"
  have "10 ^ 27 * ?u = pow10 (adjusted x)"
    using pow10_add [of 27 "adjusted x - 27"] pow10_nat [of 27] by simp
  then show "10 ^ 27 \<le> x / ?u"
    using adjusted_bounds(1) [OF assms] by (simp add: pos_le_divide_eq)
  have "10 ^ 28 * ?u = pow10 (adjusted x + 1)"
    using pow10_add [of 28 "adjusted x - 27"] pow10_nat [of 28] by (simp add: algebra_simps)
  then show "x / ?u < 10 ^ 28"
    using adjusted_bounds(2) [OF assms] by (simp add: pos_divide_less_eq)
qed

lemma coefficient_bounds:
  assumes "0 < x"
  shows "10 ^ 27 \<le> round_half_even (x / pow10 (adjusted x - 27))"
    and "round_half_even (x / pow10 (adjusted x - 27)) \<le> 10 ^ 28"
proof -
  let ?z = "x / pow10 (adjusted x - 27)"
  have "round_half_even (of_int (10 ^ 27)) \<le> round_half_even ?z"
    using scaled_bounds(1) [OF assms] by (intro round_half_even_mono) simp
  then show "10 ^ 27 \<le> round_half_even ?z" by (simp only: round_half_even_of_int)
  have "round_half_even ?z \<le> round_half_even (of_int (10 ^ 28))"
    using scaled_bounds(2) [OF assms] by (intro round_half_even_mono) simp
  then show "round_half_even ?z \<le> 10 ^ 28" by (simp only: round_half_even_of_int)
qed

lemma dec_round_range:
  assumes "0 < x"
  shows "pow10 (adjusted x) \<le> dec_round x" and "dec_round x \<le> pow10 (adjusted x + 1)"
proof -
  let ?u = "pow10 (adjusted x - 27)" and ?m = "round_half_even (x / pow10 (adjusted x - 27))"
  have eq: "dec_round x = of_int ?m * ?u" using assms by (rule dec_round_pos_eq)
  have lo: "(10 :: rat) ^ 27 \<le> of_int ?m"
    using coefficient_bounds(1) [OF assms] by (metis of_int_le_iff of_int_numeral of_int_power)
  have hi: "of_int ?m \<le> (10 :: rat) ^ 28"
    using coefficient_bounds(2) [OF assms] by (metis of_int_le_iff of_int_numeral of_int_power)
  have "10 ^ 27 * ?u = pow10 (adjusted x)"
    using pow10_add [of 27 "adjusted x - 27"] pow10_nat [of 27] by simp
  then show "pow10 (adjusted x) \<le> dec_round x"
    using mult_right_mono [OF lo, of ?u] eq by simp
  have "10 ^ 28 * ?u = pow10 (adjusted x + 1)"
    using pow10_add [of 28 "adjusted x - 27"] pow10_nat [of 28] by (simp add: algebra_simps)
  then show "dec_round x \<le> pow10 (adjusted x + 1)"
    using mult_right_mono [OF hi, of ?u] eq by simp
qed

lemma dec_round_pos: "0 < x \<Longrightarrow> 0 < dec_round x"
  using dec_round_range(1) [of x] pow10_pos [of "adjusted x"] by linarith

lemma dec_round_mono_pos:
  assumes "0 < x" "x \<le> y"
  shows "dec_round x \<le> dec_round y"
proof (cases "adjusted x = adjusted y")
  case True
  have y: "0 < y" using assms by linarith
  have "round_half_even (x / pow10 (adjusted x - 27)) \<le> round_half_even (y / pow10 (adjusted x - 27))"
    using assms(2) by (intro round_half_even_mono divide_right_mono) (simp_all add: less_imp_le)
  then show ?thesis
    using dec_round_pos_eq [OF assms(1)] dec_round_pos_eq [OF y] True by (simp add: mult_right_mono less_imp_le)
next
  case False
  then have "adjusted x + 1 \<le> adjusted y" using adjusted_mono [OF assms] by linarith
  then have "pow10 (adjusted x + 1) \<le> pow10 (adjusted y)" by (rule pow10_mono)
  moreover have "0 < y" using assms by linarith
  ultimately show ?thesis
    using dec_round_range(2) [OF assms(1)] dec_round_range(1) [of y] by linarith
qed

lemma dec_round_mono: "x \<le> y \<Longrightarrow> dec_round x \<le> dec_round y"
proof -
  assume xy: "x \<le> y"
  consider "0 < x" | "y < 0" | "x \<le> 0" "0 \<le> y" by linarith
  then show ?thesis
  proof cases
    case 1
    with xy show ?thesis by (intro dec_round_mono_pos)
  next
    case 2
    then have "dec_round (- y) \<le> dec_round (- x)" using xy by (intro dec_round_mono_pos) simp_all
    then show ?thesis by simp
  next
    case 3
    have "dec_round x \<le> 0"
    proof (cases "x = 0")
      case False
      with 3 have "0 < dec_round (- x)" by (intro dec_round_pos) simp
      then show ?thesis by simp
    qed simp
    moreover have "0 \<le> dec_round y" using 3 dec_round_pos [of y] by (cases "y = 0") auto
    ultimately show ?thesis by linarith
  qed
qed

text \<open>A number with a coefficient of at most 28 digits is returned unchanged.\<close>

lemma dec_round_integral_ratio:
  assumes "0 < x" "x = of_int n * pow10 (adjusted x - 27)"
  shows "dec_round x = x"
proof -
  have "x / pow10 (adjusted x - 27) = of_int n"
    by (subst assms(2)) simp
  then show ?thesis using dec_round_pos_eq [OF assms(1)] assms(2) by simp
qed

lemma dec_round_exact_small:
  assumes "0 < m" "m < 10 ^ 28"
  shows "dec_round (of_int m * pow10 e) = of_int m * pow10 e"
proof (rule dec_round_integral_ratio)
  let ?x = "of_int m * pow10 e"
  show x: "0 < ?x" using assms by simp
  have "(of_int m :: rat) < 10 ^ 28"
    using assms(2) by (metis of_int_less_iff of_int_numeral of_int_power)
  then have "?x < 10 ^ 28 * pow10 e" by simp
  also have "\<dots> = pow10 (28 + e)" using pow10_add [of 28 e] pow10_nat [of 28] by simp
  finally have "pow10 (adjusted ?x) < pow10 (28 + e)"
    using adjusted_bounds(1) [OF x] by linarith
  then have le: "adjusted ?x - 27 \<le> e" by simp
  define a where "a = adjusted ?x - 27"
  from le obtain j where j: "e = a + int j" unfolding a_def by (rule zle_iff_zadd [THEN iffD1, THEN exE])
  then have "pow10 e = 10 ^ j * pow10 a" by (simp add: pow10_add)
  then have "?x = of_int (m * 10 ^ j) * pow10 a" by simp
  moreover have "j = nat (e - a)" using j by simp
  ultimately show "?x = of_int (m * 10 ^ nat (e - (adjusted ?x - 27))) * pow10 (adjusted ?x - 27)"
    unfolding a_def by (simp only:)
qed

lemma dec_round_exact:
  assumes "\<bar>m\<bar> \<le> 10 ^ 28"
  shows "dec_round (of_int m * pow10 e) = of_int m * pow10 e"
proof -
  have pos: "dec_round (of_int n * pow10 e) = of_int n * pow10 e" if "0 < n" "n \<le> 10 ^ 28" for n :: int
  proof (cases "n = 10 ^ 28")
    case True
    then have "(of_int n :: rat) * pow10 e = of_int (10 ^ 27) * pow10 (e + 1)"
      by (simp add: pow10_Suc_int)
    then show ?thesis using dec_round_exact_small [of "10 ^ 27" "e + 1"] by simp
  next
    case False
    with that show ?thesis by (intro dec_round_exact_small) auto
  qed
  consider "m = 0" | "0 < m" | "m < 0" by linarith
  then show ?thesis
  proof cases
    case 1
    then show ?thesis by simp
  next
    case 2
    with assms show ?thesis by (intro pos) auto
  next
    case 3
    then have "dec_round (of_int (- m) * pow10 e) = of_int (- m) * pow10 e"
      using assms by (intro pos) auto
    then show ?thesis by simp
  qed
qed

lemma dec_round_idem [simp]: "dec_round (dec_round x) = dec_round x"
proof -
  have pos: "dec_round (dec_round y) = dec_round y" if y: "0 < y" for y
  proof -
    let ?m = "round_half_even (y / pow10 (adjusted y - 27))"
    have "\<bar>?m\<bar> \<le> 10 ^ 28" using coefficient_bounds [OF y] by simp
    then show ?thesis using dec_round_exact [of ?m "adjusted y - 27"] dec_round_pos_eq [OF y] by simp
  qed
  consider "x = 0" | "0 < x" | "0 < - x" by linarith
  then show ?thesis
  proof cases
    case 3
    from pos [OF 3] show ?thesis by simp
  qed (simp_all add: pos)
qed

text \<open>The relative error of one operation is at most half a unit in the 28th digit.\<close>

lemma dec_round_error: "\<bar>dec_round x - x\<bar> \<le> \<bar>x\<bar> / (2 * 10 ^ 27)"
proof -
  have pos: "\<bar>dec_round y - y\<bar> \<le> y / (2 * 10 ^ 27)" if y: "0 < y" for y
  proof -
    let ?u = "pow10 (adjusted y - 27)"
    have "\<bar>of_int (round_half_even (y / ?u)) - y / ?u\<bar> \<le> 1 / 2"
      using round_half_even_bounds [of "y / ?u"] by linarith
    then have "\<bar>of_int (round_half_even (y / ?u)) - y / ?u\<bar> * ?u \<le> 1 / 2 * ?u"
      by (intro mult_right_mono) (simp_all add: less_imp_le)
    moreover have "\<bar>of_int (round_half_even (y / ?u)) - y / ?u\<bar> * ?u = \<bar>dec_round y - y\<bar>"
    proof -
      have "\<bar>of_int (round_half_even (y / ?u)) - y / ?u\<bar> * ?u
          = \<bar>(of_int (round_half_even (y / ?u)) - y / ?u) * ?u\<bar>"
        by (simp add: abs_mult)
      then show ?thesis using dec_round_pos_eq [OF y] by (simp add: left_diff_distrib)
    qed
    moreover have "?u \<le> y / 10 ^ 27"
      using scaled_bounds(1) [OF y] by (simp add: pos_le_divide_eq mult.commute)
    ultimately show ?thesis by simp
  qed
  consider "x = 0" | "0 < x" | "0 < - x" by linarith
  then show ?thesis
  proof cases
    case 3
    have "\<bar>dec_round (- x) - - x\<bar> = \<bar>dec_round x - x\<bar>" by simp
    with pos [OF 3] 3 show ?thesis by simp
  qed (use pos in simp_all)
qed

text \<open>
  Evaluation works on numerator and denominator. A number with at most 27 decimals and 28
  digits is returned as it is; otherwise the coefficient is an integer division.
\<close>

definition half_even_div :: "int \<Rightarrow> int \<Rightarrow> int" where
  "half_even_div n d =
     (let f = n div d; r = n mod d
      in if 2 * r < d then f else if d < 2 * r then f + 1 else if even f then f else f + 1)"

definition short_decimal :: "nat \<Rightarrow> int \<Rightarrow> int \<Rightarrow> bool" where
  "short_decimal k p q \<longleftrightarrow> 10 ^ k mod q = 0 \<and> \<bar>p\<bar> * (10 ^ k div q) \<le> 10 ^ 28"

definition adjusted_pair :: "int \<Rightarrow> int \<Rightarrow> int" where
  "adjusted_pair p q =
     (let d = int (ndigits p) - int (ndigits q)
      in if (if 0 \<le> d then 10 ^ nat d * q \<le> p else q \<le> p * 10 ^ nat (- d)) then d else d - 1)"

fun dec_round_pair :: "int \<times> int \<Rightarrow> int \<times> int" where
  "dec_round_pair (p, q) =
     (if p = 0 then (0, 1)
      else if short_decimal 12 p q then (p, q)
      else if short_decimal 27 p q then (p, q)
      else let shift = 27 - adjusted_pair \<bar>p\<bar> q
           in if 0 \<le> shift
              then Rat.normalize (sgn p * half_even_div (\<bar>p\<bar> * 10 ^ nat shift) q, 10 ^ nat shift)
              else Rat.normalize (sgn p * (half_even_div \<bar>p\<bar> (q * 10 ^ nat (- shift)) * 10 ^ nat (- shift)), 1))"

lemma quotient_of_divide: "0 < b \<Longrightarrow> quotient_of (of_int a / of_int b) = Rat.normalize (a, b)"
  by (simp add: quotient_of_Fract [symmetric] Fract_of_int_quotient)

lemma round_half_even_div: "0 < d \<Longrightarrow> round_half_even (of_int n / of_int d) = half_even_div n d"
proof -
  assume d: "0 < d"
  have "(of_int n :: rat) = of_int (n div d * d + n mod d)" by (simp only: div_mult_mod_eq)
  then have "(of_int n :: rat) = of_int (n div d) * of_int d + of_int (n mod d)" by (simp only: of_int_add of_int_mult)
  then have "(of_int n / of_int d :: rat) = (of_int (n div d) * of_int d + of_int (n mod d)) / of_int d" by (simp only:)
  then have "of_int n / of_int d - of_int (n div d) = (of_int (n mod d) / of_int d :: rat)"
    using d by (simp add: add_divide_distrib)
  then have r: "of_int n / of_int d - of_int \<lfloor>of_int n / of_int d :: rat\<rfloor> = (of_int (n mod d) / of_int d :: rat)"
    by (simp add: floor_divide_of_int_eq)
  have c: "(of_int (n mod d) / of_int d < (1 / 2 :: rat)) = (2 * (n mod d) < d)"
    "((1 / 2 :: rat) < of_int (n mod d) / of_int d) = (d < 2 * (n mod d))"
  proof -
    have "(of_int (n mod d) / of_int d < (1 / 2 :: rat)) = ((of_int (2 * (n mod d)) :: rat) < of_int d)"
      using d by (simp add: field_simps)
    then show "(of_int (n mod d) / of_int d < (1 / 2 :: rat)) = (2 * (n mod d) < d)" by (simp only: of_int_less_iff)
    have "((1 / 2 :: rat) < of_int (n mod d) / of_int d) = ((of_int d :: rat) < of_int (2 * (n mod d)))"
      using d by (simp add: field_simps)
    then show "((1 / 2 :: rat) < of_int (n mod d) / of_int d) = (d < 2 * (n mod d))" by (simp only: of_int_less_iff)
  qed
  show ?thesis unfolding round_half_even_def half_even_div_def Let_def r c by (simp add: floor_divide_of_int_eq)
qed

lemma short_decimal_exact:
  assumes "0 < q" "short_decimal k p q"
  shows "dec_round (of_int p / of_int q) = of_int p / of_int q"
proof -
  define c where "c = (10 ^ k :: int) div q"
  have "q * c = 10 ^ k" using assms(2) by (auto simp: c_def short_decimal_def)
  then have qc: "(of_int q :: rat) * of_int c = 10 ^ k" by (metis of_int_mult of_int_numeral of_int_power)
  then have "(of_int c :: rat) \<noteq> 0" by auto
  then have "(of_int p / of_int q :: rat) = of_int p * of_int c / (of_int q * of_int c)"
    by (rule mult_divide_mult_cancel_right [symmetric])
  also have "\<dots> = of_int (p * c) * pow10 (- int k)"
    unfolding qc by (cases "k = 0") (simp_all add: pow10_def)
  finally have eq: "(of_int p / of_int q :: rat) = of_int (p * c) * pow10 (- int k)" .
  have "\<bar>p * c\<bar> \<le> 10 ^ 28"
    using assms by (simp add: c_def short_decimal_def abs_mult pos_imp_zdiv_nonneg_iff)
  then show ?thesis using dec_round_exact [of "p * c" "- int k"] eq by simp
qed

lemma adjusted_pair_eq:
  assumes "quotient_of x = (p, q)" "p \<noteq> 0"
  shows "adjusted \<bar>x\<bar> = adjusted_pair \<bar>p\<bar> q"
proof -
  have q: "0 < q" using assms(1) by (rule quotient_of_denom_pos)
  have x: "\<bar>x\<bar> = of_int \<bar>p\<bar> / of_int q" using quotient_of_div [OF assms(1)] q by simp
  have co: "coprime \<bar>p\<bar> q" using quotient_of_coprime [OF assms(1)] by simp
  have pq: "quotient_of \<bar>x\<bar> = (\<bar>p\<bar>, q)"
  proof -
    have "gcd \<bar>p\<bar> q = 1" using co by (simp only: coprime_iff_gcd_eq_1)
    then show ?thesis unfolding x quotient_of_divide [OF q] using q by (simp add: Rat.normalize_def Let_def)
  qed
  let ?d = "int (ndigits \<bar>p\<bar>) - int (ndigits q)"
  have "(pow10 ?d \<le> \<bar>x\<bar>) = (if 0 \<le> ?d then 10 ^ nat ?d * q \<le> \<bar>p\<bar> else q \<le> \<bar>p\<bar> * 10 ^ nat (- ?d))"
  proof (cases "0 \<le> ?d")
    case True
    have "(pow10 ?d \<le> \<bar>x\<bar>) = ((of_int (10 ^ nat ?d * q) :: rat) \<le> of_int \<bar>p\<bar>)"
      using True q by (simp add: x pow10_def pos_le_divide_eq)
    then show ?thesis using True by (simp only: of_int_le_iff) simp
  next
    case False
    have "(pow10 ?d \<le> \<bar>x\<bar>) = ((of_int q :: rat) \<le> of_int (\<bar>p\<bar> * 10 ^ nat (- ?d)))"
      using False q by (simp add: x pow10_def field_simps)
    then show ?thesis using False by (simp only: of_int_le_iff) simp
  qed
  then show ?thesis by (simp add: adjusted_def adjusted_pair_def pq Let_def)
qed

lemma dec_round_pair_quotient: "quotient_of (dec_round x) = dec_round_pair (quotient_of x)"
proof -
  obtain p q where pq: "quotient_of x = (p, q)" by (cases "quotient_of x")
  have q: "0 < q" and x: "x = of_int p / of_int q"
    using pq by (rule quotient_of_denom_pos, rule quotient_of_div)
  let ?s = "27 - adjusted_pair \<bar>p\<bar> q"
  have ax: "\<bar>x\<bar> = of_int \<bar>p\<bar> / of_int q" and sg: "sgn x = of_int (sgn p)"
    using q x by (simp_all add: sgn_if zero_less_divide_iff)
  consider "p = 0" | "p \<noteq> 0" "short_decimal 12 p q \<or> short_decimal 27 p q"
    | "p \<noteq> 0" "\<not> short_decimal 12 p q" "\<not> short_decimal 27 p q" by blast
  then show ?thesis
  proof cases
    case 1
    then show ?thesis using x by (simp add: pq)
  next
    case 2
    then have "dec_round x = x" using short_decimal_exact [OF q] x by auto
    with 2 pq show ?thesis by auto
  next
    case 3
    have eq: "dec_round x = of_int (sgn p) * (of_int (round_half_even (\<bar>x\<bar> / pow10 (- ?s))) * pow10 (- ?s))"
      using 3(1) q x sg adjusted_pair_eq [OF pq 3(1)] by (simp add: dec_round_def Let_def)
    show ?thesis
    proof (cases "0 \<le> ?s")
      case True
      have u: "pow10 (- ?s) = 1 / of_int (10 ^ nat ?s)" using True by (cases "?s = 0") (simp_all add: pow10_def)
      have "\<bar>x\<bar> / pow10 (- ?s) = of_int (\<bar>p\<bar> * 10 ^ nat ?s) / of_int q" unfolding u ax by simp
      then have "round_half_even (\<bar>x\<bar> / pow10 (- ?s)) = half_even_div (\<bar>p\<bar> * 10 ^ nat ?s) q"
        by (simp only: round_half_even_div [OF q])
      then have "dec_round x = of_int (sgn p * half_even_div (\<bar>p\<bar> * 10 ^ nat ?s) q) / of_int (10 ^ nat ?s)"
        unfolding eq u by simp
      moreover have "(0 :: int) < 10 ^ nat ?s" by simp
      ultimately have "quotient_of (dec_round x)
          = Rat.normalize (sgn p * half_even_div (\<bar>p\<bar> * 10 ^ nat ?s) q, 10 ^ nat ?s)"
        by (simp only: quotient_of_divide)
      then show ?thesis using 3 True pq by (simp add: Let_def)
    next
      case False
      have u: "pow10 (- ?s) = of_int (10 ^ nat (- ?s))" using False by (simp add: pow10_def)
      have d: "0 < q * 10 ^ nat (- ?s)" using q by simp
      have "\<bar>x\<bar> / pow10 (- ?s) = of_int \<bar>p\<bar> / of_int (q * 10 ^ nat (- ?s))" unfolding u ax by simp
      then have "round_half_even (\<bar>x\<bar> / pow10 (- ?s)) = half_even_div \<bar>p\<bar> (q * 10 ^ nat (- ?s))"
        by (simp only: round_half_even_div [OF d])
      then have "dec_round x = of_int (sgn p * (half_even_div \<bar>p\<bar> (q * 10 ^ nat (- ?s)) * 10 ^ nat (- ?s))) / of_int 1"
        unfolding eq u by simp
      then have "quotient_of (dec_round x)
          = Rat.normalize (sgn p * (half_even_div \<bar>p\<bar> (q * 10 ^ nat (- ?s)) * 10 ^ nat (- ?s)), 1)"
        by (simp only: quotient_of_divide zero_less_one)
      then show ?thesis using 3 False pq by (simp add: Let_def)
    qed
  qed
qed

text \<open>A rounded value is computed once: \<open>rat_pair p q\<close> is a normal form of the evaluation.\<close>

definition rat_pair :: "int \<Rightarrow> int \<Rightarrow> rat" where "rat_pair p q = of_int p / of_int q"

lemma rat_pair_code [code abstract]: "quotient_of (rat_pair p q) = Rat.normalize (p, q)"
  by (simp add: rat_pair_def quotient_of_Fract [symmetric] Fract_of_int_quotient)

lemma dec_round_code [code]: "dec_round x = (case dec_round_pair (quotient_of x) of (p, q) \<Rightarrow> rat_pair p q)"
  using dec_round_pair_quotient [of x] by (simp add: rat_pair_def split: prod.split) (metis quotient_of_div)

section \<open>The interface: what a decimal context promises\<close>

locale decimal_context =
  fixes rnd :: "rat \<Rightarrow> rat"
  assumes rnd_mono: "x \<le> y \<Longrightarrow> rnd x \<le> rnd y"
    and rnd_pos: "0 < x \<Longrightarrow> 0 < rnd x"
    and rnd_minus: "rnd (- x) = - rnd x"
    and rnd_idem: "rnd (rnd x) = rnd x"
begin

lemma rnd_zero: "rnd 0 = 0"
  using rnd_minus [of 0] by simp

lemma rnd_nonneg: "0 \<le> x \<Longrightarrow> 0 \<le> rnd x"
  using rnd_mono [of 0 x] by (simp add: rnd_zero)

lemma rnd_neg: "x < 0 \<Longrightarrow> rnd x < 0"
  using rnd_pos [of "- x"] by (simp add: rnd_minus)

lemma rnd_pos_iff: "0 < rnd x \<longleftrightarrow> 0 < x"
  using rnd_pos rnd_mono [of x 0] by (metis linorder_not_le rnd_zero)

lemma rnd_neg_iff: "rnd x < 0 \<longleftrightarrow> x < 0"
  using rnd_neg rnd_nonneg by (meson linorder_not_le)

lemma rnd_nonpos_iff: "rnd x \<le> 0 \<longleftrightarrow> x \<le> 0"
  using rnd_pos_iff by (meson linorder_not_le)

lemma rnd_zero_iff: "rnd x = 0 \<longleftrightarrow> x = 0"
  by (metis linorder_neqE_linordered_idom rnd_neg rnd_pos rnd_zero order_less_irrefl)

lemma rnd_strict: "rnd x < rnd y \<Longrightarrow> x < y"
  using rnd_mono by (meson linorder_not_le)

text \<open>Bounds by a representable number survive rounding, in both directions.\<close>

lemma rnd_le: "rnd b = b \<Longrightarrow> x \<le> b \<Longrightarrow> rnd x \<le> b"
  using rnd_mono [of x b] by simp

lemma rnd_ge: "rnd b = b \<Longrightarrow> b \<le> x \<Longrightarrow> b \<le> rnd x"
  using rnd_mono [of b x] by simp

end

interpretation dec: decimal_context dec_round
  by unfold_locales (use dec_round_mono dec_round_pos in simp_all)

lemmas dec_defs = dec_add_def dec_sub_def dec_mul_def dec_div_def

lemma dec_mul_pos: "0 < a \<Longrightarrow> 0 < b \<Longrightarrow> 0 < dec_mul a b"
  by (simp add: dec_mul_def dec.rnd_pos)

lemma dec_div_pos: "0 < a \<Longrightarrow> 0 < b \<Longrightarrow> 0 < dec_div a b"
  by (simp add: dec_div_def dec.rnd_pos)

lemma dec_mul_nonneg: "0 \<le> a \<Longrightarrow> 0 \<le> b \<Longrightarrow> 0 \<le> dec_mul a b"
  by (simp add: dec_mul_def dec.rnd_nonneg)

lemma dec_add_pos: "0 < a \<Longrightarrow> 0 \<le> b \<Longrightarrow> 0 < dec_add a b"
  by (simp add: dec_add_def dec.rnd_pos)

lemma dec_mul_zero [simp]: "dec_mul 0 b = 0" "dec_mul a 0 = 0"
  by (simp_all add: dec_mul_def)

lemma dec_sub_nonneg_iff: "0 \<le> dec_sub a b \<longleftrightarrow> b \<le> a"
  using dec.rnd_neg_iff [of "a - b"] by (auto simp: dec_sub_def linorder_not_less [symmetric])

lemma dec_round_of_int: "\<bar>n\<bar> \<le> 10 ^ 28 \<Longrightarrow> dec_round (of_int n) = of_int n"
  using dec_round_exact [of n 0] by (simp add: pow10_def)

end
