(* ===== verification/Domain_Model.thy ===== *)
theory Domain_Model
  imports Dec28
begin

text \<open>
  The domain layer (\<open>src/fatty_trader/domain\<close>): the enums, the frozen pydantic models with
  their field constraints and validators, and the dispatch state machine. Field constraints
  are checked in declaration order and raise \<open>ValidationError\<close> naming the field; a model
  validator runs only when every field is valid.
\<close>

section \<open>Enums\<close>

datatype Exchange = BINANCE | BITGET

datatype Direction = LONG | SHORT

datatype MarginMode = ISOLATED | CROSSED

datatype DispatchState =
    QUEUED | PREFLIGHT | SIZED | VALIDATED | SUBMITTING | ACKNOWLEDGED | PENDING_FILL
  | PARTIALLY_FILLED | FILLED | PROTECTING | ACTIVE | CLOSING | CLOSED | EXPIRED | REJECTED
  | RETRY_WAIT | UNKNOWN | MANUAL_REVIEW | FAILED

definition all_dispatch_states :: "DispatchState list" where
  "all_dispatch_states =
     [QUEUED, PREFLIGHT, SIZED, VALIDATED, SUBMITTING, ACKNOWLEDGED, PENDING_FILL,
      PARTIALLY_FILLED, FILLED, PROTECTING, ACTIVE, CLOSING, CLOSED, EXPIRED, REJECTED,
      RETRY_WAIT, UNKNOWN, MANUAL_REVIEW, FAILED]"

lemma all_dispatch_states_complete: "s \<in> set all_dispatch_states"
  by (cases s) (simp_all add: all_dispatch_states_def)

section \<open>Models\<close>

definition MAX_VENUE_LEVERAGE_CEILING :: int where
  "MAX_VENUE_LEVERAGE_CEILING = 150"

record CanonicalSignal =
  cs_source_message_id :: int
  cs_source_revision :: string
  cs_pair_token :: string
  cs_direction :: Direction
  cs_entry_price :: dec
  cs_stop_loss :: dec
  cs_take_profits :: "dec list"

definition pair_token_char :: "char \<Rightarrow> bool" where
  "pair_token_char c \<longleftrightarrow>
     (let n = (of_char c :: nat) in (65 \<le> n \<and> n \<le> 90) \<or> (48 \<le> n \<and> n \<le> 57))"

definition signal_fields :: "CanonicalSignal \<Rightarrow> (Exn, unit) raises" where
  "signal_fields s =
     bindE (ensure (0 < cs_source_message_id s) (ValidationError ''source_message_id'' ''greater_than''))
     (\<lambda>_. bindE (ensure (length (cs_source_revision s) = 64) (ValidationError ''source_revision'' ''length''))
     (\<lambda>_. bindE (ensure (1 \<le> length (cs_pair_token s) \<and> length (cs_pair_token s) \<le> 20
                 \<and> list_all pair_token_char (cs_pair_token s))
               (ValidationError ''pair_token'' ''pattern''))
     (\<lambda>_. bindE (ensure (0 < cs_entry_price s) (ValidationError ''entry_price'' ''greater_than''))
     (\<lambda>_. bindE (ensure (0 < cs_stop_loss s) (ValidationError ''stop_loss'' ''greater_than''))
     (\<lambda>_. ensure (length (cs_take_profits s) \<le> 5) (ValidationError ''take_profits'' ''too_long''))))))"

definition validate_geometry :: "CanonicalSignal \<Rightarrow> (Exn, CanonicalSignal) raises" where
  "validate_geometry s =
     (if cs_direction s = LONG \<and> cs_stop_loss s \<ge> cs_entry_price s
      then Inl (ValueError ''long stop loss must be below entry'')
      else if cs_direction s = SHORT \<and> cs_stop_loss s \<le> cs_entry_price s
      then Inl (ValueError ''short stop loss must be above entry'')
      else if list_ex (\<lambda>t. t \<le> 0) (cs_take_profits s)
      then Inl (ValueError ''take profits must be positive'')
      else if cs_direction s = LONG \<and> list_ex (\<lambda>t. t \<le> cs_entry_price s) (cs_take_profits s)
      then Inl (ValueError ''long take profit must be above entry'')
      else if cs_direction s = SHORT \<and> list_ex (\<lambda>t. t \<ge> cs_entry_price s) (cs_take_profits s)
      then Inl (ValueError ''short take profit must be below entry'')
      else Inr s)"

definition make_signal :: "CanonicalSignal \<Rightarrow> (Exn, CanonicalSignal) raises" where
  "make_signal s = bindE (signal_fields s) (\<lambda>_. validate_geometry s)"

record InstrumentSpec =
  is_exchange :: Exchange
  is_symbol :: string
  is_qty_step :: dec
  is_min_qty :: dec
  is_min_notional :: dec
  is_max_leverage :: int
  is_contract_multiplier :: dec

definition valid_instrument :: "InstrumentSpec \<Rightarrow> bool" where
  "valid_instrument i \<longleftrightarrow>
     3 \<le> length (is_symbol i) \<and> length (is_symbol i) \<le> 32 \<and> 0 < is_qty_step i \<and> 0 < is_min_qty i
     \<and> 0 \<le> is_min_notional i \<and> 1 \<le> is_max_leverage i
     \<and> is_max_leverage i \<le> MAX_VENUE_LEVERAGE_CEILING \<and> 0 < is_contract_multiplier i"

record VenueRiskConfig =
  vr_exchange :: Exchange
  vr_base_margin_usdt :: dec
  vr_default_leverage :: int
  vr_max_leverage :: int
  vr_max_auto_margin_usdt :: dec
  vr_free_margin_usdt :: dec
  vr_free_margin_headroom_pct :: dec
  vr_max_position_notional_usdt :: dec
  vr_margin_mode :: MarginMode

definition valid_venue_risk :: "VenueRiskConfig \<Rightarrow> bool" where
  "valid_venue_risk c \<longleftrightarrow>
     0 < vr_base_margin_usdt c \<and> 1 \<le> vr_default_leverage c
     \<and> vr_default_leverage c \<le> MAX_VENUE_LEVERAGE_CEILING \<and> 1 \<le> vr_max_leverage c
     \<and> vr_max_leverage c \<le> MAX_VENUE_LEVERAGE_CEILING \<and> 0 < vr_max_auto_margin_usdt c
     \<and> 0 \<le> vr_free_margin_usdt c \<and> 0 < vr_free_margin_headroom_pct c
     \<and> vr_free_margin_headroom_pct c \<le> 1 \<and> 0 < vr_max_position_notional_usdt c"

record SizingPlan =
  sp_effective_leverage :: int
  sp_effective_margin_usdt :: dec
  sp_notional_usdt :: dec
  sp_quantity :: dec
  sp_required_min_notional_usdt :: dec

record BitgetLiveRiskConfig =
  rc_min_leverage :: int
  rc_max_leverage :: int
  rc_allocation_pct :: dec
  rc_max_normal_positions :: int
  rc_liquidation_buffer :: dec
  rc_minimum_liquidation_gap_pct :: dec
  rc_minimum_liquidation_ticks :: int
  rc_latency_slippage_allowance :: dec
  rc_max_margin_per_trade_usdt :: "dec option"

definition default_live_risk :: BitgetLiveRiskConfig where
  "default_live_risk =
     \<lparr>rc_min_leverage = 20, rc_max_leverage = 20, rc_allocation_pct = 20 / 100,
      rc_max_normal_positions = 5, rc_liquidation_buffer = 10 / 100,
      rc_minimum_liquidation_gap_pct = 0, rc_minimum_liquidation_ticks = 0,
      rc_latency_slippage_allowance = 0, rc_max_margin_per_trade_usdt = None\<rparr>"

definition live_risk_fields :: "BitgetLiveRiskConfig \<Rightarrow> bool" where
  "live_risk_fields r \<longleftrightarrow>
     5 \<le> rc_min_leverage r \<and> rc_min_leverage r \<le> 20 \<and> rc_max_leverage r = 20
     \<and> 0 < rc_allocation_pct r \<and> rc_allocation_pct r \<le> 1 \<and> 0 < rc_max_normal_positions r
     \<and> 0 < rc_liquidation_buffer r \<and> rc_liquidation_buffer r \<le> 1
     \<and> 0 \<le> rc_minimum_liquidation_gap_pct r \<and> rc_minimum_liquidation_gap_pct r \<le> 1
     \<and> 0 \<le> rc_minimum_liquidation_ticks r \<and> 0 \<le> rc_latency_slippage_allowance r
     \<and> (case rc_max_margin_per_trade_usdt r of None \<Rightarrow> True | Some c \<Rightarrow> 0 < c)"

definition validate_leverage_range :: "BitgetLiveRiskConfig \<Rightarrow> (Exn, BitgetLiveRiskConfig) raises" where
  "validate_leverage_range r =
     (if rc_min_leverage r > rc_max_leverage r
      then Inl (ValueError ''min_leverage must not exceed max_leverage'')
      else if rc_max_leverage r \<noteq> 20
      then Inl (ValueError ''Bitget LIVE leverage ceiling is fixed at 20x'')
      else if rc_min_leverage r < 5
      then Inl (ValueError ''Bitget LIVE leverage floor must be at least 5x'')
      else Inr r)"

section \<open>The dispatch state machine\<close>

fun allowed :: "DispatchState \<Rightarrow> DispatchState list" where
  "allowed QUEUED = [PREFLIGHT, EXPIRED, REJECTED]"
| "allowed PREFLIGHT = [SIZED, REJECTED, RETRY_WAIT]"
| "allowed SIZED = [VALIDATED, REJECTED]"
| "allowed VALIDATED = [SUBMITTING, REJECTED]"
| "allowed SUBMITTING = [ACKNOWLEDGED, UNKNOWN, FAILED]"
| "allowed ACKNOWLEDGED = [PENDING_FILL, PARTIALLY_FILLED, FILLED]"
| "allowed PENDING_FILL = [PARTIALLY_FILLED, FILLED, CLOSING]"
| "allowed PARTIALLY_FILLED = [PROTECTING, CLOSING]"
| "allowed FILLED = [PROTECTING, CLOSING]"
| "allowed PROTECTING = [ACTIVE, MANUAL_REVIEW, FAILED]"
| "allowed ACTIVE = [CLOSING, MANUAL_REVIEW]"
| "allowed CLOSING = [CLOSED, UNKNOWN, FAILED]"
| "allowed RETRY_WAIT = [PREFLIGHT, FAILED]"
| "allowed EXPIRED = [QUEUED]"
| "allowed UNKNOWN = [ACKNOWLEDGED, RETRY_WAIT, MANUAL_REVIEW]"
| "allowed CLOSED = []"
| "allowed REJECTED = []"
| "allowed MANUAL_REVIEW = []"
| "allowed FAILED = []"

definition transition_dispatch :: "DispatchState \<Rightarrow> DispatchState \<Rightarrow> (Exn, DispatchState) raises" where
  "transition_dispatch current target =
     (if target \<notin> set (allowed current) then Inl (TransitionError ''cannot transition dispatch'')
      else Inr target)"

text \<open>A run of the dispatch: the states visited, each reached by \<open>transition_dispatch\<close>.\<close>

inductive dispatch_run :: "DispatchState \<Rightarrow> DispatchState list \<Rightarrow> DispatchState \<Rightarrow> bool" where
  run_refl: "dispatch_run s [] s"
| run_step: "transition_dispatch s t = Inr t \<Longrightarrow> dispatch_run t path u \<Longrightarrow> dispatch_run s (t # path) u"

inductive_cases run_NilE: "dispatch_run s [] u"
inductive_cases run_ConsE: "dispatch_run s (t # path) u"
inductive_simps run_Cons_iff: "dispatch_run s (t # path) u"

text \<open>States of a dispatch that has not yet crossed the order submission, and the rest.\<close>

definition pre_submission :: "DispatchState set" where
  "pre_submission = {QUEUED, PREFLIGHT, SIZED, VALIDATED, RETRY_WAIT, EXPIRED}"

definition position_states :: "DispatchState set" where
  "position_states = {PENDING_FILL, PARTIALLY_FILLED, FILLED, PROTECTING, ACTIVE, CLOSING, CLOSED}"

section \<open>Lemmas\<close>

lemma validate_geometry_Inr_iff:
  "validate_geometry s = Inr s' \<longleftrightarrow> s' = s \<and>
     (case cs_direction s of
        LONG \<Rightarrow> cs_stop_loss s < cs_entry_price s
          \<and> (\<forall>t \<in> set (cs_take_profits s). 0 < t \<and> cs_entry_price s < t)
      | SHORT \<Rightarrow> cs_entry_price s < cs_stop_loss s
          \<and> (\<forall>t \<in> set (cs_take_profits s). 0 < t \<and> t < cs_entry_price s))"
  by (cases "cs_direction s")
     (auto simp: validate_geometry_def list_ex_iff not_le not_less)

lemma live_risk_fields_validate: "live_risk_fields r \<Longrightarrow> validate_leverage_range r = Inr r"
  by (auto simp: live_risk_fields_def validate_leverage_range_def)

lemma transition_dispatch_Inr_iff [run_simps]:
  "transition_dispatch s t = Inr u \<longleftrightarrow> u = t \<and> t \<in> set (allowed s)"
  by (auto simp: transition_dispatch_def)

lemma dispatch_run_append:
  "dispatch_run s p t \<Longrightarrow> dispatch_run t q u \<Longrightarrow> dispatch_run s (p @ q) u"
  by (induction rule: dispatch_run.induct) (auto intro: dispatch_run.intros)

lemma dispatch_run_split:
  "dispatch_run s (p @ q) u \<Longrightarrow> \<exists>t. dispatch_run s p t \<and> dispatch_run t q u"
proof (induction p arbitrary: s)
  case Nil
  then show ?case by (auto intro: run_refl)
next
  case (Cons x p)
  then have step: "transition_dispatch s x = Inr x" and rest: "dispatch_run x (p @ q) u"
    by (simp_all add: run_Cons_iff)
  from Cons.IH [OF rest] obtain t where "dispatch_run x p t" "dispatch_run t q u" by blast
  with step show ?case by (blast intro: run_step)
qed

lemma allowed_SUBMITTING_only: "SUBMITTING \<in> set (allowed s) \<Longrightarrow> s = VALIDATED"
  by (cases s) auto

lemma allowed_from_post:
  "s \<notin> pre_submission \<Longrightarrow> t \<in> set (allowed s) \<Longrightarrow> t \<in> pre_submission \<Longrightarrow> s = UNKNOWN \<and> t = RETRY_WAIT"
  by (cases s) (auto simp: pre_submission_def)

lemma post_submission_run:
  "dispatch_run s path u \<Longrightarrow> s \<notin> pre_submission \<Longrightarrow> RETRY_WAIT \<notin> set path \<Longrightarrow>
   u \<notin> pre_submission \<and> set path \<inter> pre_submission = {} \<and> SUBMITTING \<notin> set path"
proof (induction rule: dispatch_run.induct)
  case (run_refl s)
  then show ?case by simp
next
  case (run_step s t path u)
  then have t: "t \<in> set (allowed s)" by (simp add: run_simps)
  have "t \<notin> pre_submission" using allowed_from_post [OF run_step.prems(1) t] run_step.prems(2) by auto
  moreover have "t \<noteq> SUBMITTING"
    using allowed_SUBMITTING_only [of s] t run_step.prems(1) by (auto simp: pre_submission_def)
  ultimately show ?case using run_step by auto
qed

lemma position_entry:
  "t \<in> position_states \<Longrightarrow> s \<notin> position_states \<Longrightarrow> t \<in> set (allowed s) \<Longrightarrow> s = ACKNOWLEDGED"
  by (cases s) (auto simp: position_states_def)

lemma dispatch_run_last: "dispatch_run s path u \<Longrightarrow> u = last (s # path)"
  by (induction rule: dispatch_run.induct) auto

lemma unsubmitted_run:
  "dispatch_run s path u \<Longrightarrow> s \<in> pre_submission \<union> {REJECTED, FAILED} \<Longrightarrow> SUBMITTING \<notin> set path \<Longrightarrow>
   u \<in> pre_submission \<union> {REJECTED, FAILED}"
proof (induction rule: dispatch_run.induct)
  case (run_refl s)
  then show ?case by simp
next
  case (run_step s t path u)
  have "t \<in> set (allowed s)" using run_step.hyps(1) by (simp add: run_simps)
  then have "t \<in> pre_submission \<union> {REJECTED, FAILED}"
    using run_step.prems by (cases s) (auto simp: pre_submission_def)
  then show ?case using run_step by auto
qed

lemma position_run_acknowledged:
  "dispatch_run s path u \<Longrightarrow> s \<notin> position_states \<Longrightarrow> u \<in> position_states \<Longrightarrow>
   ACKNOWLEDGED \<in> set (s # path)"
proof (induction rule: dispatch_run.induct)
  case (run_refl s)
  then show ?case by simp
next
  case (run_step s t path u)
  show ?case
  proof (cases "t \<in> position_states")
    case True
    then show ?thesis using position_entry [of t s] run_step by (auto simp: run_simps)
  next
    case False
    then show ?thesis using run_step by auto
  qed
qed

lemma dispatch_run_stepI: "t \<in> set (allowed s) \<Longrightarrow> dispatch_run t path u \<Longrightarrow> dispatch_run s (t # path) u"
  by (rule run_step) (simp_all add: run_simps)

section \<open>Properties of the dispatch state machine\<close>

text \<open>
  An order is submitted twice within one dispatch only after its outcome was recorded as
  UNKNOWN and then explicitly moved to RETRY_WAIT: between two visits of SUBMITTING every run
  contains the step from UNKNOWN to RETRY_WAIT.
\<close>

theorem resubmission_needs_unknown_retry:
  assumes "dispatch_run QUEUED (p @ SUBMITTING # q @ SUBMITTING # r) u"
  shows "\<exists>a b. q = a @ UNKNOWN # RETRY_WAIT # b"
proof -
  from assms have "dispatch_run SUBMITTING (q @ SUBMITTING # r) u"
    by (auto simp: run_Cons_iff dest!: dispatch_run_split)
  then obtain t where q: "dispatch_run SUBMITTING q t" and t: "dispatch_run t (SUBMITTING # r) u"
    by (blast dest: dispatch_run_split)
  from t have "t = VALIDATED" by (auto simp: run_simps run_Cons_iff dest: allowed_SUBMITTING_only)
  then have "RETRY_WAIT \<in> set q"
    using post_submission_run [OF q] by (auto simp: pre_submission_def)
  then obtain a b where ab: "q = a @ RETRY_WAIT # b" "RETRY_WAIT \<notin> set a"
    by (auto dest: split_list_first)
  from q ab(1) obtain v where a: "dispatch_run SUBMITTING a v" and "dispatch_run v (RETRY_WAIT # b) t"
    by (blast dest: dispatch_run_split)
  then have v: "RETRY_WAIT \<in> set (allowed v)" by (auto simp: run_simps run_Cons_iff)
  have "v \<notin> pre_submission" using post_submission_run [OF a] ab(2) by (simp add: pre_submission_def)
  with v have "v = UNKNOWN" by (cases v) (auto simp: pre_submission_def)
  with dispatch_run_last [OF a] obtain a' where "a = a' @ [UNKNOWN]"
    by (cases a rule: rev_cases) auto
  with ab(1) show ?thesis by auto
qed

theorem resubmission_needs_unknown_retry_witness:
  "\<exists>a b. [UNKNOWN, RETRY_WAIT, PREFLIGHT, SIZED, VALIDATED] = a @ UNKNOWN # RETRY_WAIT # b"
proof (rule resubmission_needs_unknown_retry [of "[PREFLIGHT, SIZED, VALIDATED]" _ "[ACKNOWLEDGED]" ACKNOWLEDGED])
  show "dispatch_run QUEUED ([PREFLIGHT, SIZED, VALIDATED] @ SUBMITTING #
      [UNKNOWN, RETRY_WAIT, PREFLIGHT, SIZED, VALIDATED] @ SUBMITTING # [ACKNOWLEDGED]) ACKNOWLEDGED"
    by (auto simp: run_simps run_Cons_iff intro: run_refl)
qed

text \<open>
  No dispatch is recorded as holding a position (pending fill up to closed) unless, since
  it was queued, an order submission happened and was acknowledged afterwards.
\<close>

theorem position_needs_acknowledged_submission:
  assumes run: "dispatch_run QUEUED path u" and u: "u \<in> position_states"
  shows "\<exists>p q. path = p @ SUBMITTING # q \<and> ACKNOWLEDGED \<in> set q"
proof -
  have "SUBMITTING \<in> set path"
    using unsubmitted_run [OF run] u by (auto simp: pre_submission_def position_states_def)
  then obtain p q where pq: "path = p @ SUBMITTING # q" by (auto dest: split_list)
  then have "dispatch_run SUBMITTING q u" using run by (auto simp: run_Cons_iff dest!: dispatch_run_split)
  then have "ACKNOWLEDGED \<in> set q"
    using position_run_acknowledged [of SUBMITTING q u] u by (auto simp: position_states_def)
  with pq show ?thesis by blast
qed

theorem position_needs_acknowledged_submission_witness:
  "\<exists>p q. [PREFLIGHT, SIZED, VALIDATED, SUBMITTING, UNKNOWN, ACKNOWLEDGED, FILLED] = p @ SUBMITTING # q
     \<and> ACKNOWLEDGED \<in> set q"
proof (rule position_needs_acknowledged_submission [of _ FILLED])
  show "dispatch_run QUEUED [PREFLIGHT, SIZED, VALIDATED, SUBMITTING, UNKNOWN, ACKNOWLEDGED, FILLED] FILLED"
    by (auto simp: run_simps run_Cons_iff intro: run_refl)
  show "FILLED \<in> position_states" by (simp add: position_states_def)
qed

text \<open>
  C40: the state machine has no trap: from every state some run ends in a terminal state, and the
  terminal states are exactly CLOSED, REJECTED, MANUAL_REVIEW and FAILED.
\<close>

theorem every_dispatch_can_terminate:
  "(\<exists>path u. dispatch_run s path u \<and> u \<in> {CLOSED, REJECTED, MANUAL_REVIEW, FAILED})
   \<and> (allowed s = [] \<longleftrightarrow> s \<in> {CLOSED, REJECTED, MANUAL_REVIEW, FAILED})"
proof
  let ?T = "{CLOSED, REJECTED, MANUAL_REVIEW, FAILED}"
  have direct: "\<exists>path u. dispatch_run s path u \<and> u \<in> ?T" if "t \<in> set (allowed s)" "t \<in> ?T" for s t
    using dispatch_run_stepI [OF that(1) run_refl] that(2) by blast
  have via: "\<exists>path u. dispatch_run s path u \<and> u \<in> ?T"
    if "t \<in> set (allowed s)" "v \<in> set (allowed t)" "v \<in> ?T" for s t v
    using dispatch_run_stepI [OF that(1) dispatch_run_stepI [OF that(2) run_refl]] that(3) by blast
  have ack: "dispatch_run ACKNOWLEDGED [FILLED, CLOSING, CLOSED] CLOSED"
    by (auto simp: run_simps run_Cons_iff intro: run_refl)
  show "\<exists>path u. dispatch_run s path u \<and> u \<in> ?T"
  proof (cases s)
    case ACKNOWLEDGED with ack show ?thesis by blast
  next
    case PENDING_FILL then show ?thesis by (intro via [of CLOSING _ CLOSED]) simp_all
  next
    case PARTIALLY_FILLED then show ?thesis by (intro via [of CLOSING _ CLOSED]) simp_all
  next
    case FILLED then show ?thesis by (intro via [of CLOSING _ CLOSED]) simp_all
  next
    case EXPIRED then show ?thesis by (intro via [of QUEUED _ REJECTED]) simp_all
  next
    case CLOSED then show ?thesis using run_refl by blast
  next
    case REJECTED then show ?thesis using run_refl by blast
  next
    case MANUAL_REVIEW then show ?thesis using run_refl by blast
  next
    case FAILED then show ?thesis using run_refl by blast
  qed ((rule direct [of REJECTED]; simp; fail) | (rule direct [of FAILED]; simp; fail)
     | (rule direct [of CLOSED]; simp; fail) | (rule direct [of MANUAL_REVIEW]; simp; fail))+
  show "allowed s = [] \<longleftrightarrow> s \<in> ?T" by (cases s) auto
qed

end
