(* ===== verification/Liquidation.thy ===== *)
theory Liquidation
  imports Domain_Model
begin

text \<open>
  \<open>risk/liquidation.py\<close>: the isolated-margin liquidation estimate and the guard that a stop
  loss fires before it. \<open>select_mmr\<close> walks the maintenance-margin tiers,
  \<open>estimate_liquidation_price\<close> gives the price, \<open>check_sl_before_liquidation\<close> decides.
\<close>

record MMTier =
  mm_upper_bound_notional :: "dec option"
  mm_mmr :: dec

definition valid_tier :: "MMTier \<Rightarrow> bool" where
  "valid_tier t \<longleftrightarrow>
     (case mm_upper_bound_notional t of None \<Rightarrow> True | Some b \<Rightarrow> 0 \<le> b) \<and> 0 \<le> mm_mmr t \<and> mm_mmr t \<le> 1"

definition tier_applies :: "dec \<Rightarrow> MMTier \<Rightarrow> bool" where
  "tier_applies notional t =
     (case mm_upper_bound_notional t of None \<Rightarrow> True | Some b \<Rightarrow> notional \<le> b)"

definition select_mmr :: "dec \<Rightarrow> MMTier list \<Rightarrow> (Exn, dec) raises" where
  "select_mmr notional mm_tiers =
     (if mm_tiers = [] then Inl (LiquidationGuardError ''maintenance-margin tiers are required'')
      else case List.find (tier_applies notional) mm_tiers of
             Some t \<Rightarrow> Inr (mm_mmr t)
           | None \<Rightarrow> Inr (mm_mmr (last mm_tiers)))"

definition liquidation_formula :: "Direction \<Rightarrow> dec \<Rightarrow> dec \<Rightarrow> dec \<Rightarrow> dec \<Rightarrow> dec" where
  "liquidation_formula side entry margin_ratio mmr fee =
     (case side of
        LONG \<Rightarrow> dec_mul entry (dec_add (dec_add (dec_sub 1 margin_ratio) mmr) fee)
      | SHORT \<Rightarrow> dec_mul entry (dec_sub (dec_sub (dec_add 1 margin_ratio) mmr) fee))"

definition estimate_liquidation_price ::
  "Direction \<Rightarrow> dec \<Rightarrow> dec \<Rightarrow> int \<Rightarrow> dec \<Rightarrow> MMTier list \<Rightarrow> dec \<Rightarrow> dec \<Rightarrow> (Exn, dec) raises" where
  "estimate_liquidation_price side entry quantity leverage margin_usdt mm_tiers taker_fee_rate contract_multiplier =
     (if entry \<le> 0 \<or> quantity \<le> 0 \<or> leverage \<le> 0 \<or> margin_usdt \<le> 0
      then Inl (LiquidationGuardError ''entry/quantity/leverage/margin must be positive'')
      else if contract_multiplier \<le> 0
      then Inl (LiquidationGuardError ''contract multiplier must be positive'')
      else if taker_fee_rate < 0
      then Inl (LiquidationGuardError ''taker fee rate must be non-negative'')
      else let notional = dec_mul (dec_mul entry quantity) contract_multiplier in
           if notional \<le> 0 then Inl (LiquidationGuardError ''notional must be positive'')
           else bindE (select_mmr notional mm_tiers) (\<lambda>mmr.
             let margin_ratio = dec_div margin_usdt notional;
                 liq = liquidation_formula side entry margin_ratio mmr taker_fee_rate
             in if liq \<le> 0 then Inl (LiquidationGuardError ''estimated liquidation price is non-positive'')
                else Inr liq))"

record GapFloors =
  gf_buffer :: dec
  gf_minimum_gap_pct :: dec
  gf_minimum_ticks :: int
  gf_price_tick :: "dec option"
  gf_latency_slippage_allowance :: dec

definition required_gap :: "dec \<Rightarrow> dec \<Rightarrow> GapFloors \<Rightarrow> dec" where
  "required_gap spread entry g =
     max (max (max (dec_mul spread (gf_buffer g)) (dec_mul entry (gf_minimum_gap_pct g)))
              (dec_mul (case gf_price_tick g of None \<Rightarrow> 0 | Some t \<Rightarrow> t) (of_int (gf_minimum_ticks g))))
         (gf_latency_slippage_allowance g)"

definition check_sl_before_liquidation ::
  "Direction \<Rightarrow> dec \<Rightarrow> dec \<Rightarrow> dec \<Rightarrow> GapFloors \<Rightarrow> (Exn, bool) raises" where
  "check_sl_before_liquidation side entry stop_loss liquidation_price g =
     (if entry \<le> 0 \<or> stop_loss \<le> 0 \<or> liquidation_price \<le> 0 then Inr False
      else if gf_buffer g < 0 \<or> gf_minimum_gap_pct g < 0 \<or> gf_latency_slippage_allowance g < 0
      then Inl (LiquidationGuardError ''liquidation gap floors must be non-negative'')
      else if gf_minimum_ticks g < 0
      then Inl (LiquidationGuardError ''minimum liquidation ticks must be non-negative'')
      else if gf_minimum_ticks g \<noteq> 0 \<and> (case gf_price_tick g of None \<Rightarrow> True | Some t \<Rightarrow> t \<le> 0)
      then Inl (LiquidationGuardError ''price_tick must be positive when minimum_ticks is set'')
      else if (case gf_price_tick g of None \<Rightarrow> False | Some t \<Rightarrow> t < 0)
      then Inl (LiquidationGuardError ''price_tick must be non-negative'')
      else case side of
             LONG \<Rightarrow>
               if \<not> (liquidation_price < stop_loss \<and> stop_loss < entry) then Inr False
               else Inr (required_gap (dec_sub entry liquidation_price) entry g
                           \<le> dec_sub stop_loss liquidation_price)
           | SHORT \<Rightarrow>
               if \<not> (entry < stop_loss \<and> stop_loss < liquidation_price) then Inr False
               else Inr (required_gap (dec_sub liquidation_price entry) entry g
                           \<le> dec_sub liquidation_price stop_loss))"

section \<open>Lemmas\<close>

text \<open>The floors pydantic and the guard itself establish before any price is compared.\<close>

definition floors_ok :: "GapFloors \<Rightarrow> bool" where
  "floors_ok g \<longleftrightarrow> 0 \<le> gf_buffer g \<and> 0 \<le> gf_minimum_gap_pct g \<and> 0 \<le> gf_latency_slippage_allowance g
     \<and> 0 \<le> gf_minimum_ticks g \<and> (case gf_price_tick g of None \<Rightarrow> gf_minimum_ticks g = 0 | Some t \<Rightarrow> 0 < t)"

lemma select_mmr_total: "mm_tiers \<noteq> [] \<Longrightarrow> \<exists>m. select_mmr notional mm_tiers = Inr m \<and> m \<in> mm_mmr ` set mm_tiers"
proof -
  assume "mm_tiers \<noteq> []"
  then show ?thesis
    by (cases "List.find (tier_applies notional) mm_tiers")
       (auto simp: select_mmr_def dest!: find_Some_props)
qed

lemma estimate_Inr_pos: "estimate_liquidation_price side e q l m ts f c = Inr liq \<Longrightarrow> 0 < liq"
  by (auto simp: estimate_liquidation_price_def Let_def run_simps split: if_splits)

lemma check_sl_True:
  assumes "check_sl_before_liquidation side entry sl liq g = Inr True"
  shows "case side of
      LONG \<Rightarrow> liq < sl \<and> sl < entry \<and> required_gap (dec_sub entry liq) entry g \<le> dec_sub sl liq
    | SHORT \<Rightarrow> entry < sl \<and> sl < liq \<and> required_gap (dec_sub liq entry) entry g \<le> dec_sub liq sl"
  using assms
  by (cases side) (auto simp: check_sl_before_liquidation_def split: if_splits)

lemma check_sl_total: "floors_ok g \<Longrightarrow> \<exists>b. check_sl_before_liquidation side entry sl liq g = Inr b"
  by (cases side; cases "gf_price_tick g")
     (auto simp: check_sl_before_liquidation_def floors_ok_def)

lemma required_gap_ge:
  "dec_mul spread (gf_buffer g) \<le> required_gap spread entry g"
  "dec_mul entry (gf_minimum_gap_pct g) \<le> required_gap spread entry g"
  "gf_latency_slippage_allowance g \<le> required_gap spread entry g"
  by (simp_all add: required_gap_def)

text \<open>
  A larger maintenance margin or fee moves the estimate towards the entry, a larger posted
  margin moves it away: the estimate is monotone in each argument, rounding included.
\<close>

lemma dec_add_mono: "a \<le> a' \<Longrightarrow> b \<le> b' \<Longrightarrow> dec_add a b \<le> dec_add a' b'"
  by (simp add: dec_add_def dec.rnd_mono)

lemma dec_sub_mono: "a \<le> a' \<Longrightarrow> b' \<le> b \<Longrightarrow> dec_sub a b \<le> dec_sub a' b'"
  by (simp add: dec_sub_def dec.rnd_mono)

lemma dec_mul_left_mono: "0 \<le> a \<Longrightarrow> b \<le> b' \<Longrightarrow> dec_mul a b \<le> dec_mul a b'"
  by (simp add: dec_mul_def dec.rnd_mono mult_left_mono)

lemma dec_div_right_mono: "0 < c \<Longrightarrow> a \<le> b \<Longrightarrow> dec_div a c \<le> dec_div b c"
  by (simp add: dec_div_def dec.rnd_mono divide_right_mono)

lemma liquidation_formula_mono:
  assumes "0 \<le> entry" "r' \<le> r" "m \<le> m'" "f \<le> f'"
  shows "liquidation_formula LONG entry r m f \<le> liquidation_formula LONG entry r' m' f'"
    and "liquidation_formula SHORT entry r' m' f' \<le> liquidation_formula SHORT entry r m f"
  unfolding liquidation_formula_def
  using assms by (auto intro!: dec_mul_left_mono dec_add_mono dec_sub_mono)

section \<open>Properties\<close>

text \<open>
  The liquidation estimate reacts to its inputs in the safe direction. With the same entry,
  quantity and tiers, posting less margin or paying a higher fee never moves the estimated
  liquidation price away from the entry: for a LONG it does not fall, for a SHORT it does not rise.
\<close>

theorem estimate_liquidation_monotone:
  assumes less: "estimate_liquidation_price side entry q l m ts f c = Inr liq"
    and more: "estimate_liquidation_price side entry q l m' ts f' c = Inr liq'"
    and args: "m' \<le> m" "f \<le> f'"
  shows "case side of LONG \<Rightarrow> liq \<le> liq' | SHORT \<Rightarrow> liq' \<le> liq"
proof -
  let ?n = "dec_mul (dec_mul entry q) c"
  from less obtain mmr where A: "0 < entry" "0 < ?n" "select_mmr ?n ts = Inr mmr"
      "liq = liquidation_formula side entry (dec_div m ?n) mmr f"
    by (auto simp: estimate_liquidation_price_def Let_def run_simps not_le split: if_splits)
  from more A(3) have B: "liq' = liquidation_formula side entry (dec_div m' ?n) mmr f'"
    by (auto simp: estimate_liquidation_price_def Let_def run_simps split: if_splits)
  have "dec_div m' ?n \<le> dec_div m ?n" using args(1) A(2) by (rule dec_div_right_mono [rotated])
  then show ?thesis
    using liquidation_formula_mono [of entry "dec_div m' ?n" "dec_div m ?n" mmr mmr f f'] A B args(2)
    by (cases side) auto
qed

theorem estimate_liquidation_monotone_witness:
  "(95650 / 1000 :: rat) \<le> 96150 / 1000"
proof -
  let ?ts = "[\<lparr>mm_upper_bound_notional = None, mm_mmr = 5 / 1000\<rparr>]"
  have a: "estimate_liquidation_price LONG 100 2 20 10 ?ts (15 / 10000) 1 = Inr (95650 / 1000)" by code_simp
  have b: "estimate_liquidation_price LONG 100 2 20 9 ?ts (15 / 10000) 1 = Inr (96150 / 1000)" by code_simp
  show ?thesis
    using estimate_liquidation_monotone [OF a b] by simp
qed

text \<open>
  C37: whenever the guard accepts, the stop lies strictly between the entry and the liquidation
  price, and its distance from the liquidation price is at least each configured floor: the
  span-relative buffer, the minimum percentage of the entry, the minimum number of ticks and the
  latency allowance.
\<close>

theorem check_sl_before_liquidation_safe:
  assumes "check_sl_before_liquidation side entry sl liq g = Inr True"
  shows "(case side of LONG \<Rightarrow> liq < sl \<and> sl < entry | SHORT \<Rightarrow> entry < sl \<and> sl < liq)
    \<and> (let gap = (case side of LONG \<Rightarrow> dec_sub sl liq | SHORT \<Rightarrow> dec_sub liq sl);
           spread = (case side of LONG \<Rightarrow> dec_sub entry liq | SHORT \<Rightarrow> dec_sub liq entry)
       in dec_mul spread (gf_buffer g) \<le> gap \<and> dec_mul entry (gf_minimum_gap_pct g) \<le> gap
          \<and> (\<forall>t. gf_price_tick g = Some t \<longrightarrow> dec_mul t (of_int (gf_minimum_ticks g)) \<le> gap)
          \<and> gf_latency_slippage_allowance g \<le> gap)"
  using check_sl_True [OF assms]
  by (cases side) (auto simp: required_gap_def Let_def)

theorem check_sl_before_liquidation_safe_witness:
  "dec_mul (dec_sub 100 (95650 / 1000)) (10 / 100) \<le> dec_sub 97 (95650 / 1000)
   \<and> dec_mul (1 / 10) (of_int 5) \<le> dec_sub 97 (95650 / 1000)"
proof -
  let ?g = "\<lparr>gf_buffer = 10 / 100, gf_minimum_gap_pct = 1 / 1000, gf_minimum_ticks = 5,
      gf_price_tick = Some (1 / 10), gf_latency_slippage_allowance = 1 / 100\<rparr>"
  have "check_sl_before_liquidation LONG 100 97 (95650 / 1000) ?g = Inr True" by code_simp
  from check_sl_before_liquidation_safe [OF this] show ?thesis by (simp add: Let_def)
qed

end
