(* ===== verification/Sizing.thy ===== *)
theory Sizing
  imports Liquidation
begin

text \<open>
  \<open>risk/sizing.py\<close>: the venue-minimum plan of the paper lane, the symbol metadata and its
  cache, price and quantity rounding, and the ATR fallback for missing stops. The cache is the
  dictionary \<open>_entries\<close>; its register/get contract is the locale \<open>metadata_store\<close>.
\<close>

section \<open>The minimum safe plan\<close>

definition ceil_to_step :: "dec \<Rightarrow> dec \<Rightarrow> dec" where
  "ceil_to_step v step = dec_mul (integral_ceiling (dec_div v step)) step"

definition required_min_notional :: "InstrumentSpec \<Rightarrow> dec \<Rightarrow> dec" where
  "required_min_notional spec reference_price =
     dec_mul (max (is_min_notional spec)
                  (dec_mul (dec_mul (is_min_qty spec) reference_price) (is_contract_multiplier spec)))
             (102 / 100)"

definition plan_leverage :: "InstrumentSpec \<Rightarrow> VenueRiskConfig \<Rightarrow> dec \<Rightarrow> int" where
  "plan_leverage spec config required_min =
     (let leverage_cap = min (is_max_leverage spec) (vr_max_leverage config);
          leverage = min (max (vr_default_leverage config) 1) leverage_cap;
          required_leverage = \<lceil>dec_div required_min (vr_base_margin_usdt config)\<rceil>
      in min (max leverage required_leverage) leverage_cap)"

definition plan_margin :: "VenueRiskConfig \<Rightarrow> dec \<Rightarrow> int \<Rightarrow> dec" where
  "plan_margin config required_min leverage =
     (if dec_mul (vr_base_margin_usdt config) (of_int leverage) < required_min
      then dec_div required_min (of_int leverage)
      else vr_base_margin_usdt config)"

definition plan_quantity :: "InstrumentSpec \<Rightarrow> dec \<Rightarrow> dec \<Rightarrow> dec \<Rightarrow> dec" where
  "plan_quantity spec reference_price target_notional required_min =
     (let contract = dec_mul reference_price (is_contract_multiplier spec)
      in max (ceil_to_step (dec_div target_notional contract) (is_qty_step spec))
             (ceil_to_step (dec_div required_min contract) (is_qty_step spec)))"

definition minimum_safe_plan :: "InstrumentSpec \<Rightarrow> VenueRiskConfig \<Rightarrow> dec \<Rightarrow> (Exn, SizingPlan) raises" where
  "minimum_safe_plan spec config reference_price =
     (if reference_price \<le> 0 then Inl (SizingError ''reference price must be positive'')
      else
        let required_min = required_min_notional spec reference_price;
            leverage = plan_leverage spec config required_min;
            margin = plan_margin config required_min leverage
        in if vr_max_auto_margin_usdt config < margin
           then Inl (SizingError ''required margin exceeds auto margin cap'')
           else if dec_mul (vr_free_margin_usdt config) (vr_free_margin_headroom_pct config) < margin
           then Inl (SizingError ''required margin exceeds safe free-margin headroom'')
           else let notional = dec_mul margin (of_int leverage) in
           if vr_max_position_notional_usdt config < notional
           then Inl (SizingError ''required notional exceeds position cap'')
           else
             let quantity = plan_quantity spec reference_price notional required_min;
                 final_notional = dec_mul (dec_mul quantity reference_price) (is_contract_multiplier spec)
             in if vr_max_position_notional_usdt config < final_notional
                then Inl (SizingError ''rounded quantity exceeds position cap'')
                else Inr \<lparr>sp_effective_leverage = leverage, sp_effective_margin_usdt = margin,
                          sp_notional_usdt = final_notional, sp_quantity = quantity,
                          sp_required_min_notional_usdt = required_min\<rparr>)"

section \<open>Symbol metadata and its cache\<close>

record SymbolMetadata =
  sm_symbol :: string
  sm_price_precision :: int
  sm_price_tick :: dec
  sm_size_step :: dec
  sm_min_order_qty :: dec
  sm_max_order_qty :: "dec option"
  sm_max_market_order_qty :: "dec option"
  sm_contract_value :: dec
  sm_max_leverage :: int
  sm_min_notional :: dec
  sm_mm_tiers :: "MMTier list"

definition positive_option :: "dec option \<Rightarrow> bool" where
  "positive_option v = (case v of None \<Rightarrow> True | Some x \<Rightarrow> 0 < x)"

definition valid_metadata :: "SymbolMetadata \<Rightarrow> bool" where
  "valid_metadata m \<longleftrightarrow>
     3 \<le> length (sm_symbol m) \<and> length (sm_symbol m) \<le> 32
     \<and> 0 \<le> sm_price_precision m \<and> sm_price_precision m \<le> 12 \<and> 0 < sm_price_tick m
     \<and> 0 < sm_size_step m \<and> 0 < sm_min_order_qty m \<and> positive_option (sm_max_order_qty m)
     \<and> positive_option (sm_max_market_order_qty m) \<and> 0 < sm_contract_value m
     \<and> 1 \<le> sm_max_leverage m \<and> sm_max_leverage m \<le> MAX_VENUE_LEVERAGE_CEILING
     \<and> 0 \<le> sm_min_notional m \<and> list_all valid_tier (sm_mm_tiers m)"

text \<open>The dictionary \<open>_entries\<close> in insertion order; replacing a key keeps its position.\<close>

type_synonym MetadataCache = "(string \<times> SymbolMetadata) list"

definition cache_empty :: MetadataCache where
  "cache_empty = []"

fun cache_put :: "string \<Rightarrow> SymbolMetadata \<Rightarrow> MetadataCache \<Rightarrow> MetadataCache" where
  "cache_put k m [] = [(k, m)]"
| "cache_put k m ((k', m') # c) = (if k = k' then (k, m) # c else (k', m') # cache_put k m c)"

definition cache_register :: "SymbolMetadata \<Rightarrow> MetadataCache \<Rightarrow> MetadataCache" where
  "cache_register m c = cache_put (sm_symbol m) m c"

definition cache_get :: "MetadataCache \<Rightarrow> string \<Rightarrow> (Exn, SymbolMetadata) raises" where
  "cache_get c symbol =
     (case map_of c symbol of
        Some m \<Rightarrow> Inr m
      | None \<Rightarrow> Inl (KeyError (''unknown symbol metadata: '' @ symbol)))"

definition cache_len :: "MetadataCache \<Rightarrow> nat" where
  "cache_len c = length c"

section \<open>Rounding\<close>

definition round_price_to_tick :: "dec \<Rightarrow> dec \<Rightarrow> (Exn, dec) raises" where
  "round_price_to_tick price tick =
     (if price \<le> 0 \<or> tick \<le> 0 then Inl (SizingError ''price and tick must be positive'')
      else let rounded = dec_mul (integral_half_up (dec_div price tick)) tick
           in if rounded \<le> 0 then Inl (SizingError ''tick-rounded price is non-positive'')
              else Inr rounded)"

definition round_qty_to_step :: "dec \<Rightarrow> dec \<Rightarrow> (Exn, dec) raises" where
  "round_qty_to_step quantity step =
     (if quantity \<le> 0 \<or> step \<le> 0 then Inl (SizingError ''quantity and step must be positive'')
      else Inr (dec_mul (integral_down (dec_div quantity step)) step))"

definition derive_sl_tp :: "dec \<Rightarrow> Direction \<Rightarrow> dec \<Rightarrow> (Exn, dec \<times> dec) raises" where
  "derive_sl_tp entry direction atr =
     (if entry \<le> 0 then Inl (SizingError ''entry must be positive'')
      else if atr \<le> 0 then Inl (SizingError ''atr must be positive'')
      else case direction of
             LONG \<Rightarrow> Inr (dec_sub entry (dec_mul (15 / 10) atr), dec_add entry (dec_mul 2 atr))
           | SHORT \<Rightarrow> Inr (dec_add entry (dec_mul (15 / 10) atr), dec_sub entry (dec_mul 2 atr)))"

section \<open>The metadata store interface\<close>

locale metadata_store =
  fixes empty :: 'c
    and register :: "'v \<Rightarrow> 'c \<Rightarrow> 'c"
    and get :: "'c \<Rightarrow> 'k \<Rightarrow> ('e, 'v) raises"
    and len :: "'c \<Rightarrow> nat"
    and key :: "'v \<Rightarrow> 'k"
    and invar :: "'c \<Rightarrow> bool"
  assumes get_empty: "\<exists>e. get empty k = Inl e"
    and get_register: "invar c \<Longrightarrow> get (register v c) k = (if k = key v then Inr v else get c k)"
    and len_register: "invar c \<Longrightarrow>
          len (register v c) = (case get c (key v) of Inr _ \<Rightarrow> len c | Inl _ \<Rightarrow> Suc (len c))"
    and invar_empty: "invar empty"
    and invar_register: "invar c \<Longrightarrow> invar (register v c)"
begin

lemma invar_fold: "invar c \<Longrightarrow> invar (fold register vs c)"
  by (induction vs arbitrary: c) (simp_all add: invar_register)

text \<open>After any sequence of registrations a lookup returns the latest one for the key.\<close>

lemma get_fold:
  "invar c \<Longrightarrow> get (fold register vs c) k =
     (case List.find (\<lambda>v. key v = k) (rev vs) of Some v \<Rightarrow> Inr v | None \<Rightarrow> get c k)"
proof (induction vs rule: rev_induct)
  case Nil
  then show ?case by simp
next
  case (snoc v vs)
  then show ?case by (simp add: get_register invar_fold)
qed

lemma register_twice: "invar c \<Longrightarrow> get (register v (register w c)) (key v) = Inr v"
  by (simp add: get_register invar_register)

end

definition cache_invar :: "MetadataCache \<Rightarrow> bool" where
  "cache_invar c \<longleftrightarrow> distinct (map fst c)"

lemma map_of_cache_put: "map_of (cache_put k m c) = (map_of c)(k \<mapsto> m)"
  by (induction k m c rule: cache_put.induct) auto

lemma keys_cache_put: "set (map fst (cache_put k m c)) = insert k (set (map fst c))"
  by (induction k m c rule: cache_put.induct) auto

lemma distinct_cache_put: "distinct (map fst c) \<Longrightarrow> distinct (map fst (cache_put k m c))"
  by (induction k m c rule: cache_put.induct) (auto simp: keys_cache_put [simplified])

lemma length_cache_put: "length (cache_put k m c) = (if k \<in> set (map fst c) then length c else Suc (length c))"
  by (induction k m c rule: cache_put.induct) auto

interpretation meta_cache: metadata_store cache_empty cache_register cache_get cache_len sm_symbol cache_invar
proof unfold_locales
  fix c :: MetadataCache and v k
  show "\<exists>e. cache_get cache_empty k = Inl e" by (simp add: cache_get_def cache_empty_def)
  show "cache_get (cache_register v c) k = (if k = sm_symbol v then Inr v else cache_get c k)"
    by (simp add: cache_get_def cache_register_def map_of_cache_put)
  show "cache_len (cache_register v c) =
      (case cache_get c (sm_symbol v) of Inr _ \<Rightarrow> cache_len c | Inl _ \<Rightarrow> Suc (cache_len c))"
    by (simp add: cache_get_def cache_register_def cache_len_def length_cache_put split: option.split)
       (auto simp: map_of_eq_None_iff intro: rev_image_eqI dest!: map_of_SomeD)
  show "cache_invar cache_empty" by (simp add: cache_invar_def cache_empty_def)
  show "cache_invar c \<Longrightarrow> cache_invar (cache_register v c)"
    by (simp add: cache_invar_def cache_register_def distinct_cache_put)
qed

section \<open>Lemmas\<close>

lemma integral_ceiling_ge: "x \<le> integral_ceiling x"
  by (simp add: integral_ceiling_def)

lemma integral_down_le: "0 \<le> x \<Longrightarrow> integral_down x \<le> x"
  by (simp add: integral_down_def)

lemma integral_down_nonneg: "0 \<le> x \<Longrightarrow> 0 \<le> integral_down x"
  by (simp add: integral_down_def)

lemma integral_down_mono: "0 \<le> x \<Longrightarrow> x \<le> y \<Longrightarrow> integral_down x \<le> integral_down y"
  by (simp add: integral_down_def floor_mono)

lemma round_qty_Inr: "round_qty_to_step q s = Inr r \<Longrightarrow> 0 < q \<and> 0 < s \<and> 0 \<le> r"
  by (auto simp: round_qty_to_step_def not_le dec_div_pos less_imp_le
        intro!: dec_mul_nonneg integral_down_nonneg split: if_splits)

lemma round_qty_total: "0 < q \<Longrightarrow> 0 < s \<Longrightarrow> \<exists>r. round_qty_to_step q s = Inr r \<and> 0 \<le> r"
  by (auto simp: round_qty_to_step_def dec_div_pos less_imp_le intro!: dec_mul_nonneg integral_down_nonneg)

text \<open>
  Prices and quantities are whole numbers of a common unit \<open>pow10 e\<close>. While the numerator has
  at most 27 digits, the rounded quotient of two such numbers never reaches the next integer
  or half-integer, so rounding to a step is exact.
\<close>

lemma zdiv_mult_le: "0 < b \<Longrightarrow> a div b * b \<le> a" for a b :: int
  by (simp add: minus_mod_eq_div_mult [symmetric])

lemma zdiv_mult_gt: "0 < b \<Longrightarrow> a < a div b * b + b" for a b :: int
  using pos_mod_bound [of b a] by (simp add: minus_mod_eq_div_mult [symmetric])

lemma zdiv_le_self: "0 < a \<Longrightarrow> 0 < b \<Longrightarrow> 0 \<le> a div b \<and> a div b \<le> a" for a b :: int
proof -
  assume a: "0 < a" and b: "0 < b"
  then have nn: "0 \<le> a div b" by (simp add: pos_imp_zdiv_nonneg_iff)
  then have "a div b * 1 \<le> a div b * b" using b by (intro mult_left_mono) auto
  with nn zdiv_mult_le [OF b, of a] show ?thesis by linarith
qed

lemma dec_div_units: "dec_div (of_int a * pow10 e) (of_int b * pow10 e) = dec_round (of_int a / of_int b)"
  by (simp add: dec_div_def)

lemma units_error:
  assumes "0 < a" "a < 10 ^ 27" "0 < b"
  shows "dec_round (of_int a / of_int b) < of_int a / of_int b + 1 / (2 * of_int b)"
proof -
  let ?x = "of_int a / of_int b :: rat"
  have "\<bar>dec_round ?x - ?x\<bar> \<le> ?x / (2 * 10 ^ 27)"
    using dec_round_error [of ?x] assms by simp
  also have "\<dots> = (of_int a / 10 ^ 27) * (1 / (2 * of_int b))" by simp
  also have "\<dots> < 1 * (1 / (2 * of_int b))"
  proof (rule mult_strict_right_mono)
    have "(of_int a :: rat) < of_int (10 ^ 27)" using assms(2) by (simp only: of_int_less_iff)
    then show "of_int a / 10 ^ 27 < (1 :: rat)" by simp
    show "0 < 1 / (2 * of_int b :: rat)" using assms(3) by simp
  qed
  finally show ?thesis by linarith
qed

lemma floor_dec_div_units:
  assumes "0 < a" "a < 10 ^ 27" "0 < b"
  shows "\<lfloor>dec_round (of_int a / of_int b)\<rfloor> = a div b"
proof (rule floor_unique)
  let ?x = "of_int a / of_int b :: rat" and ?n = "a div b"
  have n: "0 \<le> ?n" "?n \<le> a" using zdiv_le_self [OF assms(1,3)] by auto
  have low: "of_int ?n \<le> ?x" using assms(3) floor_divide_of_int_eq [of a b] of_int_floor_le by metis
  have rep: "dec_round (of_int ?n) = of_int ?n" using n assms(2) by (intro dec_round_of_int) simp
  show "of_int ?n \<le> dec_round ?x" using rep low by (rule dec.rnd_ge)
  have "a \<le> ?n * b + (b - 1)" using zdiv_mult_gt [OF assms(3), of a] by linarith
  then have "(of_int a :: rat) \<le> of_int (?n * b + (b - 1))" by (simp only: of_int_le_iff)
  then have "?x \<le> of_int ?n + 1 - 1 / of_int b" using assms(3) by (simp add: field_simps)
  moreover have "1 / (2 * of_int b) < (1 :: rat) / of_int b" using assms(3) by (simp add: field_simps)
  ultimately show "dec_round ?x < of_int ?n + 1" using units_error [OF assms] by linarith
qed

lemma round_qty_units:
  assumes "0 < a" "a < 10 ^ 27" "0 < b"
  shows "round_qty_to_step (of_int a * pow10 e) (of_int b * pow10 e) = Inr (of_int (a div b * b) * pow10 e)"
proof -
  have "0 \<le> dec_round (of_int a / of_int b)" using assms by (intro dec.rnd_nonneg) simp
  then have down: "integral_down (dec_div (of_int a * pow10 e) (of_int b * pow10 e)) = of_int (a div b)"
    by (simp add: dec_div_units integral_down_def floor_dec_div_units [OF assms])
  have "0 \<le> a div b * b" "a div b * b \<le> a"
    using assms zdiv_mult_le [of b a] by (simp_all add: pos_imp_zdiv_nonneg_iff)
  then have "dec_round (of_int (a div b * b) * pow10 e) = of_int (a div b * b) * pow10 e"
    using assms(2) by (intro dec_round_exact) simp
  then show ?thesis using assms by (simp add: round_qty_to_step_def down dec_mul_def mult.assoc not_le)
qed

lemma floor_half_up_units:
  assumes "0 < a" "a < 10 ^ 27" "0 < b"
  shows "\<lfloor>dec_round (of_int a / of_int b) + 1 / 2\<rfloor> = (2 * a + b) div (2 * b)"
proof (rule floor_unique)
  let ?x = "of_int a / of_int b :: rat" and ?n = "(2 * a + b) div (2 * b)"
  have n0: "0 \<le> ?n" using assms by (simp add: pos_imp_zdiv_nonneg_iff)
  have le: "?n * (2 * b) \<le> 2 * a + b" using assms(3) by (intro zdiv_mult_le) simp
  have na: "?n \<le> a"
  proof -
    have "a * 1 \<le> a * b" using assms by (intro mult_left_mono) auto
    then have "(2 * ?n) * b \<le> (2 * a + 1) * b" using le by (simp add: algebra_simps)
    then have "2 * ?n \<le> 2 * a + 1" using assms(3) by (simp only: mult_le_cancel_right)
    then show ?thesis by linarith
  qed
  have "(of_int (?n * (2 * b)) :: rat) \<le> of_int (2 * a + b)" using le by (simp only: of_int_le_iff)
  then have low: "of_int ?n - 1 / 2 \<le> ?x" using assms(3) by (simp add: field_simps)
  have "of_int ?n - 1 / 2 = (of_int (10 * ?n - 5) * pow10 (- 1) :: rat)" by (simp add: pow10_def)
  moreover have "\<bar>10 * ?n - 5\<bar> \<le> 10 ^ 28" using n0 na assms(2) by simp
  ultimately have rep: "dec_round (of_int ?n - 1 / 2) = of_int ?n - 1 / 2"
    by (metis dec_round_exact)
  have "of_int ?n - 1 / 2 \<le> dec_round ?x" using rep low by (rule dec.rnd_ge)
  then show "of_int ?n \<le> dec_round ?x + 1 / 2" by simp
  have "2 * a + b \<le> ?n * (2 * b) + (2 * b - 1)"
    using zdiv_mult_gt [of "2 * b" "2 * a + b"] assms(3) by linarith
  then have "(of_int (2 * a + b) :: rat) \<le> of_int (?n * (2 * b) + (2 * b - 1))" by (simp only: of_int_le_iff)
  then have "?x \<le> of_int ?n + 1 / 2 - 1 / (2 * of_int b)" using assms(3) by (simp add: field_simps)
  then show "dec_round ?x + 1 / 2 < of_int ?n + 1" using units_error [OF assms] by linarith
qed

lemma round_price_units:
  assumes "0 < a" "a < 10 ^ 27" "0 < b" "b < 10 ^ 27" "b \<le> 2 * a"
  shows "round_price_to_tick (of_int a * pow10 e) (of_int b * pow10 e)
    = Inr (of_int ((2 * a + b) div (2 * b) * b) * pow10 e)"
proof -
  let ?n = "(2 * a + b) div (2 * b)"
  have "0 \<le> dec_round (of_int a / of_int b)" using assms by (intro dec.rnd_nonneg) simp
  then have half: "integral_half_up (dec_div (of_int a * pow10 e) (of_int b * pow10 e)) = of_int ?n"
    by (simp add: dec_div_units integral_half_up_def floor_half_up_units [OF assms(1-3)])
  have "2 * b * 1 \<le> 2 * a + b" using assms by simp
  then have n: "1 \<le> ?n" using assms(3) by (simp add: zdiv_mono1 [of "2 * b" "2 * a + b" "2 * b", simplified])
  have "?n * (2 * b) \<le> 2 * a + b" using assms(3) by (intro zdiv_mult_le) simp
  then have "?n * b \<le> a + b" using assms by (simp add: algebra_simps)
  moreover have pos: "0 < ?n * b" using n assms(3) by simp
  ultimately have exact: "dec_round (of_int (?n * b) * pow10 e) = of_int (?n * b) * pow10 e"
    using assms(2,4) by (intro dec_round_exact) simp
  have "(0 :: rat) < of_int (?n * b)" using pos by (simp only: of_int_0_less_iff)
  then have "0 < of_int (?n * b) * pow10 e" by (rule mult_pos_pos) simp
  then show ?thesis using assms exact by (simp add: round_price_to_tick_def half dec_mul_def mult.assoc not_le)
qed

lemma plan_leverage_bounds:
  assumes "valid_instrument spec" "valid_venue_risk config"
  shows "1 \<le> plan_leverage spec config req" "plan_leverage spec config req \<le> is_max_leverage spec"
    "plan_leverage spec config req \<le> vr_max_leverage config"
  using assms by (auto simp: plan_leverage_def Let_def valid_instrument_def valid_venue_risk_def)

lemma plan_margin_pos:
  "0 < vr_base_margin_usdt config \<Longrightarrow> 0 < req \<Longrightarrow> 1 \<le> lev \<Longrightarrow> 0 < plan_margin config req lev"
  by (simp add: plan_margin_def dec_div_pos)

lemma required_min_pos: "valid_instrument spec \<Longrightarrow> 0 < price \<Longrightarrow> 0 < required_min_notional spec price"
  unfolding required_min_notional_def valid_instrument_def
  by (intro dec_mul_pos) (auto simp: less_max_iff_disj intro!: dec_mul_pos)

section \<open>Properties\<close>

text \<open>
  Flooring an order quantity to the lot step is exact and never over-sizes. For a quantity of
  \<open>a\<close> and a step of \<open>b\<close> common decimal units, \<open>a\<close> below \<open>10 ^ 27\<close>, the result is the largest
  multiple of the step that does not exceed the quantity, although the division itself rounds.
\<close>

theorem round_qty_to_step_floor:
  assumes "0 < a" "a < 10 ^ 27" "0 < b"
    and "q = of_int a * pow10 e" "s = of_int b * pow10 e"
  shows "\<exists>r k. round_qty_to_step q s = Inr r \<and> r = of_int k * s \<and> 0 \<le> k \<and> r \<le> q \<and> q < r + s"
proof -
  let ?k = "a div b"
  have "round_qty_to_step q s = Inr (of_int ?k * s)"
    using round_qty_units [OF assms(1-3), of e] assms(4,5) by (simp add: mult.assoc)
  moreover have "of_int ?k * s \<le> q"
  proof -
    have "of_int (?k * b) * pow10 e \<le> of_int a * pow10 e"
      using zdiv_mult_le [OF assms(3), of a] by (intro mult_right_mono) (simp_all only: of_int_le_iff pow10_nonneg)
    then show ?thesis using assms(4,5) by (simp add: mult.assoc)
  qed
  moreover have "q < of_int ?k * s + s"
  proof -
    have "a < (?k + 1) * b" using zdiv_mult_gt [OF assms(3), of a] by (simp add: algebra_simps)
    then have "(of_int a :: rat) * pow10 e < of_int ((?k + 1) * b) * pow10 e"
      by (intro mult_strict_right_mono) (simp_all only: of_int_less_iff pow10_pos)
    then show ?thesis using assms(4,5) by (simp add: algebra_simps)
  qed
  moreover have "0 \<le> ?k" using assms by (simp add: pos_imp_zdiv_nonneg_iff)
  ultimately show ?thesis by blast
qed

theorem round_qty_to_step_floor_witness:
  "\<exists>r k. round_qty_to_step (1234567 / 1000) (5 / 100) = Inr r \<and> r = of_int k * (5 / 100) \<and> 0 \<le> k
     \<and> r \<le> 1234567 / 1000 \<and> 1234567 / 1000 < r + 5 / 100"
  by (rule round_qty_to_step_floor [of 1234567 50 _ "- 3"]) (simp_all add: pow10_def)

text \<open>
  Rounding a price to the venue tick succeeds and gives a multiple of the tick at most half a
  tick away, for a price of at least half a tick in a common decimal unit of fewer than 28 digits.
\<close>

theorem round_price_to_tick_nearest:
  assumes "0 < a" "a < 10 ^ 27" "0 < b" "b < 10 ^ 27" "b \<le> 2 * a"
    and "p = of_int a * pow10 e" "t = of_int b * pow10 e"
  shows "\<exists>r k. round_price_to_tick p t = Inr r \<and> r = of_int k * t \<and> 0 < k \<and> \<bar>r - p\<bar> \<le> t / 2"
proof -
  let ?k = "(2 * a + b) div (2 * b)"
  have r: "round_price_to_tick p t = Inr (of_int ?k * t)"
    using round_price_units [OF assms(1-5), of e] assms(6,7) by (simp add: mult.assoc)
  then have "0 < of_int ?k * t"
    by (auto simp: round_price_to_tick_def Let_def split: if_splits)
  moreover have "0 < t" using assms(3,7) by simp
  ultimately have "(0 :: rat) < of_int ?k" by (rule zero_less_mult_pos2)
  then have k: "0 < ?k" by (simp only: of_int_0_less_iff)
  have "?k * (2 * b) \<le> 2 * a + b" "2 * a + b < ?k * (2 * b) + 2 * b"
    using zdiv_mult_le [of "2 * b" "2 * a + b"] zdiv_mult_gt [of "2 * b" "2 * a + b"] assms(3) by simp_all
  then have "(of_int (?k * (2 * b)) :: rat) \<le> of_int (2 * a + b)"
    "(of_int (2 * a + b) :: rat) \<le> of_int (?k * (2 * b) + 2 * b)"
    by (simp_all only: of_int_le_iff)
  then have "2 * (of_int ?k * of_int b) \<le> 2 * of_int a + (of_int b :: rat)"
    "2 * of_int a \<le> 2 * (of_int ?k * of_int b) + (of_int b :: rat)"
    by simp_all
  then have "\<bar>of_int ?k * of_int b - of_int a\<bar> \<le> (of_int b :: rat) / 2" by linarith
  then have "\<bar>of_int ?k * of_int b - of_int a\<bar> * pow10 e \<le> of_int b / 2 * pow10 e"
    by (intro mult_right_mono) simp_all
  also have "\<bar>of_int ?k * of_int b - of_int a\<bar> * pow10 e = \<bar>(of_int ?k * of_int b - of_int a) * pow10 e\<bar>"
    by (simp add: abs_mult)
  also have "(of_int ?k * of_int b - of_int a) * pow10 e = of_int ?k * t - p"
    using assms(6,7) by (simp add: left_diff_distrib mult.assoc)
  finally have "\<bar>of_int ?k * t - p\<bar> \<le> t / 2" using assms(7) by simp
  with r k show ?thesis by blast
qed

theorem round_price_to_tick_nearest_witness:
  "\<exists>r k. round_price_to_tick (17314 / 10000) (5 / 1000) = Inr r \<and> r = of_int k * (5 / 1000) \<and> 0 < k
     \<and> \<bar>r - 17314 / 10000\<bar> \<le> 5 / 1000 / 2"
  by (rule round_price_to_tick_nearest [of 17314 50 _ "- 4"]) (simp_all add: pow10_def)

text \<open>
  A minimum safe plan stays inside every rail of the venue configuration: its leverage is at
  most the instrument's and the configured maximum and at least one, its margin is at most the
  automatic margin cap and the usable free margin, and its final notional is at most the position cap.
\<close>

theorem minimum_safe_plan_within_rails:
  assumes "minimum_safe_plan spec config price = Inr plan"
    and "valid_instrument spec" and "valid_venue_risk config"
  shows "1 \<le> sp_effective_leverage plan \<and> sp_effective_leverage plan \<le> is_max_leverage spec
    \<and> sp_effective_leverage plan \<le> vr_max_leverage config
    \<and> 0 < sp_effective_margin_usdt plan
    \<and> sp_effective_margin_usdt plan \<le> vr_max_auto_margin_usdt config
    \<and> sp_effective_margin_usdt plan \<le> dec_mul (vr_free_margin_usdt config) (vr_free_margin_headroom_pct config)
    \<and> sp_notional_usdt plan \<le> vr_max_position_notional_usdt config"
proof -
  let ?req = "required_min_notional spec price"
  let ?lev = "plan_leverage spec config ?req"
  have price: "0 < price" using assms(1) by (auto simp: minimum_safe_plan_def not_le split: if_splits)
  have lev: "1 \<le> ?lev" using assms(2,3) by (rule plan_leverage_bounds)
  have "0 < plan_margin config ?req ?lev"
    using assms(3) required_min_pos [OF assms(2) price] lev by (intro plan_margin_pos) (simp_all add: valid_venue_risk_def)
  moreover have "?lev \<le> is_max_leverage spec" "?lev \<le> vr_max_leverage config"
    using assms(2,3) by (simp_all add: plan_leverage_bounds)
  ultimately show ?thesis
    using assms(1) price lev by (auto simp: minimum_safe_plan_def Let_def not_less split: if_splits)
qed

theorem minimum_safe_plan_within_rails_witness:
  "\<exists>plan. minimum_safe_plan
     \<lparr>is_exchange = BITGET, is_symbol = ''ZROUSDT'', is_qty_step = 1, is_min_qty = 1,
      is_min_notional = 5, is_max_leverage = 50, is_contract_multiplier = 1\<rparr>
     \<lparr>vr_exchange = BITGET, vr_base_margin_usdt = 1, vr_default_leverage = 10, vr_max_leverage = 20,
      vr_max_auto_margin_usdt = 2, vr_free_margin_usdt = 8, vr_free_margin_headroom_pct = 8 / 10,
      vr_max_position_notional_usdt = 50, vr_margin_mode = ISOLATED\<rparr> (17 / 10) = Inr plan
   \<and> sp_effective_leverage plan \<le> 20 \<and> sp_notional_usdt plan \<le> 50"
proof -
  let ?i = "\<lparr>is_exchange = BITGET, is_symbol = ''ZROUSDT'', is_qty_step = 1, is_min_qty = 1,
      is_min_notional = 5, is_max_leverage = 50, is_contract_multiplier = 1\<rparr>"
  let ?c = "\<lparr>vr_exchange = BITGET, vr_base_margin_usdt = 1, vr_default_leverage = 10, vr_max_leverage = 20,
      vr_max_auto_margin_usdt = 2, vr_free_margin_usdt = 8, vr_free_margin_headroom_pct = 8 / 10,
      vr_max_position_notional_usdt = 50, vr_margin_mode = ISOLATED\<rparr>"
  let ?p = "\<lparr>sp_effective_leverage = 10, sp_effective_margin_usdt = 1, sp_notional_usdt = 102 / 10,
      sp_quantity = 6, sp_required_min_notional_usdt = 51 / 10\<rparr>"
  have run: "minimum_safe_plan ?i ?c (17 / 10) = Inr ?p" by code_simp
  have "valid_instrument ?i" "valid_venue_risk ?c" by code_simp+
  from minimum_safe_plan_within_rails [OF run this] run show ?thesis by auto
qed

text \<open>
  The metadata cache behaves as a dictionary keyed by symbol: after any sequence of
  registrations a lookup returns the latest snapshot registered for that symbol, and raises
  \<open>KeyError\<close> for a symbol never registered.
\<close>

theorem metadata_cache_latest:
  "cache_get (fold cache_register ms cache_empty) symbol =
     (case List.find (\<lambda>m. sm_symbol m = symbol) (rev ms) of
        Some m \<Rightarrow> Inr m
      | None \<Rightarrow> Inl (KeyError (''unknown symbol metadata: '' @ symbol)))"
  using meta_cache.get_fold [OF meta_cache.invar_empty]
  by (simp add: cache_get_def cache_empty_def split: option.split)

end
