(* ===== verification/Live_Policy.thy ===== *)
theory Live_Policy
  imports Sizing
begin

text \<open>
  \<open>risk/live_policy.py\<close>: the sizing decision of the Bitget LIVE lane. \<open>plan_at_leverage\<close> plans
  one leverage, \<open>select_plan\<close> walks the leverages downwards, \<open>plan_live_position\<close> composes
  them with the position cap, the margin cap and the all-in fallback. Skip reasons and failure
  tags are values that carry the numbers the messages print; their rendering to text
  (\<open>_safe_number\<close> and the f-strings) is not represented.
\<close>

definition MIN_LIVE_LEVERAGE :: int where "MIN_LIVE_LEVERAGE = 5"
definition MAX_LIVE_LEVERAGE :: int where "MAX_LIVE_LEVERAGE = 20"

section \<open>Data\<close>

datatype Leg = MarketLeg | LimitLeg

datatype SplitFailure =
    SplitMinQty Leg dec dec "dec option" "dec option"
  | SplitMinNotional Leg dec dec dec "dec option" "dec option"
  | SplitMaxQty Leg dec dec

datatype Tag = MinNotionalFailure | CapFailure | GuardFailure | SplitTag SplitFailure

datatype DiagnosisPart =
    MinOrder string dec dec dec "dec option"
  | NoCapConfigured
  | CapBuysOnly dec dec int int
  | NeedsMargin dec int
  | NeedsLeverage dec dec

datatype SkipReason =
    PositionCap int int
  | NoLiveLeverage int int
  | NoStopNoAtr
  | SlGuard
  | MarginCapDiagnosis "DiagnosisPart list"
  | SplitNoFallback SplitFailure
  | MinNotionalNoFallback
  | SplitUnmeetableAllIn SplitFailure
  | MinNotionalAllIn "DiagnosisPart list option"

record LiveSizingInput =
  li_meta :: SymbolMetadata
  li_risk :: BitgetLiveRiskConfig
  li_available_usdt :: dec
  li_desired_leverage :: int
  li_entry :: dec
  li_direction :: Direction
  li_active_positions :: int
  li_stop_loss :: "dec option"
  li_atr :: "dec option"
  li_taker_fee_rate :: dec
  li_split_market_price :: "dec option"
  li_split_limit_price :: "dec option"

definition valid_sizing_input :: "LiveSizingInput \<Rightarrow> bool" where
  "valid_sizing_input d \<longleftrightarrow>
     valid_metadata (li_meta d) \<and> live_risk_fields (li_risk d) \<and> 0 < li_available_usdt d
     \<and> 5 \<le> li_desired_leverage d \<and> li_desired_leverage d \<le> 20 \<and> 0 < li_entry d
     \<and> 0 \<le> li_active_positions d \<and> positive_option (li_stop_loss d) \<and> positive_option (li_atr d)
     \<and> 0 \<le> li_taker_fee_rate d \<and> positive_option (li_split_market_price d)
     \<and> positive_option (li_split_limit_price d)
     \<and> (li_split_market_price d = None \<longleftrightarrow> li_split_limit_price d = None)"

record Plan =
  pl_leverage :: int
  pl_quantity :: dec
  pl_margin :: dec
  pl_notional :: dec
  pl_liquidation :: dec

datatype LiveSizingDecision =
    Accepted Plan dec dec bool   \<comment> \<open>plan, rounded entry, stop loss, fallback used\<close>
  | Skipped SkipReason bool      \<comment> \<open>reason, fallback used\<close>

section \<open>Diagnostics\<close>

definition safe_divide :: "dec \<Rightarrow> dec \<Rightarrow> dec option" where
  "safe_divide numerator denominator =
     (if denominator = 0 then None
      else if dec_overflows (numerator / denominator) then None
      else Some (dec_div numerator denominator))"

definition notional_floor_diagnosis ::
  "SymbolMetadata \<Rightarrow> dec \<Rightarrow> dec \<Rightarrow> dec option \<Rightarrow> int \<Rightarrow> int \<Rightarrow> DiagnosisPart list" where
  "notional_floor_diagnosis meta rounded_entry required cap low high =
     (let per_qty = dec_mul rounded_entry (sm_contract_value meta);
          min_lot_notional = dec_mul (sm_min_order_qty meta) per_qty;
          head = MinOrder (sm_symbol meta) required (sm_min_order_qty meta) per_qty
                   (if sm_min_notional meta < min_lot_notional then Some (sm_min_notional meta) else None);
          cap_parts = (case cap of
              None \<Rightarrow> [NoCapConfigured]
            | Some c \<Rightarrow>
                CapBuysOnly c (dec_mul c (of_int high)) low high #
                (if 0 < high
                 then case safe_divide required (of_int high) of
                        None \<Rightarrow> [] | Some min_cap \<Rightarrow> [NeedsMargin min_cap high]
                 else []));
          lev_parts = (case cap of
              None \<Rightarrow> []
            | Some c \<Rightarrow>
                if 0 < c
                then case safe_divide required c of
                       None \<Rightarrow> [] | Some min_lev \<Rightarrow> [NeedsLeverage min_lev c]
                else [])
      in head # cap_parts @ lev_parts)"

section \<open>Planning one leverage\<close>

definition leverage_bounds :: "SymbolMetadata \<Rightarrow> BitgetLiveRiskConfig \<Rightarrow> int \<times> int" where
  "leverage_bounds meta risk =
     (max MIN_LIVE_LEVERAGE (rc_min_leverage risk),
      min (min MAX_LIVE_LEVERAGE (rc_max_leverage risk)) (sm_max_leverage meta))"

definition required_notional :: "SymbolMetadata \<Rightarrow> dec \<Rightarrow> dec" where
  "required_notional meta rounded_entry =
     max (sm_min_notional meta)
         (dec_mul (dec_mul (sm_min_order_qty meta) rounded_entry) (sm_contract_value meta))"

definition split_leg_failure ::
  "SymbolMetadata \<Rightarrow> Leg \<Rightarrow> dec \<Rightarrow> dec \<Rightarrow> dec option \<Rightarrow> SplitFailure option" where
  "split_leg_failure meta leg child_qty price maximum =
     (if child_qty < sm_min_order_qty meta
      then Some (SplitMinQty leg child_qty (sm_min_order_qty meta)
                   (sm_max_market_order_qty meta) (sm_max_order_qty meta))
      else let notional = dec_mul (dec_mul child_qty price) (sm_contract_value meta) in
      if notional < sm_min_notional meta
      then Some (SplitMinNotional leg notional price (sm_min_notional meta)
                   (sm_max_market_order_qty meta) (sm_max_order_qty meta))
      else case maximum of
             None \<Rightarrow> None
           | Some m \<Rightarrow> if m < child_qty then Some (SplitMaxQty leg child_qty m) else None)"

definition split_quantity_failure ::
  "SymbolMetadata \<Rightarrow> dec \<Rightarrow> dec \<Rightarrow> dec \<Rightarrow> SplitFailure option" where
  "split_quantity_failure meta qty market_price limit_price =
     (case split_leg_failure meta MarketLeg (dec_div qty 4) market_price (sm_max_market_order_qty meta) of
        Some f \<Rightarrow> Some f
      | None \<Rightarrow> split_leg_failure meta LimitLeg (dec_mul qty (75 / 100)) limit_price (sm_max_order_qty meta))"

definition enforce_margin_cap ::
  "int \<Rightarrow> dec \<Rightarrow> dec \<Rightarrow> SymbolMetadata \<Rightarrow> dec option \<Rightarrow> dec \<Rightarrow> (Exn, (dec \<times> dec) option) raises" where
  "enforce_margin_cap leverage qty entry meta cap quantity_step =
     (if qty \<le> 0 then Inr None
      else let per_qty = dec_mul entry (sm_contract_value meta) in
      if per_qty \<le> 0 then Inr None
      else let max_qty = (case cap of None \<Rightarrow> qty | Some c \<Rightarrow> dec_div (dec_mul c (of_int leverage)) per_qty) in
      bindE (round_qty_to_step (min qty max_qty) quantity_step) (\<lambda>capped_qty.
        if capped_qty < sm_min_order_qty meta then Inr None
        else let actual_margin = dec_div (dec_mul capped_qty per_qty) (of_int leverage) in
        if (case cap of None \<Rightarrow> False | Some c \<Rightarrow> c < actual_margin) then Inr None
        else Inr (Some (actual_margin, capped_qty))))"

definition guard_floors :: "SymbolMetadata \<Rightarrow> BitgetLiveRiskConfig \<Rightarrow> GapFloors" where
  "guard_floors meta risk =
     \<lparr>gf_buffer = rc_liquidation_buffer risk, gf_minimum_gap_pct = rc_minimum_liquidation_gap_pct risk,
      gf_minimum_ticks = rc_minimum_liquidation_ticks risk, gf_price_tick = Some (sm_price_tick meta),
      gf_latency_slippage_allowance = rc_latency_slippage_allowance risk\<rparr>"

text \<open>The quantity before the margin cap: step-floored, then limited by the venue maxima.\<close>

definition venue_capped_quantity ::
  "SymbolMetadata \<Rightarrow> dec \<Rightarrow> dec \<Rightarrow> dec option \<Rightarrow> dec option \<Rightarrow> (Exn, dec) raises" where
  "venue_capped_quantity meta raw_qty quantity_step split_market_price split_limit_price =
     bindE (round_qty_to_step raw_qty quantity_step) (\<lambda>qty0.
     bindE (case sm_max_market_order_qty meta of
              None \<Rightarrow> Inr qty0
            | Some mx \<Rightarrow> bindE (round_qty_to_step mx (sm_size_step meta)) (\<lambda>ceiling.
                Inr (min qty0 (if split_market_price \<noteq> None then dec_mul ceiling 4 else ceiling)))) (\<lambda>qty1.
     (case (split_limit_price, sm_max_order_qty meta) of
        (Some _, Some mx) \<Rightarrow> bindE (round_qty_to_step mx (dec_mul (sm_size_step meta) 3)) (\<lambda>limit_ceiling.
            Inr (min qty1 (dec_mul (dec_div limit_ceiling 3) 4)))
      | _ \<Rightarrow> Inr qty1)))"

record Search =
  se_meta :: SymbolMetadata
  se_risk :: BitgetLiveRiskConfig
  se_rounded_entry :: dec
  se_required :: dec
  se_cap :: "dec option"
  se_direction :: Direction
  se_stop :: dec
  se_taker_fee_rate :: dec
  se_split_market_price :: "dec option"
  se_split_limit_price :: "dec option"

definition split_prices :: "Search \<Rightarrow> (dec \<times> dec) option" where
  "split_prices s =
     (case (se_split_market_price s, se_split_limit_price s) of
        (Some m, Some l) \<Rightarrow> Some (m, l) | _ \<Rightarrow> None)"

definition guarded_plan ::
  "Search \<Rightarrow> int \<Rightarrow> dec \<Rightarrow> dec \<Rightarrow> (Exn, Tag + Plan) raises" where
  "guarded_plan s leverage qty actual_margin =
     (let notional = dec_mul qty (dec_mul (se_rounded_entry s) (sm_contract_value (se_meta s))) in
      if notional < se_required s then Inr (Inl MinNotionalFailure)
      else bindE (estimate_liquidation_price (se_direction s) (se_rounded_entry s) qty leverage actual_margin
                    (sm_mm_tiers (se_meta s)) (se_taker_fee_rate s) (sm_contract_value (se_meta s))) (\<lambda>liq.
      bindE (check_sl_before_liquidation (se_direction s) (se_rounded_entry s) (se_stop s) liq
               (guard_floors (se_meta s) (se_risk s))) (\<lambda>safe.
      if \<not> safe then Inr (Inl GuardFailure)
      else Inr (Inr \<lparr>pl_leverage = leverage, pl_quantity = qty, pl_margin = actual_margin,
                     pl_notional = notional, pl_liquidation = liq\<rparr>))))"

definition plan_at_leverage :: "Search \<Rightarrow> dec \<Rightarrow> int \<Rightarrow> (Exn, Tag + Plan) raises" where
  "plan_at_leverage s margin leverage =
     (let meta = se_meta s; per_qty = dec_mul (se_rounded_entry s) (sm_contract_value meta) in
      if per_qty \<le> 0 then Inr (Inl MinNotionalFailure)
      else
        let raw_qty = dec_div (dec_mul margin (of_int leverage)) per_qty;
            quantity_step = dec_mul (sm_size_step meta) (if se_split_market_price s \<noteq> None then 4 else 1)
        in bindE (venue_capped_quantity meta raw_qty quantity_step (se_split_market_price s)
                    (se_split_limit_price s)) (\<lambda>qty.
           bindE (enforce_margin_cap leverage qty (se_rounded_entry s) meta (se_cap s) quantity_step) (\<lambda>capped.
           case capped of
             None \<Rightarrow> Inr (Inl (case split_prices s of
                 None \<Rightarrow> CapFailure
               | Some (m, l) \<Rightarrow>
                   (case split_quantity_failure meta qty m l of
                      None \<Rightarrow> CapFailure | Some f \<Rightarrow> SplitTag f)))
           | Some (actual_margin, qty') \<Rightarrow>
               (case (case split_prices s of
                        None \<Rightarrow> None
                      | Some (m, l) \<Rightarrow> split_quantity_failure meta qty' m l) of
                  Some f \<Rightarrow> Inr (Inl (SplitTag f))
                | None \<Rightarrow> guarded_plan s leverage qty' actual_margin))))"

section \<open>The downward search and the decision\<close>

fun select_plan_loop :: "Search \<Rightarrow> dec \<Rightarrow> int list \<Rightarrow> Tag list \<Rightarrow> (Exn, Plan option \<times> Tag list) raises" where
  "select_plan_loop s margin [] tags = Inr (None, tags)"
| "select_plan_loop s margin (leverage # ls) tags =
     bindE (plan_at_leverage s margin leverage) (\<lambda>attempt.
       case attempt of
         Inl tag \<Rightarrow> select_plan_loop s margin ls (tags @ [tag])
       | Inr plan \<Rightarrow> Inr (Some plan, tags))"

definition select_plan :: "Search \<Rightarrow> dec \<Rightarrow> int \<Rightarrow> int \<Rightarrow> (Exn, Plan option \<times> Tag list) raises" where
  "select_plan s margin low high = select_plan_loop s margin (rev [low..high]) []"

definition margin_cap :: "BitgetLiveRiskConfig \<Rightarrow> (Exn, dec option) raises" where
  "margin_cap risk =
     (case rc_max_margin_per_trade_usdt risk of
        None \<Rightarrow> Inr None
      | Some c \<Rightarrow> if c \<le> 0 then Inl (ValueError ''max_margin_per_trade_usdt must be positive when set'')
                  else Inr (Some c))"

definition capped_by :: "dec option \<Rightarrow> dec \<Rightarrow> dec" where
  "capped_by cap v = (case cap of None \<Rightarrow> v | Some c \<Rightarrow> min v c)"

fun first_split :: "Tag list \<Rightarrow> SplitFailure option" where
  "first_split [] = None"
| "first_split (SplitTag f # ts) = Some f"
| "first_split (_ # ts) = first_split ts"

text \<open>The part of \<open>plan_live_position\<close> after the search inputs are fixed: attempt at the
  allocation margin, then the all-in fallback.\<close>

definition decide_plan ::
  "LiveSizingInput \<Rightarrow> Search \<Rightarrow> dec \<Rightarrow> int \<Rightarrow> int \<Rightarrow> (Exn, LiveSizingDecision) raises" where
  "decide_plan d s margin low high =
     bindE (select_plan s margin low high) (\<lambda>(plan, tags).
       case plan of
         Some p \<Rightarrow> Inr (Accepted p (se_rounded_entry s) (se_stop s) False)
       | None \<Rightarrow>
           let diagnosis = notional_floor_diagnosis (se_meta s) (se_rounded_entry s) (se_required s) (se_cap s) low high in
           if GuardFailure \<in> set tags then Inr (Skipped SlGuard False)
           else if CapFailure \<in> set tags \<and> MinNotionalFailure \<notin> set tags
           then Inr (Skipped (MarginCapDiagnosis diagnosis) False)
           else if li_active_positions d \<noteq> 0
           then Inr (Skipped (case first_split tags of
                       Some f \<Rightarrow> SplitNoFallback f | None \<Rightarrow> MinNotionalNoFallback) False)
           else bindE (select_plan s (capped_by (se_cap s) (li_available_usdt d)) low high) (\<lambda>(plan', tags').
             case plan' of
               Some p \<Rightarrow> Inr (Accepted p (se_rounded_entry s) (se_stop s) True)
             | None \<Rightarrow>
                 if GuardFailure \<in> set tags' then Inr (Skipped SlGuard True)
                 else case first_split tags' of
                        Some f \<Rightarrow> Inr (Skipped (SplitUnmeetableAllIn f) True)
                      | None \<Rightarrow> Inr (Skipped (MinNotionalAllIn
                          (if se_cap s \<noteq> None then Some diagnosis else None)) True)))"

definition search_inputs :: "LiveSizingInput \<Rightarrow> dec option \<Rightarrow> dec \<Rightarrow> dec \<Rightarrow> Search" where
  "search_inputs d cap rounded_entry stop =
     \<lparr>se_meta = li_meta d, se_risk = li_risk d, se_rounded_entry = rounded_entry,
      se_required = required_notional (li_meta d) rounded_entry,
      se_cap = cap, se_direction = li_direction d, se_stop = stop,
      se_taker_fee_rate = li_taker_fee_rate d, se_split_market_price = li_split_market_price d,
      se_split_limit_price = li_split_limit_price d\<rparr>"

definition allocation_margin :: "LiveSizingInput \<Rightarrow> dec option \<Rightarrow> dec" where
  "allocation_margin d cap = capped_by cap (dec_mul (rc_allocation_pct (li_risk d)) (li_available_usdt d))"

definition position_stop :: "LiveSizingInput \<Rightarrow> (Exn, dec option) raises" where
  "position_stop d =
     (case li_stop_loss d of
        Some sl \<Rightarrow> Inr (Some sl)
      | None \<Rightarrow>
          (case li_atr d of
             None \<Rightarrow> Inr None
           | Some atr \<Rightarrow> bindE (derive_sl_tp (li_entry d) (li_direction d) atr) (\<lambda>(sl, _). Inr (Some sl))))"

definition search_range :: "LiveSizingInput \<Rightarrow> int \<times> int" where
  "search_range d =
     (let (low, high) = leverage_bounds (li_meta d) (li_risk d) in (low, min high (li_desired_leverage d)))"

definition plan_live_position :: "LiveSizingInput \<Rightarrow> (Exn, LiveSizingDecision) raises" where
  "plan_live_position d =
     (let meta = li_meta d; risk = li_risk d in
      bindE (margin_cap risk) (\<lambda>cap.
      if rc_max_normal_positions risk \<le> li_active_positions d
      then Inr (Skipped (PositionCap (li_active_positions d) (rc_max_normal_positions risk)) False)
      else if sm_mm_tiers meta = []
      then bindE (estimate_liquidation_price (li_direction d) (li_entry d) 1 MIN_LIVE_LEVERAGE 1 [] (6 / 10000) 1)
             (\<lambda>_. Inl (AssertionError ''unreachable: empty MM tiers must raise''))
      else
        let (low, high) = search_range d in
        if high < low then Inr (Skipped (NoLiveLeverage low high) False)
        else bindE (round_price_to_tick (li_entry d) (sm_price_tick meta)) (\<lambda>rounded_entry.
          bindE (position_stop d) (\<lambda>stop.
            case stop of
              None \<Rightarrow> Inr (Skipped NoStopNoAtr False)
            | Some sl \<Rightarrow> decide_plan d (search_inputs d cap rounded_entry sl) (allocation_margin d cap) low high))))"

section \<open>Lemmas: one leverage\<close>

text \<open>What a plan of the search promises, stated over the search inputs.\<close>

definition plan_ok :: "Search \<Rightarrow> Plan \<Rightarrow> bool" where
  "plan_ok s p \<longleftrightarrow>
     (case se_cap s of None \<Rightarrow> True | Some c \<Rightarrow> pl_margin p \<le> c)
     \<and> sm_min_order_qty (se_meta s) \<le> pl_quantity p
     \<and> se_required s \<le> pl_notional p
     \<and> pl_notional p = dec_mul (pl_quantity p) (dec_mul (se_rounded_entry s) (sm_contract_value (se_meta s)))
     \<and> estimate_liquidation_price (se_direction s) (se_rounded_entry s) (pl_quantity p) (pl_leverage p)
         (pl_margin p) (sm_mm_tiers (se_meta s)) (se_taker_fee_rate s) (sm_contract_value (se_meta s))
       = Inr (pl_liquidation p)
     \<and> check_sl_before_liquidation (se_direction s) (se_rounded_entry s) (se_stop s) (pl_liquidation p)
         (guard_floors (se_meta s) (se_risk s)) = Inr True
     \<and> (case split_prices s of
          None \<Rightarrow> True
        | Some (m, l) \<Rightarrow> split_quantity_failure (se_meta s) (pl_quantity p) m l = None)"

lemma enforce_margin_cap_Some:
  assumes "enforce_margin_cap lev qty entry meta cap step = Inr (Some (m, q))"
  shows "(case cap of None \<Rightarrow> True | Some c \<Rightarrow> m \<le> c) \<and> sm_min_order_qty meta \<le> q
    \<and> m = dec_div (dec_mul q (dec_mul entry (sm_contract_value meta))) (of_int lev)"
  using assms
  by (auto simp: enforce_margin_cap_def Let_def run_simps not_less split: if_splits option.splits)

lemma guarded_plan_Inr:
  assumes "guarded_plan s lev q m = Inr (Inr p)"
  shows "pl_leverage p = lev \<and> pl_quantity p = q \<and> pl_margin p = m \<and> se_required s \<le> pl_notional p
    \<and> pl_notional p = dec_mul q (dec_mul (se_rounded_entry s) (sm_contract_value (se_meta s)))
    \<and> estimate_liquidation_price (se_direction s) (se_rounded_entry s) q lev m
        (sm_mm_tiers (se_meta s)) (se_taker_fee_rate s) (sm_contract_value (se_meta s)) = Inr (pl_liquidation p)
    \<and> check_sl_before_liquidation (se_direction s) (se_rounded_entry s) (se_stop s) (pl_liquidation p)
        (guard_floors (se_meta s) (se_risk s)) = Inr True"
  using assms by (auto simp: guarded_plan_def Let_def run_simps not_less split: if_splits)

lemma plan_at_leverage_ok:
  assumes "plan_at_leverage s margin lev = Inr (Inr p)"
  shows "plan_ok s p \<and> pl_leverage p = lev"
proof -
  from assms obtain qty step capped where
    cap: "enforce_margin_cap lev qty (se_rounded_entry s) (se_meta s) (se_cap s) step = Inr capped"
    and rest: "(case capped of
             None \<Rightarrow> Inr (Inl (case split_prices s of
                 None \<Rightarrow> CapFailure
               | Some (m, l) \<Rightarrow>
                   (case split_quantity_failure (se_meta s) qty m l of
                      None \<Rightarrow> CapFailure | Some f \<Rightarrow> SplitTag f)))
           | Some (actual_margin, qty') \<Rightarrow>
               (case (case split_prices s of
                        None \<Rightarrow> None
                      | Some (m, l) \<Rightarrow> split_quantity_failure (se_meta s) qty' m l) of
                  Some f \<Rightarrow> Inr (Inl (SplitTag f))
                | None \<Rightarrow> guarded_plan s lev qty' actual_margin)) = Inr (Inr p)"
    unfolding plan_at_leverage_def Let_def by (auto simp only: run_simps split: if_split_asm)
  from rest obtain m q where mq: "capped = Some (m, q)"
    and guard: "guarded_plan s lev q m = Inr (Inr p)"
    and split: "case split_prices s of None \<Rightarrow> True | Some (a, b) \<Rightarrow> split_quantity_failure (se_meta s) q a b = None"
    by (cases "split_prices s"; cases capped) (auto split: option.split_asm)
  from enforce_margin_cap_Some [OF cap [unfolded mq]]
  have capped: "(case se_cap s of None \<Rightarrow> True | Some c \<Rightarrow> m \<le> c) \<and> sm_min_order_qty (se_meta s) \<le> q" by blast
  from guarded_plan_Inr [OF guard] capped split show ?thesis
    by (auto simp: plan_ok_def split: option.splits)
qed

section \<open>Lemmas: the search\<close>

lemma select_plan_loop_Some:
  "select_plan_loop s m ls tags = Inr (Some p, tags') \<Longrightarrow>
   \<exists>xs l ys. ls = xs @ l # ys \<and> plan_at_leverage s m l = Inr (Inr p)
     \<and> (\<forall>x \<in> set xs. \<exists>t. plan_at_leverage s m x = Inr (Inl t))"
proof (induction ls arbitrary: tags)
  case Nil
  then show ?case by simp
next
  case (Cons l ls)
  then obtain attempt where at: "plan_at_leverage s m l = Inr attempt"
    and rest: "(case attempt of Inl tag \<Rightarrow> select_plan_loop s m ls (tags @ [tag]) | Inr plan \<Rightarrow> Inr (Some plan, tags))
      = Inr (Some p, tags')" by (auto simp: run_simps)
  show ?case
  proof (cases attempt)
    case (Inl t)
    with rest Cons.IH obtain xs k ys where "ls = xs @ k # ys" "plan_at_leverage s m k = Inr (Inr p)"
      "\<forall>x \<in> set xs. \<exists>t. plan_at_leverage s m x = Inr (Inl t)" by fastforce
    with at Inl show ?thesis by (intro exI [of _ "l # xs"]) auto
  next
    case (Inr q)
    with at rest show ?thesis by (intro exI [of _ "[]"]) auto
  qed
qed

lemma select_plan_loop_None:
  "select_plan_loop s m ls tags = Inr (None, tags') \<Longrightarrow>
   set tags \<subseteq> set tags' \<and> (\<forall>l \<in> set ls. \<exists>t \<in> set tags'. plan_at_leverage s m l = Inr (Inl t))"
proof (induction ls arbitrary: tags)
  case Nil
  then show ?case by simp
next
  case (Cons l ls)
  then obtain attempt where at: "plan_at_leverage s m l = Inr attempt"
    and cont: "(case attempt of Inl tag \<Rightarrow> select_plan_loop s m ls (tags @ [tag]) | Inr plan \<Rightarrow> Inr (Some plan, tags))
      = Inr (None, tags')" by (auto simp: run_simps)
  then obtain t where t: "attempt = Inl t" and rest: "select_plan_loop s m ls (tags @ [t]) = Inr (None, tags')"
    by (cases attempt) auto
  from Cons.IH [OF rest] at t show ?case by auto
qed

lemma select_plan_loop_total:
  assumes "\<And>l. l \<in> set ls \<Longrightarrow> \<exists>a. plan_at_leverage s m l = Inr a"
  shows "\<exists>r. select_plan_loop s m ls tags = Inr r"
  using assms
proof (induction ls arbitrary: tags)
  case Nil
  then show ?case by simp
next
  case (Cons l ls)
  then obtain a where a: "plan_at_leverage s m l = Inr a" by auto
  from Cons have "\<exists>r. select_plan_loop s m ls ts = Inr r" for ts by simp
  with a show ?case by (cases a) auto
qed

lemma rev_upto_split:
  assumes "rev [low..high] = xs @ l # ys"
  shows "low \<le> l" "l \<le> high" "set xs = {l<..high}"
proof -
  have eq: "[low..high] = rev ys @ l # rev xs" using arg_cong [OF assms, of rev] by simp
  have "l \<in> set [low..high]" unfolding eq by simp
  then show "low \<le> l" "l \<le> high" by auto
  have s: "sorted (rev ys @ l # rev xs)" "distinct (rev ys @ l # rev xs)"
    using sorted_upto [of low high] distinct_upto [of low high] unfolding eq by simp_all
  have up: "x \<in> {low..high} \<longleftrightarrow> x \<in> set ys \<or> x = l \<or> x \<in> set xs" for x
    using arg_cong [OF eq, of set] by (auto simp: set_upto)
  have above: "x \<in> set xs \<Longrightarrow> l < x" and below: "y \<in> set ys \<Longrightarrow> y < l" for x y
    using s by (auto simp: sorted_append order_le_less)
  show "set xs = {l<..high}"
  proof (intro set_eqI iffI)
    fix x assume "x \<in> set xs"
    with above up [of x] show "x \<in> {l<..high}" by auto
  next
    fix x assume "x \<in> {l<..high}"
    with up [of x] \<open>low \<le> l\<close> below [of x] show "x \<in> set xs" by auto
  qed
qed

lemma select_plan_Some:
  assumes "select_plan s m low high = Inr (Some p, tags)"
  shows "low \<le> pl_leverage p" "pl_leverage p \<le> high" "plan_ok s p"
    "\<And>l. pl_leverage p < l \<Longrightarrow> l \<le> high \<Longrightarrow> \<exists>t. plan_at_leverage s m l = Inr (Inl t)"
proof -
  from assms obtain xs l ys where split: "rev [low..high] = xs @ l # ys"
    and l: "plan_at_leverage s m l = Inr (Inr p)"
    and fails: "\<forall>x \<in> set xs. \<exists>t. plan_at_leverage s m x = Inr (Inl t)"
    unfolding select_plan_def by (auto dest!: select_plan_loop_Some)
  from plan_at_leverage_ok [OF l] have p: "plan_ok s p" "pl_leverage p = l" by auto
  with rev_upto_split [OF split] show "low \<le> pl_leverage p" "pl_leverage p \<le> high" "plan_ok s p"
    by simp_all
  fix k assume "pl_leverage p < k" "k \<le> high"
  then have "k \<in> set xs" using rev_upto_split(3) [OF split] p(2) by simp
  with fails show "\<exists>t. plan_at_leverage s m k = Inr (Inl t)" by blast
qed

lemma select_plan_None:
  assumes "select_plan s m low high = Inr (None, tags)" "low \<le> l" "l \<le> high"
  shows "\<exists>t \<in> set tags. plan_at_leverage s m l = Inr (Inl t)"
  using select_plan_loop_None [of s m "rev [low..high]" "[]" tags] assms by (auto simp: select_plan_def)

section \<open>Lemmas: the decision\<close>

lemma decide_plan_Accepted:
  assumes "decide_plan d s margin low high = Inr (Accepted p e st fb)"
  shows "e = se_rounded_entry s \<and> st = se_stop s \<and>
    (if fb then li_active_positions d = 0
        \<and> (\<exists>tags. select_plan s margin low high = Inr (None, tags) \<and> GuardFailure \<notin> set tags)
        \<and> (\<exists>tags. select_plan s (capped_by (se_cap s) (li_available_usdt d)) low high = Inr (Some p, tags))
     else \<exists>tags. select_plan s margin low high = Inr (Some p, tags))"
  using assms
  by (auto simp: decide_plan_def Let_def run_simps split: if_splits option.splits)

lemma plan_live_position_Accepted:
  assumes "plan_live_position d = Inr (Accepted p e st fb)"
  shows "\<exists>cap. margin_cap (li_risk d) = Inr cap
    \<and> li_active_positions d < rc_max_normal_positions (li_risk d)
    \<and> round_price_to_tick (li_entry d) (sm_price_tick (li_meta d)) = Inr e
    \<and> position_stop d = Inr (Some st)
    \<and> decide_plan d (search_inputs d cap e st) (allocation_margin d cap) (fst (search_range d)) (snd (search_range d))
        = Inr (Accepted p e st fb)"
proof -
  from assms obtain cap e' st' where
    A: "margin_cap (li_risk d) = Inr cap" "li_active_positions d < rc_max_normal_positions (li_risk d)"
      "round_price_to_tick (li_entry d) (sm_price_tick (li_meta d)) = Inr e'" "position_stop d = Inr (Some st')"
      "decide_plan d (search_inputs d cap e' st') (allocation_margin d cap) (fst (search_range d)) (snd (search_range d))
        = Inr (Accepted p e st fb)"
    by (auto simp: plan_live_position_def Let_def run_simps not_le split: if_splits option.splits prod.splits)
  from decide_plan_Accepted [OF A(5)] have "e = e'" "st = st'" by (simp_all add: search_inputs_def)
  with A show ?thesis by blast
qed

lemma margin_cap_Inr: "margin_cap r = Inr cap \<Longrightarrow> cap = rc_max_margin_per_trade_usdt r"
  by (auto simp: margin_cap_def split: option.splits if_splits)

lemma search_range_bounds:
  "fst (search_range d) = max 5 (rc_min_leverage (li_risk d))"
  "snd (search_range d) \<le> 20" "snd (search_range d) \<le> rc_max_leverage (li_risk d)"
  "snd (search_range d) \<le> sm_max_leverage (li_meta d)" "snd (search_range d) \<le> li_desired_leverage d"
  by (auto simp: search_range_def leverage_bounds_def MIN_LIVE_LEVERAGE_def MAX_LIVE_LEVERAGE_def)

lemma accepted_plan:
  assumes "plan_live_position d = Inr (Accepted p e st fb)"
  shows "\<exists>s. s = search_inputs d (rc_max_margin_per_trade_usdt (li_risk d)) e st \<and> plan_ok s p
    \<and> fst (search_range d) \<le> pl_leverage p \<and> pl_leverage p \<le> snd (search_range d)"
proof -
  from plan_live_position_Accepted [OF assms] obtain cap where cap: "margin_cap (li_risk d) = Inr cap"
    and dec: "decide_plan d (search_inputs d cap e st) (allocation_margin d cap) (fst (search_range d)) (snd (search_range d))
        = Inr (Accepted p e st fb)" by blast
  from decide_plan_Accepted [OF dec] obtain m tags where
    "select_plan (search_inputs d cap e st) m (fst (search_range d)) (snd (search_range d)) = Inr (Some p, tags)"
    by (auto split: if_splits)
  with margin_cap_Inr [OF cap] show ?thesis by (auto dest: select_plan_Some)
qed

section \<open>Lemmas: the search never raises\<close>

lemma dec_round_within: "0 \<le> x \<Longrightarrow> 9 / 10 * x \<le> dec_round x \<and> dec_round x \<le> 11 / 10 * x"
proof -
  assume x: "0 \<le> x"
  then have "\<bar>dec_round x - x\<bar> \<le> x / (2 * 10 ^ 27)" using dec_round_error [of x] by simp
  moreover have "x / (2 * 10 ^ 27) \<le> x / 10" using x by (simp add: divide_left_mono)
  ultimately show ?thesis by linarith
qed

lemma margin_ratio_small:
  assumes "0 < q" "0 < e" "0 < c" "5 \<le> lev"
  shows "dec_div (dec_div (dec_mul q (dec_mul e c)) (of_int lev)) (dec_mul (dec_mul e q) c) < 1"
proof -
  let ?m = "dec_div (dec_mul q (dec_mul e c)) (of_int lev)" and ?n = "dec_mul (dec_mul e q) c"
  define X where "X = q * e * c"
  have X: "0 < X" using assms by (simp add: X_def)
  have "dec_mul e c \<le> 11 / 10 * (e * c)" using dec_round_within [of "e * c"] assms by (simp add: dec_mul_def)
  then have "q * dec_mul e c \<le> 11 / 10 * X" using assms(1) by (simp add: X_def mult.left_commute mult.assoc)
  moreover have "dec_mul q (dec_mul e c) \<le> 11 / 10 * (q * dec_mul e c)"
    using dec_round_within [of "q * dec_mul e c"] assms by (simp add: dec_mul_def dec.rnd_nonneg)
  ultimately have a: "dec_mul q (dec_mul e c) \<le> 121 / 100 * X" by linarith
  have qpos: "0 \<le> dec_mul q (dec_mul e c)" using assms by (simp add: dec_mul_nonneg)
  have "dec_mul q (dec_mul e c) / of_int lev \<le> dec_mul q (dec_mul e c) / 5"
    using qpos assms(4) by (intro divide_left_mono) auto
  moreover have "?m \<le> 11 / 10 * (dec_mul q (dec_mul e c) / of_int lev)"
    using dec_round_within [of "dec_mul q (dec_mul e c) / of_int lev"] qpos assms(4) by (simp add: dec_div_def)
  ultimately have m: "?m \<le> 1331 / 5000 * X" using a by linarith
  have "9 / 10 * (e * q) \<le> dec_mul e q" using dec_round_within [of "e * q"] assms by (simp add: dec_mul_def)
  then have "9 / 10 * (e * q) * c \<le> dec_mul e q * c" using assms(3) by (intro mult_right_mono) auto
  then have "9 / 10 * X \<le> dec_mul e q * c" by (simp add: X_def mult.commute mult.left_commute)
  moreover have "9 / 10 * (dec_mul e q * c) \<le> ?n"
    using dec_round_within [of "dec_mul e q * c"] assms by (simp add: dec_mul_def dec.rnd_nonneg)
  ultimately have n: "81 / 100 * X \<le> ?n" by linarith
  then have npos: "0 < ?n" using X by linarith
  have "?m / ?n \<le> 1 / 2" using m n X npos by (simp add: pos_divide_le_eq)
  then have "dec_round (?m / ?n) \<le> dec_round (1 / 2)" by (rule dec.rnd_mono)
  moreover have "dec_round (1 / 2) = (1 / 2 :: rat)" using dec_round_exact [of 5 "- 1"] by (simp add: pow10_def)
  ultimately show ?thesis by (simp add: dec_div_def)
qed

lemma estimate_total:
  assumes "0 < q" "0 < e" "0 < c" "5 \<le> lev" "0 \<le> fee" "fee < 1 / 2" "ts \<noteq> []"
    and mmr: "\<forall>t \<in> set ts. 0 \<le> mm_mmr t \<and> mm_mmr t \<le> 1 / 2"
    and m: "m = dec_div (dec_mul q (dec_mul e c)) (of_int lev)"
  shows "\<exists>liq. estimate_liquidation_price side e q lev m ts fee c = Inr liq"
proof -
  let ?n = "dec_mul (dec_mul e q) c" and ?r = "dec_div m (dec_mul (dec_mul e q) c)"
  obtain k where k: "select_mmr ?n ts = Inr k" "0 \<le> k" "k \<le> 1 / 2"
    using select_mmr_total [OF assms(7), of ?n] mmr by auto
  have n: "0 < ?n" and mpos: "0 < m" using assms by (simp_all add: dec_mul_pos dec_div_pos)
  have r: "?r < 1" "0 \<le> ?r"
    using margin_ratio_small [OF assms(1-4)] m dec_div_pos [OF mpos n] by simp_all
  have half: "dec_round (1 / 2) = (1 / 2 :: rat)" using dec_round_exact [of 5 "- 1"] by (simp add: pow10_def)
  have "0 < liquidation_formula side e ?r k fee"
  proof (cases side)
    case LONG
    have "0 < dec_sub 1 ?r" using r(1) by (simp add: dec_sub_def dec.rnd_pos)
    with LONG show ?thesis using assms k by (simp add: liquidation_formula_def dec_mul_pos dec_add_pos)
  next
    case SHORT
    have "dec_round 1 = (1 :: rat)" using dec_round_of_int [of 1] by simp
    then have "1 \<le> dec_add 1 ?r" unfolding dec_add_def using r(2) by (intro dec.rnd_ge) auto
    then have "1 / 2 \<le> dec_sub (dec_add 1 ?r) k" unfolding dec_sub_def using half k by (intro dec.rnd_ge) auto
    then have "0 < dec_sub (dec_sub (dec_add 1 ?r) k) fee"
      using assms(6) by (simp add: dec_sub_def [of "dec_sub _ _"] dec.rnd_pos)
    with SHORT show ?thesis using assms by (simp add: liquidation_formula_def dec_mul_pos)
  qed
  then show ?thesis
    using assms k n mpos by (auto simp: estimate_liquidation_price_def Let_def not_le)
qed

definition searchable :: "Search \<Rightarrow> bool" where
  "searchable s \<longleftrightarrow> valid_metadata (se_meta s) \<and> live_risk_fields (se_risk s) \<and> 0 < se_rounded_entry s
     \<and> positive_option (se_cap s) \<and> 0 \<le> se_taker_fee_rate s \<and> se_taker_fee_rate s < 1 / 2
     \<and> sm_mm_tiers (se_meta s) \<noteq> [] \<and> (\<forall>t \<in> set (sm_mm_tiers (se_meta s)). mm_mmr t \<le> 1 / 2)"

lemma venue_capped_total:
  assumes "valid_metadata meta" "0 < raw" "0 < step"
  shows "\<exists>q. venue_capped_quantity meta raw step a b = Inr q"
proof -
  obtain q0 where q0: "round_qty_to_step raw step = Inr q0" using round_qty_total [OF assms(2,3)] by blast
  have size: "0 < sm_size_step meta" "0 < dec_mul (sm_size_step meta) 3"
    using assms(1) by (simp_all add: valid_metadata_def dec_mul_pos)
  have mx: "\<exists>r. round_qty_to_step x (sm_size_step meta) = Inr r" "\<exists>r. round_qty_to_step x (dec_mul (sm_size_step meta) 3) = Inr r"
    if "0 < x" for x using round_qty_total [OF that size(1)] round_qty_total [OF that size(2)] by blast+
  show ?thesis
    using q0 mx assms(1)
    by (cases "sm_max_market_order_qty meta"; cases "sm_max_order_qty meta"; cases b)
       (fastforce simp: venue_capped_quantity_def valid_metadata_def positive_option_def)+
qed

lemma enforce_cap_total:
  assumes "valid_metadata meta" "positive_option cap" "0 < step" "1 \<le> lev"
  shows "\<exists>r. enforce_margin_cap lev qty entry meta cap step = Inr r"
proof (cases "0 < qty \<and> 0 < dec_mul entry (sm_contract_value meta)")
  case True
  let ?mx = "case cap of None \<Rightarrow> qty | Some c \<Rightarrow> dec_div (dec_mul c (of_int lev)) (dec_mul entry (sm_contract_value meta))"
  have "0 < ?mx" using True assms by (auto simp: positive_option_def dec_div_pos dec_mul_pos split: option.splits)
  with True have "0 < min qty ?mx" by simp
  from round_qty_total [OF this assms(3)] obtain r where r: "round_qty_to_step (min qty ?mx) step = Inr r" by blast
  show ?thesis unfolding enforce_margin_cap_def Let_def r bindE.simps by auto
next
  case False
  then show ?thesis by (auto simp: enforce_margin_cap_def Let_def)
qed

lemma guarded_plan_total:
  assumes "searchable s" "5 \<le> lev" "0 < q"
    and "m = dec_div (dec_mul q (dec_mul (se_rounded_entry s) (sm_contract_value (se_meta s)))) (of_int lev)"
  shows "\<exists>r. guarded_plan s lev q m = Inr r"
proof -
  have cv: "0 < sm_contract_value (se_meta s)" using assms(1) by (simp add: searchable_def valid_metadata_def)
  have tiers: "\<forall>t \<in> set (sm_mm_tiers (se_meta s)). 0 \<le> mm_mmr t \<and> mm_mmr t \<le> 1 / 2"
    using assms(1) by (auto simp: searchable_def valid_metadata_def list_all_iff valid_tier_def)
  obtain liq where liq: "estimate_liquidation_price (se_direction s) (se_rounded_entry s) q lev m
      (sm_mm_tiers (se_meta s)) (se_taker_fee_rate s) (sm_contract_value (se_meta s)) = Inr liq"
    using estimate_total [OF assms(3) _ cv assms(2) _ _ _ tiers assms(4)] assms(1)
    unfolding searchable_def by blast
  have "floors_ok (guard_floors (se_meta s) (se_risk s))"
    using assms(1) by (simp add: searchable_def floors_ok_def guard_floors_def live_risk_fields_def valid_metadata_def)
  then obtain b where "check_sl_before_liquidation (se_direction s) (se_rounded_entry s) (se_stop s) liq
      (guard_floors (se_meta s) (se_risk s)) = Inr b" using check_sl_total by blast
  with liq show ?thesis by (auto simp: guarded_plan_def Let_def)
qed

lemma plan_at_leverage_total:
  assumes s: "searchable s" and lev: "5 \<le> lev" and margin: "0 < margin"
  shows "\<exists>r. plan_at_leverage s margin lev = Inr r"
proof -
  let ?meta = "se_meta s"
  let ?per = "dec_mul (se_rounded_entry s) (sm_contract_value ?meta)"
  let ?step = "dec_mul (sm_size_step ?meta) (if se_split_market_price s \<noteq> None then 4 else 1)"
  let ?raw = "dec_div (dec_mul margin (of_int lev)) ?per"
  have meta: "valid_metadata ?meta" using s by (simp add: searchable_def)
  have per: "0 < ?per" using s by (intro dec_mul_pos) (auto simp: searchable_def valid_metadata_def)
  have step: "0 < ?step" using meta by (intro dec_mul_pos) (auto simp: valid_metadata_def)
  have raw: "0 < ?raw" using per margin lev by (simp add: dec_div_pos dec_mul_pos)
  obtain qty where qty: "venue_capped_quantity ?meta ?raw ?step (se_split_market_price s) (se_split_limit_price s) = Inr qty"
    using venue_capped_total [OF meta raw step] by blast
  obtain r where r: "enforce_margin_cap lev qty (se_rounded_entry s) ?meta (se_cap s) ?step = Inr r"
    using enforce_cap_total [OF meta _ step, of "se_cap s" lev qty "se_rounded_entry s"] s lev
    unfolding searchable_def by fastforce
  show ?thesis
  proof (cases r)
    case None
    then show ?thesis using per qty r unfolding plan_at_leverage_def Let_def by (simp add: not_le)
  next
    case (Some mq)
    obtain m q where mq: "mq = (m, q)" by (cases mq)
    from enforce_margin_cap_Some [OF r [unfolded Some mq]]
    have "0 < q" and "m = dec_div (dec_mul q ?per) (of_int lev)"
      using meta by (auto simp: valid_metadata_def)
    then obtain g where "guarded_plan s lev q m = Inr g" using guarded_plan_total [OF s lev] by blast
    with per qty r Some mq show ?thesis
      unfolding plan_at_leverage_def Let_def by (auto simp: not_le split: option.split)
  qed
qed

lemma select_plan_total:
  "searchable s \<Longrightarrow> 5 \<le> low \<Longrightarrow> 0 < margin \<Longrightarrow> \<exists>r. select_plan s margin low high = Inr r"
  unfolding select_plan_def by (intro select_plan_loop_total plan_at_leverage_total) auto

lemma decide_plan_total:
  assumes "searchable s" "5 \<le> low" "0 < margin" "0 < capped_by (se_cap s) (li_available_usdt d)"
  shows "\<exists>r. decide_plan d s margin low high = Inr r"
proof -
  obtain a b where ab: "select_plan s margin low high = Inr (a, b)"
    using select_plan_total [OF assms(1-3)] by fastforce
  obtain a' b' where ab': "select_plan s (capped_by (se_cap s) (li_available_usdt d)) low high = Inr (a', b')"
    using select_plan_total [OF assms(1,2,4)] by fastforce
  show ?thesis unfolding decide_plan_def Let_def ab ab' by (auto split: option.split)
qed

lemma position_stop_total: "valid_sizing_input d \<Longrightarrow> \<exists>r. position_stop d = Inr r"
  by (cases "li_direction d")
     (auto simp: position_stop_def derive_sl_tp_def valid_sizing_input_def positive_option_def split: option.split)

section \<open>Properties\<close>

text \<open>
  C9: every accepted live plan is inside the risk policy. Its leverage lies between the configured
  floor (never below 5x) and the smallest of 20x, the configured, the venue and the desired
  maximum; its margin does not exceed the per-trade cap; its quantity and notional meet the venue
  minima; fewer than the maximum of positions are active; and the stop loss lies strictly between
  the rounded entry and the estimated liquidation price, with the configured gap.
\<close>

theorem plan_live_position_safe:
  assumes "plan_live_position d = Inr (Accepted p entry stop fallback)"
  shows "max 5 (rc_min_leverage (li_risk d)) \<le> pl_leverage p
    \<and> pl_leverage p \<le> Min {20, rc_max_leverage (li_risk d), sm_max_leverage (li_meta d), li_desired_leverage d}
    \<and> (\<forall>c. rc_max_margin_per_trade_usdt (li_risk d) = Some c \<longrightarrow> pl_margin p \<le> c)
    \<and> sm_min_order_qty (li_meta d) \<le> pl_quantity p
    \<and> required_notional (li_meta d) entry \<le> pl_notional p
    \<and> li_active_positions d < rc_max_normal_positions (li_risk d)
    \<and> (case li_direction d of
         LONG \<Rightarrow> pl_liquidation p < stop \<and> stop < entry
       | SHORT \<Rightarrow> entry < stop \<and> stop < pl_liquidation p)
    \<and> check_sl_before_liquidation (li_direction d) entry stop (pl_liquidation p)
        (guard_floors (li_meta d) (li_risk d)) = Inr True"
proof -
  let ?s = "search_inputs d (rc_max_margin_per_trade_usdt (li_risk d)) entry stop"
  from accepted_plan [OF assms] have ok: "plan_ok ?s p"
    and lev: "fst (search_range d) \<le> pl_leverage p" "pl_leverage p \<le> snd (search_range d)" by auto
  have guard: "check_sl_before_liquidation (li_direction d) entry stop (pl_liquidation p)
        (guard_floors (li_meta d) (li_risk d)) = Inr True"
    using ok by (simp add: plan_ok_def search_inputs_def)
  have geometry: "case li_direction d of
         LONG \<Rightarrow> pl_liquidation p < stop \<and> stop < entry
       | SHORT \<Rightarrow> entry < stop \<and> stop < pl_liquidation p"
    using check_sl_True [OF guard] by (cases "li_direction d") auto
  have "li_active_positions d < rc_max_normal_positions (li_risk d)"
    using plan_live_position_Accepted [OF assms] by blast
  with ok lev guard geometry search_range_bounds [of d] show ?thesis
    by (auto simp: plan_ok_def search_inputs_def)
qed

definition sample_meta :: SymbolMetadata where
  "sample_meta =
     \<lparr>sm_symbol = ''ZROUSDT'', sm_price_precision = 4, sm_price_tick = 1 / 10000, sm_size_step = 1,
      sm_min_order_qty = 1, sm_max_order_qty = Some 100000, sm_max_market_order_qty = Some 40000,
      sm_contract_value = 1, sm_max_leverage = 50, sm_min_notional = 5,
      sm_mm_tiers = [\<lparr>mm_upper_bound_notional = Some 5000, mm_mmr = 1 / 100\<rparr>,
                     \<lparr>mm_upper_bound_notional = None, mm_mmr = 2 / 100\<rparr>]\<rparr>"

definition sample_input :: LiveSizingInput where
  "sample_input =
     \<lparr>li_meta = sample_meta,
      li_risk = default_live_risk\<lparr>rc_min_leverage := 5, rc_max_margin_per_trade_usdt := Some (11 / 10)\<rparr>,
      li_available_usdt = 8, li_desired_leverage = 20, li_entry = 16 / 10, li_direction = LONG,
      li_active_positions = 1, li_stop_loss = Some (157 / 100), li_atr = None,
      li_taker_fee_rate = 6 / 10000, li_split_market_price = None, li_split_limit_price = None\<rparr>"

lemma sample_valid: "valid_sizing_input sample_input"
  by code_simp

lemma sample_plan:
  "plan_live_position sample_input = Inr (Accepted
     \<lparr>pl_leverage = 20, pl_quantity = 13, pl_margin = 26 / 25, pl_notional = 104 / 5,
      pl_liquidation = 4803 / 3125\<rparr> (16 / 10) (157 / 100) False)"
  by code_simp

theorem plan_live_position_safe_witness:
  "pl_leverage \<lparr>pl_leverage = 20, pl_quantity = 13, pl_margin = 26 / 25, pl_notional = 104 / 5,
      pl_liquidation = 4803 / 3125\<rparr> \<le> Min {20, rc_max_leverage (li_risk sample_input),
        sm_max_leverage (li_meta sample_input), li_desired_leverage sample_input}"
  using plan_live_position_safe [OF sample_plan] by blast

text \<open>
  C36: the planner never trades below the leverage it could have used and never sizes up to pass a
  guard. A plan accepted without fallback uses the highest leverage that works: every higher
  leverage of the search range was attempted at the same margin and failed with a tag.
\<close>

theorem plan_live_position_highest_leverage:
  assumes "plan_live_position d = Inr (Accepted p entry stop False)"
    and "pl_leverage p < l" and "l \<le> snd (search_range d)"
  shows "\<exists>tag. plan_at_leverage
      (search_inputs d (rc_max_margin_per_trade_usdt (li_risk d)) entry stop)
      (allocation_margin d (rc_max_margin_per_trade_usdt (li_risk d))) l = Inr (Inl tag)"
proof -
  from plan_live_position_Accepted [OF assms(1)] obtain cap where cap: "margin_cap (li_risk d) = Inr cap"
    and dec: "decide_plan d (search_inputs d cap entry stop) (allocation_margin d cap)
        (fst (search_range d)) (snd (search_range d)) = Inr (Accepted p entry stop False)" by blast
  from decide_plan_Accepted [OF dec] obtain tags where
    "select_plan (search_inputs d cap entry stop) (allocation_margin d cap)
       (fst (search_range d)) (snd (search_range d)) = Inr (Some p, tags)" by auto
  with select_plan_Some(4) assms(2,3) margin_cap_Inr [OF cap] show ?thesis by blast
qed

text \<open>A stop 3.6 percent below the entry is too wide for 20x and is planned at 19x.\<close>

definition wide_stop :: LiveSizingInput where
  "wide_stop = sample_input\<lparr>li_stop_loss := Some (1542 / 1000)\<rparr>"

lemma wide_stop_plan:
  "plan_live_position wide_stop = Inr (Accepted
     \<lparr>pl_leverage = 19, pl_quantity = 13,
      pl_margin = 547368421052631578947368421 / 500000000000000000000000000, pl_notional = 104 / 5,
      pl_liquidation = 766374736842105263157894737 / 500000000000000000000000000\<rparr> (16 / 10) (1542 / 1000) False)"
  by code_simp

theorem plan_live_position_highest_leverage_witness:
  "\<exists>tag. plan_at_leverage
      (search_inputs wide_stop (rc_max_margin_per_trade_usdt (li_risk wide_stop)) (16 / 10) (1542 / 1000))
      (allocation_margin wide_stop (rc_max_margin_per_trade_usdt (li_risk wide_stop))) 20 = Inr (Inl tag)"
  by (rule plan_live_position_highest_leverage [OF wide_stop_plan])
     (simp, simp add: search_range_def leverage_bounds_def wide_stop_def sample_input_def sample_meta_def
        default_live_risk_def MIN_LIVE_LEVERAGE_def MAX_LIVE_LEVERAGE_def)

text \<open>
  The all-in fallback is a last resort. It is used only when no position is active, after
  every leverage of the range failed at the allocation margin for a reason other than the
  liquidation guard, and even then its margin respects the per-trade cap.
\<close>

theorem all_in_fallback_last_resort:
  assumes "plan_live_position d = Inr (Accepted p entry stop True)"
  shows "li_active_positions d = 0
    \<and> (\<forall>l. fst (search_range d) \<le> l \<and> l \<le> snd (search_range d) \<longrightarrow>
         (\<exists>tag. tag \<noteq> GuardFailure \<and> plan_at_leverage
            (search_inputs d (rc_max_margin_per_trade_usdt (li_risk d)) entry stop)
            (allocation_margin d (rc_max_margin_per_trade_usdt (li_risk d))) l = Inr (Inl tag)))
    \<and> (\<forall>c. rc_max_margin_per_trade_usdt (li_risk d) = Some c \<longrightarrow> pl_margin p \<le> c)"
proof -
  from plan_live_position_Accepted [OF assms] obtain cap where cap: "margin_cap (li_risk d) = Inr cap"
    and dec: "decide_plan d (search_inputs d cap entry stop) (allocation_margin d cap)
        (fst (search_range d)) (snd (search_range d)) = Inr (Accepted p entry stop True)" by blast
  from decide_plan_Accepted [OF dec] obtain tags where act: "li_active_positions d = 0"
    and none: "select_plan (search_inputs d cap entry stop) (allocation_margin d cap)
       (fst (search_range d)) (snd (search_range d)) = Inr (None, tags)" and guard: "GuardFailure \<notin> set tags" by auto
  have "\<exists>tag. tag \<noteq> GuardFailure \<and> plan_at_leverage (search_inputs d cap entry stop) (allocation_margin d cap) l = Inr (Inl tag)"
    if "fst (search_range d) \<le> l \<and> l \<le> snd (search_range d)" for l
    using select_plan_None [OF none, of l] that guard by auto
  moreover have "\<forall>c. rc_max_margin_per_trade_usdt (li_risk d) = Some c \<longrightarrow> pl_margin p \<le> c"
    using accepted_plan [OF assms] by (auto simp: plan_ok_def search_inputs_def)
  ultimately show ?thesis using act margin_cap_Inr [OF cap] by blast
qed

definition small_account :: LiveSizingInput where
  "small_account = sample_input\<lparr>li_risk := default_live_risk\<lparr>rc_max_margin_per_trade_usdt := Some (11 / 10)\<rparr>,
     li_available_usdt := 12 / 10, li_active_positions := 0\<rparr>"

lemma small_account_plan:
  "\<exists>p. plan_live_position small_account = Inr (Accepted p (16 / 10) (157 / 100) True)"
proof
  show "plan_live_position small_account = Inr (Accepted
     \<lparr>pl_leverage = 20, pl_quantity = 13, pl_margin = 26 / 25, pl_notional = 104 / 5,
      pl_liquidation = 4803 / 3125\<rparr> (16 / 10) (157 / 100) True)"
    by code_simp
qed

theorem all_in_fallback_last_resort_witness: "li_active_positions small_account = 0"
  using small_account_plan all_in_fallback_last_resort by blast

text \<open>
  On every valid input with maintenance tiers below one half and a taker fee below one half,
  whose entry rounds to a positive tick price, the planner returns a decision: it raises nothing.
\<close>

theorem plan_live_position_returns:
  assumes "valid_sizing_input d" and tiers: "sm_mm_tiers (li_meta d) \<noteq> []"
    and mmr: "\<forall>t \<in> set (sm_mm_tiers (li_meta d)). mm_mmr t \<le> 1 / 2" and fee: "li_taker_fee_rate d < 1 / 2"
    and entry: "round_price_to_tick (li_entry d) (sm_price_tick (li_meta d)) = Inr e"
  shows "\<exists>decision. plan_live_position d = Inr decision"
proof -
  let ?cap = "rc_max_margin_per_trade_usdt (li_risk d)"
  have cap: "margin_cap (li_risk d) = Inr ?cap" and cap_pos: "positive_option ?cap"
    using assms(1) by (auto simp: margin_cap_def valid_sizing_input_def live_risk_fields_def positive_option_def split: option.splits)
  have e: "0 < e" using entry by (auto simp: round_price_to_tick_def Let_def split: if_splits)
  have bounded: "0 < capped_by ?cap v" if "0 < v" for v
    using cap_pos that by (auto simp: capped_by_def positive_option_def split: option.splits)
  have low: "5 \<le> fst (search_range d)" by (simp add: search_range_bounds)
  have search: "searchable (search_inputs d ?cap e st)" for st
    using assms(1) tiers mmr fee e cap_pos by (simp add: searchable_def search_inputs_def valid_sizing_input_def)
  have "0 < dec_mul (rc_allocation_pct (li_risk d)) (li_available_usdt d)"
    using assms(1) by (intro dec_mul_pos) (auto simp: valid_sizing_input_def live_risk_fields_def)
  then have alloc: "0 < allocation_margin d ?cap" using bounded by (simp add: allocation_margin_def)
  have "0 < capped_by ?cap (li_available_usdt d)" using bounded assms(1) by (simp add: valid_sizing_input_def)
  then have decide: "\<exists>r. decide_plan d (search_inputs d ?cap e st) (allocation_margin d ?cap) (fst (search_range d)) h = Inr r" for st h
    using decide_plan_total [OF search low alloc] by (simp add: search_inputs_def)
  obtain st where st: "position_stop d = Inr st" using position_stop_total [OF assms(1)] by blast
  obtain lo hi where range: "search_range d = (lo, hi)" by (cases "search_range d")
  show ?thesis
    using decide tiers
    by (auto simp: plan_live_position_def Let_def cap st entry range split: option.split)
qed

theorem plan_live_position_returns_witness: "\<exists>decision. plan_live_position sample_input = Inr decision"
proof (rule plan_live_position_returns [OF sample_valid])
  show "sm_mm_tiers (li_meta sample_input) \<noteq> []" by (simp add: sample_input_def sample_meta_def)
  show "\<forall>t \<in> set (sm_mm_tiers (li_meta sample_input)). mm_mmr t \<le> 1 / 2"
    by (simp add: sample_input_def sample_meta_def)
  show "li_taker_fee_rate sample_input < 1 / 2" by (simp add: sample_input_def)
  show "round_price_to_tick (li_entry sample_input) (sm_price_tick (li_meta sample_input)) = Inr (16 / 10)"
    by code_simp
qed

text \<open>
  A plan accepted for the exact 25/75 route is legal leg by leg: the market quarter and the
  limit three quarters each reach the venue's minimum quantity, reach its minimum notional at
  their own price, and stay within the maximum size of their order type.
\<close>

theorem split_plan_legs_legal:
  assumes "plan_live_position d = Inr (Accepted p entry stop fallback)"
    and "li_split_market_price d = Some market" and "li_split_limit_price d = Some limit"
  shows "let mq = dec_div (pl_quantity p) 4; lq = dec_mul (pl_quantity p) (75 / 100); meta = li_meta d in
    sm_min_order_qty meta \<le> mq \<and> sm_min_order_qty meta \<le> lq
    \<and> sm_min_notional meta \<le> dec_mul (dec_mul mq market) (sm_contract_value meta)
    \<and> sm_min_notional meta \<le> dec_mul (dec_mul lq limit) (sm_contract_value meta)
    \<and> (\<forall>m. sm_max_market_order_qty meta = Some m \<longrightarrow> mq \<le> m)
    \<and> (\<forall>m. sm_max_order_qty meta = Some m \<longrightarrow> lq \<le> m)"
proof -
  have "split_quantity_failure (li_meta d) (pl_quantity p) market limit = None"
    using accepted_plan [OF assms(1)] assms(2,3) by (auto simp: plan_ok_def search_inputs_def split_prices_def)
  then show ?thesis
    by (auto simp: split_quantity_failure_def split_leg_failure_def Let_def not_less
             split: option.splits if_splits)
qed

definition split_input :: LiveSizingInput where
  "split_input = sample_input\<lparr>li_split_market_price := Some (16 / 10), li_split_limit_price := Some (158 / 100),
     li_risk := (li_risk sample_input)\<lparr>rc_max_margin_per_trade_usdt := Some 2\<rparr>,
     li_available_usdt := 20\<rparr>"

lemma split_plan:
  "plan_live_position split_input = Inr (Accepted
     \<lparr>pl_leverage = 20, pl_quantity = 24, pl_margin = 48 / 25, pl_notional = 192 / 5,
      pl_liquidation = 4803 / 3125\<rparr> (16 / 10) (157 / 100) False)"
  by code_simp

theorem split_plan_legs_legal_witness:
  "sm_min_notional (li_meta split_input) \<le> dec_mul (dec_mul (dec_div 24 4) (16 / 10)) (sm_contract_value (li_meta split_input))"
  using split_plan_legs_legal [OF split_plan, of "16 / 10" "158 / 100"]
  by (simp add: Let_def split_input_def)

end
