(* ===== verification/Capability.thy ===== *)
theory Capability
  imports Domain_Model
begin

text \<open>
  \<open>exchanges/bitget/protection_capability.py\<close>: what is known of a symbol's protection lane and when
  a new position may be admitted from it. Instants are aware timestamps in microseconds, as the
  \<open>timestamptz\<close> columns give them; \<open>stale_after\<close> is a number of seconds.
\<close>

section \<open>Data\<close>

datatype NativeProtectionState = N_UNKNOWN | N_VERIFIED | N_UNSUPPORTED | N_FAILED

datatype StreamState = S_DISABLED | S_CONNECTING | S_HEALTHY | S_STALE | S_FAILED

fun native_value :: "NativeProtectionState \<Rightarrow> string" where
  "native_value N_UNKNOWN = ''UNKNOWN''"
| "native_value N_VERIFIED = ''VERIFIED''"
| "native_value N_UNSUPPORTED = ''UNSUPPORTED''"
| "native_value N_FAILED = ''FAILED''"

fun stream_value :: "StreamState \<Rightarrow> string" where
  "stream_value S_DISABLED = ''DISABLED''"
| "stream_value S_CONNECTING = ''CONNECTING''"
| "stream_value S_HEALTHY = ''HEALTHY''"
| "stream_value S_STALE = ''STALE''"
| "stream_value S_FAILED = ''FAILED''"

text \<open>The enum lookup \<open>NativeProtectionState(str(value).upper())\<close>; \<open>None\<close> for a text that is no member.\<close>

definition native_state_of :: "string \<Rightarrow> NativeProtectionState option" where
  "native_state_of v =
     List.find (\<lambda>s. native_value s = str_upper v) [N_UNKNOWN, N_VERIFIED, N_UNSUPPORTED, N_FAILED]"

definition stream_state_of :: "string \<Rightarrow> StreamState option" where
  "stream_state_of v =
     List.find (\<lambda>s. stream_value s = str_upper v) [S_DISABLED, S_CONNECTING, S_HEALTHY, S_STALE, S_FAILED]"

record BitgetProtectionCapability =
  cp_exchange :: string
  cp_environment :: string
  cp_symbol :: string
  cp_position_mode :: string
  cp_margin_mode :: string
  cp_native_state :: NativeProtectionState
  cp_fallback_allowed :: bool
  cp_payload_profile :: string
  cp_last_verified_at :: "int option"
  cp_last_error :: "string option"
  cp_stream_state :: StreamState
  cp_last_stream_at :: "int option"

definition make_capability :: "BitgetProtectionCapability \<Rightarrow> (Exn, BitgetProtectionCapability) raises" where
  "make_capability c =
     (if str_strip (cp_exchange c) = [] then Inl (ValueError ''protection capability exchange is required'')
      else if str_strip (cp_environment c) = [] then Inl (ValueError ''protection capability environment is required'')
      else if str_strip (cp_symbol c) = [] then Inl (ValueError ''protection capability symbol is required'')
      else if str_strip (cp_position_mode c) = [] \<or> str_strip (cp_margin_mode c) = []
      then Inl (ValueError ''protection capability account modes are required'')
      else if str_strip (cp_payload_profile c) = []
      then Inl (ValueError ''protection capability payload profile is required'')
      else Inr c)"

text \<open>The dataclass defaults.\<close>

definition default_capability :: "string \<Rightarrow> string \<Rightarrow> string \<Rightarrow> BitgetProtectionCapability" where
  "default_capability exchange environment symbol =
     \<lparr>cp_exchange = exchange, cp_environment = environment, cp_symbol = symbol, cp_position_mode = ''one_way_mode'',
      cp_margin_mode = ''isolated'', cp_native_state = N_UNKNOWN, cp_fallback_allowed = False,
      cp_payload_profile = ''classic-v2-position'', cp_last_verified_at = None, cp_last_error = None,
      cp_stream_state = S_DISABLED, cp_last_stream_at = None\<rparr>"

section \<open>Admission\<close>

definition fresh_event :: "int option \<Rightarrow> int \<Rightarrow> rat \<Rightarrow> bool" where
  "fresh_event last_event now stale_after =
     (case last_event of
        None \<Rightarrow> False
      | Some t \<Rightarrow> \<not> stale_after < 0 \<and> 0 \<le> now - t \<and> of_int (now - t) \<le> stale_after * 1000000)"

definition can_admit_symbol ::
  "BitgetProtectionCapability \<Rightarrow> int \<Rightarrow> rat \<Rightarrow> string option \<Rightarrow> bool \<times> string" where
  "can_admit_symbol c now stale_after required_environment =
     (if (case required_environment of None \<Rightarrow> False
          | Some e \<Rightarrow> str_upper (str_strip (cp_environment c)) \<noteq> str_upper (str_strip e))
      then (False, ''protection-capability-environment-mismatch'')
      else let native = native_state_of (native_value (cp_native_state c)) in
      if native = Some N_VERIFIED then (True, ''native-protected'')
      else if native = Some N_UNKNOWN \<and> \<not> cp_fallback_allowed c then (False, ''protection-capability-unknown'')
      else if \<not> cp_fallback_allowed c then (False, ''fallback-not-allowed'')
      else if stream_state_of (stream_value (cp_stream_state c)) \<noteq> Some S_HEALTHY
      then (False, ''fallback-stream-not-healthy'')
      else if \<not> fresh_event (cp_last_stream_at c) now stale_after
      then (if cp_last_stream_at c = None then (False, ''fallback-stream-never-ready'')
            else (False, ''fallback-stream-stale''))
      else (True, ''fresh-fallback-stream''))"

section \<open>Lemmas\<close>

lemma native_state_value [simp]: "native_state_of (native_value s) = Some s"
  by (cases s; hypsubst; code_simp)

lemma stream_state_value [simp]: "stream_state_of (stream_value s) = Some s"
  by (cases s; hypsubst; code_simp)

text \<open>Admission is exactly a verified native lane, or an allowed fallback lane with a healthy and
  fresh stream, in the required environment.\<close>

lemma can_admit_symbol_iff:
  "fst (can_admit_symbol c now stale_after required) \<longleftrightarrow>
     (\<forall>e. required = Some e \<longrightarrow> str_upper (str_strip (cp_environment c)) = str_upper (str_strip e))
     \<and> (cp_native_state c = N_VERIFIED
        \<or> cp_fallback_allowed c \<and> cp_stream_state c = S_HEALTHY \<and> fresh_event (cp_last_stream_at c) now stale_after)"
  by (auto simp: can_admit_symbol_def Let_def split: option.splits)

end
