(* ===== verification/Raw_Json.thy ===== *)
theory Raw_Json
  imports Dec28 Trader_Prelude
begin

text \<open>
  What the code uses of Python's \<open>json\<close> and of the \<open>Decimal\<close> constructor. Provider payloads are
  JSON values; a float is carried as its \<open>repr\<close> text, and \<open>JDec\<close> is a \<open>Decimal\<close> the code itself
  stored in a payload. \<open>parse_decimal\<close> is \<open>Decimal(text)\<close> restricted to finite results: a text the
  constructor refuses and a non-finite one both give \<open>None\<close>.
\<close>

datatype JSON = JNull | JBool bool | JInt int | JFloat string | JStr string | JDec dec
  | JList "JSON list" | JObj "(string \<times> JSON) list"

type_synonym payload = "(string \<times> JSON) list"

section \<open>Decimal texts\<close>

definition is_digit :: "char \<Rightarrow> bool" where
  "is_digit c \<longleftrightarrow> of_char c \<ge> (48 :: int) \<and> of_char c \<le> (57 :: int)"

definition digit_val :: "char \<Rightarrow> int" where
  "digit_val c = of_char c - 48"

definition digits_val :: "string \<Rightarrow> int" where
  "digits_val ds = foldl (\<lambda>n c. 10 * n + digit_val c) 0 ds"

definition split_sign :: "string \<Rightarrow> int \<times> string" where
  "split_sign s = (case s of [] \<Rightarrow> (1, [])
     | c # t \<Rightarrow> if c = CHR ''-'' then (- 1, t) else if c = CHR ''+'' then (1, t) else (1, s))"

definition parse_exponent :: "string \<Rightarrow> int option" where
  "parse_exponent s =
     (case s of [] \<Rightarrow> Some 0
      | c # t \<Rightarrow>
          if c \<noteq> CHR ''e'' \<and> c \<noteq> CHR ''E'' then None
          else let (sg, ds) = split_sign t in
            if ds \<noteq> [] \<and> list_all is_digit ds then Some (sg * digits_val ds) else None)"

definition parse_decimal :: "string \<Rightarrow> dec option" where
  "parse_decimal s =
     (let (sg, t) = split_sign (filter (\<lambda>c. c \<noteq> CHR ''_'') (str_strip s));
          ip = takeWhile is_digit t; r1 = dropWhile is_digit t;
          (fp, r2) = (case r1 of c # r \<Rightarrow> if c = CHR ''.'' then (takeWhile is_digit r, dropWhile is_digit r) else ([], r1)
                      | [] \<Rightarrow> ([], []))
      in if ip @ fp = [] then None
         else case parse_exponent r2 of
                None \<Rightarrow> None
              | Some e \<Rightarrow> Some (of_int (sg * digits_val (ip @ fp)) * pow10 (e - int (length fp))))"

section \<open>Python renderings\<close>

fun show_digits :: "nat \<Rightarrow> int \<Rightarrow> string \<Rightarrow> string" where
  "show_digits 0 n acc = acc"
| "show_digits (Suc fuel) n acc =
     (let acc' = char_of (48 + n mod 10) # acc in if n < 10 then acc' else show_digits fuel (n div 10) acc')"

definition show_int :: "int \<Rightarrow> string" where
  "show_int n = (let ds = show_digits (ndigits \<bar>n\<bar> + 1) \<bar>n\<bar> [] in if n < 0 then CHR ''-'' # ds else ds)"

text \<open>\<open>str(value)\<close> for the values that identify things; a composite value or a \<open>Decimal\<close> never does.\<close>

fun py_str :: "JSON \<Rightarrow> string" where
  "py_str (JStr s) = s"
| "py_str (JInt n) = show_int n"
| "py_str (JFloat s) = s"
| "py_str JNull = ''None''"
| "py_str (JBool b) = (if b then ''True'' else ''False'')"
| "py_str _ = []"

text \<open>\<open>_to_decimal(value)\<close> of \<open>exchanges/bitget/live.py\<close>: \<open>Decimal(str(value))\<close> when finite.\<close>

fun to_decimal :: "JSON \<Rightarrow> dec option" where
  "to_decimal (JInt n) = Some (of_int n)"
| "to_decimal (JDec d) = Some d"
| "to_decimal (JFloat s) = parse_decimal s"
| "to_decimal (JStr s) = parse_decimal s"
| "to_decimal _ = None"

text \<open>Truthiness of a value (\<open>value or default\<close>).\<close>

fun py_true :: "JSON \<Rightarrow> bool" where
  "py_true JNull = False"
| "py_true (JBool b) = b"
| "py_true (JInt n) = (n \<noteq> 0)"
| "py_true (JFloat s) = (parse_decimal s \<noteq> Some 0)"
| "py_true (JStr s) = (s \<noteq> [])"
| "py_true (JDec d) = (d \<noteq> 0)"
| "py_true (JList xs) = (xs \<noteq> [])"
| "py_true (JObj kvs) = (kvs \<noteq> [])"

section \<open>Dictionaries\<close>

text \<open>\<open>d.get(k1, d.get(k2, ... default))\<close>: the first key that is present, whatever its value.\<close>

fun get_first :: "payload \<Rightarrow> string list \<Rightarrow> JSON \<Rightarrow> JSON" where
  "get_first d [] dflt = dflt"
| "get_first d (k # ks) dflt = (case map_of d k of Some v \<Rightarrow> v | None \<Rightarrow> get_first d ks dflt)"

text \<open>\<open>d[k] = v\<close>: the value of an existing key in place, a new key last.\<close>

fun dict_put :: "string \<Rightarrow> 'v \<Rightarrow> (string \<times> 'v) list \<Rightarrow> (string \<times> 'v) list" where
  "dict_put k v [] = [(k, v)]"
| "dict_put k v ((k', v') # d) = (if k' = k then (k, v) # d else (k', v') # dict_put k v d)"

lemma map_of_dict_put [simp]: "map_of (dict_put k v d) = (map_of d)(k \<mapsto> v)"
  by (induction d) auto

lemma get_first_dict_put:
  "k \<notin> set ks \<Longrightarrow> get_first (dict_put k v d) ks dflt = get_first d ks dflt"
  by (induction ks) (auto split: option.split)

section \<open>\<open>json.loads\<close>\<close>

definition skip_ws :: "string \<Rightarrow> string" where
  "skip_ws = dropWhile (\<lambda>c. c \<in> {CHR '' '', CHR 0x09, CHR 0x0A, CHR 0x0D})"

fun hex_val :: "char \<Rightarrow> int option" where
  "hex_val c = (if is_digit c then Some (digit_val c)
     else let n = of_char (lower_char c) in if 97 \<le> n \<and> n \<le> 102 then Some (n - 87) else None)"

text \<open>A string literal after its opening quote; code points above 255 are refused.\<close>

fun parse_string :: "string \<Rightarrow> (string \<times> string) option" where
  "parse_string [] = None"
| "parse_string (c # s) =
     (if c = CHR 0x22 then Some ([], s)
      else if c = CHR 0x5C then
        (case s of
           [] \<Rightarrow> None
         | e # t \<Rightarrow>
             if e = CHR ''u'' then
               (case t of
                  a # b # g # h # u \<Rightarrow>
                    (case (hex_val a, hex_val b, hex_val g, hex_val h) of
                       (Some z, Some w, Some x, Some y) \<Rightarrow>
                         if z \<noteq> 0 \<or> w \<noteq> 0 then None
                         else map_option (\<lambda>(l, r). (char_of (16 * x + y) # l, r)) (parse_string u)
                     | _ \<Rightarrow> None)
                | _ \<Rightarrow> None)
             else (case map_of [(CHR 0x22, CHR 0x22), (CHR 0x5C, CHR 0x5C), (CHR ''/'', CHR ''/''),
                     (CHR ''b'', CHR 0x08), (CHR ''f'', CHR 0x0C), (CHR ''n'', CHR 0x0A),
                     (CHR ''r'', CHR 0x0D), (CHR ''t'', CHR 0x09)] e of
                    None \<Rightarrow> None
                  | Some x \<Rightarrow> map_option (\<lambda>(l, r). (x # l, r)) (parse_string t)))
      else if of_char c < (32 :: int) then None
      else map_option (\<lambda>(l, r). (c # l, r)) (parse_string s))"

definition number_char :: "char \<Rightarrow> bool" where
  "number_char c \<longleftrightarrow> is_digit c \<or> c \<in> {CHR ''-'', CHR ''+'', CHR ''.'', CHR ''e'', CHR ''E''}"

definition valid_number :: "string \<Rightarrow> bool" where
  "valid_number t =
     (let u = (if t \<noteq> [] \<and> hd t = CHR ''-'' then tl t else t); ip = takeWhile is_digit u; r = dropWhile is_digit u;
          r' = (case r of c # q \<Rightarrow> if c = CHR ''.'' then (if takeWhile is_digit q = [] then CHR ''!'' # q else dropWhile is_digit q) else r
                | [] \<Rightarrow> [])
      in ip \<noteq> [] \<and> (length ip = 1 \<or> hd ip \<noteq> CHR ''0'') \<and> parse_exponent r' \<noteq> None)"

definition parse_number :: "string \<Rightarrow> (JSON \<times> string) option" where
  "parse_number s =
     (let t = takeWhile number_char s; r = dropWhile number_char s in
      if \<not> valid_number t then None
      else if list_all (\<lambda>c. is_digit c \<or> c = CHR ''-'') t
      then Some (JInt (let (sg, ds) = split_sign t in sg * digits_val ds), r)
      else Some (JFloat t, r))"

definition literals :: "(string \<times> JSON) list" where
  "literals = [(''null'', JNull), (''true'', JBool True), (''false'', JBool False)]"

text \<open>The recursive-descent parser. Every call consumes a character before it recurses, so fuel equal
  to the length of the text plus one is enough.\<close>

fun parse_value :: "nat \<Rightarrow> string \<Rightarrow> (JSON \<times> string) option"
and parse_items :: "nat \<Rightarrow> string \<Rightarrow> (JSON list \<times> string) option"
and parse_members :: "nat \<Rightarrow> string \<Rightarrow> (payload \<times> string) option" where
  "parse_value 0 s = None"
| "parse_value (Suc n) s =
     (case skip_ws s of
        [] \<Rightarrow> None
      | c # t \<Rightarrow>
          if c = CHR 0x22 then map_option (\<lambda>(x, r). (JStr x, r)) (parse_string t)
          else if c = CHR ''['' then
            (case skip_ws t of
               [] \<Rightarrow> None
             | e # u \<Rightarrow> if e = CHR '']'' then Some (JList [], u)
                 else map_option (\<lambda>(xs, r). (JList xs, r)) (parse_items n t))
          else if c = CHR 0x7B then
            (case skip_ws t of
               [] \<Rightarrow> None
             | e # u \<Rightarrow> if e = CHR 0x7D then Some (JObj [], u)
                 else map_option (\<lambda>(kvs, r). (JObj (foldl (\<lambda>d (k, v). dict_put k v d) [] kvs), r))
                        (parse_members n t))
          else case List.find (\<lambda>(w, _). starts_with (c # t) w) literals of
                 Some (w, v) \<Rightarrow> Some (v, drop (length w) (c # t))
               | None \<Rightarrow> parse_number (c # t))"
| "parse_items 0 s = None"
| "parse_items (Suc n) s =
     (case parse_value n s of
        None \<Rightarrow> None
      | Some (v, r) \<Rightarrow>
          (case skip_ws r of
             [] \<Rightarrow> None
           | c # t \<Rightarrow> if c = CHR '','' then map_option (\<lambda>(vs, q). (v # vs, q)) (parse_items n t)
               else if c = CHR '']'' then Some ([v], t) else None))"
| "parse_members 0 s = None"
| "parse_members (Suc n) s =
     (case skip_ws s of
        [] \<Rightarrow> None
      | q # t \<Rightarrow>
          if q \<noteq> CHR 0x22 then None
          else case parse_string t of
                 None \<Rightarrow> None
               | Some (k, r) \<Rightarrow>
                   (case skip_ws r of
                      [] \<Rightarrow> None
                    | c # u \<Rightarrow>
                        if c \<noteq> CHR '':'' then None
                        else case parse_value n u of
                               None \<Rightarrow> None
                             | Some (v, w) \<Rightarrow>
                                 (case skip_ws w of
                                    [] \<Rightarrow> None
                                  | d # x \<Rightarrow>
                                      if d = CHR '','' then map_option (\<lambda>(kvs, y). ((k, v) # kvs, y)) (parse_members n x)
                                      else if d = CHR 0x7D then Some ([(k, v)], x) else None)))"

definition json_loads :: "string \<Rightarrow> JSON option" where
  "json_loads s =
     (case parse_value (2 * length s + 2) s of
        Some (v, r) \<Rightarrow> if skip_ws r = [] then Some v else None | None \<Rightarrow> None)"

end
