(* ===== verification/Trade_Store.thy ===== *)
theory Trade_Store
  imports Capability Raw_Json
begin

text \<open>
  The durable tables the LIVE lane shares, as lists of rows (\<open>storage/schema.py\<close>,
  \<open>storage/migrations.py\<close>, \<open>storage/verified_close_schema.py\<close>,
  \<open>storage/bitget_baseline_schema.py\<close>), with the constraints the code relies on. A storage
  operation is one transaction: a function of the database that returns the committed database and
  a result, or \<open>Inl\<close> the exception, in which case the transaction is rolled back and the caller's
  database stands. Timestamps and intervals are integers (microseconds), UUIDs are integers;
  \<open>uuid4()\<close> and clock readings are arguments of the operations. JSON evidence columns, written for
  audit and never read back by the code modelled here, are left out.
\<close>

type_synonym UUID = int
type_synonym timestamp = int
type_synonym interval = int

section \<open>Rows\<close>

datatype ReservationState = R_reserved | R_unknown | R_consumed | R_released

datatype IntentState =
    I_staged | I_requested | I_acknowledged | I_submitted | I_partially_filled | I_filled
  | I_cancelled | I_rejected | I_unknown | I_reconciled

datatype IntentRole = ENTRY | SL | TP | CLOSE | EMERGENCY_CLOSE

record LiveIntentRecord =
  it_exchange :: Exchange
  it_client_oid :: string
  it_symbol :: string
  it_side :: string
  it_role :: IntentRole
  it_state :: IntentState
  it_requested_qty :: dec
  it_filled_qty :: dec
  it_avg_price :: "dec option"
  it_fee :: dec
  it_provider_order_id :: "string option"
  it_provider_fill_ids :: "string list"
  it_provider_fills :: "payload list"
  it_planned_leverage :: "int option"
  it_planned_margin_usdt :: "dec option"
  it_planned_notional_usdt :: "dec option"
  it_margin_mode :: "string option"
  it_balance_snapshot_id :: "UUID option"
  it_margin_reservation_id :: "UUID option"
  it_planned_stop_loss :: "dec option"
  it_planned_take_profits :: "dec list option"
  it_dispatch_id :: "UUID option"
  it_entry_leg :: "string option"
  it_order_type :: string
  it_limit_price :: "dec option"
  it_cancel_requested_by :: "UUID option"
  it_provider_terminal :: bool
  it_cancel_post_claimed :: bool
  it_active_stop_loss_price :: "dec option"
  it_stop_mutation_root_oid :: "string option"
  it_stop_mutation_take_profit_id :: "string option"
  it_protection_root_oid :: "string option"
  it_active_take_profit_price :: "dec option"

text \<open>A stored intent carries its creation time; its primary key is derived from the exchange and
  the client order id (\<open>uuid5\<close>), which stand for it here.\<close>

record IntentRow = LiveIntentRecord +
  it_created_at :: timestamp

record Reservation =
  rs_id :: UUID
  rs_dispatch_id :: UUID
  rs_client_order_id :: string
  rs_balance_snapshot_id :: UUID
  rs_planned_margin_usdt :: dec
  rs_symbol :: "string option"
  rs_environment :: "string option"
  rs_legacy_binding_symbol :: "string option"
  rs_state :: ReservationState
  rs_expires_at :: timestamp
  rs_created_at :: timestamp
  rs_resolved_at :: "timestamp option"
  rs_resolution_reason :: "string option"
  rs_has_exposure :: bool

record BalanceSnapshot =
  bs_id :: UUID
  bs_total_balance :: dec
  bs_available_balance :: dec
  bs_equity :: dec
  bs_margin_coin :: string
  bs_captured_at :: timestamp

record Fill =
  fl_exchange :: Exchange
  fl_client_order_id :: string
  fl_provider_fill_id :: string
  fl_symbol :: string
  fl_price :: dec
  fl_quantity :: dec
  fl_fee :: dec
  fl_realized_pnl :: dec
  fl_filled_at :: timestamp

record CloseBinding =
  cb_close_client_order_id :: string
  cb_reservation_id :: UUID

datatype BaselineRecord = B_intent Exchange string | B_dispatch UUID | B_reservation UUID

record PostFillObservation =
  po_exchange :: string
  po_client_order_id :: string
  po_planned_leverage :: dec
  po_planned_margin_usdt :: dec
  po_planned_notional_usdt :: "dec option"
  po_observed_leverage :: "dec option"
  po_observed_margin_mode :: "string option"
  po_observed_quantity :: "dec option"
  po_observed_entry_price :: "dec option"
  po_observed_mark_price :: "dec option"
  po_observed_margin_usdt :: "dec option"
  po_status :: string
  po_reason :: "string option"
  po_observed_at :: timestamp
  po_created_at :: timestamp   \<comment> \<open>the column default, the database clock\<close>

record ProviderEvent =
  pe_exchange :: string
  pe_provider_fill_id :: string
  pe_client_order_id :: string
  pe_symbol :: string
  pe_source :: string

record SourceMessage =
  tm_id :: UUID
  tm_channel_id :: int
  tm_message_id :: int
  tm_ingestion_origin :: string
  tm_received_at :: "timestamp option"        \<comment> \<open>\<open>None\<close>: infinite\<close>
  tm_entry_expires_at :: "timestamp option"   \<comment> \<open>\<open>None\<close>: infinite\<close>
  tm_entry_rejection_reason :: "string option"
  tm_re_admission_reference :: "string option"
  tm_raw_text :: string
  tm_revision_hash :: string

record SignalRow =
  sg_id :: UUID
  sg_message_id :: UUID
  sg_revision :: string
  sg_pair_token :: string
  sg_direction :: string
  sg_entry_price :: dec
  sg_stop_loss :: dec
  sg_take_profits :: "dec list"

record ManualEntry =
  me_id :: UUID
  me_job_id :: UUID
  me_expires_at :: timestamp
  me_symbol :: string
  me_direction :: string
  me_entry_price :: dec
  me_stop_loss :: dec
  me_take_profits :: "dec list"
  me_order_type :: string

record DispatchRow =
  ds_id :: UUID
  ds_source_id :: UUID
  ds_source_type :: string
  ds_revision :: string
  ds_exchange :: Exchange
  ds_state :: DispatchState
  ds_terminal_reason :: "string option"
  ds_claimed_by :: "string option"
  ds_lease_until :: "timestamp option"
  ds_attempts :: int
  ds_created_at :: timestamp
  ds_updated_at :: timestamp

record TransitionRow =
  tr_id :: UUID
  tr_dispatch_id :: UUID
  tr_from :: DispatchState
  tr_to :: DispatchState
  tr_reason :: "string option"

text \<open>The deduplication key of an outbox row: the parts of the text the code formats, by kind.\<close>

datatype DedupKey =
    DispatchTransitionKey UUID DispatchState DispatchState string
  | DispatchAlertKey UUID string
  | OrphanRetirementKey string
  | ProtectionSettledKey string
  | RecoveryBlockedKey string
  | KillSwitchKey string string int
  | KillSwitchReleaseKey string string
  | ProtectionAlertKey string string
  | ManagementDeadLetterKey UUID
  | ManagementOutcomeKey UUID

record KillSwitchRow =
  ks_scope :: string
  ks_active :: bool
  ks_reason :: string
  ks_latched_at :: "timestamp option"
  ks_updated_at :: timestamp

datatype FallbackState = FB_active | FB_closing | FB_triggered | FB_cancelled

record FallbackRow =
  fb_id :: string
  fb_exchange :: string
  fb_symbol :: string
  fb_direction :: string
  fb_entry_price :: dec
  fb_stop_loss :: dec
  fb_take_profits :: "dec list"
  fb_quantity :: dec
  fb_position_key :: "string option"
  fb_provider_position_epoch :: "string option"
  fb_environment :: "string option"
  fb_state :: FallbackState
  fb_close_price :: "dec option"
  fb_close_reason :: "string option"
  fb_close_order_id :: "string option"

datatype ManagementAction = TP1_BOOKED | TP_BOOKED | SL_TO_ENTRY | MANAGED_CLOSE

record ManagementRow =
  mu_id :: UUID
  mu_source_message_id :: UUID
  mu_revision :: string
  mu_symbol :: string
  mu_action :: ManagementAction
  mu_state :: string
  mu_claimed_by :: "string option"
  mu_claimed_at :: "timestamp option"
  mu_updated_at :: timestamp
  mu_attempts :: int
  mu_last_error :: "string option"
  mu_deadline_at :: "timestamp option"

record AuditedBaseline =
  ab_account_id :: string
  ab_environment :: string

record AdmissionPause =
  ap_scope :: string
  ap_active :: bool

section \<open>The database\<close>

record Db =
  db_dispatches :: "DispatchRow list"
  db_signals :: "SignalRow list"
  db_messages :: "SourceMessage list"
  db_manual_entries :: "ManualEntry list"
  db_running_jobs :: "UUID list"
  db_reservations :: "Reservation list"
  db_snapshots :: "BalanceSnapshot list"
  db_intents :: "IntentRow list"
  db_fills :: "Fill list"
  db_bindings :: "CloseBinding list"
  db_baseline :: "BaselineRecord list"
  db_provider_events :: "ProviderEvent list"
  db_post_fill :: "PostFillObservation list"
  db_transitions :: "TransitionRow list"
  db_outbox :: "DedupKey list"
  db_canary :: "(UUID \<times> string) list"
  db_kill_switches :: "KillSwitchRow list"
  db_capabilities :: "BitgetProtectionCapability list"
  db_fallback :: "FallbackRow list"
  db_baselines :: "AuditedBaseline list"
  db_pauses :: "AdmissionPause list"
  db_management :: "ManagementRow list"
  db_management_intents :: "(UUID \<times> string) list"

type_synonym 'a transaction = "(Exn, Db \<times> 'a) raises"

text \<open>A transaction inside a larger world: committed to the world's database, or raised and nothing changed.\<close>

definition transactW ::
  "('w \<Rightarrow> Db) \<Rightarrow> (Db \<Rightarrow> 'w \<Rightarrow> 'w) \<Rightarrow> (Db \<Rightarrow> 'a transaction) \<Rightarrow> ('w, 'a) prog" where
  "transactW get put f w = (case f (get w) of Inl e \<Rightarrow> (Inl e, w) | Inr (db, a) \<Rightarrow> (Inr a, put db w))"

definition unitT :: "(Exn, Db) raises \<Rightarrow> unit transaction" where
  "unitT r = bindE r (\<lambda>db. Inr (db, ()))"

lemma unitT_simps [run_simps]: "unitT r = Inr (db, u) \<longleftrightarrow> r = Inr db" "unitT r = Inl e \<longleftrightarrow> r = Inl e"
  by (cases r; simp add: unitT_def)+

lemma triple_transact:
  assumes "\<And>w db a. P w \<Longrightarrow> f (get w) = Inr (db, a) \<Longrightarrow> Q a (put db w)" "\<And>w e. P w \<Longrightarrow> f (get w) = Inl e \<Longrightarrow> E e w"
  shows "triple P (transactW get put f) Q E"
  unfolding triple_def
proof (intro allI impI)
  fix w assume "P w"
  then show "case transactW get put f w of (Inr x, w') \<Rightarrow> Q x w' | (Inl e, w') \<Rightarrow> E e w'"
    using assms [of w] by (cases "f (get w)") (auto simp: transactW_def)
qed

definition owning :: "ReservationState \<Rightarrow> bool" where
  "owning s \<longleftrightarrow> s \<in> {R_reserved, R_unknown, R_consumed}"

definition in_flight :: "ReservationState \<Rightarrow> bool" where
  "in_flight s \<longleftrightarrow> s \<in> {R_reserved, R_unknown}"

lemma owning_simps [simp]: "owning R_reserved" "owning R_unknown" "owning R_consumed" "\<not> owning R_released"
  by (simp_all add: owning_def)

lemma in_flight_simps [simp]: "in_flight R_reserved" "in_flight R_unknown" "\<not> in_flight R_consumed" "\<not> in_flight R_released"
  by (simp_all add: in_flight_def)

lemma in_flight_owning: "in_flight s \<Longrightarrow> owning s"
  by (cases s) simp_all

definition binding_symbol :: "Reservation \<Rightarrow> string option" where
  "binding_symbol r = (case rs_symbol r of None \<Rightarrow> rs_legacy_binding_symbol r | Some s \<Rightarrow> Some s)"

text \<open>The unique keys of \<open>bitget_margin_reservations\<close>: the primary key, the client order id, one
  in-flight commitment per dispatch, one owner per environment and symbol (SQL nulls are distinct).\<close>

definition symbol_owner :: "Reservation \<Rightarrow> (string \<times> string) option" where
  "symbol_owner r =
     (if owning (rs_state r)
      then case (rs_environment r, rs_symbol r) of (Some e, Some s) \<Rightarrow> Some (e, s) | _ \<Rightarrow> None
      else None)"

definition reservation_keys :: "Reservation list \<Rightarrow> bool" where
  "reservation_keys rs \<longleftrightarrow>
     distinct (map rs_id rs) \<and> distinct (map rs_client_order_id rs)
     \<and> distinct (map rs_dispatch_id (filter (\<lambda>r. in_flight (rs_state r)) rs))
     \<and> distinct (List.map_filter symbol_owner rs)"

text \<open>The row checks: a positive margin, and a symbol and an environment together or not at all.\<close>

definition reservation_check :: "Reservation \<Rightarrow> bool" where
  "reservation_check r \<longleftrightarrow> 0 < rs_planned_margin_usdt r
     \<and> (case (rs_symbol r, rs_environment r) of
          (None, None) \<Rightarrow> True
        | (Some s, Some e) \<Rightarrow> str_strip s \<noteq> [] \<and> e \<in> {''DEMO'', ''LIVE''}
        | _ \<Rightarrow> False)"

definition reservations_ok :: "Reservation list \<Rightarrow> bool" where
  "reservations_ok rs \<longleftrightarrow> reservation_keys rs \<and> (\<forall>r \<in> set rs. reservation_check r)"

text \<open>A statement that writes the table: refused, with the transaction, when it breaks a constraint.\<close>

definition write_reservations :: "Reservation list \<Rightarrow> Db \<Rightarrow> (Exn, Db) raises" where
  "write_reservations rs db =
     (if reservations_ok rs then Inr (db\<lparr>db_reservations := rs\<rparr>)
      else Inl (StorageError ''bitget_margin_reservations constraint''))"

lemma write_reservations_Inr [run_simps]:
  "write_reservations rs db = Inr db' \<longleftrightarrow> reservations_ok rs \<and> db' = db\<lparr>db_reservations := rs\<rparr>"
  by (auto simp: write_reservations_def)

definition baselined_reservation :: "Db \<Rightarrow> UUID \<Rightarrow> bool" where
  "baselined_reservation db i \<longleftrightarrow> B_reservation i \<in> set (db_baseline db)"

definition find_intent :: "Db \<Rightarrow> Exchange \<Rightarrow> string \<Rightarrow> IntentRow option" where
  "find_intent db ex oid = List.find (\<lambda>i. it_exchange i = ex \<and> it_client_oid i = oid) (db_intents db)"

section \<open>Shared lemmas\<close>

lemma update_where_id: "(\<And>r. r \<in> set rs \<Longrightarrow> \<not> p r) \<Longrightarrow> update_where p f rs = rs"
  by (induction rs) auto

lemma sum_list_filter_update_le:
  fixes g :: "'r \<Rightarrow> rat"
  assumes "\<And>r. r \<in> set rs \<Longrightarrow> p r \<Longrightarrow> (if q (f r) then g (f r) else 0) \<le> (if q r then g r else 0)"
  shows "sum_list (map g (filter q (update_where p f rs))) \<le> sum_list (map g (filter q rs))"
  using assms
proof (induction rs)
  case (Cons r rs)
  then have "sum_list (map g (filter q (update_where p f rs))) \<le> sum_list (map g (filter q rs))" by simp
  with Cons.prems [of r] show ?case by (auto split: if_splits)
qed simp

text \<open>Updates that keep a row's owner keep the table's symbol owners.\<close>

lemma map_filter_update_where:
  "(\<And>r. p r \<Longrightarrow> k (f r) = k r) \<Longrightarrow> List.map_filter k (update_where p f rs) = List.map_filter k rs"
  by (induction rs) (auto simp: List.map_filter_simps split: option.split)

lemma set_map_filter: "set (List.map_filter k rs) = {x. \<exists>r \<in> set rs. k r = Some x}"
  by (induction rs) (auto simp: List.map_filter_simps split: option.split)

end
