(* ===== verification/Freshness.thy ===== *)
theory Freshness
  imports Trade_Store
begin

text \<open>
  \<open>intake/freshness.py\<close>: when a source message may still open a position, read on the database
  clock, and the audited retirement of a dispatch whose message is too old.
\<close>

section \<open>Eligibility\<close>

definition accepted_origin :: "string \<Rightarrow> bool" where
  "accepted_origin origin = (origin \<in> {''realtime'', ''catchup'', ''backfill''})"

definition edit_vetoed :: "Db \<Rightarrow> SourceMessage \<Rightarrow> bool" where
  "edit_vetoed db m \<longleftrightarrow>
     (\<exists>e \<in> set (db_messages db). tm_channel_id e = tm_channel_id m \<and> tm_message_id e = tm_message_id m
        \<and> tm_entry_rejection_reason e = Some ''edited-source-message'')"

definition fresh_window :: "timestamp \<Rightarrow> SourceMessage \<Rightarrow> bool" where
  "fresh_window now m =
     (case (tm_received_at m, tm_entry_expires_at m) of
        (Some received, Some expires) \<Rightarrow>
          now < expires \<and> now - 300000000 < received \<and> received \<le> now + 30000000
      | _ \<Rightarrow> False)"

text \<open>\<open>SOURCE_ELIGIBLE_SQL\<close>: the fresh window, or an explicit operator re-admission.\<close>

definition source_eligible :: "Db \<Rightarrow> timestamp \<Rightarrow> SourceMessage \<Rightarrow> bool" where
  "source_eligible db now m \<longleftrightarrow>
     accepted_origin (tm_ingestion_origin m)
       \<and> tm_entry_rejection_reason m = None \<and> \<not> edit_vetoed db m \<and> fresh_window now m
   \<or> tm_re_admission_reference m \<noteq> None \<and> accepted_origin (tm_ingestion_origin m)
       \<and> tm_received_at m \<noteq> None
       \<and> tm_entry_rejection_reason m \<in> {None, Some ''stale-source-message''}"

section \<open>Retirement\<close>

definition sent_reservation :: "Db \<Rightarrow> UUID \<Rightarrow> bool" where
  "sent_reservation db did \<longleftrightarrow>
     (\<exists>r \<in> set (db_reservations db). rs_dispatch_id r = did \<and> rs_state r \<in> {R_unknown, R_consumed})"

definition live_entry_intent :: "Db \<Rightarrow> UUID \<Rightarrow> bool" where
  "live_entry_intent db did \<longleftrightarrow>
     (\<exists>i \<in> set (db_intents db). \<exists>m \<in> set (db_reservations db).
        it_exchange i = BITGET \<and> rs_client_order_id m = it_client_oid i \<and> rs_dispatch_id m = did
        \<and> it_role i = ENTRY
        \<and> (0 < it_filled_qty i \<or> it_state i \<notin> {I_rejected, I_cancelled, I_reconciled}))"

definition expire_dispatch_row :: "timestamp \<Rightarrow> DispatchRow \<Rightarrow> DispatchRow" where
  "expire_dispatch_row now d = d\<lparr>ds_state := EXPIRED, ds_terminal_reason := Some ''stale-source-message'',
     ds_claimed_by := None, ds_lease_until := None, ds_updated_at := now\<rparr>"

definition release_stale :: "timestamp \<Rightarrow> Reservation \<Rightarrow> Reservation" where
  "release_stale now r = r\<lparr>rs_state := R_released, rs_resolved_at := Some now,
     rs_resolution_reason := Some ''stale-source-message''\<rparr>"

definition insert_expiry_transition :: "UUID \<Rightarrow> UUID \<Rightarrow> DispatchState \<Rightarrow> Db \<Rightarrow> (Exn, Db) raises" where
  "insert_expiry_transition tid did state db =
     (if \<not> (\<exists>d \<in> set (db_dispatches db). ds_id d = did) then Inr db
      else if tid \<in> tr_id ` set (db_transitions db) then Inl (StorageError ''dispatch_transitions_pkey'')
      else
        let key = DispatchTransitionKey did state EXPIRED ''stale-source-message'' in
        Inr (db\<lparr>db_transitions := db_transitions db @
                 [\<lparr>tr_id = tid, tr_dispatch_id = did, tr_from = state, tr_to = EXPIRED,
                   tr_reason = Some ''stale-source-message''\<rparr>],
               db_outbox := (if key \<in> set (db_outbox db) then db_outbox db else db_outbox db @ [key])\<rparr>))"

definition expire_source_dispatch ::
  "timestamp \<Rightarrow> UUID \<Rightarrow> UUID \<Rightarrow> DispatchState \<Rightarrow> Db \<Rightarrow> (Exn, Db) raises" where
  "expire_source_dispatch now tid did state db =
     (if state \<notin> {QUEUED, PREFLIGHT, SUBMITTING} then Inr db
      else if sent_reservation db did then Inr db
      else if live_entry_intent db did then Inr db
      else bindE (insert_expiry_transition tid did state db) (\<lambda>db1.
        let db2 = db1\<lparr>db_dispatches :=
              update_where (\<lambda>d. ds_id d = did) (expire_dispatch_row now) (db_dispatches db1)\<rparr>
        in bindE (write_reservations
              (update_where (\<lambda>r. rs_dispatch_id r = did \<and> rs_state r = R_reserved) (release_stale now)
                 (db_reservations db2)) db2) (\<lambda>db3.
        Inr (db3\<lparr>db_canary := filter (\<lambda>c. fst c \<noteq> did) (db_canary db3)\<rparr>))))"

section \<open>Lemmas\<close>

lemma insert_expiry_transition_tables [run_simps]:
  assumes "insert_expiry_transition tid did state db = Inr db'"
  shows "db_dispatches db' = db_dispatches db" "db_reservations db' = db_reservations db"
    "db_intents db' = db_intents db" "db_canary db' = db_canary db" "db_messages db' = db_messages db"
    "db_fills db' = db_fills db" "db_bindings db' = db_bindings db" "db_baseline db' = db_baseline db"
  using assms by (auto simp: insert_expiry_transition_def Let_def split: if_splits)

text \<open>Either nothing happens, or the dispatch is provably unsent and its open commitments are released.\<close>

lemma expire_source_dispatch_cases:
  assumes "expire_source_dispatch now tid did state db = Inr db'"
  obtains (kept) "db' = db"
  | (expired) "state \<in> {QUEUED, PREFLIGHT, SUBMITTING}" "\<not> sent_reservation db did" "\<not> live_entry_intent db did"
      "db_reservations db' = update_where (\<lambda>r. rs_dispatch_id r = did \<and> rs_state r = R_reserved)
         (release_stale now) (db_reservations db)"
      "reservations_ok (db_reservations db')"
      "db_dispatches db' = update_where (\<lambda>d. ds_id d = did) (expire_dispatch_row now) (db_dispatches db)"
      "db_intents db' = db_intents db" "db_fills db' = db_fills db" "db_bindings db' = db_bindings db"
      "db_baseline db' = db_baseline db"
proof (cases "state \<in> {QUEUED, PREFLIGHT, SUBMITTING} \<and> \<not> sent_reservation db did \<and> \<not> live_entry_intent db did")
  case False
  then have "db' = db" using assms by (auto simp: expire_source_dispatch_def split: if_splits)
  then show ?thesis by (rule kept)
next
  case True
  from assms True obtain db1 where one: "insert_expiry_transition tid did state db = Inr db1"
    and res: "db_reservations db' = update_where (\<lambda>r. rs_dispatch_id r = did \<and> rs_state r = R_reserved)
         (release_stale now) (db_reservations db1)" "reservations_ok (db_reservations db')"
    and dis: "db_dispatches db' = update_where (\<lambda>d. ds_id d = did) (expire_dispatch_row now) (db_dispatches db1)"
    and rest: "db_intents db' = db_intents db1" "db_fills db' = db_fills db1" "db_bindings db' = db_bindings db1"
      "db_baseline db' = db_baseline db1"
    by (auto simp: expire_source_dispatch_def Let_def run_simps)
  then show ?thesis using True insert_expiry_transition_tables [OF one] by (intro expired) auto
qed

end
