(* ===== verification/Fill_Evidence.thy ===== *)
theory Fill_Evidence
  imports Raw_Json
begin

text \<open>
  The reading of provider order evidence in \<open>exchanges/bitget/live.py\<close>: \<open>normalize_fill\<close>,
  \<open>summarize_fills\<close> and \<open>classify_live_order\<close>.
\<close>

datatype LiveOrderStatus = Order_accepted | Order_partial | Order_filled | Order_rejected | Order_unknown

section \<open>Fills\<close>

text \<open>The mappings of \<open>feeDetail\<close>: an object, a list of objects, or either as JSON text.\<close>

definition fee_details :: "payload \<Rightarrow> payload list" where
  "fee_details fill =
     (let raw = (case map_of fill ''feeDetail'' of
                   Some (JStr s) \<Rightarrow> json_loads s | other \<Rightarrow> other)
      in case raw of
           Some (JObj d) \<Rightarrow> [d]
         | Some (JList xs) \<Rightarrow> List.map_filter (\<lambda>x. case x of JObj d \<Rightarrow> Some d | _ \<Rightarrow> None) xs
         | _ \<Rightarrow> [])"

definition decimal_or_zero :: "JSON \<Rightarrow> dec" where
  "decimal_or_zero v = (case to_decimal v of Some d \<Rightarrow> d | None \<Rightarrow> 0)"

definition detail_fee :: "payload \<Rightarrow> dec" where
  "detail_fee d = dec_abs (decimal_or_zero (get_first d [''totalFee'', ''fee'', ''feeAmount''] (JStr ''0'')))"

definition detail_coin :: "payload \<Rightarrow> JSON" where
  "detail_coin d = get_first d [''feeCoin'', ''feeCcy'', ''feeCurrency''] JNull"

definition fee_coin :: "payload list \<Rightarrow> JSON option" where
  "fee_coin ds = List.find py_true (map detail_coin ds)"

definition normalize_fill :: "payload \<Rightarrow> payload" where
  "normalize_fill fill =
     (let ds = fee_details fill in
      if ds \<noteq> [] then
        let with_fee = dict_put ''fee'' (JDec (dec_sum (map detail_fee ds) 0)) fill in
        (case fee_coin ds of None \<Rightarrow> with_fee | Some c \<Rightarrow> dict_put ''feeCcy'' (JStr (py_str c)) with_fee)
      else dict_put ''fee''
             (JDec (dec_abs (decimal_or_zero (get_first fill [''fee'', ''fillFee'', ''feeAmount''] (JStr ''0''))))) fill)"

definition fill_quantity :: "payload \<Rightarrow> dec option" where
  "fill_quantity fill = to_decimal (get_first fill [''quantity'', ''size'', ''fillQty'', ''baseVolume''] (JInt 0))"

definition fill_price :: "payload \<Rightarrow> dec option" where
  "fill_price fill = to_decimal (get_first fill [''price'', ''fillPrice'', ''priceAvg''] (JInt 0))"

definition fill_identity :: "payload \<Rightarrow> string option" where
  "fill_identity fill =
     (let v = get_first fill [''fillId'', ''tradeId'', ''id''] JNull in if v = JNull then None else Some (py_str v))"

record FillSummary =
  fs_quantity :: dec
  fs_notional :: dec
  fs_fee :: dec
  fs_ids :: "string list"

definition add_fill :: "payload \<Rightarrow> FillSummary \<Rightarrow> FillSummary" where
  "add_fill raw_fill acc =
     (let fill = normalize_fill raw_fill in
      case (fill_quantity fill, fill_price fill) of
        (Some qty, Some price) \<Rightarrow>
          if qty \<le> 0 \<or> price \<le> 0 then acc
          else acc\<lparr>fs_quantity := dec_add (fs_quantity acc) qty,
                   fs_notional := dec_add (fs_notional acc) (dec_mul qty price),
                   fs_fee := dec_add (fs_fee acc) (dec_abs (decimal_or_zero (get_first fill [''fee''] (JInt 0)))),
                   fs_ids := (case fill_identity fill of
                       None \<Rightarrow> fs_ids acc
                     | Some i \<Rightarrow> if i \<in> set (fs_ids acc) then fs_ids acc else fs_ids acc @ [i])\<rparr>
      | _ \<Rightarrow> acc)"

definition fold_fills :: "payload list \<Rightarrow> FillSummary" where
  "fold_fills fills = fold add_fill fills \<lparr>fs_quantity = 0, fs_notional = 0, fs_fee = 0, fs_ids = []\<rparr>"

definition summarize_fills :: "payload list \<Rightarrow> dec \<times> dec option \<times> dec \<times> string list" where
  "summarize_fills fills =
     (let s = fold_fills fills in
      (fs_quantity s, if 0 < fs_quantity s then Some (dec_div (fs_notional s) (fs_quantity s)) else None,
       fs_fee s, fs_ids s))"

section \<open>Classification\<close>

definition FILLED_STATUSES :: "string list" where
  "FILLED_STATUSES = [''filled'', ''full-fill'', ''full_fill'']"

definition PARTIAL_STATUSES :: "string list" where
  "PARTIAL_STATUSES = [''partial'', ''partially_filled'', ''partial-fill'', ''partial_fill'']"

definition ACCEPTED_STATUSES :: "string list" where
  "ACCEPTED_STATUSES = [''new'', ''open'', ''accepted'', ''live'', ''pending'', ''submitting'']"

definition REJECTED_STATUSES :: "string list" where
  "REJECTED_STATUSES = [''rejected'', ''cancelled'', ''canceled'', ''failed'', ''expired'']"

definition detail_filled :: "payload \<Rightarrow> dec option" where
  "detail_filled detail = to_decimal (get_first detail [''filledQty'', ''filledSize'', ''baseVolume''] (JInt 0))"

definition raw_status :: "payload \<Rightarrow> string" where
  "raw_status detail = str_lower (str_strip (py_str (get_first detail [''state'', ''status''] (JStr ''''))))"

definition observed_quantity :: "payload \<Rightarrow> payload list \<Rightarrow> dec" where
  "observed_quantity detail fills =
     max (fst (summarize_fills fills)) (case detail_filled detail of None \<Rightarrow> 0 | Some q \<Rightarrow> q)"

definition classify_live_order :: "payload \<Rightarrow> payload list \<Rightarrow> LiveOrderStatus" where
  "classify_live_order detail fills =
     (let status = raw_status detail;
          requested = to_decimal (get_first detail [''requestedQty'', ''size''] (JInt 0));
          filled = observed_quantity detail fills;
          complete = (case requested of Some q \<Rightarrow> 0 < q \<and> q \<le> filled | None \<Rightarrow> False)
      in if status \<in> set FILLED_STATUSES
         then (if 0 < filled \<or> (case detail_filled detail of Some q \<Rightarrow> 0 < q | None \<Rightarrow> False)
               then Order_filled else Order_unknown)
         else if status \<in> set PARTIAL_STATUSES
         then (if complete then Order_filled else if 0 < filled then Order_partial else Order_accepted)
         else if complete then Order_filled
         else if 0 < filled then Order_partial
         else if status \<in> set REJECTED_STATUSES then Order_rejected
         else if status = [] \<and> fills = [] then Order_unknown
         else if status \<in> set ACCEPTED_STATUSES \<or> status = [] then Order_accepted
         else Order_unknown)"

section \<open>Lemmas\<close>

lemma dict_put_same: "map_of d k = Some v \<Longrightarrow> dict_put k v d = d"
  by (induction d) auto

lemma fee_details_put [simp]: "k \<noteq> ''feeDetail'' \<Longrightarrow> fee_details (dict_put k v d) = fee_details d"
  by (simp add: fee_details_def)

lemma dec_abs_idem [simp]: "dec_abs (dec_abs x) = dec_abs x"
proof -
  have "0 \<le> dec_round \<bar>x\<bar>" by (rule dec.rnd_nonneg) simp
  then show ?thesis by (simp add: dec_abs_def dec.rnd_idem)
qed

lemma normalized_fee_detail: "fee_details (normalize_fill f) = fee_details f"
  by (auto simp: normalize_fill_def Let_def split: option.split)

text \<open>The ids a summary keeps are distinct, and a positive quantity comes from a usable fill.\<close>

lemma add_fill_ids_distinct: "distinct (fs_ids acc) \<Longrightarrow> distinct (fs_ids (add_fill f acc))"
  by (auto simp: add_fill_def Let_def split: option.splits)

lemma fold_fills_ids_distinct:
  "distinct (fs_ids acc) \<Longrightarrow> distinct (fs_ids (fold add_fill fills acc))"
  by (induction fills arbitrary: acc) (auto intro: add_fill_ids_distinct)

section \<open>Properties\<close>

text \<open>
  Normalising a fill is idempotent. The evidence path normalises the same fill up to three
  times (read-back, summary, ledger insert); the fee it records is the one of the first pass.
\<close>

theorem normalize_fill_idempotent: "normalize_fill (normalize_fill f) = normalize_fill f"
proof (cases "fee_details f = []")
  case True
  then show ?thesis
    by (simp add: normalize_fill_def Let_def dict_put_same decimal_or_zero_def)
next
  case False
  have fee: "map_of (normalize_fill f) ''fee'' = Some (JDec (dec_sum (map detail_fee (fee_details f)) 0))"
    using False by (auto simp: normalize_fill_def Let_def split: option.split)
  have coin: "fee_coin (fee_details f) = Some c \<Longrightarrow> map_of (normalize_fill f) ''feeCcy'' = Some (JStr (py_str c))" for c
    using False by (auto simp: normalize_fill_def Let_def split: option.split)
  show ?thesis
    unfolding normalize_fill_def [of "normalize_fill f"] normalized_fee_detail Let_def
    using False by (auto simp: dict_put_same fee coin split: option.split)
qed

text \<open>
  Execution evidence is never discarded. An order with a positive executed quantity, from its
  fills or from its own detail, is classified as filled or partially filled whatever its status text
  says (a cancelled remainder included), and an order is classified as filled or partial only with
  such evidence.
\<close>

theorem classify_live_order_evidence:
  "classify_live_order detail fills \<in> {Order_filled, Order_partial} \<longleftrightarrow> 0 < observed_quantity detail fills"
proof -
  have detail: "0 < q \<Longrightarrow> 0 < observed_quantity detail fills" if "detail_filled detail = Some q" for q
    using that by (simp add: observed_quantity_def)
  show ?thesis
    by (auto simp: classify_live_order_def Let_def split: option.splits if_splits dest: detail)
qed

end
