(* ===== verification/Live_Intents.thy ===== *)
theory Live_Intents
  imports Trade_Store Fill_Evidence "HOL-Library.List_Lexorder"
begin

text \<open>
  \<open>storage/live_intents.py\<close>: the durable intent store of the LIVE lane, with the fill ledger. An
  intent is inserted before its order is submitted; the insert tells the caller whether it won. Every
  operation is one transaction over \<open>Db\<close>. The claim authorities, callbacks the console installs, are
  arguments (\<open>None\<close> when not installed). The record checks of \<open>LiveIntentRecord.__post_init__\<close> are
  \<open>post_init\<close>.
\<close>

section \<open>Records\<close>

definition post_init :: "('a) LiveIntentRecord_scheme \<Rightarrow> (Exn, unit) raises" where
  "post_init r =
     (if it_role r \<noteq> ENTRY then Inr ()
      else
        let missing = [it_planned_leverage r = None, it_planned_margin_usdt r = None, it_margin_mode r = None,
                       it_balance_snapshot_id r = None, it_margin_reservation_id r = None]
        in if False \<in> set missing \<and> True \<in> set missing
        then Inl (ValueError ''ENTRY intent admission evidence must be complete'')
        else if (case it_planned_leverage r of Some l \<Rightarrow> l < 1 | None \<Rightarrow> False)
        then Inl (ValueError ''ENTRY planned leverage must be positive'')
        else if (case it_planned_margin_usdt r of Some m \<Rightarrow> m \<le> 0 | None \<Rightarrow> False)
        then Inl (ValueError ''ENTRY planned margin must be positive'')
        else if (case it_margin_mode r of Some m \<Rightarrow> str_upper m \<noteq> ''ISOLATED'' | None \<Rightarrow> False)
        then Inl (ValueError ''ENTRY margin mode must be ISOLATED'')
        else if (it_planned_stop_loss r = None) \<noteq> (it_planned_take_profits r = None)
        then Inl (ValueError ''ENTRY intent protection plan must be complete'')
        else if (case (it_planned_stop_loss r, it_planned_take_profits r) of
                   (Some sl, Some tps) \<Rightarrow> tps = [] \<or> (\<exists>p \<in> set (sl # tps). p \<le> 0) | _ \<Rightarrow> False)
        then Inl (ValueError ''ENTRY planned protection prices must be finite positive'')
        else if it_order_type r \<notin> {''market'', ''limit''}
        then Inl (ValueError ''ENTRY order type must be market or limit'')
        else if it_order_type r = ''limit'' \<and> (case it_limit_price r of None \<Rightarrow> True | Some p \<Rightarrow> p \<le> 0)
        then Inl (ValueError ''ENTRY limit price must be finite positive'')
        else Inr ())"

text \<open>A record with the class defaults.\<close>

definition new_record :: "Exchange \<Rightarrow> string \<Rightarrow> string \<Rightarrow> string \<Rightarrow> LiveIntentRecord" where
  "new_record ex oid symbol side =
     \<lparr>it_exchange = ex, it_client_oid = oid, it_symbol = symbol, it_side = side, it_role = ENTRY,
      it_state = I_requested, it_requested_qty = 0, it_filled_qty = 0, it_avg_price = None, it_fee = 0,
      it_provider_order_id = None, it_provider_fill_ids = [], it_provider_fills = [], it_planned_leverage = None,
      it_planned_margin_usdt = None, it_planned_notional_usdt = None, it_margin_mode = None,
      it_balance_snapshot_id = None, it_margin_reservation_id = None, it_planned_stop_loss = None,
      it_planned_take_profits = None, it_dispatch_id = None, it_entry_leg = None, it_order_type = ''market'',
      it_limit_price = None, it_cancel_requested_by = None, it_provider_terminal = False,
      it_cancel_post_claimed = False, it_active_stop_loss_price = None, it_stop_mutation_root_oid = None,
      it_stop_mutation_take_profit_id = None, it_protection_root_oid = None, it_active_take_profit_price = None\<rparr>"

definition opposite_side :: "string \<Rightarrow> string" where
  "opposite_side side = (if side = ''BUY'' then ''SELL'' else ''BUY'')"

definition build_emergency_close_intent :: "('a) LiveIntentRecord_scheme \<Rightarrow> dec \<Rightarrow> (Exn, LiveIntentRecord) raises" where
  "build_emergency_close_intent entry quantity =
     (if quantity \<le> 0 then Inl (ValueError ''emergency close quantity must be positive'')
      else if it_side entry \<notin> {''BUY'', ''SELL''} then Inl (ValueError ''emergency close entry side must be BUY or SELL'')
      else Inr ((new_record (it_exchange entry) (it_client_oid entry @ ''-emergency'') (it_symbol entry)
                   (opposite_side (it_side entry)))
                 \<lparr>it_role := EMERGENCY_CLOSE, it_requested_qty := quantity\<rparr>))"

section \<open>The fill ledger\<close>

definition status_derived :: "string \<Rightarrow> bool" where
  "status_derived fid = starts_with fid ''status-derived:''"

definition fills_of :: "Db \<Rightarrow> Exchange \<Rightarrow> string \<Rightarrow> Fill list" where
  "fills_of db ex oid = filter (\<lambda>f. fl_exchange f = ex \<and> fl_client_order_id f = oid) (db_fills db)"

text \<open>\<open>INSERT ... ON CONFLICT (exchange, provider_fill_id) DO NOTHING\<close>, with the foreign key.\<close>

definition insert_fill :: "Fill \<Rightarrow> Db \<Rightarrow> (Exn, Db) raises" where
  "insert_fill f db =
     (if \<exists>g \<in> set (db_fills db). fl_exchange g = fl_exchange f \<and> fl_provider_fill_id g = fl_provider_fill_id f
      then Inr db
      else if find_intent db (fl_exchange f) (fl_client_order_id f) = None
      then Inl (StorageError ''fills foreign key'')
      else Inr (db\<lparr>db_fills := db_fills db @ [f]\<rparr>))"

definition derived_fill :: "timestamp \<Rightarrow> ('a) LiveIntentRecord_scheme \<Rightarrow> dec \<Rightarrow> Fill" where
  "derived_fill now r price =
     \<lparr>fl_exchange = it_exchange r, fl_client_order_id = it_client_oid r,
      fl_provider_fill_id = ''status-derived:'' @
        (case it_provider_order_id r of Some p \<Rightarrow> if p = [] then it_client_oid r else p | None \<Rightarrow> it_client_oid r),
      fl_symbol = it_symbol r, fl_price = price, fl_quantity = it_filled_qty r,
      fl_fee = dec_abs (it_fee r), fl_realized_pnl = 0, fl_filled_at = now\<rparr>"

definition insert_status_derived_fill :: "timestamp \<Rightarrow> ('a) LiveIntentRecord_scheme \<Rightarrow> Db \<Rightarrow> (Exn, Db) raises" where
  "insert_status_derived_fill now r db =
     (if it_state r \<notin> {I_filled, I_reconciled} then Inr db
      else case it_avg_price r of
             None \<Rightarrow> Inr db
           | Some price \<Rightarrow>
               if it_filled_qty r \<le> 0 \<or> price \<le> 0 then Inr db
               else if fills_of db (it_exchange r) (it_client_oid r) \<noteq> [] then Inr db
               else insert_fill (derived_fill now r price) db)"

definition fill_pnl :: "payload \<Rightarrow> dec option" where
  "fill_pnl fill =
     (let v = get_first fill [''realizedPnl'', ''profit'', ''totalProfits''] (JStr ''0'') in
      if py_true v then to_decimal v else Some 0)"

text \<open>\<open>COALESCE(to_timestamp(ms / 1000.0), CURRENT_TIMESTAMP)\<close>.\<close>

definition fill_time :: "timestamp \<Rightarrow> payload \<Rightarrow> (Exn, timestamp) raises" where
  "fill_time now fill =
     (case get_first fill [''cTime'', ''uTime''] JNull of
        JNull \<Rightarrow> Inr now
      | v \<Rightarrow> (case to_decimal v of
                Some ms \<Rightarrow> Inr \<lfloor>ms * 1000\<rfloor> | None \<Rightarrow> Inl (StorageError ''invalid timestamp'')))"

text \<open>The usable evidence of a raw fill: its id, price, quantity, fee and realized profit.\<close>

definition usable_fill :: "payload \<Rightarrow> (string \<times> dec \<times> dec \<times> dec \<times> dec) option" where
  "usable_fill fill =
     (case (fill_identity fill,
            to_decimal (get_first fill [''price'', ''fillPrice'', ''priceAvg''] JNull),
            to_decimal (get_first fill [''quantity'', ''size'', ''fillQty'', ''baseVolume''] JNull), fill_pnl fill) of
        (Some fid, Some price, Some quantity, Some pnl) \<Rightarrow>
          if quantity \<le> 0 \<or> price \<le> 0 \<or> status_derived fid then None
          else Some (fid, price, quantity, dec_abs (decimal_or_zero (get_first fill [''fee''] (JStr ''0''))), pnl)
      | _ \<Rightarrow> None)"

definition drop_superseded :: "Exchange \<Rightarrow> string \<Rightarrow> Db \<Rightarrow> Db" where
  "drop_superseded ex oid db =
     (if \<exists>f \<in> set (fills_of db ex oid). \<not> status_derived (fl_provider_fill_id f)
      then db\<lparr>db_fills := filter (\<lambda>f. \<not> (fl_exchange f = ex \<and> fl_client_order_id f = oid
              \<and> status_derived (fl_provider_fill_id f))) (db_fills db)\<rparr>
      else db)"

definition provider_fill :: "('a) LiveIntentRecord_scheme \<Rightarrow> string \<times> dec \<times> dec \<times> dec \<times> dec \<Rightarrow> timestamp \<Rightarrow> Fill" where
  "provider_fill r usable t =
     (case usable of (fid, price, quantity, fee, pnl) \<Rightarrow>
        \<lparr>fl_exchange = it_exchange r, fl_client_order_id = it_client_oid r, fl_provider_fill_id = fid,
         fl_symbol = it_symbol r, fl_price = price, fl_quantity = quantity, fl_fee = fee,
         fl_realized_pnl = pnl, fl_filled_at = t\<rparr>)"

definition insert_provider_fill :: "timestamp \<Rightarrow> ('a) LiveIntentRecord_scheme \<Rightarrow> payload \<Rightarrow> Db \<Rightarrow> (Exn, Db) raises" where
  "insert_provider_fill now r raw db =
     (let fill = normalize_fill raw in
      case usable_fill fill of
        None \<Rightarrow> Inr db
      | Some usable \<Rightarrow>
          bindE (fill_time now fill) (\<lambda>t.
          bindE (insert_fill (provider_fill r usable t) db) (\<lambda>db'.
          Inr (drop_superseded (it_exchange r) (it_client_oid r) db'))))"

fun insert_provider_fills :: "timestamp \<Rightarrow> ('a) LiveIntentRecord_scheme \<Rightarrow> payload list \<Rightarrow> Db \<Rightarrow> (Exn, Db) raises" where
  "insert_provider_fills now r [] db = Inr db"
| "insert_provider_fills now r (raw # fills) db =
     bindE (insert_provider_fill now r raw db) (insert_provider_fills now r fills)"

section \<open>Inserting intents\<close>

definition strip_leg :: "string \<Rightarrow> string" where
  "strip_leg oid =
     (if ends_with oid ''-limit'' then take (length oid - 6) oid
      else if ends_with oid ''-market'' then take (length oid - 7) oid else oid)"

text \<open>The row \<open>_insert\<close> writes: the columns it does not name take their defaults.\<close>

definition stored_row :: "timestamp \<Rightarrow> LiveIntentRecord \<Rightarrow> IntentRow" where
  "stored_row now r = LiveIntentRecord.extend
     (r\<lparr>it_avg_price := None, it_fee := 0, it_provider_fill_ids := [], it_provider_fills := [],
        it_cancel_requested_by := None, it_provider_terminal := False, it_cancel_post_claimed := False,
        it_active_take_profit_price := None\<rparr>) (IntentRow.fields now)"

definition positive_or_null :: "dec option \<Rightarrow> bool" where
  "positive_or_null v = (case v of None \<Rightarrow> True | Some x \<Rightarrow> 0 < x)"

text \<open>The row checks of \<open>live_order_intents\<close>.\<close>

definition intent_check :: "IntentRow \<Rightarrow> bool" where
  "intent_check i \<longleftrightarrow>
     it_side i \<in> {''BUY'', ''SELL''} \<and> 0 < it_requested_qty i \<and> 0 \<le> it_filled_qty i
     \<and> positive_or_null (it_avg_price i) \<and> positive_or_null (it_planned_margin_usdt i)
     \<and> positive_or_null (it_planned_notional_usdt i)
     \<and> (case it_planned_leverage i of None \<Rightarrow> True | Some l \<Rightarrow> 0 < l)
     \<and> it_margin_mode i \<in> {None, Some ''ISOLATED'', Some ''CROSS''}
     \<and> (it_margin_reservation_id i = None \<or>
          it_role i = ENTRY \<and> it_exchange i = BITGET \<and> it_balance_snapshot_id i \<noteq> None \<and> it_planned_margin_usdt i \<noteq> None)
     \<and> (case (it_planned_stop_loss i, it_planned_take_profits i) of
          (None, None) \<Rightarrow> True | (Some sl, Some tps) \<Rightarrow> 0 < sl \<and> tps \<noteq> [] | _ \<Rightarrow> False)
     \<and> (case it_entry_leg i of
          None \<Rightarrow> True
        | Some leg \<Rightarrow> it_exchange i = BITGET \<and> it_role i = ENTRY \<and> it_dispatch_id i \<noteq> None
            \<and> (leg = ''market'' \<and> it_order_type i = ''market'' \<and> it_limit_price i = None
               \<or> leg = ''limit'' \<and> it_order_type i = ''limit'' \<and> (case it_limit_price i of Some p \<Rightarrow> 0 < p | None \<Rightarrow> False)))"

text \<open>The admission foreign key: both legs of an entry bind to the reservation of their root.\<close>

definition admission_bound :: "Db \<Rightarrow> IntentRow \<Rightarrow> bool" where
  "admission_bound db i =
     (case (it_margin_reservation_id i, it_balance_snapshot_id i, it_planned_margin_usdt i) of
        (Some rid, Some sid, Some m) \<Rightarrow>
          (\<exists>r \<in> set (db_reservations db). rs_id r = rid \<and> rs_client_order_id r = strip_leg (it_client_oid i)
             \<and> rs_balance_snapshot_id r = sid \<and> binding_symbol r = Some (it_symbol i)
             \<and> rs_planned_margin_usdt r = m)
      | _ \<Rightarrow> True)"

definition leg_taken :: "Db \<Rightarrow> IntentRow \<Rightarrow> bool" where
  "leg_taken db i \<longleftrightarrow> it_entry_leg i \<noteq> None \<and> it_dispatch_id i \<noteq> None
     \<and> (\<exists>j \<in> set (db_intents db). it_dispatch_id j = it_dispatch_id i \<and> it_entry_leg j = it_entry_leg i)"

definition insert_intent :: "timestamp \<Rightarrow> LiveIntentRecord \<Rightarrow> Db \<Rightarrow> bool transaction" where
  "insert_intent now r db =
     (let row = stored_row now r in
      if \<not> intent_check row then Inl (StorageError ''live_order_intents check'')
      else if find_intent db (it_exchange r) (it_client_oid r) \<noteq> None then Inr (db, False)
      else if leg_taken db row then Inl (StorageError ''bitget_dispatch_entry_leg'')
      else if \<not> admission_bound db row then Inl (StorageError ''admission_intent_reservation_binding'')
      else Inr (db\<lparr>db_intents := db_intents db @ [row]\<rparr>, True))"

type_synonym authority = "(Db \<Rightarrow> (Exn, unit) raises) option"

definition authorise :: "authority \<Rightarrow> Db \<Rightarrow> (Exn, unit) raises" where
  "authorise a db = (case a of None \<Rightarrow> Inr () | Some f \<Rightarrow> f db)"

definition claim :: "authority \<Rightarrow> timestamp \<Rightarrow> LiveIntentRecord \<Rightarrow> Db \<Rightarrow> bool transaction" where
  "claim a now r db =
     bindE (if it_role r = ENTRY then authorise a db else Inr ()) (\<lambda>_. insert_intent now r db)"

definition claim_split ::
  "authority \<Rightarrow> timestamp \<Rightarrow> LiveIntentRecord \<Rightarrow> LiveIntentRecord \<Rightarrow> Db \<Rightarrow> bool transaction" where
  "claim_split a now market limit db =
     bindE (authorise a db) (\<lambda>_.
     bindE (insert_intent now market db) (\<lambda>(db1, claimed).
       if \<not> claimed then Inr (db1, False)
       else bindE (insert_intent now limit db1) (\<lambda>(db2, child).
         if child then Inr (db2, True) else Inl (ValueError ''split child exists without root''))))"

fun insert_all :: "timestamp \<Rightarrow> LiveIntentRecord list \<Rightarrow> Db \<Rightarrow> (bool list) transaction" where
  "insert_all now [] db = Inr (db, [])"
| "insert_all now (r # rs) db =
     bindE (insert_intent now r db) (\<lambda>(db1, won).
     bindE (insert_all now rs db1) (\<lambda>(db2, wons). Inr (db2, won # wons)))"

definition claim_protection :: "timestamp \<Rightarrow> LiveIntentRecord list \<Rightarrow> Db \<Rightarrow> bool transaction" where
  "claim_protection now rs db =
     bindE (insert_all now rs db) (\<lambda>(db', won). if list_all id won then Inr (db', True) else Inr (db, False))"

section \<open>Claims on a stored intent\<close>

text \<open>\<open>UPDATE live_order_intents SET ... WHERE p RETURNING\<close>: whether a row changed.\<close>

definition update_intents :: "(IntentRow \<Rightarrow> bool) \<Rightarrow> (IntentRow \<Rightarrow> IntentRow) \<Rightarrow> Db \<Rightarrow> Db \<times> bool" where
  "update_intents p f db =
     (db\<lparr>db_intents := update_where p f (db_intents db)\<rparr>, \<exists>i \<in> set (db_intents db). p i)"

definition postable :: "string \<Rightarrow> IntentRow \<Rightarrow> bool" where
  "postable oid i \<longleftrightarrow> it_exchange i = BITGET \<and> it_client_oid i = oid \<and> it_role i = ENTRY
     \<and> it_entry_leg i = Some ''limit'' \<and> it_state i = I_staged \<and> it_cancel_requested_by i = None"

definition claim_entry_post :: "authority \<Rightarrow> string \<Rightarrow> Db \<Rightarrow> bool transaction" where
  "claim_entry_post a oid db =
     bindE (authorise a db) (\<lambda>_. Inr (update_intents (postable oid) (\<lambda>i. i\<lparr>it_state := I_requested\<rparr>) db))"

text \<open>The reservation and the dispatch of an entry exist and none of the three is baselined.\<close>

definition unbaselined_owner :: "Db \<Rightarrow> IntentRow \<Rightarrow> bool" where
  "unbaselined_owner db i \<longleftrightarrow>
     (\<exists>r \<in> set (db_reservations db). \<exists>d \<in> set (db_dispatches db).
        it_margin_reservation_id i = Some (rs_id r) \<and> it_dispatch_id i = Some (ds_id d) \<and> rs_dispatch_id r = ds_id d
        \<and> B_intent (it_exchange i) (it_client_oid i) \<notin> set (db_baseline db)
        \<and> B_reservation (rs_id r) \<notin> set (db_baseline db) \<and> B_dispatch (ds_id d) \<notin> set (db_baseline db))"

definition owned_limit :: "Db \<Rightarrow> string \<Rightarrow> IntentRow \<Rightarrow> bool" where
  "owned_limit db oid i \<longleftrightarrow> it_exchange i = BITGET \<and> it_client_oid i = oid \<and> it_role i = ENTRY
     \<and> it_order_type i = ''limit'' \<and> unbaselined_owner db i"

definition cancel_row :: "UUID \<Rightarrow> IntentRow \<Rightarrow> IntentRow" where
  "cancel_row management i =
     i\<lparr>it_cancel_requested_by := Some management, it_provider_terminal := (it_state i = I_staged),
       it_state := (if it_state i = I_staged then I_cancelled else it_state i)\<rparr>"

definition claim_cancel :: "authority \<Rightarrow> string \<Rightarrow> UUID \<Rightarrow> Db \<Rightarrow> bool transaction" where
  "claim_cancel a oid management db =
     bindE (authorise a db) (\<lambda>_. Inr (update_intents
       (\<lambda>i. owned_limit db oid i \<and> it_cancel_requested_by i = None \<and> \<not> it_provider_terminal i)
       (cancel_row management) db))"

definition claim_cancel_post :: "string \<Rightarrow> Db \<Rightarrow> bool transaction" where
  "claim_cancel_post oid db = Inr (update_intents
     (\<lambda>i. owned_limit db oid i \<and> it_cancel_requested_by i \<noteq> None \<and> \<not> it_cancel_post_claimed i \<and> \<not> it_provider_terminal i)
     (\<lambda>i. i\<lparr>it_cancel_post_claimed := True\<rparr>) db)"

definition settle_absent :: "string \<Rightarrow> Db \<Rightarrow> nat transaction" where
  "settle_absent oid db =
     (let p = (\<lambda>i. it_client_oid i = oid \<and> it_state i = I_unknown \<and> it_role i \<noteq> ENTRY \<and> it_filled_qty i = 0) in
      Inr (db\<lparr>db_intents := update_where p (\<lambda>i. i\<lparr>it_state := I_cancelled\<rparr>) (db_intents db)\<rparr>,
           length (filter p (db_intents db))))"

section \<open>Reads\<close>

definition get_intent :: "Db \<Rightarrow> string \<Rightarrow> IntentRow option" where
  "get_intent db oid = List.find (\<lambda>i. it_client_oid i = oid) (db_intents db)"

definition protection_intent_by_provider_order_id :: "Db \<Rightarrow> Exchange \<Rightarrow> string \<Rightarrow> IntentRow option" where
  "protection_intent_by_provider_order_id db ex pid =
     (case sort_key it_created_at (filter (\<lambda>i. it_exchange i = ex \<and> it_provider_order_id i = Some pid
              \<and> it_role i \<in> {SL, TP}) (db_intents db)) of
        [] \<Rightarrow> None | i # _ \<Rightarrow> get_intent db (it_client_oid i))"

definition protection_intents :: "Db \<Rightarrow> string \<Rightarrow> IntentRow list" where
  "protection_intents db base =
     List.map_filter (\<lambda>i. get_intent db (it_client_oid i))
       (sort_key it_client_oid (filter (\<lambda>i. it_exchange i = BITGET \<and> it_role i \<in> {SL, TP}
          \<and> it_protection_root_oid i = Some base) (db_intents db)))"

definition pending_entries :: "Db \<Rightarrow> string option \<Rightarrow> UUID option \<Rightarrow> (Exn, IntentRow list) raises" where
  "pending_entries db symbol management =
     mapE (\<lambda>i. case get_intent db (it_client_oid i) of
                 None \<Rightarrow> Inl (ValueError ''pending entry disappeared'') | Some r \<Rightarrow> Inr r)
       (sort_key it_client_oid (filter (\<lambda>i. it_exchange i = BITGET \<and> it_role i = ENTRY \<and> it_order_type i = ''limit''
          \<and> (\<not> it_provider_terminal i \<or> management \<noteq> None \<and> it_cancel_requested_by i = management)
          \<and> (case symbol of None \<Rightarrow> True | Some s \<Rightarrow> it_symbol i = s) \<and> unbaselined_owner db i) (db_intents db)))"

definition unknown_non_entry :: "Db \<Rightarrow> IntentRow list" where
  "unknown_non_entry db =
     List.map_filter (\<lambda>i. get_intent db (it_client_oid i))
       (sort_key it_created_at (filter (\<lambda>i. it_exchange i = BITGET \<and> it_role i \<noteq> ENTRY \<and> it_state i = I_unknown)
          (db_intents db)))"

definition symbol_close_intents :: "Db \<Rightarrow> string \<Rightarrow> IntentRow list" where
  "symbol_close_intents db symbol =
     filter (\<lambda>i. it_exchange i = BITGET \<and> it_symbol i = symbol \<and> it_role i \<in> {CLOSE, EMERGENCY_CLOSE}
               \<and> it_state i \<in> {I_filled, I_reconciled}) (db_intents db)"

section \<open>Read-back and fills\<close>

definition readback_row :: "('a) LiveIntentRecord_scheme \<Rightarrow> IntentRow \<Rightarrow> IntentRow" where
  "readback_row r i =
     i\<lparr>it_provider_order_id := (case it_provider_order_id i of None \<Rightarrow> it_provider_order_id r | Some p \<Rightarrow> Some p),
       it_state := it_state r, it_filled_qty := it_filled_qty r, it_avg_price := it_avg_price r, it_fee := it_fee r,
       it_provider_fill_ids := it_provider_fill_ids r,
       it_provider_terminal := (it_provider_terminal i \<or> it_provider_terminal r)\<rparr>"

definition readback_target :: "('a) LiveIntentRecord_scheme \<Rightarrow> IntentRow \<Rightarrow> bool" where
  "readback_target r i \<longleftrightarrow> it_exchange i = it_exchange r \<and> it_client_oid i = it_client_oid r
     \<and> (it_provider_order_id i = None \<or> it_provider_order_id i = it_provider_order_id r)"

definition update_intent :: "timestamp \<Rightarrow> ('a) LiveIntentRecord_scheme \<Rightarrow> Db \<Rightarrow> (Exn, Db) raises" where
  "update_intent now r db =
     (let (db1, found) = update_intents (readback_target r) (readback_row r) db in
      if \<exists>i \<in> set (db_intents db). readback_target r i \<and> \<not> intent_check (readback_row r i) then Inl (StorageError ''live_order_intents check'')
      else if \<not> found then Inl (ValueError ''live intent provider order id conflict or missing record'')
      else bindE (insert_provider_fills now r (it_provider_fills r) db1) (insert_status_derived_fill now r))"

definition record_fills :: "timestamp \<Rightarrow> ('a) LiveIntentRecord_scheme \<Rightarrow> payload list \<Rightarrow> Db \<Rightarrow> (Exn, Db) raises" where
  "record_fills now r fills db = insert_provider_fills now r fills db"

definition record_provider_event :: "ProviderEvent \<Rightarrow> Db \<Rightarrow> (Exn, Db) raises" where
  "record_provider_event e db =
     (if \<exists>g \<in> set (db_provider_events db). pe_exchange g = pe_exchange e \<and> pe_provider_fill_id g = pe_provider_fill_id e
      then Inr db else Inr (db\<lparr>db_provider_events := db_provider_events db @ [e]\<rparr>))"

section \<open>Owned quantity and stop management\<close>

definition real_fills :: "Db \<Rightarrow> IntentRow \<Rightarrow> Fill list" where
  "real_fills db c = filter (\<lambda>f. \<not> status_derived (fl_provider_fill_id f)
     \<and> fl_provider_fill_id f \<in> set (it_provider_fill_ids c)) (fills_of db (it_exchange c) (it_client_oid c))"

definition real_quantity :: "Db \<Rightarrow> IntentRow \<Rightarrow> dec" where
  "real_quantity db c = sum_list (map fl_quantity (real_fills db c))"

definition bound_closes :: "Db \<Rightarrow> UUID option \<Rightarrow> IntentRow list" where
  "bound_closes db rid =
     List.map_filter (\<lambda>b. find_intent db BITGET (cb_close_client_order_id b))
       (filter (\<lambda>b. rid = Some (cb_reservation_id b)) (db_bindings db))"

definition close_evidence :: "Db \<Rightarrow> IntentRow \<Rightarrow> IntentRow \<Rightarrow> bool" where
  "close_evidence db base c \<longleftrightarrow>
     it_symbol c = it_symbol base \<and> it_side c = opposite_side (it_side base)
     \<and> it_role c \<in> {CLOSE, EMERGENCY_CLOSE, SL, TP}
     \<and> (case it_provider_order_id c of None \<Rightarrow> False | Some p \<Rightarrow> p \<noteq> [])
     \<and> real_quantity db c = it_filled_qty c \<and> length (real_fills db c) = length (it_provider_fill_ids c)
     \<and> (\<forall>fid \<in> set (it_provider_fill_ids c). \<not> status_derived fid)"

fun closed_quantity :: "Db \<Rightarrow> IntentRow \<Rightarrow> IntentRow list \<Rightarrow> dec \<Rightarrow> (Exn, dec) raises" where
  "closed_quantity db base [] done_qty = Inr done_qty"
| "closed_quantity db base (c # cs) done_qty =
     (if it_filled_qty c = 0 then closed_quantity db base cs done_qty
      else if \<not> close_evidence db base c
      then Inl (OwnedQuantityEvidenceError ''bound close lacks exact real provider fill evidence'')
      else closed_quantity db base cs (dec_add done_qty (real_quantity db c)))"

definition owned_total :: "Db \<Rightarrow> IntentRow \<Rightarrow> dec" where
  "owned_total db base =
     dec_add (it_filled_qty base)
       (case get_intent db (it_client_oid base @ ''-limit'') of None \<Rightarrow> 0 | Some child \<Rightarrow> it_filled_qty child)"

definition remaining_owned_quantity :: "string \<Rightarrow> Db \<Rightarrow> (Exn, dec) raises" where
  "remaining_owned_quantity oid db =
     (case get_intent db oid of
        None \<Rightarrow> Inl (OwnedQuantityEvidenceError ''remaining quantity requires canonical entry root'')
      | Some base \<Rightarrow>
          if it_role base \<noteq> ENTRY \<or> it_entry_leg base = Some ''limit''
          then Inl (OwnedQuantityEvidenceError ''remaining quantity requires canonical entry root'')
          else bindE (closed_quantity db base (bound_closes db (it_margin_reservation_id base)) 0) (\<lambda>done_qty.
            if owned_total db base < done_qty
            then Inl (OwnedQuantityEvidenceError ''bound closes exceed owned entry fills'')
            else Inr (dec_sub (owned_total db base) done_qty)))"

text \<open>The reservation of the entry a native close is bound to, when its evidence is complete.\<close>

definition native_close_owner :: "Db \<Rightarrow> string \<Rightarrow> string \<Rightarrow> string \<Rightarrow> string \<Rightarrow> UUID option option" where
  "native_close_owner db base plan close executed =
     (case (find_intent db BITGET base, find_intent db BITGET plan, find_intent db BITGET close) of
        (Some e, Some p, Some c) \<Rightarrow>
          if it_role e = ENTRY \<and> it_protection_root_oid p = Some (it_client_oid e) \<and> it_role p \<in> {SL, TP}
             \<and> it_provider_order_id p \<noteq> None \<and> it_symbol p = it_symbol e \<and> it_role c = CLOSE
             \<and> it_symbol c = it_symbol e \<and> it_side c \<noteq> it_side e \<and> it_provider_order_id c = Some executed
             \<and> 0 < it_filled_qty c \<and> it_provider_fill_ids c \<noteq> []
             \<and> (\<forall>fid \<in> set (it_provider_fill_ids c). \<not> status_derived fid)
             \<and> it_filled_qty c = real_quantity db c
          then Some (it_margin_reservation_id e) else None
      | _ \<Rightarrow> None)"

definition bind_native_close :: "string \<Rightarrow> string \<Rightarrow> string \<Rightarrow> string \<Rightarrow> Db \<Rightarrow> (Exn, Db) raises" where
  "bind_native_close base close plan executed db =
     (case native_close_owner db base plan close executed of
        None \<Rightarrow> Inl (ValueError ''native close ownership or real fill evidence mismatch'')
      | Some None \<Rightarrow> Inl (StorageError ''bitget_verified_close_bindings not null'')
      | Some (Some rid) \<Rightarrow>
          (case List.find (\<lambda>b. cb_close_client_order_id b = close) (db_bindings db) of
             None \<Rightarrow> Inr (db\<lparr>db_bindings := db_bindings db @ [\<lparr>cb_close_client_order_id = close, cb_reservation_id = rid\<rparr>]\<rparr>)
           | Some b \<Rightarrow> if cb_reservation_id b \<noteq> rid
                       then Inl (ValueError ''native close already bound to another owner'') else Inr db))"

definition stop_mutation :: "Db \<Rightarrow> string \<Rightarrow> string \<Rightarrow> dec \<Rightarrow> string \<Rightarrow> IntentRow option" where
  "stop_mutation db symbol base stop management =
     (case (find_intent db BITGET base, find_intent db BITGET management) of
        (Some e, Some m) \<Rightarrow>
          if it_symbol e = symbol \<and> it_role e = ENTRY \<and> it_entry_leg e \<noteq> Some ''limit'' \<and> it_role m = SL
             \<and> it_symbol m = it_symbol e \<and> it_stop_mutation_root_oid m = Some (it_client_oid e)
             \<and> it_planned_stop_loss m = Some stop
             \<and> it_state m \<in> {I_requested, I_unknown, I_acknowledged, I_reconciled}
          then Some e else None
      | _ \<Rightarrow> None)"

definition managed_entry :: "string \<Rightarrow> string \<Rightarrow> IntentRow \<Rightarrow> IntentRow \<Rightarrow> bool" where
  "managed_entry symbol base e i \<longleftrightarrow> it_exchange i = BITGET \<and> it_role i = ENTRY \<and> it_symbol i = symbol
     \<and> it_margin_reservation_id e \<noteq> None \<and> it_margin_reservation_id i = it_margin_reservation_id e
     \<and> it_client_oid i \<in> {base, base @ ''-limit''}"

definition update_active_stop :: "string \<Rightarrow> string \<Rightarrow> dec \<Rightarrow> string \<Rightarrow> Db \<Rightarrow> (Exn, Db) raises" where
  "update_active_stop symbol base stop management db =
     (if stop \<le> 0 then Inl (ValueError ''active stop must be finite positive'')
      else case stop_mutation db symbol base stop management of
             None \<Rightarrow> Inl (ValueError ''active stop management ownership mismatch'')
           | Some e \<Rightarrow> Inr (fst (update_intents (managed_entry symbol base e)
               (\<lambda>i. i\<lparr>it_active_stop_loss_price := Some stop\<rparr>) db)))"

section \<open>The claim contract\<close>

text \<open>What both intent stores promise of \<open>claim\<close>: the first insert of a key wins, and only that one.\<close>

locale intent_claims =
  fixes claim_op :: "'r \<Rightarrow> 's \<Rightarrow> (Exn, 's \<times> bool) raises"
    and lookup :: "'s \<Rightarrow> 'k \<Rightarrow> 'v option"
    and key :: "'r \<Rightarrow> 'k"
  assumes claim_won: "claim_op r s = Inr (s', True) \<Longrightarrow> lookup s (key r) = None \<and> lookup s' (key r) \<noteq> None"
    and claim_lost: "claim_op r s = Inr (s', False) \<Longrightarrow> lookup s (key r) \<noteq> None \<and> s' = s"
    and claim_frame: "claim_op r s = Inr (s', won) \<Longrightarrow> k \<noteq> key r \<Longrightarrow> lookup s' k = lookup s k"
begin

fun claim_all :: "'r list \<Rightarrow> 's \<Rightarrow> (Exn, 's \<times> bool list) raises" where
  "claim_all [] s = Inr (s, [])"
| "claim_all (r # rs) s =
     bindE (claim_op r s) (\<lambda>(s1, won). bindE (claim_all rs s1) (\<lambda>(s2, wons). Inr (s2, won # wons)))"

lemma claim_present: "claim_op r s = Inr (s', won) \<Longrightarrow> lookup s' (key r) \<noteq> None"
  using claim_won [of r s s'] claim_lost [of r s s'] by (cases won) auto

lemma claim_keeps: "claim_op r s = Inr (s', won) \<Longrightarrow> lookup s k \<noteq> None \<Longrightarrow> lookup s' k \<noteq> None"
  using claim_present claim_frame by (cases "k = key r") auto

lemma no_second_win:
  assumes "claim_op r s = Inr (s', won)" "lookup s (key r) \<noteq> None"
  shows "\<not> won"
  using assms claim_won by (cases won) auto

text \<open>In a sequence of claims that returns, the winners of one key are at most one.\<close>

lemma claim_all_lost:
  "claim_all rs s = Inr (s', wons) \<Longrightarrow> lookup s k \<noteq> None \<Longrightarrow>
     filter (\<lambda>(r, won). key r = k \<and> won) (zip rs wons) = []"
proof (induction rs arbitrary: s s' wons)
  case (Cons r rs)
  from Cons.prems(1) obtain s1 won wons' where one: "claim_op r s = Inr (s1, won)"
    and rest: "claim_all rs s1 = Inr (s', wons')" and "wons = won # wons'" by (auto simp: run_simps)
  with Cons.IH [OF rest claim_keeps [OF one Cons.prems(2)]] no_second_win [OF one] Cons.prems(2)
  show ?case by auto
qed simp

lemma at_most_one_winner:
  "claim_all rs s = Inr (s', wons) \<Longrightarrow> length (filter (\<lambda>(r, won). key r = k \<and> won) (zip rs wons)) \<le> 1"
proof (induction rs arbitrary: s s' wons)
  case (Cons r rs)
  from Cons.prems obtain s1 won wons' where one: "claim_op r s = Inr (s1, won)"
    and rest: "claim_all rs s1 = Inr (s', wons')" and w: "wons = won # wons'" by (auto simp: run_simps)
  show ?case
  proof (cases "key r = k \<and> won")
    case True
    then have "lookup s1 k \<noteq> None" using claim_present [OF one] by simp
    then have "filter (\<lambda>(r, won). key r = k \<and> won) (zip rs wons') = []" by (rule claim_all_lost [OF rest])
    then show ?thesis using w by (simp split: if_splits)
  next
    case False
    then show ?thesis using Cons.IH [OF rest] w by auto
  qed
qed simp

end

section \<open>Lemmas\<close>

definition ident :: "('a) LiveIntentRecord_scheme \<Rightarrow> Exchange \<times> string" where
  "ident i = (it_exchange i, it_client_oid i)"

lemma find_intent_ident:
  "find_intent db ex oid = None \<longleftrightarrow> (ex, oid) \<notin> ident ` set (db_intents db)"
  by (auto simp: find_intent_def find_None_iff_none ident_def image_iff)

lemma stored_row_fields [simp]:
  "it_exchange (stored_row now r) = it_exchange r" "it_client_oid (stored_row now r) = it_client_oid r"
  "it_created_at (stored_row now r) = now" "it_state (stored_row now r) = it_state r"
  "it_provider_order_id (stored_row now r) = it_provider_order_id r"
  by (simp_all add: stored_row_def LiveIntentRecord.defs IntentRow.defs)

lemma ident_stored_row [simp]: "ident (stored_row now r) = ident r"
  by (simp add: ident_def)

lemma insert_intent_Inr [run_simps]:
  "insert_intent now r db = Inr (db', won) \<longleftrightarrow>
     intent_check (stored_row now r) \<and>
     (if ident r \<in> ident ` set (db_intents db) then db' = db \<and> \<not> won
      else won \<and> \<not> leg_taken db (stored_row now r) \<and> admission_bound db (stored_row now r)
        \<and> db' = db\<lparr>db_intents := db_intents db @ [stored_row now r]\<rparr>)"
  using find_intent_ident [of db "it_exchange r" "it_client_oid r"]
  by (auto simp: insert_intent_def Let_def ident_def split: if_splits)

lemma claim_Inr: "claim a now r db = Inr (db', won) \<Longrightarrow> insert_intent now r db = Inr (db', won)"
  by (auto simp: claim_def run_simps simp del: insert_intent_Inr split: if_splits)

interpretation pg_claims: intent_claims "claim a now" "\<lambda>db (ex, oid). find_intent db ex oid" ident
proof
  fix r :: LiveIntentRecord and db db' won k
  assume "claim a now r db = Inr (db', won)" "k \<noteq> ident r"
  then show "(case k of (ex, oid) \<Rightarrow> find_intent db' ex oid) = (case k of (ex, oid) \<Rightarrow> find_intent db ex oid)"
    by (cases k) (auto dest!: claim_Inr simp: run_simps find_intent_def find_in_append ident_def split: if_splits option.split)
next
  fix r :: LiveIntentRecord and db db'
  assume "claim a now r db = Inr (db', True)"
  then show "(case ident r of (ex, oid) \<Rightarrow> find_intent db ex oid) = None \<and>
      (case ident r of (ex, oid) \<Rightarrow> find_intent db' ex oid) \<noteq> None"
    by (auto dest!: claim_Inr simp: run_simps find_intent_ident ident_def split: if_splits)
next
  fix r :: LiveIntentRecord and db db'
  assume "claim a now r db = Inr (db', False)"
  then show "(case ident r of (ex, oid) \<Rightarrow> find_intent db ex oid) \<noteq> None \<and> db' = db"
    by (auto dest!: claim_Inr simp: run_simps find_intent_ident ident_def split: if_splits)
qed

section \<open>Runs of the store\<close>

inductive store_step :: "Db \<Rightarrow> Db \<Rightarrow> bool" where
  step_claim: "claim a now r db = Inr (db', won) \<Longrightarrow> store_step db db'"
| step_split: "claim_split a now market limit db = Inr (db', won) \<Longrightarrow> store_step db db'"
| step_protection: "claim_protection now rs db = Inr (db', won) \<Longrightarrow> store_step db db'"
| step_entry_post: "claim_entry_post a oid db = Inr (db', won) \<Longrightarrow> store_step db db'"
| step_cancel: "claim_cancel a oid management db = Inr (db', won) \<Longrightarrow> store_step db db'"
| step_cancel_post: "claim_cancel_post oid db = Inr (db', won) \<Longrightarrow> store_step db db'"
| step_settle: "settle_absent oid db = Inr (db', n) \<Longrightarrow> store_step db db'"
| step_update: "update_intent now (r :: LiveIntentRecord) db = Inr db' \<Longrightarrow> store_step db db'"
| step_fills: "record_fills now (r :: LiveIntentRecord) fills db = Inr db' \<Longrightarrow> store_step db db'"
| step_event: "record_provider_event e db = Inr db' \<Longrightarrow> store_step db db'"
| step_bind: "bind_native_close base close plan executed db = Inr db' \<Longrightarrow> store_step db db'"
| step_stop: "update_active_stop symbol base stop management db = Inr db' \<Longrightarrow> store_step db db'"

abbreviation store_run :: "Db \<Rightarrow> Db \<Rightarrow> bool" where
  "store_run \<equiv> store_step\<^sup>*\<^sup>*"

text \<open>A step of the intents table: rows keep their identity, provider order id and cancel request once
  set; new rows come last.\<close>

definition row_evolves :: "IntentRow \<Rightarrow> IntentRow \<Rightarrow> bool" where
  "row_evolves i j \<longleftrightarrow> ident j = ident i \<and> it_created_at j = it_created_at i
     \<and> (it_provider_order_id i \<noteq> None \<longrightarrow> it_provider_order_id j = it_provider_order_id i)
     \<and> (it_cancel_requested_by i \<noteq> None \<longrightarrow> it_cancel_requested_by j = it_cancel_requested_by i)"

definition intents_evolve :: "Db \<Rightarrow> Db \<Rightarrow> bool" where
  "intents_evolve db db' \<longleftrightarrow>
     (\<exists>old new. db_intents db' = old @ new \<and> list_all2 row_evolves (db_intents db) old
        \<and> distinct (map ident new) \<and> ident ` set new \<inter> ident ` set (db_intents db) = {})"

lemma row_evolves_refl [simp]: "row_evolves i i"
  by (simp add: row_evolves_def)

lemma rows_evolve_refl: "list_all2 row_evolves is is"
  by (simp add: list.rel_refl)

lemma intents_evolve_same: "db_intents db' = db_intents db \<Longrightarrow> intents_evolve db db'"
  unfolding intents_evolve_def by (rule exI [of _ "db_intents db'"], rule exI [of _ "[]"]) (simp add: rows_evolve_refl)

lemma intents_evolve_update:
  assumes "db_intents db' = update_where p f (db_intents db)" "\<And>i. p i \<Longrightarrow> row_evolves i (f i)"
  shows "intents_evolve db db'"
proof -
  have "list_all2 row_evolves (db_intents db) (update_where p f (db_intents db))"
    using assms(2) by (auto simp: update_where_def list_all2_conv_all_nth)
  then show ?thesis unfolding intents_evolve_def using assms(1)
    by (intro exI [of _ "update_where p f (db_intents db)"] exI [of _ "[]"]) simp
qed

lemma intents_evolve_insert:
  "insert_intent now r db = Inr (db', won) \<Longrightarrow> intents_evolve db db'"
  unfolding intents_evolve_def
  by (rule exI [of _ "db_intents db"], rule exI [of _ "if won then [stored_row now r] else []"])
     (auto simp: run_simps rows_evolve_refl split: if_splits)

lemma row_evolves_trans: "row_evolves i j \<Longrightarrow> row_evolves j k \<Longrightarrow> row_evolves i k"
  by (auto simp: row_evolves_def)

lemma evolved_idents: "list_all2 row_evolves is js \<Longrightarrow> map ident js = map ident is"
  by (induction rule: list_all2_induct) (auto simp: row_evolves_def)

lemma intents_evolve_trans:
  assumes "intents_evolve a b" "intents_evolve b c"
  shows "intents_evolve a c"
proof -
  from assms obtain o1 n1 o2 n2 where b: "db_intents b = o1 @ n1" "list_all2 row_evolves (db_intents a) o1"
      "distinct (map ident n1)" "ident ` set n1 \<inter> ident ` set (db_intents a) = {}"
    and c: "db_intents c = o2 @ n2" "list_all2 row_evolves (o1 @ n1) o2"
      "distinct (map ident n2)" "ident ` set n2 \<inter> ident ` set (o1 @ n1) = {}"
    by (auto simp: intents_evolve_def)
  from c(2) obtain p q where o2: "o2 = p @ q" "list_all2 row_evolves o1 p" "list_all2 row_evolves n1 q"
    by (auto simp: list_all2_append1)
  have q: "map ident q = map ident n1" by (rule evolved_idents [OF o2(3)])
  then have sq: "ident ` set q = ident ` set n1" by (metis set_map)
  have so: "ident ` set o1 = ident ` set (db_intents a)" using evolved_idents [OF b(2)] by (metis set_map)
  show ?thesis unfolding intents_evolve_def
  proof (intro exI conjI)
    show "db_intents c = p @ (q @ n2)" using c(1) o2(1) by simp
    show "list_all2 row_evolves (db_intents a) p"
      using list_all2_trans [of row_evolves row_evolves row_evolves] row_evolves_trans b(2) o2(2) by blast
    show "distinct (map ident (q @ n2))"
      using b(3) c(3,4) q sq by (simp add: image_Un) blast
    show "ident ` set (q @ n2) \<inter> ident ` set (db_intents a) = {}"
      using b(4) c(4) sq so by (simp add: image_Un) blast
  qed
qed

lemma intents_evolve_insert_all:
  "insert_all now rs db = Inr (db', wons) \<Longrightarrow> intents_evolve db db'"
proof (induction rs arbitrary: db db' wons)
  case (Cons r rs)
  from Cons.prems obtain db1 won wons' where one: "insert_intent now r db = Inr (db1, won)"
    and rest: "insert_all now rs db1 = Inr (db', wons')"
    by (auto simp: bindE_Inr_iff)
  from intents_evolve_insert [OF one] Cons.IH [OF rest] show ?case by (rule intents_evolve_trans)
qed (simp add: intents_evolve_same)

text \<open>The ledger: unique fill keys, and no intent has both provider fills and a derived aggregate.\<close>

definition fill_keys :: "Db \<Rightarrow> bool" where
  "fill_keys db \<longleftrightarrow> distinct (map (\<lambda>f. (fl_exchange f, fl_provider_fill_id f)) (db_fills db))"

definition pure_at :: "Db \<Rightarrow> Exchange \<Rightarrow> string \<Rightarrow> bool" where
  "pure_at db ex oid \<longleftrightarrow>
     (\<forall>f \<in> set (fills_of db ex oid). \<forall>g \<in> set (fills_of db ex oid).
        status_derived (fl_provider_fill_id f) = status_derived (fl_provider_fill_id g))"

definition ledger_ok :: "Db \<Rightarrow> bool" where
  "ledger_ok db \<longleftrightarrow> fill_keys db \<and> (\<forall>ex oid. pure_at db ex oid)"

lemma ledger_ok_same: "db_fills db' = db_fills db \<Longrightarrow> ledger_ok db' = ledger_ok db"
  by (simp add: ledger_ok_def fill_keys_def pure_at_def fills_of_def)

lemma pure_atD: "pure_at db ex oid \<Longrightarrow> f \<in> set (fills_of db ex oid) \<Longrightarrow> g \<in> set (fills_of db ex oid) \<Longrightarrow>
    status_derived (fl_provider_fill_id f) = status_derived (fl_provider_fill_id g)"
  unfolding pure_at_def by blast

lemma pure_at_cong: "fills_of db' ex oid = fills_of db ex oid \<Longrightarrow> pure_at db' ex oid = pure_at db ex oid"
  by (simp add: pure_at_def)

lemma insert_fill_cases:
  "insert_fill f db = Inr db' \<Longrightarrow> db' = db \<or> db' = db\<lparr>db_fills := db_fills db @ [f]\<rparr>
     \<and> (fl_exchange f, fl_provider_fill_id f) \<notin> (\<lambda>g. (fl_exchange g, fl_provider_fill_id g)) ` set (db_fills db)"
  by (auto simp: insert_fill_def split: if_splits)

lemma insert_fill_props:
  assumes "insert_fill f db = Inr db'"
  shows "db_intents db' = db_intents db" and "fill_keys db \<Longrightarrow> fill_keys db'"
    and "(ex, oid) \<noteq> (fl_exchange f, fl_client_order_id f) \<Longrightarrow> fills_of db' ex oid = fills_of db ex oid"
  using insert_fill_cases [OF assms] by (auto simp: fill_keys_def fills_of_def)

lemma fill_owner [simp]:
  "fl_exchange (provider_fill r u t) = it_exchange r" "fl_client_order_id (provider_fill r u t) = it_client_oid r"
  "fl_exchange (derived_fill now r p) = it_exchange r" "fl_client_order_id (derived_fill now r p) = it_client_oid r"
  by (simp_all add: provider_fill_def derived_fill_def split: prod.split)

lemma drop_superseded_props:
  shows "db_intents (drop_superseded ex oid db) = db_intents db"
    and "fill_keys db \<Longrightarrow> fill_keys (drop_superseded ex oid db)"
    and "pure_at (drop_superseded ex oid db) ex oid"
    and "(ex', oid') \<noteq> (ex, oid) \<Longrightarrow> fills_of (drop_superseded ex oid db) ex' oid' = fills_of db ex' oid'"
  by (auto simp: drop_superseded_def fill_keys_def pure_at_def fills_of_def distinct_map
           intro: inj_on_subset filter_cong)

lemma insert_provider_fill_props:
  assumes "insert_provider_fill now r raw db = Inr db'"
  shows "db_intents db' = db_intents db" and "ledger_ok db \<Longrightarrow> ledger_ok db'"
proof -
  consider "db' = db" | f db1 where "insert_fill f db = Inr db1" "fl_exchange f = it_exchange r"
      "fl_client_order_id f = it_client_oid r" "db' = drop_superseded (it_exchange r) (it_client_oid r) db1"
  proof (cases "usable_fill (normalize_fill raw)")
    case None
    then show ?thesis using assms that(1) by (simp add: insert_provider_fill_def)
  next
    case (Some u)
    then obtain t db1 where "insert_fill (provider_fill r u t) db = Inr db1"
      "db' = drop_superseded (it_exchange r) (it_client_oid r) db1"
      using assms by (auto simp: insert_provider_fill_def bindE_Inr_iff)
    then show ?thesis by (rule that(2) [OF _ fill_owner(1,2)])
  qed
  then have "db_intents db' = db_intents db \<and> (ledger_ok db \<longrightarrow> ledger_ok db')"
  proof cases
    case 2
    note ins = insert_fill_props [OF 2(1)] and drop = drop_superseded_props [where ex = "it_exchange r" and oid = "it_client_oid r" and db = db1]
    have "pure_at db' ex oid" if "ledger_ok db" for ex oid
    proof (cases "(ex, oid) = (it_exchange r, it_client_oid r)")
      case True
      then show ?thesis using drop(3) 2(4) by simp
    next
      case False
      then have "fills_of db' ex oid = fills_of db ex oid" using drop(4) ins(3) 2 by simp
      then have "pure_at db' ex oid = pure_at db ex oid" by (rule pure_at_cong)
      then show ?thesis using that by (simp add: ledger_ok_def)
    qed
    then show ?thesis using ins(1,2) drop(1,2) 2(4) by (simp add: ledger_ok_def)
  qed simp
  then show "db_intents db' = db_intents db" and "ledger_ok db \<Longrightarrow> ledger_ok db'" by simp_all
qed

lemma insert_provider_fills_props:
  assumes "insert_provider_fills now r fills db = Inr db'"
  shows "db_intents db' = db_intents db \<and> (ledger_ok db \<longrightarrow> ledger_ok db')"
  using assms
proof (induction fills arbitrary: db)
  case (Cons raw fills)
  from Cons.prems obtain db1 where one: "insert_provider_fill now r raw db = Inr db1"
    and rest: "insert_provider_fills now r fills db1 = Inr db'" by (auto simp: run_simps)
  show ?case using Cons.IH [OF rest] insert_provider_fill_props [OF one] by simp
qed simp

lemma insert_status_derived_fill_props:
  assumes "insert_status_derived_fill now r db = Inr db'"
  shows "db_intents db' = db_intents db \<and> (ledger_ok db \<longrightarrow> ledger_ok db')"
proof -
  consider "db' = db" | price where "insert_fill (derived_fill now r price) db = Inr db'"
      "fills_of db (it_exchange r) (it_client_oid r) = []"
  proof (cases "it_state r \<notin> {I_filled, I_reconciled} \<or> it_avg_price r = None
      \<or> it_filled_qty r \<le> 0 \<or> fills_of db (it_exchange r) (it_client_oid r) \<noteq> []")
    case True
    then show ?thesis
      using assms that(1) unfolding insert_status_derived_fill_def by (cases "it_avg_price r") (simp_all split: if_splits)
  next
    case False
    then obtain price where "it_avg_price r = Some price" by auto
    with False show ?thesis
      using assms that unfolding insert_status_derived_fill_def by (cases "price \<le> 0") simp_all
  qed
  then show ?thesis
  proof cases
    case 2
    have "pure_at db' ex oid" if "ledger_ok db" for ex oid
    proof (cases "(ex, oid) = (it_exchange r, it_client_oid r)")
      case True
      have "db_fills db' = db_fills db @ [derived_fill now r price] \<or> db_fills db' = db_fills db"
        using insert_fill_cases [OF 2(1)] by auto
      then have "fills_of db' ex oid = [] \<or> fills_of db' ex oid = [derived_fill now r price]"
        using True 2(2) by (auto simp: fills_of_def)
      then show ?thesis by (auto simp: pure_at_def)
    next
      case False
      then have "fills_of db' ex oid = fills_of db ex oid" using insert_fill_props(3) [OF 2(1)] by simp
      then have "pure_at db' ex oid = pure_at db ex oid" by (rule pure_at_cong)
      then show ?thesis using that by (simp add: ledger_ok_def)
    qed
    then show ?thesis using insert_fill_props(1,2) [OF 2(1)] by (simp add: ledger_ok_def)
  qed simp
qed

lemma insert_intent_fills: "insert_intent now r db = Inr (db', won) \<Longrightarrow> db_fills db' = db_fills db"
  by (auto simp: run_simps split: if_splits)

lemma insert_all_fills: "insert_all now rs db = Inr (db', wons) \<Longrightarrow> db_fills db' = db_fills db"
  by (induction rs arbitrary: db db' wons) (fastforce simp: bindE_Inr_iff dest: insert_intent_fills)+

definition step_keeps :: "Db \<Rightarrow> Db \<Rightarrow> bool" where
  "step_keeps db db' \<longleftrightarrow> intents_evolve db db' \<and> (ledger_ok db \<longrightarrow> ledger_ok db')"

lemma keeps_fills: "intents_evolve db db' \<Longrightarrow> db_fills db' = db_fills db \<Longrightarrow> step_keeps db db'"
  using ledger_ok_same [of db' db] by (simp add: step_keeps_def)

lemma keeps_update:
  assumes "update_intents p f db = (db', won)" and "\<And>i. p i \<Longrightarrow> row_evolves i (f i)"
  shows "step_keeps db db'"
proof (rule keeps_fills)
  show "intents_evolve db db'"
    by (rule intents_evolve_update [where p = p and f = f]) (use assms in \<open>auto simp: update_intents_def\<close>)
  show "db_fills db' = db_fills db" using assms(1) by (auto simp: update_intents_def)
qed

lemma keeps_update_fst:
  "db' = fst (update_intents p f db) \<Longrightarrow> (\<And>i. p i \<Longrightarrow> row_evolves i (f i)) \<Longrightarrow> step_keeps db db'"
  by (rule keeps_update [of p f db db' "snd (update_intents p f db)"]) simp_all

lemma keeps_same: "db_intents db' = db_intents db \<Longrightarrow> (ledger_ok db \<Longrightarrow> ledger_ok db') \<Longrightarrow> step_keeps db db'"
  by (simp add: step_keeps_def intents_evolve_same)

lemma keeps_trans: "step_keeps a b \<Longrightarrow> step_keeps b c \<Longrightarrow> step_keeps a c"
  by (auto simp: step_keeps_def intro: intents_evolve_trans)

lemma keeps_insert: "insert_intent now r db = Inr (db', won) \<Longrightarrow> step_keeps db db'"
  by (rule keeps_fills) (auto intro: intents_evolve_insert dest: insert_intent_fills)

lemma readback_evolves: "readback_target r i \<Longrightarrow> row_evolves i (readback_row r i)"
  by (auto simp: readback_target_def readback_row_def row_evolves_def ident_def split: option.split)

lemma cancel_evolves: "it_cancel_requested_by i = None \<Longrightarrow> row_evolves i (cancel_row m i)"
  by (simp add: cancel_row_def row_evolves_def ident_def)

lemma keeps_update_intent:
  assumes "update_intent now r db = Inr db'"
  shows "step_keeps db db'"
proof -
  from assms obtain db1 db2 where db1: "db1 = fst (update_intents (readback_target r) (readback_row r) db)"
    and fills: "insert_provider_fills now r (it_provider_fills r) db1 = Inr db2"
    and derived: "insert_status_derived_fill now r db2 = Inr db'"
    by (auto simp: update_intent_def bindE_Inr_iff split: prod.splits if_splits)
  have "step_keeps db db1" using db1 readback_evolves by (rule keeps_update_fst)
  moreover have "step_keeps db1 db2" using insert_provider_fills_props [OF fills] by (intro keeps_same) simp_all
  moreover have "step_keeps db2 db'" using insert_status_derived_fill_props [OF derived] by (intro keeps_same) simp_all
  ultimately show ?thesis using keeps_trans by blast
qed

lemma keeps_split:
  assumes "claim_split a now market limit db = Inr (db', won)"
  shows "step_keeps db db'"
proof -
  from assms obtain db1 c where one: "insert_intent now market db = Inr (db1, c)"
    and rest: "(c \<and> insert_intent now limit db1 = Inr (db', True)) \<or> (\<not> c \<and> db' = db1)"
    by (auto simp: claim_split_def bindE_Inr_iff split: if_splits)
  from rest show ?thesis using keeps_insert [OF one] keeps_insert [of now limit db1] keeps_trans by blast
qed

lemma keeps_bind:
  "bind_native_close base close plan executed db = Inr db' \<Longrightarrow> step_keeps db db'"
  by (rule keeps_fills, rule intents_evolve_same)
     (auto simp: bind_native_close_def split: option.splits if_splits)

lemma store_step_keeps: "store_step db db' \<Longrightarrow> step_keeps db db'"
proof (induction rule: store_step.induct)
  case step_claim
  then show ?case by (auto dest: claim_Inr keeps_insert)
next
  case step_split
  then show ?case by (rule keeps_split)
next
  case (step_protection now rs db db' won)
  then have "insert_all now rs db = Inr (db', map (\<lambda>_. True) rs) \<or> (\<exists>w. insert_all now rs db = Inr (db', w)) \<or> db' = db"
    by (auto simp: claim_protection_def bindE_Inr_iff split: if_splits)
  then show ?case by (auto intro: keeps_fills intents_evolve_insert_all intents_evolve_same dest: insert_all_fills)
next
  case (step_entry_post a oid db db' won)
  then have "update_intents (postable oid) (\<lambda>i. i\<lparr>it_state := I_requested\<rparr>) db = (db', won)"
    by (simp add: claim_entry_post_def bindE_Inr_iff)
  then show ?case by (rule keeps_update) (simp add: row_evolves_def ident_def)
next
  case (step_cancel a oid management db db' won)
  then have "update_intents (\<lambda>i. owned_limit db oid i \<and> it_cancel_requested_by i = None \<and> \<not> it_provider_terminal i)
      (cancel_row management) db = (db', won)"
    by (simp add: claim_cancel_def bindE_Inr_iff)
  then show ?case by (rule keeps_update) (simp add: cancel_evolves)
next
  case (step_cancel_post oid db db' won)
  then have "update_intents (\<lambda>i. owned_limit db oid i \<and> it_cancel_requested_by i \<noteq> None \<and> \<not> it_cancel_post_claimed i
      \<and> \<not> it_provider_terminal i) (\<lambda>i. i\<lparr>it_cancel_post_claimed := True\<rparr>) db = (db', won)"
    by (simp add: claim_cancel_post_def)
  then show ?case by (rule keeps_update) (simp add: row_evolves_def ident_def)
next
  case (step_settle oid db db' n)
  then have "db' = fst (update_intents (\<lambda>i. it_client_oid i = oid \<and> it_state i = I_unknown \<and> it_role i \<noteq> ENTRY
      \<and> it_filled_qty i = 0) (\<lambda>i. i\<lparr>it_state := I_cancelled\<rparr>) db)"
    by (simp add: settle_absent_def update_intents_def Let_def)
  then show ?case by (rule keeps_update_fst) (simp add: row_evolves_def ident_def)
next
  case step_update
  then show ?case by (rule keeps_update_intent)
next
  case step_fills
  then show ?case by (auto simp: record_fills_def dest!: insert_provider_fills_props intro: keeps_same)
next
  case step_event
  then show ?case
    by (auto simp: record_provider_event_def split: if_splits intro!: keeps_fills intents_evolve_same)
next
  case step_bind
  then show ?case by (rule keeps_bind)
next
  case (step_stop symbol base stop management db db')
  then obtain e where "db' = fst (update_intents (managed_entry symbol base e)
      (\<lambda>i. i\<lparr>it_active_stop_loss_price := Some stop\<rparr>) db)"
    unfolding update_active_stop_def by (auto split: if_splits option.splits)
  then show ?case by (rule keeps_update_fst) (simp add: row_evolves_def ident_def)
qed

lemma store_run_keeps: "store_run db db' \<Longrightarrow> step_keeps db db'"
  by (induction rule: rtranclp_induct) (auto intro: keeps_trans store_step_keeps keeps_same)

text \<open>What a run keeps of one row.\<close>

lemma run_row:
  assumes "store_run db db'" "i \<in> set (db_intents db)"
  obtains j where "j \<in> set (db_intents db')" "row_evolves i j"
proof -
  obtain old new where "db_intents db' = old @ new" "list_all2 row_evolves (db_intents db) old"
    using store_run_keeps [OF assms(1)] by (auto simp: step_keeps_def intents_evolve_def)
  with assms(2) show ?thesis
    using that by (auto simp: list_all2_conv_all_nth in_set_conv_nth nth_append) (metis nth_mem)
qed

lemma run_idents:
  assumes "store_run db db'"
  shows "ident ` set (db_intents db) \<subseteq> ident ` set (db_intents db')"
proof
  fix k assume "k \<in> ident ` set (db_intents db)"
  then obtain i where i: "i \<in> set (db_intents db)" and k: "k = ident i" by blast
  from run_row [OF assms i] obtain j where "j \<in> set (db_intents db')" "row_evolves i j" .
  then show "k \<in> ident ` set (db_intents db')" using k by (metis image_eqI row_evolves_def)
qed

lemma run_distinct:
  assumes "store_run db db'" "distinct (map ident (db_intents db))"
  shows "distinct (map ident (db_intents db'))"
proof -
  obtain old new where new: "db_intents db' = old @ new" "list_all2 row_evolves (db_intents db) old"
    "distinct (map ident new)" "ident ` set new \<inter> ident ` set (db_intents db) = {}"
    using store_run_keeps [OF assms(1)] by (auto simp: step_keeps_def intents_evolve_def)
  have "map ident old = map ident (db_intents db)" by (rule evolved_idents [OF new(2)])
  moreover from this have "ident ` set old = ident ` set (db_intents db)" by (metis set_map)
  ultimately show ?thesis using new(1,3,4) assms(2) by auto
qed

lemma closed_quantity_evidence:
  assumes "closed_quantity db base cs acc = Inr q"
  shows "\<forall>c \<in> set cs. it_filled_qty c \<noteq> 0 \<longrightarrow> close_evidence db base c"
  using assms by (induction cs arbitrary: acc) (auto split: if_splits)

section \<open>Properties\<close>

text \<open>A database with one staged limit child under a reservation.\<close>

definition empty_db :: Db where
  "empty_db = \<lparr>db_dispatches = [], db_signals = [], db_messages = [], db_manual_entries = [], db_running_jobs = [],
     db_reservations = [], db_snapshots = [], db_intents = [], db_fills = [], db_bindings = [], db_baseline = [],
     db_provider_events = [], db_post_fill = [], db_transitions = [], db_outbox = [], db_canary = [], db_kill_switches = [], db_capabilities = [], db_fallback = [],
     db_baselines = [], db_pauses = [], db_management = [], db_management_intents = []\<rparr>"

definition sample_child :: LiveIntentRecord where
  "sample_child = (new_record BITGET ''e1-limit'' ''ZROUSDT'' ''BUY'')
     \<lparr>it_state := I_staged, it_requested_qty := 9, it_entry_leg := Some ''limit'', it_order_type := ''limit'',
      it_limit_price := Some (158 / 100), it_dispatch_id := Some 1, it_margin_reservation_id := Some 7,
      it_balance_snapshot_id := Some 3, it_planned_margin_usdt := Some 1, it_planned_leverage := Some 20,
      it_margin_mode := Some ''ISOLATED''\<rparr>"

definition staged_db :: Db where
  "staged_db = empty_db
     \<lparr>db_dispatches := [\<lparr>ds_id = 1, ds_source_id = 2, ds_source_type = ''signal'', ds_revision = ''r'', ds_exchange = BITGET, ds_state = SUBMITTING,
        ds_terminal_reason = None, ds_claimed_by = None, ds_lease_until = None, ds_attempts = 1, ds_created_at = 0, ds_updated_at = 0\<rparr>],
      db_reservations := [\<lparr>rs_id = 7, rs_dispatch_id = 1, rs_client_order_id = ''e1'', rs_balance_snapshot_id = 3,
        rs_planned_margin_usdt = 1, rs_symbol = Some ''ZROUSDT'', rs_environment = Some ''LIVE'',
        rs_legacy_binding_symbol = None, rs_state = R_reserved, rs_expires_at = 900, rs_created_at = 0,
        rs_resolved_at = None, rs_resolution_reason = None, rs_has_exposure = False\<rparr>],
      db_intents := [stored_row 5 sample_child]\<rparr>"

definition sample_close :: LiveIntentRecord where
  "sample_close = (new_record BITGET ''c1'' ''ZROUSDT'' ''SELL'')\<lparr>it_role := CLOSE, it_requested_qty := 5,
     it_provider_order_id := Some ''p1''\<rparr>"

definition close_db :: Db where
  "close_db = empty_db\<lparr>db_intents := [stored_row 5 sample_close]\<rparr>"

lemma sample_claim: "claim None 5 sample_close empty_db = Inr (close_db, True)"
  by (simp add: claim_def sample_close_def new_record_def insert_intent_Inr authorise_def empty_db_def close_db_def
      intent_check_def stored_row_def LiveIntentRecord.defs IntentRow.defs positive_or_null_def leg_taken_def admission_bound_def)

lemma sample_claim_lost: "claim None 6 sample_close close_db = Inr (close_db, False)"
  by (simp add: claim_def sample_close_def new_record_def insert_intent_Inr authorise_def empty_db_def close_db_def
      intent_check_def stored_row_def LiveIntentRecord.defs IntentRow.defs positive_or_null_def ident_def)

text \<open>
  C16: an order is submitted at most once per client order id. Once a claim of an intent wins, no
  later claim of the same exchange and client order id wins, whatever the store did in between, and
  the losing claim changes nothing.
\<close>

theorem claim_wins_once:
  assumes "claim a now r db = Inr (db1, True)" and "store_run db1 db2" and "ident r' = ident r"
    and "claim a' now' r' db2 = Inr (db3, won)"
  shows "\<not> won \<and> db3 = db2"
proof -
  have "ident r \<in> ident ` set (db_intents db1)"
    using claim_Inr [OF assms(1)] by (auto simp: run_simps split: if_splits)
  then have "ident r' \<in> ident ` set (db_intents db2)" using run_idents [OF assms(2)] assms(3) by auto
  then show ?thesis using claim_Inr [OF assms(4)] by (simp add: run_simps)
qed

theorem claim_wins_once_witness:
  "\<not> snd (projr (claim None 6 sample_close close_db)) \<and> fst (projr (claim None 6 sample_close close_db)) = close_db"
  by (rule claim_wins_once [OF sample_claim rtranclp.rtrancl_refl refl, of None 6]) (simp add: sample_claim_lost)

text \<open>
  C21: the fill ledger never counts an execution twice. Along every run of the store the fill keys
  stay unique, and no intent carries both provider fills and the aggregate derived from its order
  status.
\<close>

theorem fill_ledger_exact:
  assumes "ledger_ok db" and "store_run db db'"
  shows "distinct (map (\<lambda>f. (fl_exchange f, fl_provider_fill_id f)) (db_fills db'))
    \<and> \<not> (\<exists>f \<in> set (db_fills db'). \<exists>g \<in> set (db_fills db').
          fl_exchange f = fl_exchange g \<and> fl_client_order_id f = fl_client_order_id g
          \<and> status_derived (fl_provider_fill_id f) \<and> \<not> status_derived (fl_provider_fill_id g))"
proof -
  have "ledger_ok db'" using store_run_keeps [OF assms(2)] assms(1) by (simp add: step_keeps_def)
  then have keys: "fill_keys db'" and pure: "\<And>ex oid. pure_at db' ex oid" by (simp_all add: ledger_ok_def)
  have "\<not> (status_derived (fl_provider_fill_id f) \<and> \<not> status_derived (fl_provider_fill_id g))"
    if "f \<in> set (db_fills db')" "g \<in> set (db_fills db')" "fl_exchange f = fl_exchange g"
      "fl_client_order_id f = fl_client_order_id g" for f g
    using pure_atD [OF pure, of f "fl_exchange g" "fl_client_order_id g" g] that by (simp add: fills_of_def)
  with keys show ?thesis unfolding fill_keys_def by blast
qed

lemma empty_ledger: "ledger_ok empty_db"
  by (simp add: ledger_ok_def fill_keys_def pure_at_def fills_of_def empty_db_def)

theorem fill_ledger_exact_witness:
  "distinct (map (\<lambda>f. (fl_exchange f, fl_provider_fill_id f)) (db_fills close_db))"
  using fill_ledger_exact [OF empty_ledger, of close_db] step_claim [OF sample_claim] by blast

text \<open>
  The venue's order id of an intent is immutable. Once an intent has a provider order id, every
  later row of that intent has the same one.
\<close>

theorem provider_order_id_stable:
  assumes "distinct (map ident (db_intents db))" and "store_run db db'"
    and "i \<in> set (db_intents db)" and "it_provider_order_id i = Some p"
    and "j \<in> set (db_intents db')" and "ident j = ident i"
  shows "it_provider_order_id j = Some p"
proof -
  from run_row [OF assms(2,3)] obtain k where k: "k \<in> set (db_intents db')" "row_evolves i k" .
  have "distinct (map ident (db_intents db'))" using assms(2,1) by (rule run_distinct)
  then have "k = j" using k assms(5,6) by (auto simp: distinct_map inj_on_def row_evolves_def)
  then show ?thesis using k(2) assms(4) by (simp add: row_evolves_def)
qed

theorem provider_order_id_stable_witness: "it_provider_order_id (stored_row 5 sample_close) = Some ''p1''"
  by (rule provider_order_id_stable [of close_db close_db "stored_row 5 sample_close"])
     (simp_all add: close_db_def empty_db_def sample_close_def new_record_def)

text \<open>
  C32: a cancelled limit child is never posted. When a cancel claim wins on an intent, no later claim
  to post that intent wins, whatever the store did in between.
\<close>

theorem cancelled_child_never_posted:
  assumes "distinct (map ident (db_intents db))" and "claim_cancel a oid m db = Inr (db1, True)"
    and "store_run db1 db2" and "claim_entry_post a' oid db2 = Inr (db3, won)"
  shows "\<not> won"
proof -
  let ?p = "\<lambda>i. owned_limit db oid i \<and> it_cancel_requested_by i = None \<and> \<not> it_provider_terminal i"
  from assms(2) have db1: "db_intents db1 = update_where ?p (cancel_row m) (db_intents db)"
    and ex: "\<exists>i \<in> set (db_intents db). ?p i"
    by (auto simp: claim_cancel_def bindE_Inr_iff update_intents_def)
  from ex obtain i where i: "i \<in> set (db_intents db)" "?p i" by blast
  have step: "store_step db db1" using assms(2) by (rule step_cancel)
  have run: "store_run db db2" using step assms(3) by (rule converse_rtranclp_into_rtranclp)
  have "cancel_row m i \<in> set (db_intents db1)" using i db1 by (auto simp: set_update_where)
  then obtain j where j: "j \<in> set (db_intents db2)" "row_evolves (cancel_row m i) j"
    using run_row [OF assms(3)] by blast
  have bound: "ident j = (BITGET, oid)" "it_cancel_requested_by j \<noteq> None"
    using j(2) i(2) by (auto simp: row_evolves_def cancel_row_def ident_def owned_limit_def)
  have "distinct (map ident (db_intents db2))" using run assms(1) by (rule run_distinct)
  then have "\<forall>k \<in> set (db_intents db2). ident k = (BITGET, oid) \<longrightarrow> k = j"
    using j(1) bound(1) by (auto simp: distinct_map inj_on_def)
  then have "\<not> (\<exists>k \<in> set (db_intents db2). postable oid k)" using bound(2) by (auto simp: postable_def ident_def)
  then show ?thesis using assms(4) by (auto simp: claim_entry_post_def bindE_Inr_iff update_intents_def)
qed

theorem cancelled_child_never_posted_witness:
  "\<not> snd (update_intents (postable ''e1-limit'') (\<lambda>i. i\<lparr>it_state := I_requested\<rparr>)
       (staged_db\<lparr>db_intents := [cancel_row 99 (stored_row 5 sample_child)]\<rparr>))"
proof (rule cancelled_child_never_posted [of staged_db None "''e1-limit''" 99 _ _ None])
  show "distinct (map ident (db_intents staged_db))" by (simp add: staged_db_def)
  show "claim_cancel None ''e1-limit'' 99 staged_db
      = Inr (staged_db\<lparr>db_intents := [cancel_row 99 (stored_row 5 sample_child)]\<rparr>, True)"
    by (simp add: claim_cancel_def authorise_def update_intents_def staged_db_def owned_limit_def unbaselined_owner_def
        empty_db_def sample_child_def new_record_def stored_row_def LiveIntentRecord.defs IntentRow.defs)
  show "store_run (staged_db\<lparr>db_intents := [cancel_row 99 (stored_row 5 sample_child)]\<rparr>)
      (staged_db\<lparr>db_intents := [cancel_row 99 (stored_row 5 sample_child)]\<rparr>)" by simp
  show "claim_entry_post None ''e1-limit'' (staged_db\<lparr>db_intents := [cancel_row 99 (stored_row 5 sample_child)]\<rparr>)
      = Inr (fst (update_intents (postable ''e1-limit'') (\<lambda>i. i\<lparr>it_state := I_requested\<rparr>)
          (staged_db\<lparr>db_intents := [cancel_row 99 (stored_row 5 sample_child)]\<rparr>)),
        snd (update_intents (postable ''e1-limit'') (\<lambda>i. i\<lparr>it_state := I_requested\<rparr>)
          (staged_db\<lparr>db_intents := [cancel_row 99 (stored_row 5 sample_child)]\<rparr>)))"
    by (simp add: claim_entry_post_def authorise_def)
qed


definition owned_db :: Db where
  "owned_db = staged_db
     \<lparr>db_intents := [stored_row 5 ((new_record BITGET ''e0'' ''ZROUSDT'' ''BUY'')
          \<lparr>it_requested_qty := 5, it_filled_qty := 5, it_margin_reservation_id := Some 7\<rparr>),
        (stored_row 6 (sample_close\<lparr>it_filled_qty := 2\<rparr>))\<lparr>it_provider_fill_ids := [''f1'']\<rparr>],
      db_bindings := [\<lparr>cb_close_client_order_id = ''c1'', cb_reservation_id = 7\<rparr>],
      db_fills := [\<lparr>fl_exchange = BITGET, fl_client_order_id = ''c1'', fl_provider_fill_id = ''f1'',
        fl_symbol = ''ZROUSDT'', fl_price = 16 / 10, fl_quantity = 2, fl_fee = 0, fl_realized_pnl = 0, fl_filled_at = 7\<rparr>]\<rparr>"

lemma owned_remaining: "remaining_owned_quantity ''e0'' owned_db = Inr 3"
  by code_simp


end
