(* ===== verification/Reservations.thy ===== *)
theory Reservations
  imports Freshness Live_Intents
begin

text \<open>
  \<open>storage/balance_reservations.py\<close>: margin commitments of the Bitget lane. \<open>reserve\<close> admits one
  dispatch against a fresh balance snapshot, \<open>resolve\<close> records what became of its order,
  \<open>release_verified_close\<close> gives the capacity back after a verified close, \<open>escalate_expired\<close> marks
  an expired commitment as ambiguous. Each runs under the per-exchange advisory lock, that is, as one
  atomic transaction on the database. A decimal argument is finite and the clock readings of a call
  are an argument (\<open>Clock\<close>).
\<close>

section \<open>Data\<close>

record BalanceAdmission =
  ba_accepted :: bool
  ba_reason :: "string option"
  ba_snapshot_id :: "UUID option"
  ba_reservation_id :: "UUID option"

definition rejected :: "string \<Rightarrow> BalanceAdmission" where
  "rejected reason = \<lparr>ba_accepted = False, ba_reason = Some reason, ba_snapshot_id = None, ba_reservation_id = None\<rparr>"

definition admitted :: "UUID option \<Rightarrow> UUID \<Rightarrow> BalanceAdmission" where
  "admitted snapshot reservation =
     \<lparr>ba_accepted = True, ba_reason = None, ba_snapshot_id = snapshot, ba_reservation_id = Some reservation\<rparr>"

lemma admission_simps [simp]: "\<not> ba_accepted (rejected reason)" "ba_accepted (admitted s r)"
  "ba_snapshot_id (admitted s r) = s" "ba_reservation_id (admitted s r) = Some r"
  by (simp_all add: rejected_def admitted_def)

text \<open>\<open>ck_start\<close> is \<open>CURRENT_TIMESTAMP\<close> (transaction start), the others are \<open>clock_timestamp()\<close> at the
  statements of a call, in order.\<close>

record Clock =
  ck_start :: timestamp
  ck_source :: timestamp
  ck_now :: timestamp
  ck_write :: timestamp

record ReserveRequest =
  rq_exchange :: string
  rq_dispatch_id :: UUID
  rq_client_order_id :: string
  rq_total_balance :: dec
  rq_available_balance :: dec
  rq_equity :: dec
  rq_margin_coin :: string
  rq_observed_at :: "timestamp option"   \<comment> \<open>\<open>None\<close>: a naive datetime\<close>
  rq_planned_margin_usdt :: dec
  rq_headroom :: dec
  rq_ttl :: interval
  rq_max_margin_per_trade_usdt :: dec
  rq_symbol :: "string option"
  rq_environment :: "string option"
  rq_max_positions :: "int option"
  rq_provider_active_symbols :: "string list option"
  rq_max_snapshot_age :: interval
  rq_max_future_skew :: interval

section \<open>Reserving\<close>

text \<open>The checks before the transaction, in order; \<open>None\<close> when all pass.\<close>

definition reserve_refusal :: "ReserveRequest \<Rightarrow> string option" where
  "reserve_refusal rq =
     (if rq_exchange rq \<noteq> ''bitget'' then Some ''unsupported-exchange''
      else if \<exists>v \<in> set [rq_total_balance rq, rq_available_balance rq, rq_equity rq, rq_planned_margin_usdt rq]. v \<le> 0
      then Some ''invalid-balance-snapshot''
      else if rq_headroom rq \<le> 0 \<or> 1 < rq_headroom rq then Some ''invalid-balance-headroom''
      else if str_strip (rq_margin_coin rq) = [] \<or> rq_observed_at rq = None then Some ''invalid-balance-snapshot''
      else if rq_max_margin_per_trade_usdt rq \<le> 0 then Some ''invalid-margin-cap''
      else if rq_max_margin_per_trade_usdt rq < rq_planned_margin_usdt rq then Some ''margin-cap-exceeded''
      else if rq_ttl rq \<le> 0 then Some ''invalid-reservation-ttl''
      else if (case rq_symbol rq of None \<Rightarrow> True | Some s \<Rightarrow> str_strip s = [])
           \<or> rq_environment rq \<notin> {Some ''DEMO'', Some ''LIVE''}
           \<or> (case rq_max_positions rq of None \<Rightarrow> True | Some n \<Rightarrow> n \<le> 0)
           \<or> rq_provider_active_symbols rq = None
      then Some ''missing-position-admission-evidence''
      else None)"

text \<open>The state of the dispatch and whether its source may still enter: the Telegram message, or with
  the console enabled a manual entry of a running job.\<close>

definition signal_source :: "Db \<Rightarrow> timestamp \<Rightarrow> DispatchRow \<Rightarrow> bool" where
  "signal_source db now d =
     (case List.find (\<lambda>s. sg_id s = ds_source_id d) (db_signals db) of
        None \<Rightarrow> False
      | Some s \<Rightarrow> (case List.find (\<lambda>m. tm_id m = sg_message_id s) (db_messages db) of
                    None \<Rightarrow> False | Some m \<Rightarrow> source_eligible db now m))"

definition manual_source :: "Db \<Rightarrow> timestamp \<Rightarrow> DispatchRow \<Rightarrow> bool option" where
  "manual_source db now d =
     (if ds_source_type d \<noteq> ''console_manual'' then None
      else case List.find (\<lambda>m. me_id m = ds_source_id d) (db_manual_entries db) of
             None \<Rightarrow> None
           | Some m \<Rightarrow> if me_job_id m \<in> set (db_running_jobs db) then Some (now < me_expires_at m) else None)"

definition dispatch_source :: "bool \<Rightarrow> Db \<Rightarrow> timestamp \<Rightarrow> UUID \<Rightarrow> (DispatchState \<times> bool) option" where
  "dispatch_source console_enabled db now did =
     (case List.find (\<lambda>d. ds_id d = did) (db_dispatches db) of
        None \<Rightarrow> None
      | Some d \<Rightarrow>
          let eligible = signal_source db now d in
          Some (ds_state d,
            if console_enabled \<and> \<not> eligible
            then (case manual_source db now d of Some ok \<Rightarrow> ok | None \<Rightarrow> eligible)
            else eligible))"

definition entry_state :: "DispatchState \<Rightarrow> bool" where
  "entry_state s \<longleftrightarrow> s \<in> {QUEUED, PREFLIGHT, SIZED, VALIDATED, SUBMITTING}"

definition owner_symbols :: "string \<Rightarrow> Reservation list \<Rightarrow> string option list" where
  "owner_symbols env rs =
     map rs_symbol (filter (\<lambda>r. (rs_environment r = Some env \<or> rs_environment r = None) \<and> owning (rs_state r)) rs)"

definition position_slots :: "string list \<Rightarrow> string option list \<Rightarrow> int" where
  "position_slots provider owners =
     int (length provider) + int (card (set owners - Some ` set provider))"

text \<open>The refusals that commit and change nothing, in order.\<close>

definition position_refusal :: "Clock \<Rightarrow> ReserveRequest \<Rightarrow> Db \<Rightarrow> string option" where
  "position_refusal ck rq db =
     (let observed = the (rq_observed_at rq); symbol = the (rq_symbol rq); provider = the (rq_provider_active_symbols rq);
          owners = owner_symbols (the (rq_environment rq)) (db_reservations db) in
      if rq_max_snapshot_age rq \<le> 0 \<or> rq_max_future_skew rq < 0 then Some ''invalid-snapshot-age-policy''
      else if rq_max_snapshot_age rq < ck_now ck - observed then Some ''stale-balance-snapshot''
      else if rq_max_future_skew rq < observed - ck_now ck then Some ''future-balance-snapshot''
      else if None \<in> set owners then Some ''legacy-unowned-reservation''
      else if Some symbol \<in> set owners \<or> symbol \<in> set provider then Some ''symbol-already-owned''
      else if the (rq_max_positions rq) \<le> position_slots provider owners then Some ''position-cap-exceeded''
      else None)"

definition mark_expired :: "timestamp \<Rightarrow> string \<Rightarrow> Reservation \<Rightarrow> Reservation" where
  "mark_expired now reason r =
     r\<lparr>rs_state := R_unknown, rs_resolved_at := Some now,
       rs_resolution_reason := (case rs_resolution_reason r of None \<Rightarrow> Some reason | Some x \<Rightarrow> Some x)\<rparr>"

definition committed :: "Reservation list \<Rightarrow> dec" where
  "committed rs = sum_list (map rs_planned_margin_usdt (filter (\<lambda>r. owning (rs_state r)) rs))"

definition new_reservation :: "Clock \<Rightarrow> UUID \<Rightarrow> UUID \<Rightarrow> ReserveRequest \<Rightarrow> Reservation" where
  "new_reservation ck sid rid rq =
     \<lparr>rs_id = rid, rs_dispatch_id = rq_dispatch_id rq, rs_client_order_id = rq_client_order_id rq,
      rs_balance_snapshot_id = sid, rs_planned_margin_usdt = rq_planned_margin_usdt rq, rs_symbol = rq_symbol rq,
      rs_environment = rq_environment rq, rs_legacy_binding_symbol = None, rs_state = R_reserved,
      rs_expires_at = ck_write ck + rq_ttl rq, rs_created_at = ck_start ck, rs_resolved_at = None,
      rs_resolution_reason = None, rs_has_exposure = False\<rparr>"

definition insert_snapshot :: "UUID \<Rightarrow> ReserveRequest \<Rightarrow> Db \<Rightarrow> (Exn, Db) raises" where
  "insert_snapshot sid rq db =
     (if sid \<in> bs_id ` set (db_snapshots db) then Inl (StorageError ''balance_snapshots_pkey'')
      else Inr (db\<lparr>db_snapshots := db_snapshots db @
        [\<lparr>bs_id = sid, bs_total_balance = rq_total_balance rq, bs_available_balance = rq_available_balance rq,
          bs_equity = rq_equity rq, bs_margin_coin = rq_margin_coin rq,
          bs_captured_at = the (rq_observed_at rq)\<rparr>]\<rparr>))"

definition commit_margin :: "Clock \<Rightarrow> UUID \<Rightarrow> UUID \<Rightarrow> ReserveRequest \<Rightarrow> Db \<Rightarrow> BalanceAdmission transaction" where
  "commit_margin ck sid rid rq db =
     bindE (write_reservations (update_where (\<lambda>r. rs_state r = R_reserved \<and> rs_expires_at r \<le> ck_start ck)
        (mark_expired (ck_start ck) ''reservation-expired'') (db_reservations db)) db) (\<lambda>db1.
     bindE (insert_snapshot sid rq db1) (\<lambda>db2.
       if dec_mul (rq_available_balance rq) (rq_headroom rq)
            < dec_add (committed (db_reservations db2)) (rq_planned_margin_usdt rq)
       then Inr (db2, rejected ''insufficient-reserved-headroom'')
       else bindE (write_reservations (db_reservations db2 @ [new_reservation ck sid rid rq]) db2) (\<lambda>db3.
         Inr (db3, admitted (Some sid) rid))))"

definition reserve ::
  "bool \<Rightarrow> Clock \<Rightarrow> UUID \<Rightarrow> UUID \<Rightarrow> UUID \<Rightarrow> ReserveRequest \<Rightarrow> Db \<Rightarrow> BalanceAdmission transaction" where
  "reserve console_enabled ck sid rid tid rq db =
     (case reserve_refusal rq of
        Some reason \<Rightarrow> Inr (db, rejected reason)
      | None \<Rightarrow>
          (case dispatch_source console_enabled db (ck_source ck) (rq_dispatch_id rq) of
             None \<Rightarrow> Inr (db, rejected ''stale-source-message'')
           | Some (state, eligible) \<Rightarrow>
               if \<not> entry_state state then Inr (db, rejected ''stale-source-message'')
               else if \<not> eligible
               then bindE (expire_source_dispatch (ck_write ck) tid (rq_dispatch_id rq) state db) (\<lambda>db'.
                      Inr (db', rejected ''stale-source-message''))
               else case position_refusal ck rq db of
                      Some reason \<Rightarrow> Inr (db, rejected reason)
                    | None \<Rightarrow> commit_margin ck sid rid rq db))"

text \<open>\<open>record\<close>: a provider observation is appended as it is, under the finiteness checks of its table.\<close>

definition record_observation :: "PostFillObservation \<Rightarrow> Db \<Rightarrow> (Exn, Db) raises" where
  "record_observation ob db =
     (if 0 < po_planned_margin_usdt ob \<and> 0 < po_planned_leverage ob \<and> positive_or_null (po_planned_notional_usdt ob)
      then Inr (db\<lparr>db_post_fill := db_post_fill db @ [ob]\<rparr>)
      else Inl (StorageError ''admission_post_fill_planned_finite''))"

section \<open>Resolving\<close>

fun outcome_state :: "string \<Rightarrow> ReservationState option" where
  "outcome_state o' = map_of [(''FILLED'', R_consumed), (''PARTIAL'', R_unknown), (''REJECTED'', R_released),
     (''CANCELLED'', R_released), (''UNKNOWN'', R_unknown)] o'"

definition resolved_state :: "ReservationState \<Rightarrow> bool \<Rightarrow> ReservationState \<Rightarrow> bool \<Rightarrow> ReservationState" where
  "resolved_state old has_exposure target executed =
     (if old = R_consumed then old
      else if target \<in> {R_consumed, R_unknown} \<and> executed then target
      else if old = R_released then old
      else if target = R_released \<and> has_exposure then R_consumed
      else target)"

definition resolve_row :: "timestamp \<Rightarrow> string \<Rightarrow> ReservationState \<Rightarrow> Reservation \<Rightarrow> Reservation" where
  "resolve_row now normalized target r =
     (let executed = normalized \<in> {''FILLED'', ''PARTIAL''} in
      r\<lparr>rs_state := resolved_state (rs_state r) (rs_has_exposure r) target executed,
        rs_has_exposure := (rs_has_exposure r \<or> executed),
        rs_resolved_at := Some now, rs_resolution_reason := Some normalized\<rparr>)"

definition resolve :: "timestamp \<Rightarrow> UUID \<Rightarrow> string \<Rightarrow> Db \<Rightarrow> (Exn, Db) raises" where
  "resolve now rid outcome db =
     (let normalized = str_upper outcome in
      if normalized \<in> {''ACKNOWLEDGED'', ''SUBMITTED''} then Inr db
      else case outcome_state normalized of
             None \<Rightarrow> Inl (ValueError ''unknown margin reservation outcome'')
           | Some target \<Rightarrow> write_reservations
               (update_where (\<lambda>r. rs_id r = rid \<and> \<not> baselined_reservation db rid) (resolve_row now normalized target)
                 (db_reservations db)) db)"

definition escalate_row :: "timestamp \<Rightarrow> Reservation \<Rightarrow> Reservation" where
  "escalate_row now r =
     r\<lparr>rs_state := R_unknown,
       rs_resolved_at := (case rs_resolved_at r of None \<Rightarrow> Some now | Some t \<Rightarrow> Some t),
       rs_resolution_reason := (case rs_resolution_reason r of None \<Rightarrow> Some ''reservation-expired-unreconciled'' | Some x \<Rightarrow> Some x)\<rparr>"

definition escalate_expired :: "timestamp \<Rightarrow> UUID \<Rightarrow> Db \<Rightarrow> (Exn, Db) raises" where
  "escalate_expired now rid db =
     write_reservations (update_where (\<lambda>r. rs_id r = rid \<and> rs_state r = R_reserved \<and> rs_expires_at r \<le> now)
       (escalate_row now) (db_reservations db)) db"

section \<open>Reads\<close>

record OrphanCandidate =
  oc_id :: UUID
  oc_symbol :: string
  oc_client_order_id :: string
  oc_state :: ReservationState

definition orphan_candidates :: "string \<Rightarrow> Db \<Rightarrow> OrphanCandidate list" where
  "orphan_candidates env db =
     map (\<lambda>m. \<lparr>oc_id = rs_id m, oc_symbol = (case binding_symbol m of None \<Rightarrow> [] | Some s \<Rightarrow> s),
               oc_client_order_id = rs_client_order_id m, oc_state = rs_state m\<rparr>)
       (sort_key rs_created_at (filter (\<lambda>m. owning (rs_state m)
          \<and> (rs_environment m = Some env \<or> rs_environment m = None) \<and> \<not> baselined_reservation db (rs_id m)
          \<and> \<not> (\<exists>i \<in> set (db_intents db). it_exchange i = BITGET \<and> it_client_oid i = rs_client_order_id m
                 \<and> it_role i = ENTRY)) (db_reservations db)))"

definition active_client_order_ids :: "timestamp \<Rightarrow> Db \<Rightarrow> (UUID \<times> string \<times> bool) list" where
  "active_client_order_ids now db =
     map (\<lambda>r. (rs_id r, rs_client_order_id r, rs_expires_at r \<le> now))
       (sort_key rs_created_at (sort_key rs_id (filter (\<lambda>r. in_flight (rs_state r)) (db_reservations db))))"

section \<open>Releasing after a verified close\<close>

definition CLOSING_TRADE_SIDES :: "string list" where
  "CLOSING_TRADE_SIDES = [''close'', ''buy_single'', ''sell_single'', ''burst_buy_single'', ''burst_sell_single'']"

text \<open>One fill of the evidence the caller supplies.\<close>

record CloseFill =
  cf_provider_fill_id :: string
  cf_provider_order_id :: string
  cf_symbol :: string
  cf_side :: string
  cf_trade_side :: string
  cf_price :: dec
  cf_quantity :: dec
  cf_fee :: dec
  cf_realized_pnl :: dec

record CloseRequest =
  cq_environment :: string
  cq_symbol :: string
  cq_dispatch_id :: UUID
  cq_entry_oid :: string
  cq_close_oid :: string
  cq_authenticated :: bool
  cq_observed_at :: "timestamp option"
  cq_flat_quantity :: dec
  cq_fills :: "CloseFill list"
  cq_max_snapshot_age :: interval

definition unverified_evidence :: "CloseRequest \<Rightarrow> bool" where
  "unverified_evidence q \<longleftrightarrow>
     \<not> cq_authenticated q \<or> cq_environment q \<notin> {''DEMO'', ''LIVE''} \<or> cq_symbol q = []
     \<or> cq_symbol q \<noteq> str_upper (str_strip (cq_symbol q)) \<or> cq_flat_quantity q \<noteq> 0 \<or> cq_fills q = []
     \<or> cq_observed_at q = None \<or> cq_max_snapshot_age q \<le> 0"

definition close_clock_ok :: "CloseRequest \<Rightarrow> timestamp \<Rightarrow> bool" where
  "close_clock_ok q now \<longleftrightarrow> now - the (cq_observed_at q) \<le> cq_max_snapshot_age q
     \<and> the (cq_observed_at q) - now \<le> 1000000"

definition close_receipt :: "CloseRequest \<Rightarrow> string" where
  "close_receipt q = ''verified-close:'' @ cq_close_oid q"

definition close_owners :: "CloseRequest \<Rightarrow> Db \<Rightarrow> Reservation list" where
  "close_owners q db =
     filter (\<lambda>r. rs_environment r = Some (cq_environment q) \<and> rs_symbol r = Some (cq_symbol q)
               \<and> rs_dispatch_id r = cq_dispatch_id q \<and> rs_client_order_id r = cq_entry_oid q) (db_reservations db)"

definition rival_owner :: "CloseRequest \<Rightarrow> UUID \<Rightarrow> Db \<Rightarrow> bool" where
  "rival_owner q rid db \<longleftrightarrow>
     (\<exists>r \<in> set (db_reservations db). rs_environment r = Some (cq_environment q) \<and> rs_symbol r = Some (cq_symbol q)
        \<and> owning (rs_state r) \<and> rs_id r \<noteq> rid)"

definition native_close :: "CloseRequest \<Rightarrow> bool" where
  "native_close q = ends_with (cq_close_oid q) ''-native-close''"

definition closing_bound :: "CloseRequest \<Rightarrow> Reservation \<Rightarrow> IntentRow \<Rightarrow> IntentRow \<Rightarrow> bool" where
  "closing_bound q r entry c \<longleftrightarrow>
     it_symbol entry = cq_symbol q \<and> it_role entry = ENTRY \<and> it_state entry \<in> {I_filled, I_reconciled}
     \<and> it_margin_reservation_id entry = Some (rs_id r)
     \<and> it_symbol c = cq_symbol q \<and> it_side c = opposite_side (it_side entry)
     \<and> it_role c \<in> {CLOSE, EMERGENCY_CLOSE, SL, TP} \<and> it_state c \<in> {I_filled, I_reconciled}
     \<and> (case it_provider_order_id c of None \<Rightarrow> False | Some p \<Rightarrow> p \<noteq> [])
     \<and> (it_created_at entry \<le> it_created_at c \<or> native_close q)
     \<and> (rs_created_at r \<le> it_created_at c \<or> native_close q)
     \<and> it_created_at c \<le> the (cq_observed_at q)
     \<and> 0 < it_filled_qty entry \<and> 0 < it_requested_qty c \<and> 0 < it_filled_qty c
     \<and> it_requested_qty c = it_filled_qty c"

definition ledger_matches :: "CloseRequest \<Rightarrow> Fill list \<Rightarrow> bool" where
  "ledger_matches q ledger \<longleftrightarrow>
     length ledger = length (cq_fills q) \<and> distinct (map cf_provider_fill_id (cq_fills q))
     \<and> fl_provider_fill_id ` set ledger = cf_provider_fill_id ` set (cq_fills q)"

definition fill_verified :: "CloseRequest \<Rightarrow> Reservation \<Rightarrow> IntentRow \<Rightarrow> IntentRow \<Rightarrow> Fill \<Rightarrow> bool" where
  "fill_verified q r entry c f =
     (case List.find (\<lambda>s. cf_provider_fill_id s = fl_provider_fill_id f) (cq_fills q) of
        None \<Rightarrow> False
      | Some s \<Rightarrow>
          fl_provider_fill_id f \<noteq> [] \<and> \<not> status_derived (fl_provider_fill_id f) \<and> fl_symbol f = cq_symbol q
          \<and> (it_created_at c \<le> fl_filled_at f
             \<or> native_close q \<and> it_created_at entry \<le> fl_filled_at f \<and> rs_created_at r \<le> fl_filled_at f
               \<and> fl_filled_at f \<le> the (cq_observed_at q))
          \<and> fl_filled_at f \<le> the (cq_observed_at q)
          \<and> Some (cf_provider_order_id s) = it_provider_order_id c \<and> cf_symbol s = cq_symbol q
          \<and> cf_side s = it_side c \<and> cf_trade_side s \<in> set CLOSING_TRADE_SIDES
          \<and> cf_price s = fl_price f \<and> cf_quantity s = fl_quantity f \<and> cf_fee s = fl_fee f
          \<and> cf_realized_pnl s = fl_realized_pnl f)"

text \<open>The refusals after the owner row is found, in order; \<open>None\<close> when the close is verified.\<close>

definition close_refusal :: "CloseRequest \<Rightarrow> timestamp \<Rightarrow> Reservation \<Rightarrow> Db \<Rightarrow> string option" where
  "close_refusal q later r db =
     (if rs_state r \<noteq> R_consumed \<and> \<not> (rs_state r = R_released \<and> rs_resolution_reason r = Some (close_receipt q))
      then Some ''close-owner-not-consumed''
      else if rival_owner q (rs_id r) db then Some ''ambiguous-close-ownership''
      else case (find_intent db BITGET (cq_entry_oid q), find_intent db BITGET (cq_close_oid q)) of
        (Some entry, Some c) \<Rightarrow>
          if cq_entry_oid q = cq_close_oid q then Some ''close-intent-not-bound''
          else if (case List.find (\<lambda>b. cb_close_client_order_id b = cq_close_oid q) (db_bindings db) of
                None \<Rightarrow> True | Some b \<Rightarrow> cb_reservation_id b \<noteq> rs_id r)
          then Some ''close-intent-not-bound''
          else if \<not> closing_bound q r entry c then Some ''close-intent-not-bound''
          else let ledger = fills_of db BITGET (cq_close_oid q) in
          if \<not> ledger_matches q ledger then Some ''unverified-close-fills''
          else if \<not> (\<forall>f \<in> set ledger. fill_verified q r entry c f) then Some ''unverified-close-fills''
          else if dec_sum (map fl_quantity ledger) 0 \<noteq> it_filled_qty c then Some ''incomplete-close-fills''
          else (case remaining_owned_quantity (cq_entry_oid q) db of
                  Inl _ \<Rightarrow> Some ''unverified-close-fills''
                | Inr remaining \<Rightarrow>
                    if remaining \<noteq> 0 then Some ''incomplete-close-fills''
                    else if \<not> close_clock_ok q later then Some ''stale-or-future-close-evidence''
                    else None)
      | _ \<Rightarrow> Some ''close-intent-not-bound'')"

definition release_row :: "timestamp \<Rightarrow> CloseRequest \<Rightarrow> Reservation \<Rightarrow> Reservation" where
  "release_row now q r =
     r\<lparr>rs_state := R_released, rs_resolved_at := Some now, rs_resolution_reason := Some (close_receipt q)\<rparr>"

definition release_verified_close :: "Clock \<Rightarrow> CloseRequest \<Rightarrow> Db \<Rightarrow> BalanceAdmission transaction" where
  "release_verified_close ck q db =
     (if unverified_evidence q then Inr (db, rejected ''unverified-close-evidence'')
      else if \<not> close_clock_ok q (ck_now ck) then Inr (db, rejected ''stale-or-future-close-evidence'')
      else case close_owners q db of
        [r] \<Rightarrow>
          (case close_refusal q (ck_write ck) r db of
             Some reason \<Rightarrow> Inr (db, rejected reason)
           | None \<Rightarrow>
               if rs_state r = R_released then Inr (db, admitted None (rs_id r))
               else bindE (write_reservations (update_where (\<lambda>x. rs_id x = rs_id r \<and> rs_state x = R_consumed)
                      (release_row (ck_write ck) q) (db_reservations db)) db) (\<lambda>db'.
                    Inr (db', admitted None (rs_id r))))
      | _ \<Rightarrow> Inr (db, rejected ''close-owner-not-found''))"

section \<open>Lemmas: what a write keeps\<close>

lemma update_where_append: "update_where p f (xs @ ys) = update_where p f xs @ update_where p f ys"
  by (simp add: update_where_def)

lemma committed_append: "committed (rs @ [r]) = committed rs + (if owning (rs_state r) then rs_planned_margin_usdt r else 0)"
  by (simp add: committed_def)

lemma mark_expired_fields [simp]:
  "rs_symbol (mark_expired n x r) = rs_symbol r" "rs_environment (mark_expired n x r) = rs_environment r"
  "rs_state (mark_expired n x r) = R_unknown" "rs_id (mark_expired n x r) = rs_id r"
  "rs_planned_margin_usdt (mark_expired n x r) = rs_planned_margin_usdt r"
  "rs_has_exposure (mark_expired n x r) = rs_has_exposure r"
  by (simp_all add: mark_expired_def)

lemma owner_symbols_append:
  "owner_symbols env (rs @ [r]) = owner_symbols env rs @
     (if (rs_environment r = Some env \<or> rs_environment r = None) \<and> owning (rs_state r) then [rs_symbol r] else [])"
  by (simp add: owner_symbols_def)

lemma owner_symbols_expired:
  "owner_symbols env (update_where (\<lambda>r. rs_state r = R_reserved \<and> p r) (mark_expired n x) rs) = owner_symbols env rs"
  by (induction rs) (auto simp: owner_symbols_def)

lemma new_reservation_fields [simp]:
  "rs_symbol (new_reservation ck sid rid rq) = rq_symbol rq" "rs_environment (new_reservation ck sid rid rq) = rq_environment rq"
  "rs_state (new_reservation ck sid rid rq) = R_reserved" "rs_id (new_reservation ck sid rid rq) = rid"
  "rs_planned_margin_usdt (new_reservation ck sid rid rq) = rq_planned_margin_usdt rq"
  "rs_has_exposure (new_reservation ck sid rid rq) = False"
  by (simp_all add: new_reservation_def)

lemma insert_snapshot_reservations: "insert_snapshot sid rq db = Inr db' \<Longrightarrow> db_reservations db' = db_reservations db"
  by (auto simp: insert_snapshot_def split: if_splits)

text \<open>What an accepted commitment wrote.\<close>

lemma commit_margin_tables:
  assumes "commit_margin ck sid rid rq db = Inr (db', adm)"
  shows "\<exists>rs. db_reservations db' = update_where (\<lambda>r. rs_state r = R_reserved \<and> rs_expires_at r \<le> ck_start ck)
           (mark_expired (ck_start ck) ''reservation-expired'') (db_reservations db) @ rs
      \<and> (rs = [] \<and> \<not> ba_accepted adm \<or>
         rs = [new_reservation ck sid rid rq] \<and> ba_accepted adm \<and> reservations_ok (db_reservations db')
         \<and> dec_round (committed (db_reservations db')) \<le> dec_mul (rq_available_balance rq) (rq_headroom rq))"
proof -
  let ?exp = "update_where (\<lambda>r. rs_state r = R_reserved \<and> rs_expires_at r \<le> ck_start ck)
           (mark_expired (ck_start ck) ''reservation-expired'') (db_reservations db)"
  from assms obtain db1 db2 where one: "write_reservations ?exp db = Inr db1"
    and two: "insert_snapshot sid rq db1 = Inr db2"
    and rest: "(if dec_mul (rq_available_balance rq) (rq_headroom rq)
            < dec_add (committed (db_reservations db2)) (rq_planned_margin_usdt rq)
       then Inr (db2, rejected ''insufficient-reserved-headroom'')
       else bindE (write_reservations (db_reservations db2 @ [new_reservation ck sid rid rq]) db2) (\<lambda>db3.
         Inr (db3, admitted (Some sid) rid))) = Inr (db', adm)"
    by (auto simp: commit_margin_def bindE_Inr_iff)
  have res: "db_reservations db2 = ?exp"
    using one insert_snapshot_reservations [OF two] by (auto simp: run_simps)
  from rest show ?thesis
    using res by (auto simp: run_simps committed_append dec_add_def not_less split: if_splits)
qed

lemma reserve_cases:
  assumes "reserve console ck sid rid tid rq db = Inr (db', adm)"
  obtains (refused) "db' = db" "\<not> ba_accepted adm"
  | (expired) state where "expire_source_dispatch (ck_write ck) tid (rq_dispatch_id rq) state db = Inr db'" "\<not> ba_accepted adm"
  | (committed) state where "reserve_refusal rq = None" "position_refusal ck rq db = None"
      "dispatch_source console db (ck_source ck) (rq_dispatch_id rq) = Some (state, True)" "entry_state state"
      "commit_margin ck sid rid rq db = Inr (db', adm)"
proof (cases "reserve_refusal rq")
  case (Some reason)
  then show ?thesis using assms by (auto simp: reserve_def intro: refused)
next
  case pre: None
  show ?thesis
  proof (cases "dispatch_source console db (ck_source ck) (rq_dispatch_id rq)")
    case None
    then show ?thesis using assms pre by (auto simp: reserve_def intro: refused)
  next
    case (Some src)
    obtain state ok where src: "src = (state, ok)" by (cases src)
    consider "\<not> entry_state state" | "entry_state state" "\<not> ok" | "entry_state state" "ok" by blast
    then show ?thesis
    proof cases
      case 1
      then show ?thesis using assms pre Some src by (auto simp: reserve_def intro: refused)
    next
      case 2
      then show ?thesis using assms pre Some src by (auto simp: reserve_def run_simps intro: expired)
    next
      case 3
      then show ?thesis using assms pre Some src
        by (cases "position_refusal ck rq db") (auto simp: reserve_def intro: refused committed)
    qed
  qed
qed

section \<open>Runs of the commitment ledger\<close>

text \<open>Every operation that writes commitments, the verified close apart.\<close>

inductive ledger_step :: "Db \<Rightarrow> Db \<Rightarrow> bool" where
  ledger_reserve: "reserve console ck sid rid tid rq db = Inr (db', adm) \<Longrightarrow> ledger_step db db'"
| ledger_resolve: "resolve now rid outcome db = Inr db' \<Longrightarrow> ledger_step db db'"
| ledger_escalate: "escalate_expired now rid db = Inr db' \<Longrightarrow> ledger_step db db'"
| ledger_expire: "expire_source_dispatch now tid did state db = Inr db' \<Longrightarrow> ledger_step db db'"
| ledger_observe: "record_observation ob db = Inr db' \<Longrightarrow> ledger_step db db'"

abbreviation ledger_run :: "Db \<Rightarrow> Db \<Rightarrow> bool" where
  "ledger_run \<equiv> ledger_step\<^sup>*\<^sup>*"

definition exposed :: "Reservation \<Rightarrow> bool" where
  "exposed r \<longleftrightarrow> rs_has_exposure r \<or> rs_state r = R_consumed"

text \<open>A row whose exposure is recorded holds its capacity.\<close>

definition exposure_kept :: "Reservation \<Rightarrow> bool" where
  "exposure_kept r \<longleftrightarrow> (rs_has_exposure r \<longrightarrow> rs_state r \<in> {R_unknown, R_consumed})"

definition res_evolves :: "Reservation \<Rightarrow> Reservation \<Rightarrow> bool" where
  "res_evolves r r' \<longleftrightarrow> rs_id r' = rs_id r \<and> rs_planned_margin_usdt r' = rs_planned_margin_usdt r
     \<and> rs_symbol r' = rs_symbol r \<and> rs_environment r' = rs_environment r
     \<and> (exposure_kept r \<longrightarrow> exposure_kept r') \<and> (exposed r \<longrightarrow> exposed r')"

lemma res_evolves_refl [simp]: "res_evolves r r"
  by (simp add: res_evolves_def)

lemma res_evolves_trans: "res_evolves a b \<Longrightarrow> res_evolves b c \<Longrightarrow> res_evolves a c"
  by (auto simp: res_evolves_def)

lemma mark_expired_evolves: "rs_state r = R_reserved \<Longrightarrow> res_evolves r (mark_expired n x r)"
  by (auto simp: res_evolves_def exposure_kept_def exposed_def)

lemma escalate_evolves: "rs_state r = R_reserved \<Longrightarrow> res_evolves r (escalate_row n r)"
  by (auto simp: res_evolves_def exposure_kept_def exposed_def escalate_row_def)

lemma release_stale_evolves: "rs_state r = R_reserved \<Longrightarrow> res_evolves r (release_stale n r)"
  by (auto simp: res_evolves_def exposure_kept_def exposed_def release_stale_def)

lemma resolve_evolves: "outcome_state o' = Some target \<Longrightarrow> res_evolves r (resolve_row n o' target r)"
  by (auto simp: res_evolves_def exposure_kept_def exposed_def resolve_row_def resolved_state_def Let_def split: if_splits)

definition reservations_evolve :: "Db \<Rightarrow> Db \<Rightarrow> bool" where
  "reservations_evolve db db' \<longleftrightarrow>
     (\<exists>old new. db_reservations db' = old @ new \<and> list_all2 res_evolves (db_reservations db) old
        \<and> (\<forall>r \<in> set new. exposure_kept r))"

lemma reservations_evolve_refl: "db_reservations db' = db_reservations db \<Longrightarrow> reservations_evolve db db'"
  unfolding reservations_evolve_def by (intro exI [of _ "db_reservations db"] exI [of _ "[]"]) (simp add: list.rel_refl)

lemma reservations_evolve_update:
  assumes "db_reservations db' = update_where p f (db_reservations db) @ new"
    and "\<And>r. p r \<Longrightarrow> res_evolves r (f r)" and "\<forall>r \<in> set new. exposure_kept r"
  shows "reservations_evolve db db'"
proof -
  have "list_all2 res_evolves (db_reservations db) (update_where p f (db_reservations db))"
    using assms(2) by (auto simp: update_where_def list_all2_conv_all_nth)
  then show ?thesis unfolding reservations_evolve_def using assms(1,3) by blast
qed

lemma expire_evolves:
  assumes "expire_source_dispatch now tid did state db = Inr db'"
  shows "reservations_evolve db db'"
  using assms
proof (cases rule: expire_source_dispatch_cases)
  case kept
  then show ?thesis by (simp add: reservations_evolve_refl)
next
  case expired
  show ?thesis
    by (rule reservations_evolve_update [where new = "[]"], simp add: expired(4))
       (simp_all add: release_stale_evolves)
qed

lemma reserve_evolves:
  assumes "reserve console ck sid rid tid rq db = Inr (db', adm)"
  shows "reservations_evolve db db'"
  using assms
proof (cases rule: reserve_cases)
  case refused
  then show ?thesis by (simp add: reservations_evolve_refl)
next
  case expired
  then show ?thesis by (simp add: expire_evolves)
next
  case committed
  obtain rs where rs: "db_reservations db' = update_where (\<lambda>r. rs_state r = R_reserved \<and> rs_expires_at r \<le> ck_start ck)
      (mark_expired (ck_start ck) ''reservation-expired'') (db_reservations db) @ rs"
    "rs = [] \<or> rs = [new_reservation ck sid rid rq]"
    using commit_margin_tables [OF committed(5)] by auto
  show ?thesis
    by (rule reservations_evolve_update [OF rs(1)]) (use rs(2) in \<open>auto simp: mark_expired_evolves exposure_kept_def\<close>)
qed

lemma write_evolves:
  assumes "write_reservations (update_where p f (db_reservations db)) db = Inr db'" "\<And>r. p r \<Longrightarrow> res_evolves r (f r)"
  shows "reservations_evolve db db'"
proof (rule reservations_evolve_update [where p = p and f = f and new = "[]"])
  show "db_reservations db' = update_where p f (db_reservations db) @ []" using assms(1) by (auto simp: run_simps)
qed (use assms(2) in simp_all)

lemma resolve_step_evolves:
  assumes "resolve now rid outcome db = Inr db'"
  shows "reservations_evolve db db'"
proof (cases "str_upper outcome \<in> {''ACKNOWLEDGED'', ''SUBMITTED''}")
  case True
  then show ?thesis using assms by (auto simp: resolve_def Let_def intro: reservations_evolve_refl)
next
  case False
  then obtain target where t: "outcome_state (str_upper outcome) = Some target"
    and w: "write_reservations (update_where (\<lambda>r. rs_id r = rid \<and> \<not> baselined_reservation db rid)
        (resolve_row now (str_upper outcome) target) (db_reservations db)) db = Inr db'"
    using assms unfolding resolve_def Let_def by (cases "outcome_state (str_upper outcome)") (simp_all del: outcome_state.simps)
  from w show ?thesis by (rule write_evolves) (rule resolve_evolves [OF t])
qed

lemma ledger_step_evolves: "ledger_step db db' \<Longrightarrow> reservations_evolve db db'"
proof (induction rule: ledger_step.induct)
  case ledger_reserve
  then show ?case by (rule reserve_evolves)
next
  case ledger_resolve
  then show ?case by (rule resolve_step_evolves)
next
  case ledger_escalate
  then show ?case unfolding escalate_expired_def by (rule write_evolves) (simp add: escalate_evolves)
next
  case ledger_expire
  then show ?case by (rule expire_evolves)
next
  case ledger_observe
  then show ?case by (auto simp: record_observation_def intro: reservations_evolve_refl split: if_splits)
qed

lemma evolved_kept: "list_all2 res_evolves xs ys \<Longrightarrow> \<forall>x \<in> set xs. exposure_kept x \<Longrightarrow> \<forall>y \<in> set ys. exposure_kept y"
  by (induction rule: list_all2_induct) (auto simp: res_evolves_def)

lemma reservations_evolve_trans:
  assumes "reservations_evolve a b" "reservations_evolve b c"
  shows "reservations_evolve a c"
proof -
  from assms obtain o1 n1 o2 n2 where b: "db_reservations b = o1 @ n1" "list_all2 res_evolves (db_reservations a) o1"
      "\<forall>r \<in> set n1. exposure_kept r"
    and c: "db_reservations c = o2 @ n2" "list_all2 res_evolves (o1 @ n1) o2" "\<forall>r \<in> set n2. exposure_kept r"
    by (auto simp: reservations_evolve_def)
  from c(2) obtain p q where o2: "o2 = p @ q" "list_all2 res_evolves o1 p" "list_all2 res_evolves n1 q"
    by (auto simp: list_all2_append1)
  show ?thesis unfolding reservations_evolve_def
  proof (intro exI conjI)
    show "db_reservations c = p @ (q @ n2)" using c(1) o2(1) by simp
    show "list_all2 res_evolves (db_reservations a) p"
      using list_all2_trans [of res_evolves res_evolves res_evolves] res_evolves_trans b(2) o2(2) by blast
    show "\<forall>r \<in> set (q @ n2). exposure_kept r"
      using evolved_kept [OF o2(3) b(3)] c(3) by auto
  qed
qed

lemma ledger_run_evolves: "ledger_run db db' \<Longrightarrow> reservations_evolve db db'"
  by (induction rule: rtranclp_induct)
     (auto intro: reservations_evolve_trans ledger_step_evolves reservations_evolve_refl)

lemma ledger_run_row:
  assumes "ledger_run db db'" "r \<in> set (db_reservations db)"
  obtains r' where "r' \<in> set (db_reservations db')" "res_evolves r r'"
proof -
  obtain old new where "db_reservations db' = old @ new" "list_all2 res_evolves (db_reservations db) old"
    using ledger_run_evolves [OF assms(1)] by (auto simp: reservations_evolve_def)
  with assms(2) show ?thesis
    using that by (auto simp: list_all2_conv_all_nth in_set_conv_nth nth_append) (metis nth_mem)
qed

text \<open>The owned quantity does not read the commitments.\<close>

lemma store_reads_reservations [simp]:
  "find_intent (db\<lparr>db_reservations := rs\<rparr>) ex oid = find_intent db ex oid"
  "get_intent (db\<lparr>db_reservations := rs\<rparr>) oid = get_intent db oid"
  "fills_of (db\<lparr>db_reservations := rs\<rparr>) ex oid = fills_of db ex oid"
  "real_fills (db\<lparr>db_reservations := rs\<rparr>) c = real_fills db c"
  "real_quantity (db\<lparr>db_reservations := rs\<rparr>) c = real_quantity db c"
  "bound_closes (db\<lparr>db_reservations := rs\<rparr>) k = bound_closes db k"
  "owned_total (db\<lparr>db_reservations := rs\<rparr>) i = owned_total db i"
  by (simp_all add: find_intent_def get_intent_def fills_of_def real_fills_def real_quantity_def bound_closes_def owned_total_def)

lemma closed_quantity_reservations [simp]:
  "closed_quantity (db\<lparr>db_reservations := rs\<rparr>) base cs acc = closed_quantity db base cs acc"
  by (induction cs arbitrary: acc) (simp_all add: close_evidence_def)

lemma remaining_reservations [simp]:
  "remaining_owned_quantity oid (db\<lparr>db_reservations := rs\<rparr>) = remaining_owned_quantity oid db"
  by (simp add: remaining_owned_quantity_def split: option.split cong: if_cong)

section \<open>Properties\<close>

text \<open>
  C10: admission stays within every limit. When \<open>reserve\<close> admits a dispatch, its margin is within the
  per-trade cap, the margin committed afterwards stays within the usable balance, nobody owned the
  symbol (neither in the ledger nor at the venue), the occupied positions stay within the maximum, and
  the dispatch was an entry whose source could still enter.
\<close>

theorem reserve_within_limits:
  assumes "reserve console ck sid rid tid rq db = Inr (db', adm)" and "ba_accepted adm"
  shows "\<exists>symbol env provider slots state.
    rq_symbol rq = Some symbol \<and> rq_environment rq = Some env \<and> rq_provider_active_symbols rq = Some provider
    \<and> rq_max_positions rq = Some slots
    \<and> rq_planned_margin_usdt rq \<le> rq_max_margin_per_trade_usdt rq
    \<and> dec_round (committed (db_reservations db')) \<le> dec_mul (rq_available_balance rq) (rq_headroom rq)
    \<and> Some symbol \<notin> set (owner_symbols env (db_reservations db)) \<and> symbol \<notin> set provider
    \<and> Some symbol \<in> set (owner_symbols env (db_reservations db'))
    \<and> position_slots provider (owner_symbols env (db_reservations db')) \<le> slots
    \<and> dispatch_source console db (ck_source ck) (rq_dispatch_id rq) = Some (state, True) \<and> entry_state state"
  using assms(1)
proof (cases rule: reserve_cases)
  case (committed state)
  obtain symbol env provider slots where args: "rq_symbol rq = Some symbol" "rq_environment rq = Some env"
      "rq_provider_active_symbols rq = Some provider" "rq_max_positions rq = Some slots"
    and cap: "rq_planned_margin_usdt rq \<le> rq_max_margin_per_trade_usdt rq"
    using committed(1) by (auto simp: reserve_refusal_def split: if_splits option.splits)
  have free: "Some symbol \<notin> set (owner_symbols env (db_reservations db))" "symbol \<notin> set provider"
    and slots: "position_slots provider (owner_symbols env (db_reservations db)) < slots"
    using committed(2) args by (auto simp: position_refusal_def Let_def split: if_splits)
  have after: "db_reservations db' = update_where (\<lambda>r. rs_state r = R_reserved \<and> rs_expires_at r \<le> ck_start ck)
      (mark_expired (ck_start ck) ''reservation-expired'') (db_reservations db) @ [new_reservation ck sid rid rq]"
    and budget: "dec_round (committed (db_reservations db')) \<le> dec_mul (rq_available_balance rq) (rq_headroom rq)"
    using commit_margin_tables [OF committed(5)] assms(2) by auto
  have owners: "set (owner_symbols env (db_reservations db')) = insert (Some symbol) (set (owner_symbols env (db_reservations db)))"
    using args by (simp add: after owner_symbols_append owner_symbols_expired)
  have "position_slots provider (owner_symbols env (db_reservations db'))
      = position_slots provider (owner_symbols env (db_reservations db)) + 1"
    using free by (simp add: position_slots_def owners insert_Diff_if) (auto simp: card_insert_if)
  then show ?thesis using args cap free slots budget owners committed(3,4) by auto
qed (use assms(2) in auto)

definition admit_db :: Db where
  "admit_db = empty_db
     \<lparr>db_dispatches := [\<lparr>ds_id = 1, ds_source_id = 2, ds_source_type = ''canonical_signal'', ds_revision = ''r'', ds_exchange = BITGET, ds_state = PREFLIGHT,
        ds_terminal_reason = None, ds_claimed_by = None, ds_lease_until = None, ds_attempts = 1, ds_created_at = 0, ds_updated_at = 0\<rparr>],
      db_signals := [\<lparr>sg_id = 2, sg_message_id = 4, sg_revision = ''r'', sg_pair_token = ''ZRO'', sg_direction = ''LONG'',
        sg_entry_price = 16 / 10, sg_stop_loss = 157 / 100, sg_take_profits = [17 / 10]\<rparr>],
      db_messages := [\<lparr>tm_id = 4, tm_channel_id = 10, tm_message_id = 11, tm_ingestion_origin = ''realtime'',
        tm_received_at = Some 1000, tm_entry_expires_at = Some 9000, tm_entry_rejection_reason = None,
        tm_re_admission_reference = None, tm_raw_text = ''LONG ZRO'', tm_revision_hash = ''r1''\<rparr>]\<rparr>"

definition admit_clock :: Clock where
  "admit_clock = \<lparr>ck_start = 2000, ck_source = 2001, ck_now = 2002, ck_write = 2003\<rparr>"

definition admit_request :: ReserveRequest where
  "admit_request = \<lparr>rq_exchange = ''bitget'', rq_dispatch_id = 1, rq_client_order_id = ''e0'', rq_total_balance = 8,
     rq_available_balance = 8, rq_equity = 8, rq_margin_coin = ''USDT'', rq_observed_at = Some 1990,
     rq_planned_margin_usdt = 1, rq_headroom = 9 / 10, rq_ttl = 500, rq_max_margin_per_trade_usdt = 11 / 10,
     rq_symbol = Some ''ZROUSDT'', rq_environment = Some ''LIVE'', rq_max_positions = Some 5,
     rq_provider_active_symbols = Some [''BTCUSDT''], rq_max_snapshot_age = 30000000, rq_max_future_skew = 1000000\<rparr>"

definition admit_result :: "Db \<times> BalanceAdmission" where
  "admit_result = projr (reserve False admit_clock 21 7 31 admit_request admit_db)"

lemma admit_result: "reserve False admit_clock 21 7 31 admit_request admit_db = Inr (fst admit_result, snd admit_result)"
proof -
  have "\<not> isl (reserve False admit_clock 21 7 31 admit_request admit_db)" by code_simp
  then show ?thesis unfolding admit_result_def by (rule returned_pair)
qed

lemma admit_accepted: "ba_accepted (snd admit_result)"
  by code_simp

theorem reserve_within_limits_witness:
  "\<exists>symbol env provider slots state.
     rq_symbol admit_request = Some symbol \<and> rq_environment admit_request = Some env
     \<and> rq_provider_active_symbols admit_request = Some provider \<and> rq_max_positions admit_request = Some slots
     \<and> rq_planned_margin_usdt admit_request \<le> rq_max_margin_per_trade_usdt admit_request
     \<and> dec_round (committed (db_reservations (fst admit_result)))
         \<le> dec_mul (rq_available_balance admit_request) (rq_headroom admit_request)
     \<and> Some symbol \<notin> set (owner_symbols env (db_reservations admit_db)) \<and> symbol \<notin> set provider
     \<and> Some symbol \<in> set (owner_symbols env (db_reservations (fst admit_result)))
     \<and> position_slots provider (owner_symbols env (db_reservations (fst admit_result))) \<le> slots
     \<and> dispatch_source False admit_db (ck_source admit_clock) (rq_dispatch_id admit_request) = Some (state, True)
     \<and> entry_state state"
  by (rule reserve_within_limits [OF admit_result admit_accepted])

text \<open>
  C11: capacity behind a real position is never given back without a verified close. Whatever
  admissions, resolutions, escalations and source expiries happen, a commitment with recorded
  execution keeps counting against the balance with the same margin, symbol and environment.
\<close>

theorem exposure_never_lost:
  assumes "\<forall>r \<in> set (db_reservations db). exposure_kept r" and "ledger_run db db'"
    and "r \<in> set (db_reservations db)" and "exposed r"
  shows "\<exists>r' \<in> set (db_reservations db'). rs_id r' = rs_id r \<and> owning (rs_state r')
    \<and> rs_planned_margin_usdt r' = rs_planned_margin_usdt r
    \<and> rs_symbol r' = rs_symbol r \<and> rs_environment r' = rs_environment r"
proof -
  from ledger_run_row [OF assms(2,3)] obtain r' where r': "r' \<in> set (db_reservations db')" "res_evolves r r'" .
  have "exposure_kept r'" "exposed r'" using r'(2) assms(1,3,4) by (auto simp: res_evolves_def)
  then have "owning (rs_state r')" by (auto simp: exposure_kept_def exposed_def)
  then show ?thesis using r' by (auto simp: res_evolves_def)
qed

definition exposed_row :: Reservation where
  "exposed_row = (new_reservation admit_clock 21 7 admit_request)\<lparr>rs_state := R_unknown, rs_has_exposure := True\<rparr>"

definition exposed_db :: Db where
  "exposed_db = admit_db\<lparr>db_reservations := [exposed_row]\<rparr>"

lemma rejected_step: "resolve 3000 7 ''rejected'' exposed_db
    = Inr (exposed_db\<lparr>db_reservations := [resolve_row 3000 ''REJECTED'' R_released exposed_row]\<rparr>)"
proof -
  have upper: "str_upper ''rejected'' = ''REJECTED''" by code_simp
  have ok: "reservations_ok [resolve_row 3000 ''REJECTED'' R_released exposed_row]" by code_simp
  have "exposed_row \<in> set (db_reservations exposed_db)" "rs_id exposed_row = 7"
    by (simp_all add: exposed_db_def exposed_row_def new_reservation_def)
  then show ?thesis
    using ok by (simp add: resolve_def upper write_reservations_def exposed_db_def baselined_reservation_def admit_db_def empty_db_def)
qed

theorem exposure_never_lost_witness:
  "\<exists>r' \<in> set (db_reservations (exposed_db\<lparr>db_reservations := [resolve_row 3000 ''REJECTED'' R_released exposed_row]\<rparr>)).
     rs_id r' = rs_id exposed_row \<and> owning (rs_state r')
     \<and> rs_planned_margin_usdt r' = rs_planned_margin_usdt exposed_row
     \<and> rs_symbol r' = rs_symbol exposed_row \<and> rs_environment r' = rs_environment exposed_row"
proof (rule exposure_never_lost [of exposed_db])
  show "\<forall>r \<in> set (db_reservations exposed_db). exposure_kept r"
    by (simp add: exposed_db_def exposed_row_def exposure_kept_def)
  show "ledger_run exposed_db (exposed_db\<lparr>db_reservations := [resolve_row 3000 ''REJECTED'' R_released exposed_row]\<rparr>)"
    using ledger_resolve [OF rejected_step] by blast
  show "exposed_row \<in> set (db_reservations exposed_db)" by (simp add: exposed_db_def)
  show "exposed exposed_row" by (simp add: exposed_def exposed_row_def)
qed

text \<open>What a verified close needs, as one predicate.\<close>

definition close_verified :: "CloseRequest \<Rightarrow> timestamp \<Rightarrow> Reservation \<Rightarrow> Db \<Rightarrow> IntentRow \<Rightarrow> IntentRow \<Rightarrow> bool" where
  "close_verified q later r db entry c \<longleftrightarrow>
     find_intent db BITGET (cq_entry_oid q) = Some entry \<and> find_intent db BITGET (cq_close_oid q) = Some c
     \<and> (rs_state r = R_consumed \<or> rs_state r = R_released \<and> rs_resolution_reason r = Some (close_receipt q))
     \<and> \<not> rival_owner q (rs_id r) db \<and> cq_entry_oid q \<noteq> cq_close_oid q
     \<and> (\<exists>b. List.find (\<lambda>b. cb_close_client_order_id b = cq_close_oid q) (db_bindings db) = Some b \<and> cb_reservation_id b = rs_id r)
     \<and> closing_bound q r entry c \<and> ledger_matches q (fills_of db BITGET (cq_close_oid q))
     \<and> (\<forall>f \<in> set (fills_of db BITGET (cq_close_oid q)). fill_verified q r entry c f)
     \<and> dec_sum (map fl_quantity (fills_of db BITGET (cq_close_oid q))) 0 = it_filled_qty c
     \<and> remaining_owned_quantity (cq_entry_oid q) db = Inr 0 \<and> close_clock_ok q later"

lemma close_refusal_None:
  assumes "close_refusal q later r db = None"
  obtains entry c where "close_verified q later r db entry c"
  using assms that unfolding close_refusal_def close_verified_def Let_def
  by (auto split: if_splits option.splits sum.splits)

lemma close_verified_refusal: "close_verified q later r db entry c \<Longrightarrow> close_refusal q later r db = None"
  by (auto simp: close_verified_def close_refusal_def Let_def)

text \<open>Releasing the owner row keeps the close verified.\<close>

lemma release_row_bound [simp]:
  "closing_bound q (release_row now q' r) entry c = closing_bound q r entry c"
  "fill_verified q (release_row now q' r) entry c f = fill_verified q r entry c f"
  "rs_id (release_row now q' r) = rs_id r" "rs_state (release_row now q' r) = R_released"
  "rs_resolution_reason (release_row now q' r) = Some (close_receipt q')"
  by (simp_all add: closing_bound_def fill_verified_def release_row_def cong: option.case_cong)

lemma released_no_rival:
  "\<not> rival_owner q rid db \<Longrightarrow> \<not> rival_owner q rid (db\<lparr>db_reservations :=
     update_where (\<lambda>x. rs_id x = rid \<and> rs_state x = R_consumed) (release_row now q') (db_reservations db)\<rparr>)"
  by (auto simp: rival_owner_def set_update_where)

lemma close_verified_released:
  "close_verified q later r db entry c \<Longrightarrow> close_clock_ok q later' \<Longrightarrow>
   close_verified q later' (release_row now q r) (db\<lparr>db_reservations :=
     update_where (\<lambda>x. rs_id x = rs_id r \<and> rs_state x = R_consumed) (release_row now q) (db_reservations db)\<rparr>) entry c"
  by (simp add: close_verified_def released_no_rival)

text \<open>
  C14: capacity is given back only on complete evidence. When a verified close is admitted, exactly
  one commitment matches the request, no other row owns the symbol, the entry and its bound close are
  complete, every ledger fill of the close is confirmed by the supplied provider evidence, the closed
  quantity equals the executed one, nothing of the entry remains owned, and the evidence is fresh at
  the moment of the release; the database then differs at most in that row, which is released.
\<close>

theorem verified_close_needs_evidence:
  assumes "release_verified_close ck q db = Inr (db', adm)" and "ba_accepted adm"
  shows "\<exists>r entry c. close_owners q db = [r] \<and> \<not> rival_owner q (rs_id r) db
    \<and> find_intent db BITGET (cq_entry_oid q) = Some entry \<and> find_intent db BITGET (cq_close_oid q) = Some c
    \<and> closing_bound q r entry c
    \<and> (\<forall>f \<in> set (fills_of db BITGET (cq_close_oid q)). fill_verified q r entry c f)
    \<and> dec_sum (map fl_quantity (fills_of db BITGET (cq_close_oid q))) 0 = it_filled_qty c
    \<and> remaining_owned_quantity (cq_entry_oid q) db = Inr 0
    \<and> cq_flat_quantity q = 0 \<and> close_clock_ok q (ck_now ck) \<and> close_clock_ok q (ck_write ck)
    \<and> (db' = db \<and> rs_state r = R_released \<and> rs_resolution_reason r = Some (close_receipt q)
       \<or> rs_state r = R_consumed \<and> db' = db\<lparr>db_reservations :=
           update_where (\<lambda>x. rs_id x = rs_id r \<and> rs_state x = R_consumed) (release_row (ck_write ck) q) (db_reservations db)\<rparr>)"
proof -
  obtain r where pre: "\<not> unverified_evidence q" "close_clock_ok q (ck_now ck)"
    and owner: "close_owners q db = [r]" and ok: "close_refusal q (ck_write ck) r db = None"
    and out: "rs_state r = R_released \<and> db' = db \<or> rs_state r \<noteq> R_released \<and>
      write_reservations (update_where (\<lambda>x. rs_id x = rs_id r \<and> rs_state x = R_consumed)
        (release_row (ck_write ck) q) (db_reservations db)) db = Inr db'"
    using assms unfolding release_verified_close_def
    by (auto simp: bindE_Inr_iff split: if_splits list.splits option.splits)
  from close_refusal_None [OF ok] obtain entry c where v: "close_verified q (ck_write ck) r db entry c" .
  have "cq_flat_quantity q = 0" using pre(1) by (simp add: unverified_evidence_def)
  moreover have "db' = db \<and> rs_state r = R_released \<and> rs_resolution_reason r = Some (close_receipt q)
     \<or> rs_state r = R_consumed \<and> db' = db\<lparr>db_reservations :=
         update_where (\<lambda>x. rs_id x = rs_id r \<and> rs_state x = R_consumed) (release_row (ck_write ck) q) (db_reservations db)\<rparr>"
    using out v by (auto simp: close_verified_def run_simps)
  ultimately show ?thesis using v owner pre(2) unfolding close_verified_def by blast
qed

definition flat_db :: Db where
  "flat_db = exposed_db
     \<lparr>db_reservations := [exposed_row\<lparr>rs_state := R_consumed\<rparr>],
      db_intents := [stored_row 2100 ((new_record BITGET ''e0'' ''ZROUSDT'' ''BUY'')
          \<lparr>it_requested_qty := 2, it_filled_qty := 2, it_state := I_filled, it_margin_reservation_id := Some 7\<rparr>),
        (stored_row 2200 (sample_close\<lparr>it_requested_qty := 2, it_filled_qty := 2, it_state := I_filled\<rparr>))
          \<lparr>it_provider_fill_ids := [''f1'']\<rparr>],
      db_bindings := [\<lparr>cb_close_client_order_id = ''c1'', cb_reservation_id = 7\<rparr>],
      db_fills := [\<lparr>fl_exchange = BITGET, fl_client_order_id = ''c1'', fl_provider_fill_id = ''f1'',
        fl_symbol = ''ZROUSDT'', fl_price = 16 / 10, fl_quantity = 2, fl_fee = 0, fl_realized_pnl = 0, fl_filled_at = 2300\<rparr>]\<rparr>"

definition flat_request :: CloseRequest where
  "flat_request = \<lparr>cq_environment = ''LIVE'', cq_symbol = ''ZROUSDT'', cq_dispatch_id = 1, cq_entry_oid = ''e0'',
     cq_close_oid = ''c1'', cq_authenticated = True, cq_observed_at = Some 2400, cq_flat_quantity = 0,
     cq_fills = [\<lparr>cf_provider_fill_id = ''f1'', cf_provider_order_id = ''p1'', cf_symbol = ''ZROUSDT'', cf_side = ''SELL'',
       cf_trade_side = ''sell_single'', cf_price = 16 / 10, cf_quantity = 2, cf_fee = 0, cf_realized_pnl = 0\<rparr>],
     cq_max_snapshot_age = 30000000\<rparr>"

definition flat_clock :: Clock where
  "flat_clock = \<lparr>ck_start = 2500, ck_source = 2500, ck_now = 2501, ck_write = 2502\<rparr>"

definition flat_result :: "Db \<times> BalanceAdmission" where
  "flat_result = projr (release_verified_close flat_clock flat_request flat_db)"

lemma flat_result: "release_verified_close flat_clock flat_request flat_db = Inr (fst flat_result, snd flat_result)"
proof -
  have "\<not> isl (release_verified_close flat_clock flat_request flat_db)" by code_simp
  then show ?thesis unfolding flat_result_def by (rule returned_pair)
qed

lemma flat_accepted: "ba_accepted (snd flat_result)"
  by code_simp

theorem verified_close_needs_evidence_witness:
  "\<exists>r entry c. close_owners flat_request flat_db = [r] \<and> \<not> rival_owner flat_request (rs_id r) flat_db
     \<and> find_intent flat_db BITGET ''e0'' = Some entry \<and> find_intent flat_db BITGET ''c1'' = Some c
     \<and> closing_bound flat_request r entry c \<and> remaining_owned_quantity ''e0'' flat_db = Inr 0"
  using verified_close_needs_evidence [OF flat_result flat_accepted] by (auto simp: flat_request_def)

lemma released_owners:
  assumes "close_owners q db = [r]" "distinct (map rs_id (db_reservations db))" "rs_state r = R_consumed"
  shows "close_owners q (db\<lparr>db_reservations :=
     update_where (\<lambda>x. rs_id x = rs_id r \<and> rs_state x = R_consumed) (release_row now q) (db_reservations db)\<rparr>)
     = [release_row now q r]"
proof -
  have mem: "r \<in> set (db_reservations db)" using assms(1) by (auto simp: close_owners_def filter_eq_Cons_iff)
  have only: "x = r" if "x \<in> set (db_reservations db)" "rs_id x = rs_id r" for x
    using assms(2) mem that by (auto simp: distinct_map inj_on_def)
  have "update_where (\<lambda>x. rs_id x = rs_id r \<and> rs_state x = R_consumed) (release_row now q) (db_reservations db)
      = map (\<lambda>x. if x = r then release_row now q r else x) (db_reservations db)"
    using only assms(3) by (auto simp: update_where_def)
  moreover have "filter P (map (\<lambda>x. if x = r then f r else x) xs) = map (\<lambda>x. if x = r then f r else x) (filter P xs)"
    if "P (f r) = P r" for P :: "Reservation \<Rightarrow> bool" and f xs using that by (induction xs) auto
  ultimately show ?thesis using assms(1) by (simp add: close_owners_def release_row_def)
qed

text \<open>
  Releasing is idempotent. Repeating an admitted verified close with the same evidence, while it
  is still fresh, is admitted again and changes nothing.
\<close>

theorem verified_close_idempotent:
  assumes "distinct (map rs_id (db_reservations db))"
    and "release_verified_close ck q db = Inr (db', adm)" and "ba_accepted adm"
    and "close_clock_ok q (ck_now ck')" and "close_clock_ok q (ck_write ck')"
  shows "\<exists>adm'. release_verified_close ck' q db' = Inr (db', adm') \<and> ba_accepted adm'"
proof -
  obtain r where pre: "\<not> unverified_evidence q"
    and owner: "close_owners q db = [r]" and ok: "close_refusal q (ck_write ck) r db = None"
    and out: "rs_state r = R_released \<and> db' = db \<or> rs_state r \<noteq> R_released \<and>
      write_reservations (update_where (\<lambda>x. rs_id x = rs_id r \<and> rs_state x = R_consumed)
        (release_row (ck_write ck) q) (db_reservations db)) db = Inr db'"
    using assms(2,3) unfolding release_verified_close_def
    by (auto simp: bindE_Inr_iff split: if_splits list.splits option.splits)
  from close_refusal_None [OF ok] obtain entry c where v: "close_verified q (ck_write ck) r db entry c" .
  have "\<exists>r'. close_owners q db' = [r'] \<and> rs_state r' = R_released \<and> close_refusal q (ck_write ck') r' db' = None"
  proof (cases "rs_state r = R_released")
    case True
    have "close_verified q (ck_write ck') r db entry c" using v assms(5) by (simp add: close_verified_def)
    then show ?thesis using True out owner close_verified_refusal by blast
  next
    case False
    then have state: "rs_state r = R_consumed" using v by (auto simp: close_verified_def)
    have db': "db' = db\<lparr>db_reservations := update_where (\<lambda>x. rs_id x = rs_id r \<and> rs_state x = R_consumed)
        (release_row (ck_write ck) q) (db_reservations db)\<rparr>" using out False by (simp add: run_simps)
    have "close_refusal q (ck_write ck') (release_row (ck_write ck) q r) db' = None"
      unfolding db' by (rule close_verified_refusal [OF close_verified_released [OF v assms(5)]])
    then show ?thesis using released_owners [OF owner assms(1) state] by (auto simp: db')
  qed
  then show ?thesis using pre assms(4) by (auto simp: release_verified_close_def)
qed

theorem verified_close_idempotent_witness:
  "\<exists>adm'. release_verified_close flat_clock flat_request (fst flat_result) = Inr (fst flat_result, adm') \<and> ba_accepted adm'"
proof (rule verified_close_idempotent [OF _ flat_result flat_accepted])
  show "distinct (map rs_id (db_reservations flat_db))" by (simp add: flat_db_def)
  show "close_clock_ok flat_request (ck_now flat_clock)" by code_simp
  show "close_clock_ok flat_request (ck_write flat_clock)" by code_simp
qed

end
