(* ===== verification/Entry_Routing.thy ===== *)
theory Entry_Routing
  imports Domain_Model
begin

text \<open>
  \<open>execution/entry_routing.py\<close>: whether an entry goes to the market, rests as a limit, or is split
  25/75. The regular expressions of \<open>is_explicit_market_signal\<close> only use word boundaries, so they are
  read over the words of the text and the separators between them (ASCII texts). Times are in
  microseconds; \<open>datetime.now\<close> is an argument.
\<close>

datatype EntryMode = LIMIT_ONLY | FULL_MARKET | SPLIT_MARKET_LIMIT | NEAR_LIMIT_SPLIT_MARKET_LIMIT

record LimitEntryContext =
  lx_provider_acknowledged :: bool
  lx_was_working :: bool
  lx_observed_at :: int
  lx_near_entry_mark :: "dec option"
  lx_prior_mark :: "dec option"
  lx_departure_window_seconds :: int

definition is_recent :: "LimitEntryContext \<Rightarrow> int \<Rightarrow> bool" where
  "is_recent x now = (let age = now - lx_observed_at x in 0 \<le> age \<and> age \<le> lx_departure_window_seconds x * 1000000)"

record EntryRoute =
  er_mode :: EntryMode
  er_market_quantity :: dec
  er_limit_quantity :: dec
  er_limit_price :: "dec option"
  er_reason :: string

section \<open>Explicit market signals\<close>

definition word_char :: "char \<Rightarrow> bool" where
  "word_char c = (let n = of_char (lower_char c) :: int in
     97 \<le> n \<and> n \<le> 122 \<or> 48 \<le> n \<and> n \<le> 57 \<or> c = CHR ''_'')"

text \<open>The words of a text, lower case, each with the separator that follows it.\<close>

function words :: "string \<Rightarrow> (string \<times> string) list" where
  "words s =
     (let t = dropWhile (\<lambda>c. \<not> word_char c) s in
      if t = [] then []
      else let w = takeWhile word_char t; r = dropWhile word_char t in
        (str_lower w, takeWhile (\<lambda>c. \<not> word_char c) r) # words r)"
  by pat_completeness auto
termination
proof (relation "measure length")
  fix s t w r :: string
  assume a: "t = dropWhile (\<lambda>c. \<not> word_char c) s" "t \<noteq> []" "r = dropWhile word_char t"
  then have hd: "word_char (hd t)" using hd_dropWhile by metis
  obtain c u where t: "t = c # u" using a(2) by (cases t) auto
  have "length r \<le> length u" using a(3) hd t by (simp add: length_dropWhile_le)
  also have "\<dots> < length t" using t by simp
  also have "\<dots> \<le> length s" using a(1) by (simp add: length_dropWhile_le)
  finally show "(r, s) \<in> measure length" by simp
qed simp

definition action_words :: "string list" where
  "action_words = [''longing'', ''shorting'', ''longed'', ''shorted'', ''long'', ''short'', ''buy'', ''buying'',
     ''sell'', ''selling'', ''enter'', ''entering'']"

text \<open>An action word with \<open>here\<close> or \<open>market\<close> somewhere after it.\<close>

fun action_then_market :: "string list \<Rightarrow> bool" where
  "action_then_market [] = False"
| "action_then_market (w # ws) =
     (w \<in> set action_words \<and> (''here'' \<in> set ws \<or> ''market'' \<in> set ws) \<or> action_then_market ws)"

definition blank :: "string \<Rightarrow> bool" where
  "blank s = list_all is_space s"

definition spaced :: "string \<Rightarrow> bool" where
  "spaced s \<longleftrightarrow> s \<noteq> [] \<and> blank s"

fun market_phrase :: "(string \<times> string) list \<Rightarrow> bool" where
  "market_phrase ((a, sep) # (b, sep') # ws) =
     (spaced sep \<and> (a, b) \<in> {(''market'', ''entry''), (''market'', ''order''), (''at'', ''market'')}
      \<or> a = ''entry'' \<and> b = ''market'' \<and> str_strip sep = '':''
      \<or> market_phrase ((b, sep') # ws))"
| "market_phrase _ = False"

definition is_explicit_market_signal :: "string option \<Rightarrow> bool" where
  "is_explicit_market_signal text =
     (case text of
        None \<Rightarrow> False
      | Some t \<Rightarrow>
          let ws = words t in
          if t = [] then False
          else if ''limit'' \<in> set (map fst ws) then False
          else action_then_market (map fst ws) \<or> market_phrase ws)"

section \<open>Routing\<close>

definition split_route :: "dec \<Rightarrow> EntryMode \<Rightarrow> dec \<Rightarrow> string \<Rightarrow> EntryRoute" where
  "split_route quantity mode limit_price reason =
     (let market = dec_mul quantity (25 / 100) in
      \<lparr>er_mode = mode, er_market_quantity = market, er_limit_quantity = dec_sub quantity market,
       er_limit_price = Some limit_price, er_reason = reason\<rparr>)"

definition market_route :: "dec \<Rightarrow> string \<Rightarrow> EntryRoute" where
  "market_route quantity reason =
     \<lparr>er_mode = FULL_MARKET, er_market_quantity = quantity, er_limit_quantity = 0, er_limit_price = None, er_reason = reason\<rparr>"

definition limit_route :: "dec \<Rightarrow> dec \<Rightarrow> EntryRoute" where
  "limit_route quantity price =
     \<lparr>er_mode = LIMIT_ONLY, er_market_quantity = 0, er_limit_quantity = quantity, er_limit_price = Some price,
      er_reason = ''normal-pullback-or-insufficient-limit-evidence''\<rparr>"

record RouteRequest =
  rr_direction :: Direction
  rr_signal_entry :: dec
  rr_market_price :: dec
  rr_total_quantity :: dec
  rr_late_threshold_pct :: dec
  rr_limit_context :: "LimitEntryContext option"
  rr_near_limit_threshold_pct :: "dec option"
  rr_now :: int
  rr_source_received_at :: "(bool \<times> int) option"   \<comment> \<open>whether it is aware, and the instant\<close>
  rr_recent_window_seconds :: int
  rr_force_market :: bool

definition near_threshold :: "RouteRequest \<Rightarrow> dec" where
  "near_threshold q =
     (case rr_near_limit_threshold_pct q of
        None \<Rightarrow> rr_late_threshold_pct q | Some t \<Rightarrow> if t = 0 then rr_late_threshold_pct q else t)"

definition passed_entry :: "RouteRequest \<Rightarrow> bool" where
  "passed_entry q = (case rr_direction q of LONG \<Rightarrow> rr_signal_entry q < rr_market_price q
                     | SHORT \<Rightarrow> rr_market_price q < rr_signal_entry q)"

definition just_departed :: "RouteRequest \<Rightarrow> dec \<Rightarrow> dec \<Rightarrow> bool" where
  "just_departed q near_mark prior_mark =
     (let entry = rr_signal_entry q; market = rr_market_price q;
          above = dec_mul entry (dec_add 1 (near_threshold q));
          below = dec_mul entry (dec_sub 1 (near_threshold q)) in
      case rr_direction q of
        LONG \<Rightarrow> below \<le> near_mark \<and> near_mark \<le> above \<and> prior_mark \<le> above \<and> entry < market \<and> market \<le> above
      | SHORT \<Rightarrow> below \<le> near_mark \<and> near_mark \<le> entry \<and> below \<le> prior_mark \<and> market < entry \<and> below \<le> market)"

definition context_route :: "RouteRequest \<Rightarrow> LimitEntryContext \<Rightarrow> EntryRoute" where
  "context_route q x =
     (let waiting = limit_route (rr_total_quantity q) (rr_signal_entry q) in
      case (lx_near_entry_mark x, lx_prior_mark x) of
        (Some near_mark, Some prior_mark) \<Rightarrow>
          if lx_provider_acknowledged x \<and> lx_was_working x \<and> is_recent x (rr_now q) \<and> just_departed q near_mark prior_mark
          then split_route (rr_total_quantity q) NEAR_LIMIT_SPLIT_MARKET_LIMIT (rr_signal_entry q) ''just-departed-acknowledged-limit''
          else waiting
      | _ \<Rightarrow> waiting)"

definition adverse_move :: "RouteRequest \<Rightarrow> bool" where
  "adverse_move q =
     (case rr_direction q of
        LONG \<Rightarrow> dec_mul (rr_signal_entry q) (dec_add 1 (rr_late_threshold_pct q)) \<le> rr_market_price q
      | SHORT \<Rightarrow> rr_market_price q \<le> dec_mul (rr_signal_entry q) (dec_sub 1 (rr_late_threshold_pct q)))"

definition route_entry :: "RouteRequest \<Rightarrow> (Exn, EntryRoute) raises" where
  "route_entry q =
     (if rr_force_market q then
        (if rr_market_price q \<le> 0 \<or> rr_total_quantity q \<le> 0
         then Inl (ValueError ''market price and quantity must be positive'')
         else Inr (market_route (rr_total_quantity q) ''explicit-market-signal''))
      else if rr_signal_entry q \<le> 0 \<or> rr_market_price q \<le> 0 \<or> rr_total_quantity q \<le> 0
      then Inl (ValueError ''entry, market price, and quantity must be positive'')
      else if \<not> (0 < rr_late_threshold_pct q \<and> rr_late_threshold_pct q < 1)
      then Inl (ValueError ''late threshold must be between zero and one'')
      else if \<not> (0 < near_threshold q \<and> near_threshold q < 1)
      then Inl (ValueError ''near-limit threshold must be between zero and one'')
      else case rr_source_received_at q of
        Some (aware, received) \<Rightarrow>
          if \<not> aware \<or> rr_recent_window_seconds q \<le> 0
          then Inl (ValueError ''recent signal route requires aware source time and positive window'')
          else let age = rr_now q - received in
          if passed_entry q \<and> 0 \<le> age \<and> age \<le> rr_recent_window_seconds q * 1000000
          then Inr (split_route (rr_total_quantity q) SPLIT_MARKET_LIMIT (rr_signal_entry q) ''recent-source-passed-entry'')
          else Inr (market_route (rr_total_quantity q) ''not-recently-passed-entry'')
      | None \<Rightarrow>
          (case rr_limit_context q of
             Some x \<Rightarrow>
               if lx_departure_window_seconds x \<le> 0 then Inl (ValueError ''departure window must be positive'')
               else Inr (context_route q x)
           | None \<Rightarrow>
               if \<not> adverse_move q then Inr (market_route (rr_total_quantity q) ''legacy-price-route'')
               else Inr (split_route (rr_total_quantity q) SPLIT_MARKET_LIMIT (rr_signal_entry q) ''legacy-price-route'')))"

section \<open>Lemmas\<close>

text \<open>A quantity of at most 26 significant digits splits exactly.\<close>

definition short_quantity :: "dec \<Rightarrow> bool" where
  "short_quantity x \<longleftrightarrow> (\<exists>n e. x = of_int n * pow10 e \<and> \<bar>n\<bar> \<le> 10 ^ 26)"

lemma pow10_shift: "pow10 (e - 2) = pow10 e / 100"
proof -
  have "pow10 2 = (100 :: rat)" by (simp add: pow10_def)
  then show ?thesis using pow10_add [of "e - 2" 2] by simp
qed

lemma split_route_exact:
  assumes "short_quantity x"
  shows "dec_mul x (25 / 100) = x / 4" and "dec_sub x (dec_mul x (25 / 100)) = 3 / 4 * x"
proof -
  from assms obtain n e where x: "x = of_int n * pow10 e" and n: "\<bar>n\<bar> \<le> 10 ^ 26" by (auto simp: short_quantity_def)
  have scaled: "dec_round (of_int (k * n) * pow10 (e - 2)) = of_int (k * n) * pow10 (e - 2)" if "\<bar>k\<bar> \<le> 100" for k
  proof (rule dec_round_exact)
    have "\<bar>k\<bar> * \<bar>n\<bar> \<le> 100 * 10 ^ 26" using that n by (intro mult_mono) auto
    then show "\<bar>k * n\<bar> \<le> 10 ^ 28" by (simp add: abs_mult)
  qed
  have quarter: "dec_round (x / 4) = x / 4" using scaled [of 25] by (simp add: x pow10_shift mult.commute)
  then show m: "dec_mul x (25 / 100) = x / 4" by (simp add: dec_mul_def)
  have "dec_round (3 / 4 * x) = 3 / 4 * x" using scaled [of 75] by (simp add: x pow10_shift mult.commute mult.left_commute)
  then show "dec_sub x (dec_mul x (25 / 100)) = 3 / 4 * x" unfolding m by (simp add: dec_sub_def)
qed

lemma split_route_fields:
  assumes "short_quantity x" "0 < x"
  shows "er_market_quantity (split_route x m p r) = x / 4" "er_limit_quantity (split_route x m p r) = 3 / 4 * x"
    "er_limit_price (split_route x m p r) = Some p" "er_mode (split_route x m p r) = m"
  using split_route_exact [OF assms(1)] by (simp_all add: split_route_def Let_def)

text \<open>The routes a successful call can return.\<close>

lemma route_entry_cases:
  assumes "route_entry q = Inr r"
  obtains (market) reason where "r = market_route (rr_total_quantity q) reason" "0 < rr_total_quantity q"
  | (limit) "r = limit_route (rr_total_quantity q) (rr_signal_entry q)" "0 < rr_total_quantity q" "0 < rr_signal_entry q"
  | (near) reason near_mark prior_mark where
      "r = split_route (rr_total_quantity q) NEAR_LIMIT_SPLIT_MARKET_LIMIT (rr_signal_entry q) reason"
      "0 < rr_total_quantity q" "0 < rr_signal_entry q" "just_departed q near_mark prior_mark"
  | (split) reason where "r = split_route (rr_total_quantity q) SPLIT_MARKET_LIMIT (rr_signal_entry q) reason"
      "0 < rr_total_quantity q" "0 < rr_signal_entry q" "0 < rr_late_threshold_pct q" "passed_entry q \<or> adverse_move q"
  using assms unfolding route_entry_def context_route_def Let_def
  by (auto split: if_splits option.splits prod.splits)

section \<open>Properties\<close>

text \<open>
  Routing conserves the planned quantity. On a quantity of at most 26 digits the market and the
  limit child add up to it exactly, neither is negative, a limit child exists exactly when a limit
  price is given, that price is the signal entry, and a split is exactly a quarter and three quarters.
\<close>

theorem route_entry_conserves:
  assumes "route_entry q = Inr r" and "short_quantity (rr_total_quantity q)"
  shows "er_market_quantity r + er_limit_quantity r = rr_total_quantity q
    \<and> 0 \<le> er_market_quantity r \<and> 0 \<le> er_limit_quantity r
    \<and> (er_limit_price r = None \<longleftrightarrow> er_limit_quantity r = 0)
    \<and> er_limit_price r \<in> {None, Some (rr_signal_entry q)}
    \<and> (er_mode r \<in> {SPLIT_MARKET_LIMIT, NEAR_LIMIT_SPLIT_MARKET_LIMIT} \<longleftrightarrow> er_market_quantity r = rr_total_quantity q / 4)"
  using assms(1)
proof (cases rule: route_entry_cases)
  case market
  then show ?thesis by (simp add: market_route_def)
next
  case limit
  then show ?thesis by (simp add: limit_route_def)
next
  case near
  show ?thesis unfolding near(1) using near(2,3) by (simp add: split_route_fields [OF assms(2) near(2)])
next
  case split
  show ?thesis unfolding split(1) using split(2,3) by (simp add: split_route_fields [OF assms(2) split(2)])
qed

definition late_long :: RouteRequest where
  "late_long = \<lparr>rr_direction = LONG, rr_signal_entry = 16 / 10, rr_market_price = 17 / 10, rr_total_quantity = 24,
     rr_late_threshold_pct = 1 / 100, rr_limit_context = None, rr_near_limit_threshold_pct = None, rr_now = 0,
     rr_source_received_at = None, rr_recent_window_seconds = 60, rr_force_market = False\<rparr>"

lemma late_long_route:
  "route_entry late_long = Inr (split_route 24 SPLIT_MARKET_LIMIT (16 / 10) ''legacy-price-route'')"
  by code_simp

theorem route_entry_conserves_witness:
  "er_market_quantity (split_route 24 SPLIT_MARKET_LIMIT (16 / 10) ''legacy-price-route'')
     + er_limit_quantity (split_route 24 SPLIT_MARKET_LIMIT (16 / 10) ''legacy-price-route'') = rr_total_quantity late_long"
proof -
  have "short_quantity (rr_total_quantity late_long)"
    unfolding short_quantity_def by (intro exI [of _ 24] exI [of _ 0]) (simp add: late_long_def pow10_def)
  then show ?thesis using route_entry_conserves [OF late_long_route] by blast
qed

text \<open>
  An entry is split only after the market moved past the signal entry. For a representable entry
  price, a split route means the market price is at or beyond the entry on the adverse side, so the
  limit child always waits for a better price than the market child gets.
\<close>

theorem route_entry_splits_after_move:
  assumes "route_entry q = Inr r" and "er_mode r \<in> {SPLIT_MARKET_LIMIT, NEAR_LIMIT_SPLIT_MARKET_LIMIT}"
    and "dec_round (rr_signal_entry q) = rr_signal_entry q"
  shows "case rr_direction q of LONG \<Rightarrow> rr_signal_entry q \<le> rr_market_price q
         | SHORT \<Rightarrow> rr_market_price q \<le> rr_signal_entry q"
  using assms(1)
proof (cases rule: route_entry_cases)
  case (split reason)
  let ?e = "rr_signal_entry q" and ?t = "rr_late_threshold_pct q"
  have up: "1 \<le> dec_add 1 ?t" and down: "dec_sub 1 ?t \<le> 1"
    using dec.rnd_mono [of 1 "1 + ?t"] dec.rnd_mono [of "1 - ?t" 1] dec_round_of_int [of 1] split(4)
    by (simp_all add: dec_add_def dec_sub_def)
  have "?e \<le> dec_mul ?e (dec_add 1 ?t)"
    using dec.rnd_mono [of ?e "?e * dec_add 1 ?t"] up split(3) assms(3) by (simp add: dec_mul_def)
  moreover have "dec_mul ?e (dec_sub 1 ?t) \<le> ?e"
    using dec.rnd_mono [of "?e * dec_sub 1 ?t" ?e] down split(3) assms(3) by (simp add: dec_mul_def)
  ultimately show ?thesis
    using split(5) by (auto simp: passed_entry_def adverse_move_def split: Direction.splits)
next
  case near
  then show ?thesis by (auto simp: just_departed_def Let_def split: Direction.splits)
qed (use assms(2) in \<open>simp_all add: market_route_def limit_route_def\<close>)

theorem route_entry_splits_after_move_witness: "rr_signal_entry late_long \<le> rr_market_price late_long"
  using route_entry_splits_after_move [OF late_long_route]
  by (simp add: split_route_def Let_def late_long_def dec_round_code)

end
