(* ===== verification/Memory_Intents.thy ===== *)
theory Memory_Intents
  imports Live_Intents
begin

text \<open>
  \<open>InMemoryLiveIntentStore\<close> of \<open>exchanges/bitget/live.py\<close>: the second provider of the intent store
  interface. Its dictionaries are association lists in insertion order; an index of a missing key
  raises \<open>KeyError\<close>. \<open>replace(record)\<close> copies, so the store never shares a record with its caller.
\<close>

record MemStore =
  ms_records :: "(string \<times> LiveIntentRecord) list"
  ms_fills :: "(string \<times> payload) list"
  ms_fill_keys :: "(Exchange \<times> string) list"
  ms_provider_events :: "(string \<times> string \<times> string) list"
  ms_provider_event_keys :: "(string \<times> string) list"
  ms_close_bindings :: "(string \<times> string) list"

definition mem_init :: MemStore where
  "mem_init = \<lparr>ms_records = [], ms_fills = [], ms_fill_keys = [], ms_provider_events = [],
     ms_provider_event_keys = [], ms_close_bindings = []\<rparr>"

definition mem_get :: "MemStore \<Rightarrow> string \<Rightarrow> LiveIntentRecord option" where
  "mem_get s oid = map_of (ms_records s) oid"

definition mem_index :: "MemStore \<Rightarrow> string \<Rightarrow> (Exn, LiveIntentRecord) raises" where
  "mem_index s oid = (case mem_get s oid of None \<Rightarrow> Inl (KeyError oid) | Some r \<Rightarrow> Inr r)"

definition mem_put :: "LiveIntentRecord \<Rightarrow> MemStore \<Rightarrow> MemStore" where
  "mem_put r s = s\<lparr>ms_records := dict_put (it_client_oid r) r (ms_records s)\<rparr>"

section \<open>Claims\<close>

definition order_id_conflict :: "LiveIntentRecord \<Rightarrow> LiveIntentRecord \<Rightarrow> bool" where
  "order_id_conflict old new \<longleftrightarrow> it_provider_order_id old \<noteq> None \<and> it_provider_order_id new \<noteq> None
     \<and> it_provider_order_id old \<noteq> it_provider_order_id new"

definition mem_save :: "LiveIntentRecord \<Rightarrow> MemStore \<Rightarrow> (Exn, MemStore) raises" where
  "mem_save r s =
     (case mem_get s (it_client_oid r) of
        None \<Rightarrow> Inr (mem_put r s)
      | Some old \<Rightarrow>
          if it_exchange old \<noteq> it_exchange r then Inl (ValueError ''live intent exchange conflict'')
          else if order_id_conflict old r then Inl (ValueError ''live intent provider order id conflict'')
          else Inr s)"

definition mem_claim :: "LiveIntentRecord \<Rightarrow> MemStore \<Rightarrow> (Exn, MemStore \<times> bool) raises" where
  "mem_claim r s =
     (if mem_get s (it_client_oid r) \<noteq> None then bindE (mem_save r s) (\<lambda>s'. Inr (s', False))
      else Inr (mem_put r s, True))"

definition mem_claim_split :: "LiveIntentRecord \<Rightarrow> LiveIntentRecord \<Rightarrow> MemStore \<Rightarrow> (Exn, MemStore \<times> bool) raises" where
  "mem_claim_split market limit s =
     (if mem_get s (it_client_oid market) \<noteq> None then Inr (s, False)
      else if mem_get s (it_client_oid limit) \<noteq> None then Inl (ValueError ''split child exists without root'')
      else Inr (mem_put limit (mem_put market s), True))"

definition mem_claim_entry_post :: "string \<Rightarrow> MemStore \<Rightarrow> (Exn, MemStore \<times> bool) raises" where
  "mem_claim_entry_post oid s =
     bindE (mem_index s oid) (\<lambda>r.
       if it_state r \<noteq> I_staged \<or> it_cancel_requested_by r \<noteq> None then Inr (s, False)
       else Inr (s\<lparr>ms_records := dict_put oid (r\<lparr>it_state := I_requested\<rparr>) (ms_records s)\<rparr>, True))"

definition mem_claim_cancel :: "string \<Rightarrow> UUID \<Rightarrow> MemStore \<Rightarrow> (Exn, MemStore \<times> bool) raises" where
  "mem_claim_cancel oid management s =
     bindE (mem_index s oid) (\<lambda>r.
       if it_role r \<noteq> ENTRY \<or> it_entry_leg r \<noteq> Some ''limit'' then Inl (ValueError ''cancellation requires owned entry limit'')
       else if it_cancel_requested_by r \<noteq> None \<or> it_provider_terminal r then Inr (s, False)
       else let r1 = r\<lparr>it_cancel_requested_by := Some management\<rparr>;
                r2 = (if it_state r = I_staged then r1\<lparr>it_state := I_cancelled, it_provider_terminal := True\<rparr> else r1)
            in Inr (s\<lparr>ms_records := dict_put oid r2 (ms_records s)\<rparr>, True))"

definition mem_claim_cancel_post :: "string \<Rightarrow> MemStore \<Rightarrow> (Exn, MemStore \<times> bool) raises" where
  "mem_claim_cancel_post oid s =
     bindE (mem_index s oid) (\<lambda>r.
       if it_cancel_requested_by r = None \<or> it_cancel_post_claimed r \<or> it_provider_terminal r then Inr (s, False)
       else Inr (s\<lparr>ms_records := dict_put oid (r\<lparr>it_cancel_post_claimed := True\<rparr>) (ms_records s)\<rparr>, True))"

definition mem_claim_protection :: "LiveIntentRecord list \<Rightarrow> MemStore \<Rightarrow> MemStore \<times> bool" where
  "mem_claim_protection rs s =
     (if \<exists>r \<in> set rs. mem_get s (it_client_oid r) \<noteq> None then (s, False) else (fold mem_put rs s, True))"

section \<open>Reads\<close>

definition mem_symbol_close_intents :: "MemStore \<Rightarrow> string \<Rightarrow> LiveIntentRecord list" where
  "mem_symbol_close_intents s symbol =
     filter (\<lambda>r. it_symbol r = symbol \<and> it_role r \<in> {CLOSE, EMERGENCY_CLOSE} \<and> it_state r \<in> {I_filled, I_reconciled})
       (map snd (ms_records s))"

definition mem_pending_entries :: "MemStore \<Rightarrow> string option \<Rightarrow> UUID option \<Rightarrow> LiveIntentRecord list" where
  "mem_pending_entries s symbol management =
     filter (\<lambda>r. it_exchange r = BITGET \<and> it_role r = ENTRY \<and> it_entry_leg r = Some ''limit''
        \<and> (\<not> it_provider_terminal r \<or> it_cancel_requested_by r = management \<and> management \<noteq> None)
        \<and> (case symbol of None \<Rightarrow> True | Some x \<Rightarrow> it_symbol r = x)) (map snd (ms_records s))"

definition mem_protection_intents :: "MemStore \<Rightarrow> string \<Rightarrow> LiveIntentRecord list" where
  "mem_protection_intents s base =
     filter (\<lambda>r. it_protection_root_oid r = Some base \<and> it_role r \<in> {SL, TP}) (map snd (ms_records s))"

definition mem_protection_intent_by_provider_order_id :: "MemStore \<Rightarrow> Exchange \<Rightarrow> string \<Rightarrow> LiveIntentRecord option" where
  "mem_protection_intent_by_provider_order_id s ex pid =
     List.find (\<lambda>r. it_exchange r = ex \<and> it_provider_order_id r = Some pid \<and> it_role r \<in> {SL, TP}) (map snd (ms_records s))"

definition mem_close_evidence :: "MemStore \<Rightarrow> LiveIntentRecord \<Rightarrow> string \<Rightarrow> LiveIntentRecord \<Rightarrow> bool" where
  "mem_close_evidence s base close_oid c =
     (let ledger = map normalize_fill (map snd (filter (\<lambda>(oid, _). oid = close_oid) (ms_fills s)));
          (quantity, _, _, ids) = summarize_fills ledger in
      it_symbol c = it_symbol base \<and> it_side c \<noteq> it_side base
      \<and> (case it_provider_order_id c of None \<Rightarrow> False | Some p \<Rightarrow> p \<noteq> [])
      \<and> quantity = it_filled_qty c \<and> set ids = set (it_provider_fill_ids c)
      \<and> (\<forall>fid \<in> set ids. \<not> status_derived fid))"

fun mem_subtract_closes ::
  "MemStore \<Rightarrow> string \<Rightarrow> LiveIntentRecord \<Rightarrow> (string \<times> string) list \<Rightarrow> dec \<Rightarrow> (Exn, dec) raises" where
  "mem_subtract_closes s base_oid base [] left_qty = Inr left_qty"
| "mem_subtract_closes s base_oid base ((close_oid, owner) # bs) left_qty =
     (if owner \<noteq> base_oid then mem_subtract_closes s base_oid base bs left_qty
      else bindE (mem_index s close_oid) (\<lambda>c.
        if it_filled_qty c \<le> 0 then mem_subtract_closes s base_oid base bs left_qty
        else if \<not> mem_close_evidence s base close_oid c
        then Inl (ValueError ''bound close lacks exact real provider fill evidence'')
        else mem_subtract_closes s base_oid base bs (dec_sub left_qty (it_filled_qty c))))"

definition mem_remaining_owned_quantity :: "MemStore \<Rightarrow> string \<Rightarrow> (Exn, dec) raises" where
  "mem_remaining_owned_quantity s base_oid =
     bindE (mem_index s base_oid) (\<lambda>base.
     bindE (mem_subtract_closes s base_oid base (ms_close_bindings s)
        (dec_add (it_filled_qty base)
          (case mem_get s (base_oid @ ''-limit'') of None \<Rightarrow> 0 | Some child \<Rightarrow> it_filled_qty child))) (\<lambda>left_qty.
       if left_qty < 0 then Inl (ValueError ''bound closes exceed owned entry fills'') else Inr left_qty))"

section \<open>Read-back, fills and ownership\<close>

fun mem_record_fills :: "('a) LiveIntentRecord_scheme \<Rightarrow> payload list \<Rightarrow> MemStore \<Rightarrow> MemStore" where
  "mem_record_fills r [] s = s"
| "mem_record_fills r (f # fs) s =
     (case fill_identity f of
        None \<Rightarrow> mem_record_fills r fs s
      | Some fid \<Rightarrow>
          if (it_exchange r, fid) \<in> set (ms_fill_keys s) then mem_record_fills r fs s
          else mem_record_fills r fs (s\<lparr>ms_fill_keys := (it_exchange r, fid) # ms_fill_keys s,
                 ms_fills := ms_fills s @ [(it_client_oid r, f)]\<rparr>))"

definition mem_update :: "LiveIntentRecord \<Rightarrow> MemStore \<Rightarrow> (Exn, MemStore \<times> LiveIntentRecord) raises" where
  "mem_update r s =
     (case mem_get s (it_client_oid r) of
        None \<Rightarrow> Inl (LookupError (''unknown live intent: '' @ it_client_oid r))
      | Some old \<Rightarrow>
          if it_exchange old \<noteq> it_exchange r then Inl (ValueError ''live intent exchange conflict'')
          else if order_id_conflict old r then Inl (ValueError ''live intent provider order id conflict'')
          else let r' = r\<lparr>it_cancel_requested_by := it_cancel_requested_by old,
                          it_provider_terminal := (it_provider_terminal r \<or> it_provider_terminal old),
                          it_cancel_post_claimed := it_cancel_post_claimed old\<rparr>
               in Inr (mem_record_fills r' (it_provider_fills r') (mem_put r' s), r'))"

definition mem_record_provider_event :: "string \<Rightarrow> string \<Rightarrow> string \<Rightarrow> MemStore \<Rightarrow> MemStore" where
  "mem_record_provider_event exchange fid source s =
     (if (exchange, fid) \<in> set (ms_provider_event_keys s) then s
      else s\<lparr>ms_provider_event_keys := (exchange, fid) # ms_provider_event_keys s,
             ms_provider_events := ms_provider_events s @ [(exchange, fid, source)]\<rparr>)"

definition mem_update_active_stop :: "string \<Rightarrow> string \<Rightarrow> dec \<Rightarrow> string \<Rightarrow> MemStore \<Rightarrow> (Exn, MemStore) raises" where
  "mem_update_active_stop symbol base_oid stop management s =
     bindE (mem_index s base_oid) (\<lambda>base. bindE (mem_index s management) (\<lambda>m.
       if it_symbol base \<noteq> symbol \<or> it_role m \<noteq> SL \<or> it_stop_mutation_root_oid m \<noteq> Some base_oid
          \<or> it_planned_stop_loss m \<noteq> Some stop
       then Inl (ValueError ''active stop management ownership mismatch'')
       else let s1 = s\<lparr>ms_records := dict_put base_oid (base\<lparr>it_active_stop_loss_price := Some stop\<rparr>) (ms_records s)\<rparr>
            in Inr (case mem_get s1 (base_oid @ ''-limit'') of
                 None \<Rightarrow> s1
               | Some child \<Rightarrow> s1\<lparr>ms_records := dict_put (base_oid @ ''-limit'')
                   (child\<lparr>it_active_stop_loss_price := Some stop\<rparr>) (ms_records s1)\<rparr>)))"

definition mem_bind_native_close :: "string \<Rightarrow> string \<Rightarrow> string \<Rightarrow> string \<Rightarrow> MemStore \<Rightarrow> (Exn, MemStore) raises" where
  "mem_bind_native_close base_oid close_oid plan_oid executed s =
     bindE (mem_index s base_oid) (\<lambda>base. bindE (mem_index s plan_oid) (\<lambda>plan. bindE (mem_index s close_oid) (\<lambda>c.
       if it_protection_root_oid plan \<noteq> Some base_oid
          \<or> (case it_provider_order_id plan of None \<Rightarrow> True | Some p \<Rightarrow> p = [])
          \<or> it_role c \<noteq> CLOSE \<or> it_provider_order_id c \<noteq> Some executed
          \<or> it_symbol c \<noteq> it_symbol base \<or> it_side c = it_side base
       then Inl (ValueError ''native close ownership mismatch'')
       else Inr (s\<lparr>ms_close_bindings := dict_put close_oid base_oid (ms_close_bindings s)\<rparr>))))"

section \<open>The claim contract\<close>

lemma mem_get_put [simp]: "mem_get (mem_put r s) oid = (if oid = it_client_oid r then Some r else mem_get s oid)"
  by (simp add: mem_get_def mem_put_def)

lemma mem_save_existing: "mem_save r s = Inr s' \<Longrightarrow> mem_get s (it_client_oid r) = Some old \<Longrightarrow> s' = s"
  by (auto simp: mem_save_def split: option.splits if_splits)

interpretation mem_claims: intent_claims mem_claim mem_get it_client_oid
proof
  fix r s s' won k
  assume "mem_claim r s = Inr (s', won)" "k \<noteq> it_client_oid r"
  then show "mem_get s' k = mem_get s k"
    by (auto simp: mem_claim_def run_simps dest: mem_save_existing split: if_splits)
next
  fix r s s'
  assume "mem_claim r s = Inr (s', True)"
  then show "mem_get s (it_client_oid r) = None \<and> mem_get s' (it_client_oid r) \<noteq> None"
    by (auto simp: mem_claim_def run_simps split: if_splits)
next
  fix r s s'
  assume "mem_claim r s = Inr (s', False)"
  then show "mem_get s (it_client_oid r) \<noteq> None \<and> s' = s"
    by (auto simp: mem_claim_def run_simps dest: mem_save_existing split: if_splits)
qed

lemma mem_record_fills_records [simp]: "ms_records (mem_record_fills r fs s) = ms_records s"
  by (induction fs arbitrary: s) (auto split: option.split)

lemma mem_get_record_fills [simp]: "mem_get (mem_record_fills r fs s) oid = mem_get s oid"
  by (simp add: mem_get_def)

lemma mem_update_get:
  assumes "mem_update r s = Inr (s', r')"
  shows "mem_get s' (it_client_oid r) = Some r'" and "it_client_oid r' = it_client_oid r"
    and "oid \<noteq> it_client_oid r \<Longrightarrow> mem_get s' oid = mem_get s oid"
  using assms by (auto simp: mem_update_def Let_def split: option.splits if_splits)

end
