(* ===== verification/Protection.thy ===== *)
theory Protection
  imports Domain_Model
begin

text \<open>
  \<open>execution/protection.py\<close>: what counts as protected. The venue is a parameter: a client is a record
  of programs over a venue state \<open>'v\<close>, each of which may raise.
\<close>

datatype ProtectionState = P_pending | P_venue_protected | P_bot_fallback | P_degraded | P_failed

record ProtectionPlan =
  pp_exchange :: Exchange
  pp_symbol :: string
  pp_direction :: Direction
  pp_quantity :: dec
  pp_stop_loss :: dec
  pp_take_profits :: "dec list"

definition make_protection_plan :: "ProtectionPlan \<Rightarrow> (Exn, ProtectionPlan) raises" where
  "make_protection_plan p =
     (if pp_quantity p \<le> 0 \<or> pp_stop_loss p \<le> 0 then Inl (ValueError ''protection quantity and stop loss must be positive'')
      else if pp_symbol p = [] then Inl (ValueError ''protection symbol is required'')
      else Inr p)"

record ProtectionReport =
  pr_state :: ProtectionState
  pr_observed_quantity :: dec
  pr_reason :: "string option"

record ProtectionConfirmation =
  pc_sl_order_id :: "string option"
  pc_tp_order_ids :: "string list"
  pc_confirmed :: bool

record 'w LiveProtectionClient =
  lp_place :: "string \<Rightarrow> string \<Rightarrow> dec \<Rightarrow> dec \<Rightarrow> dec list \<Rightarrow> string \<Rightarrow> ('w, ProtectionConfirmation) prog"
  lp_read :: "string \<Rightarrow> string option \<Rightarrow> string list \<Rightarrow> ('w, ProtectionReport) prog"

text \<open>A venue never protects a negative quantity: such an answer is an error.\<close>

definition checked_report :: "ProtectionReport \<Rightarrow> (Exn, ProtectionReport) raises" where
  "checked_report report =
     (if pr_observed_quantity report < 0 then Inl (ValueError ''venue returned a negative protected quantity'')
      else Inr report)"

definition reconcile_protection :: "(ProtectionPlan \<Rightarrow> ('w, ProtectionReport) prog) \<Rightarrow> ProtectionPlan \<Rightarrow> ('w, ProtectionReport) prog" where
  "reconcile_protection adapter_reconcile plan = bindW (adapter_reconcile plan) (\<lambda>report. liftE (checked_report report))"

definition protection_is_confirmed :: "ProtectionReport \<Rightarrow> dec \<Rightarrow> (Exn, bool) raises" where
  "protection_is_confirmed report expected =
     (if expected \<le> 0 then Inl (ValueError ''expected protected quantity must be positive'')
      else bindE (checked_report report) (\<lambda>r.
        Inr (pr_state r = P_venue_protected \<and> pr_observed_quantity r = expected)))"

definition failed_report :: "dec \<Rightarrow> string \<Rightarrow> ProtectionReport" where
  "failed_report quantity reason = \<lparr>pr_state = P_failed, pr_observed_quantity = quantity, pr_reason = Some reason\<rparr>"

definition ensure_live_protection ::
  "('w, 'z) LiveProtectionClient_scheme \<Rightarrow> ProtectionPlan \<Rightarrow> string \<Rightarrow> ('w, ProtectionReport) prog" where
  "ensure_live_protection client plan oid =
     bindW (lp_place client (pp_symbol plan) (if pp_direction plan = LONG then ''SELL'' else ''BUY'')
        (pp_quantity plan) (pp_stop_loss plan) (pp_take_profits plan) oid) (\<lambda>confirmation.
       if \<not> pc_confirmed confirmation \<or> pc_sl_order_id confirmation = None
       then returnW (failed_report 0 ''live protection unconfirmed'')
       else bindW (lp_read client (pp_symbol plan) (pc_sl_order_id confirmation) (pc_tp_order_ids confirmation)) (\<lambda>report.
         bindW (liftE (checked_report report)) (\<lambda>report.
           if pr_state report \<noteq> P_venue_protected
           then returnW (failed_report (pr_observed_quantity report)
                  (case pr_reason report of
                     Some r \<Rightarrow> if r = [] then ''live protection not venue-confirmed'' else r
                   | None \<Rightarrow> ''live protection not venue-confirmed''))
           else returnW report)))"

definition reconcile_live_protection ::
  "('w, 'z) LiveProtectionClient_scheme \<Rightarrow> ProtectionPlan \<Rightarrow> string option \<Rightarrow> string list \<Rightarrow> ('w, ProtectionReport) prog" where
  "reconcile_live_protection client plan sl tps =
     bindW (lp_read client (pp_symbol plan) sl tps) (\<lambda>report. liftE (checked_report report))"

section \<open>Lemmas\<close>

lemma checked_report_Inr: "checked_report report = Inr r \<longleftrightarrow> r = report \<and> 0 \<le> pr_observed_quantity report"
  by (auto simp: checked_report_def)

text \<open>A protected answer comes from the venue's own read-back.\<close>

lemma ensure_live_protection_protected:
  assumes "ensure_live_protection client plan oid w = (Inr report, w')" "pr_state report = P_venue_protected"
  obtains confirmation w1 where
    "lp_place client (pp_symbol plan) (if pp_direction plan = LONG then ''SELL'' else ''BUY'') (pp_quantity plan)
       (pp_stop_loss plan) (pp_take_profits plan) oid w = (Inr confirmation, w1)"
    "pc_confirmed confirmation" "pc_sl_order_id confirmation \<noteq> None"
    "lp_read client (pp_symbol plan) (pc_sl_order_id confirmation) (pc_tp_order_ids confirmation) w1 = (Inr report, w')"
proof -
  from assms(1) obtain confirmation w1 where place: "lp_place client (pp_symbol plan)
      (if pp_direction plan = LONG then ''SELL'' else ''BUY'') (pp_quantity plan)
       (pp_stop_loss plan) (pp_take_profits plan) oid w = (Inr confirmation, w1)"
    and rest: "(if \<not> pc_confirmed confirmation \<or> pc_sl_order_id confirmation = None
       then returnW (failed_report 0 ''live protection unconfirmed'')
       else bindW (lp_read client (pp_symbol plan) (pc_sl_order_id confirmation) (pc_tp_order_ids confirmation)) (\<lambda>report.
         bindW (liftE (checked_report report)) (\<lambda>report.
           if pr_state report \<noteq> P_venue_protected
           then returnW (failed_report (pr_observed_quantity report)
                  (case pr_reason report of
                     Some r \<Rightarrow> if r = [] then ''live protection not venue-confirmed'' else r
                   | None \<Rightarrow> ''live protection not venue-confirmed''))
           else returnW report))) w1 = (Inr report, w')"
    unfolding ensure_live_protection_def by (rule bindW_InrE)
  have ok: "pc_confirmed confirmation" "pc_sl_order_id confirmation \<noteq> None"
    using rest assms(2) by (auto simp: returnW_def failed_report_def split: if_splits)
  with rest obtain answer w2 where read: "lp_read client (pp_symbol plan) (pc_sl_order_id confirmation)
      (pc_tp_order_ids confirmation) w1 = (Inr answer, w2)"
    and last: "bindW (liftE (checked_report answer)) (\<lambda>report.
           if pr_state report \<noteq> P_venue_protected
           then returnW (failed_report (pr_observed_quantity report)
                  (case pr_reason report of
                     Some r \<Rightarrow> if r = [] then ''live protection not venue-confirmed'' else r
                   | None \<Rightarrow> ''live protection not venue-confirmed''))
           else returnW report) w2 = (Inr report, w')"
    by (auto elim: bindW_InrE)
  have "answer = report \<and> w2 = w'"
    using last assms(2)
    by (auto simp: liftE_def bindW_def returnW_def failed_report_def checked_report_def split: if_splits)
  with place ok read show ?thesis by (intro that) auto
qed

end
