(* ===== verification/Live_Entry.thy ===== *)
theory Live_Entry
  imports Memory_Intents Protection Sizing
begin

text \<open>
  The entry workflow of \<open>exchanges/bitget/live.py\<close>: setup, intent before the POST, read-back, and
  protection or emergency close. The venue client is a parameter (a record of programs over the venue
  state); the intent store is the in-memory one. The world also carries the log of the orders posted,
  in order, with what the store knew at that moment, and the alerts sent.
\<close>

section \<open>Data\<close>

record LiveEntryRequest =
  lq_exchange :: Exchange
  lq_symbol :: string
  lq_side :: string
  lq_quantity :: dec
  lq_leverage :: int
  lq_stop_loss :: dec
  lq_take_profits :: "dec list"
  lq_client_oid :: "string option"
  lq_oid_token :: "string option"

definition make_entry_request :: "LiveEntryRequest \<Rightarrow> (Exn, LiveEntryRequest) raises" where
  "make_entry_request q =
     (if lq_side q \<notin> {''BUY'', ''SELL''} then Inl (ValueError ''live entry side must be BUY or SELL'')
      else if lq_quantity q \<le> 0 then Inl (ValueError ''live entry quantity must be positive'')
      else if lq_leverage q < 1 then Inl (ValueError ''live entry leverage must be positive'')
      else Inr q)"

record LiveEntryResult =
  lr_client_oid :: string
  lr_status :: LiveOrderStatus
  lr_filled_qty :: dec
  lr_avg_price :: "dec option"
  lr_fee :: dec
  lr_provider_order_id :: "string option"
  lr_provider_fill_ids :: "string list"
  lr_protection :: "ProtectionReport option"
  lr_emergency_closed :: bool

record PreEntrySnapshot =
  ps_available_balance :: dec
  ps_positions :: "payload list"
  ps_metadata :: SymbolMetadata
  ps_current_price :: dec
  ps_position_mode :: string
  ps_margin_mode :: string
  ps_leverage :: string

text \<open>\<open>BitgetLiveClientProtocol\<close>.\<close>

record 'v LiveClient = "'v LiveProtectionClient" +
  lc_available_balance :: "('v, dec) prog"
  lc_positions :: "string \<Rightarrow> ('v, payload list) prog"
  lc_symbol_metadata :: "string \<Rightarrow> ('v, SymbolMetadata) prog"
  lc_current_price :: "string \<Rightarrow> ('v, dec) prog"
  lc_position_mode :: "('v, string) prog"
  lc_margin_mode :: "string \<Rightarrow> ('v, string) prog"
  lc_leverage :: "string \<Rightarrow> ('v, string) prog"
  lc_set_margin_mode :: "string \<Rightarrow> string \<Rightarrow> ('v, unit) prog"
  lc_set_leverage :: "string \<Rightarrow> string \<Rightarrow> ('v, unit) prog"
  lc_place_entry :: "string \<Rightarrow> string \<Rightarrow> dec \<Rightarrow> string \<Rightarrow> ('v, payload) prog"
  lc_order_detail :: "string \<Rightarrow> string \<Rightarrow> ('v, payload) prog"
  lc_fills :: "string \<Rightarrow> string \<Rightarrow> ('v, payload list) prog"
  lc_place_close :: "string \<Rightarrow> string \<Rightarrow> dec \<Rightarrow> string \<Rightarrow> ('v, payload) prog"

text \<open>The orders posted: an entry with whether its intent was stored, a protection, a reduce-only close.\<close>

datatype Post = EntryPost string bool | ProtectPost string dec | ClosePost string string dec

record 'v World =
  w_venue :: 'v
  w_store :: MemStore
  w_posts :: "Post list"
  w_alerts :: "string list"

section \<open>Effects\<close>

definition venue_call :: "('v, 'a) prog \<Rightarrow> ('v World, 'a) prog" where
  "venue_call p w = (case p (w_venue w) of (r, v) \<Rightarrow> (r, w\<lparr>w_venue := v\<rparr>))"

definition log_post :: "(MemStore \<Rightarrow> Post) \<Rightarrow> ('v World, unit) prog" where
  "log_post f w = (Inr (), w\<lparr>w_posts := w_posts w @ [f (w_store w)]\<rparr>)"

definition store_op :: "(MemStore \<Rightarrow> (Exn, MemStore \<times> 'a) raises) \<Rightarrow> ('v World, 'a) prog" where
  "store_op f w = (case f (w_store w) of Inl e \<Rightarrow> (Inl e, w) | Inr (s, x) \<Rightarrow> (Inr x, w\<lparr>w_store := s\<rparr>))"

definition store_get :: "string \<Rightarrow> ('v World, LiveIntentRecord option) prog" where
  "store_get oid = store_op (\<lambda>s. Inr (s, mem_get s oid))"

definition store_save :: "LiveIntentRecord \<Rightarrow> ('v World, unit) prog" where
  "store_save r = store_op (\<lambda>s. bindE (mem_save r s) (\<lambda>s'. Inr (s', ())))"

definition store_update :: "LiveIntentRecord \<Rightarrow> ('v World, LiveIntentRecord) prog" where
  "store_update r = store_op (mem_update r)"

definition send_alert :: "bool \<Rightarrow> string \<Rightarrow> ('v World, unit) prog" where
  "send_alert enabled message w = (Inr (), if enabled then w\<lparr>w_alerts := w_alerts w @ [message]\<rparr> else w)"

text \<open>The protection client over the world: placing protection is a logged POST.\<close>

definition world_protection :: "('v, 'z) LiveProtectionClient_scheme \<Rightarrow> ('v World) LiveProtectionClient" where
  "world_protection c =
     \<lparr>lp_place = (\<lambda>symbol side q sl tps oid. bindW (log_post (\<lambda>_. ProtectPost oid q)) (\<lambda>_.
         venue_call (lp_place c symbol side q sl tps oid))),
      lp_read = (\<lambda>symbol sl tps. venue_call (lp_read c symbol sl tps))\<rparr>"

section \<open>The workflow\<close>

definition exchange_name :: "Exchange \<Rightarrow> string" where
  "exchange_name ex = (case ex of BITGET \<Rightarrow> ''bitget'' | BINANCE \<Rightarrow> ''binance'')"

definition hex_token :: "string \<Rightarrow> bool" where
  "hex_token t \<longleftrightarrow> length t = 16 \<and> list_all (\<lambda>c. is_digit c \<or> c \<in> set ''abcdef'') t"

definition build_live_client_oid :: "string \<Rightarrow> string \<Rightarrow> string \<Rightarrow> (Exn, string) raises" where
  "build_live_client_oid exchange symbol token =
     (if \<not> hex_token token then Inl (ValueError ''clientOid token must be 16 lowercase hex chars'')
      else Inr (''live-'' @ exchange @ ''-'' @ symbol @ ''-'' @ token))"

text \<open>The client order id of a request; \<open>fresh\<close> is the hex of the \<open>uuid4\<close> drawn when no token is given.\<close>

definition request_oid :: "string \<Rightarrow> LiveEntryRequest \<Rightarrow> (Exn, string) raises" where
  "request_oid fresh q =
     (case lq_client_oid q of
        Some oid \<Rightarrow> if oid \<noteq> [] then Inr oid
                    else build_live_client_oid (exchange_name (lq_exchange q)) (lq_symbol q)
                           (case lq_oid_token q of Some t \<Rightarrow> t | None \<Rightarrow> fresh)
      | None \<Rightarrow> build_live_client_oid (exchange_name (lq_exchange q)) (lq_symbol q)
                  (case lq_oid_token q of Some t \<Rightarrow> t | None \<Rightarrow> fresh))"

definition read_pre_entry_state :: "'v LiveClient \<Rightarrow> string \<Rightarrow> ('v World, PreEntrySnapshot) prog" where
  "read_pre_entry_state c symbol =
     bindW (venue_call (lc_symbol_metadata c symbol)) (\<lambda>metadata.
     bindW (venue_call (lc_available_balance c)) (\<lambda>balance.
     bindW (venue_call (lc_positions c symbol)) (\<lambda>positions.
     bindW (venue_call (lc_current_price c symbol)) (\<lambda>price.
     bindW (venue_call (lc_position_mode c)) (\<lambda>position_mode.
     bindW (venue_call (lc_margin_mode c symbol)) (\<lambda>margin_mode.
     bindW (venue_call (lc_leverage c symbol)) (\<lambda>leverage.
       returnW \<lparr>ps_available_balance = balance, ps_positions = positions, ps_metadata = metadata,
         ps_current_price = price, ps_position_mode = position_mode, ps_margin_mode = margin_mode,
         ps_leverage = leverage\<rparr>)))))))"

definition ensure_isolated_margin_and_leverage :: "'v LiveClient \<Rightarrow> string \<Rightarrow> int \<Rightarrow> ('v World, string \<times> string) prog" where
  "ensure_isolated_margin_and_leverage c symbol leverage =
     bindW (venue_call (lc_set_margin_mode c symbol ''isolated'')) (\<lambda>_.
     bindW (venue_call (lc_margin_mode c symbol)) (\<lambda>mode.
       if str_lower mode \<noteq> ''isolated'' then raiseW (LiveSetupError ''isolated margin mode not confirmed'')
       else
         bindW (venue_call (lc_set_leverage c symbol (show_int leverage))) (\<lambda>_.
         bindW (venue_call (lc_leverage c symbol)) (\<lambda>confirmed.
           if confirmed \<noteq> show_int leverage then raiseW (LiveSetupError ''leverage not confirmed'')
           else returnW (mode, confirmed)))))"

definition intent_state_of :: "LiveOrderStatus \<Rightarrow> IntentState" where
  "intent_state_of status =
     (case status of Order_filled \<Rightarrow> I_filled | Order_partial \<Rightarrow> I_acknowledged | Order_accepted \<Rightarrow> I_acknowledged
      | Order_rejected \<Rightarrow> I_rejected | Order_unknown \<Rightarrow> I_unknown)"

text \<open>The record \<open>_persist_readback\<close> writes.\<close>

definition readback_record :: "LiveIntentRecord \<Rightarrow> payload \<Rightarrow> payload list \<Rightarrow> LiveIntentRecord" where
  "readback_record r detail fills =
     (let normalized = map normalize_fill fills;
          (qty, avg, fee, ids) = summarize_fills normalized;
          (qty', avg') = (case detail_filled detail of
             Some d \<Rightarrow> if qty < d then (d, to_decimal (get_first detail [''priceAvg'', ''avgPrice''] JNull)) else (qty, avg)
           | None \<Rightarrow> (qty, avg));
          pid = get_first detail [''orderId'', ''providerOrderId''] JNull
      in r\<lparr>it_provider_order_id := (if pid = JNull then it_provider_order_id r else Some (py_str pid)),
           it_provider_fill_ids := ids, it_provider_fills := normalized, it_filled_qty := qty', it_avg_price := avg',
           it_fee := fee, it_state := intent_state_of (classify_live_order detail normalized)\<rparr>)"

definition persist_readback :: "LiveIntentRecord \<Rightarrow> payload \<Rightarrow> payload list \<Rightarrow> ('v World, LiveOrderStatus \<times> LiveIntentRecord) prog" where
  "persist_readback r detail fills =
     bindW (store_update (readback_record r detail fills)) (\<lambda>r'.
       returnW (classify_live_order detail (map normalize_fill fills), r'))"

definition entry_result :: "string \<Rightarrow> LiveOrderStatus \<Rightarrow> LiveIntentRecord \<Rightarrow> LiveEntryResult" where
  "entry_result oid status r =
     \<lparr>lr_client_oid = oid, lr_status = status, lr_filled_qty = it_filled_qty r, lr_avg_price = it_avg_price r,
      lr_fee = it_fee r, lr_provider_order_id = it_provider_order_id r, lr_provider_fill_ids = it_provider_fill_ids r,
      lr_protection = None, lr_emergency_closed = False\<rparr>"

definition read_back :: "'v LiveClient \<Rightarrow> string \<Rightarrow> LiveIntentRecord \<Rightarrow> ('v World, LiveEntryResult) prog" where
  "read_back c oid r =
     bindW (venue_call (lc_order_detail c (it_symbol r) oid)) (\<lambda>detail.
     bindW (venue_call (lc_fills c (it_symbol r) oid)) (\<lambda>fills.
     bindW (persist_readback r detail fills) (\<lambda>(status, r'). returnW (entry_result oid status r'))))"

definition reconcile_by_client_oid :: "'v LiveClient \<Rightarrow> string \<Rightarrow> ('v World, LiveEntryResult) prog" where
  "reconcile_by_client_oid c oid =
     bindW (store_get oid) (\<lambda>stored.
       case stored of
         None \<Rightarrow> raiseW (LookupError (''unknown live intent: '' @ oid))
       | Some r \<Rightarrow> read_back c oid r)"

definition request_plan :: "LiveEntryRequest \<Rightarrow> dec \<Rightarrow> ProtectionPlan" where
  "request_plan q qty =
     \<lparr>pp_exchange = BITGET, pp_symbol = lq_symbol q, pp_direction = (if lq_side q = ''BUY'' then LONG else SHORT),
      pp_quantity = qty, pp_stop_loss = lq_stop_loss q, pp_take_profits = lq_take_profits q\<rparr>"

definition install_protection ::
  "'v LiveClient \<Rightarrow> LiveEntryRequest \<Rightarrow> string \<Rightarrow> dec \<Rightarrow> bool \<Rightarrow> ('v World, ProtectionReport \<times> bool) prog" where
  "install_protection c q oid qty alert =
     bindW (liftE (make_protection_plan (request_plan q qty))) (\<lambda>plan.
     bindW (ensure_live_protection (world_protection c) plan oid) (\<lambda>report.
       if pr_state report = P_venue_protected then returnW (report, False)
       else
         bindW (log_post (\<lambda>_. ClosePost (oid @ ''-emergency'') (opposite_side (lq_side q)) qty)) (\<lambda>_.
         bindW (venue_call (lc_place_close c (lq_symbol q) (opposite_side (lq_side q)) qty (oid @ ''-emergency''))) (\<lambda>_.
         bindW (send_alert alert (''live protection unconfirmed for '' @ oid @ ''; emergency close sent'')) (\<lambda>_.
           returnW (report, True))))))"

definition maybe_protect ::
  "'v LiveClient \<Rightarrow> LiveEntryRequest \<Rightarrow> string \<Rightarrow> LiveEntryResult \<Rightarrow> bool \<Rightarrow> ('v World, LiveEntryResult) prog" where
  "maybe_protect c q oid result alert =
     (if lr_filled_qty result \<le> 0 \<or> lr_status result \<notin> {Order_filled, Order_partial} then returnW result
      else
        bindW (install_protection c q oid (lr_filled_qty result) alert) (\<lambda>(report, closed_now).
        bindW (store_get oid) (\<lambda>stored.
        bindW (case stored of
                 None \<Rightarrow> returnW ()
               | Some r \<Rightarrow> bindW (store_update (if closed_now then r\<lparr>it_state := I_reconciled\<rparr> else r)) (\<lambda>_. returnW ())) (\<lambda>_.
          returnW (result\<lparr>lr_protection := Some report, lr_emergency_closed := closed_now\<rparr>)))))"

definition unknown_result :: "Exn \<Rightarrow> bool" where
  "unknown_result e = (case e of BitgetUnknownResultError _ \<Rightarrow> True | TimeoutError _ \<Rightarrow> True | _ \<Rightarrow> False)"

definition entry_record :: "LiveEntryRequest \<Rightarrow> string \<Rightarrow> LiveIntentRecord" where
  "entry_record q oid = (new_record (lq_exchange q) oid (lq_symbol q) (lq_side q))\<lparr>it_requested_qty := lq_quantity q\<rparr>"

text \<open>The POST and what follows it: a returned order is read back, an unknown result is reconciled by
  reads only.\<close>

definition submit_entry :: "'v LiveClient \<Rightarrow> LiveEntryRequest \<Rightarrow> string \<Rightarrow> ('v World, LiveEntryResult) prog" where
  "submit_entry c q oid =
     bindW (log_post (\<lambda>s. EntryPost oid (mem_get s oid \<noteq> None))) (\<lambda>_.
     bindW (tryW
       (bindW (venue_call (lc_place_entry c (lq_symbol q) (lq_side q) (lq_quantity q) oid)) (\<lambda>submitted.
          returnW (Some submitted)))
       unknown_result
       (\<lambda>_. bindW (store_update ((entry_record q oid)\<lparr>it_state := I_unknown\<rparr>)) (\<lambda>_. returnW None))) (\<lambda>submitted.
     case submitted of
       None \<Rightarrow> reconcile_by_client_oid c oid
     | Some answer \<Rightarrow>
         bindW (store_update ((entry_record q oid)\<lparr>it_provider_order_id :=
             (let pid = get_first answer [''orderId''] JNull in if pid = JNull then None else Some (py_str pid))\<rparr>))
           (read_back c oid)))"

definition enter_live_position ::
  "'v LiveClient \<Rightarrow> string \<Rightarrow> bool \<Rightarrow> LiveEntryRequest \<Rightarrow> ('v World, LiveEntryResult) prog" where
  "enter_live_position c fresh alert q =
     bindW (liftE (request_oid fresh q)) (\<lambda>oid.
     bindW (store_get oid) (\<lambda>existing.
     bindW (case existing of
              Some _ \<Rightarrow> reconcile_by_client_oid c oid
            | None \<Rightarrow>
                bindW (read_pre_entry_state c (lq_symbol q)) (\<lambda>_.
                bindW (ensure_isolated_margin_and_leverage c (lq_symbol q) (lq_leverage q)) (\<lambda>_.
                bindW (store_save (entry_record q oid)) (\<lambda>_. submit_entry c q oid)))) (\<lambda>result.
       maybe_protect c q oid result alert)))"

section \<open>Lemmas: what a program posts\<close>

fun entry_post :: "Post \<Rightarrow> bool" where
  "entry_post (EntryPost _ _) = True"
| "entry_post _ = False"

text \<open>The log grows, and by no entry order; or it does not change at all.\<close>

definition no_entry :: "'v World \<Rightarrow> 'v World \<Rightarrow> bool" where
  "no_entry w w' \<longleftrightarrow> (\<exists>new. w_posts w' = w_posts w @ new \<and> list_all (\<lambda>p. \<not> entry_post p) new)"

definition same_posts :: "'v World \<Rightarrow> 'v World \<Rightarrow> bool" where
  "same_posts w w' \<longleftrightarrow> w_posts w' = w_posts w"

lemma no_entry_refl: "reflp no_entry" and no_entry_trans: "transp no_entry"
  by (auto simp: no_entry_def intro!: reflpI transpI)

lemma same_posts_refl: "reflp same_posts" and same_posts_trans: "transp same_posts"
  by (auto simp: same_posts_def intro!: reflpI transpI)

named_theorems posting \<open>what the effects post\<close>

lemma same_no_entry: "keepsW same_posts p \<Longrightarrow> keepsW no_entry p"
  by (erule keepsW_mono) (simp add: same_posts_def no_entry_def)

lemma venue_call_posts [posting]: "keepsW same_posts (venue_call p)"
  by (simp add: keepsW_def venue_call_def same_posts_def split: prod.split)

lemma store_op_posts [posting]: "keepsW same_posts (store_op f)"
  by (auto simp: keepsW_def store_op_def same_posts_def split: sum.split prod.split)

lemma send_alert_posts [posting]: "keepsW same_posts (send_alert b m)"
  by (simp add: keepsW_def send_alert_def same_posts_def)

lemma log_post_no_entry: "(\<And>s. \<not> entry_post (f s)) \<Longrightarrow> keepsW no_entry (log_post f)"
  by (simp add: keepsW_def log_post_def no_entry_def)

lemmas same_rules = keepsW_return [OF same_posts_refl] keepsW_raise [OF same_posts_refl] keepsW_liftE [OF same_posts_refl]
  keepsW_bind [OF same_posts_trans] keepsW_try [OF same_posts_trans]

lemmas no_entry_rules = keepsW_return [OF no_entry_refl] keepsW_raise [OF no_entry_refl] keepsW_liftE [OF no_entry_refl]
  keepsW_bind [OF no_entry_trans]

lemma store_get_posts [posting]: "keepsW same_posts (store_get oid)"
  by (simp add: store_get_def store_op_posts)

lemma store_save_posts [posting]: "keepsW same_posts (store_save r)"
  by (simp add: store_save_def store_op_posts)

lemma store_update_posts [posting]: "keepsW same_posts (store_update r)"
  by (simp add: store_update_def store_op_posts)

lemma persist_readback_posts [posting]: "keepsW same_posts (persist_readback r detail fills)"
  unfolding persist_readback_def by (intro same_rules posting)

lemma read_back_posts [posting]: "keepsW same_posts (read_back c oid r)"
  unfolding read_back_def by (intro same_rules posting) (auto intro!: same_rules split: prod.split)

lemma reconcile_posts [posting]: "keepsW same_posts (reconcile_by_client_oid c oid)"
  unfolding reconcile_by_client_oid_def by (intro same_rules posting) (auto intro!: same_rules posting split: option.split)

lemma read_pre_entry_posts [posting]: "keepsW same_posts (read_pre_entry_state c symbol)"
  unfolding read_pre_entry_state_def by (intro same_rules posting)

lemma ensure_setup_posts [posting]: "keepsW same_posts (ensure_isolated_margin_and_leverage c symbol l)"
  unfolding ensure_isolated_margin_and_leverage_def by (intro same_rules posting) (auto intro!: same_rules posting)

lemma world_place_no_entry: "keepsW no_entry (lp_place (world_protection c) symbol side q sl tps oid)"
  unfolding world_protection_def
  by (simp, intro no_entry_rules log_post_no_entry same_no_entry venue_call_posts) simp_all

lemma world_read_posts: "keepsW same_posts (lp_read (world_protection c) symbol sl tps)"
  by (simp add: world_protection_def venue_call_posts)

lemma ensure_live_protection_no_entry: "keepsW no_entry (ensure_live_protection (world_protection c) plan oid)"
  unfolding ensure_live_protection_def
  by (intro no_entry_rules world_place_no_entry)
     (auto intro!: no_entry_rules same_no_entry [OF world_read_posts])

lemmas quiet = posting [THEN same_no_entry]

lemma install_protection_no_entry: "keepsW no_entry (install_protection c q oid qty alert)"
  unfolding install_protection_def
  by (intro no_entry_rules ensure_live_protection_no_entry)
     (auto intro!: no_entry_rules log_post_no_entry quiet)

lemma maybe_protect_no_entry: "keepsW no_entry (maybe_protect c q oid result alert)"
  unfolding maybe_protect_def
  by (auto intro!: no_entry_rules install_protection_no_entry quiet split: prod.split option.split)

lemma bind_get [simp]: "bindW (store_get oid) f w = f (mem_get (w_store w) oid) w"
  by (simp add: bindW_def store_get_def store_op_def)

lemma bind_log: "bindW (log_post g) f w = f () (w\<lparr>w_posts := w_posts w @ [g (w_store w)]\<rparr>)"
  by (simp add: bindW_def log_post_def)

text \<open>After the log entry of a submission, nothing more is posted by it.\<close>

lemma submit_entry_posts:
  assumes "submit_entry c q oid w = (r, w')"
  shows "w_posts w' = w_posts w @ [EntryPost oid (mem_get (w_store w) oid \<noteq> None)]"
proof -
  let ?rest = "bindW (tryW
       (bindW (venue_call (lc_place_entry c (lq_symbol q) (lq_side q) (lq_quantity q) oid)) (\<lambda>submitted.
          returnW (Some submitted)))
       unknown_result
       (\<lambda>_. bindW (store_update ((entry_record q oid)\<lparr>it_state := I_unknown\<rparr>)) (\<lambda>_. returnW None))) (\<lambda>submitted.
     case submitted of
       None \<Rightarrow> reconcile_by_client_oid c oid
     | Some answer \<Rightarrow>
         bindW (store_update ((entry_record q oid)\<lparr>it_provider_order_id :=
             (let pid = get_first answer [''orderId''] JNull in if pid = JNull then None else Some (py_str pid))\<rparr>))
           (read_back c oid))"
  let ?w1 = "w\<lparr>w_posts := w_posts w @ [EntryPost oid (mem_get (w_store w) oid \<noteq> None)]\<rparr>"
  have "?rest ?w1 = (r, w')" using assms unfolding submit_entry_def bind_log .
  moreover have "keepsW same_posts ?rest"
    by (auto intro!: same_rules posting split: option.split)
  ultimately have "same_posts ?w1 w'" by (meson keepsW_D)
  then show ?thesis by (simp add: same_posts_def)
qed

lemma store_save_present:
  assumes "store_save r w = (Inr (), w')"
  shows "mem_get (w_store w') (it_client_oid r) \<noteq> None"
  using assms by (auto simp: store_save_def store_op_def mem_save_def split: option.splits if_splits)

section \<open>Properties\<close>

lemma bind_same_posts:
  assumes "keepsW same_posts m" and "bindW m k w = (r, w')"
  shows "w_posts w' = w_posts w \<or> (\<exists>a w1. m w = (Inr a, w1) \<and> w_posts w1 = w_posts w \<and> k a w1 = (r, w'))"
  using assms(2)
proof (cases rule: bindW_cases)
  case (raised e)
  from keepsW_D [OF assms(1) raised(1)] show ?thesis by (simp add: same_posts_def)
next
  case (returned a w1)
  from keepsW_D [OF assms(1) returned(1)] returned show ?thesis by (auto simp: same_posts_def)
qed

text \<open>A new entry is posted once its intent is stored, and nothing else is posted.\<close>

lemma prepared_entry_posts:
  assumes "bindW (read_pre_entry_state c symbol) (\<lambda>_. bindW (ensure_isolated_margin_and_leverage c symbol lev) (\<lambda>_.
      bindW (store_save (entry_record q oid)) (\<lambda>_. submit_entry c q oid))) w = (r, w')"
  shows "w_posts w' = w_posts w \<or> w_posts w' = w_posts w @ [EntryPost oid True]"
proof -
  consider "w_posts w' = w_posts w"
    | w1 where "w_posts w1 = w_posts w" "bindW (ensure_isolated_margin_and_leverage c symbol lev) (\<lambda>_.
        bindW (store_save (entry_record q oid)) (\<lambda>_. submit_entry c q oid)) w1 = (r, w')"
    using bind_same_posts [OF read_pre_entry_posts assms] by blast
  then show ?thesis
  proof cases
    case 2
    from bind_same_posts [OF ensure_setup_posts 2(2)] 2(1) show ?thesis
    proof (elim disjE exE conjE)
      fix modes w2
      assume w2: "w_posts w2 = w_posts w1" and rest: "bindW (store_save (entry_record q oid)) (\<lambda>_. submit_entry c q oid) w2 = (r, w')"
      from bind_same_posts [OF store_save_posts rest] 2(1) w2 show ?thesis
      proof (elim disjE exE conjE)
        fix u w3
        assume saved: "store_save (entry_record q oid) w2 = (Inr u, w3)" and w3: "w_posts w3 = w_posts w2"
          and last: "submit_entry c q oid w3 = (r, w')"
        have "mem_get (w_store w3) oid \<noteq> None"
          using store_save_present saved by (fastforce simp: entry_record_def new_record_def)
        then show ?thesis using submit_entry_posts [OF last] 2(1) w2 w3 by simp
      qed simp
    qed simp
  qed simp
qed

text \<open>
  C18: at most one entry order per request, and never before its intent is stored. Whatever the venue
  answers or raises, running the workflow posts at most one entry order; it carries the request's
  client order id, the store already holds that intent when it is posted, and when the intent existed
  before the call no entry order is posted at all.
\<close>

theorem enter_live_position_posts_once:
  assumes "enter_live_position c fresh alert q w = (r, w')"
  shows "\<exists>new. w_posts w' = w_posts w @ new
    \<and> (filter entry_post new = [] \<or>
       (\<exists>oid. request_oid fresh q = Inr oid \<and> mem_get (w_store w) oid = None \<and> filter entry_post new = [EntryPost oid True]))"
proof (cases "request_oid fresh q")
  case (Inl e)
  then show ?thesis using assms by (simp add: enter_live_position_def)
next
  case (Inr oid)
  let ?first = "case mem_get (w_store w) oid of Some _ \<Rightarrow> reconcile_by_client_oid c oid
    | None \<Rightarrow> bindW (read_pre_entry_state c (lq_symbol q)) (\<lambda>_.
      bindW (ensure_isolated_margin_and_leverage c (lq_symbol q) (lq_leverage q)) (\<lambda>_.
      bindW (store_save (entry_record q oid)) (\<lambda>_. submit_entry c q oid)))"
  have run: "bindW ?first (\<lambda>result. maybe_protect c q oid result alert) w = (r, w')"
    using assms Inr by (simp add: enter_live_position_def split: option.split)
  obtain r1 w1 where first: "?first w = (r1, w1)" by (cases "?first w")
  have tail: "no_entry w1 w'"
  proof (cases r1)
    case (Inl e)
    then show ?thesis using run first by (simp add: bindW_def no_entry_def)
  next
    case (Inr result)
    then have "maybe_protect c q oid result alert w1 = (r, w')" using run first by (simp add: bindW_def)
    then show ?thesis by (rule keepsW_D [OF maybe_protect_no_entry])
  qed
  have "w_posts w1 = w_posts w \<or> mem_get (w_store w) oid = None \<and> w_posts w1 = w_posts w @ [EntryPost oid True]"
  proof (cases "mem_get (w_store w) oid")
    case (Some old)
    then have "reconcile_by_client_oid c oid w = (r1, w1)" using first by simp
    from keepsW_D [OF reconcile_posts this] show ?thesis by (simp add: same_posts_def)
  next
    case None
    then show ?thesis using prepared_entry_posts first by fastforce
  qed
  with tail Inr show ?thesis by (auto simp: no_entry_def list_all_iff filter_empty_conv)
qed

definition demo_meta :: SymbolMetadata where
  "demo_meta = \<lparr>sm_symbol = ''ZROUSDT'', sm_price_precision = 4, sm_price_tick = 1 / 10000, sm_size_step = 1,
     sm_min_order_qty = 1, sm_max_order_qty = None, sm_max_market_order_qty = None, sm_contract_value = 1,
     sm_max_leverage = 50, sm_min_notional = 5, sm_mm_tiers = []\<rparr>"

text \<open>A venue that fills the order and then cannot confirm its protection.\<close>

definition demo_client :: "unit LiveClient" where
  "demo_client =
     \<lparr>lp_place = (\<lambda>_ _ _ _ _ _. returnW \<lparr>pc_sl_order_id = None, pc_tp_order_ids = [], pc_confirmed = False\<rparr>),
      lp_read = (\<lambda>_ _ _. returnW \<lparr>pr_state = P_pending, pr_observed_quantity = 0, pr_reason = None\<rparr>),
      lc_available_balance = returnW 8, lc_positions = (\<lambda>_. returnW []), lc_symbol_metadata = (\<lambda>_. returnW demo_meta),
      lc_current_price = (\<lambda>_. returnW (16 / 10)), lc_position_mode = returnW ''one_way_mode'',
      lc_margin_mode = (\<lambda>_. returnW ''isolated''), lc_leverage = (\<lambda>_. returnW ''20''),
      lc_set_margin_mode = (\<lambda>_ _. returnW ()), lc_set_leverage = (\<lambda>_ _. returnW ()),
      lc_place_entry = (\<lambda>_ _ _ _. raiseW (TimeoutError ''read timed out'')),
      lc_order_detail = (\<lambda>_ _. returnW [(''state'', JStr ''filled''), (''filledQty'', JStr ''2''), (''orderId'', JStr ''p1'')]),
      lc_fills = (\<lambda>_ _. returnW []), lc_place_close = (\<lambda>_ _ _ _. returnW [])\<rparr>"

definition demo_request :: LiveEntryRequest where
  "demo_request = \<lparr>lq_exchange = BITGET, lq_symbol = ''ZROUSDT'', lq_side = ''BUY'', lq_quantity = 2, lq_leverage = 20,
     lq_stop_loss = 157 / 100, lq_take_profits = [17 / 10], lq_client_oid = Some ''e0'', lq_oid_token = None\<rparr>"

definition demo_world :: "unit World" where
  "demo_world = \<lparr>w_venue = (), w_store = mem_init, w_posts = [], w_alerts = []\<rparr>"

definition demo_run :: "(Exn, LiveEntryResult) raises \<times> unit World" where
  "demo_run = enter_live_position demo_client ''0123456789abcdef'' True demo_request demo_world"

lemma demo_posts: "w_posts (snd demo_run) = [EntryPost ''e0'' True, ProtectPost ''e0'' 2, ClosePost ''e0-emergency'' ''SELL'' 2]"
  by code_simp

lemma demo_result: "\<exists>res. fst demo_run = Inr res \<and> lr_filled_qty res = 2 \<and> lr_status res = Order_filled"
proof -
  have "\<not> isl (fst demo_run) \<and> lr_filled_qty (projr (fst demo_run)) = 2 \<and> lr_status (projr (fst demo_run)) = Order_filled"
    by code_simp
  then show ?thesis by (cases "fst demo_run") auto
qed

theorem enter_live_position_posts_once_witness:
  "\<exists>new. w_posts (snd demo_run) = w_posts demo_world @ new
     \<and> (filter entry_post new = [] \<or>
        (\<exists>oid. request_oid ''0123456789abcdef'' demo_request = Inr oid \<and> mem_get (w_store demo_world) oid = None
           \<and> filter entry_post new = [EntryPost oid True]))"
  by (rule enter_live_position_posts_once [of demo_client _ True _ _ "fst demo_run"]) (simp add: demo_run_def)

text \<open>What the protection step ends in.\<close>

lemma install_protection_outcome:
  assumes "install_protection c q oid qty alert w = (Inr (report, emergency), w')"
  shows "if emergency then pr_state report \<noteq> P_venue_protected
           \<and> ClosePost (oid @ ''-emergency'') (opposite_side (lq_side q)) qty \<in> set (w_posts w')
         else pr_state report = P_venue_protected"
proof -
  from assms obtain plan w1 where "liftE (make_protection_plan (request_plan q qty)) w = (Inr plan, w1)"
    and "bindW (ensure_live_protection (world_protection c) plan oid) (\<lambda>report.
       if pr_state report = P_venue_protected then returnW (report, False)
       else
         bindW (log_post (\<lambda>_. ClosePost (oid @ ''-emergency'') (opposite_side (lq_side q)) qty)) (\<lambda>_.
         bindW (venue_call (lc_place_close c (lq_symbol q) (opposite_side (lq_side q)) qty (oid @ ''-emergency''))) (\<lambda>_.
         bindW (send_alert alert (''live protection unconfirmed for '' @ oid @ ''; emergency close sent'')) (\<lambda>_.
           returnW (report, True))))) w1 = (Inr (report, emergency), w')"
    unfolding install_protection_def by (rule bindW_InrE)
  then obtain r w2 where rest: "(if pr_state r = P_venue_protected then returnW (r, False)
       else
         bindW (log_post (\<lambda>_. ClosePost (oid @ ''-emergency'') (opposite_side (lq_side q)) qty)) (\<lambda>_.
         bindW (venue_call (lc_place_close c (lq_symbol q) (opposite_side (lq_side q)) qty (oid @ ''-emergency''))) (\<lambda>_.
         bindW (send_alert alert (''live protection unconfirmed for '' @ oid @ ''; emergency close sent'')) (\<lambda>_.
           returnW (r, True))))) w2 = (Inr (report, emergency), w')"
    by (elim bindW_InrE)
  show ?thesis
  proof (cases "pr_state r = P_venue_protected")
    case True
    then show ?thesis using rest by (simp add: returnW_def)
  next
    case False
    let ?close = "ClosePost (oid @ ''-emergency'') (opposite_side (lq_side q)) qty"
    let ?w3 = "w2\<lparr>w_posts := w_posts w2 @ [?close]\<rparr>"
    let ?tail = "bindW (venue_call (lc_place_close c (lq_symbol q) (opposite_side (lq_side q)) qty (oid @ ''-emergency''))) (\<lambda>_.
         bindW (send_alert alert (''live protection unconfirmed for '' @ oid @ ''; emergency close sent'')) (\<lambda>_.
           returnW (r, True)))"
    have run: "?tail ?w3 = (Inr (report, emergency), w')" using rest False by (simp add: bind_log)
    have "keepsW same_posts ?tail" by (intro same_rules posting)
    from keepsW_D [OF this run] have "w_posts w' = w_posts w2 @ [?close]" by (simp add: same_posts_def)
    moreover have "report = r \<and> emergency" using run by (auto elim!: bindW_InrE simp: returnW_def)
    ultimately show ?thesis using False by simp
  qed
qed



end
