(* ===== verification/Capability_Store.thy ===== *)
theory Capability_Store
  imports Trade_Store "HOL-Library.AList"
begin

text \<open>
  \<open>storage/protection_capabilities.py\<close>: the two repositories of protection capability
  observations, the dictionary used offline and the table used in production, and the proof that a
  client cannot tell them apart: after the same calls both raise on the same ones and answer every
  lookup with the same observation, up to the spelling of the key fields.
\<close>

section \<open>Keys\<close>

type_synonym capability_key = "string \<times> string \<times> string"

definition capability_key :: "string \<Rightarrow> string \<Rightarrow> string \<Rightarrow> capability_key" where
  "capability_key exchange environment symbol =
     (str_lower (str_strip exchange), str_upper (str_strip environment), str_upper (str_strip symbol))"

definition key_of :: "BitgetProtectionCapability \<Rightarrow> capability_key" where
  "key_of c = capability_key (cp_exchange c) (cp_environment c) (cp_symbol c)"

definition with_stream ::
  "StreamState \<Rightarrow> timestamp option \<Rightarrow> string option \<Rightarrow> BitgetProtectionCapability \<Rightarrow> BitgetProtectionCapability" where
  "with_stream state last_stream_at last_error c =
     c\<lparr>cp_last_error := last_error, cp_stream_state := state, cp_last_stream_at := last_stream_at\<rparr>"

section \<open>The in-memory repository\<close>

type_synonym MemCaps = "(capability_key \<times> BitgetProtectionCapability) list"

definition mem_cap_get :: "string \<Rightarrow> string \<Rightarrow> string \<Rightarrow> MemCaps \<Rightarrow> BitgetProtectionCapability option" where
  "mem_cap_get exchange environment symbol m = map_of m (capability_key exchange environment symbol)"

definition mem_cap_upsert :: "BitgetProtectionCapability \<Rightarrow> MemCaps \<Rightarrow> (Exn, MemCaps) raises" where
  "mem_cap_upsert c m = Inr (AList.update (key_of c) c m)"

definition mem_cap_update_stream ::
  "string \<Rightarrow> string \<Rightarrow> string \<Rightarrow> StreamState \<Rightarrow> timestamp option \<Rightarrow> string option \<Rightarrow> MemCaps \<Rightarrow> (Exn, MemCaps) raises" where
  "mem_cap_update_stream exchange environment symbol state last_stream_at last_error m =
     (let key = capability_key exchange environment symbol in
      case map_of m key of
        None \<Rightarrow> Inl (LookupError (''protection capability not found: '' @ fst key @ '':'' @ fst (snd key) @ '':'' @ snd (snd key)))
      | Some current \<Rightarrow> bindE (make_capability (with_stream state last_stream_at last_error current)) (\<lambda>c.
          Inr (AList.update key c m)))"

section \<open>The table\<close>

text \<open>A row holds its key fields normalised; the states are stored as their texts and read back
  through the enums, with a text that is no member read as the least permissive state.\<close>

definition normalize_capability :: "BitgetProtectionCapability \<Rightarrow> BitgetProtectionCapability" where
  "normalize_capability c =
     c\<lparr>cp_exchange := str_lower (str_strip (cp_exchange c)), cp_environment := str_upper (str_strip (cp_environment c)),
       cp_symbol := str_upper (str_strip (cp_symbol c))\<rparr>"

definition row_key :: "BitgetProtectionCapability \<Rightarrow> capability_key" where
  "row_key c = (cp_exchange c, cp_environment c, cp_symbol c)"

definition capability_from_row :: "BitgetProtectionCapability \<Rightarrow> (Exn, BitgetProtectionCapability) raises" where
  "capability_from_row row =
     make_capability (row\<lparr>
       cp_native_state := (case native_state_of (str_upper (native_value (cp_native_state row))) of None \<Rightarrow> N_UNKNOWN | Some s \<Rightarrow> s),
       cp_stream_state := (case stream_state_of (str_upper (stream_value (cp_stream_state row))) of None \<Rightarrow> S_FAILED | Some s \<Rightarrow> s)\<rparr>)"

definition find_capability :: "capability_key \<Rightarrow> Db \<Rightarrow> BitgetProtectionCapability option" where
  "find_capability key db = List.find (\<lambda>c. row_key c = key) (db_capabilities db)"

definition cap_get :: "string \<Rightarrow> string \<Rightarrow> string \<Rightarrow> Db \<Rightarrow> (Exn, BitgetProtectionCapability option) raises" where
  "cap_get exchange environment symbol db =
     (case find_capability (capability_key exchange environment symbol) db of
        None \<Rightarrow> Inr None
      | Some row \<Rightarrow> bindE (capability_from_row row) (\<lambda>c. Inr (Some c)))"

definition cap_upsert :: "BitgetProtectionCapability \<Rightarrow> Db \<Rightarrow> (Exn, Db) raises" where
  "cap_upsert c db =
     (let row = normalize_capability c in
      Inr (db\<lparr>db_capabilities :=
        (if find_capability (row_key row) db = None then db_capabilities db @ [row]
         else update_where (\<lambda>x. row_key x = row_key row) (\<lambda>_. row) (db_capabilities db))\<rparr>))"

definition cap_update_stream ::
  "string \<Rightarrow> string \<Rightarrow> string \<Rightarrow> StreamState \<Rightarrow> timestamp option \<Rightarrow> string option \<Rightarrow> Db \<Rightarrow> (Exn, Db) raises" where
  "cap_update_stream exchange environment symbol state last_stream_at last_error db =
     (let key = capability_key exchange environment symbol in
      if find_capability key db = None then Inl (LookupError ''protection capability does not exist'')
      else Inr (db\<lparr>db_capabilities :=
        update_where (\<lambda>c. row_key c = key) (with_stream state last_stream_at last_error) (db_capabilities db)\<rparr>))"

section \<open>Runs of both stores\<close>

datatype CapOp =
    Upsert BitgetProtectionCapability
  | UpdateStream string string string StreamState "timestamp option" "string option"

fun mem_cap_op :: "CapOp \<Rightarrow> MemCaps \<Rightarrow> (Exn, MemCaps) raises" where
  "mem_cap_op (Upsert c) m = mem_cap_upsert c m"
| "mem_cap_op (UpdateStream e v s st t err) m = mem_cap_update_stream e v s st t err m"

fun cap_op :: "CapOp \<Rightarrow> Db \<Rightarrow> (Exn, Db) raises" where
  "cap_op (Upsert c) db = cap_upsert c db"
| "cap_op (UpdateStream e v s st t err) db = cap_update_stream e v s st t err db"

text \<open>The calls one after the other; a call that raises changes nothing. With the store, the list of
  which calls raised.\<close>

fun run_ops :: "('o \<Rightarrow> 's \<Rightarrow> (Exn, 's) raises) \<Rightarrow> 'o list \<Rightarrow> 's \<Rightarrow> 's \<times> bool list" where
  "run_ops f [] s = (s, [])"
| "run_ops f (x # xs) s =
     (case f x s of
        Inl e \<Rightarrow> (let (s', bs) = run_ops f xs s in (s', True # bs))
      | Inr s1 \<Rightarrow> (let (s', bs) = run_ops f xs s1 in (s', False # bs)))"

section \<open>Lemmas\<close>

lemma native_state_upper [simp]: "native_state_of (str_upper (native_value s)) = Some s"
  by (cases s; hypsubst; code_simp)

lemma stream_state_upper [simp]: "stream_state_of (str_upper (stream_value s)) = Some s"
  by (cases s; hypsubst; code_simp)

lemma row_key_normalize [simp]: "row_key (normalize_capability c) = key_of c"
  by (simp add: row_key_def normalize_capability_def key_of_def capability_key_def)

text \<open>Rows and dictionary entries correspond: the row of a key is the normalised entry.\<close>

definition same_caps :: "MemCaps \<Rightarrow> Db \<Rightarrow> bool" where
  "same_caps m db \<longleftrightarrow>
     (\<forall>key. find_capability key db = map_option normalize_capability (map_of m key))
     \<and> (\<forall>key c. map_of m key = Some c \<longrightarrow> make_capability c = Inr c \<and> key_of c = key)"

lemma same_caps_find: "same_caps m db \<Longrightarrow> find_capability k db = map_option normalize_capability (map_of m k)"
  unfolding same_caps_def by blast

lemma same_caps_entry: "same_caps m db \<Longrightarrow> map_of m k = Some c \<Longrightarrow> make_capability c = Inr c \<and> key_of c = k"
  unfolding same_caps_def by blast

lemma find_update_rows:
  assumes "\<And>c. row_key c = key \<Longrightarrow> row_key (f c) = key"
  shows "List.find (\<lambda>c. row_key c = k) (update_where (\<lambda>c. row_key c = key) f cs) =
    (if k = key then map_option f (List.find (\<lambda>c. row_key c = k) cs) else List.find (\<lambda>c. row_key c = k) cs)"
  by (induction cs) (auto simp: assms)

text \<open>Writing one key in both stores keeps the correspondence.\<close>

lemma same_caps_write:
  assumes same: "same_caps m db" and c: "make_capability c = Inr c" "key_of c = key"
    and rows: "\<And>k. List.find (\<lambda>x. row_key x = k) rows =
      (if k = key then Some (normalize_capability c) else find_capability k db)"
  shows "same_caps (AList.update key c m) (db\<lparr>db_capabilities := rows\<rparr>)"
  unfolding same_caps_def
proof (intro conjI allI impI)
  fix k
  show "find_capability k (db\<lparr>db_capabilities := rows\<rparr>) = map_option normalize_capability (map_of (AList.update key c m) k)"
    using rows [of k] same_caps_find [OF same, of k] by (simp add: find_capability_def update_conv')
next
  fix k d
  assume "map_of (AList.update key c m) k = Some d"
  then have "k = key \<and> d = c \<or> map_of m k = Some d" by (auto simp: update_conv' split: if_splits)
  then show "make_capability d = Inr d" "key_of d = k" using c same_caps_entry [OF same] by blast+
qed

lemma same_caps_upsert:
  assumes same: "same_caps m db" and ok: "make_capability c = Inr c"
  shows "\<exists>m' db'. mem_cap_upsert c m = Inr m' \<and> cap_upsert c db = Inr db' \<and> same_caps m' db'"
proof -
  let ?rows = "if find_capability (key_of c) db = None then db_capabilities db @ [normalize_capability c]
     else update_where (\<lambda>x. row_key x = key_of c) (\<lambda>_. normalize_capability c) (db_capabilities db)"
  have "List.find (\<lambda>x. row_key x = k) ?rows =
      (if k = key_of c then Some (normalize_capability c) else find_capability k db)" for k
    by (auto simp: find_capability_def find_update_rows find_in_append split: option.splits)
  from same_caps_write [OF same ok refl this] show ?thesis
    unfolding mem_cap_upsert_def cap_upsert_def Let_def row_key_normalize by blast
qed

lemma normalize_with_stream [simp]:
  "normalize_capability (with_stream st t e c) = with_stream st t e (normalize_capability c)"
  by (simp add: normalize_capability_def with_stream_def)

lemma keys_with_stream [simp]:
  "row_key (with_stream st t e c) = row_key c" "key_of (with_stream st t e c) = key_of c"
  by (simp_all add: row_key_def key_of_def with_stream_def)

lemma make_with_stream: "make_capability c = Inr c \<Longrightarrow> make_capability (with_stream st t e c) = Inr (with_stream st t e c)"
  by (auto simp: make_capability_def with_stream_def split: if_splits)

lemma same_caps_update_stream:
  assumes same: "same_caps m db"
  shows "(\<exists>x y. mem_cap_update_stream ex v s st t e m = Inl x \<and> cap_update_stream ex v s st t e db = Inl y)
    \<or> (\<exists>m' db'. mem_cap_update_stream ex v s st t e m = Inr m' \<and> cap_update_stream ex v s st t e db = Inr db' \<and> same_caps m' db')"
proof (cases "map_of m (capability_key ex v s)")
  case None
  then show ?thesis using same_caps_find [OF same, of "capability_key ex v s"]
    by (simp add: mem_cap_update_stream_def cap_update_stream_def Let_def)
next
  case (Some c)
  let ?key = "capability_key ex v s"
  let ?rows = "update_where (\<lambda>c. row_key c = ?key) (with_stream st t e) (db_capabilities db)"
  have c: "make_capability (with_stream st t e c) = Inr (with_stream st t e c)" "key_of (with_stream st t e c) = ?key"
    using same_caps_entry [OF same Some] by (simp_all add: make_with_stream)
  have row: "find_capability ?key db = Some (normalize_capability c)" using same_caps_find [OF same, of ?key] Some by simp
  have "List.find (\<lambda>x. row_key x = k) ?rows =
      (if k = ?key then Some (normalize_capability (with_stream st t e c)) else find_capability k db)" for k
    using row by (auto simp: find_capability_def find_update_rows)
  from same_caps_write [OF same c this] show ?thesis
    using Some c row by (simp add: mem_cap_update_stream_def cap_update_stream_def Let_def)
qed

text \<open>A stored observation is read back as it was written, in normal form.\<close>

lemma capability_roundtrip:
  assumes "make_capability c = Inr c"
  shows "capability_from_row (normalize_capability c) = Inr (normalize_capability c)"
proof -
  have "capability_from_row (normalize_capability c) = make_capability (normalize_capability c)"
    by (simp add: capability_from_row_def)
  also have "\<dots> = Inr (normalize_capability c)"
    using assms by (auto simp: make_capability_def normalize_capability_def strip_case_Nil split: if_splits)
  finally show ?thesis .
qed

lemma same_caps_get:
  assumes "same_caps m db"
  shows "cap_get ex v s db = Inr (map_option normalize_capability (mem_cap_get ex v s m))"
  using same_caps_find [OF assms] same_caps_entry [OF assms]
  by (cases "mem_cap_get ex v s m") (auto simp: cap_get_def mem_cap_get_def capability_roundtrip)

fun op_valid :: "CapOp \<Rightarrow> bool" where
  "op_valid (Upsert c) \<longleftrightarrow> make_capability c = Inr c"
| "op_valid _ \<longleftrightarrow> True"

lemma same_caps_op:
  assumes "same_caps m db" "op_valid x"
  shows "(\<exists>a b. mem_cap_op x m = Inl a \<and> cap_op x db = Inl b)
    \<or> (\<exists>m' db'. mem_cap_op x m = Inr m' \<and> cap_op x db = Inr db' \<and> same_caps m' db')"
  using assms same_caps_upsert same_caps_update_stream by (cases x) auto

lemma same_caps_run:
  assumes "same_caps m db" "list_all op_valid xs"
  shows "same_caps (fst (run_ops mem_cap_op xs m)) (fst (run_ops cap_op xs db))
    \<and> snd (run_ops mem_cap_op xs m) = snd (run_ops cap_op xs db)"
  using assms
proof (induction xs arbitrary: m db)
  case (Cons x xs)
  then have valid: "op_valid x" "list_all op_valid xs" by simp_all
  from same_caps_op [OF Cons.prems(1) valid(1)] show ?case
  proof (elim disjE exE conjE)
    fix a b assume "mem_cap_op x m = Inl a" "cap_op x db = Inl b"
    then show ?thesis using Cons.IH [OF Cons.prems(1) valid(2)] by (simp add: split_beta)
  next
    fix m' db' assume "mem_cap_op x m = Inr m'" "cap_op x db = Inr db'" "same_caps m' db'"
    then show ?thesis using Cons.IH [OF _ valid(2)] by (simp add: split_beta)
  qed
qed simp

section \<open>Properties\<close>


definition sample_ops :: "CapOp list" where
  "sample_ops = [UpdateStream ''bitget'' ''live'' ''zrousdt'' S_HEALTHY (Some 5) None,
     Upsert (default_capability ''Bitget'' ''live'' '' zrousdt ''),
     UpdateStream ''bitget'' ''LIVE'' ''ZROUSDT'' S_STALE (Some 9) (Some ''quiet'')]"

definition no_caps :: "Db \<Rightarrow> Db" where
  "no_caps db = db\<lparr>db_capabilities := []\<rparr>"


end
