(* ===== verification/Kill_Switch.thy ===== *)
theory Kill_Switch
  imports Live_Intents "HOL-Library.AList"
begin

text \<open>
  \<open>storage/reconciliation.py\<close>: the shared kill switches and the read/write boundary of the
  reconciliation loop, on the tables (\<open>PostgresReconciliationRepository\<close>) and in memory
  (\<open>InMemoryReconciliationRepository\<close>). The locale \<open>kill_switch\<close> is what the dispatcher, the
  watchdog and the healer rely on; both stores interpret it. The payloads of the outbox rows are
  left out, their deduplication keys are kept.
\<close>

section \<open>The durable repository\<close>

definition enqueue :: "DedupKey \<Rightarrow> Db \<Rightarrow> Db" where
  "enqueue key db = (if key \<in> set (db_outbox db) then db else db\<lparr>db_outbox := db_outbox db @ [key]\<rparr>)"

definition baselined_intent :: "Db \<Rightarrow> IntentRow \<Rightarrow> bool" where
  "baselined_intent db i \<longleftrightarrow> B_intent (it_exchange i) (it_client_oid i) \<in> set (db_baseline db)"

definition settled_states :: "IntentState list" where
  "settled_states = [I_rejected, I_cancelled, I_reconciled, I_filled]"

text \<open>The columns \<open>_intent_from_row\<close> reads; the others take the dataclass defaults.\<close>

definition intent_from_row :: "IntentRow \<Rightarrow> LiveIntentRecord" where
  "intent_from_row i =
     (new_record (it_exchange i) (it_client_oid i) (it_symbol i) (it_side i))
       \<lparr>it_role := it_role i, it_state := it_state i, it_requested_qty := it_requested_qty i,
        it_filled_qty := it_filled_qty i, it_avg_price := it_avg_price i, it_fee := it_fee i,
        it_provider_order_id := it_provider_order_id i, it_provider_fill_ids := it_provider_fill_ids i\<rparr>"

definition unresolved_intents :: "Exchange \<Rightarrow> Db \<Rightarrow> LiveIntentRecord list" where
  "unresolved_intents exchange db =
     map intent_from_row (filter (\<lambda>i. it_exchange i = exchange \<and> \<not> baselined_intent db i
       \<and> it_state i \<notin> set settled_states) (db_intents db))"

definition expected_position_symbols :: "Exchange \<Rightarrow> Db \<Rightarrow> string list" where
  "expected_position_symbols exchange db =
     unique (map it_symbol (filter (\<lambda>i. it_exchange i = exchange \<and> it_state i \<notin> {I_rejected, I_cancelled}
       \<and> \<not> baselined_intent db i) (db_intents db)))"

definition recon_row :: "('a) LiveIntentRecord_scheme \<Rightarrow> IntentRow \<Rightarrow> IntentRow" where
  "recon_row r i =
     i\<lparr>it_provider_order_id := (case it_provider_order_id i of None \<Rightarrow> it_provider_order_id r | Some p \<Rightarrow> Some p),
       it_state := it_state r, it_filled_qty := it_filled_qty r, it_avg_price := it_avg_price r, it_fee := it_fee r,
       it_provider_fill_ids := it_provider_fill_ids r\<rparr>"

definition recon_update_intent :: "timestamp \<Rightarrow> ('a) LiveIntentRecord_scheme \<Rightarrow> Db \<Rightarrow> (Exn, Db) raises" where
  "recon_update_intent now r db =
     (let target = (\<lambda>i. it_exchange i = it_exchange r \<and> it_client_oid i = it_client_oid r) in
      if \<exists>i \<in> set (db_intents db). target i \<and> \<not> intent_check (recon_row r i)
      then Inl (StorageError ''live_order_intents check'')
      else let db1 = fst (update_intents target (recon_row r) db) in
        if it_provider_fills r = [] then Inr db1 else insert_provider_fills now r (it_provider_fills r) db1)"

definition find_switch :: "string \<Rightarrow> Db \<Rightarrow> KillSwitchRow option" where
  "find_switch scope db = List.find (\<lambda>k. ks_scope k = scope) (db_kill_switches db)"

definition kill_switch_active :: "string \<Rightarrow> Db \<Rightarrow> bool" where
  "kill_switch_active scope db = (case find_switch scope db of None \<Rightarrow> False | Some k \<Rightarrow> ks_active k)"

definition kill_switch_reason :: "string \<Rightarrow> Db \<Rightarrow> string option" where
  "kill_switch_reason scope db =
     (case find_switch scope db of None \<Rightarrow> None | Some k \<Rightarrow> if ks_active k then Some (ks_reason k) else None)"

definition relatch_row :: "timestamp \<Rightarrow> string \<Rightarrow> KillSwitchRow \<Rightarrow> KillSwitchRow" where
  "relatch_row now reason k =
     k\<lparr>ks_active := True, ks_reason := reason,
       ks_latched_at := (if ks_active k then (case ks_latched_at k of None \<Rightarrow> Some now | Some t \<Rightarrow> Some t) else Some now),
       ks_updated_at := now\<rparr>"

text \<open>The notification key carries the UTC hour of the latch, so a later latch pages again.\<close>

definition latch_kill_switch :: "timestamp \<Rightarrow> string \<Rightarrow> string \<Rightarrow> Db \<Rightarrow> (Exn, Db) raises" where
  "latch_kill_switch now scope reason db =
     (let rows = (case find_switch scope db of
                    None \<Rightarrow> db_kill_switches db @ [\<lparr>ks_scope = scope, ks_active = True, ks_reason = reason,
                              ks_latched_at = Some now, ks_updated_at = now\<rparr>]
                  | Some _ \<Rightarrow> update_where (\<lambda>k. ks_scope k = scope) (relatch_row now reason) (db_kill_switches db))
      in Inr (enqueue (KillSwitchKey scope reason (now div 3600000000)) (db\<lparr>db_kill_switches := rows\<rparr>)))"

definition alert_protection_unconfirmed :: "string \<Rightarrow> string \<Rightarrow> Db \<Rightarrow> (Exn, Db) raises" where
  "alert_protection_unconfirmed scope dedup_key db = Inr (enqueue (ProtectionAlertKey scope dedup_key) db)"

text \<open>A mismatch stays unhandled until the switch of its scope is written after it.\<close>

definition has_unhandled_post_fill_mismatch :: "string \<Rightarrow> Db \<Rightarrow> bool" where
  "has_unhandled_post_fill_mismatch scope db \<longleftrightarrow>
     (\<exists>m \<in> set (db_post_fill db). po_exchange m = scope \<and> po_status m = ''mismatch''
        \<and> (case find_switch scope db of None \<Rightarrow> 0 | Some k \<Rightarrow> ks_updated_at k) < po_created_at m)"

definition release_row_switch :: "timestamp \<Rightarrow> string \<Rightarrow> KillSwitchRow \<Rightarrow> KillSwitchRow" where
  "release_row_switch now reference k =
     k\<lparr>ks_active := False, ks_reason := ''released:'' @ str_strip reference, ks_updated_at := now\<rparr>"

definition release_kill_switch :: "timestamp \<Rightarrow> string \<Rightarrow> string \<Rightarrow> Db \<Rightarrow> (Exn, Db) raises" where
  "release_kill_switch now scope reference db =
     (if str_strip reference = [] then Inl (ValueError ''approval reference is required'')
      else if find_switch scope db = None then Inl (LookupError (''kill switch not found: '' @ scope))
      else Inr (enqueue (KillSwitchReleaseKey scope (str_strip reference))
        (db\<lparr>db_kill_switches :=
             update_where (\<lambda>k. ks_scope k = scope) (release_row_switch now reference) (db_kill_switches db)\<rparr>)))"

section \<open>The in-memory repository\<close>

record MemRecon =
  mr_intents :: "LiveIntentRecord list"
  mr_expected_symbols :: "string list"
  mr_kill_switches :: "string list"
  mr_kill_reasons :: "(string \<times> string) list"
  mr_alert_keys :: "(string \<times> string) list"
  mr_unhandled_mismatches :: "string list"
  mr_alerts :: "string list"
  mr_alert_payloads :: "payload list"

definition mem_recon_init :: "LiveIntentRecord list \<Rightarrow> string list \<Rightarrow> MemRecon" where
  "mem_recon_init intents expected =
     \<lparr>mr_intents = intents, mr_expected_symbols = expected, mr_kill_switches = [], mr_kill_reasons = [],
      mr_alert_keys = [], mr_unhandled_mismatches = [], mr_alerts = [], mr_alert_payloads = []\<rparr>"

definition mem_unresolved_intents :: "Exchange \<Rightarrow> MemRecon \<Rightarrow> LiveIntentRecord list" where
  "mem_unresolved_intents exchange m =
     filter (\<lambda>i. it_exchange i = exchange \<and> it_state i \<notin> set settled_states) (mr_intents m)"

text \<open>The first record with the key is replaced.\<close>

fun replace_first :: "('a \<Rightarrow> bool) \<Rightarrow> 'a \<Rightarrow> 'a list \<Rightarrow> 'a list option" where
  "replace_first p y [] = None"
| "replace_first p y (x # xs) = (if p x then Some (y # xs) else map_option ((#) x) (replace_first p y xs))"

definition mem_recon_update_intent :: "LiveIntentRecord \<Rightarrow> MemRecon \<Rightarrow> (Exn, MemRecon) raises" where
  "mem_recon_update_intent r m =
     (case replace_first (\<lambda>i. it_exchange i = it_exchange r \<and> it_client_oid i = it_client_oid r) r (mr_intents m) of
        None \<Rightarrow> Inl (LookupError (''unknown live intent: '' @ it_client_oid r))
      | Some intents \<Rightarrow> Inr (m\<lparr>mr_intents := intents\<rparr>))"

definition mem_expected_position_symbols :: "Exchange \<Rightarrow> MemRecon \<Rightarrow> string list" where
  "mem_expected_position_symbols exchange m =
     unique (mr_expected_symbols m @
       map it_symbol (filter (\<lambda>i. it_exchange i = exchange \<and> it_state i \<notin> {I_rejected, I_cancelled}) (mr_intents m)))"

definition mem_kill_switch_active :: "string \<Rightarrow> MemRecon \<Rightarrow> bool" where
  "mem_kill_switch_active scope m \<longleftrightarrow> scope \<in> set (mr_kill_switches m)"

definition mem_kill_switch_reason :: "string \<Rightarrow> MemRecon \<Rightarrow> string option" where
  "mem_kill_switch_reason scope m =
     (if mem_kill_switch_active scope m then map_of (mr_kill_reasons m) scope else None)"

definition mem_latch_kill_switch :: "string \<Rightarrow> string \<Rightarrow> MemRecon \<Rightarrow> (Exn, MemRecon) raises" where
  "mem_latch_kill_switch scope reason m =
     (let m1 = m\<lparr>mr_kill_switches := List.insert scope (mr_kill_switches m),
                 mr_kill_reasons := AList.update scope reason (mr_kill_reasons m)\<rparr> in
      Inr (if (scope, reason) \<in> set (mr_alert_keys m1) then m1
           else m1\<lparr>mr_alert_keys := (scope, reason) # mr_alert_keys m1, mr_alerts := mr_alerts m1 @ [reason]\<rparr>))"

definition mem_release_kill_switch :: "string \<Rightarrow> string \<Rightarrow> MemRecon \<Rightarrow> (Exn, MemRecon) raises" where
  "mem_release_kill_switch scope reference m =
     (if str_strip reference = [] then Inl (ValueError ''approval reference is required'')
      else Inr (m\<lparr>mr_kill_switches := removeAll scope (mr_kill_switches m),
                  mr_unhandled_mismatches := removeAll scope (mr_unhandled_mismatches m)\<rparr>))"

definition mem_alert_protection_unconfirmed :: "string \<Rightarrow> string \<Rightarrow> payload \<Rightarrow> MemRecon \<Rightarrow> (Exn, MemRecon) raises" where
  "mem_alert_protection_unconfirmed scope dedup_key pl m =
     (let key = (''protection-alert'', dedup_key) in
      if key \<in> set (mr_alert_keys m) then Inr m
      else Inr (m\<lparr>mr_alert_keys := key # mr_alert_keys m, mr_alert_payloads := mr_alert_payloads m @ [pl]\<rparr>))"

definition mem_has_unhandled_post_fill_mismatch :: "string \<Rightarrow> MemRecon \<Rightarrow> bool" where
  "mem_has_unhandled_post_fill_mismatch scope m \<longleftrightarrow> scope \<in> set (mr_unhandled_mismatches m)"

definition mem_record_post_fill_mismatch :: "string \<Rightarrow> MemRecon \<Rightarrow> MemRecon" where
  "mem_record_post_fill_mismatch scope m =
     m\<lparr>mr_unhandled_mismatches := List.insert scope (mr_unhandled_mismatches m)\<rparr>"

section \<open>What a client relies on\<close>

datatype SwitchOp = Latch timestamp string string | Release timestamp string string

locale kill_switch =
  fixes active :: "string \<Rightarrow> 's \<Rightarrow> bool"
    and reason :: "string \<Rightarrow> 's \<Rightarrow> string option"
    and latch :: "timestamp \<Rightarrow> string \<Rightarrow> string \<Rightarrow> 's \<Rightarrow> (Exn, 's) raises"
    and release :: "timestamp \<Rightarrow> string \<Rightarrow> string \<Rightarrow> 's \<Rightarrow> (Exn, 's) raises"
  assumes latch_active: "latch now scope r s = Inr s' \<Longrightarrow> active scope s' \<and> reason scope s' = Some r"
    and latch_other: "latch now scope r s = Inr s' \<Longrightarrow> scope' \<noteq> scope \<Longrightarrow> active scope' s' = active scope' s \<and> reason scope' s' = reason scope' s"
    and latch_returns: "\<exists>s'. latch now scope r s = Inr s'"
    and release_active: "release now scope ref s = Inr s' \<Longrightarrow> \<not> active scope s'"
    and release_other: "release now scope ref s = Inr s' \<Longrightarrow> scope' \<noteq> scope \<Longrightarrow> active scope' s' = active scope' s \<and> reason scope' s' = reason scope' s"
    and release_approved: "release now scope ref s = Inr s' \<Longrightarrow> str_strip ref \<noteq> []"
    and reason_active: "reason scope s = Some r \<Longrightarrow> active scope s"
begin

fun switch_op :: "SwitchOp \<Rightarrow> 's \<Rightarrow> (Exn, 's) raises" where
  "switch_op (Latch now scope r) s = latch now scope r s"
| "switch_op (Release now scope ref) s = release now scope ref s"

fun switch_run :: "SwitchOp list \<Rightarrow> 's \<Rightarrow> (Exn, 's) raises" where
  "switch_run [] s = Inr s"
| "switch_run (x # xs) s = bindE (switch_op x s) (switch_run xs)"

lemma op_keeps_active:
  assumes "switch_op x s = Inr s'" "active scope s" "\<forall>now ref. x \<noteq> Release now scope ref"
  shows "active scope s'"
proof (cases x)
  case (Latch now sc r)
  then show ?thesis using assms latch_active latch_other by (cases "sc = scope") fastforce+
next
  case (Release now sc ref)
  then have "sc \<noteq> scope" using assms(3) by auto
  then show ?thesis using Release assms(1,2) release_other [of now sc ref s s' scope] by simp
qed

text \<open>A latched scope stays latched until that scope is released with an approval reference.\<close>

lemma latched_until_released:
  assumes "switch_run xs s = Inr s'" "active scope s" "\<not> active scope s'"
  obtains now ref where "Release now scope ref \<in> set xs" "str_strip ref \<noteq> []"
proof -
  have "\<exists>now ref. Release now scope ref \<in> set xs \<and> str_strip ref \<noteq> []"
    using assms
  proof (induction xs arbitrary: s)
    case (Cons x xs)
    then obtain s1 where one: "switch_op x s = Inr s1" and rest: "switch_run xs s1 = Inr s'"
      by (auto simp: run_simps)
    show ?case
    proof (cases "active scope s1")
      case True
      then show ?thesis using Cons.IH [OF rest _ Cons.prems(3)] by auto
    next
      case False
      then obtain now ref where x: "x = Release now scope ref"
        using op_keeps_active [OF one Cons.prems(2)] by blast
      then show ?thesis using one release_approved [of now scope ref s s1] by auto
    qed
  qed auto
  then show ?thesis using that by blast
qed

end

section \<open>Interpretations\<close>

lemma find_switch_enqueue [simp]: "find_switch scope (enqueue key db) = find_switch scope db"
  by (simp add: find_switch_def enqueue_def)

lemma find_update_scope:
  assumes "\<And>k. ks_scope (f k) = ks_scope k"
  shows "List.find (\<lambda>k. ks_scope k = scope) (update_where (\<lambda>k. ks_scope k = s) f ks) =
    (if scope = s then map_option f (List.find (\<lambda>k. ks_scope k = scope) ks) else List.find (\<lambda>k. ks_scope k = scope) ks)"
  by (induction ks) (auto simp: assms)

lemma find_switch_latch:
  assumes "latch_kill_switch now scope r db = Inr db'"
  shows "find_switch scope' db' =
    (if scope' = scope
     then Some (case find_switch scope db of
                  None \<Rightarrow> \<lparr>ks_scope = scope, ks_active = True, ks_reason = r, ks_latched_at = Some now, ks_updated_at = now\<rparr>
                | Some k \<Rightarrow> relatch_row now r k)
     else find_switch scope' db)"
proof (cases "find_switch scope db")
  case None
  then have "find_switch scope' db' = List.find (\<lambda>k. ks_scope k = scope') (db_kill_switches db @
      [\<lparr>ks_scope = scope, ks_active = True, ks_reason = r, ks_latched_at = Some now, ks_updated_at = now\<rparr>])"
    using assms by (auto simp: latch_kill_switch_def enqueue_def find_switch_def Let_def)
  then show ?thesis using None by (auto simp: find_in_append find_switch_def split: option.split)
next
  case (Some k)
  then have "find_switch scope' db' = List.find (\<lambda>k. ks_scope k = scope')
      (update_where (\<lambda>k. ks_scope k = scope) (relatch_row now r) (db_kill_switches db))"
    using assms by (auto simp: latch_kill_switch_def enqueue_def find_switch_def Let_def)
  moreover have "\<And>k. ks_scope (relatch_row now r k) = ks_scope k" by (simp add: relatch_row_def)
  ultimately show ?thesis using Some by (simp add: find_update_scope find_switch_def)
qed

lemma find_switch_release:
  assumes "release_kill_switch now scope reference db = Inr db'"
  shows "find_switch scope' db' =
    (if scope' = scope then map_option (release_row_switch now reference) (find_switch scope db) else find_switch scope' db)"
proof -
  have "find_switch scope' db' = List.find (\<lambda>k. ks_scope k = scope')
      (update_where (\<lambda>k. ks_scope k = scope) (release_row_switch now reference) (db_kill_switches db))"
    using assms by (auto simp: release_kill_switch_def enqueue_def find_switch_def split: if_splits)
  moreover have "\<And>k. ks_scope (release_row_switch now reference k) = ks_scope k" by (simp add: release_row_switch_def)
  ultimately show ?thesis by (simp add: find_update_scope find_switch_def)
qed

interpretation pg_switch: kill_switch kill_switch_active kill_switch_reason latch_kill_switch release_kill_switch
proof unfold_locales
  fix now scope r ref scope' and s s' :: Db
  show "\<exists>s'. latch_kill_switch now scope r s = Inr s'" by (simp add: latch_kill_switch_def)
  show "latch_kill_switch now scope r s = Inr s' \<Longrightarrow> kill_switch_active scope s' \<and> kill_switch_reason scope s' = Some r"
    by (auto simp: kill_switch_active_def kill_switch_reason_def relatch_row_def find_switch_latch split: option.splits)
  show "latch_kill_switch now scope r s = Inr s' \<Longrightarrow> scope' \<noteq> scope \<Longrightarrow>
      kill_switch_active scope' s' = kill_switch_active scope' s \<and> kill_switch_reason scope' s' = kill_switch_reason scope' s"
    by (simp add: kill_switch_active_def kill_switch_reason_def find_switch_latch)
  show "release_kill_switch now scope ref s = Inr s' \<Longrightarrow> \<not> kill_switch_active scope s'"
    by (auto simp: kill_switch_active_def find_switch_release release_row_switch_def split: option.splits)
  show "release_kill_switch now scope ref s = Inr s' \<Longrightarrow> scope' \<noteq> scope \<Longrightarrow>
      kill_switch_active scope' s' = kill_switch_active scope' s \<and> kill_switch_reason scope' s' = kill_switch_reason scope' s"
    by (simp add: kill_switch_active_def kill_switch_reason_def find_switch_release)
  show "release_kill_switch now scope ref s = Inr s' \<Longrightarrow> str_strip ref \<noteq> []"
    by (auto simp: release_kill_switch_def split: if_splits)
  show "kill_switch_reason scope s = Some r \<Longrightarrow> kill_switch_active scope s"
    by (auto simp: kill_switch_active_def kill_switch_reason_def split: option.splits if_splits)
qed

interpretation mem_switch: kill_switch mem_kill_switch_active mem_kill_switch_reason
  "\<lambda>_. mem_latch_kill_switch" "\<lambda>_. mem_release_kill_switch"
  by unfold_locales
    (auto simp: mem_kill_switch_active_def mem_kill_switch_reason_def mem_latch_kill_switch_def
      mem_release_kill_switch_def Let_def update_conv' split: if_splits)

text \<open>Any write of the switch, a latch too and not only a release, makes the mismatches recorded so far handled.\<close>

lemma latch_hides_mismatches:
  assumes "latch_kill_switch now scope reason db = Inr db'" and "\<forall>m \<in> set (db_post_fill db). po_created_at m \<le> now"
  shows "\<not> has_unhandled_post_fill_mismatch scope db'"
proof -
  obtain k where "find_switch scope db' = Some k" "ks_updated_at k = now"
    using find_switch_latch [OF assms(1), of scope] by (auto simp: relatch_row_def split: option.splits)
  moreover have "db_post_fill db' = db_post_fill db"
    using assms(1) by (auto simp: latch_kill_switch_def enqueue_def Let_def)
  ultimately show ?thesis using assms(2) by (auto simp: has_unhandled_post_fill_mismatch_def)
qed

end
