(* ===== verification/Watchdog.thy ===== *)
theory Watchdog
  imports Kill_Switch Capability_Store
begin

text \<open>
  \<open>execution/bitget_protection_watchdog.py\<close>: one cycle of the protection-stream watchdog over the
  durable capability table, and the latch it sets on its own kill-switch scope when failures persist.
  The socket, the provider's position read and the clock are inputs of a cycle. Log lines are left out.
\<close>

section \<open>State and inputs\<close>

definition PROTECTION_STREAM_SCOPE :: string where
  "PROTECTION_STREAM_SCOPE = ''bitget-protection-stream''"

datatype WatchdogStatus = W_HEALTHY | W_STALE | W_FAILED

record WatchdogReport =
  wr_status :: WatchdogStatus
  wr_allow_new_entries :: "(string \<times> bool) list"
  wr_reasons :: "string list"

record Watchdog =
  wd_environment :: string
  wd_stale_cycles_before_latch :: int
  wd_min_outage_seconds :: rat
  wd_consecutive_bad_cycles :: int
  wd_bad_since :: "timestamp option"
  wd_symbols :: "string list"

record WatchWorld =
  ww_db :: Db
  ww_dog :: Watchdog

text \<open>The kill-switch object: the methods it has, each of which may raise.\<close>

record KillSwitchPort =
  kp_is_active :: "(string \<Rightarrow> Db \<Rightarrow> (Exn, bool) raises) option"
  kp_latch :: "(string \<Rightarrow> string \<Rightarrow> Db \<Rightarrow> (Exn, Db) raises) option"

text \<open>What one cycle observes: the socket state, freshness per symbol, the provider's answers, and
  the clock when the outage begins and when it is measured.\<close>

record WatchInput =
  wi_socket_state :: "string option"
  wi_check_freshness :: "string \<Rightarrow> bool"
  wi_read_position :: "string \<Rightarrow> (Exn, JSON) raises"
  wi_now_bad :: timestamp
  wi_now_elapsed :: timestamp
  wi_kill_switch :: "KillSwitchPort option"

definition watched_symbols :: "string list \<Rightarrow> string list" where
  "watched_symbols symbols = unique (map (\<lambda>s. str_upper (str_strip s)) (filter (\<lambda>s. str_strip s \<noteq> []) symbols))"

definition make_watchdog :: "string \<Rightarrow> string list \<Rightarrow> int \<Rightarrow> rat \<Rightarrow> (Exn, Watchdog) raises" where
  "make_watchdog environment symbols stale_cycles min_outage =
     (let env = str_upper (str_strip environment) in
      if env \<notin> {''DEMO'', ''LIVE''} then Inl (ValueError ''Bitget watchdog environment must be DEMO or LIVE'')
      else if stale_cycles < 1 then Inl (ValueError ''stale_cycles_before_latch must be at least 1'')
      else if min_outage < 0 then Inl (ValueError ''min_outage_seconds must be finite and not negative'')
      else Inr \<lparr>wd_environment = env, wd_stale_cycles_before_latch = stale_cycles, wd_min_outage_seconds = min_outage,
        wd_consecutive_bad_cycles = 0, wd_bad_since = None, wd_symbols = watched_symbols symbols\<rparr>)"

definition refresh_symbols :: "string list \<Rightarrow> Watchdog \<Rightarrow> Watchdog" where
  "refresh_symbols symbols d = d\<lparr>wd_symbols := watched_symbols symbols\<rparr>"

section \<open>Observations\<close>

definition socket_is_dead :: "string option \<Rightarrow> bool" where
  "socket_is_dead state =
     (case state of None \<Rightarrow> True | Some s \<Rightarrow> str_upper s \<in> {''FAILED'', ''DISCONNECTED''})"

definition socket_ready :: "string option \<Rightarrow> bool" where
  "socket_ready state = (case state of None \<Rightarrow> False | Some s \<Rightarrow> str_upper s = ''CONNECTED'')"

definition valid_position_row :: "string \<Rightarrow> JSON \<Rightarrow> bool" where
  "valid_position_row symbol row =
     (case row of
        JObj r \<Rightarrow> map_of r ''symbol'' = Some (JStr symbol)
          \<and> (case map_of r ''total'' of None \<Rightarrow> False
             | Some v \<Rightarrow> (case to_decimal v of None \<Rightarrow> False | Some q \<Rightarrow> \<not> q < 0))
      | _ \<Rightarrow> False)"

definition valid_position_snapshot :: "JSON \<Rightarrow> string \<Rightarrow> bool" where
  "valid_position_snapshot value symbol =
     (case value of JList rows \<Rightarrow> list_all (valid_position_row symbol) rows | _ \<Rightarrow> False)"

definition add_reason :: "string \<Rightarrow> string list \<Rightarrow> string list" where
  "add_reason r rs = (if r \<in> set rs then rs else rs @ [r])"

text \<open>The provider answer of one symbol: usable, or the reason it is not.\<close>

definition position_failure :: "WatchInput \<Rightarrow> string \<Rightarrow> string option" where
  "position_failure i symbol =
     (case wi_read_position i symbol of
        Inl _ \<Rightarrow> Some ''provider-position-read-failed''
      | Inr v \<Rightarrow> if valid_position_snapshot v symbol then None else Some ''provider-position-invalid'')"

definition ensure_capability :: "Watchdog \<Rightarrow> string \<Rightarrow> Db \<Rightarrow> BitgetProtectionCapability transaction" where
  "ensure_capability d symbol db =
     bindE (cap_get ''bitget'' (wd_environment d) symbol db) (\<lambda>found.
       case found of
         Some c \<Rightarrow> Inr (db, c)
       | None \<Rightarrow> bindE (make_capability (default_capability ''bitget'' (wd_environment d) symbol)) (\<lambda>c.
           bindE (cap_upsert c db) (\<lambda>db1. Inr (db1, c))))"

section \<open>One cycle\<close>

definition dbW :: "(Db \<Rightarrow> 'a transaction) \<Rightarrow> (WatchWorld, 'a) prog" where
  "dbW f = transactW ww_db (\<lambda>db w. w\<lparr>ww_db := db\<rparr>) f"

definition stream_verdict :: "bool \<Rightarrow> bool \<Rightarrow> bool \<Rightarrow> StreamState \<times> string option" where
  "stream_verdict dead fresh read_ok =
     (if dead then (S_FAILED, Some ''socket-not-connected'')
      else if fresh \<and> read_ok then (S_HEALTHY, None)
      else if \<not> fresh then (S_STALE, Some ''protection-stream-stale'')
      else (S_FAILED, Some ''provider-position-read-failed''))"

definition watch_symbol :: "WatchInput \<Rightarrow> Watchdog \<Rightarrow> string \<Rightarrow> (WatchWorld, bool) prog" where
  "watch_symbol i d symbol =
     (let fresh = wi_check_freshness i symbol; read_ok = (position_failure i symbol = None);
          dead = socket_is_dead (wi_socket_state i) in
      bindW (dbW (ensure_capability d symbol)) (\<lambda>c.
        let native = (cp_native_state c = N_VERIFIED);
            allow = (read_ok \<and> socket_ready (wi_socket_state i) \<and> (native \<or> cp_fallback_allowed c \<and> fresh)) in
        if native \<and> read_ok then returnW allow
        else bindW (dbW (\<lambda>db. unitT (cap_update_stream ''bitget'' (wd_environment d) symbol
               (fst (stream_verdict dead fresh read_ok)) (cp_last_stream_at c) (snd (stream_verdict dead fresh read_ok)) db)))
             (\<lambda>_. returnW allow)))"

fun watch_symbols :: "WatchInput \<Rightarrow> Watchdog \<Rightarrow> string list \<Rightarrow> (WatchWorld, (string \<times> bool) list) prog" where
  "watch_symbols i d [] = returnW []"
| "watch_symbols i d (s # ss) =
     bindW (watch_symbol i d s) (\<lambda>allow. bindW (watch_symbols i d ss) (\<lambda>rest. returnW ((s, allow) # rest)))"

definition initial_reasons :: "WatchInput \<Rightarrow> Watchdog \<Rightarrow> string list" where
  "initial_reasons i d =
     (let socket = (if socket_is_dead (wi_socket_state i) \<or> \<not> socket_ready (wi_socket_state i)
                    then [''socket-not-connected''] else []) in
      if list_all (wi_check_freshness i) (wd_symbols d) then socket else add_reason ''protection-stream-stale'' socket)"

definition cycle_reasons :: "WatchInput \<Rightarrow> Watchdog \<Rightarrow> string list" where
  "cycle_reasons i d =
     foldl (\<lambda>rs s. case position_failure i s of None \<Rightarrow> rs | Some r \<Rightarrow> add_reason r rs) (initial_reasons i d) (wd_symbols d)"

definition provider_failure :: "WatchInput \<Rightarrow> Watchdog \<Rightarrow> bool" where
  "provider_failure i d \<longleftrightarrow> list_ex (\<lambda>s. position_failure i s \<noteq> None) (wd_symbols d)"

definition cycle_status :: "WatchInput \<Rightarrow> Watchdog \<Rightarrow> WatchdogStatus" where
  "cycle_status i d =
     (if \<not> socket_ready (wi_socket_state i) \<or> provider_failure i d then W_FAILED
      else if ''protection-stream-stale'' \<in> set (cycle_reasons i d) then W_STALE
      else W_HEALTHY)"

definition latch_reason :: "string list \<Rightarrow> string" where
  "latch_reason reasons =
     (case List.find (\<lambda>r. r \<in> set reasons)
        [''provider-position-read-failed'', ''provider-position-invalid'', ''socket-not-connected''] of
        None \<Rightarrow> ''protection-watchdog-latched'' | Some r \<Rightarrow> r)"

text \<open>\<open>_is_latched\<close>: an absent or a failing read counts as not latched.\<close>

definition is_latched :: "KillSwitchPort \<Rightarrow> Db \<Rightarrow> bool" where
  "is_latched k db =
     (case kp_is_active k of None \<Rightarrow> False
      | Some f \<Rightarrow> (case f PROTECTION_STREAM_SCOPE db of Inl _ \<Rightarrow> False | Inr b \<Rightarrow> b))"

text \<open>\<open>_latch\<close>: a failing write is swallowed and tried again on the next cycle.\<close>

definition record_latch :: "KillSwitchPort \<Rightarrow> string \<Rightarrow> Db \<Rightarrow> Db" where
  "record_latch k reason db =
     (case kp_latch k of None \<Rightarrow> db
      | Some f \<Rightarrow> (case f PROTECTION_STREAM_SCOPE reason db of Inl _ \<Rightarrow> db | Inr db1 \<Rightarrow> db1))"

definition bad_cycle :: "WatchInput \<Rightarrow> Watchdog \<Rightarrow> Watchdog" where
  "bad_cycle i d = d\<lparr>wd_consecutive_bad_cycles := wd_consecutive_bad_cycles d + 1,
     wd_bad_since := (case wd_bad_since d of None \<Rightarrow> Some (wi_now_bad i) | Some t \<Rightarrow> Some t)\<rparr>"

definition outage_long_enough :: "WatchInput \<Rightarrow> Watchdog \<Rightarrow> bool" where
  "outage_long_enough i d =
     (if 0 < wd_min_outage_seconds d
      then \<not> of_int (wi_now_elapsed i - the (wd_bad_since d)) < wd_min_outage_seconds d * 1000000
      else True)"

definition track_consecutive_failures ::
  "WatchInput \<Rightarrow> WatchdogStatus \<Rightarrow> string list \<Rightarrow> bool \<Rightarrow> WatchWorld \<Rightarrow> WatchWorld" where
  "track_consecutive_failures i status reasons latchable w =
     (let d = ww_dog w in
      if status = W_HEALTHY then w\<lparr>ww_dog := d\<lparr>wd_consecutive_bad_cycles := 0, wd_bad_since := None\<rparr>\<rparr>
      else if \<not> latchable then w
      else let d1 = bad_cycle i d; w1 = w\<lparr>ww_dog := d1\<rparr> in
        (case wi_kill_switch i of
           None \<Rightarrow> w1
         | Some k \<Rightarrow>
             if wd_consecutive_bad_cycles d1 < wd_stale_cycles_before_latch d1 then w1
             else if \<not> outage_long_enough i d1 then w1
             else if is_latched k (ww_db w1) then w1
             else w1\<lparr>ww_db := record_latch k (latch_reason reasons) (ww_db w1)\<rparr>))"

definition latchable :: "WatchInput \<Rightarrow> Watchdog \<Rightarrow> bool" where
  "latchable i d \<longleftrightarrow> socket_is_dead (wi_socket_state i) \<or> provider_failure i d"

definition watch_once :: "WatchInput \<Rightarrow> (WatchWorld, WatchdogReport) prog" where
  "watch_once i w =
     (let d = ww_dog w in
      bindW (watch_symbols i d (wd_symbols d)) (\<lambda>allow w1.
        (Inr \<lparr>wr_status = cycle_status i d, wr_allow_new_entries = allow, wr_reasons = unique (cycle_reasons i d)\<rparr>,
         track_consecutive_failures i (cycle_status i d) (unique (cycle_reasons i d)) (latchable i d) w1)) w)"

fun watch_run :: "WatchInput list \<Rightarrow> (WatchWorld, unit) prog" where
  "watch_run [] = returnW ()"
| "watch_run (i # is) = bindW (watch_once i) (\<lambda>_. watch_run is)"

text \<open>The production port: the durable kill switches at the given instants.\<close>

definition pg_port :: "timestamp \<Rightarrow> KillSwitchPort" where
  "pg_port now = \<lparr>kp_is_active = Some (\<lambda>scope db. Inr (kill_switch_active scope db)), kp_latch = Some (latch_kill_switch now)\<rparr>"

section \<open>Lemmas\<close>

lemma upper_socket: "socket_is_dead s \<Longrightarrow> \<not> socket_ready s"
  by (auto simp: socket_is_dead_def socket_ready_def split: option.splits)

lemma latchable_not_healthy: "latchable i d \<Longrightarrow> cycle_status i d \<noteq> W_HEALTHY"
  using upper_socket by (auto simp: latchable_def cycle_status_def)

text \<open>The symbol loop touches the capability table only.\<close>

definition only_capabilities :: "WatchWorld \<Rightarrow> WatchWorld \<Rightarrow> bool" where
  "only_capabilities w w' \<longleftrightarrow> ww_dog w' = ww_dog w \<and> (\<exists>cs. ww_db w' = (ww_db w)\<lparr>db_capabilities := cs\<rparr>)"

lemma capabilities_self: "\<exists>cs. db = db\<lparr>db_capabilities := cs\<rparr>" for db :: Db
  by (rule exI [of _ "db_capabilities db"]) simp

lemma only_capabilities_order: "reflp only_capabilities" "transp only_capabilities"
proof -
  show "reflp only_capabilities" by (rule reflpI) (simp add: only_capabilities_def capabilities_self)
  show "transp only_capabilities" by (rule transpI) (auto simp: only_capabilities_def)
qed

lemma keeps_dbW:
  assumes "\<And>db db' a. f db = Inr (db', a) \<Longrightarrow> \<exists>cs. db' = db\<lparr>db_capabilities := cs\<rparr>"
  shows "keepsW only_capabilities (dbW f)"
  unfolding keepsW_def
proof
  fix w
  show "only_capabilities w (snd (dbW f w))"
  proof (cases "f (ww_db w)")
    case (Inl e)
    then show ?thesis using reflpD [OF only_capabilities_order(1)] by (simp add: dbW_def transactW_def)
  next
    case (Inr x)
    then show ?thesis using assms [of "ww_db w" "fst x" "snd x"] by (cases x) (auto simp: dbW_def transactW_def only_capabilities_def)
  qed
qed

lemma ensure_capability_tables: "ensure_capability d s db = Inr (db', c) \<Longrightarrow> \<exists>cs. db' = db\<lparr>db_capabilities := cs\<rparr>"
  by (auto simp: ensure_capability_def cap_upsert_def Let_def run_simps capabilities_self split: option.splits)

lemma watch_symbols_tables: "keepsW only_capabilities (watch_symbols i d ss)"
proof (induction ss)
  case Nil
  show ?case by (simp add: keepsW_return only_capabilities_order)
next
  case (Cons s ss)
  have "keepsW only_capabilities (watch_symbol i d s)"
    unfolding watch_symbol_def Let_def
    by (intro keepsW_bind keeps_dbW only_capabilities_order)
      (auto simp: run_simps cap_update_stream_def Let_def split: if_splits
        intro!: keepsW_bind keepsW_return keeps_dbW only_capabilities_order dest: ensure_capability_tables)
  then show ?case
    by (auto intro!: keepsW_bind keepsW_return Cons.IH only_capabilities_order)
qed

text \<open>A cycle in two parts: the capability writes, then the failure counter.\<close>

lemma watch_once_cases:
  assumes "watch_once i w = (r, w')"
  obtains (raised) e where "r = Inl e" "only_capabilities w w'"
  | (returned) report w1 where "r = Inr report" "wr_status report = cycle_status i (ww_dog w)" "only_capabilities w w1"
      "w' = track_consecutive_failures i (cycle_status i (ww_dog w)) (unique (cycle_reasons i (ww_dog w)))
              (latchable i (ww_dog w)) w1"
proof -
  let ?d = "ww_dog w"
  obtain q w1 where loop: "watch_symbols i ?d (wd_symbols ?d) w = (q, w1)" by (cases "watch_symbols i ?d (wd_symbols ?d) w")
  have caps: "only_capabilities w w1" by (rule keepsW_D [OF watch_symbols_tables loop])
  show ?thesis
  proof (cases q)
    case (Inl e)
    then show ?thesis using assms loop caps raised by (auto simp: watch_once_def bindW_def Let_def)
  next
    case (Inr allow)
    then show ?thesis using assms loop caps returned by (auto simp: watch_once_def bindW_def Let_def)
  qed
qed

text \<open>The latchable cycles of the current outage, oldest first: those since the last healthy cycle.\<close>

definition outage :: "Watchdog \<Rightarrow> WatchInput list \<Rightarrow> WatchInput list" where
  "outage d seen = filter (\<lambda>i. latchable i d) (rev (takeWhile (\<lambda>i. cycle_status i d \<noteq> W_HEALTHY) (rev seen)))"

lemma outage_Nil [simp]: "outage d [] = []"
  by (simp add: outage_def)

lemma outage_snoc:
  "outage d (seen @ [i]) = (if cycle_status i d = W_HEALTHY then [] else outage d seen @ (if latchable i d then [i] else []))"
  by (auto simp: outage_def)

text \<open>The settings of the watchdog do not change; its counter and clock follow the outage.\<close>

definition tracks :: "Watchdog \<Rightarrow> WatchInput list \<Rightarrow> Watchdog \<Rightarrow> bool" where
  "tracks d seen d' \<longleftrightarrow>
     wd_symbols d' = wd_symbols d \<and> wd_environment d' = wd_environment d
     \<and> wd_stale_cycles_before_latch d' = wd_stale_cycles_before_latch d \<and> wd_min_outage_seconds d' = wd_min_outage_seconds d
     \<and> wd_consecutive_bad_cycles d' = int (length (outage d seen))
     \<and> wd_bad_since d' = (case outage d seen of [] \<Rightarrow> None | i # _ \<Rightarrow> Some (wi_now_bad i))"

lemma status_tracks:
  assumes "wd_symbols d' = wd_symbols d"
  shows "cycle_status i d' = cycle_status i d" "latchable i d' = latchable i d" "cycle_reasons i d' = cycle_reasons i d"
  using assms by (simp_all add: cycle_status_def latchable_def provider_failure_def cycle_reasons_def initial_reasons_def)

definition outage_due :: "Watchdog \<Rightarrow> WatchInput list \<Rightarrow> WatchInput \<Rightarrow> bool" where
  "outage_due d seen i \<longleftrightarrow>
     wd_stale_cycles_before_latch d \<le> int (length (outage d seen))
     \<and> (0 < wd_min_outage_seconds d \<longrightarrow>
          wd_min_outage_seconds d * 1000000 \<le> of_int (wi_now_elapsed i - wi_now_bad (hd (outage d seen))))"

text \<open>One tracked cycle with the durable switches: the counter follows, and the latch is set exactly
  when the outage is due in a latchable cycle.\<close>

lemma track_step:
  fixes reasons :: "string list"
  assumes dog: "tracks d seen (ww_dog w)" and port: "wi_kill_switch i = Some (pg_port now)"
  defines "w' \<equiv> track_consecutive_failures i (cycle_status i d) reasons (latchable i d) w"
  shows "tracks d (seen @ [i]) (ww_dog w')"
    and "ww_db w' = (if latchable i d \<and> outage_due d (seen @ [i]) i \<and> \<not> kill_switch_active PROTECTION_STREAM_SCOPE (ww_db w)
           then projr (latch_kill_switch now PROTECTION_STREAM_SCOPE (latch_reason reasons) (ww_db w)) else ww_db w)"
proof -
  have latch: "record_latch (pg_port now) r db = projr (latch_kill_switch now PROTECTION_STREAM_SCOPE r db)" for r db
    by (simp add: record_latch_def pg_port_def latch_kill_switch_def)
  have active: "is_latched (pg_port now) db = kill_switch_active PROTECTION_STREAM_SCOPE db" for db
    by (simp add: is_latched_def pg_port_def)
  have bad: "latchable i d \<Longrightarrow> tracks d (seen @ [i]) (bad_cycle i (ww_dog w))"
    using dog latchable_not_healthy [of i d] by (auto simp: tracks_def outage_snoc bad_cycle_def split: list.splits)
  have due: "outage_due d (seen @ [i]) i \<longleftrightarrow>
      \<not> wd_consecutive_bad_cycles (bad_cycle i (ww_dog w)) < wd_stale_cycles_before_latch (bad_cycle i (ww_dog w))
      \<and> outage_long_enough i (bad_cycle i (ww_dog w))" if "latchable i d"
    using bad [OF that] latchable_not_healthy [OF that] that
    by (auto simp: tracks_def outage_due_def outage_long_enough_def outage_snoc not_less split: list.splits)
  show "tracks d (seen @ [i]) (ww_dog w')"
    using dog bad by (auto simp: w'_def track_consecutive_failures_def Let_def port tracks_def outage_snoc)
  show "ww_db w' = (if latchable i d \<and> outage_due d (seen @ [i]) i \<and> \<not> kill_switch_active PROTECTION_STREAM_SCOPE (ww_db w)
           then projr (latch_kill_switch now PROTECTION_STREAM_SCOPE (latch_reason reasons) (ww_db w)) else ww_db w)"
    using latchable_not_healthy [of i d] due
    by (auto simp: w'_def track_consecutive_failures_def Let_def port latch active)
qed

lemma capabilities_only_switch:
  "only_capabilities w w' \<Longrightarrow> find_switch scope (ww_db w') = find_switch scope (ww_db w)"
  "only_capabilities w w' \<Longrightarrow> kill_switch_active scope (ww_db w') = kill_switch_active scope (ww_db w)"
  by (auto simp: only_capabilities_def find_switch_def kill_switch_active_def)

lemma latched_db:
  defines "latched now r db \<equiv> projr (latch_kill_switch now PROTECTION_STREAM_SCOPE r db)"
  shows "kill_switch_active PROTECTION_STREAM_SCOPE (latched now r db)"
    and "scope \<noteq> PROTECTION_STREAM_SCOPE \<Longrightarrow> find_switch scope (latched now r db) = find_switch scope db"
proof -
  have run: "latch_kill_switch now PROTECTION_STREAM_SCOPE r db = Inr (latched now r db)"
    by (simp add: latched_def latch_kill_switch_def)
  show "kill_switch_active PROTECTION_STREAM_SCOPE (latched now r db)" using pg_switch.latch_active [OF run] by simp
  show "scope \<noteq> PROTECTION_STREAM_SCOPE \<Longrightarrow> find_switch scope (latched now r db) = find_switch scope db"
    using find_switch_latch [OF run, of scope] by simp
qed

lemma watch_once_tracks:
  assumes "watch_once i w = (Inr report, w')" "tracks d seen (ww_dog w)" "wi_kill_switch i = Some (pg_port now)"
  shows "tracks d (seen @ [i]) (ww_dog w')"
    and "kill_switch_active PROTECTION_STREAM_SCOPE (ww_db w') \<longleftrightarrow>
      kill_switch_active PROTECTION_STREAM_SCOPE (ww_db w) \<or> latchable i d \<and> outage_due d (seen @ [i]) i"
    and "scope \<noteq> PROTECTION_STREAM_SCOPE \<Longrightarrow> find_switch scope (ww_db w') = find_switch scope (ww_db w)"
proof -
  from assms(1) obtain w1 where w1: "only_capabilities w w1"
    and w': "w' = track_consecutive_failures i (cycle_status i (ww_dog w)) (unique (cycle_reasons i (ww_dog w)))
              (latchable i (ww_dog w)) w1"
    by (cases rule: watch_once_cases) auto
  have dog: "tracks d seen (ww_dog w1)" "wd_symbols (ww_dog w) = wd_symbols d"
    using assms(2) w1 by (simp_all add: only_capabilities_def tracks_def)
  note step = track_step [OF dog(1) assms(3), of "unique (cycle_reasons i d)"]
  show "tracks d (seen @ [i]) (ww_dog w')" using step(1) by (simp add: w' status_tracks [OF dog(2)])
  show "kill_switch_active PROTECTION_STREAM_SCOPE (ww_db w') \<longleftrightarrow>
      kill_switch_active PROTECTION_STREAM_SCOPE (ww_db w) \<or> latchable i d \<and> outage_due d (seen @ [i]) i"
    using step(2) capabilities_only_switch(2) [OF w1] latched_db(1) by (auto simp: w' status_tracks [OF dog(2)])
  show "scope \<noteq> PROTECTION_STREAM_SCOPE \<Longrightarrow> find_switch scope (ww_db w') = find_switch scope (ww_db w)"
    using step(2) capabilities_only_switch(1) [OF w1] latched_db(2) by (auto simp: w' status_tracks [OF dog(2)])
qed

lemma watch_once_raised:
  assumes "watch_once i w = (Inl e, w')"
  shows "kill_switch_active scope (ww_db w') = kill_switch_active scope (ww_db w)"
    and "find_switch scope (ww_db w') = find_switch scope (ww_db w)"
  using assms by (cases rule: watch_once_cases; simp add: capabilities_only_switch)+

lemma watch_run_tracks:
  assumes "watch_run is w = (r, w')" "tracks d seen (ww_dog w)" "\<forall>i \<in> set is. \<exists>now. wi_kill_switch i = Some (pg_port now)"
  shows "(kill_switch_active PROTECTION_STREAM_SCOPE (ww_db w') \<longrightarrow> kill_switch_active PROTECTION_STREAM_SCOPE (ww_db w)
      \<or> (\<exists>pre i post. is = pre @ i # post \<and> latchable i d \<and> outage_due d (seen @ pre @ [i]) i))
    \<and> (r = Inr () \<longrightarrow> (\<forall>pre i post. is = pre @ i # post \<longrightarrow> latchable i d \<longrightarrow> outage_due d (seen @ pre @ [i]) i
         \<longrightarrow> kill_switch_active PROTECTION_STREAM_SCOPE (ww_db w')))
    \<and> (r = Inr () \<longrightarrow> kill_switch_active PROTECTION_STREAM_SCOPE (ww_db w) \<longrightarrow> kill_switch_active PROTECTION_STREAM_SCOPE (ww_db w'))
    \<and> (\<forall>scope. scope \<noteq> PROTECTION_STREAM_SCOPE \<longrightarrow> find_switch scope (ww_db w') = find_switch scope (ww_db w))"
  using assms
proof (induction "is" arbitrary: w seen)
  case Nil
  then show ?case by (simp add: returnW_def)
next
  case (Cons i "is")
  obtain now where port: "wi_kill_switch i = Some (pg_port now)" using Cons.prems(3) by auto
  from Cons.prems(1) have "bindW (watch_once i) (\<lambda>_. watch_run is) w = (r, w')" by simp
  then show ?case
  proof (cases rule: bindW_cases)
    case (raised e)
    then show ?thesis using watch_once_raised [OF raised(1)] by simp
  next
    case (returned report w1)
    note one = watch_once_tracks [OF returned(1) Cons.prems(2) port]
    have rest: "\<forall>i \<in> set is. \<exists>now. wi_kill_switch i = Some (pg_port now)" using Cons.prems(3) by simp
    note IH = Cons.IH [OF returned(2) one(1) rest]
    show ?thesis
    proof (intro conjI impI allI)
      assume "kill_switch_active PROTECTION_STREAM_SCOPE (ww_db w')"
      then consider "kill_switch_active PROTECTION_STREAM_SCOPE (ww_db w1)"
        | pre j post where "is = pre @ j # post" "latchable j d" "outage_due d ((seen @ [i]) @ pre @ [j]) j"
        using IH by blast
      then show "kill_switch_active PROTECTION_STREAM_SCOPE (ww_db w) \<or>
        (\<exists>pre j post. i # is = pre @ j # post \<and> latchable j d \<and> outage_due d (seen @ pre @ [j]) j)"
      proof cases
        case 1
        then show ?thesis using one(2) by (metis append_Nil)
      next
        case 2
        then show ?thesis by (metis append.assoc append_Cons append_Nil)
      qed
    next
      fix pre j post
      assume ok: "r = Inr ()" and split: "i # is = pre @ j # post" and due: "latchable j d" "outage_due d (seen @ pre @ [j]) j"
      show "kill_switch_active PROTECTION_STREAM_SCOPE (ww_db w')"
      proof (cases pre)
        case Nil
        then show ?thesis using split due one(2) IH ok by simp
      next
        case (Cons x xs)
        then have "is = xs @ j # post" "outage_due d ((seen @ [i]) @ xs @ [j]) j" using split due by simp_all
        then show ?thesis using IH ok due(1) by blast
      qed
    qed (use IH one(2,3) in auto)
  qed
qed

section \<open>Properties\<close>

text \<open>
  C25: the watchdog blocks new entries exactly on a persistent outage. From a started watchdog whose
  scope is not latched, after a run of cycles that returns, the protection-stream scope is latched if
  and only if some cycle was latchable (a dead socket, or an unreadable or malformed provider
  position) and came when the latchable cycles since the last healthy one had reached the configured
  number and, with a configured minimum, the outage had lasted that long. Every other scope, the venue
  scope of the bot-managed stop-loss path among them, is as before.
\<close>

theorem watchdog_latches_exactly_on_outage:
  assumes "make_watchdog environment symbols cycles min_outage = Inr d"
    and "watch_run is \<lparr>ww_db = db, ww_dog = d\<rparr> = (Inr (), w')"
    and "\<forall>i \<in> set is. \<exists>now. wi_kill_switch i = Some (pg_port now)"
    and "\<not> kill_switch_active PROTECTION_STREAM_SCOPE db"
  shows "(kill_switch_active PROTECTION_STREAM_SCOPE (ww_db w') \<longleftrightarrow>
      (\<exists>pre i post. is = pre @ i # post \<and> latchable i d \<and> outage_due d (pre @ [i]) i))
    \<and> (\<forall>scope. scope \<noteq> PROTECTION_STREAM_SCOPE \<longrightarrow> find_switch scope (ww_db w') = find_switch scope db)"
proof -
  have "tracks d [] d" using assms(1) by (auto simp: make_watchdog_def tracks_def Let_def split: if_splits)
  then have run: "tracks d [] (ww_dog \<lparr>ww_db = db, ww_dog = d\<rparr>)" by simp
  show ?thesis using watch_run_tracks [OF assms(2) run assms(3)] assms(4) by simp blast
qed

definition dead_input :: WatchInput where
  "dead_input = \<lparr>wi_socket_state = Some ''failed'', wi_check_freshness = (\<lambda>_. True), wi_read_position = (\<lambda>_. Inr (JList [])),
     wi_now_bad = 1000000, wi_now_elapsed = 3000000, wi_kill_switch = Some (pg_port 3000000)\<rparr>"

definition sample_dog :: Watchdog where
  "sample_dog = projr (make_watchdog ''live'' [''zrousdt''] 2 1)"

definition outage_run :: "(Exn, unit) raises \<times> WatchWorld" where
  "outage_run = watch_run [dead_input, dead_input] \<lparr>ww_db = empty_db, ww_dog = sample_dog\<rparr>"

lemma outage_run_returns: "outage_run = (Inr (), snd outage_run)"
proof -
  have "fst outage_run = Inr ()" by code_simp
  then show ?thesis by (metis prod.collapse)
qed

theorem watchdog_latches_exactly_on_outage_witness:
  "kill_switch_active PROTECTION_STREAM_SCOPE (ww_db (snd outage_run))
   \<and> (\<exists>pre i post. [dead_input, dead_input] = pre @ i # post \<and> latchable i sample_dog \<and> outage_due sample_dog (pre @ [i]) i)
   \<and> find_switch ''bitget'' (ww_db (snd outage_run)) = find_switch ''bitget'' empty_db"
proof -
  have "\<not> isl (make_watchdog ''live'' [''zrousdt''] 2 1)" by code_simp
  then have dog: "make_watchdog ''live'' [''zrousdt''] 2 1 = Inr sample_dog"
    unfolding sample_dog_def by (cases "make_watchdog ''live'' [''zrousdt''] 2 1") auto
  have run: "watch_run [dead_input, dead_input] \<lparr>ww_db = empty_db, ww_dog = sample_dog\<rparr> = (Inr (), snd outage_run)"
    using outage_run_returns by (simp add: outage_run_def)
  have ports: "\<forall>i \<in> set [dead_input, dead_input]. \<exists>now. wi_kill_switch i = Some (pg_port now)" by (auto simp: dead_input_def)
  have idle: "\<not> kill_switch_active PROTECTION_STREAM_SCOPE empty_db" by code_simp
  have latched: "kill_switch_active PROTECTION_STREAM_SCOPE (ww_db (snd outage_run))" by code_simp
  have other: "''bitget'' \<noteq> PROTECTION_STREAM_SCOPE" by (simp add: PROTECTION_STREAM_SCOPE_def)
  show ?thesis using watchdog_latches_exactly_on_outage [OF dog run ports idle] latched other by blast
qed

end
