(* ===== verification/Latch_Healer.thy ===== *)
theory Latch_Healer
  imports Watchdog
begin

text \<open>
  \<open>execution/latch_healer.py\<close> and \<open>execution/bitget_recovery.py\<close>: the bounded self-heal of the
  protection-stream latch and the release of a switch after a clean reconciliation. The monotonic
  clock is a rational number of seconds; \<open>float("-inf")\<close>, the time of the last release of a new
  healer, is \<open>None\<close>.
\<close>

section \<open>Policy\<close>

record HealerPolicy =
  hp_enabled :: bool
  hp_socket_cycles :: int
  hp_provider_cycles :: int
  hp_cooldown_seconds :: rat
  hp_max_per_hour :: int
  hp_scope :: string

type_synonym environ = "(string \<times> string) list"

definition environ_get :: "environ \<Rightarrow> string \<Rightarrow> string \<Rightarrow> string" where
  "environ_get env name dflt = (case map_of env name of None \<Rightarrow> dflt | Some v \<Rightarrow> v)"

definition environ_flag :: "environ \<Rightarrow> string \<Rightarrow> bool \<Rightarrow> (Exn, bool) raises" where
  "environ_flag env name dflt =
     (let raw = str_lower (str_strip (environ_get env name (if dflt then ''1'' else ''0''))) in
      if raw \<notin> {''0'', ''1''} then Inl (ValueError (name @ '' must be 0 or 1'')) else Inr (raw = ''1''))"

text \<open>\<open>int(text)\<close> on decimal digits with an optional sign.\<close>

definition py_int :: "string \<Rightarrow> int option" where
  "py_int s =
     (let (sg, ds) = split_sign (str_strip s) in if ds \<noteq> [] \<and> list_all is_digit ds then Some (sg * digits_val ds) else None)"

definition environ_positive_int :: "environ \<Rightarrow> string \<Rightarrow> int \<Rightarrow> (Exn, int) raises" where
  "environ_positive_int env name dflt =
     (case py_int (str_strip (environ_get env name (show_int dflt))) of
        None \<Rightarrow> Inl (ValueError (name @ '' must be an integer''))
      | Some v \<Rightarrow> if v < 1 then Inl (ValueError (name @ '' must be at least 1'')) else Inr v)"

text \<open>The cooldown text is read as a finite number.\<close>

definition healer_policy_from_environ :: "environ \<Rightarrow> (Exn, HealerPolicy) raises" where
  "healer_policy_from_environ env =
     bindE (environ_flag env ''BITGET_LATCH_AUTOHEAL'' True) (\<lambda>enabled.
     bindE (environ_positive_int env ''BITGET_LATCH_HEAL_CYCLES'' 6) (\<lambda>socket.
     bindE (environ_positive_int env ''BITGET_LATCH_HEAL_PROVIDER_CYCLES'' 12) (\<lambda>provider.
     bindE (case parse_decimal (environ_get env ''BITGET_LATCH_HEAL_COOLDOWN_SECONDS'' ''600'') of
              None \<Rightarrow> Inl (ValueError ''could not convert string to float'') | Some c \<Rightarrow> Inr c) (\<lambda>cooldown.
     bindE (environ_positive_int env ''BITGET_LATCH_HEAL_MAX_PER_HOUR'' 4) (\<lambda>per_hour.
       Inr \<lparr>hp_enabled = enabled, hp_socket_cycles = socket, hp_provider_cycles = provider,
            hp_cooldown_seconds = cooldown, hp_max_per_hour = per_hour, hp_scope = PROTECTION_STREAM_SCOPE\<rparr>)))))"

section \<open>The healer\<close>

record Healer =
  lh_healthy :: int
  lh_last_release :: "rat option"
  lh_recent :: "rat list"

definition new_healer :: Healer where
  "new_healer = \<lparr>lh_healthy = 0, lh_last_release = None, lh_recent = []\<rparr>"

record HealWorld =
  hw_db :: Db
  hw_healer :: Healer
  hw_alerts :: "string list"

text \<open>One observation: the status text of the watchdog report, the clock, the audit stamp, the latch
  reader, the release call and whether an alert callable is set.\<close>

record HealInput =
  ho_status :: "string option"
  ho_clock :: rat
  ho_stamp :: string
  ho_latch_state :: "string \<Rightarrow> Db \<Rightarrow> (Exn, bool \<times> string option) raises"
  ho_release :: "string \<Rightarrow> string \<Rightarrow> Db \<Rightarrow> (Exn, Db) raises"
  ho_alert :: bool

datatype HealAction =
    H_disabled | H_disarmed | H_idle | H_armed int int | H_cooldown | H_breaker | H_healed int | H_error

definition required_cycles :: "HealerPolicy \<Rightarrow> string option \<Rightarrow> int" where
  "required_cycles p reason =
     (let t = (case reason of None \<Rightarrow> [] | Some r \<Rightarrow> r) in
      if list_ex (\<lambda>item. starts_with t item \<or> contains_str t item)
           [''provider-position-read-failed'', ''provider-position-invalid'']
      then hp_provider_cycles p else hp_socket_cycles p)"

definition breaker_prune :: "rat \<Rightarrow> rat list \<Rightarrow> rat list" where
  "breaker_prune now recent = dropWhile (\<lambda>t. 3600 < now - t) recent"

definition status_is_healthy :: "HealInput \<Rightarrow> bool" where
  "status_is_healthy x \<longleftrightarrow> (case ho_status x of None \<Rightarrow> False | Some s \<Rightarrow> str_upper s = ''HEALTHY'')"

definition in_cooldown :: "HealerPolicy \<Rightarrow> rat \<Rightarrow> Healer \<Rightarrow> bool" where
  "in_cooldown p now h = (case lh_last_release h of None \<Rightarrow> False | Some t \<Rightarrow> now - t < hp_cooldown_seconds p)"

definition heal_reference :: "HealInput \<Rightarrow> int \<Rightarrow> string" where
  "heal_reference x n = ''auto:watchdog-healthy:'' @ ho_stamp x @ '':'' @ show_int n @ ''cycles''"

definition observe :: "HealerPolicy \<Rightarrow> HealInput \<Rightarrow> HealWorld \<Rightarrow> HealAction \<times> HealWorld" where
  "observe p x w =
     (let h = hw_healer w in
      if \<not> hp_enabled p then (H_disabled, w)
      else if \<not> status_is_healthy x then (H_disarmed, w\<lparr>hw_healer := h\<lparr>lh_healthy := 0\<rparr>\<rparr>)
      else let h1 = h\<lparr>lh_healthy := lh_healthy h + 1\<rparr>; w1 = w\<lparr>hw_healer := h1\<rparr> in
      case ho_latch_state x (hp_scope p) (hw_db w) of
        Inl _ \<Rightarrow> (H_error, w1)
      | Inr (active, reason) \<Rightarrow>
          if \<not> active then (H_idle, w1)
          else let required = required_cycles p reason in
          if lh_healthy h1 < required then (H_armed (lh_healthy h1) required, w1)
          else if in_cooldown p (ho_clock x) h1 then (H_cooldown, w1)
          else let recent = breaker_prune (ho_clock x) (lh_recent h1);
                   h2 = h1\<lparr>lh_recent := recent\<rparr>; w2 = w1\<lparr>hw_healer := h2\<rparr> in
          if hp_max_per_hour p \<le> int (length recent)
          then (H_breaker, if ho_alert x then w2\<lparr>hw_alerts := hw_alerts w2 @ [''latch-flapping:'' @ hp_scope p]\<rparr> else w2)
          else case ho_release x (hp_scope p) (heal_reference x (lh_healthy h2)) (hw_db w2) of
                 Inl _ \<Rightarrow> (H_error, w2)
               | Inr db \<Rightarrow>
                   (H_healed (lh_healthy h2),
                    w2\<lparr>hw_db := db,
                       hw_healer := \<lparr>lh_healthy = 0, lh_last_release = Some (ho_clock x),
                                     lh_recent = recent @ [ho_clock x]\<rparr>\<rparr>))"

fun heal_run :: "HealerPolicy \<Rightarrow> HealInput list \<Rightarrow> HealWorld \<Rightarrow> HealAction list \<times> HealWorld" where
  "heal_run p [] w = ([], w)"
| "heal_run p (x # xs) w = (let (a, w1) = observe p x w; (as, w2) = heal_run p xs w1 in (a # as, w2))"

text \<open>\<open>latch_state_reader\<close> on the durable switches, and the release the service wires in.\<close>

definition latch_state_reader :: "string \<Rightarrow> Db \<Rightarrow> (Exn, bool \<times> string option) raises" where
  "latch_state_reader scope db =
     (let active = kill_switch_active scope db in
      Inr (active, if active then kill_switch_reason scope db else None))"

section \<open>Release after a clean monitor\<close>

record RecoveryReport =
  rr_released :: bool
  rr_reason :: string

definition release_after_clean_monitor ::
  "string list \<Rightarrow> string \<Rightarrow> timestamp \<Rightarrow> string \<Rightarrow> string \<Rightarrow> Db \<Rightarrow> RecoveryReport transaction" where
  "release_after_clean_monitor reasons status now scope approval db =
     (if str_strip approval = [] then Inl (ValueError ''non-empty approval reference is required'')
      else if reasons \<noteq> [] \<or> status \<notin> {''ok'', ''kill-switch-latched''}
      then Inr (db, \<lparr>rr_released = False, rr_reason = ''monitor-not-clean''\<rparr>)
      else bindE (release_kill_switch now scope (str_strip approval) db) (\<lambda>db1.
        Inr (db1, \<lparr>rr_released = True, rr_reason = ''released-after-clean-reconciliation''\<rparr>)))"

section \<open>Lemmas\<close>

text \<open>The times of the releases of a run.\<close>

definition releases :: "HealInput list \<Rightarrow> HealAction list \<Rightarrow> rat list" where
  "releases xs as = map (ho_clock \<circ> fst) (filter (\<lambda>(x, a). \<exists>n. a = H_healed n) (zip xs as))"

lemma heal_run_append:
  "heal_run p (xs @ ys) w =
     (let (as, w1) = heal_run p xs w; (bs, w2) = heal_run p ys w1 in (as @ bs, w2))"
  by (induction xs arbitrary: w) (auto simp: Let_def split_beta)

lemma length_heal_run [simp]: "length (fst (heal_run p xs w)) = length xs"
  by (induction xs arbitrary: w) (auto simp: Let_def split_beta)

lemma releases_snoc:
  assumes "length as = length xs"
  shows "releases (xs @ [x]) (as @ [a]) = releases xs as @ (case a of H_healed _ \<Rightarrow> [ho_clock x] | _ \<Rightarrow> [])"
  using assms by (cases a) (simp_all add: releases_def)

text \<open>What the healer remembers of a run: the healthy streak, the last release, and every release of
  the last hour.\<close>

definition remembers :: "HealInput list \<Rightarrow> rat list \<Rightarrow> Healer \<Rightarrow> bool" where
  "remembers seen rels h \<longleftrightarrow>
     0 \<le> lh_healthy h \<and> lh_healthy h \<le> int (length seen)
     \<and> (\<forall>x \<in> set (drop (length seen - nat (lh_healthy h)) seen). status_is_healthy x)
     \<and> set rels \<subseteq> ho_clock ` set seen \<and> sorted rels
     \<and> lh_last_release h = (if rels = [] then None else Some (last rels))
     \<and> (\<exists>old. rels = old @ lh_recent h \<and> (\<forall>r \<in> set old. \<exists>x \<in> set seen. 3600 < ho_clock x - r))"

lemma streak_snoc:
  assumes "\<forall>x \<in> set (drop (length seen - nat n) seen). status_is_healthy x" "0 \<le> n" "n \<le> int (length seen)" "status_is_healthy x"
  shows "\<forall>y \<in> set (drop (length (seen @ [x]) - nat (n + 1)) (seen @ [x])). status_is_healthy y"
proof -
  have "length (seen @ [x]) - nat (n + 1) = length seen - nat n" using assms(2) by (simp add: nat_add_distrib)
  then show ?thesis using assms(1,4) by simp
qed

lemma prune_old:
  assumes "r \<in> set recent" "r \<notin> set (breaker_prune now recent)"
  shows "3600 < now - r"
  using assms unfolding breaker_prune_def by (induction recent) (auto split: if_splits)

lemma prune_suffix: "\<exists>dropped. recent = dropped @ breaker_prune now recent \<and> (\<forall>r \<in> set dropped. 3600 < now - r)"
  unfolding breaker_prune_def
  by (rule exI [of _ "takeWhile (\<lambda>t. 3600 < now - t) recent"]) (auto dest: set_takeWhileD)

lemma remembers_seen:
  assumes "remembers seen rels h" "status_is_healthy x"
  shows "remembers (seen @ [x]) rels (h\<lparr>lh_healthy := lh_healthy h + 1\<rparr>)"
  using assms streak_snoc [of seen "lh_healthy h" x] unfolding remembers_def by (auto 0 3)

lemma remembers_pruned:
  assumes "remembers seen rels h" "x \<in> set seen"
  shows "remembers seen rels (h\<lparr>lh_recent := breaker_prune (ho_clock x) (lh_recent h)\<rparr>)"
proof -
  obtain old where old: "rels = old @ lh_recent h" "\<forall>r \<in> set old. \<exists>x \<in> set seen. 3600 < ho_clock x - r"
    using assms(1) by (auto simp: remembers_def)
  obtain dropped where d: "lh_recent h = dropped @ breaker_prune (ho_clock x) (lh_recent h)" "\<forall>r \<in> set dropped. 3600 < ho_clock x - r"
    using prune_suffix by blast
  have "rels = (old @ dropped) @ breaker_prune (ho_clock x) (lh_recent h)" using old(1) d(1) by simp
  moreover have "\<forall>r \<in> set (old @ dropped). \<exists>x \<in> set seen. 3600 < ho_clock x - r" using old(2) d(2) assms(2) by auto
  ultimately have "\<exists>old. rels = old @ breaker_prune (ho_clock x) (lh_recent h) \<and> (\<forall>r \<in> set old. \<exists>x \<in> set seen. 3600 < ho_clock x - r)"
    by blast
  then show ?thesis using assms(1) unfolding remembers_def by simp
qed

lemma observe_cases:
  assumes "observe p x w = (a, w')" "hp_enabled p"
  obtains (unhealthy) "\<not> status_is_healthy x" "a = H_disarmed" "hw_healer w' = (hw_healer w)\<lparr>lh_healthy := 0\<rparr>"
  | (waiting) "status_is_healthy x" "\<forall>n. a \<noteq> H_healed n"
      "hw_healer w' = (hw_healer w)\<lparr>lh_healthy := lh_healthy (hw_healer w) + 1\<rparr>"
  | (pruned) "status_is_healthy x" "\<forall>n. a \<noteq> H_healed n"
      "hw_healer w' = (hw_healer w)\<lparr>lh_healthy := lh_healthy (hw_healer w) + 1,
         lh_recent := breaker_prune (ho_clock x) (lh_recent (hw_healer w))\<rparr>"
  | (healed) reason where "status_is_healthy x" "a = H_healed (lh_healthy (hw_healer w) + 1)"
      "required_cycles p reason \<le> lh_healthy (hw_healer w) + 1" "\<not> in_cooldown p (ho_clock x) (hw_healer w)"
      "int (length (breaker_prune (ho_clock x) (lh_recent (hw_healer w)))) < hp_max_per_hour p"
      "hw_healer w' = \<lparr>lh_healthy = 0, lh_last_release = Some (ho_clock x),
         lh_recent = breaker_prune (ho_clock x) (lh_recent (hw_healer w)) @ [ho_clock x]\<rparr>"
  using assms unfolding observe_def
  by (auto simp: Let_def in_cooldown_def not_less not_le split: if_splits sum.splits prod.splits)

text \<open>One observation: what it remembers, and what a release implies.\<close>

lemma observe_remembers:
  assumes mem: "remembers seen rels (hw_healer w)" and clock: "\<forall>y \<in> set seen. ho_clock y \<le> ho_clock x"
    and run: "observe p x w = (a, w')" and on: "hp_enabled p"
  shows "remembers (seen @ [x]) (rels @ (case a of H_healed _ \<Rightarrow> [ho_clock x] | _ \<Rightarrow> [])) (hw_healer w')"
  using run on
proof (cases rule: observe_cases)
  case unhealthy
  then show ?thesis using mem by (auto simp: remembers_def)
next
  case waiting
  then show ?thesis using remembers_seen [OF mem waiting(1)] by (cases a) auto
next
  case pruned
  then show ?thesis using remembers_pruned [OF remembers_seen [OF mem pruned(1)], of x] by (cases a) auto
next
  case (healed reason)
  have "remembers (seen @ [x]) rels ((hw_healer w)\<lparr>lh_healthy := lh_healthy (hw_healer w) + 1,
      lh_recent := breaker_prune (ho_clock x) (lh_recent (hw_healer w))\<rparr>)"
    using remembers_pruned [OF remembers_seen [OF mem healed(1)], of x] by simp
  moreover have "\<forall>r \<in> set rels. r \<le> ho_clock x" using mem clock by (auto simp: remembers_def)
  ultimately show ?thesis using healed by (auto simp: remembers_def sorted_append)
qed

text \<open>Every release the pruned list has forgotten is more than an hour old.\<close>

lemma hourly_count:
  assumes "remembers seen rels h" "\<forall>y \<in> set seen. ho_clock y \<le> now"
  shows "length (filter (\<lambda>r. now - r \<le> 3600) rels) \<le> length (breaker_prune now (lh_recent h))"
proof -
  obtain old where old: "rels = old @ lh_recent h" "\<forall>r \<in> set old. \<exists>x \<in> set seen. 3600 < ho_clock x - r"
    using assms(1) by (auto simp: remembers_def)
  obtain dropped where d: "lh_recent h = dropped @ breaker_prune now (lh_recent h)" "\<forall>r \<in> set dropped. 3600 < now - r"
    using prune_suffix by blast
  have "3600 < now - r" if "r \<in> set (old @ dropped)" for r
    using that old(2) d(2) assms(2) by fastforce
  then have "filter (\<lambda>r. now - r \<le> 3600) (old @ dropped) = []" by (auto simp: filter_empty_conv not_le)
  moreover have "rels = (old @ dropped) @ breaker_prune now (lh_recent h)" using old(1) d(1) by simp
  ultimately have "filter (\<lambda>r. now - r \<le> 3600) rels = filter (\<lambda>r. now - r \<le> 3600) (breaker_prune now (lh_recent h))"
    by (metis append_Nil filter_append)
  then show ?thesis by (metis length_filter_le)
qed

lemma sorted_le_last: "sorted rs \<Longrightarrow> r \<in> set rs \<Longrightarrow> r \<le> last rs"
  by (induction rs) auto

definition bounded_release :: "HealerPolicy \<Rightarrow> HealInput list \<Rightarrow> rat list \<Rightarrow> HealInput \<Rightarrow> int \<Rightarrow> bool" where
  "bounded_release p seen rels x n \<longleftrightarrow>
     (\<forall>r \<in> set rels. hp_cooldown_seconds p \<le> ho_clock x - r)
     \<and> int (length (filter (\<lambda>r. ho_clock x - r \<le> 3600) (rels @ [ho_clock x]))) \<le> hp_max_per_hour p
     \<and> (hp_socket_cycles p \<le> n \<or> hp_provider_cycles p \<le> n) \<and> n \<le> int (length (seen @ [x]))
     \<and> (\<forall>y \<in> set (drop (length (seen @ [x]) - nat n) (seen @ [x])). status_is_healthy y)"

lemma observe_bounded:
  assumes mem: "remembers seen rels (hw_healer w)" and clock: "\<forall>y \<in> set seen. ho_clock y \<le> ho_clock x"
    and run: "observe p x w = (H_healed n, w')" and on: "hp_enabled p"
  shows "bounded_release p seen rels x n"
  using run on
proof (cases rule: observe_cases)
  case (healed reason)
  have "hp_cooldown_seconds p \<le> ho_clock x - r" if "r \<in> set rels" for r
  proof -
    from that have ne: "rels \<noteq> []" by auto
    have "r \<le> last rels" using that mem by (simp add: remembers_def sorted_le_last)
    moreover have "hp_cooldown_seconds p \<le> ho_clock x - last rels"
      using healed(4) mem ne by (simp add: in_cooldown_def remembers_def not_less)
    ultimately show ?thesis by linarith
  qed
  moreover have "int (length (filter (\<lambda>r. ho_clock x - r \<le> 3600) (rels @ [ho_clock x]))) \<le> hp_max_per_hour p"
    using hourly_count [OF mem clock] healed(5) by simp
  moreover have "hp_socket_cycles p \<le> n \<or> hp_provider_cycles p \<le> n"
    using healed(2,3) by (auto simp: required_cycles_def Let_def split: if_splits)
  moreover have "n \<le> int (length (seen @ [x]))" "\<forall>y \<in> set (drop (length (seen @ [x]) - nat n) (seen @ [x])). status_is_healthy y"
    using remembers_seen [OF mem healed(1)] healed(2) by (simp_all add: remembers_def)
  ultimately show ?thesis by (simp add: bounded_release_def)
qed auto

lemma heal_run_remembers:
  assumes "hp_enabled p" "hw_healer w = new_healer" "sorted (map ho_clock xs)"
  shows "remembers xs (releases xs (fst (heal_run p xs w))) (hw_healer (snd (heal_run p xs w)))"
  using assms(3)
proof (induction xs rule: rev_induct)
  case Nil
  then show ?case using assms(2) by (simp add: remembers_def releases_def new_healer_def)
next
  case (snoc x xs)
  obtain as w1 where pre: "heal_run p xs w = (as, w1)" by (cases "heal_run p xs w")
  obtain a w2 where one: "observe p x w1 = (a, w2)" by (cases "observe p x w1")
  have len: "length as = length xs" using length_heal_run [of p xs w] pre by simp
  have clock: "\<forall>y \<in> set xs. ho_clock y \<le> ho_clock x" using snoc.prems by (auto simp: sorted_append)
  have mem: "remembers xs (releases xs as) (hw_healer w1)" using snoc pre by (simp add: sorted_append)
  show ?case using observe_remembers [OF mem clock one assms(1)] pre one by (simp add: heal_run_append releases_snoc len)
qed

section \<open>Properties\<close>


definition heal_policy :: HealerPolicy where
  "heal_policy = \<lparr>hp_enabled = True, hp_socket_cycles = 2, hp_provider_cycles = 3, hp_cooldown_seconds = 600,
     hp_max_per_hour = 4, hp_scope = PROTECTION_STREAM_SCOPE\<rparr>"

definition heal_input :: "rat \<Rightarrow> HealInput" where
  "heal_input t = \<lparr>ho_status = Some ''healthy'', ho_clock = t, ho_stamp = ''20260101T000000Z'', ho_latch_state = latch_state_reader,
     ho_release = release_kill_switch 5, ho_alert = True\<rparr>"

definition latched_world :: HealWorld where
  "latched_world = \<lparr>hw_db = projr (latch_kill_switch 1 PROTECTION_STREAM_SCOPE ''socket-not-connected'' empty_db),
     hw_healer = new_healer, hw_alerts = []\<rparr>"


end
