(* ===== verification/Audit_Evidence.thy ===== *)
theory Audit_Evidence
  imports Raw_Json
begin

text \<open>
  The sanitiser of \<open>execution/bitget_dispatch_repository.py\<close> that every diagnostic passes before it
  is persisted or notified: an allow-list of keys, short tokens only, and a budget of nodes. The
  budget \<open>remaining\<close> is threaded through the traversal as the nested function's \<open>nonlocal\<close> is.
\<close>

definition PUBLIC_AUDIT_KEYS :: "string list" where
  "PUBLIC_AUDIT_KEYS =
    [''stage'', ''code'', ''requested_symbol'', ''row_count'', ''invalid_rows'', ''invalid_row_indexes'', ''index'',
     ''row_index'', ''field'', ''field_types'', ''type'', ''row_type'', ''payload_type'', ''payload_sha256'',
     ''response_hash'', ''public_response_hash'', ''offending_symbols'', ''public_symbols'', ''symbols'', ''symbol'',
     ''symbol_type'', ''selected_metadata'', ''target_metadata'', ''target_field_types'', ''target_metadata_types'',
     ''selected_symbol'', ''symbolStatus'', ''minTradeNum'', ''minTradeUSDT'', ''volumePlace'', ''pricePlace'',
     ''priceEndStep'', ''sizeMultiplier'', ''maxLever'', ''minLever'', ''productType'', ''status'', ''count'',
     ''truncated'', ''invalid_count'', ''duplicate_count'', ''match_count'', ''hash_encoding'',
     ''invalid_row_count'', ''matching_row_count'', ''matching_row_indexes'', ''unicode_symbol_count'',
     ''unicode_symbols'', ''maxOrderQty'', ''maxMarketOrderQty'', ''contractValue'', ''contractSize'']"

definition is_alnum :: "char \<Rightarrow> bool" where
  "is_alnum c \<longleftrightarrow> (let n = (of_char c :: nat) in 48 \<le> n \<and> n \<le> 57 \<or> 65 \<le> n \<and> n \<le> 90 \<or> 97 \<le> n \<and> n \<le> 122)"

definition safe_token :: "string \<Rightarrow> bool" where
  "safe_token s \<longleftrightarrow> length s \<le> 128 \<and> list_all (\<lambda>c. is_alnum c \<or> c \<in> {CHR ''_'', CHR ''-'', CHR ''.'', CHR '':''}) s"

text \<open>The three mutually recursive parts of \<open>clean\<close>: a value, the items of a list (of which the first
  twelve are visited), and the entries of a dictionary with the number already kept.\<close>

fun clean :: "JSON \<Rightarrow> nat \<Rightarrow> nat \<Rightarrow> JSON \<times> nat"
and clean_items :: "JSON list \<Rightarrow> nat \<Rightarrow> nat \<Rightarrow> nat \<Rightarrow> JSON list \<times> nat"
and clean_entries :: "(string \<times> JSON) list \<Rightarrow> nat \<Rightarrow> nat \<Rightarrow> nat \<Rightarrow> payload \<times> nat" where
  "clean item depth remaining =
     (if 5 < depth \<or> remaining = 0 then (JNull, remaining)
      else let left = remaining - 1 in
      case item of
        JNull \<Rightarrow> (JNull, left)
      | JBool b \<Rightarrow> (JBool b, left)
      | JInt n \<Rightarrow> (JInt n, left)
      | JStr s \<Rightarrow> (JStr (if safe_token s then s else ''[redacted]''), left)
      | JObj kvs \<Rightarrow> (case clean_entries kvs (depth + 1) left 0 of (r, l) \<Rightarrow> (JObj r, l))
      | JList xs \<Rightarrow> (case clean_items xs (depth + 1) left 12 of (r, l) \<Rightarrow> (JList r, l))
      | _ \<Rightarrow> (JNull, left))"
| "clean_items [] depth remaining n = ([], remaining)"
| "clean_items (x # xs) depth remaining n =
     (if n = 0 then ([], remaining)
      else if remaining = 0 then clean_items xs depth remaining (n - 1)
      else case clean x depth remaining of (y, l) \<Rightarrow>
           (case clean_items xs depth l (n - 1) of (ys, l') \<Rightarrow> (y # ys, l')))"
| "clean_entries [] depth remaining kept = ([], remaining)"
| "clean_entries ((k, v) # kvs) depth remaining kept =
     (if remaining = 0 \<or> 24 \<le> kept then ([], remaining)
      else if k \<in> set PUBLIC_AUDIT_KEYS
      then (case clean v depth remaining of (y, l) \<Rightarrow>
            (case clean_entries kvs depth l (kept + 1) of (r, l') \<Rightarrow> ((k, y) # r, l')))
      else clean_entries kvs depth remaining kept)"

definition sanitize_audit_evidence :: "JSON \<Rightarrow> payload" where
  "sanitize_audit_evidence value = (case fst (clean value 0 160) of JObj r \<Rightarrow> r | _ \<Rightarrow> [])"

definition safe_transition_reason :: "string option \<Rightarrow> string option" where
  "safe_transition_reason reason =
     (case reason of
        None \<Rightarrow> None
      | Some r \<Rightarrow>
          if 0 < length r \<and> length r \<le> 160
             \<and> list_all (\<lambda>c. is_alnum c \<or> c \<in> {CHR ''-'', CHR ''_'', CHR '':'', CHR ''.''}) r
          then Some r else Some ''redacted-transition-reason'')"

section \<open>What may be persisted\<close>

text \<open>Public keys only, safe tokens only, no floats and no decimals.\<close>

fun public_json :: "JSON \<Rightarrow> bool" where
  "public_json (JStr s) \<longleftrightarrow> safe_token s \<or> s = ''[redacted]''"
| "public_json (JFloat s) \<longleftrightarrow> False"
| "public_json (JDec d) \<longleftrightarrow> False"
| "public_json (JList xs) \<longleftrightarrow> (\<forall>x \<in> set xs. public_json x)"
| "public_json (JObj kvs) \<longleftrightarrow> (\<forall>(k, v) \<in> set kvs. k \<in> set PUBLIC_AUDIT_KEYS \<and> public_json v)"
| "public_json _ \<longleftrightarrow> True"

text \<open>The values of a result, the \<open>None\<close>s that stand for what was cut apart.\<close>

fun json_nodes :: "JSON \<Rightarrow> nat" where
  "json_nodes (JList xs) = Suc (sum_list (map json_nodes xs))"
| "json_nodes (JObj kvs) = Suc (sum_list (map (\<lambda>(k, v). json_nodes v) kvs))"
| "json_nodes JNull = 0"
| "json_nodes _ = 1"

declare clean.simps [simp del]

lemmas clean_unfold = clean.simps

lemma clean_stop [simp]: "5 < depth \<or> remaining = 0 \<Longrightarrow> clean item depth remaining = (JNull, remaining)"
  by (simp add: clean_unfold)

lemma clean_go [simp]:
  assumes "depth \<le> 5" "0 < remaining"
  shows "clean JNull depth remaining = (JNull, remaining - 1)" "clean (JBool b) depth remaining = (JBool b, remaining - 1)"
    "clean (JInt n) depth remaining = (JInt n, remaining - 1)" "clean (JFloat s) depth remaining = (JNull, remaining - 1)"
    "clean (JDec d) depth remaining = (JNull, remaining - 1)"
    "clean (JStr s) depth remaining = (JStr (if safe_token s then s else ''[redacted]''), remaining - 1)"
    "clean (JObj kvs) depth remaining =
       (JObj (fst (clean_entries kvs (depth + 1) (remaining - 1) 0)), snd (clean_entries kvs (depth + 1) (remaining - 1) 0))"
    "clean (JList xs) depth remaining =
       (JList (fst (clean_items xs (depth + 1) (remaining - 1) 12)), snd (clean_items xs (depth + 1) (remaining - 1) 12))"
  using assms by (simp_all add: clean_unfold Let_def split_beta)

text \<open>A cleaned value is public, fits the budget it used, and is left alone by a second cleaning.\<close>

definition clean_ok :: "JSON \<times> nat \<Rightarrow> nat \<Rightarrow> JSON \<times> nat \<Rightarrow> bool" where
  "clean_ok again remaining r \<longleftrightarrow> public_json (fst r) \<and> json_nodes (fst r) + snd r \<le> remaining \<and> again = r"

definition items_ok :: "JSON list \<times> nat \<Rightarrow> nat \<Rightarrow> JSON list \<times> nat \<Rightarrow> bool" where
  "items_ok again remaining r \<longleftrightarrow> (\<forall>x \<in> set (fst r). public_json x)
     \<and> sum_list (map json_nodes (fst r)) + snd r \<le> remaining \<and> again = r"

definition entries_ok :: "payload \<times> nat \<Rightarrow> nat \<Rightarrow> payload \<times> nat \<Rightarrow> bool" where
  "entries_ok again remaining r \<longleftrightarrow> (\<forall>(k, v) \<in> set (fst r). k \<in> set PUBLIC_AUDIT_KEYS \<and> public_json v)
     \<and> sum_list (map (\<lambda>(k, v). json_nodes v) (fst r)) + snd r \<le> remaining \<and> again = r"

lemma redacted_token: "\<not> safe_token ''[redacted]''"
  by (simp add: safe_token_def is_alnum_def)

lemma clean_items_spent [simp]: "clean_items xs depth 0 n = ([], 0)"
  by (induction xs arbitrary: n) auto

lemma clean_sound:
  shows "clean_ok (clean (fst (clean v depth remaining)) depth remaining) remaining (clean v depth remaining)"
    and "items_ok (clean_items (fst (clean_items xs depth remaining n)) depth remaining n) remaining (clean_items xs depth remaining n)"
    and "entries_ok (clean_entries (fst (clean_entries kvs depth remaining kept)) depth remaining kept) remaining
           (clean_entries kvs depth remaining kept)"
proof (induction v depth remaining and xs depth remaining n and kvs depth remaining kept rule: clean_clean_items_clean_entries.induct)
  case (1 v depth remaining)
  show ?case
  proof (cases "5 < depth \<or> remaining = 0")
    case True
    then show ?thesis by (simp add: clean_ok_def)
  next
    case False
    then have go: "depth \<le> 5" "0 < remaining" by auto
    show ?thesis
    proof (cases v)
      case (JList xs)
      then show ?thesis using 1(1) [OF False refl JList] go by (auto simp: clean_ok_def items_ok_def)
    next
      case (JObj kvs)
      then show ?thesis using 1(2) [OF False refl JObj] go by (auto simp: clean_ok_def entries_ok_def)
    qed (use go redacted_token in \<open>simp_all add: clean_ok_def\<close>)
  qed
next
  case (3 x xs depth remaining n)
  then show ?case by (auto simp: items_ok_def clean_ok_def split: prod.splits)
next
  case (5 k v kvs depth remaining kept)
  then show ?case by (auto simp: entries_ok_def clean_ok_def split: prod.splits)
qed (simp_all add: items_ok_def entries_ok_def)

section \<open>Properties\<close>

text \<open>
  Audit evidence is public, bounded and stable. What the sanitiser returns holds allow-listed
  keys and safe tokens only, at most 160 values, and is its own sanitised form, so that evidence
  sanitised by the dispatcher is persisted unchanged by the repository, which sanitises it again.
\<close>

theorem sanitized_evidence_public:
  "public_json (JObj (sanitize_audit_evidence v)) \<and> json_nodes (JObj (sanitize_audit_evidence v)) \<le> 160
   \<and> sanitize_audit_evidence (JObj (sanitize_audit_evidence v)) = sanitize_audit_evidence v"
proof (cases "fst (clean v 0 160)")
  case (JObj kvs)
  have "clean_ok (clean (JObj kvs) 0 160) 160 (clean v 0 160)" using clean_sound(1) [of v 0 160] JObj by simp
  then show ?thesis using JObj by (auto simp: clean_ok_def sanitize_audit_evidence_def)
qed (simp_all add: sanitize_audit_evidence_def)

end
