(* ===== verification/Dispatch_Repository.thy ===== *)
theory Dispatch_Repository
  imports Reservations Kill_Switch Audit_Evidence
begin

text \<open>
  \<open>execution/bitget_dispatch_repository.py\<close>: the durable queue of Bitget dispatches. Claims are
  leases, transitions are compare-and-set updates with an audit row, canary entries are counted
  under the exchange's advisory lock. Each operation is one transaction. \<open>locked\<close> says which rows
  other transactions hold (\<open>SKIP LOCKED\<close>), \<open>uuid\<close> gives the fresh identifiers. The dispatch states
  are those of the enumeration: the texts \<open>CANCELLED\<close>, \<open>RECONCILED\<close> and \<open>UNPROTECTED\<close>, which some
  queries also name, are written by no code of the repository.
\<close>

section \<open>Claimed dispatches\<close>

record BitgetDispatch =
  bd_id :: UUID
  bd_state :: DispatchState
  bd_claimed_by :: string
  bd_attempts :: int
  bd_pair_token :: string
  bd_direction :: string
  bd_entry_price :: dec
  bd_stop_loss :: dec
  bd_take_profits :: "dec list"
  bd_source_channel_id :: "int option"
  bd_source_message_id :: "int option"
  bd_source_received_at :: "timestamp option"
  bd_order_type :: string
  bd_manual_margin :: "dec option"
  bd_manual_leverage :: "int option"
  bd_is_manual :: bool
  bd_source_id :: "UUID option"
  bd_canonical_signal_id :: "UUID option"
  bd_source_revision :: "string option"
  bd_source_text :: "string option"

definition dispatch_from_row :: "DispatchRow \<Rightarrow> SignalRow \<Rightarrow> SourceMessage \<Rightarrow> string \<Rightarrow> BitgetDispatch" where
  "dispatch_from_row d s m revision =
     \<lparr>bd_id = ds_id d, bd_state = ds_state d,
      bd_claimed_by = (case ds_claimed_by d of None \<Rightarrow> ''None'' | Some c \<Rightarrow> c), bd_attempts = ds_attempts d,
      bd_pair_token = sg_pair_token s, bd_direction = sg_direction s, bd_entry_price = sg_entry_price s,
      bd_stop_loss = sg_stop_loss s, bd_take_profits = sg_take_profits s, bd_source_channel_id = Some (tm_channel_id m),
      bd_source_message_id = Some (tm_message_id m), bd_source_received_at = tm_received_at m, bd_order_type = ''MARKET'',
      bd_manual_margin = None, bd_manual_leverage = None, bd_is_manual = False, bd_source_id = Some (ds_source_id d),
      bd_canonical_signal_id = Some (sg_id s), bd_source_revision = Some revision, bd_source_text = Some (tm_raw_text m)\<rparr>"

definition dispatch_signal :: "Db \<Rightarrow> DispatchRow \<Rightarrow> (SignalRow \<times> SourceMessage) option" where
  "dispatch_signal db d =
     (case List.find (\<lambda>s. sg_id s = ds_source_id d) (db_signals db) of
        None \<Rightarrow> None
      | Some s \<Rightarrow> map_option (Pair s) (List.find (\<lambda>m. tm_id m = sg_message_id s) (db_messages db)))"

definition baselined_dispatch :: "Db \<Rightarrow> UUID \<Rightarrow> bool" where
  "baselined_dispatch db did \<longleftrightarrow> B_dispatch did \<in> set (db_baseline db)"

text \<open>\<open>claimed_by IS NULL OR lease_until <= now\<close>, with SQL's null.\<close>

definition unleased :: "timestamp \<Rightarrow> DispatchRow \<Rightarrow> bool" where
  "unleased now d \<longleftrightarrow> ds_claimed_by d = None \<or> (case ds_lease_until d of None \<Rightarrow> False | Some t \<Rightarrow> t \<le> now)"

definition claimable :: "(UUID \<Rightarrow> bool) \<Rightarrow> timestamp \<Rightarrow> Db \<Rightarrow> DispatchRow \<Rightarrow> bool" where
  "claimable locked now db d \<longleftrightarrow> ds_exchange d = BITGET \<and> ds_state d = QUEUED \<and> \<not> baselined_dispatch db (ds_id d)
     \<and> unleased now d \<and> \<not> locked (ds_id d)"

section \<open>Claiming\<close>

record RepoClock =
  rk_now :: timestamp      \<comment> \<open>transaction start\<close>
  rk_clock :: timestamp    \<comment> \<open>statement clock\<close>

fun expire_all :: "timestamp \<Rightarrow> (UUID \<Rightarrow> UUID) \<Rightarrow> UUID list \<Rightarrow> Db \<Rightarrow> (Exn, Db) raises" where
  "expire_all now uuid [] db = Inr db"
| "expire_all now uuid (d # ds) db = bindE (expire_source_dispatch now (uuid d) d QUEUED db) (expire_all now uuid ds)"

definition stale_dispatches :: "(UUID \<Rightarrow> bool) \<Rightarrow> timestamp \<Rightarrow> Db \<Rightarrow> UUID list" where
  "stale_dispatches locked clock db =
     map ds_id (filter (\<lambda>d. claimable locked clock db d
       \<and> (case dispatch_signal db d of None \<Rightarrow> False | Some (_, m) \<Rightarrow> \<not> source_eligible db clock m)) (db_dispatches db))"

definition retire_stale :: "(UUID \<Rightarrow> bool) \<Rightarrow> timestamp \<Rightarrow> (UUID \<Rightarrow> UUID) \<Rightarrow> Db \<Rightarrow> (Exn, Db) raises" where
  "retire_stale locked clock uuid db = expire_all clock uuid (stale_dispatches locked clock db) db"

definition next_dispatch :: "(UUID \<Rightarrow> bool) \<Rightarrow> RepoClock \<Rightarrow> Db \<Rightarrow> DispatchRow option" where
  "next_dispatch locked rk db =
     (case sort_key ds_created_at (sort_key ds_id (filter (\<lambda>d. claimable locked (rk_now rk) db d
        \<and> (case dispatch_signal db d of None \<Rightarrow> False | Some (_, m) \<Rightarrow> source_eligible db (rk_clock rk) m)) (db_dispatches db))) of
        [] \<Rightarrow> None | d # _ \<Rightarrow> Some d)"

definition lease_row :: "timestamp \<Rightarrow> string \<Rightarrow> int \<Rightarrow> DispatchRow \<Rightarrow> DispatchRow" where
  "lease_row now worker seconds d =
     d\<lparr>ds_claimed_by := Some worker, ds_lease_until := Some (now + seconds * 1000000),
       ds_attempts := ds_attempts d + 1, ds_updated_at := now\<rparr>"

definition claim_dispatch ::
  "(UUID \<Rightarrow> bool) \<Rightarrow> RepoClock \<Rightarrow> (UUID \<Rightarrow> UUID) \<Rightarrow> string \<Rightarrow> int \<Rightarrow> Db \<Rightarrow> BitgetDispatch option transaction" where
  "claim_dispatch locked rk uuid worker seconds db =
     (if worker = [] then Inl (ValueError ''worker_id is required'')
      else if seconds < 1 then Inl (ValueError ''lease_seconds must be positive'')
      else bindE (retire_stale locked (rk_clock rk) uuid db) (\<lambda>db1.
        case next_dispatch locked rk db1 of
          None \<Rightarrow> Inr (db1, None)
        | Some d \<Rightarrow>
            let db2 = db1\<lparr>db_dispatches :=
                  update_where (\<lambda>x. ds_id x = ds_id d) (lease_row (rk_now rk) worker seconds) (db_dispatches db1)\<rparr>
            in (case dispatch_signal db1 d of
                  None \<Rightarrow> Inr (db2, None)
                | Some (s, m) \<Rightarrow> Inr (db2, Some (dispatch_from_row (lease_row (rk_now rk) worker seconds d) s m (sg_revision s))))))"

section \<open>Rechecks and reads\<close>

definition entry_source_eligible ::
  "bool \<Rightarrow> string \<Rightarrow> timestamp \<Rightarrow> UUID \<Rightarrow> UUID \<Rightarrow> Db \<Rightarrow> bool transaction" where
  "entry_source_eligible console_enabled scope clock tid did db =
     (let row = List.find (\<lambda>d. ds_id d = did) (db_dispatches db);
          manual = (if console_enabled then Option.bind row (\<lambda>d. map_option (Pair d) (manual_source db clock d)) else None) in
      if console_enabled \<and> (\<exists>p \<in> set (db_pauses db). ap_scope p = scope \<and> ap_active p) then Inr (db, False)
      else case manual of
        Some (d, fresh) \<Rightarrow> Inr (db, ds_state d \<in> {QUEUED, SUBMITTING} \<and> fresh)
      | None \<Rightarrow>
          (case Option.bind row (\<lambda>d. if baselined_dispatch db did then None else map_option (Pair d) (dispatch_signal db d)) of
             None \<Rightarrow> Inr (db, False)
           | Some (d, s, m) \<Rightarrow>
               let open_state = (ds_state d \<in> {QUEUED, SUBMITTING}); eligible = (open_state \<and> source_eligible db clock m) in
               if \<not> eligible \<and> open_state
               then bindE (expire_source_dispatch clock tid did (ds_state d) db) (\<lambda>db1. Inr (db1, False))
               else Inr (db, eligible)))"

text \<open>Durable owned entries with their canonical expectations; a lost source raises.\<close>

definition recovery_owner :: "Db \<Rightarrow> IntentRow \<Rightarrow> (Reservation \<times> DispatchRow) option" where
  "recovery_owner db i =
     Option.bind (List.find (\<lambda>m. rs_client_order_id m = it_client_oid i) (db_reservations db)) (\<lambda>m.
       map_option (Pair m) (List.find (\<lambda>d. ds_id d = rs_dispatch_id m \<and> ds_exchange d = it_exchange i) (db_dispatches db)))"

definition recovery_candidate :: "Db \<Rightarrow> IntentRow \<Rightarrow> bool" where
  "recovery_candidate db i \<longleftrightarrow>
     it_exchange i = BITGET \<and> it_role i = ENTRY \<and> \<not> baselined_intent db i
     \<and> (case recovery_owner db i of None \<Rightarrow> False
        | Some (m, d) \<Rightarrow> \<not> baselined_reservation db (rs_id m) \<and> \<not> baselined_dispatch db (ds_id d) \<and> ds_state d \<noteq> CLOSED)
     \<and> (0 < it_filled_qty i \<or> it_state i \<notin> {I_rejected, I_cancelled, I_reconciled})"

definition manual_dispatch :: "DispatchRow \<Rightarrow> ManualEntry \<Rightarrow> BitgetDispatch" where
  "manual_dispatch d m =
     \<lparr>bd_id = ds_id d, bd_state = ds_state d, bd_claimed_by = (case ds_claimed_by d of None \<Rightarrow> [] | Some c \<Rightarrow> c),
      bd_attempts = ds_attempts d, bd_pair_token = me_symbol m, bd_direction = me_direction m,
      bd_entry_price = me_entry_price m, bd_stop_loss = me_stop_loss m, bd_take_profits = me_take_profits m,
      bd_source_channel_id = None, bd_source_message_id = None, bd_source_received_at = None,
      bd_order_type = me_order_type m, bd_manual_margin = None, bd_manual_leverage = None, bd_is_manual = True,
      bd_source_id = Some (ds_source_id d), bd_canonical_signal_id = None, bd_source_revision = Some (ds_revision d),
      bd_source_text = None\<rparr>"

definition recovery_dispatch :: "bool \<Rightarrow> Db \<Rightarrow> DispatchRow \<Rightarrow> (Exn, BitgetDispatch) raises" where
  "recovery_dispatch console_enabled db d =
     (case dispatch_signal db d of
        Some (s, m) \<Rightarrow> Inr (dispatch_from_row d s m (ds_revision d))
      | None \<Rightarrow>
          (case (if console_enabled \<and> ds_source_type d = ''console_manual''
                 then List.find (\<lambda>m. me_id m = ds_source_id d) (db_manual_entries db) else None) of
             Some m \<Rightarrow> Inr (manual_dispatch d m)
           | None \<Rightarrow> Inl (ValueError ''recovery canonical source missing'')))"

definition recovery_candidates :: "bool \<Rightarrow> Db \<Rightarrow> (Exn, (BitgetDispatch \<times> string) list) raises" where
  "recovery_candidates console_enabled db =
     mapE (\<lambda>(d, oid). bindE (recovery_dispatch console_enabled db d) (\<lambda>b. Inr (b, oid)))
       (sort_key (ds_created_at \<circ> fst) (sort_key (ds_id \<circ> fst)
         (map (\<lambda>i. (snd (the (recovery_owner db i)), it_client_oid i)) (filter (recovery_candidate db) (db_intents db)))))"

definition is_locally_managed :: "string \<Rightarrow> Db \<Rightarrow> bool" where
  "is_locally_managed position_key db \<longleftrightarrow> (\<exists>f \<in> set (db_fallback db). fb_position_key f = Some position_key)"

definition locally_managed_position :: "string \<Rightarrow> string \<Rightarrow> dec \<Rightarrow> string \<Rightarrow> Db \<Rightarrow> bool" where
  "locally_managed_position symbol direction quantity environment db \<longleftrightarrow>
     (\<exists>f \<in> set (db_fallback db). fb_exchange f = ''bitget'' \<and> fb_symbol f = symbol \<and> fb_direction f = direction
        \<and> quantity \<le> fb_quantity f \<and> fb_state f \<in> {FB_active, FB_closing} \<and> fb_environment f = Some environment)"

definition unresolved_reason :: "string \<Rightarrow> bool" where
  "unresolved_reason r \<longleftrightarrow> r = ''missing-protection-escalated'' \<or> starts_with r ''recovery-missing-protection:''
     \<or> starts_with r ''recovery-filled-protection-unverified''"

definition unresolved_protection_issues :: "Db \<Rightarrow> string list" where
  "unresolved_protection_issues db =
     (if \<exists>d \<in> set (db_dispatches db). ds_exchange d = BITGET \<and> \<not> baselined_dispatch db (ds_id d)
           \<and> (case ds_terminal_reason d of None \<Rightarrow> False | Some r \<Rightarrow> unresolved_reason r)
      then [''unresolved-protection''] else [])"

text \<open>An entry intent without an owner in this environment (\<open>None\<close>, the null the recovery without a reader passes): no reservation or dispatch joins it, or
  one that joins it contradicts it.\<close>

definition intent_reservations :: "Db \<Rightarrow> IntentRow \<Rightarrow> Reservation list" where
  "intent_reservations db i =
     filter (\<lambda>m. rs_client_order_id m = it_client_oid i \<or> it_margin_reservation_id i = Some (rs_id m)) (db_reservations db)"

definition orphan_join :: "Db \<Rightarrow> string option \<Rightarrow> IntentRow \<Rightarrow> Reservation \<Rightarrow> bool" where
  "orphan_join db environment i m \<longleftrightarrow>
     (case List.find (\<lambda>d. ds_id d = rs_dispatch_id m \<and> ds_exchange d = BITGET) (db_dispatches db) of
        None \<Rightarrow> True
      | Some d \<Rightarrow> rs_environment m \<noteq> environment
          \<or> (case it_dispatch_id i of None \<Rightarrow> False | Some x \<Rightarrow> x \<noteq> ds_id d))"

definition orphan_entry_intent :: "Db \<Rightarrow> string option \<Rightarrow> IntentRow \<Rightarrow> bool" where
  "orphan_entry_intent db environment i \<longleftrightarrow>
     it_exchange i = BITGET \<and> it_role i = ENTRY \<and> \<not> baselined_intent db i
     \<and> (0 < it_filled_qty i \<or> it_state i \<notin> {I_rejected, I_cancelled, I_reconciled})
     \<and> (intent_reservations db i = [] \<or> list_ex (orphan_join db environment i) (intent_reservations db i))"

definition unbacked_reservation :: "Db \<Rightarrow> string option \<Rightarrow> Reservation \<Rightarrow> bool" where
  "unbacked_reservation db environment m \<longleftrightarrow>
     owning (rs_state m) \<and> \<not> baselined_reservation db (rs_id m)
     \<and> (rs_environment m = environment \<or> rs_environment m = None)
     \<and> \<not> (\<exists>i \<in> set (db_intents db). it_exchange i = BITGET \<and> it_client_oid i = rs_client_order_id m \<and> it_role i = ENTRY)"

definition inventory_issues :: "string option \<Rightarrow> Db \<Rightarrow> string list" where
  "inventory_issues environment db =
     (if list_ex (orphan_entry_intent db environment) (db_intents db) then [''orphan-entry-intent''] else [])
     @ (if list_ex (unbacked_reservation db environment) (db_reservations db) then [''reservation-without-entry-intent''] else [])"

definition baseline_binding_issues :: "string option \<Rightarrow> string option \<Rightarrow> Db \<Rightarrow> string list" where
  "baseline_binding_issues account environment db =
     (if \<exists>b \<in> set (db_baselines db). Some (ab_account_id b) \<noteq> account \<or> Some (ab_environment b) \<noteq> environment
      then [''baseline-account-environment-mismatch''] else [])"

text \<open>\<open>execution/bitget_runtime_readiness.py\<close>: the sorted set of both kinds of issue.\<close>

definition ledger_readiness_issues :: "string \<Rightarrow> Db \<Rightarrow> (Exn, string list) raises" where
  "ledger_readiness_issues environment db =
     (if environment \<noteq> ''LIVE'' then Inl (ValueError ''production ledger readiness requires LIVE'')
      else Inr (sort (remdups (inventory_issues (Some environment) db @ unresolved_protection_issues db))))"

section \<open>Canary entries\<close>

definition exchange_value :: "Exchange \<Rightarrow> string" where
  "exchange_value x = (case x of BINANCE \<Rightarrow> ''binance'' | BITGET \<Rightarrow> ''bitget'')"

text \<open>The open canary work: entry intents keyed by their dispatch, or by themselves when none is known,
  and the reservations of dispatches still open.\<close>

definition intent_dispatch_key :: "Db \<Rightarrow> IntentRow \<Rightarrow> UUID + string" where
  "intent_dispatch_key db i =
     (case it_dispatch_id i of
        Some d \<Rightarrow> Inl d
      | None \<Rightarrow>
          (case (if it_exchange i = BITGET
                 then List.find (\<lambda>m. rs_client_order_id m = it_client_oid i) (db_reservations db) else None) of
             Some m \<Rightarrow> Inl (rs_dispatch_id m)
           | None \<Rightarrow> Inr (it_client_oid i)))"

definition open_canary_dispatch :: "Db \<Rightarrow> UUID \<Rightarrow> bool" where
  "open_canary_dispatch db did \<longleftrightarrow>
     (\<exists>d \<in> set (db_dispatches db). ds_id d = did \<and> ds_state d \<notin> {FILLED, REJECTED} \<and> \<not> baselined_dispatch db did)"

definition canary_keys :: "string \<Rightarrow> Db \<Rightarrow> (UUID + string) set" where
  "canary_keys exchange db =
     set (map (intent_dispatch_key db) (filter (\<lambda>i. exchange_value (it_exchange i) = exchange \<and> it_role i = ENTRY
        \<and> it_state i \<notin> set settled_states \<and> \<not> baselined_intent db i) (db_intents db)))
     \<union> set (map (Inl \<circ> fst) (filter (\<lambda>r. snd r = exchange \<and> open_canary_dispatch db (fst r)) (db_canary db)))"

definition reserve_canary_entry :: "UUID \<Rightarrow> string \<Rightarrow> int \<Rightarrow> Db \<Rightarrow> bool transaction" where
  "reserve_canary_entry did exchange max_orders db =
     (if exchange = [] then Inl (ValueError ''exchange is required'')
      else if max_orders < 1 then Inl (ValueError ''canary cap must be positive'')
      else if \<not> int (card (canary_keys exchange db)) < max_orders then Inr (db, False)
      else if did \<in> fst ` set (db_canary db) then Inr (db, False)
      else if exchange \<notin> {''binance'', ''bitget''} \<or> did \<notin> ds_id ` set (db_dispatches db)
      then Inl (StorageError ''canary_entry_reservations constraint'')
      else Inr (db\<lparr>db_canary := db_canary db @ [(did, exchange)]\<rparr>, True))"

definition release_canary_entry :: "UUID \<Rightarrow> string \<Rightarrow> Db \<Rightarrow> (Exn, Db) raises" where
  "release_canary_entry did exchange db =
     Inr (db\<lparr>db_canary := filter (\<lambda>r. \<not> (fst r = did \<and> snd r = exchange)) (db_canary db)\<rparr>)"

section \<open>Transitions and alerts\<close>

definition transition_row :: "timestamp \<Rightarrow> DispatchState \<Rightarrow> string option \<Rightarrow> DispatchRow \<Rightarrow> DispatchRow" where
  "transition_row now target reason d = d\<lparr>ds_state := target, ds_terminal_reason := reason, ds_updated_at := now\<rparr>"

definition transition_target :: "UUID \<Rightarrow> DispatchState \<Rightarrow> DispatchRow \<Rightarrow> bool" where
  "transition_target did expected d \<longleftrightarrow> ds_id d = did \<and> ds_exchange d = BITGET \<and> ds_state d = expected"

text \<open>A compare-and-set: the row must still be in the expected state.\<close>

definition transition ::
  "timestamp \<Rightarrow> UUID \<Rightarrow> UUID \<Rightarrow> DispatchState \<Rightarrow> DispatchState \<Rightarrow> string option \<Rightarrow> Db \<Rightarrow> (Exn, Db) raises" where
  "transition now tid did expected target raw_reason db =
     (let reason = safe_transition_reason raw_reason in
      if \<not> list_ex (transition_target did expected) (db_dispatches db)
      then Inl (ValueError ''dispatch state changed concurrently or does not exist'')
      else if tid \<in> tr_id ` set (db_transitions db) then Inl (StorageError ''dispatch_transitions_pkey'')
      else
        let db1 = db\<lparr>db_dispatches := update_where (transition_target did expected) (transition_row now target reason) (db_dispatches db),
                     db_transitions := db_transitions db @ [\<lparr>tr_id = tid, tr_dispatch_id = did, tr_from = expected,
                       tr_to = target, tr_reason = reason\<rparr>]\<rparr>;
            db2 = (if target \<in> {FILLED, REJECTED}
                   then db1\<lparr>db_canary := filter (\<lambda>r. \<not> (fst r = did \<and> snd r = ''bitget'')) (db_canary db1)\<rparr> else db1)
        in Inr (enqueue (DispatchTransitionKey did expected target (case reason of None \<Rightarrow> [] | Some r \<Rightarrow> r)) db2))"

definition alert_protection_settled :: "string \<Rightarrow> Db \<Rightarrow> (Exn, Db) raises" where
  "alert_protection_settled client_oid db = Inr (enqueue (ProtectionSettledKey client_oid) db)"

fun join_texts :: "string \<Rightarrow> string list \<Rightarrow> string" where
  "join_texts sep [] = []"
| "join_texts sep [x] = x"
| "join_texts sep (x # xs) = x @ sep @ join_texts sep xs"

definition alert_recovery_blocked :: "string list \<Rightarrow> Db \<Rightarrow> (Exn, Db) raises" where
  "alert_recovery_blocked issues db =
     (let signature = join_texts '','' (sort issues) in
      Inr (enqueue (RecoveryBlockedKey (if signature = [] then ''unconfirmed'' else signature)) db))"

definition alert_orphan_retirement :: "string \<Rightarrow> Db \<Rightarrow> (Exn, Db) raises" where
  "alert_orphan_retirement reservation_id db = Inr (enqueue (OrphanRetirementKey reservation_id) db)"

definition alert_dispatch :: "UUID \<Rightarrow> string \<Rightarrow> Db \<Rightarrow> (Exn, Db) raises" where
  "alert_dispatch did reason db =
     Inr (enqueue (DispatchAlertKey did
       (case safe_transition_reason (Some reason) of None \<Rightarrow> ''invalid-alert-reason'' | Some r \<Rightarrow> r)) db)"

section \<open>Lemmas\<close>

text \<open>The lease of a dispatch until an instant: its rows have left the queue or are claimed that long.\<close>

definition leased :: "UUID \<Rightarrow> timestamp \<Rightarrow> Db \<Rightarrow> bool" where
  "leased x until db \<longleftrightarrow> (\<forall>d \<in> set (db_dispatches db). ds_id d = x \<longrightarrow>
     ds_state d \<noteq> QUEUED \<or> ds_claimed_by d \<noteq> None \<and> (\<exists>t. ds_lease_until d = Some t \<and> until \<le> t))"

lemma leased_not_claimable: "leased x until db \<Longrightarrow> d \<in> set (db_dispatches db) \<Longrightarrow> claimable locked now db d \<Longrightarrow> now < until \<Longrightarrow> ds_id d \<noteq> x"
  by (auto simp: leased_def claimable_def unleased_def)

lemma leased_update:
  assumes "leased x until db" "db_dispatches db' = update_where p f (db_dispatches db)"
    and "\<And>d. p d \<Longrightarrow> ds_id (f d) = ds_id d" "\<And>d. d \<in> set (db_dispatches db) \<Longrightarrow> p d \<Longrightarrow> ds_id d = x \<Longrightarrow> ds_state (f d) \<noteq> QUEUED"
  shows "leased x until db'"
  using assms by (auto simp: leased_def set_update_where)

lemma leased_same: "leased x until db \<Longrightarrow> db_dispatches db' = db_dispatches db \<Longrightarrow> leased x until db'"
  by (simp add: leased_def)

lemma leased_expire:
  assumes "leased x until db" "expire_source_dispatch now tid did state db = Inr db'"
  shows "leased x until db'"
  using assms(2)
proof (cases rule: expire_source_dispatch_cases)
  case kept
  then show ?thesis using assms(1) by simp
next
  case expired
  show ?thesis by (rule leased_update [OF assms(1) expired(6)]) (simp_all add: expire_dispatch_row_def)
qed

lemma leased_expire_all: "leased x until db \<Longrightarrow> expire_all now uuid ds db = Inr db' \<Longrightarrow> leased x until db'"
  by (induction ds arbitrary: db) (auto simp: run_simps dest: leased_expire)

lemma next_dispatch_Some:
  assumes "next_dispatch locked rk db = Some d"
  shows "d \<in> set (db_dispatches db)" "claimable locked (rk_now rk) db d"
    "\<exists>s m. dispatch_signal db d = Some (s, m) \<and> source_eligible db (rk_clock rk) m"
proof -
  let ?open = "filter (\<lambda>d. claimable locked (rk_now rk) db d
        \<and> (case dispatch_signal db d of None \<Rightarrow> False | Some (_, m) \<Rightarrow> source_eligible db (rk_clock rk) m)) (db_dispatches db)"
  obtain rest where "sort_key ds_created_at (sort_key ds_id ?open) = d # rest"
    using assms unfolding next_dispatch_def by (auto split: list.splits)
  then have "d \<in> set ?open" by (metis list.set_intros(1) set_sort)
  then show "d \<in> set (db_dispatches db)" "claimable locked (rk_now rk) db d"
    "\<exists>s m. dispatch_signal db d = Some (s, m) \<and> source_eligible db (rk_clock rk) m"
    by (auto split: option.splits)
qed

lemma claim_dispatch_cases:
  assumes "claim_dispatch locked rk uuid worker seconds db = Inr (db', r)"
  obtains (idle) "r = None" "retire_stale locked (rk_clock rk) uuid db = Inr db'"
  | (won) db1 d s m where "retire_stale locked (rk_clock rk) uuid db = Inr db1" "next_dispatch locked rk db1 = Some d"
      "dispatch_signal db1 d = Some (s, m)" "worker \<noteq> []" "1 \<le> seconds"
      "r = Some (dispatch_from_row (lease_row (rk_now rk) worker seconds d) s m (sg_revision s))"
      "db' = db1\<lparr>db_dispatches := update_where (\<lambda>x. ds_id x = ds_id d) (lease_row (rk_now rk) worker seconds) (db_dispatches db1)\<rparr>"
  using assms next_dispatch_Some(3)
  by (fastforce simp: claim_dispatch_def Let_def run_simps split: if_splits option.splits)

lemma leased_claim:
  assumes "leased x until db" "claim_dispatch locked rk uuid worker seconds db = Inr (db', r)" "rk_now rk < until"
  shows "leased x until db' \<and> (\<forall>b. r = Some b \<longrightarrow> bd_id b \<noteq> x)"
  using assms(2)
proof (cases rule: claim_dispatch_cases)
  case idle
  then show ?thesis using assms(1) leased_expire_all by (auto simp: retire_stale_def)
next
  case (won db1 d s m)
  have kept: "leased x until db1" using won(1) assms(1) leased_expire_all by (auto simp: retire_stale_def)
  have other: "ds_id d \<noteq> x" by (rule leased_not_claimable [OF kept next_dispatch_Some(1,2) [OF won(2)] assms(3)])
  have "leased x until db'"
    by (rule leased_update [OF kept, of db' "\<lambda>x. ds_id x = ds_id d" "lease_row (rk_now rk) worker seconds"]) (use won(7) other in \<open>simp_all add: lease_row_def\<close>)
  then show ?thesis using won(6) other by (simp add: dispatch_from_row_def lease_row_def)
qed

text \<open>What the workers do to the queue while the lease runs.\<close>

inductive queue_step :: "UUID \<Rightarrow> timestamp \<Rightarrow> Db \<Rightarrow> Db \<Rightarrow> bool" for x until where
  queue_claim: "claim_dispatch locked rk uuid worker seconds db = Inr (db', r) \<Longrightarrow> rk_now rk < until \<Longrightarrow> queue_step x until db db'"
| queue_transition: "transition now tid did expected target reason db = Inr db' \<Longrightarrow> did \<noteq> x \<or> target \<noteq> QUEUED
    \<Longrightarrow> queue_step x until db db'"
| queue_recheck: "entry_source_eligible console scope clock tid did db = Inr (db', ok) \<Longrightarrow> queue_step x until db db'"
| queue_expire: "expire_source_dispatch now tid did state db = Inr db' \<Longrightarrow> queue_step x until db db'"
| queue_canary: "reserve_canary_entry did exchange cap db = Inr (db', ok) \<Longrightarrow> queue_step x until db db'"

lemma transition_dispatches:
  assumes "transition now tid did expected target reason db = Inr db'"
  shows "db_dispatches db' = update_where (transition_target did expected)
    (transition_row now target (safe_transition_reason reason)) (db_dispatches db)"
  using assms by (auto simp: transition_def enqueue_def Let_def split: if_splits)

lemma leased_step: "queue_step x until db db' \<Longrightarrow> leased x until db \<Longrightarrow> leased x until db'"
proof (induction rule: queue_step.induct)
  case (queue_claim locked rk uuid worker seconds db db' r)
  then show ?case using leased_claim by blast
next
  case (queue_transition now tid did expected target reason db db')
  show ?case
    by (rule leased_update [OF queue_transition(3) transition_dispatches [OF queue_transition(1)]])
      (use queue_transition(2) in \<open>auto simp: transition_row_def transition_target_def\<close>)
next
  case (queue_recheck console scope clock tid did db db' ok)
  then show ?case
    by (auto simp: entry_source_eligible_def Let_def run_simps dest: leased_expire split: if_splits option.splits)
next
  case (queue_expire now tid did state db db')
  then show ?case using leased_expire by blast
next
  case (queue_canary did exchange cap db db' ok)
  then show ?case by (auto simp: reserve_canary_entry_def leased_def split: if_splits)
qed

lemma leased_run: "(queue_step x until)\<^sup>*\<^sup>* db db' \<Longrightarrow> leased x until db \<Longrightarrow> leased x until db'"
  by (induction rule: rtranclp_induct) (auto dest: leased_step)

lemma intent_dispatch_key_canary [simp]: "intent_dispatch_key (db\<lparr>db_canary := c\<rparr>) i = intent_dispatch_key db i"
  by (simp add: intent_dispatch_key_def split: option.split)

lemma canary_keys_grow:
  "canary_keys exchange (db\<lparr>db_canary := db_canary db @ [(did, exchange)]\<rparr>) \<subseteq> insert (Inl did) (canary_keys exchange db)"
  by (auto simp: canary_keys_def open_canary_dispatch_def baselined_dispatch_def baselined_intent_def)

text \<open>A granted canary entry leaves the open canary work within the cap.\<close>

lemma reserve_canary_entry_bounded:
  assumes "reserve_canary_entry did exchange cap db = Inr (db', True)"
  shows "int (card (canary_keys exchange db')) \<le> cap"
proof -
  have db': "db' = db\<lparr>db_canary := db_canary db @ [(did, exchange)]\<rparr>" and room: "int (card (canary_keys exchange db)) < cap"
    using assms by (auto simp: reserve_canary_entry_def split: if_splits)
  have fin: "finite (canary_keys exchange db)" by (simp add: canary_keys_def)
  have "card (canary_keys exchange db') \<le> card (insert (Inl did :: UUID + string) (canary_keys exchange db))"
    unfolding db' by (rule card_mono [OF _ canary_keys_grow]) (simp add: fin)
  also have "\<dots> \<le> Suc (card (canary_keys exchange db))" by (rule card_insert_le_m1) simp_all
  finally show ?thesis using room by linarith
qed

section \<open>Properties\<close>

text \<open>
  C15: a claimed dispatch has one worker. After a claim returned a dispatch, and whatever claims,
  transitions, rechecks, expiries and canary reservations the workers commit meanwhile (short of
  putting that dispatch back in the queue), no claim whose transaction starts before the lease
  ends returns the same dispatch.
\<close>

theorem claim_exclusive:
  assumes "claim_dispatch locked rk uuid worker seconds db = Inr (db1, Some b)"
    and "(queue_step (bd_id b) (rk_now rk + seconds * 1000000))\<^sup>*\<^sup>* db1 db2"
    and "claim_dispatch locked' rk' uuid' worker' seconds' db2 = Inr (db3, Some b')"
    and "rk_now rk' < rk_now rk + seconds * 1000000"
  shows "bd_id b' \<noteq> bd_id b"
proof -
  from assms(1) have "leased (bd_id b) (rk_now rk + seconds * 1000000) db1"
    by (cases rule: claim_dispatch_cases)
      (auto simp: leased_def set_update_where dispatch_from_row_def lease_row_def)
  from leased_run [OF assms(2) this] have "leased (bd_id b) (rk_now rk + seconds * 1000000) db2" .
  from leased_claim [OF this assms(3,4)] show ?thesis by simp
qed

definition queue_db :: Db where
  "queue_db = admit_db\<lparr>db_dispatches :=
     [\<lparr>ds_id = 1, ds_source_id = 2, ds_source_type = ''canonical_signal'', ds_revision = ''r'', ds_exchange = BITGET, ds_state = QUEUED,
        ds_terminal_reason = None, ds_claimed_by = None, ds_lease_until = None, ds_attempts = 0, ds_created_at = 5, ds_updated_at = 0\<rparr>,
      \<lparr>ds_id = 9, ds_source_id = 2, ds_source_type = ''canonical_signal'', ds_revision = ''q'', ds_exchange = BITGET, ds_state = QUEUED,
        ds_terminal_reason = None, ds_claimed_by = None, ds_lease_until = None, ds_attempts = 0, ds_created_at = 4, ds_updated_at = 0\<rparr>]\<rparr>"

definition queue_clock :: RepoClock where
  "queue_clock = \<lparr>rk_now = 2000, rk_clock = 2001\<rparr>"

definition first_claim :: "Db \<times> BitgetDispatch option" where
  "first_claim = projr (claim_dispatch (\<lambda>_. False) queue_clock (\<lambda>_. 77) ''w1'' 60 queue_db)"

definition second_claim :: "Db \<times> BitgetDispatch option" where
  "second_claim = projr (claim_dispatch (\<lambda>_. False) queue_clock (\<lambda>_. 77) ''w2'' 60 (fst first_claim))"

theorem claim_exclusive_witness:
  "bd_id (the (snd first_claim)) = 9 \<and> snd second_claim \<noteq> None
   \<and> bd_id (the (snd second_claim)) \<noteq> bd_id (the (snd first_claim))"
proof -
  have one: "claim_dispatch (\<lambda>_. False) queue_clock (\<lambda>_. 77) ''w1'' 60 queue_db = Inr (fst first_claim, Some (the (snd first_claim)))"
  proof -
    have "\<not> isl (claim_dispatch (\<lambda>_. False) queue_clock (\<lambda>_. 77) ''w1'' 60 queue_db)" "snd first_claim \<noteq> None" by code_simp+
    then show ?thesis using returned_pair unfolding first_claim_def by (metis option.collapse)
  qed
  have two: "claim_dispatch (\<lambda>_. False) queue_clock (\<lambda>_. 77) ''w2'' 60 (fst first_claim) = Inr (fst second_claim, Some (the (snd second_claim)))"
  proof -
    have "\<not> isl (claim_dispatch (\<lambda>_. False) queue_clock (\<lambda>_. 77) ''w2'' 60 (fst first_claim))" "snd second_claim \<noteq> None" by code_simp+
    then show ?thesis using returned_pair unfolding second_claim_def by (metis option.collapse)
  qed
  have "bd_id (the (snd first_claim)) = 9" "snd second_claim \<noteq> None" by code_simp+
  moreover have "bd_id (the (snd second_claim)) \<noteq> bd_id (the (snd first_claim))"
    by (rule claim_exclusive [OF one rtranclp.rtrancl_refl two]) (simp add: queue_clock_def)
  ultimately show ?thesis by blast
qed

end
