(* ===== verification/Admission.thy ===== *)
theory Admission
  imports Entry_Routing Sizing
begin

text \<open>
  \<open>risk/price_scale.py\<close> and \<open>execution/bitget_admission.py\<close>: the power-of-ten alignment of signal
  prices with the market, the executable protection prices on the tick grid, and the frozen evidence
  one admitted entry carries from sizing to the POST.
\<close>

section \<open>Price scale\<close>

text \<open>\<open>round(math.log10(ratio))\<close>, computed exactly: the integer nearest to the logarithm, read off the
  decimal exponent of the square. Binary floating point agrees except within its rounding error of
  \<open>10 ^ (k + 1/2)\<close>, where the relative error test below, at its default tolerance, refuses the scale in either case.\<close>

definition nearest_magnitude :: "rat \<Rightarrow> int" where
  "nearest_magnitude ratio = (adjusted (ratio * ratio) + 1) div 2"

definition geometry_kept :: "string \<Rightarrow> dec \<Rightarrow> dec \<Rightarrow> dec list \<Rightarrow> bool" where
  "geometry_kept direction entry stop targets =
     (if str_upper direction = ''LONG'' then stop < entry \<and> list_all (\<lambda>t. entry < t) targets
      else entry < stop \<and> list_all (\<lambda>t. t < entry) targets)"

definition align_price_scale ::
  "dec \<Rightarrow> dec \<Rightarrow> dec list \<Rightarrow> dec \<Rightarrow> string \<Rightarrow> dec \<Rightarrow> dec \<times> dec \<times> dec list \<times> dec" where
  "align_price_scale entry stop targets market direction max_error =
     (let unscaled = (entry, stop, targets, 1) in
      if entry \<le> 0 \<or> market \<le> 0 then unscaled
      else let ratio = dec_div entry market in
      if ratio \<le> 0 then unscaled
      else let k = nearest_magnitude ratio in
      if k = 0 \<or> 8 < \<bar>k\<bar> then unscaled
      else let scale = pow10 k; scaled_entry = dec_div entry scale in
      if max_error < dec_div (dec_abs (dec_sub scaled_entry market)) market then unscaled
      else let scaled_sl = dec_div stop scale; scaled_tps = map (\<lambda>t. dec_div t scale) targets in
      if \<not> geometry_kept direction scaled_entry scaled_sl scaled_tps then unscaled
      else (scaled_entry, scaled_sl, scaled_tps, scale))"

section \<open>Executable protection prices\<close>

definition clears :: "Direction \<Rightarrow> dec \<Rightarrow> dec \<Rightarrow> dec \<Rightarrow> bool" where
  "clears direction a b tick =
     (\<not> dec_mul (dec_sub a b) (if direction = LONG then 1 else - 1) < tick)"

text \<open>The checks against one rounded entry, in order.\<close>

definition entry_clearance :: "Direction \<Rightarrow> dec \<Rightarrow> dec list \<Rightarrow> dec \<Rightarrow> dec \<Rightarrow> (Exn, unit) raises" where
  "entry_clearance direction stop targets tick entry =
     (if \<not> clears direction entry stop tick
      then Inl (ValueError ''rounded stop loss must clear entry by at least one tick'')
      else if list_ex (\<lambda>t. \<not> clears direction t entry tick) targets
      then Inl (ValueError ''rounded take profits must clear entry by at least one tick'')
      else Inr ())"

definition normalized_protection_prices ::
  "Direction \<Rightarrow> dec \<Rightarrow> dec \<Rightarrow> dec \<Rightarrow> dec list \<Rightarrow> dec \<Rightarrow> (Exn, dec \<times> dec list) raises" where
  "normalized_protection_prices direction entry canonical stop_loss take_profits tick =
     (if take_profits = [] \<or> list_ex (\<lambda>p. p \<le> 0) ([entry, canonical, stop_loss] @ take_profits @ [tick])
      then Inl (ValueError ''protection prices must be finite positive with take profits'')
      else
        bindE (round_price_to_tick entry tick) (\<lambda>e.
        bindE (round_price_to_tick canonical tick) (\<lambda>c.
        bindE (round_price_to_tick stop_loss tick) (\<lambda>stop.
        bindE (mapE (\<lambda>t. round_price_to_tick t tick) take_profits) (\<lambda>targets.
        bindE (entry_clearance direction stop targets tick e) (\<lambda>_.
        bindE (entry_clearance direction stop targets tick c) (\<lambda>_.
          if \<not> distinct targets
          then Inl (ValueError ''rounded take profits must remain separated by at least one tick'')
          else Inr (stop, targets))))))))"

section \<open>The admitted entry\<close>

record BitgetEntrySubmission =
  es_quantity :: dec
  es_effective_leverage :: int
  es_planned_margin_usdt :: dec
  es_planned_notional_usdt :: dec
  es_margin_mode :: string
  es_balance_snapshot_id :: int
  es_margin_reservation_id :: int
  es_observed_at :: int
  es_planned_stop_loss :: dec
  es_planned_take_profits :: "dec list"
  es_entry_route :: "EntryRoute option"

definition make_submission :: "BitgetEntrySubmission \<Rightarrow> (Exn, BitgetEntrySubmission) raises" where
  "make_submission s =
     (if es_quantity s \<le> 0 then Inl (ValueError ''quantity must be a finite positive Decimal'')
      else if es_planned_margin_usdt s \<le> 0 then Inl (ValueError ''planned_margin_usdt must be a finite positive Decimal'')
      else if es_planned_notional_usdt s \<le> 0 then Inl (ValueError ''planned_notional_usdt must be a finite positive Decimal'')
      else if es_planned_take_profits s = [] \<or> list_ex (\<lambda>p. p \<le> 0) (es_planned_stop_loss s # es_planned_take_profits s)
      then Inl (ValueError ''planned protection prices must be finite positive with take profits'')
      else if es_effective_leverage s < 1 then Inl (ValueError ''effective_leverage must be a positive integer'')
      else let mode = str_strip (str_upper (es_margin_mode s)) in
      if mode \<noteq> ''ISOLATED'' then Inl (ValueError ''Bitget entry margin_mode must be ISOLATED'')
      else Inr (s\<lparr>es_margin_mode := mode\<rparr>))"

section \<open>Lemmas\<close>

text \<open>An applied scale is a power of ten of one to eight places whose prices keep their order and
  bring the entry within the tolerance of the market.\<close>

lemma align_price_scale_cases:
  assumes "align_price_scale entry stop targets market direction max_error = (e, s, ts, scale)"
  shows "(e, s, ts, scale) = (entry, stop, targets, 1)
    \<or> (\<exists>k. 1 \<le> \<bar>k\<bar> \<and> \<bar>k\<bar> \<le> 8 \<and> scale = pow10 k \<and> e = dec_div entry scale \<and> s = dec_div stop scale
         \<and> ts = map (\<lambda>t. dec_div t scale) targets \<and> 0 < market
         \<and> dec_div (dec_abs (dec_sub e market)) market \<le> max_error \<and> geometry_kept direction e s ts)"
proof (cases "(e, s, ts, scale) = (entry, stop, targets, 1)")
  case False
  let ?k = "nearest_magnitude (dec_div entry market)"
  have "1 \<le> \<bar>?k\<bar> \<and> \<bar>?k\<bar> \<le> 8 \<and> scale = pow10 ?k \<and> e = dec_div entry scale \<and> s = dec_div stop scale
      \<and> ts = map (\<lambda>t. dec_div t scale) targets \<and> 0 < market
      \<and> dec_div (dec_abs (dec_sub e market)) market \<le> max_error \<and> geometry_kept direction e s ts"
    using assms False unfolding align_price_scale_def Let_def by (auto simp: not_less not_le split: if_splits)
  then show ?thesis by blast
qed simp

lemma clears_LONG: "clears LONG a b tick \<longleftrightarrow> tick \<le> dec_sub a b"
  by (simp add: clears_def dec_mul_def dec_sub_def dec_round_idem not_less)

lemma clears_SHORT: "clears SHORT a b tick \<longleftrightarrow> tick \<le> - dec_sub a b"
  by (simp add: clears_def dec_mul_def dec_sub_def dec_round_idem dec_round_minus not_less)

text \<open>The prices that reach the venue are tick prices, apart from both entries by at least one tick on
  the protective and the profitable side, with the targets distinct.\<close>

lemma normalized_prices_ok:
  assumes "normalized_protection_prices direction entry canonical stop_loss take_profits tick = Inr (stop, targets)"
  shows "round_price_to_tick stop_loss tick = Inr stop"
    and "list_all2 (\<lambda>t r. round_price_to_tick t tick = Inr r) take_profits targets"
    and "targets \<noteq> []" "distinct targets" "0 < tick"
    and "x \<in> {entry, canonical} \<Longrightarrow> \<exists>e. round_price_to_tick x tick = Inr e \<and> clears direction e stop tick
           \<and> (\<forall>t \<in> set targets. clears direction t e tick)"
proof -
  obtain e c where rounded: "round_price_to_tick entry tick = Inr e" "round_price_to_tick canonical tick = Inr c"
      "round_price_to_tick stop_loss tick = Inr stop" "mapE (\<lambda>t. round_price_to_tick t tick) take_profits = Inr targets"
    and clear: "entry_clearance direction stop targets tick e = Inr ()" "entry_clearance direction stop targets tick c = Inr ()"
    and rest: "distinct targets" "take_profits \<noteq> []" "0 < tick"
    using assms by (auto simp: normalized_protection_prices_def run_simps not_le split: if_splits)
  show "round_price_to_tick stop_loss tick = Inr stop" "distinct targets" "0 < tick" using rounded rest by simp_all
  show all2: "list_all2 (\<lambda>t r. round_price_to_tick t tick = Inr r) take_profits targets"
    using rounded(4) by (simp add: mapE_Inr_iff)
  show "targets \<noteq> []" using all2 rest(2) by auto
  show "x \<in> {entry, canonical} \<Longrightarrow> \<exists>e. round_price_to_tick x tick = Inr e \<and> clears direction e stop tick
           \<and> (\<forall>t \<in> set targets. clears direction t e tick)"
    using rounded(1,2) clear by (auto simp: entry_clearance_def list_ex_iff split: if_splits)
qed

end
