(* ===== verification/Dispatcher.thy ===== *)
theory Dispatcher
  imports Dispatch_Repository Admission Watchdog
begin

text \<open>
  \<open>execution/bitget_dispatcher.py\<close>: one pass of the dispatcher over the durable queue, from the
  claim through the gates, preflight, routing and the durable SUBMITTING boundary to the venue call
  and its outcome. The protection admission, the preflight, the routing evidence and the execution
  client are parameters that work on the database and on a venue of any type; the queue and the
  kill switches are the modelled tables. Every database call takes its clock and its fresh
  identifier from supplies indexed by the number of calls made. A venue call is logged with whether
  its dispatch was durably SUBMITTING at that moment. The evidence payloads and log lines are left out.
\<close>

section \<open>Configuration\<close>

record DispatchGate =
  dg_execution_enabled :: bool
  dg_canary_max_orders :: int
  dg_canary_symbol :: "string option"

datatype Preflight = Admitted BitgetEntrySubmission | PaperSized InstrumentSpec VenueRiskConfig

record EntryRoutingSnapshot =
  sn_market_price :: dec
  sn_limit_context :: "LimitEntryContext option"
  sn_late_threshold_pct :: dec
  sn_near_limit_threshold_pct :: "dec option"

type_synonym 'v venue = "Db \<times> 'v"

record 'v Execution =
  ex_submit_quantity :: "BitgetDispatch \<Rightarrow> dec \<Rightarrow> ('v venue, string) prog"
  ex_submit_entry :: "BitgetDispatch \<Rightarrow> BitgetEntrySubmission \<Rightarrow> ('v venue, string) prog"
  ex_submit_entry_route :: "(BitgetDispatch \<Rightarrow> dec \<Rightarrow> EntryRoute \<Rightarrow> ('v venue, string) prog) option"
  ex_release_reservation :: "(BitgetEntrySubmission \<Rightarrow> ('v venue, unit) prog) option"

record 'v Dispatcher =
  dp_gate :: DispatchGate
  dp_kill_switch :: bool
  dp_protection_admission :: "(string \<Rightarrow> ('v venue, bool \<times> string) prog) option"
  dp_preflight :: "BitgetDispatch \<Rightarrow> ('v venue, Preflight) prog"
  dp_entry_routing :: "(string \<Rightarrow> ('v venue, EntryRoutingSnapshot) prog) option"
  dp_execution :: "'v Execution option"
  dp_audit_evidence :: "Exn \<Rightarrow> JSON"
  dp_locked :: "UUID \<Rightarrow> bool"
  dp_clock :: "nat \<Rightarrow> timestamp"
  dp_statement_clock :: "nat \<Rightarrow> timestamp"
  dp_uuid :: "nat \<Rightarrow> UUID"
  dp_expiry_uuid :: "UUID \<Rightarrow> UUID"

record 'v DispWorld =
  dw_db :: Db
  dw_venue :: 'v
  dw_calls :: nat
  dw_submits :: "(UUID \<times> bool) list"

section \<open>Effects\<close>

definition venueW :: "('v venue, 'a) prog \<Rightarrow> ('v DispWorld, 'a) prog" where
  "venueW p w = (case p (dw_db w, dw_venue w) of (r, (db, v)) \<Rightarrow> (r, w\<lparr>dw_db := db, dw_venue := v\<rparr>))"

definition repoW ::
  "'v Dispatcher \<Rightarrow> (timestamp \<Rightarrow> UUID \<Rightarrow> Db \<Rightarrow> 'a transaction) \<Rightarrow> ('v DispWorld, 'a) prog" where
  "repoW dp f w =
     (let n = dw_calls w in
      transactW dw_db (\<lambda>db w. w\<lparr>dw_db := db\<rparr>) (f (dp_clock dp n) (dp_uuid dp n)) (w\<lparr>dw_calls := n + 1\<rparr>))"

definition readW :: "(Db \<Rightarrow> 'a) \<Rightarrow> ('v DispWorld, 'a) prog" where
  "readW f w = (Inr (f (dw_db w)), w)"

definition in_state :: "UUID \<Rightarrow> DispatchState \<Rightarrow> Db \<Rightarrow> bool" where
  "in_state did st db \<longleftrightarrow> list_ex (\<lambda>d. ds_id d = did \<and> ds_state d = st) (db_dispatches db)"

definition log_submit :: "UUID \<Rightarrow> ('v DispWorld, unit) prog" where
  "log_submit did w = (Inr (), w\<lparr>dw_submits := dw_submits w @ [(did, in_state did SUBMITTING (dw_db w))]\<rparr>)"

definition move ::
  "'v Dispatcher \<Rightarrow> BitgetDispatch \<Rightarrow> DispatchState \<Rightarrow> DispatchState \<Rightarrow> string option \<Rightarrow> ('v DispWorld, unit) prog" where
  "move dp d expected target reason =
     repoW dp (\<lambda>now tid db. unitT (transition now tid (bd_id d) expected target reason db))"

definition alertW :: "'v Dispatcher \<Rightarrow> BitgetDispatch \<Rightarrow> string \<Rightarrow> ('v DispWorld, unit) prog" where
  "alertW dp d reason = repoW dp (\<lambda>now tid db. unitT (alert_dispatch (bd_id d) reason db))"

definition reject :: "'v Dispatcher \<Rightarrow> BitgetDispatch \<Rightarrow> DispatchState \<Rightarrow> string \<Rightarrow> ('v DispWorld, unit) prog" where
  "reject dp d current reason =
     bindW (move dp d current REJECTED (Some reason)) (\<lambda>_.
       if reason \<noteq> ''cutover-gated'' then alertW dp d reason else returnW ())"

definition rejected_as :: "'v Dispatcher \<Rightarrow> BitgetDispatch \<Rightarrow> DispatchState \<Rightarrow> string \<Rightarrow> string \<Rightarrow> ('v DispWorld, string) prog" where
  "rejected_as dp d current reason status = bindW (reject dp d current reason) (\<lambda>_. returnW status)"

section \<open>Symbols and reasons\<close>

definition BITGET_SYMBOL_ALIASES :: "(string \<times> string) list" where
  "BITGET_SYMBOL_ALIASES =
    [(''BONK'', ''1000BONKUSDT''), (''BONKUSDT'', ''1000BONKUSDT''), (''SATS'', ''1000SATSUSDT''), (''SATSUSDT'', ''1000SATSUSDT''),
     (''RATS'', ''1000RATSUSDT''), (''RATSUSDT'', ''1000RATSUSDT''), (''CAT'', ''1000CATUSDT''), (''CATUSDT'', ''1000CATUSDT''),
     (''XEC'', ''1000XECUSDT''), (''XECUSDT'', ''1000XECUSDT''), (''MOG'', ''1000000MOGUSDT''), (''MOGUSDT'', ''1000000MOGUSDT''),
     (''1000PEPE'', ''PEPEUSDT''), (''1000PEPEUSDT'', ''PEPEUSDT''), (''100PEPE'', ''PEPEUSDT''), (''100PEPEUSDT'', ''PEPEUSDT''),
     (''1000SHIB'', ''SHIBUSDT''), (''1000SHIBUSDT'', ''SHIBUSDT''), (''1000FLOKI'', ''FLOKIUSDT''), (''1000FLOKIUSDT'', ''FLOKIUSDT''),
     (''1000LUNC'', ''LUNCUSDT''), (''1000LUNCUSDT'', ''LUNCUSDT''), (''1000BABYDOGE'', ''BABYDOGEUSDT''),
     (''1000BABYDOGEUSDT'', ''BABYDOGEUSDT'')]"

definition bitget_symbol :: "string \<Rightarrow> (Exn, string) raises" where
  "bitget_symbol pair_token =
     (let symbol = str_strip (str_upper pair_token) in
      if symbol = [] then Inl (ValueError ''dispatch symbol is required'')
      else Inr (case map_of BITGET_SYMBOL_ALIASES symbol of
                  Some s \<Rightarrow> s | None \<Rightarrow> if ends_with symbol ''USDT'' then symbol else symbol @ ''USDT''))"

definition safe_reason_code :: "string \<Rightarrow> string \<Rightarrow> string" where
  "safe_reason_code v fallback =
     (if 0 < length v \<and> length v \<le> 96 \<and> list_all (\<lambda>c. is_alnum c \<or> c \<in> {CHR ''-'', CHR ''_'', CHR '':''}) v
      then v else fallback)"

definition KNOWN_REASONS :: "(string \<times> string) list" where
  "KNOWN_REASONS =
    [(''required margin exceeds auto margin cap'', ''auto-margin-cap-exceeded''),
     (''required margin exceeds safe free-margin headroom'', ''free-margin-headroom-exceeded''),
     (''required notional exceeds position cap'', ''position-notional-cap-exceeded''),
     (''rounded quantity exceeds position cap'', ''rounded-position-cap-exceeded''),
     (''Bitget account margin mode must be isolated'', ''margin-mode-not-isolated''),
     (''Bitget account has unsupported position mode'', ''unsupported-position-mode''),
     (''Bitget isolated long/short leverage must match'', ''isolated-leverage-mismatch''),
     (''Bitget symbol has an active position'', ''active-symbol-position''),
     (''Bitget clock skew exceeds safety limit'', ''clock-skew-exceeded''),
     (''Bitget position-lever response must be a non-empty list'', ''mmr-tiers-unavailable''),
     (''Bitget client cannot read position-lever MMR tiers'', ''mmr-reader-unavailable''),
     (''Bitget ticker response must be an object'', ''market-price-response-invalid''),
     (''Bitget ticker response has invalid lastPr'', ''market-price-invalid''),
     (''Bitget ticker price must be finite and positive'', ''market-price-invalid'')]"

definition SIZING_REASONS :: "(string \<times> string) list" where
  "SIZING_REASONS =
    [(''position-cap:'', ''position-cap-exceeded''), (''sl-guard:'', ''liquidation-stop-guard-refused''),
     (''min-notional'', ''minimum-notional-unmeetable''), (''no live leverage'', ''live-leverage-unavailable''),
     (''no stop-loss'', ''stop-loss-unavailable''), (''split-'', ''split-sizing-refused'')]"

definition ADMISSION_REASONS :: "string list" where
  "ADMISSION_REASONS =
    [''unsupported-exchange'', ''invalid-balance-snapshot'', ''invalid-balance-headroom'', ''invalid-margin-cap'',
     ''margin-cap-exceeded'', ''invalid-reservation-ttl'', ''missing-position-admission-evidence'', ''invalid-snapshot-age-policy'',
     ''stale-balance-snapshot'', ''future-balance-snapshot'', ''legacy-unowned-reservation'', ''symbol-already-owned'',
     ''position-cap-exceeded'', ''insufficient-reserved-headroom'']"

definition class_reason :: "Exn \<Rightarrow> string" where
  "class_reason e =
     (if (case e of KeyError _ \<Rightarrow> True | _ \<Rightarrow> False) then ''contract-not-found''
      else if is_value_error e then ''preflight-validation-failed''
      else if (case e of TimeoutError _ \<Rightarrow> True | _ \<Rightarrow> False) then ''preflight-timeout''
      else ''preflight-error'')"

definition message_reason :: "string \<Rightarrow> string option" where
  "message_reason message =
     (let sizing = ''Bitget live sizing rejected: ''; admission = ''Bitget margin admission rejected: '' in
      case map_of KNOWN_REASONS message of
        Some r \<Rightarrow> Some r
      | None \<Rightarrow>
          if starts_with message sizing then
            (case List.find (\<lambda>(prefix, _). starts_with (drop (length sizing) message) prefix) SIZING_REASONS of
               Some (_, r) \<Rightarrow> Some r | None \<Rightarrow> Some ''live-sizing-refused'')
          else if starts_with message admission then
            (let detail = drop (length admission) message in
             Some (if detail \<in> set ADMISSION_REASONS then detail else ''margin-admission-refused''))
          else None)"

definition preflight_reason :: "'v Dispatcher \<Rightarrow> Exn \<Rightarrow> string" where
  "preflight_reason dp e =
     (case map_of (sanitize_audit_evidence (dp_audit_evidence dp e)) ''code'' of
        Some (JStr code) \<Rightarrow> safe_reason_code code ''preflight-error''
      | _ \<Rightarrow> (case message_reason (exn_message e) of Some r \<Rightarrow> r | None \<Rightarrow> class_reason e))"

section \<open>The phases, last first\<close>

definition release_admission :: "'v Dispatcher \<Rightarrow> BitgetDispatch \<Rightarrow> BitgetEntrySubmission option \<Rightarrow> ('v DispWorld, unit) prog" where
  "release_admission dp d submission =
     (case (submission, dp_execution dp) of
        (Some s, Some ex) \<Rightarrow>
          (case ex_release_reservation ex of
             None \<Rightarrow> returnW ()
           | Some release \<Rightarrow>
               bindW (attemptW (venueW (release s))) (\<lambda>r.
                 case r of Inr _ \<Rightarrow> returnW () | Inl e \<Rightarrow> alertW dp d (''margin-release-error:'' @ exn_name e)))
      | _ \<Rightarrow> returnW ())"

definition STATUS_TARGETS :: "(string \<times> DispatchState) list" where
  "STATUS_TARGETS =
    [(''ACKNOWLEDGED'', ACKNOWLEDGED), (''FILLED'', FILLED), (''FILLED_FALLBACK'', FILLED), (''FILLED_UNPROTECTED'', FILLED),
     (''FILLED_LOCALLY_MANAGED'', FILLED), (''PARTIAL_UNPROTECTED'', PARTIALLY_FILLED),
     (''PARTIAL_LOCALLY_MANAGED'', PARTIALLY_FILLED), (''PARTIAL'', PARTIALLY_FILLED), (''REJECTED'', REJECTED)]"

definition outcome_reason :: "string \<Rightarrow> string option" where
  "outcome_reason status =
     (if status \<in> {''FILLED_UNPROTECTED'', ''PARTIAL_UNPROTECTED''} then Some ''missing-protection-escalated''
      else if status \<in> {''FILLED_LOCALLY_MANAGED'', ''PARTIAL_LOCALLY_MANAGED''} then Some ''locally-managed-protection''
      else if status = ''FILLED_FALLBACK'' then Some ''fallback-protection-active''
      else None)"

definition outcome_text :: "DispatchState \<Rightarrow> string" where
  "outcome_text target =
     (if target = ACKNOWLEDGED then ''acknowledged'' else if target = FILLED then ''filled''
      else if target = PARTIALLY_FILLED then ''partial'' else ''rejected'')"

definition settle_outcome :: "'v Dispatcher \<Rightarrow> BitgetDispatch \<Rightarrow> Exn + string \<Rightarrow> ('v DispWorld, string) prog" where
  "settle_outcome dp d r =
     (case r of
        Inl (TimeoutError _) \<Rightarrow>
          bindW (move dp d SUBMITTING UNKNOWN (Some ''provider-unknown'')) (\<lambda>_. returnW ''unknown'')
      | Inl e \<Rightarrow>
          let reason = ''provider-readback-error:'' @ exn_name e in
          bindW (move dp d SUBMITTING UNKNOWN (Some reason)) (\<lambda>_. bindW (alertW dp d reason) (\<lambda>_. returnW ''unknown''))
      | Inr status \<Rightarrow>
          if status = ''EXPIRED'' then returnW ''expired''
          else (case map_of STATUS_TARGETS status of
                  None \<Rightarrow> bindW (move dp d SUBMITTING UNKNOWN (Some ''provider-unknown'')) (\<lambda>_. returnW ''unknown'')
                | Some target \<Rightarrow>
                    bindW (move dp d SUBMITTING target (outcome_reason status)) (\<lambda>_. returnW (outcome_text target))))"

definition submit_call ::
  "'v Execution \<Rightarrow> BitgetDispatch \<Rightarrow> dec \<Rightarrow> BitgetEntrySubmission option \<Rightarrow> EntryRoute option \<Rightarrow> ('v venue, string) prog" where
  "submit_call ex d quantity submission route =
     (case (route, submission) of
        (None, None) \<Rightarrow> ex_submit_quantity ex d quantity
      | (None, Some s) \<Rightarrow> ex_submit_entry ex d s
      | (Some rt, _) \<Rightarrow> (case ex_submit_entry_route ex of Some f \<Rightarrow> f d quantity rt | None \<Rightarrow> raiseW (TypeError ''not callable'')))"

definition submit_phase ::
  "'v Dispatcher \<Rightarrow> 'v Execution \<Rightarrow> BitgetDispatch \<Rightarrow> dec \<Rightarrow> BitgetEntrySubmission option \<Rightarrow> EntryRoute option
    \<Rightarrow> ('v DispWorld, string) prog" where
  "submit_phase dp ex d quantity submission route =
     bindW (move dp d VALIDATED SUBMITTING None) (\<lambda>_.
     bindW (log_submit (bd_id d)) (\<lambda>_.
     bindW (attemptW (venueW (submit_call ex d quantity submission route))) (settle_outcome dp d)))"

definition execution_phase ::
  "'v Dispatcher \<Rightarrow> BitgetDispatch \<Rightarrow> dec \<Rightarrow> BitgetEntrySubmission option \<Rightarrow> EntryRoute option \<Rightarrow> ('v DispWorld, string) prog" where
  "execution_phase dp d quantity submission route =
     bindW (move dp d PREFLIGHT SIZED None) (\<lambda>_.
     bindW (move dp d SIZED VALIDATED None) (\<lambda>_.
       let refuse = (\<lambda>reason. bindW (release_admission dp d submission) (\<lambda>_. rejected_as dp d VALIDATED reason ''rejected'')) in
       case dp_execution dp of
         None \<Rightarrow> refuse ''missing-execution-client''
       | Some ex \<Rightarrow>
           if route \<noteq> None \<and> ex_submit_entry_route ex = None then refuse ''entry-routing-unsupported''
           else bindW (if 0 < dg_canary_max_orders (dp_gate dp)
                       then repoW dp (\<lambda>now tid. reserve_canary_entry (bd_id d) ''bitget'' (dg_canary_max_orders (dp_gate dp)))
                       else returnW True) (\<lambda>granted.
             if \<not> granted then refuse ''canary-order-cap-reached''
             else submit_phase dp ex d quantity submission route)))"

definition direction_of :: "string \<Rightarrow> (Exn, Direction) raises" where
  "direction_of s = (if s = ''LONG'' then Inr LONG else if s = ''SHORT'' then Inr SHORT
     else Inl (ValueError (s @ '' is not a valid Direction'')))"

definition dispatch_route :: "timestamp \<Rightarrow> BitgetDispatch \<Rightarrow> dec \<Rightarrow> EntryRoutingSnapshot \<Rightarrow> (Exn, EntryRoute) raises" where
  "dispatch_route now d quantity sn =
     bindE (direction_of (bd_direction d)) (\<lambda>direction.
       route_entry \<lparr>rr_direction = direction, rr_signal_entry = bd_entry_price d, rr_market_price = sn_market_price sn,
         rr_total_quantity = quantity, rr_late_threshold_pct = sn_late_threshold_pct sn, rr_limit_context = sn_limit_context sn,
         rr_near_limit_threshold_pct = sn_near_limit_threshold_pct sn, rr_now = now, rr_source_received_at = None,
         rr_recent_window_seconds = 60, rr_force_market = False\<rparr>)"

definition routing_phase ::
  "'v Dispatcher \<Rightarrow> BitgetDispatch \<Rightarrow> dec \<Rightarrow> BitgetEntrySubmission option \<Rightarrow> ('v DispWorld, string) prog" where
  "routing_phase dp d quantity submission =
     (case dp_entry_routing dp of
        None \<Rightarrow> execution_phase dp d quantity submission None
      | Some context \<Rightarrow>
          bindW (attemptW (bindW (venueW (context (bd_pair_token d))) (\<lambda>sn w.
                   (dispatch_route (dp_clock dp (dw_calls w)) d quantity sn, w)))) (\<lambda>r.
            case r of
              Inl e \<Rightarrow> bindW (release_admission dp d submission) (\<lambda>_.
                rejected_as dp d PREFLIGHT (''entry-routing-error:'' @ exn_name e) ''rejected'')
            | Inr route \<Rightarrow> execution_phase dp d quantity submission (Some route)))"

definition preflight_call :: "'v Dispatcher \<Rightarrow> BitgetDispatch \<Rightarrow> ('v DispWorld, dec \<times> BitgetEntrySubmission option) prog" where
  "preflight_call dp d =
     bindW (venueW (dp_preflight dp d)) (\<lambda>pf.
       case pf of
         Admitted s \<Rightarrow> returnW (es_quantity s, Some s)
       | PaperSized spec risk \<Rightarrow>
           bindW (liftE (minimum_safe_plan spec risk (bd_entry_price d))) (\<lambda>plan. returnW (sp_quantity plan, None)))"

definition preflight_phase :: "'v Dispatcher \<Rightarrow> BitgetDispatch \<Rightarrow> ('v DispWorld, string) prog" where
  "preflight_phase dp d =
     bindW (move dp d QUEUED PREFLIGHT None) (\<lambda>_.
     bindW (attemptW (preflight_call dp d)) (\<lambda>r.
       case r of
         Inl (SourceFreshnessExpired _) \<Rightarrow> returnW ''expired''
       | Inl e \<Rightarrow> rejected_as dp d PREFLIGHT (preflight_reason dp e) ''rejected''
       | Inr (quantity, submission) \<Rightarrow> routing_phase dp d quantity submission))"

definition canonical_signal :: "BitgetDispatch \<Rightarrow> (Exn, CanonicalSignal) raises" where
  "canonical_signal d =
     bindE (direction_of (bd_direction d)) (\<lambda>direction.
       make_signal \<lparr>cs_source_message_id = 1, cs_source_revision = replicate 64 (CHR ''0''), cs_pair_token = bd_pair_token d,
         cs_direction = direction, cs_entry_price = bd_entry_price d, cs_stop_loss = bd_stop_loss d,
         cs_take_profits = bd_take_profits d\<rparr>)"

definition validation_phase :: "'v Dispatcher \<Rightarrow> BitgetDispatch \<Rightarrow> ('v DispWorld, string) prog" where
  "validation_phase dp d =
     (case canonical_signal d of
        Inl _ \<Rightarrow> rejected_as dp d QUEUED ''invalid-canonical-signal'' ''rejected''
      | Inr _ \<Rightarrow> preflight_phase dp d)"

definition admission_phase :: "'v Dispatcher \<Rightarrow> BitgetDispatch \<Rightarrow> ('v DispWorld, string) prog" where
  "admission_phase dp d =
     (case dp_protection_admission dp of
        None \<Rightarrow> validation_phase dp d
      | Some admit \<Rightarrow>
          bindW (attemptW (venueW (admit (bd_pair_token d)))) (\<lambda>r.
            case r of
              Inl e \<Rightarrow> rejected_as dp d QUEUED (''protection-admission-error:'' @ exn_name e) ''rejected''
            | Inr (ok, reason) \<Rightarrow>
                if \<not> ok then rejected_as dp d QUEUED (safe_reason_code reason ''protection-admission-denied'') ''rejected''
                else validation_phase dp d))"

definition gate_phase :: "'v Dispatcher \<Rightarrow> BitgetDispatch \<Rightarrow> ('v DispWorld, string) prog" where
  "gate_phase dp d =
     bindW (readW (kill_switch_active ''bitget'')) (\<lambda>venue_latched.
     bindW (readW (kill_switch_active PROTECTION_STREAM_SCOPE)) (\<lambda>stream_latched.
       if dp_kill_switch dp \<and> venue_latched then rejected_as dp d QUEUED ''kill-switch-latched'' ''kill-switch-latched''
       else if dp_kill_switch dp \<and> stream_latched then rejected_as dp d QUEUED ''protection-stream-latched'' ''protection-stream-latched''
       else if \<not> dg_execution_enabled (dp_gate dp) then rejected_as dp d QUEUED ''cutover-gated'' ''cutover-gated''
       else if 0 < dg_canary_max_orders (dp_gate dp)
               \<and> (case dg_canary_symbol (dp_gate dp) of None \<Rightarrow> False | Some s \<Rightarrow> bd_pair_token d \<noteq> s)
       then rejected_as dp d QUEUED ''canary-symbol-mismatch'' ''rejected''
       else admission_phase dp d))"

definition claimW :: "'v Dispatcher \<Rightarrow> string \<Rightarrow> int \<Rightarrow> ('v DispWorld, BitgetDispatch option) prog" where
  "claimW dp worker seconds w =
     repoW dp (\<lambda>now tid. claim_dispatch (dp_locked dp) \<lparr>rk_now = now, rk_clock = dp_statement_clock dp (dw_calls w)\<rparr>
       (dp_expiry_uuid dp) worker seconds) w"

definition run_once :: "'v Dispatcher \<Rightarrow> string \<Rightarrow> int \<Rightarrow> ('v DispWorld, string) prog" where
  "run_once dp worker seconds =
     bindW (claimW dp worker seconds) (\<lambda>claimed.
       case claimed of
         None \<Rightarrow> returnW ''idle''
       | Some d \<Rightarrow>
           (case bitget_symbol (bd_pair_token d) of
              Inl _ \<Rightarrow> rejected_as dp d QUEUED ''invalid-dispatch-symbol'' ''rejected''
            | Inr symbol \<Rightarrow> gate_phase dp (d\<lparr>bd_pair_token := symbol\<rparr>)))"

section \<open>Lemmas\<close>

text \<open>The durable state each returned status stands for.\<close>

definition status_state :: "string \<Rightarrow> DispatchState option" where
  "status_state status = map_of
     [(''rejected'', REJECTED), (''kill-switch-latched'', REJECTED), (''protection-stream-latched'', REJECTED),
      (''cutover-gated'', REJECTED), (''unknown'', UNKNOWN), (''acknowledged'', ACKNOWLEDGED), (''filled'', FILLED),
      (''partial'', PARTIALLY_FILLED)] status"

definition settled :: "UUID \<Rightarrow> string \<Rightarrow> Db \<Rightarrow> bool" where
  "settled did status db \<longleftrightarrow> status = ''expired'' \<or> (\<exists>st. status_state status = Some st \<and> in_state did st db)"

lemma settled_rejected:
  assumes "status \<in> {''rejected'', ''kill-switch-latched'', ''protection-stream-latched'', ''cutover-gated''}" "in_state did REJECTED db"
  shows "settled did status db"
  using assms by (auto simp: settled_def status_state_def)

text \<open>What no repository call and no venue call touches: the log of submissions.\<close>

lemma triple_repo:
  fixes dp :: "'v Dispatcher"
  assumes "\<And>db0 now tid db a. R db0 \<Longrightarrow> f now tid db0 = Inr (db, a) \<Longrightarrow> Q a db"
  shows "triple (\<lambda>w. P (dw_submits w) \<and> R (dw_db w)) (repoW dp f) (\<lambda>a w. P (dw_submits w) \<and> Q a (dw_db w)) (\<lambda>_ w. P (dw_submits w))"
  unfolding triple_def
proof (intro allI impI)
  fix w :: "'v DispWorld"
  assume w: "P (dw_submits w) \<and> R (dw_db w)"
  then show "case repoW dp f w of (Inr x, w') \<Rightarrow> P (dw_submits w') \<and> Q x (dw_db w') | (Inl e, w') \<Rightarrow> P (dw_submits w')"
    using assms [of "dw_db w"]
    by (cases "f (dp_clock dp (dw_calls w)) (dp_uuid dp (dw_calls w)) (dw_db w)") (auto simp: repoW_def transactW_def Let_def)
qed

lemma triple_repo_quiet:
  "triple (\<lambda>w. P (dw_submits w)) (repoW dp f) (\<lambda>_ w. P (dw_submits w)) (\<lambda>_ w. P (dw_submits w))"
  using triple_repo [of "\<lambda>_. True" f "\<lambda>_ _. True" P dp] by simp

lemma triple_venue:
  "triple (\<lambda>w. P (dw_submits w)) (venueW p) (\<lambda>_ w. P (dw_submits w)) (\<lambda>_ w. P (dw_submits w))"
  by (auto simp: triple_def venueW_def split: prod.splits sum.splits)

lemma triple_read: "triple P (readW f) (\<lambda>x w. P w \<and> x = f (dw_db w)) E"
  by (simp add: triple_def readW_def)

text \<open>A transition that returns leaves the dispatch durably in its target state.\<close>

lemma transition_in_state:
  assumes "transition now tid did expected target reason db = Inr db'"
  shows "in_state did target db'"
proof -
  obtain x where x: "x \<in> set (db_dispatches db)" "transition_target did expected x"
    using assms by (auto simp: transition_def Let_def list_ex_iff split: if_splits)
  then have "transition_row now target (safe_transition_reason reason) x \<in> set (db_dispatches db')"
    using transition_dispatches [OF assms] by (auto simp: set_update_where)
  moreover have "ds_id (transition_row now target (safe_transition_reason reason) x) = did"
    "ds_state (transition_row now target (safe_transition_reason reason) x) = target"
    using x(2) by (simp_all add: transition_row_def transition_target_def)
  ultimately show ?thesis unfolding in_state_def list_ex_iff by blast
qed

lemma triple_move:
  "triple (\<lambda>w. P (dw_submits w)) (move dp d expected target reason)
     (\<lambda>_ w. P (dw_submits w) \<and> in_state (bd_id d) target (dw_db w)) (\<lambda>_ w. P (dw_submits w))"
proof -
  have "triple (\<lambda>w. P (dw_submits w) \<and> True) (move dp d expected target reason)
     (\<lambda>_ w. P (dw_submits w) \<and> in_state (bd_id d) target (dw_db w)) (\<lambda>_ w. P (dw_submits w))"
    unfolding move_def by (rule triple_repo) (auto simp: run_simps dest: transition_in_state)
  then show ?thesis by simp
qed

lemma triple_alert:
  "triple (\<lambda>w. P (dw_submits w) \<and> in_state did st (dw_db w)) (alertW dp d reason)
     (\<lambda>_ w. P (dw_submits w) \<and> in_state did st (dw_db w)) (\<lambda>_ w. P (dw_submits w))"
  unfolding alertW_def
  by (rule triple_repo) (auto simp: run_simps alert_dispatch_def enqueue_def in_state_def split: if_splits)

lemma triple_alert_quiet:
  "triple (\<lambda>w. P (dw_submits w)) (alertW dp d reason) (\<lambda>_ w. P (dw_submits w)) (\<lambda>_ w. P (dw_submits w))"
  unfolding alertW_def by (rule triple_repo_quiet)

lemma settle_return:
  assumes "status_state status = Some st"
  shows "triple (\<lambda>w. P (dw_submits w) \<and> in_state did st (dw_db w)) (returnW status)
    (\<lambda>s w. P (dw_submits w) \<and> settled did s (dw_db w)) (\<lambda>_ w. P (dw_submits w))"
  by (rule triple_return) (use assms in \<open>simp add: settled_def\<close>)

lemmas move_then = triple_bind [OF triple_move]
lemmas alert_then = triple_bind [OF triple_alert]

lemma triple_rejected_as:
  assumes "status \<in> {''rejected'', ''kill-switch-latched'', ''protection-stream-latched'', ''cutover-gated''}"
  shows "triple (\<lambda>w. P (dw_submits w)) (rejected_as dp d current reason status)
    (\<lambda>s w. P (dw_submits w) \<and> settled (bd_id d) s (dw_db w)) (\<lambda>_ w. P (dw_submits w))"
proof -
  have st: "status_state status = Some REJECTED" using assms by (auto simp: status_state_def)
  have "triple (\<lambda>w. P (dw_submits w)) (reject dp d current reason)
      (\<lambda>_ w. P (dw_submits w) \<and> in_state (bd_id d) REJECTED (dw_db w)) (\<lambda>_ w. P (dw_submits w))"
    unfolding reject_def by (intro move_then triple_if triple_alert triple_return)
  then show ?thesis unfolding rejected_as_def by (rule triple_bind) (rule settle_return [OF st])
qed

lemma triple_release:
  "triple (\<lambda>w. P (dw_submits w)) (release_admission dp d submission) (\<lambda>_ w. P (dw_submits w)) (\<lambda>_ w. P (dw_submits w))"
  unfolding release_admission_def
  by (auto intro!: triple_bind triple_attempt [OF triple_venue] triple_return triple_alert_quiet split: option.split sum.split)

lemma outcome_text_settled: "(status, target) \<in> set STATUS_TARGETS \<Longrightarrow> status_state (outcome_text target) = Some target"
  by (auto simp: STATUS_TARGETS_def outcome_text_def status_state_def)

lemma triple_settle_outcome:
  fixes dp :: "'v Dispatcher"
  shows "triple (\<lambda>w. P (dw_submits w)) (settle_outcome dp d r)
     (\<lambda>s w. P (dw_submits w) \<and> settled (bd_id d) s (dw_db w)) (\<lambda>_ w. P (dw_submits w))"
proof (cases r)
  case (Inl e)
  have unknown: "status_state ''unknown'' = Some UNKNOWN" by (simp add: status_state_def)
  show ?thesis
    unfolding Inl settle_outcome_def
    by (cases e) (simp_all add: Let_def, (rule move_then, (rule alert_then)?, rule settle_return [OF unknown])+)
next
  case (Inr status)
  have unknown: "status_state ''unknown'' = Some UNKNOWN" by (simp add: status_state_def)
  have expired: "triple (\<lambda>w. P (dw_submits w)) (returnW ''expired'' :: ('v DispWorld, string) prog)
      (\<lambda>s w. P (dw_submits w) \<and> settled (bd_id d) s (dw_db w)) (\<lambda>_ w. P (dw_submits w))"
    by (rule triple_return) (simp add: settled_def)
  show ?thesis
  proof (cases "map_of STATUS_TARGETS status")
    case None
    have "triple (\<lambda>w. P (dw_submits w)) (bindW (move dp d SUBMITTING UNKNOWN (Some ''provider-unknown'')) (\<lambda>_. returnW ''unknown''))
       (\<lambda>s w. P (dw_submits w) \<and> settled (bd_id d) s (dw_db w)) (\<lambda>_ w. P (dw_submits w))"
      by (rule move_then) (rule settle_return [OF unknown])
    then show ?thesis using None expired unfolding settle_outcome_def Inr by simp
  next
    case (Some target)
    then have "status_state (outcome_text target) = Some target" using outcome_text_settled map_of_SomeD by fast
    then have "triple (\<lambda>w. P (dw_submits w))
       (bindW (move dp d SUBMITTING target (outcome_reason status)) (\<lambda>_. returnW (outcome_text target)))
       (\<lambda>s w. P (dw_submits w) \<and> settled (bd_id d) s (dw_db w)) (\<lambda>_ w. P (dw_submits w))"
      by (intro move_then settle_return)
    then show ?thesis using Some expired unfolding settle_outcome_def Inr by simp
  qed
qed

text \<open>Most outcomes are not moves of the dispatch state machine of \<open>domain/state_machines.py\<close>, which lets
  SUBMITTING go to ACKNOWLEDGED, UNKNOWN or FAILED only.\<close>

lemma outcomes_outside_state_machine:
  "target \<in> snd ` set STATUS_TARGETS \<Longrightarrow> target \<in> set (allowed SUBMITTING) \<longleftrightarrow> target = ACKNOWLEDGED"
  by (auto simp: STATUS_TARGETS_def)

text \<open>The log after a run: nothing, or one submission of the durably SUBMITTING dispatch through an open gate.\<close>

definition submits_ok :: "'v Dispatcher \<Rightarrow> UUID \<Rightarrow> (UUID \<times> bool) list \<Rightarrow> (UUID \<times> bool) list \<Rightarrow> bool" where
  "submits_ok dp did base posts \<longleftrightarrow> posts = base
     \<or> posts = base @ [(did, True)] \<and> dg_execution_enabled (dp_gate dp) \<and> dp_execution dp \<noteq> None"

definition runs_safely :: "'v Dispatcher \<Rightarrow> UUID \<Rightarrow> (UUID \<times> bool) list \<Rightarrow> ('v DispWorld, string) prog \<Rightarrow> bool" where
  "runs_safely dp did base p = triple (\<lambda>w. dw_submits w = base) p
     (\<lambda>s w. submits_ok dp did base (dw_submits w) \<and> settled did s (dw_db w)) (\<lambda>_ w. submits_ok dp did base (dw_submits w))"

definition silently :: "('v DispWorld, 'a) prog \<Rightarrow> bool" where
  "silently p \<longleftrightarrow> (\<forall>P. triple (\<lambda>w. P (dw_submits w)) p (\<lambda>_ w. P (dw_submits w)) (\<lambda>_ w. P (dw_submits w)))"

named_theorems silent_rules \<open>programs that leave the submissions alone\<close>

lemma silently_P: "silently p \<Longrightarrow> triple (\<lambda>w. P (dw_submits w)) p (\<lambda>_ w. P (dw_submits w)) (\<lambda>_ w. P (dw_submits w))"
  by (simp add: silently_def)

lemma silently_triple: "silently p \<Longrightarrow> triple (\<lambda>w. dw_submits w = base) p (\<lambda>_ w. dw_submits w = base) (\<lambda>_ w. dw_submits w = base)"
  by (rule silently_P [where P = "\<lambda>s. s = base"])

lemma silently_keeps: "silently p \<longleftrightarrow> keepsW (\<lambda>w w'. dw_submits w' = dw_submits w) p"
proof
  assume p: "silently p"
  have "dw_submits (snd (p w)) = dw_submits w" for w
  proof -
    have "case p w of (Inr x, w') \<Rightarrow> dw_submits w' = dw_submits w | (Inl e, w') \<Rightarrow> dw_submits w' = dw_submits w"
      using silently_triple [OF p, of "dw_submits w"] by (simp add: triple_def)
    then show ?thesis by (simp split: prod.splits sum.splits)
  qed
  then show "keepsW (\<lambda>w w'. dw_submits w' = dw_submits w) p" by (simp add: keepsW_def)
next
  assume keeps: "keepsW (\<lambda>w w'. dw_submits w' = dw_submits w) p"
  then have "dw_submits (snd (p w)) = dw_submits w" for w by (simp add: keepsW_def)
  then show "silently p" unfolding silently_def triple_def by (metis (no_types, lifting) case_prod_unfold sum.case_eq_if)
qed

lemma silently_basic [silent_rules]:
  "silently (returnW x)" "silently (readW f)" "silently (liftE r)" "silently (venueW p)" "silently (repoW dp g)"
  "silently (\<lambda>w. (h w, w))"
  by (simp_all add: silently_keeps keepsW_def returnW_def readW_def liftE_def venueW_def repoW_def transactW_def Let_def split: prod.split sum.split)

lemma silently_bind [silent_rules]: "silently m \<Longrightarrow> (\<And>x. silently (f x)) \<Longrightarrow> silently (bindW m f)"
  unfolding silently_keeps by (rule keepsW_bind) (auto simp: transp_def)

lemma silently_attempt [silent_rules]: "silently m \<Longrightarrow> silently (attemptW m)"
  by (auto simp: silently_keeps keepsW_def attemptW_def split: prod.split) (metis snd_conv)

lemma silently_release [silent_rules]: "silently (release_admission dp d submission)"
  unfolding release_admission_def alertW_def by (auto intro!: silent_rules split: option.split sum.split)

lemma silently_preflight [silent_rules]: "silently (preflight_call dp d)"
  unfolding preflight_call_def by (auto intro!: silent_rules split: Preflight.split)

lemma silently_move [silent_rules]: "silently (move dp d expected target reason)"
  unfolding move_def by (rule silent_rules)

lemma runs_bind: "silently m \<Longrightarrow> (\<And>x. runs_safely dp did base (f x)) \<Longrightarrow> runs_safely dp did base (bindW m f)"
  unfolding runs_safely_def
  by (rule triple_bind [where R = "\<lambda>_ w. dw_submits w = base"], rule triple_post [OF silently_triple]) (auto simp: submits_ok_def)

lemma safely_rejected:
  assumes "status \<in> {''rejected'', ''kill-switch-latched'', ''protection-stream-latched'', ''cutover-gated''}"
  shows "runs_safely dp (bd_id d) base (rejected_as dp d current reason status)"
  unfolding runs_safely_def
  by (rule triple_post [OF triple_rejected_as [OF assms, where P = "\<lambda>s. s = base"]]) (auto simp: submits_ok_def)

lemma safely_expired: "runs_safely dp did base (returnW ''expired'')"
  unfolding runs_safely_def by (rule triple_return) (simp add: submits_ok_def settled_def)

lemma runs_submit:
  assumes "dg_execution_enabled (dp_gate dp)" "dp_execution dp = Some ex"
  shows "runs_safely dp (bd_id d) base (submit_phase dp ex d quantity submission route)"
  unfolding runs_safely_def submit_phase_def
proof (rule triple_bind)
  show "triple (\<lambda>w. dw_submits w = base) (move dp d VALIDATED SUBMITTING None)
      (\<lambda>_ w. dw_submits w = base \<and> in_state (bd_id d) SUBMITTING (dw_db w)) (\<lambda>_ w. submits_ok dp (bd_id d) base (dw_submits w))"
    by (rule triple_post [OF triple_move [where P = "\<lambda>s. s = base"]]) (auto simp: submits_ok_def)
  fix u
  have "triple (\<lambda>w. dw_submits w = base \<and> in_state (bd_id d) SUBMITTING (dw_db w)) (log_submit (bd_id d))
      (\<lambda>_ w. submits_ok dp (bd_id d) base (dw_submits w)) (\<lambda>_ w. submits_ok dp (bd_id d) base (dw_submits w))"
    using assms by (auto simp: triple_def log_submit_def submits_ok_def)
  moreover have "triple (\<lambda>w. submits_ok dp (bd_id d) base (dw_submits w)) (attemptW (venueW (submit_call ex d quantity submission route)))
      (\<lambda>_ w. submits_ok dp (bd_id d) base (dw_submits w)) (\<lambda>_ w. submits_ok dp (bd_id d) base (dw_submits w))"
    by (intro silently_P silent_rules)
  ultimately show "triple (\<lambda>w. dw_submits w = base \<and> in_state (bd_id d) SUBMITTING (dw_db w))
      (bindW (log_submit (bd_id d)) (\<lambda>_. bindW (attemptW (venueW (submit_call ex d quantity submission route))) (settle_outcome dp d)))
      (\<lambda>s w. submits_ok dp (bd_id d) base (dw_submits w) \<and> settled (bd_id d) s (dw_db w)) (\<lambda>_ w. submits_ok dp (bd_id d) base (dw_submits w))"
    by (intro triple_bind) (assumption | rule triple_settle_outcome [where P = "submits_ok dp (bd_id d) base"])+
qed

lemmas safely_refused = runs_bind [OF silently_release safely_rejected]

lemma safely_execution:
  assumes "dg_execution_enabled (dp_gate dp)"
  shows "runs_safely dp (bd_id d) base (execution_phase dp d quantity submission route)"
  unfolding execution_phase_def Let_def
  by (rule runs_bind [OF silently_move], rule runs_bind [OF silently_move])
    (auto intro!: safely_refused runs_bind silent_rules runs_submit [OF assms] split: option.split)

lemma safely_routing:
  assumes "dg_execution_enabled (dp_gate dp)"
  shows "runs_safely dp (bd_id d) base (routing_phase dp d quantity submission)"
  unfolding routing_phase_def
  by (auto intro!: safely_execution [OF assms] safely_refused runs_bind [OF silently_attempt] silent_rules split: option.split sum.split)

lemma safely_preflight:
  assumes "dg_execution_enabled (dp_gate dp)"
  shows "runs_safely dp (bd_id d) base (preflight_phase dp d)"
  unfolding preflight_phase_def
  by (rule runs_bind [OF silently_move], rule runs_bind [OF silently_attempt [OF silently_preflight]])
    (auto intro!: safely_routing [OF assms] safely_rejected safely_expired split: sum.split Exn.split)

lemma safely_admission:
  assumes "dg_execution_enabled (dp_gate dp)"
  shows "runs_safely dp (bd_id d) base (admission_phase dp d)"
  unfolding admission_phase_def validation_phase_def
  by (auto intro!: safely_preflight [OF assms] safely_rejected runs_bind [OF silently_attempt] silent_rules split: option.split sum.split)

lemma safely_gate: "runs_safely dp (bd_id d) base (gate_phase dp d)"
  unfolding gate_phase_def
  by (rule runs_bind [OF silently_basic(2)], rule runs_bind [OF silently_basic(2)]) (auto intro!: safely_rejected safely_admission)

lemma safely_claimed:
  "runs_safely dp (bd_id d) base
     (case bitget_symbol (bd_pair_token d) of
        Inl _ \<Rightarrow> rejected_as dp d QUEUED ''invalid-dispatch-symbol'' ''rejected''
      | Inr symbol \<Rightarrow> gate_phase dp (d\<lparr>bd_pair_token := symbol\<rparr>))"
  using safely_gate [of dp "d\<lparr>bd_pair_token := _\<rparr>"] by (auto intro!: safely_rejected split: sum.split)

lemma insert_expiry_keeps_switches:
  "insert_expiry_transition tid did state db = Inr db' \<Longrightarrow> db_kill_switches db' = db_kill_switches db"
  by (auto simp: insert_expiry_transition_def Let_def split: if_splits)

lemma expire_keeps_switches:
  "expire_source_dispatch now tid did state db = Inr db' \<Longrightarrow> db_kill_switches db' = db_kill_switches db"
  unfolding expire_source_dispatch_def Let_def
  by (auto simp: bindE_Inr_iff write_reservations_def dest: insert_expiry_keeps_switches split: if_splits)

lemma expire_all_keeps_switches: "expire_all now uuid ds db = Inr db' \<Longrightarrow> db_kill_switches db' = db_kill_switches db"
  by (induction ds arbitrary: db) (auto simp: run_simps dest: expire_keeps_switches)

lemma claim_keeps_switches:
  assumes "claim_dispatch locked rk uuid worker seconds db = Inr (db', r)"
  shows "kill_switch_active scope db' = kill_switch_active scope db"
proof -
  have "db_kill_switches db' = db_kill_switches db"
    using assms by (cases rule: claim_dispatch_cases) (auto simp: retire_stale_def dest: expire_all_keeps_switches)
  then show ?thesis by (simp add: kill_switch_active_def find_switch_def)
qed

lemma claimW_cases:
  assumes "claimW dp worker seconds w = (r, w')"
  shows "dw_submits w' = dw_submits w"
    and "r = Inr x \<Longrightarrow> kill_switch_active scope (dw_db w') = kill_switch_active scope (dw_db w)"
  using assms claim_keeps_switches
  by (auto simp: claimW_def repoW_def transactW_def Let_def split: sum.splits prod.splits)

definition latched :: "'v Dispatcher \<Rightarrow> Db \<Rightarrow> bool" where
  "latched dp db \<longleftrightarrow> dp_kill_switch dp \<and> (kill_switch_active ''bitget'' db \<or> kill_switch_active PROTECTION_STREAM_SCOPE db)"

lemma silently_rejected [silent_rules]: "silently (rejected_as dp d current reason status)"
  unfolding rejected_as_def reject_def alertW_def by (auto intro!: silent_rules)

lemma latched_gate: "latched dp (dw_db w) \<Longrightarrow> dw_submits (snd (gate_phase dp d w)) = dw_submits w"
  using silently_rejected [of dp d] unfolding silently_keeps keepsW_def
  by (auto simp: latched_def gate_phase_def bindW_def readW_def)

lemma run_once_cases:
  assumes "run_once dp worker seconds w = (r, w')"
  obtains (unclaimed) w1 r1 where "claimW dp worker seconds w = (r1, w1)" "w' = w1" "\<And>d. r1 \<noteq> Inr (Some d)" "\<And>s. r = Inr s \<Longrightarrow> s = ''idle''"
  | (claimed) d w1 where "claimW dp worker seconds w = (Inr (Some d), w1)"
      "(case bitget_symbol (bd_pair_token d) of
          Inl _ \<Rightarrow> rejected_as dp d QUEUED ''invalid-dispatch-symbol'' ''rejected''
        | Inr symbol \<Rightarrow> gate_phase dp (d\<lparr>bd_pair_token := symbol\<rparr>)) w1 = (r, w')"
proof -
  obtain r1 w1 where one: "claimW dp worker seconds w = (r1, w1)" by (cases "claimW dp worker seconds w")
  show ?thesis
  proof (cases "\<exists>d. r1 = Inr (Some d)")
    case True
    then show ?thesis using one assms claimed by (auto simp: run_once_def bindW_def)
  next
    case False
    then show ?thesis using one assms unclaimed by (auto simp: run_once_def bindW_def returnW_def split: sum.splits option.splits)
  qed
qed

section \<open>Properties\<close>

text \<open>
  C4: a pass of the dispatcher submits at most one order, and only safely. Whatever the venue,
  the admission, the preflight and the routing do, and whether the pass returns or raises, the
  submissions made are those made before, or one more: of the dispatch this pass claimed, durably
  SUBMITTING at the moment of the call, with the execution gate open, an execution client present
  and neither kill switch latched at the claim.
\<close>

theorem run_once_submits_safely:
  assumes "run_once dp worker seconds w = (r, w')" and "dw_submits w' \<noteq> dw_submits w"
  shows "\<exists>d w1. claimW dp worker seconds w = (Inr (Some d), w1) \<and> dw_submits w' = dw_submits w @ [(bd_id d, True)]
    \<and> dg_execution_enabled (dp_gate dp) \<and> dp_execution dp \<noteq> None \<and> \<not> latched dp (dw_db w)"
  using assms(1)
proof (cases rule: run_once_cases)
  case (unclaimed w1 r1)
  then show ?thesis using assms(2) claimW_cases(1) by metis
next
  case (claimed d w1)
  have "submits_ok dp (bd_id d) (dw_submits w1) (dw_submits w')"
    using tripleD [OF safely_claimed [unfolded runs_safely_def] refl] tripleDE [OF safely_claimed [unfolded runs_safely_def] refl]
      claimed(2) by (cases r) blast+
  moreover have "\<not> latched dp (dw_db w)"
  proof
    assume "latched dp (dw_db w)"
    then have on: "latched dp (dw_db w1)" using claimW_cases(2) [OF claimed(1)] by (simp add: latched_def)
    have "dw_submits w' = dw_submits w1"
      using claimed(2) latched_gate [OF on] silently_rejected [of dp d] unfolding silently_keeps keepsW_def
      by (cases "bitget_symbol (bd_pair_token d)") (auto, metis snd_conv, metis snd_conv)
    then show False using assms(2) claimW_cases(1) [OF claimed(1)] by simp
  qed
  ultimately show ?thesis using assms(2) claimed(1) claimW_cases(1) [OF claimed(1)] by (auto simp: submits_ok_def)
qed

definition sample_submission :: BitgetEntrySubmission where
  "sample_submission = \<lparr>es_quantity = 5, es_effective_leverage = 10, es_planned_margin_usdt = 1, es_planned_notional_usdt = 8,
     es_margin_mode = ''ISOLATED'', es_balance_snapshot_id = 21, es_margin_reservation_id = 7, es_observed_at = 1990,
     es_planned_stop_loss = 157 / 100, es_planned_take_profits = [17 / 10], es_entry_route = None\<rparr>"

definition sample_execution :: "nat Execution" where
  "sample_execution = \<lparr>ex_submit_quantity = (\<lambda>_ _ v. (Inr ''REJECTED'', v)), ex_submit_entry = (\<lambda>_ _ v. (Inr ''FILLED_FALLBACK'', fst v, snd v + 1)),
     ex_submit_entry_route = None, ex_release_reservation = None\<rparr>"

definition sample_dispatcher :: "nat Dispatcher" where
  "sample_dispatcher = \<lparr>dp_gate = \<lparr>dg_execution_enabled = True, dg_canary_max_orders = 1, dg_canary_symbol = Some ''ZROUSDT''\<rparr>,
     dp_kill_switch = True, dp_protection_admission = Some (\<lambda>_ v. (Inr (True, []), v)),
     dp_preflight = (\<lambda>_ v. (Inr (Admitted sample_submission), v)), dp_entry_routing = None, dp_execution = Some sample_execution,
     dp_audit_evidence = (\<lambda>_. JNull), dp_locked = (\<lambda>_. False), dp_clock = (\<lambda>n. 2000 + int n), dp_statement_clock = (\<lambda>n. 2001 + int n),
     dp_uuid = (\<lambda>n. 500 + int n), dp_expiry_uuid = (\<lambda>d. 900 + d)\<rparr>"

definition sample_world :: "nat DispWorld" where
  "sample_world = \<lparr>dw_db = queue_db, dw_venue = 0, dw_calls = 0, dw_submits = []\<rparr>"

definition sample_pass :: "(Exn, string) raises \<times> nat DispWorld" where
  "sample_pass = run_once sample_dispatcher ''w1'' 60 sample_world"

theorem run_once_submits_safely_witness:
  "\<exists>d w1. claimW sample_dispatcher ''w1'' 60 sample_world = (Inr (Some d), w1) \<and> dw_submits (snd sample_pass) = [(bd_id d, True)]"
proof -
  have "run_once sample_dispatcher ''w1'' 60 sample_world = (fst sample_pass, snd sample_pass)" by (simp add: sample_pass_def)
  moreover have "dw_submits (snd sample_pass) \<noteq> dw_submits sample_world" by code_simp
  ultimately show ?thesis using run_once_submits_safely by (fastforce simp: sample_world_def)
qed



end
