(* ===== verification/Workers.thy ===== *)
theory Workers
  imports Live_Intents
begin

text \<open>
  Several workers run the trader's code over one database and one venue: the entry dispatcher, the
  fallback monitors, the console, other processes. Before each effect of a worker the others may do
  anything, \<open>wk_others\<close>; a database call may find the server down. Every order the trader posts
  is preceded by a durable claim of its client order id; the claims granted and the orders posted are
  logged with their worker. This theory has the effects and the rules to prove, for one worker, that
  no client order id is posted twice whatever the others do.
\<close>

section \<open>Effects\<close>

record 'v WorkerWorld =
  ww_db :: Db
  ww_venue :: 'v
  ww_tick :: nat
  ww_wins :: "(nat \<times> string) list"   \<comment> \<open>order claims granted: worker and client order id\<close>
  ww_posts :: "(nat \<times> string) list"  \<comment> \<open>orders posted\<close>

record 'v Worker =
  wk_id :: nat
  wk_others :: "nat \<Rightarrow> 'v WorkerWorld \<Rightarrow> 'v WorkerWorld"
  wk_db_down :: "nat \<Rightarrow> bool"
  wk_now :: "nat \<Rightarrow> timestamp"

definition othersW :: "('v, 'z) Worker_scheme \<Rightarrow> 'v WorkerWorld \<Rightarrow> 'v WorkerWorld" where
  "othersW c w = (wk_others c (ww_tick w) w)\<lparr>ww_tick := ww_tick w + 1\<rparr>"

definition dbW :: "('v, 'z) Worker_scheme \<Rightarrow> (timestamp \<Rightarrow> Db \<Rightarrow> 'a transaction) \<Rightarrow> ('v WorkerWorld, 'a) prog" where
  "dbW c f w =
     (if wk_db_down c (ww_tick w) then (Inl (OtherError ''OperationalError'' []), othersW c w)
      else transactW ww_db (\<lambda>db w. w\<lparr>ww_db := db\<rparr>) (f (wk_now c (ww_tick w))) (othersW c w))"

definition clientW :: "('v, 'z) Worker_scheme \<Rightarrow> ('v, 'a) prog \<Rightarrow> ('v WorkerWorld, 'a) prog" where
  "clientW c p w = (case p (ww_venue (othersW c w)) of (r, v) \<Rightarrow> (r, (othersW c w)\<lparr>ww_venue := v\<rparr>))"

text \<open>A transaction that grants a claim of \<open>oid\<close> when it returns true.\<close>

definition grantW :: "('v, 'z) Worker_scheme \<Rightarrow> string \<Rightarrow> (timestamp \<Rightarrow> Db \<Rightarrow> bool transaction) \<Rightarrow> ('v WorkerWorld, bool) prog" where
  "grantW c oid f w =
     (case dbW c f w of
        (Inr True, w') \<Rightarrow> (Inr True, w'\<lparr>ww_wins := ww_wins w' @ [(wk_id c, oid)]\<rparr>)
      | other \<Rightarrow> other)"

text \<open>A venue call that posts the order \<open>oid\<close>.\<close>

definition postW :: "('v, 'z) Worker_scheme \<Rightarrow> string \<Rightarrow> ('v, 'a) prog \<Rightarrow> ('v WorkerWorld, 'a) prog" where
  "postW c oid p w = (case clientW c p w of (r, w') \<Rightarrow> (r, w'\<lparr>ww_posts := ww_posts w' @ [(wk_id c, oid)]\<rparr>))"

definition execW :: "('v, 'z) Worker_scheme \<Rightarrow> (Db \<Rightarrow> (Exn, Db) raises) \<Rightarrow> ('v WorkerWorld, unit) prog" where
  "execW c f = dbW c (\<lambda>now db. unitT (f db))"

definition queryW :: "('v, 'z) Worker_scheme \<Rightarrow> (Db \<Rightarrow> 'a) \<Rightarrow> ('v WorkerWorld, 'a) prog" where
  "queryW c f = dbW c (\<lambda>now db. Inr (db, f db))"

section \<open>What a transaction keeps\<close>

text \<open>The order of a client order id may be at the venue: its intent is stored and is not the staged
  leg of a split, which is claimed again before it is posted.\<close>

definition live_order :: "Db \<Rightarrow> string \<Rightarrow> bool" where
  "live_order db oid \<longleftrightarrow> (case find_intent db BITGET oid of None \<Rightarrow> False | Some i \<Rightarrow> it_state i \<noteq> I_staged)"

text \<open>The unique key of the intents.\<close>

definition unique_intents :: "Db \<Rightarrow> bool" where
  "unique_intents db \<longleftrightarrow> distinct (map ident (db_intents db))"

definition intents_kept :: "Db \<Rightarrow> Db \<Rightarrow> bool" where
  "intents_kept db db' \<longleftrightarrow> (\<forall>oid. live_order db oid \<longrightarrow> live_order db' oid) \<and> (unique_intents db \<longrightarrow> unique_intents db')"

lemma has_intent: "find_intent db ex oid \<noteq> None \<longleftrightarrow> (\<exists>i \<in> set (db_intents db). it_exchange i = ex \<and> it_client_oid i = oid)"
  by (auto simp: find_intent_def find_None_iff_none)

lemma live_order_found: "live_order db oid \<Longrightarrow> find_intent db BITGET oid \<noteq> None"
  by (simp add: live_order_def split: option.splits)

lemma intents_kept_same: "db_intents db' = db_intents db \<Longrightarrow> intents_kept db db'"
  by (simp add: intents_kept_def live_order_def find_intent_def unique_intents_def)

lemma intents_kept_trans: "intents_kept a b \<Longrightarrow> intents_kept b c \<Longrightarrow> intents_kept a c"
  by (simp add: intents_kept_def)

lemma find_update_where:
  assumes "\<And>i. it_exchange (g i) = it_exchange i \<and> it_client_oid (g i) = it_client_oid i"
  shows "List.find (\<lambda>i. it_exchange i = ex \<and> it_client_oid i = oid) (update_where p g is)
    = map_option (\<lambda>i. if p i then g i else i) (List.find (\<lambda>i. it_exchange i = ex \<and> it_client_oid i = oid) is)"
  using assms by (induction "is") auto

lemma find_update_intents:
  assumes "\<And>i. it_exchange (g i) = it_exchange i \<and> it_client_oid (g i) = it_client_oid i"
  shows "find_intent (fst (update_intents p g db)) ex oid = map_option (\<lambda>i. if p i then g i else i) (find_intent db ex oid)"
  unfolding find_intent_def update_intents_def using find_update_where [OF assms] by simp

lemma intents_kept_update:
  assumes "\<And>i. it_exchange (g i) = it_exchange i \<and> it_client_oid (g i) = it_client_oid i"
    "\<And>i. p i \<Longrightarrow> it_state i \<noteq> I_staged \<Longrightarrow> it_state (g i) \<noteq> I_staged"
  shows "intents_kept db (fst (update_intents p g db))"
proof -
  have "map ident (db_intents (fst (update_intents p g db))) = map ident (db_intents db)"
    using assms(1) by (simp add: update_intents_def map_update_where ident_def)
  then show ?thesis unfolding intents_kept_def unique_intents_def live_order_def find_update_intents [OF assms(1)]
    using assms(2) by (auto split: option.splits)
qed

lemma find_appended: "find_intent db ex oid = Some i \<Longrightarrow> find_intent (db\<lparr>db_intents := db_intents db @ new\<rparr>) ex oid = Some i"
  by (simp add: find_intent_def find_in_append)

lemma find_intent_key: "find_intent db ex oid = None \<longleftrightarrow> (ex, oid) \<notin> ident ` set (db_intents db)"
  by (auto simp: find_intent_def find_None_iff_none ident_def)

lemma intents_kept_insert:
  assumes "insert_intent now r db = Inr (db', won)"
  shows "intents_kept db db'"
proof -
  consider "db' = db" | "db' = db\<lparr>db_intents := db_intents db @ [stored_row now r]\<rparr>" "find_intent db (it_exchange r) (it_client_oid r) = None"
    using assms by (auto simp: insert_intent_def Let_def split: if_splits)
  then show ?thesis
  proof cases
    case 1
    then show ?thesis using intents_kept_same by simp
  next
    case 2
    have "unique_intents db \<Longrightarrow> unique_intents db'" using 2 by (simp add: unique_intents_def find_intent_key) (simp add: ident_def)
    then show ?thesis using 2(1) by (auto simp: intents_kept_def live_order_def find_appended split: option.splits)
  qed
qed

lemma insert_intent_won:
  assumes "insert_intent now r db = Inr (db', True)"
  shows "find_intent db (it_exchange r) (it_client_oid r) = None"
    "find_intent db' (it_exchange r) (it_client_oid r) = Some (stored_row now r)"
proof -
  show none: "find_intent db (it_exchange r) (it_client_oid r) = None"
    using assms by (auto simp: insert_intent_def Let_def split: if_splits)
  have db': "db' = db\<lparr>db_intents := db_intents db @ [stored_row now r]\<rparr>"
    using assms by (auto simp: insert_intent_def Let_def split: if_splits)
  show "find_intent db' (it_exchange r) (it_client_oid r) = Some (stored_row now r)"
    using none unfolding db' by (simp add: find_intent_def find_in_append)
qed

lemma insert_intent_live:
  "insert_intent now r db = Inr (db', True) \<Longrightarrow> it_exchange r = BITGET \<Longrightarrow> it_state r \<noteq> I_staged \<Longrightarrow> live_order db' (it_client_oid r)"
  using insert_intent_won(2) by (fastforce simp: live_order_def)

lemma insert_provider_fills_intents: "insert_provider_fills now r fills db = Inr db' \<Longrightarrow> db_intents db' = db_intents db"
  using insert_provider_fills_props by blast

lemma intents_kept_readback:
  assumes "update_intent now r db = Inr db'" "it_state r \<noteq> I_staged"
  shows "intents_kept db db'"
proof -
  from assms obtain db1 db2 where db1: "db1 = fst (update_intents (readback_target r) (readback_row r) db)"
    and fills: "insert_provider_fills now r (it_provider_fills r) db1 = Inr db2"
    and derived: "insert_status_derived_fill now r db2 = Inr db'"
    by (auto simp: update_intent_def bindE_Inr_iff split: prod.splits if_splits)
  have "intents_kept db db1" unfolding db1 using assms(2) by (intro intents_kept_update) (simp_all add: readback_row_def)
  moreover have "intents_kept db1 db'"
    using insert_provider_fills_props [OF fills] insert_status_derived_fill_props [OF derived] by (intro intents_kept_same) simp
  ultimately show ?thesis by (rule intents_kept_trans)
qed

section \<open>Workers side by side\<close>

text \<open>Every claim granted has its own client order id and its intent, and every post its claim; the
  intents keep their unique key.\<close>

definition orders_ok :: "'v WorkerWorld \<Rightarrow> bool" where
  "orders_ok w \<longleftrightarrow> distinct (map snd (ww_wins w)) \<and> distinct (ww_posts w) \<and> set (ww_posts w) \<subseteq> set (ww_wins w)
     \<and> (\<forall>x \<in> set (ww_wins w). live_order (ww_db w) (snd x)) \<and> unique_intents (ww_db w)"

definition entries_of :: "nat \<Rightarrow> 'v WorkerWorld \<Rightarrow> (nat \<times> string) list \<times> (nat \<times> string) list" where
  "entries_of k w = (filter (\<lambda>x. fst x = k) (ww_wins w), filter (\<lambda>x. fst x = k) (ww_posts w))"

text \<open>What worker \<open>k\<close> relies on: the others keep the log in order and leave the entries of \<open>k\<close> alone.\<close>

definition spares :: "nat \<Rightarrow> 'v WorkerWorld \<Rightarrow> 'v WorkerWorld \<Rightarrow> bool" where
  "spares k w w' \<longleftrightarrow> (orders_ok w \<longrightarrow> orders_ok w' \<and> entries_of k w' = entries_of k w)"

definition others_spare :: "nat \<Rightarrow> ('v, 'z) Worker_scheme \<Rightarrow> bool" where
  "others_spare k c \<longleftrightarrow> (\<forall>n w. spares k w (wk_others c n w))"

lemma orders_ok_once: "orders_ok w \<Longrightarrow> distinct (map snd (ww_posts w))"
  unfolding orders_ok_def distinct_map by (meson inj_on_subset)

text \<open>A state the worker may be in: the log is in order, a bystander's entries are as at the start,
  and the claims in \<open>T\<close> are won and not yet posted.\<close>

definition safe ::
  "('v, 'z) Worker_scheme \<Rightarrow> (nat \<Rightarrow> (nat \<times> string) list \<times> (nat \<times> string) list) \<Rightarrow> string set \<Rightarrow> 'v WorkerWorld \<Rightarrow> bool" where
  "safe c base T w \<longleftrightarrow> orders_ok w \<and> (\<forall>k. k \<noteq> wk_id c \<longrightarrow> others_spare k c \<longrightarrow> entries_of k w = base k)
     \<and> (\<forall>oid \<in> T. (wk_id c, oid) \<in> set (ww_wins w) \<and> (wk_id c, oid) \<notin> set (ww_posts w))"

definition safely :: "('v, 'z) Worker_scheme \<Rightarrow> string set \<Rightarrow> ('v WorkerWorld, 'a) prog \<Rightarrow> string set \<Rightarrow> bool" where
  "safely c T p T' \<longleftrightarrow> (\<forall>base. triple (safe c base T) p (\<lambda>_. safe c base T') (\<lambda>_. safe c base {}))"

text \<open>A program that neither claims nor posts, whether it returns or raises: the worker's own entries of
  the log stay.\<close>

definition calm ::
  "('v, 'z) Worker_scheme \<Rightarrow> (nat \<Rightarrow> (nat \<times> string) list \<times> (nat \<times> string) list) \<Rightarrow> string set
    \<Rightarrow> (nat \<times> string) list \<times> (nat \<times> string) list \<Rightarrow> 'v WorkerWorld \<Rightarrow> bool" where
  "calm c base T mine w \<longleftrightarrow> safe c base T w \<and> entries_of (wk_id c) w = mine"

definition quietly :: "('v, 'z) Worker_scheme \<Rightarrow> ('v WorkerWorld, 'a) prog \<Rightarrow> bool" where
  "quietly c p \<longleftrightarrow> (\<forall>base T mine. triple (calm c base T mine) p (\<lambda>_. calm c base T mine) (\<lambda>_. calm c base T mine))"

lemma safelyI:
  assumes "\<And>base w. safe c base T w \<Longrightarrow> case p w of (r, w') \<Rightarrow> safe c base (if isl r then {} else T') w'"
  shows "safely c T p T'"
  unfolding safely_def triple_def
proof (intro allI impI)
  fix base w assume "safe c base T w"
  from assms [OF this] show "case p w of (Inl e, w') \<Rightarrow> safe c base {} w' | (Inr x, w') \<Rightarrow> safe c base T' w'"
    by (cases "p w"; cases "fst (p w)") auto
qed

lemma safelyD:
  assumes "safely c T p T'" "safe c base T w" "p w = (r, w')"
  shows "safe c base (if isl r then {} else T') w'"
proof -
  have "case p w of (Inl e, w') \<Rightarrow> safe c base {} w' | (Inr x, w') \<Rightarrow> safe c base T' w'"
    using assms(1) [unfolded safely_def triple_def, rule_format, OF assms(2)] .
  then show ?thesis using assms(3) by (cases r) simp_all
qed

lemma quietlyI:
  assumes "\<And>base T w. safe c base T w \<Longrightarrow> calm c base T (entries_of (wk_id c) w) (snd (p w))"
  shows "quietly c p"
  unfolding quietly_def triple_def
proof (intro allI impI)
  fix base T mine w assume "calm c base T mine w"
  then have "calm c base T mine (snd (p w))" using assms by (auto simp: calm_def)
  then show "case p w of (Inl e, w') \<Rightarrow> calm c base T mine w' | (Inr x, w') \<Rightarrow> calm c base T mine w'"
    by (cases "p w"; cases "fst (p w)") auto
qed

lemma quietly_calm:
  assumes "quietly c p" "safe c base T w"
  shows "calm c base T (entries_of (wk_id c) w) (snd (p w))"
proof -
  have start: "calm c base T (entries_of (wk_id c) w) w" using assms(2) by (simp add: calm_def)
  have "case p w of (Inl e, w') \<Rightarrow> calm c base T (entries_of (wk_id c) w) w' | (Inr x, w') \<Rightarrow> calm c base T (entries_of (wk_id c) w) w'"
    using assms(1) [unfolded quietly_def triple_def, rule_format, OF start] .
  then show ?thesis by (cases "p w"; cases "fst (p w)") auto
qed

lemma quietlyD: "quietly c p \<Longrightarrow> safe c base T w \<Longrightarrow> safe c base T (snd (p w))"
  using quietly_calm unfolding calm_def by blast

named_theorems safely_rules \<open>rules for programs of one worker\<close>
named_theorems quiet_rules \<open>programs that neither claim nor post\<close>

lemma safe_weaken: "safe c base T w \<Longrightarrow> safe c base {} w"
  by (simp add: safe_def)

lemma quietly_safely: "quietly c p \<Longrightarrow> safely c T p T"
  by (rule safelyI) (use quietlyD safe_weaken in \<open>fastforce split: prod.split\<close>)

lemma safely_drop: "quietly c p \<Longrightarrow> safely c T p {}"
  by (rule safelyI) (use quietlyD safe_weaken in \<open>fastforce split: prod.split\<close>)

lemma entries_members: "(k, oid) \<in> set (ww_wins w) \<longleftrightarrow> (k, oid) \<in> set (fst (entries_of k w))"
  "(k, oid) \<in> set (ww_posts w) \<longleftrightarrow> (k, oid) \<in> set (snd (entries_of k w))"
  by (simp_all add: entries_of_def)

lemma calm_others:
  assumes "others_spare (wk_id c) c" "safe c base T w"
  shows "calm c base T (entries_of (wk_id c) w) (othersW c w)"
proof -
  have tick: "orders_ok (v\<lparr>ww_tick := n\<rparr>) = orders_ok v" "entries_of k (v\<lparr>ww_tick := n\<rparr>) = entries_of k v" for v :: "'a WorkerWorld" and n k
    by (simp_all add: orders_ok_def entries_of_def)
  have ok: "orders_ok w" using assms(2) by (simp add: safe_def)
  have mine: "entries_of (wk_id c) (othersW c w) = entries_of (wk_id c) w" "orders_ok (othersW c w)"
    using assms(1) ok unfolding others_spare_def spares_def othersW_def tick by auto
  have "entries_of k (othersW c w) = entries_of k w" if "others_spare k c" for k
    using that ok unfolding others_spare_def spares_def othersW_def tick by auto
  then show ?thesis using assms(2) mine unfolding calm_def safe_def entries_members by auto
qed

lemma safe_others: "others_spare (wk_id c) c \<Longrightarrow> safe c base T w \<Longrightarrow> safe c base T (othersW c w)"
  using calm_others unfolding calm_def by blast

lemma orders_ok_kept:
  assumes "orders_ok w" "intents_kept (ww_db w) db"
  shows "orders_ok (w\<lparr>ww_db := db\<rparr>)"
  using assms unfolding orders_ok_def intents_kept_def by simp

lemma safe_kept: "safe c base T w \<Longrightarrow> intents_kept (ww_db w) db \<Longrightarrow> safe c base T (w\<lparr>ww_db := db\<rparr>)"
  using orders_ok_kept unfolding safe_def by (fastforce simp: entries_of_def)

lemma calm_kept: "calm c base T mine w \<Longrightarrow> intents_kept (ww_db w) db \<Longrightarrow> calm c base T mine (w\<lparr>ww_db := db\<rparr>)"
  using safe_kept unfolding calm_def by (fastforce simp: entries_of_def)

lemma safe_won:
  assumes "safe c base T w" "\<not> live_order (ww_db w) oid" "live_order db oid" "intents_kept (ww_db w) db"
  shows "safe c base (insert oid T) (w\<lparr>ww_db := db, ww_wins := ww_wins w @ [(wk_id c, oid)]\<rparr>)"
proof -
  have new: "oid \<notin> snd ` set (ww_wins w)" using assms(1,2) by (auto simp: safe_def orders_ok_def)
  have unposted: "(wk_id c, oid) \<notin> set (ww_posts w)" using new assms(1) by (force simp: safe_def orders_ok_def)
  have "orders_ok (w\<lparr>ww_db := db\<rparr>)" using orders_ok_kept assms(1,4) by (auto simp: safe_def)
  then have "orders_ok (w\<lparr>ww_db := db, ww_wins := ww_wins w @ [(wk_id c, oid)]\<rparr>)"
    using new assms(3) unfolding orders_ok_def by auto
  then show ?thesis using assms(1) unposted unfolding safe_def by (auto simp: entries_of_def)
qed

lemma safe_posted:
  assumes "safe c base {oid} w"
  shows "safe c base {} (w\<lparr>ww_posts := ww_posts w @ [(wk_id c, oid)]\<rparr>)"
proof -
  have "orders_ok (w\<lparr>ww_posts := ww_posts w @ [(wk_id c, oid)]\<rparr>)"
    using assms unfolding safe_def orders_ok_def by auto
  then show ?thesis using assms unfolding safe_def by (auto simp: entries_of_def)
qed

lemma quietly_db [quiet_rules]:
  assumes "others_spare (wk_id c) c" "\<And>now db db' a. f now db = Inr (db', a) \<Longrightarrow> intents_kept db db'"
  shows "quietly c (dbW c f)"
proof (rule quietlyI)
  fix base T w assume "safe c base T w"
  then have calm: "calm c base T (entries_of (wk_id c) w) (othersW c w)" by (rule calm_others [OF assms(1)])
  show "calm c base T (entries_of (wk_id c) w) (snd (dbW c f w))"
  proof (cases "f (wk_now c (ww_tick w)) (ww_db (othersW c w))")
    case (Inl e)
    then show ?thesis using calm by (simp add: dbW_def transactW_def)
  next
    case (Inr r)
    then have "intents_kept (ww_db (othersW c w)) (fst r)" using assms(2) by (cases r) auto
    then show ?thesis using Inr calm calm_kept [OF calm] by (cases r) (simp add: dbW_def transactW_def)
  qed
qed

lemma safe_venue: "safe c base T w \<Longrightarrow> safe c base T (w\<lparr>ww_venue := v\<rparr>)"
  by (simp add: safe_def orders_ok_def entries_of_def)

lemma calm_venue: "calm c base T mine w \<Longrightarrow> calm c base T mine (w\<lparr>ww_venue := v\<rparr>)"
  unfolding calm_def by (simp add: safe_venue) (simp add: entries_of_def)

lemma calm_start: "safe c base T w \<Longrightarrow> calm c base T (entries_of (wk_id c) w) w"
  by (simp add: calm_def)

lemma quietly_client [quiet_rules]:
  assumes "others_spare (wk_id c) c"
  shows "quietly c (clientW c p)"
proof (rule quietlyI)
  fix base T w assume "safe c base T w"
  from calm_venue [OF calm_others [OF assms this]] show "calm c base T (entries_of (wk_id c) w) (snd (clientW c p w))"
    by (cases "p (ww_venue (othersW c w))") (simp add: clientW_def)
qed

lemma quietly_return [quiet_rules]: "quietly c (returnW x)" "quietly c (raiseW e)" "quietly c (liftE r)"
  by (auto intro!: quietlyI calm_start simp: returnW_def raiseW_def liftE_def)

lemma quietly_bind [quiet_rules]: "quietly c m \<Longrightarrow> (\<And>x. quietly c (f x)) \<Longrightarrow> quietly c (bindW m f)"
  unfolding quietly_def by (blast intro: triple_bind)

lemma quietly_try [quiet_rules]: "quietly c m \<Longrightarrow> (\<And>e. quietly c (h e)) \<Longrightarrow> quietly c (tryW m caught h)"
  unfolding quietly_def by (blast intro: triple_try)

lemma quietly_attempt [quiet_rules]: "quietly c m \<Longrightarrow> quietly c (attemptW m)"
  by (rule quietlyI) (use quietly_calm in \<open>fastforce simp: attemptW_def split: prod.split\<close>)

lemma quietly_if [quiet_rules]: "(b \<Longrightarrow> quietly c p) \<Longrightarrow> (\<not> b \<Longrightarrow> quietly c q) \<Longrightarrow> quietly c (if b then p else q)"
  by simp

lemma quietly_exec [quiet_rules]:
  assumes "others_spare (wk_id c) c" "\<And>db db'. f db = Inr db' \<Longrightarrow> intents_kept db db'"
  shows "quietly c (execW c f)"
  unfolding execW_def by (rule quietly_db [OF assms(1)]) (use assms(2) in \<open>auto simp: run_simps\<close>)

lemma quietly_query [quiet_rules]: "others_spare (wk_id c) c \<Longrightarrow> quietly c (queryW c g)"
  unfolding queryW_def by (rule quietly_db) (simp_all add: intents_kept_def)

lemma safely_bind [safely_rules]: "safely c T m T1 \<Longrightarrow> (\<And>x. safely c T1 (f x) T2) \<Longrightarrow> safely c T (bindW m f) T2"
  unfolding safely_def by (blast intro: triple_bind)

lemma safely_return [safely_rules]: "safely c T (returnW x) T" "safely c T (liftE r) T" "safely c T (raiseW e) T'"
  using safe_weaken by (auto intro!: safelyI simp: returnW_def liftE_def raiseW_def)

lemma safely_stop [safely_rules]: "safely c T (returnW x) {}"
  using safe_weaken by (auto intro!: safelyI simp: returnW_def)

lemma safely_attempt [safely_rules]:
  assumes "safely c T m {}"
  shows "safely c T (attemptW m) {}"
proof (rule safelyI)
  fix base w assume "safe c base T w"
  from safelyD [OF assms this] show "case attemptW m w of (r, w') \<Rightarrow> safe c base (if isl r then {} else {}) w'"
    by (cases "m w") (simp add: attemptW_def)
qed

lemma safely_try [safely_rules]: "safely c T m {} \<Longrightarrow> (\<And>e. safely c {} (h e) {}) \<Longrightarrow> safely c T (tryW m caught h) {}"
  unfolding safely_def by (blast intro: triple_try)

lemma safely_quiet_bind: "quietly c m \<Longrightarrow> (\<And>x. safely c T (f x) T2) \<Longrightarrow> safely c T (bindW m f) T2"
  by (rule safely_bind [OF quietly_safely])

lemma safely_client: "others_spare (wk_id c) c \<Longrightarrow> safely c T (clientW c p) T"
  by (rule quietly_safely [OF quietly_client])

lemma safely_db:
  "others_spare (wk_id c) c \<Longrightarrow> (\<And>now db db' a. f now db = Inr (db', a) \<Longrightarrow> intents_kept db db') \<Longrightarrow> safely c T (dbW c f) T"
  by (rule quietly_safely [OF quietly_db])

lemma safely_exec:
  "others_spare (wk_id c) c \<Longrightarrow> (\<And>db db'. f db = Inr db' \<Longrightarrow> intents_kept db db') \<Longrightarrow> safely c T (execW c f) T"
  by (rule quietly_safely [OF quietly_exec])

text \<open>A claim: granted only for an order that is not live and is live afterwards.\<close>

definition grants :: "string \<Rightarrow> (timestamp \<Rightarrow> Db \<Rightarrow> bool transaction) \<Rightarrow> bool" where
  "grants oid f \<longleftrightarrow> (\<forall>now db db' won. unique_intents db \<longrightarrow> f now db = Inr (db', won) \<longrightarrow>
     intents_kept db db' \<and> (won \<longrightarrow> \<not> live_order db oid \<and> live_order db' oid))"

lemma safely_grant:
  assumes "others_spare (wk_id c) c" "grants oid f"
  shows "triple (safe c base {}) (grantW c oid f) (\<lambda>won. safe c base (if won then {oid} else {})) (\<lambda>_. safe c base {})"
  unfolding triple_def
proof (intro allI impI)
  fix w assume "safe c base {} w"
  then have safe: "safe c base {} (othersW c w)" by (rule safe_others [OF assms(1)])
  show "case grantW c oid f w of
      (Inl e, w') \<Rightarrow> safe c base {} w' | (Inr x, w') \<Rightarrow> safe c base (if x then {oid} else {}) w'"
  proof (cases "f (wk_now c (ww_tick w)) (ww_db (othersW c w))")
    case (Inl e)
    then show ?thesis using safe by (simp add: grantW_def dbW_def transactW_def)
  next
    case (Inr r)
    obtain db won where r: "r = (db, won)" by (cases r)
    have "unique_intents (ww_db (othersW c w))" using safe by (simp add: safe_def orders_ok_def)
    then have kept: "intents_kept (ww_db (othersW c w)) db" and fresh: "won \<Longrightarrow> \<not> live_order (ww_db (othersW c w)) oid \<and> live_order db oid"
      using assms(2) Inr [unfolded r] unfolding grants_def by blast+
    show ?thesis
      using Inr r safe safe_kept [OF safe kept] safe_won [OF safe _ _ kept] fresh
      by (cases won) (simp_all add: grantW_def dbW_def transactW_def)
  qed
qed

lemma safely_grant_then:
  assumes "others_spare (wk_id c) c" "grants oid f" "safely c {} (g False) T" "safely c {oid} (g True) T"
  shows "safely c {} (bindW (grantW c oid f) g) T"
  unfolding safely_def
proof
  fix base
  have "triple (safe c base (if won then {oid} else {})) (g won) (\<lambda>_. safe c base T) (\<lambda>_. safe c base {})" for won
    using assms(3,4) by (cases won) (simp_all add: safely_def)
  then show "triple (safe c base {}) (bindW (grantW c oid f) g) (\<lambda>_. safe c base T) (\<lambda>_. safe c base {})"
    by (rule triple_bind [OF safely_grant [OF assms(1,2)]])
qed

lemma safely_post [safely_rules]:
  assumes "others_spare (wk_id c) c"
  shows "safely c {oid} (postW c oid p) {}"
proof (rule safelyI)
  fix base w assume "safe c base {oid} w"
  from safe_posted [OF safe_venue [OF safe_others [OF assms this]]]
  show "case postW c oid p w of (r, w') \<Rightarrow> safe c base (if isl r then {} else {}) w'"
    by (cases "p (ww_venue (othersW c w))") (simp add: postW_def clientW_def)
qed

text \<open>A safe program leaves the log in order, each order posted at most once and only after its claim,
  and bystanders' entries alone.\<close>

lemma quietly_entries: "quietly c p \<Longrightarrow> orders_ok w \<Longrightarrow> p w = (r, w') \<Longrightarrow> entries_of (wk_id c) w' = entries_of (wk_id c) w"
  using quietly_calm [of c p "\<lambda>k. entries_of k w" "{}" w] by (simp add: calm_def safe_def)

lemma safely_posted_once:
  assumes "safely c {} p T" "orders_ok w" "snd (p w) = w'"
  shows "orders_ok w' \<and> distinct (map snd (ww_posts w'))
    \<and> (\<forall>k. k \<noteq> wk_id c \<and> others_spare k c \<longrightarrow> entries_of k w' = entries_of k w)"
proof -
  have "safe c (\<lambda>k. entries_of k w) {} w" using assms(2) by (simp add: safe_def)
  from safelyD [OF assms(1) this] assms(3) have "safe c (\<lambda>k. entries_of k w) {} w'"
    by (metis prod.collapse safe_weaken)
  then show ?thesis using orders_ok_once by (auto simp: safe_def)
qed

end
