(* ===== verification/Fallback_Protection.thy ===== *)
theory Fallback_Protection
  imports Workers "HOL-Library.List_Lexorder"
begin

text \<open>
  \<open>execution/bitget_fallback_protection.py\<close>: the locally managed stop and targets of a position whose
  symbol refuses native protection. A fallback row is registered active, claimed for its close in one
  transaction with the close intent, and settled only from provider fills. Several workers (the
  REST monitor, the price stream, other processes) run the same code over one database, as
  \<open>Workers\<close> has it. Decimals are compared
  by value; the order of a ledger is that of its fill identifiers.
\<close>

section \<open>The table\<close>

definition open_fallback :: "FallbackRow \<Rightarrow> bool" where
  "open_fallback f \<longleftrightarrow> fb_state f \<in> {FB_active, FB_closing}"

definition canonical_epoch :: "string \<Rightarrow> bool" where
  "canonical_epoch e \<longleftrightarrow> e \<noteq> [] \<and> list_all is_digit e \<and> hd e \<noteq> CHR ''0''"

definition fallback_identity_ok :: "FallbackRow \<Rightarrow> bool" where
  "fallback_identity_ok f \<longleftrightarrow>
     (fb_provider_position_epoch f = None \<and> fb_environment f = None)
     \<or> (case fb_provider_position_epoch f of None \<Rightarrow> False | Some e \<Rightarrow> canonical_epoch e)
       \<and> fb_environment f \<in> {Some ''DEMO'', Some ''LIVE''} \<and> fb_position_key f \<notin> {None, Some []}
       \<and> fb_direction f \<in> {''LONG'', ''SHORT''}"

text \<open>The primary key and the unique position key of the open rows.\<close>

definition fallback_conflict :: "FallbackRow \<Rightarrow> FallbackRow \<Rightarrow> bool" where
  "fallback_conflict f g \<longleftrightarrow> fb_id g = fb_id f
     \<or> open_fallback g \<and> fb_position_key g \<noteq> None \<and> fb_position_key g = fb_position_key f"

definition same_registration :: "FallbackRow \<Rightarrow> FallbackRow \<Rightarrow> bool" where
  "same_registration f g \<longleftrightarrow> fb_exchange g = fb_exchange f \<and> fb_symbol g = fb_symbol f \<and> fb_direction g = fb_direction f
     \<and> fb_provider_position_epoch g = fb_provider_position_epoch f \<and> fb_environment g = fb_environment f
     \<and> fb_quantity g = fb_quantity f \<and> fb_entry_price g = fb_entry_price f \<and> fb_stop_loss g = fb_stop_loss f
     \<and> fb_take_profits g = fb_take_profits f"

text \<open>The registration \<open>f\<close> carries the columns of the call; its identifier is the fresh default and its state is active.\<close>

definition register_fallback :: "FallbackRow \<Rightarrow> Db \<Rightarrow> string transaction" where
  "register_fallback f db =
     (let key = fb_exchange f @ '':'' @ fb_symbol f;
          row = f\<lparr>fb_state := FB_active, fb_close_price := None, fb_close_reason := None, fb_close_order_id := None\<rparr> in
      if \<not> fallback_identity_ok f
      then Inl (ValueError ''fallback identity must include canonical epoch, environment and entry key'')
      else if \<not> list_ex (fallback_conflict f) (db_fallback db) then Inr (db\<lparr>db_fallback := db_fallback db @ [row]\<rparr>, key)
      else case List.find (\<lambda>g. fb_position_key f \<noteq> None \<and> fb_position_key g = fb_position_key f \<and> open_fallback g) (db_fallback db) of
             None \<Rightarrow> Inl (ValueError ''fallback registration identity or protection conflict'')
           | Some g \<Rightarrow> if same_registration f g then Inr (db, key)
               else Inl (ValueError ''fallback registration identity or protection conflict''))"

definition update_fallback :: "(FallbackRow \<Rightarrow> bool) \<Rightarrow> (FallbackRow \<Rightarrow> FallbackRow) \<Rightarrow> Db \<Rightarrow> Db" where
  "update_fallback p g db = db\<lparr>db_fallback := update_where p g (db_fallback db)\<rparr>"

definition update_fallback_levels :: "string \<Rightarrow> dec \<Rightarrow> dec \<Rightarrow> string option \<Rightarrow> Db \<Rightarrow> bool transaction" where
  "update_fallback_levels position_key stop quantity environment db =
     (if position_key = [] then Inl (ValueError ''fallback level update requires a position key'')
      else if stop \<le> 0 then Inl (ValueError ''fallback level update requires a positive stop'')
      else if quantity \<le> 0 then Inl (ValueError ''fallback level update requires a positive quantity'')
      else if environment \<notin> {Some ''DEMO'', Some ''LIVE''} then Inr (db, False)
      else
        let p = (\<lambda>f. fb_position_key f = Some position_key \<and> fb_environment f = environment \<and> open_fallback f) in
        Inr (update_fallback p (\<lambda>f. f\<lparr>fb_stop_loss := stop, fb_quantity := quantity\<rparr>) db, list_ex p (db_fallback db)))"

definition load_active :: "Db \<Rightarrow> FallbackRow list" where
  "load_active db = filter open_fallback (db_fallback db)"

definition mark_triggered :: "string \<Rightarrow> dec \<Rightarrow> string \<Rightarrow> string option \<Rightarrow> Db \<Rightarrow> (Exn, Db) raises" where
  "mark_triggered fid price reason order_id db =
     Inr (update_fallback (\<lambda>f. fb_id f = fid)
       (\<lambda>f. f\<lparr>fb_state := FB_triggered, fb_close_price := Some price, fb_close_reason := Some reason, fb_close_order_id := order_id\<rparr>) db)"

definition mark_closing :: "string \<Rightarrow> string \<Rightarrow> string option \<Rightarrow> Db \<Rightarrow> (Exn, Db) raises" where
  "mark_closing fid client_oid order_id db =
     Inr (update_fallback (\<lambda>f. fb_id f = fid)
       (\<lambda>f. f\<lparr>fb_state := FB_closing, fb_close_reason := Some ''close-submitted'',
              fb_close_order_id := Some (case order_id of Some p \<Rightarrow> if p = [] then client_oid else p | None \<Rightarrow> client_oid)\<rparr>) db)"

definition mark_position_flat :: "string \<Rightarrow> Db \<Rightarrow> (Exn, Db) raises" where
  "mark_position_flat fid db =
     Inr (update_fallback (\<lambda>f. fb_id f = fid)
       (\<lambda>f. f\<lparr>fb_state := FB_cancelled, fb_close_reason := Some ''position-already-flat''\<rparr>) db)"

section \<open>Thresholds\<close>

definition check_thresholds :: "string \<Rightarrow> dec \<Rightarrow> dec \<Rightarrow> dec list \<Rightarrow> bool \<times> string" where
  "check_thresholds direction mark sl tps =
     (if direction = ''LONG'' then
        (if tps \<noteq> [] \<and> Min (set tps) \<le> mark then (True, ''tp_hit'') else if mark \<le> sl then (True, ''sl_hit'') else (False, []))
      else if direction = ''SHORT'' then
        (if tps \<noteq> [] \<and> mark \<le> Max (set tps) then (True, ''tp_hit'') else if sl \<le> mark then (True, ''sl_hit'') else (False, []))
      else (False, []))"

definition fallback_client_oid :: "string \<Rightarrow> string" where
  "fallback_client_oid fid = ''fb-'' @ take 20 (filter (\<lambda>c. c \<noteq> CHR ''-'') fid) @ ''-close''"

section \<open>The close claim\<close>

definition close_record :: "string \<Rightarrow> string \<Rightarrow> string \<Rightarrow> dec \<Rightarrow> LiveIntentRecord" where
  "close_record oid symbol side quantity =
     (new_record BITGET oid symbol side)\<lparr>it_role := CLOSE, it_requested_qty := quantity, it_margin_mode := Some ''ISOLATED''\<rparr>"

definition close_owner :: "string \<Rightarrow> string \<Rightarrow> string \<Rightarrow> dec \<Rightarrow> FallbackRow \<Rightarrow> bool" where
  "close_owner oid symbol side quantity f \<longleftrightarrow> fb_exchange f = ''bitget'' \<and> fb_symbol f = symbol
     \<and> fb_direction f = (if side = ''SELL'' then ''LONG'' else ''SHORT'') \<and> quantity \<le> fb_quantity f \<and> 0 < fb_quantity f
     \<and> fallback_client_oid (fb_id f) = oid"

definition ensure_close_intent :: "timestamp \<Rightarrow> string \<Rightarrow> string \<Rightarrow> string \<Rightarrow> dec \<Rightarrow> Db \<Rightarrow> bool transaction" where
  "ensure_close_intent now oid symbol side quantity db =
     (case filter (close_owner oid symbol side quantity) (db_fallback db) of
        [f] \<Rightarrow>
          if fb_state f \<noteq> FB_active then Inr (db, False)
          else bindE (insert_intent now (close_record oid symbol side quantity) db) (\<lambda>(db1, claimed).
            if \<not> claimed \<and> \<not> (\<exists>i \<in> set (db_intents db1). it_exchange i = BITGET \<and> it_client_oid i = oid \<and> it_symbol i = symbol
                  \<and> it_side i = side \<and> it_role i = CLOSE \<and> it_requested_qty i = quantity)
            then Inr (db1, False)
            else Inr (update_fallback (\<lambda>g. fb_id g = fb_id f)
                   (\<lambda>g. g\<lparr>fb_state := FB_closing, fb_close_reason := Some ''close-claimed'', fb_close_order_id := Some oid\<rparr>) db1, claimed))
      | _ \<Rightarrow> Inr (db, False))"

definition update_close_intent :: "string \<Rightarrow> IntentState \<Rightarrow> string option \<Rightarrow> Db \<Rightarrow> (Exn, Db) raises" where
  "update_close_intent oid state order_id db =
     Inr (fst (update_intents (\<lambda>i. it_exchange i = BITGET \<and> it_client_oid i = oid)
       (\<lambda>i. i\<lparr>it_state := state, it_provider_order_id := (case order_id of None \<Rightarrow> it_provider_order_id i | Some p \<Rightarrow> Some p)\<rparr>) db))"

section \<open>Provider positions\<close>

definition position_rows :: "JSON \<Rightarrow> JSON" where
  "position_rows v = (case v of JObj d \<Rightarrow> get_first d [''data'', ''positionList''] JNull | _ \<Rightarrow> v)"

definition row_quantity :: "JSON \<Rightarrow> dec option" where
  "row_quantity row =
     (case row of
        JObj d \<Rightarrow>
          (case List.map_filter (map_of d) [''total'', ''size'', ''quantity''] of
             [] \<Rightarrow> None
           | raws \<Rightarrow>
               (case those (map to_decimal raws) of
                  None \<Rightarrow> None
                | Some qs \<Rightarrow> if list_ex (\<lambda>q. q < 0) qs \<or> list_ex (\<lambda>q. q \<noteq> hd qs) qs then None else Some (hd qs)))
      | _ \<Rightarrow> None)"

definition open_quantity :: "JSON \<Rightarrow> dec option" where
  "open_quantity v =
     (if (case v of JObj d \<Rightarrow> (case map_of d ''code'' of None \<Rightarrow> False | Some c \<Rightarrow> c \<noteq> JStr ''00000'')
            \<or> map_of d ''data'' \<noteq> None \<and> map_of d ''positionList'' \<noteq> None
          | _ \<Rightarrow> False) then None
      else case position_rows v of
             JList rows \<Rightarrow> map_option (\<lambda>qs. dec_sum qs 0) (those (map row_quantity rows))
           | _ \<Rightarrow> None)"

definition entry_owner :: "FallbackRow \<Rightarrow> dec \<Rightarrow> IntentRow \<Rightarrow> bool" where
  "entry_owner f quantity i \<longleftrightarrow> it_exchange i = BITGET \<and> Some (it_client_oid i) = fb_position_key f \<and> it_symbol i = fb_symbol f
     \<and> it_side i = (if fb_direction f = ''LONG'' then ''BUY'' else ''SELL'') \<and> it_role i = ENTRY
     \<and> it_state i \<in> {I_filled, I_partially_filled, I_reconciled} \<and> it_filled_qty i = quantity"

text \<open>The part of \<open>_owned_quantity\<close> that reads the snapshot.\<close>

definition owned_position :: "JSON \<Rightarrow> FallbackRow \<Rightarrow> dec option" where
  "owned_position v f =
     (case (fb_position_key f, fb_provider_position_epoch f, position_rows v) of
        (Some key, Some epoch, JList [JObj row]) \<Rightarrow>
          if key = [] \<or> epoch = [] \<or> fb_environment f \<notin> {Some ''DEMO'', Some ''LIVE''}
             \<or> fb_direction f \<notin> {''LONG'', ''SHORT''}
             \<or> map_of row ''symbol'' \<noteq> Some (JStr (fb_symbol f))
             \<or> map_of row ''holdSide'' \<noteq> Some (JStr (if fb_direction f = ''LONG'' then ''long'' else ''short''))
             \<or> py_str (get_first row [''cTime''] JNull) \<noteq> epoch
             \<or> map_of row ''posMode'' \<noteq> Some (JStr ''one_way_mode'') \<or> map_of row ''marginMode'' \<noteq> Some (JStr ''isolated'')
          then None
          else (case open_quantity (JList [JObj row]) of
                  None \<Rightarrow> None
                | Some q \<Rightarrow> if fb_quantity f \<le> 0 \<or> q \<noteq> fb_quantity f then None else Some q)
      | _ \<Rightarrow> None)"

definition owned_quantity :: "JSON \<Rightarrow> FallbackRow \<Rightarrow> Db \<Rightarrow> dec option" where
  "owned_quantity v f db =
     (case owned_position v f of
        None \<Rightarrow> None
      | Some q \<Rightarrow> if length (filter (entry_owner f q) (db_intents db)) = 1 then Some q else None)"

text \<open>A text \<open>Decimal\<close> reads as an infinity or a NaN.\<close>

definition special_decimal :: "JSON \<Rightarrow> bool" where
  "special_decimal v =
     (case v of
        JStr s \<Rightarrow>
          (let t = str_lower (snd (split_sign (str_strip s))) in
           t \<in> {''inf'', ''infinity''} \<or> starts_with t ''nan'' \<and> list_all is_digit (drop 3 t)
           \<or> starts_with t ''snan'' \<and> list_all is_digit (drop 4 t))
      | _ \<Rightarrow> False)"

fun first_mark :: "JSON list \<Rightarrow> (Exn, dec) raises" where
  "first_mark [] = Inl (ValueError ''Bitget ticker has no finite positive mark price'')"
| "first_mark (row # rows) =
     (case row of
        JObj d \<Rightarrow>
          (let v = get_first d [''markPrice''] JNull in
           if v = JNull \<or> special_decimal v then first_mark rows
           else case to_decimal v of
                  None \<Rightarrow> Inl (OtherError ''InvalidOperation'' [])
                | Some p \<Rightarrow> if 0 < p then Inr p else first_mark rows)
      | _ \<Rightarrow> first_mark rows)"

definition ticker_mark_price :: "JSON \<Rightarrow> (Exn, dec) raises" where
  "ticker_mark_price v =
     (let rows = (\<lambda>x. case x of JList xs \<Rightarrow> xs | _ \<Rightarrow> [x]) in
      case v of
        JObj d \<Rightarrow>
          (case map_of d ''data'' of
             None \<Rightarrow> first_mark [v]
           | Some x \<Rightarrow> if get_first d [''code''] (JStr ''00000'') \<noteq> JStr ''00000''
               then Inl (ValueError ''Bitget ticker reports provider failure'') else first_mark (rows x))
      | _ \<Rightarrow> first_mark (rows v))"

section \<open>Fill evidence of a close\<close>

definition fee_part_ok :: "JSON \<Rightarrow> bool" where
  "fee_part_ok x = (case x of JObj d \<Rightarrow> to_decimal (get_first d [''totalFee'', ''fee'', ''feeAmount''] JNull) \<noteq> None | _ \<Rightarrow> False)"

definition fee_evidence_ok :: "payload \<Rightarrow> bool" where
  "fee_evidence_ok raw =
     (case (case map_of raw ''feeDetail'' of None \<Rightarrow> Some JNull | Some (JStr s) \<Rightarrow> json_loads s | Some v \<Rightarrow> Some v) of
        None \<Rightarrow> False
      | Some JNull \<Rightarrow> to_decimal (get_first raw [''fee'', ''fillFee'', ''feeAmount''] JNull) \<noteq> None
      | Some (JList parts) \<Rightarrow> parts \<noteq> [] \<and> list_all fee_part_ok parts
      | Some part \<Rightarrow> fee_part_ok part)"

text \<open>The fill is of this close: both identifiers agree where they are given, the symbol and the side always.\<close>

definition fill_matches :: "string \<Rightarrow> string option \<Rightarrow> string \<Rightarrow> string \<Rightarrow> payload \<Rightarrow> (Exn, bool) raises" where
  "fill_matches oid provider_id symbol side fill =
     (let fill_oid = get_first fill [''clientOid''] JNull; order_id = get_first fill [''orderId''] JNull;
          trade_side = get_first fill [''tradeSide''] JNull in
      if \<not> (fill_oid = JStr oid \<or> provider_id = Some (py_str order_id)) then Inr False
      else if fill_oid \<noteq> JNull \<and> fill_oid \<noteq> JStr oid then Inr False
      else if order_id = JNull \<or> provider_id \<noteq> None \<and> provider_id \<noteq> Some (py_str order_id) then Inr False
      else if get_first fill [''symbol''] JNull \<noteq> JStr symbol \<or> str_upper (py_str (get_first fill [''side''] JNull)) \<noteq> side then Inr False
      else (case trade_side of
              JList _ \<Rightarrow> Inl (TypeError ''unhashable type'')
            | JObj _ \<Rightarrow> Inl (TypeError ''unhashable type'')
            | _ \<Rightarrow> Inr (trade_side \<in> {JNull, JStr ''close''})))"

definition fill_print :: "payload \<Rightarrow> (dec \<times> dec \<times> dec) option" where
  "fill_print fill =
     (case (to_decimal (get_first fill [''quantity'', ''size'', ''fillQty'', ''baseVolume''] JNull),
            to_decimal (get_first fill [''price'', ''fillPrice'', ''priceAvg''] JNull),
            (let v = get_first fill [''fee''] (JStr ''0'') in if py_true v then to_decimal v else Some 0),
            to_decimal (get_first fill [''cTime'', ''uTime''] JNull)) of
        (Some qty, Some price, Some fee, Some time) \<Rightarrow>
          if qty \<le> 0 \<or> price \<le> 0 \<or> time \<le> 0 then None else Some (qty, price, dec_abs fee)
      | _ \<Rightarrow> None)"

record CloseEvidence =
  ce_provider_id :: "string option"
  ce_prints :: "(string \<times> dec \<times> dec \<times> dec) list"
  ce_fills :: "payload list"

definition add_print :: "string \<Rightarrow> Db \<Rightarrow> payload \<Rightarrow> string \<Rightarrow> dec \<times> dec \<times> dec \<Rightarrow> CloseEvidence \<Rightarrow> (Exn, CloseEvidence) raises" where
  "add_print oid db fill key fprint ev =
     (if map_of (ce_prints ev) key \<notin> {None, Some fprint}
      then Inl (ValueError ''fallback duplicate fill contradicts provider evidence'')
      else
        let known = List.find (\<lambda>g. fl_exchange g = BITGET \<and> fl_provider_fill_id g = key) (db_fills db);
            ev' = ev\<lparr>ce_provider_id := (case ce_provider_id ev of
                         None \<Rightarrow> Some (py_str (get_first fill [''orderId''] JNull)) | Some p \<Rightarrow> Some p),
                     ce_prints := dict_put key fprint (ce_prints ev), ce_fills := ce_fills ev @ [fill]\<rparr> in
        case known of
          None \<Rightarrow> Inr ev'
        | Some g \<Rightarrow>
            if fl_client_order_id g \<noteq> oid then Inl (ValueError ''fallback fill belongs to another intent'')
            else if (fl_quantity g, fl_price g, fl_fee g) \<noteq> fprint
            then Inl (ValueError ''fallback duplicate fill contradicts durable evidence'')
            else Inr ev')"

definition add_close_fill :: "string \<Rightarrow> string \<Rightarrow> string \<Rightarrow> Db \<Rightarrow> JSON \<Rightarrow> CloseEvidence \<Rightarrow> (Exn, CloseEvidence) raises" where
  "add_close_fill oid symbol side db raw ev =
     (case raw of
        JObj d \<Rightarrow>
          if \<not> fee_evidence_ok d then Inr ev
          else
            let fill = normalize_fill d in
            bindE (fill_matches oid (ce_provider_id ev) symbol side fill) (\<lambda>ok.
              case (ok, fill_print fill, fill_identity fill) of
                (True, Some fprint, Some key) \<Rightarrow>
                  if str_strip key = [] \<or> status_derived key then Inr ev else add_print oid db fill key fprint ev
              | _ \<Rightarrow> Inr ev)
      | _ \<Rightarrow> Inr ev)"

fun collect_fills :: "string \<Rightarrow> string \<Rightarrow> string \<Rightarrow> Db \<Rightarrow> JSON list \<Rightarrow> CloseEvidence \<Rightarrow> (Exn, CloseEvidence) raises" where
  "collect_fills oid symbol side db [] ev = Inr ev"
| "collect_fills oid symbol side db (raw # rows) ev =
     bindE (add_close_fill oid symbol side db raw ev) (collect_fills oid symbol side db rows)"

definition ledger_of :: "Db \<Rightarrow> string \<Rightarrow> Fill list" where
  "ledger_of db oid = sort_key fl_provider_fill_id (fills_of db BITGET oid)"

definition ledger_quantity :: "Fill list \<Rightarrow> dec" where
  "ledger_quantity ledger = dec_sum (map fl_quantity ledger) 0"

definition ledger_price :: "Fill list \<Rightarrow> dec" where
  "ledger_price ledger = dec_div (dec_sum (map (\<lambda>g. dec_mul (fl_quantity g) (fl_price g)) ledger) 0) (ledger_quantity ledger)"

definition settle_intent :: "IntentState \<Rightarrow> string option \<Rightarrow> Fill list \<Rightarrow> IntentRow \<Rightarrow> IntentRow" where
  "settle_intent state provider_id ledger j =
     j\<lparr>it_state := state, it_provider_order_id := provider_id, it_filled_qty := ledger_quantity ledger,
       it_avg_price := Some (ledger_price ledger), it_fee := dec_sum (map fl_fee ledger) 0,
       it_provider_fill_ids := map fl_provider_fill_id ledger\<rparr>"

definition settle_fallback :: "bool \<Rightarrow> dec \<Rightarrow> string \<Rightarrow> FallbackRow \<Rightarrow> FallbackRow" where
  "settle_fallback confirmed price order_id g =
     g\<lparr>fb_state := (if confirmed then FB_triggered else FB_closing),
       fb_close_reason := Some (if confirmed then ''close-confirmed'' else ''close-evidence-pending''),
       fb_close_price := (if confirmed then Some price else None), fb_close_order_id := Some order_id\<rparr>"

definition settle_ledger :: "FallbackRow \<Rightarrow> IntentRow \<Rightarrow> string option \<Rightarrow> bool \<Rightarrow> Db \<Rightarrow> bool transaction" where
  "settle_ledger f i provider_id flat db =
     (let oid = it_client_oid i; ledger = ledger_of db oid; quantity = ledger_quantity ledger;
          state = (if quantity = it_requested_qty i then I_filled else I_partially_filled);
          mine = (\<lambda>j. it_exchange j = BITGET \<and> it_client_oid j = oid); confirmed = (state = I_filled \<and> flat);
          order_id = (case provider_id of Some p \<Rightarrow> if p = [] then oid else p | None \<Rightarrow> oid) in
      if ledger = [] then Inr (db, False)
      else if list_ex (\<lambda>g. status_derived (fl_provider_fill_id g)) ledger
      then Inl (ValueError ''legacy synthetic fallback ledger requires evidence repair'')
      else if quantity \<le> 0 \<or> it_requested_qty i < quantity then Inl (ValueError ''fallback close fill quantity contradicts intent'')
      else if \<exists>j \<in> set (db_intents db). mine j \<and> \<not> intent_check (settle_intent state provider_id ledger j)
      then Inl (StorageError ''live_order_intents check'')
      else Inr (update_fallback (\<lambda>g. fb_id g = fb_id f) (settle_fallback confirmed (ledger_price ledger) order_id)
             (fst (update_intents mine (settle_intent state provider_id ledger) db)), confirmed))"

definition persist_close_fills :: "timestamp \<Rightarrow> FallbackRow \<Rightarrow> JSON list \<Rightarrow> bool \<Rightarrow> Db \<Rightarrow> bool transaction" where
  "persist_close_fills now f rows flat db =
     (let oid = fallback_client_oid (fb_id f) in
      case (List.find (\<lambda>g. fb_id g = fb_id f \<and> fb_exchange g = ''bitget'') (db_fallback db),
            List.find (\<lambda>i. it_exchange i = BITGET \<and> it_client_oid i = oid \<and> it_role i = CLOSE) (db_intents db)) of
        (Some owner, Some i) \<Rightarrow>
          if fb_symbol owner \<noteq> fb_symbol f \<or> fb_state owner \<notin> {FB_active, FB_closing, FB_triggered}
             \<or> it_symbol i \<noteq> fb_symbol owner \<or> it_side i \<noteq> (if fb_direction owner = ''LONG'' then ''SELL'' else ''BUY'')
          then Inr (db, False)
          else bindE (collect_fills oid (it_symbol i) (it_side i) db rows
                  \<lparr>ce_provider_id = it_provider_order_id i, ce_prints = [], ce_fills = []\<rparr>) (\<lambda>ev.
               bindE (insert_provider_fills now (close_record oid (it_symbol i) (it_side i) (it_requested_qty i)) (ce_fills ev) db) (\<lambda>db1.
               settle_ledger f i (ce_provider_id ev) flat db1))
      | _ \<Rightarrow> Inr (db, False))"

section \<open>Workers\<close>

record 'v FbClient = "'v Worker" +
  fc_get_single_position :: "string \<Rightarrow> ('v, JSON) prog"
  fc_place_market_close :: "string \<Rightarrow> string \<Rightarrow> dec \<Rightarrow> string \<Rightarrow> ('v, JSON) prog"
  fc_get_fills :: "string \<Rightarrow> ('v, JSON) prog"
  fc_get_ticker :: "string \<Rightarrow> ('v, JSON) prog"

definition claim_closeW :: "'v FbClient \<Rightarrow> string \<Rightarrow> string \<Rightarrow> string \<Rightarrow> dec \<Rightarrow> ('v WorkerWorld, bool) prog" where
  "claim_closeW c oid symbol side quantity = grantW c oid (\<lambda>now. ensure_close_intent now oid symbol side quantity)"

definition post_closeW :: "'v FbClient \<Rightarrow> string \<Rightarrow> string \<Rightarrow> dec \<Rightarrow> string \<Rightarrow> ('v WorkerWorld, JSON) prog" where
  "post_closeW c symbol side quantity oid = postW c oid (fc_place_market_close c symbol side quantity oid)"

text \<open>\<open>_owned_quantity\<close> reaches the database only for a snapshot that already matches.\<close>

definition owned_quantityW :: "'v FbClient \<Rightarrow> JSON \<Rightarrow> FallbackRow \<Rightarrow> ('v WorkerWorld, dec option) prog" where
  "owned_quantityW c v f = (if owned_position v f = None then returnW None else queryW c (owned_quantity v f))"

text \<open>The exposure a position read shows; \<open>None\<close> when the read raised or is invalid.\<close>

definition read_open :: "'v FbClient \<Rightarrow> string \<Rightarrow> ('v WorkerWorld, (Exn + JSON) \<times> dec option) prog" where
  "read_open c symbol =
     bindW (attemptW (clientW c (fc_get_single_position c symbol))) (\<lambda>r.
       returnW (r, case r of Inl _ \<Rightarrow> None | Inr v \<Rightarrow> open_quantity v))"

section \<open>Closing\<close>

definition fill_rows :: "JSON \<Rightarrow> JSON" where
  "fill_rows v =
     (case v of
        JObj d \<Rightarrow>
          if (case map_of d ''code'' of None \<Rightarrow> False | Some x \<Rightarrow> x \<noteq> JStr ''00000'') then JNull
          else (case get_first d [''data''] v of JObj e \<Rightarrow> get_first e [''fillList''] JNull | x \<Rightarrow> x)
      | _ \<Rightarrow> v)"

definition reconcile_close_evidence :: "'v FbClient \<Rightarrow> FallbackRow \<Rightarrow> bool \<Rightarrow> ('v WorkerWorld, bool) prog" where
  "reconcile_close_evidence c f flat =
     bindW (attemptW (clientW c (fc_get_fills c (fb_symbol f)))) (\<lambda>r.
       case r of
         Inl _ \<Rightarrow> bindW (execW c (update_close_intent (fallback_client_oid (fb_id f)) I_unknown None)) (\<lambda>_. returnW False)
       | Inr v \<Rightarrow>
           (case fill_rows v of
              JList rows \<Rightarrow> dbW c (\<lambda>now. persist_close_fills now f rows flat)
            | _ \<Rightarrow> returnW False))"

record CloseResult =
  cr_submitted :: bool
  cr_reason :: string
  cr_client_oid :: string
  cr_order_id :: "string option"

definition result_order_id :: "JSON \<Rightarrow> string option option" where
  "result_order_id result =
     (case result of
        JObj d \<Rightarrow> Some (case get_first d [''orderId''] JNull of JNull \<Rightarrow> None | v \<Rightarrow> Some (py_str v))
      | _ \<Rightarrow> None)"

text \<open>After the acknowledgement: the read-back decides between unknown, still open, and the fill evidence.\<close>

definition close_readback :: "'v FbClient \<Rightarrow> FallbackRow \<Rightarrow> string option \<Rightarrow> ('v WorkerWorld, CloseResult) prog" where
  "close_readback c f order_id =
     (let oid = fallback_client_oid (fb_id f);
          submitted = (\<lambda>reason. \<lparr>cr_submitted = True, cr_reason = reason, cr_client_oid = oid, cr_order_id = order_id\<rparr>) in
      bindW (read_open c (fb_symbol f)) (\<lambda>(_, remaining).
        case remaining of
          None \<Rightarrow> bindW (execW c (update_close_intent oid I_unknown order_id)) (\<lambda>_. returnW (submitted ''close-readback-unknown''))
        | Some q \<Rightarrow>
            if 0 < q then bindW (execW c (update_close_intent oid I_submitted order_id)) (\<lambda>_. returnW (submitted ''submitted''))
            else bindW (reconcile_close_evidence c f True) (\<lambda>confirmed.
              returnW (submitted (if confirmed then ''close-confirmed'' else ''close-fill-evidence-pending'')))))"

definition submit_fallback_close_async :: "'v FbClient \<Rightarrow> FallbackRow \<Rightarrow> string option \<Rightarrow> ('v WorkerWorld, CloseResult) prog" where
  "submit_fallback_close_async c f environment =
     (let oid = fallback_client_oid (fb_id f); side = (if str_upper (fb_direction f) = ''LONG'' then ''SELL'' else ''BUY'');
          refused = (\<lambda>reason. returnW \<lparr>cr_submitted = False, cr_reason = reason, cr_client_oid = oid, cr_order_id = None\<rparr>) in
      if environment \<notin> {Some ''DEMO'', Some ''LIVE''} \<or> fb_environment f \<noteq> environment
      then refused ''position-environment-unverified''
      else bindW (read_open c (fb_symbol f)) (\<lambda>(positions, open_qty).
        case (positions, open_qty) of
          (Inl _, _) \<Rightarrow> refused ''provider-position-read-failed''
        | (Inr _, None) \<Rightarrow> refused ''provider-position-invalid''
        | (Inr v, Some q) \<Rightarrow>
            if fb_state f = FB_closing then
              bindW (reconcile_close_evidence c f (q = 0)) (\<lambda>confirmed.
                refused (if confirmed then ''close-confirmed'' else ''close-fill-evidence-pending''))
            else if q \<le> 0 then bindW (execW c (mark_position_flat (fb_id f))) (\<lambda>_. refused ''position-already-flat'')
            else bindW (owned_quantityW c v f) (\<lambda>owned.
              case owned of
                None \<Rightarrow> refused ''position-ownership-unverified''
              | Some own \<Rightarrow>
                  let quantity = min (fb_quantity f) own in
                  if quantity \<le> 0 then refused ''close-quantity-invalid''
                  else bindW (claim_closeW c oid (fb_symbol f) side quantity) (\<lambda>claimed.
                    if \<not> claimed then refused ''close-already-claimed''
                    else bindW (execW c (mark_closing (fb_id f) oid None)) (\<lambda>_.
                         bindW (attemptW (post_closeW c (fb_symbol f) side quantity oid)) (\<lambda>result.
                           case result of
                             Inl _ \<Rightarrow> bindW (execW c (update_close_intent oid I_unknown None)) (\<lambda>_. refused ''close-result-unknown'')
                           | Inr payload \<Rightarrow>
                               (case result_order_id payload of
                                  None \<Rightarrow> bindW (execW c (update_close_intent oid I_unknown None)) (\<lambda>_. refused ''close-acknowledgement-invalid'')
                                | Some order_id \<Rightarrow>
                                    bindW (execW c (update_close_intent oid I_submitted order_id)) (\<lambda>_.
                                    bindW (execW c (mark_closing (fb_id f) oid order_id)) (\<lambda>_.
                                    close_readback c f order_id)))))))))"

section \<open>The monitor\<close>

definition monitor_order_id :: "JSON \<Rightarrow> string option" where
  "monitor_order_id result =
     (case result of JObj d \<Rightarrow> (let v = get_first d [''orderId''] JNull in if py_true v then Some (py_str v) else None) | _ \<Rightarrow> None)"

text \<open>The close of one entry whose threshold is crossed; whether it was confirmed.\<close>

definition monitor_close :: "'v FbClient \<Rightarrow> FallbackRow \<Rightarrow> dec \<Rightarrow> ('v WorkerWorld, bool) prog" where
  "monitor_close c f open_qty =
     (let oid = fallback_client_oid (fb_id f); side = (if str_upper (fb_direction f) = ''LONG'' then ''SELL'' else ''BUY'');
          quantity = min (fb_quantity f) open_qty in
      bindW (claim_closeW c oid (fb_symbol f) side quantity) (\<lambda>claimed.
        if \<not> claimed then returnW False
        else bindW (execW c (mark_closing (fb_id f) oid None)) (\<lambda>_.
             bindW (attemptW (post_closeW c (fb_symbol f) side quantity oid)) (\<lambda>result.
               case result of
                 Inl _ \<Rightarrow> bindW (execW c (update_close_intent oid I_unknown None)) (\<lambda>_. returnW False)
               | Inr payload \<Rightarrow>
                   let order_id = monitor_order_id payload in
                   bindW (execW c (update_close_intent oid I_submitted order_id)) (\<lambda>_.
                   bindW (execW c (mark_closing (fb_id f) oid order_id)) (\<lambda>_.
                   bindW (read_open c (fb_symbol f)) (\<lambda>(_, remaining).
                     case remaining of
                       None \<Rightarrow> bindW (execW c (update_close_intent oid I_unknown order_id)) (\<lambda>_. returnW False)
                     | Some q \<Rightarrow> if q \<le> 0 then reconcile_close_evidence c f True else returnW False)))))))"

definition monitor_entry :: "'v FbClient \<Rightarrow> string option \<Rightarrow> FallbackRow \<Rightarrow> ('v WorkerWorld, bool) prog" where
  "monitor_entry c environment f =
     (if environment \<notin> {Some ''DEMO'', Some ''LIVE''} \<or> fb_environment f \<noteq> environment then returnW False
      else bindW (read_open c (fb_symbol f)) (\<lambda>(positions, open_qty).
        case (positions, open_qty) of
          (Inr v, Some q) \<Rightarrow>
            if q \<le> 0 then
              (if fb_state f = FB_closing then bindW (reconcile_close_evidence c f True) (\<lambda>_. returnW False)
               else bindW (execW c (mark_position_flat (fb_id f))) (\<lambda>_. returnW False))
            else if fb_state f = FB_closing then bindW (reconcile_close_evidence c f False) (\<lambda>_. returnW False)
            else bindW (owned_quantityW c v f) (\<lambda>owned.
              if owned = None then returnW False
              else bindW (attemptW (bindW (clientW c (fc_get_ticker c (fb_symbol f))) (\<lambda>t. liftE (ticker_mark_price t)))) (\<lambda>mark.
                case mark of
                  Inl _ \<Rightarrow> returnW False
                | Inr price \<Rightarrow>
                    if \<not> fst (check_thresholds (str_upper (fb_direction f)) price (fb_stop_loss f) (fb_take_profits f))
                    then returnW False else monitor_close c f q))
        | _ \<Rightarrow> returnW False))"

fun monitor_entries :: "'v FbClient \<Rightarrow> string option \<Rightarrow> FallbackRow list \<Rightarrow> ('v WorkerWorld, string list) prog" where
  "monitor_entries c environment [] = returnW []"
| "monitor_entries c environment (f # fs) =
     bindW (monitor_entry c environment f) (\<lambda>confirmed.
     bindW (monitor_entries c environment fs) (\<lambda>rest.
       returnW (if confirmed then fallback_client_oid (fb_id f) # rest else rest)))"

definition run_fallback_monitor_async :: "'v FbClient \<Rightarrow> string option \<Rightarrow> ('v WorkerWorld, string list) prog" where
  "run_fallback_monitor_async c environment =
     bindW (attemptW (queryW c load_active)) (\<lambda>entries.
       case entries of Inl _ \<Rightarrow> returnW [] | Inr fs \<Rightarrow> monitor_entries c environment fs)"

section \<open>Lemmas\<close>

lemma update_fallback_tables [simp]:
  "db_intents (update_fallback p g db) = db_intents db" "db_fills (update_fallback p g db) = db_fills db"
  "db_fallback (update_fallback p g db) = update_where p g (db_fallback db)"
  by (simp_all add: update_fallback_def)

lemma intents_kept_close:
  assumes "update_close_intent oid state order_id db = Inr db'" "state \<noteq> I_staged"
  shows "intents_kept db db'"
proof -
  have "db' = fst (update_intents (\<lambda>i. it_exchange i = BITGET \<and> it_client_oid i = oid)
       (\<lambda>i. i\<lparr>it_state := state, it_provider_order_id := (case order_id of None \<Rightarrow> it_provider_order_id i | Some p \<Rightarrow> Some p)\<rparr>) db)"
    using assms(1) by (simp add: update_close_intent_def)
  then show ?thesis using assms(2) by (simp add: intents_kept_update)
qed

lemma mark_kept:
  "mark_closing fid oid order_id db = Inr db' \<Longrightarrow> intents_kept db db'" "mark_position_flat fid db = Inr db' \<Longrightarrow> intents_kept db db'"
  by (auto simp: mark_closing_def mark_position_flat_def intro: intents_kept_same)

lemma ensure_close_grants: "grants oid (\<lambda>now. ensure_close_intent now oid symbol side quantity)"
  unfolding grants_def
proof (intro allI impI)
  fix now db db' won
  assume "unique_intents db" and run: "ensure_close_intent now oid symbol side quantity db = Inr (db', won)"
  have ident: "it_exchange (close_record oid symbol side quantity) = BITGET" "it_client_oid (close_record oid symbol side quantity) = oid"
    "it_state (close_record oid symbol side quantity) \<noteq> I_staged"
    by (simp_all add: close_record_def new_record_def)
  consider "db' = db" "\<not> won" | db1 where "insert_intent now (close_record oid symbol side quantity) db = Inr (db1, won)"
      "db_intents db' = db_intents db1"
    using run by (fastforce simp: ensure_close_intent_def run_simps split: list.splits if_splits prod.splits)
  then show "intents_kept db db' \<and> (won \<longrightarrow> \<not> live_order db oid \<and> live_order db' oid)"
  proof cases
    case 1
    then show ?thesis using intents_kept_same by blast
  next
    case 2
    have same: "intents_kept db1 db'" using intents_kept_same [OF 2(2)] .
    have "\<not> live_order db oid \<and> live_order db1 oid" if won
      using insert_intent_won [of now "close_record oid symbol side quantity" db db1] insert_intent_live [of now "close_record oid symbol side quantity" db db1]
        2(1) ident that live_order_found [of db oid] by auto
    then show ?thesis using intents_kept_trans [OF intents_kept_insert [OF 2(1)] same] same by (simp add: intents_kept_def)
  qed
qed

lemma settle_ledger_cases:
  assumes "settle_ledger f i provider_id flat db = Inr (db', confirmed)"
  obtains (empty) "db' = db" "\<not> confirmed"
  | (settled) order_id where "ledger_of db (it_client_oid i) \<noteq> []"
      "\<forall>g \<in> set (ledger_of db (it_client_oid i)). \<not> status_derived (fl_provider_fill_id g)"
      "confirmed \<longleftrightarrow> ledger_quantity (ledger_of db (it_client_oid i)) = it_requested_qty i \<and> flat"
      "0 < ledger_quantity (ledger_of db (it_client_oid i))" "ledger_quantity (ledger_of db (it_client_oid i)) \<le> it_requested_qty i"
      "db' = update_fallback (\<lambda>g. fb_id g = fb_id f) (settle_fallback confirmed (ledger_price (ledger_of db (it_client_oid i))) order_id)
         (fst (update_intents (\<lambda>j. it_exchange j = BITGET \<and> it_client_oid j = it_client_oid i)
           (settle_intent (if ledger_quantity (ledger_of db (it_client_oid i)) = it_requested_qty i then I_filled else I_partially_filled)
             provider_id (ledger_of db (it_client_oid i))) db))"
  using assms unfolding settle_ledger_def Let_def
  by (auto split: if_splits simp: list_ex_iff)

lemma intents_kept_settle:
  assumes "settle_ledger f i provider_id flat db = Inr (db', confirmed)"
  shows "intents_kept db db'"
  using assms
proof (cases rule: settle_ledger_cases)
  case empty
  then show ?thesis by (simp add: intents_kept_same)
next
  case (settled order_id)
  show ?thesis unfolding settled(6)
    by (rule intents_kept_trans [OF intents_kept_update intents_kept_same]) (simp_all add: settle_intent_def)
qed

lemma intents_kept_persist: "persist_close_fills now f rows flat db = Inr (db', confirmed) \<Longrightarrow> intents_kept db db'"
  unfolding persist_close_fills_def Let_def
  by (auto simp: run_simps split: option.splits if_splits intro: intents_kept_same
      dest!: insert_provider_fills_intents [THEN intents_kept_same] dest: intents_kept_settle intents_kept_trans)

lemma insert_fill_fallback: "insert_fill g db = Inr db' \<Longrightarrow> db_fallback db' = db_fallback db"
  by (auto simp: insert_fill_def split: if_splits)

lemma drop_superseded_fallback [simp]: "db_fallback (drop_superseded ex oid db) = db_fallback db"
  by (simp add: drop_superseded_def)

lemma insert_provider_fill_fallback:
  assumes "insert_provider_fill now r raw db = Inr db'"
  shows "db_fallback db' = db_fallback db"
proof (cases "usable_fill (normalize_fill raw)")
  case None
  then show ?thesis using assms by (simp add: insert_provider_fill_def)
next
  case (Some u)
  then obtain t db1 where "insert_fill (provider_fill r u t) db = Inr db1" "db' = drop_superseded (it_exchange r) (it_client_oid r) db1"
    using assms unfolding insert_provider_fill_def Let_def by (simp add: bindE_Inr_iff) blast
  then show ?thesis by (simp add: insert_fill_fallback)
qed

lemma insert_provider_fills_fallback: "insert_provider_fills now r fills db = Inr db' \<Longrightarrow> db_fallback db' = db_fallback db"
  by (induction fills arbitrary: db) (auto simp: bindE_Inr_iff dest: insert_provider_fill_fallback)

lemma persist_close_fills_cases:
  assumes "persist_close_fills now f rows flat db = Inr (db', confirmed)"
  obtains (ignored) "db' = db" "\<not> confirmed"
  | (evidence) i provider_id db1 where "i \<in> set (db_intents db1)" "it_exchange i = BITGET" "it_role i = CLOSE"
      "it_client_oid i = fallback_client_oid (fb_id f)" "db_fallback db1 = db_fallback db"
      "settle_ledger f i provider_id flat db1 = Inr (db', confirmed)"
proof -
  let ?oid = "fallback_client_oid (fb_id f)"
  let ?i = "List.find (\<lambda>i. it_exchange i = BITGET \<and> it_client_oid i = ?oid \<and> it_role i = CLOSE) (db_intents db)"
  consider "db' = db" "\<not> confirmed" | i provider_id db1 and r :: LiveIntentRecord and fills where "?i = Some i"
      "insert_provider_fills now r fills db = Inr db1" "settle_ledger f i provider_id flat db1 = Inr (db', confirmed)"
    using assms unfolding persist_close_fills_def Let_def by (simp add: bindE_Inr_iff split: option.splits if_splits)
  then show ?thesis
  proof cases
    case 2
    then show ?thesis
      using evidence insert_provider_fills_intents insert_provider_fills_fallback find_Some_props [OF 2(1)] by metis
  qed (rule ignored)
qed

section \<open>Workers side by side\<close>

lemma quietly_marks [quiet_rules]:
  assumes "others_spare (wk_id c) c"
  shows "quietly c (execW c (mark_closing fid oid order_id))" "quietly c (execW c (mark_position_flat fid))"
    "state \<noteq> I_staged \<Longrightarrow> quietly c (execW c (update_close_intent oid state order_id))"
  by (rule quietly_exec [OF assms], erule mark_kept intents_kept_close, assumption?)+

lemma quietly_reads [quiet_rules]:
  assumes "others_spare (wk_id c) c"
  shows "quietly c (read_open c symbol)" "quietly c (owned_quantityW c v f)"
  using assms by (auto simp: read_open_def owned_quantityW_def intro!: quiet_rules)

lemma quietly_reconcile [quiet_rules]:
  assumes "others_spare (wk_id c) c"
  shows "quietly c (reconcile_close_evidence c f flat)"
  unfolding reconcile_close_evidence_def using assms
  by (auto intro!: quiet_rules dest: intents_kept_persist split: sum.split JSON.split)

lemma quietly_readback [quiet_rules]:
  assumes "others_spare (wk_id c) c"
  shows "quietly c (close_readback c f order_id)"
  unfolding close_readback_def Let_def using assms by (auto intro!: quiet_rules split: option.split)

lemma safely_claim_close:
  assumes "others_spare (wk_id c) c" "safely c {} (g False) {}" "safely c {oid} (g True) {}"
  shows "safely c {} (bindW (claim_closeW c oid symbol side quantity) g) {}"
  unfolding claim_closeW_def by (rule safely_grant_then [OF assms(1) ensure_close_grants assms(2,3)])

lemma safely_post_close:
  assumes "others_spare (wk_id c) c" "\<And>r. quietly c (g r)"
  shows "safely c {oid} (bindW (attemptW (post_closeW c symbol side quantity oid)) g) {}"
  unfolding post_closeW_def
  by (rule safely_bind [OF safely_attempt [OF safely_post [OF assms(1)]] quietly_safely [OF assms(2)]])

lemmas quiet_binds = quietly_reads [THEN safely_quiet_bind] quietly_reconcile [THEN safely_quiet_bind]
  quietly_marks [THEN safely_quiet_bind] quietly_attempt [OF quietly_bind [OF quietly_client], THEN safely_quiet_bind]

lemma safely_submit:
  assumes "others_spare (wk_id c) c"
  shows "safely c {} (submit_fallback_close_async c f environment) {}"
  unfolding submit_fallback_close_async_def Let_def using assms
  by (auto intro!: safely_return safely_claim_close safely_post_close quiet_binds quiet_rules split: option.split sum.split)

lemma safely_monitor_close:
  assumes "others_spare (wk_id c) c"
  shows "safely c {} (monitor_close c f q) {}"
  unfolding monitor_close_def Let_def using assms
  by (auto intro!: safely_stop safely_claim_close safely_post_close quiet_binds quiet_rules quietly_reconcile [THEN safely_drop] split: option.split sum.split)

lemma safely_monitor_entry:
  assumes "others_spare (wk_id c) c"
  shows "safely c {} (monitor_entry c environment f) {}"
  unfolding monitor_entry_def using assms
  by (auto intro!: safely_stop safely_monitor_close quiet_binds quiet_rules split: option.split sum.split)

lemma safely_monitor:
  assumes "others_spare (wk_id c) c"
  shows "safely c {} (run_fallback_monitor_async c environment) {}"
proof -
  have "safely c {} (monitor_entries c environment fs) {}" for fs
    by (induction fs) (auto intro!: safely_bind [OF safely_monitor_entry [OF assms]] safely_bind safely_return)
  then show ?thesis unfolding run_fallback_monitor_async_def using assms
    by (auto intro!: safely_quiet_bind quiet_rules safely_return split: sum.split)
qed

section \<open>Properties\<close>

text \<open>
  C5: a fallback row gets at most one close order, whoever runs. Take any worker, running the
  monitor or the direct close, interleaved at every database and venue call with other workers that
  keep the claim log in order and do not act in its name, with the database failing at any call and
  the venue answering anything. Afterwards no client order id has been posted twice, every post had
  its claim granted first, every claim its durable intent, and the worker was itself such an other
  worker for each bystander.
\<close>

theorem fallback_close_posted_once:
  assumes "others_spare (wk_id c) c" and "orders_ok w"
    and "snd (run_fallback_monitor_async c environment w) = w' \<or> snd (submit_fallback_close_async c f environment w) = w'"
  shows "distinct (map snd (ww_posts w')) \<and> set (ww_posts w') \<subseteq> set (ww_wins w')
    \<and> (\<forall>x \<in> set (ww_wins w'). find_intent (ww_db w') BITGET (snd x) \<noteq> None)
    \<and> (\<forall>k. k \<noteq> wk_id c \<and> others_spare k c \<longrightarrow> entries_of k w' = entries_of k w)"
proof -
  have "orders_ok w' \<and> distinct (map snd (ww_posts w'))
    \<and> (\<forall>k. k \<noteq> wk_id c \<and> others_spare k c \<longrightarrow> entries_of k w' = entries_of k w)"
    using assms(3) safely_posted_once [OF safely_monitor [OF assms(1)] assms(2)]
      safely_posted_once [OF safely_submit [OF assms(1)] assms(2)] by blast
  then show ?thesis by (auto simp: orders_ok_def dest: live_order_found)
qed

definition sample_fallback :: FallbackRow where
  "sample_fallback = \<lparr>fb_id = ''7f3a-01'', fb_exchange = ''bitget'', fb_symbol = ''ZROUSDT'', fb_direction = ''LONG'', fb_entry_price = 16 / 10,
     fb_stop_loss = 157 / 100, fb_take_profits = [17 / 10, 18 / 10], fb_quantity = 5, fb_position_key = Some ''e0'',
     fb_provider_position_epoch = Some ''17'', fb_environment = Some ''LIVE'', fb_state = FB_active, fb_close_price = None,
     fb_close_reason = None, fb_close_order_id = None\<rparr>"

definition sample_fallback_entry :: IntentRow where
  "sample_fallback_entry = stored_row 1 ((new_record BITGET ''e0'' ''ZROUSDT'' ''BUY'')
     \<lparr>it_requested_qty := 5, it_filled_qty := 5, it_state := I_filled\<rparr>)"

definition sample_close_fill :: JSON where
  "sample_close_fill = JObj [(''clientOid'', JStr ''fb-7f3a01-close''), (''orderId'', JStr ''p9''), (''symbol'', JStr ''ZROUSDT''), (''side'', JStr ''sell''),
     (''tradeSide'', JStr ''close''), (''tradeId'', JStr ''t1''), (''size'', JInt 5), (''price'', JInt 2), (''fee'', JInt 0), (''cTime'', JInt 1700)]"

definition sample_position :: JSON where
  "sample_position = JObj [(''symbol'', JStr ''ZROUSDT''), (''holdSide'', JStr ''long''), (''cTime'', JInt 17), (''posMode'', JStr ''one_way_mode''),
     (''marginMode'', JStr ''isolated''), (''total'', JInt 5)]"

text \<open>A venue that counts close orders: the position is open before the first and flat after it.\<close>

definition sample_worker :: "nat FbClient" where
  "sample_worker = \<lparr>wk_id = 1, wk_others = (\<lambda>_ w. w), wk_db_down = (\<lambda>_. False), wk_now = int,
     fc_get_single_position = (\<lambda>_ v. (Inr (JList (if v = 0 then [sample_position] else [])), v)),
     fc_place_market_close = (\<lambda>_ _ _ _ v. (Inr (JObj [(''orderId'', JStr ''p9'')]), v + 1)),
     fc_get_fills = (\<lambda>_ v. (Inr (JList [sample_close_fill]), v)),
     fc_get_ticker = (\<lambda>_ v. (Inr (JList [JObj [(''markPrice'', JInt 2)]]), v))\<rparr>"

definition sample_fb_world :: "nat WorkerWorld" where
  "sample_fb_world = \<lparr>ww_db = empty_db\<lparr>db_intents := [sample_fallback_entry], db_fallback := [sample_fallback]\<rparr>, ww_venue = 0, ww_tick = 0,
     ww_wins = [], ww_posts = []\<rparr>"

definition monitored :: "(Exn, string list) raises \<times> nat WorkerWorld" where
  "monitored = run_fallback_monitor_async sample_worker (Some ''LIVE'') sample_fb_world"

theorem fallback_close_posted_once_witness:
  "fst monitored = Inr [''fb-7f3a01-close''] \<and> map snd (ww_posts (snd monitored)) = [''fb-7f3a01-close''] \<and> distinct (map snd (ww_posts (snd monitored)))"
proof -
  have "others_spare (wk_id sample_worker) sample_worker" by (simp add: others_spare_def spares_def sample_worker_def)
  moreover have "orders_ok sample_fb_world" by (simp add: orders_ok_def sample_fb_world_def unique_intents_def)
  ultimately have "distinct (map snd (ww_posts (snd monitored)))"
    using fallback_close_posted_once [of sample_worker sample_fb_world "Some ''LIVE''" "snd monitored"] by (simp add: monitored_def)
  moreover have "case monitored of (r, w) \<Rightarrow> r = Inr [''fb-7f3a01-close''] \<and> map snd (ww_posts w) = [''fb-7f3a01-close'']" by code_simp
  ultimately show ?thesis unfolding case_prod_unfold by blast
qed


definition persisted :: "Db \<times> bool" where
  "persisted = projr (persist_close_fills 9 sample_fallback [sample_close_fill] True (fst (projr
     (ensure_close_intent 5 ''fb-7f3a01-close'' ''ZROUSDT'' ''SELL'' 5 (ww_db sample_fb_world)))))"




end
