(* ===== verification/Verified_Closes.thy ===== *)
theory Verified_Closes
  imports Reservations Workers
begin

text \<open>
  \<open>storage/verified_closes.py\<close>: the evidence-led close lifecycle. \<open>bind_requested_close\<close> records, before
  the close order is posted, which admission owns the close; \<open>reconcile\<close> reads the provider fills of
  every bound close, persists them, reads the positions and gives the capacity back. Only reads of the
  venue appear here. The reconciliation is a program of one worker among others, as in \<open>Workers\<close>; its process clock and
  the clocks of the release come from a supply.
\<close>

section \<open>Binding a close before it is posted\<close>

definition owner_source :: "bool \<Rightarrow> Db \<Rightarrow> DispatchRow \<Rightarrow> bool" where
  "owner_source console_enabled db d \<longleftrightarrow>
     (let signal = list_ex (\<lambda>s. sg_id s = ds_source_id d) (db_signals db) in
      if console_enabled then signal \<or> ds_source_type d = ''console_manual''
      else ds_source_type d = ''canonical_signal'' \<and> signal)"

definition unsettled_prior :: "Db \<Rightarrow> UUID \<Rightarrow> string \<Rightarrow> bool" where
  "unsettled_prior db rid close_oid \<longleftrightarrow>
     (\<exists>b \<in> set (db_bindings db). \<exists>p \<in> set (db_intents db). cb_reservation_id b = rid \<and> cb_close_client_order_id b \<noteq> close_oid
        \<and> it_exchange p = BITGET \<and> it_client_oid p = cb_close_client_order_id b
        \<and> it_state p \<notin> {I_filled, I_reconciled, I_cancelled, I_rejected})"

definition waiting_limit :: "Db \<Rightarrow> UUID \<Rightarrow> bool" where
  "waiting_limit db rid \<longleftrightarrow>
     (\<exists>i \<in> set (db_intents db). it_exchange i = BITGET \<and> it_margin_reservation_id i = Some rid \<and> it_entry_leg i = Some ''limit''
        \<and> \<not> it_provider_terminal i)"

definition close_candidate :: "Db \<Rightarrow> string \<Rightarrow> string \<Rightarrow> Reservation \<Rightarrow> IntentRow \<Rightarrow> IntentRow \<Rightarrow> DispatchRow \<Rightarrow> bool" where
  "close_candidate db environment close_oid r e x d \<longleftrightarrow>
     it_exchange e = BITGET \<and> it_client_oid e = rs_client_order_id r \<and> it_margin_reservation_id e = Some (rs_id r)
     \<and> ds_id d = rs_dispatch_id r
     \<and> it_exchange x = BITGET \<and> it_client_oid x = close_oid \<and> Some (it_symbol x) = rs_symbol r
     \<and> rs_environment r = Some environment \<and> rs_state r \<in> {R_consumed, R_reserved}
     \<and> it_role e = ENTRY \<and> it_state e \<in> {I_filled, I_reconciled} \<and> Some (it_symbol e) = rs_symbol r \<and> 0 < it_filled_qty e
     \<and> it_role x \<in> {CLOSE, EMERGENCY_CLOSE, SL, TP} \<and> it_state x = I_requested \<and> it_filled_qty x = 0 \<and> 0 < it_requested_qty x
     \<and> \<not> unsettled_prior db (rs_id r) close_oid
     \<and> B_intent (it_exchange e) (it_client_oid e) \<notin> set (db_baseline db) \<and> B_reservation (rs_id r) \<notin> set (db_baseline db)
     \<and> B_dispatch (ds_id d) \<notin> set (db_baseline db)
     \<and> \<not> waiting_limit db (rs_id r)
     \<and> it_side x = opposite_side (it_side e)
     \<and> it_created_at e \<le> it_created_at x \<and> rs_created_at r \<le> it_created_at x
     \<and> fills_of db BITGET close_oid = []"

definition close_candidates :: "bool \<Rightarrow> string \<Rightarrow> string \<Rightarrow> Db \<Rightarrow> (Reservation \<times> IntentRow) list" where
  "close_candidates console_enabled environment close_oid db =
     [(r, x). r \<leftarrow> db_reservations db, e \<leftarrow> db_intents db, d \<leftarrow> db_dispatches db, x \<leftarrow> db_intents db,
       close_candidate db environment close_oid r e x d \<and> owner_source console_enabled db d]"

definition bind_requested_close :: "bool \<Rightarrow> string option \<Rightarrow> string \<Rightarrow> dec option \<Rightarrow> Db \<Rightarrow> bool transaction" where
  "bind_requested_close console_enabled environment close_oid expected_remaining db =
     (if environment \<notin> {Some ''DEMO'', Some ''LIVE''} then Inr (db, False)
      else case close_candidates console_enabled (the environment) close_oid db of
        [(r, x)] \<Rightarrow>
          (case remaining_owned_quantity (rs_client_order_id r) db of
             Inl _ \<Rightarrow> Inr (db, False)
           | Inr remaining \<Rightarrow>
               if remaining < it_requested_qty x \<or> (case expected_remaining of None \<Rightarrow> False | Some q \<Rightarrow> remaining \<noteq> q)
               then Inr (db, False)
               else (case List.find (\<lambda>b. cb_close_client_order_id b = close_oid) (db_bindings db) of
                       Some b \<Rightarrow> Inr (db, cb_reservation_id b = rs_id r)
                     | None \<Rightarrow> Inr (db\<lparr>db_bindings := db_bindings db @
                         [\<lparr>cb_close_client_order_id = close_oid, cb_reservation_id = rs_id r\<rparr>]\<rparr>, True)))
      | _ \<Rightarrow> Inr (db, False))"

definition read_close_candidates :: "string \<Rightarrow> Db \<Rightarrow> (UUID \<times> string \<times> string option \<times> string) list" where
  "read_close_candidates environment db =
     [(rs_dispatch_id r, rs_client_order_id r, rs_symbol r, cb_close_client_order_id b). b \<leftarrow> db_bindings db, r \<leftarrow> db_reservations db,
       rs_id r = cb_reservation_id b \<and> rs_environment r = Some environment \<and> rs_state r \<in> {R_consumed, R_reserved}]"

section \<open>Fill evidence\<close>

definition fill_list :: "JSON \<Rightarrow> payload list option" where
  "fill_list raw =
     (case (case raw of JObj d \<Rightarrow> if list_all (\<lambda>(k, _). k \<in> {''fillList'', ''endId''}) d then get_first d [''fillList''] JNull else raw
            | _ \<Rightarrow> raw) of
        JList xs \<Rightarrow> those (map (\<lambda>x. case x of JObj d \<Rightarrow> Some d | _ \<Rightarrow> None) xs)
      | _ \<Rightarrow> None)"

definition fill_of_close :: "string \<Rightarrow> string option \<Rightarrow> payload \<Rightarrow> bool" where
  "fill_of_close close_oid provider_order_id fill =
     (let oid = get_first fill [''clientOid''] JNull in
      if oid \<noteq> JNull then oid = JStr close_oid
      else provider_order_id \<notin> {None, Some []} \<and> provider_order_id = Some (py_str (get_first fill [''orderId''] (JStr []))))"

definition total_fee_ok :: "JSON \<Rightarrow> bool" where
  "total_fee_ok part = (case part of JObj d \<Rightarrow> Option.bind (map_of d ''totalFee'') to_decimal \<noteq> None | _ \<Rightarrow> False)"

definition economics_ok :: "payload \<Rightarrow> bool" where
  "economics_ok raw =
     (case get_first raw [''feeDetail''] JNull of
        JNull \<Rightarrow> Option.bind (map_of raw ''fee'') to_decimal \<noteq> None
      | v \<Rightarrow>
          (case (case v of JStr s \<Rightarrow> json_loads s | _ \<Rightarrow> Some v) of
             Some (JList parts) \<Rightarrow> parts \<noteq> [] \<and> list_all total_fee_ok parts
           | Some (JObj d) \<Rightarrow> total_fee_ok (JObj d)
           | _ \<Rightarrow> False))"

text \<open>One verified fill, with the identifiers as the provider gave them; \<open>None\<close> where the source raises.\<close>

record CloseItem =
  ci_fill_id :: JSON
  ci_order_id :: JSON
  ci_trade_side :: string
  ci_price :: dec
  ci_quantity :: dec
  ci_fee :: dec
  ci_realized_pnl :: dec

definition verified_item :: "string \<Rightarrow> string \<Rightarrow> payload \<Rightarrow> CloseItem option" where
  "verified_item symbol side raw =
     (if \<not> economics_ok raw then None
      else
        let f = normalize_fill raw; fill_id = get_first f [''fillId'', ''tradeId''] JNull in
        case (map_of f ''orderId'', map_of f ''symbol'', map_of f ''side'', map_of f ''tradeSide'',
              to_decimal (get_first f [''quantity'', ''size'', ''fillQty'', ''baseVolume''] JNull),
              to_decimal (get_first f [''price'', ''fillPrice'', ''priceAvg''] JNull),
              Option.bind (map_of f ''fee'') to_decimal,
              to_decimal (get_first f [''realizedPnl'', ''profit'', ''totalProfits''] JNull)) of
          (Some order_id, Some named, Some (JStr sd), Some (JStr trade), Some qty, Some price, Some fee, Some pnl) \<Rightarrow>
            if named \<noteq> JStr symbol \<or> str_upper sd \<noteq> side \<or> trade \<notin> set CLOSING_TRADE_SIDES \<or> \<not> py_true fill_id
               \<or> status_derived (py_str fill_id) \<or> \<not> py_true order_id \<or> qty \<le> 0 \<or> price \<le> 0 \<or> fee < 0
            then None
            else Some \<lparr>ci_fill_id = fill_id, ci_order_id = order_id, ci_trade_side = trade, ci_price = price, ci_quantity = qty,
                       ci_fee = fee, ci_realized_pnl = pnl\<rparr>
        | _ \<Rightarrow> None)"

definition evidence_complete :: "('a) LiveIntentRecord_scheme \<Rightarrow> CloseItem list \<Rightarrow> bool" where
  "evidence_complete r items \<longleftrightarrow> distinct (map ci_fill_id items) \<and> items \<noteq> []
     \<and> list_all (\<lambda>i. ci_order_id i = ci_order_id (hd items)) items
     \<and> dec_sum (map ci_quantity items) 0 = it_requested_qty r
     \<and> (it_provider_order_id r \<in> {None, Some []} \<or> ci_order_id (hd items) = JStr (the (it_provider_order_id r)))"

definition close_evidence_of :: "string \<Rightarrow> IntentRow \<Rightarrow> JSON \<Rightarrow> (payload list \<times> CloseItem list) option" where
  "close_evidence_of symbol r raw =
     Option.bind (fill_list raw) (\<lambda>fills.
       let matches = filter (fill_of_close (it_client_oid r) (it_provider_order_id r)) fills in
       Option.bind (those (map (verified_item symbol (it_side r)) matches)) (\<lambda>items.
         if matches = [] \<or> \<not> evidence_complete r items then None else Some (matches, items)))"

definition filled_record :: "IntentRow \<Rightarrow> payload list \<Rightarrow> CloseItem list \<Rightarrow> IntentRow" where
  "filled_record r matches items =
     r\<lparr>it_state := I_filled, it_provider_order_id := Some (py_str (ci_order_id (hd items))), it_filled_qty := it_requested_qty r,
       it_avg_price := Some (dec_div (dec_sum (map (\<lambda>i. dec_mul (ci_price i) (ci_quantity i)) items) 0) (it_requested_qty r)),
       it_fee := dec_sum (map ci_fee items) 0, it_provider_fill_ids := map (py_str \<circ> ci_fill_id) items, it_provider_fills := matches\<rparr>"

definition close_fill :: "string \<Rightarrow> string \<Rightarrow> CloseItem \<Rightarrow> CloseFill" where
  "close_fill symbol side i =
     \<lparr>cf_provider_fill_id = py_str (ci_fill_id i), cf_provider_order_id = py_str (ci_order_id i), cf_symbol = symbol, cf_side = side,
      cf_trade_side = ci_trade_side i, cf_price = ci_price i, cf_quantity = ci_quantity i, cf_fee = ci_fee i, cf_realized_pnl = ci_realized_pnl i\<rparr>"

text \<open>The full position read shows the symbol flat; a malformed row proves nothing.\<close>

definition position_flat :: "string \<Rightarrow> JSON \<Rightarrow> bool" where
  "position_flat symbol p =
     (case p of
        JObj d \<Rightarrow>
          (case (map_of d ''symbol'', Option.bind (map_of d ''total'') to_decimal) of
             (Some (JStr s), Some qty) \<Rightarrow> s \<noteq> [] \<and> 0 \<le> qty \<and> \<not> (s = symbol \<and> qty \<noteq> 0)
           | _ \<Rightarrow> False)
      | _ \<Rightarrow> False)"

definition verified_flat :: "string \<Rightarrow> JSON \<Rightarrow> bool" where
  "verified_flat symbol positions = (case positions of JList ps \<Rightarrow> list_all (position_flat symbol) ps | _ \<Rightarrow> False)"

section \<open>Reconciliation\<close>

record 'v CloseClient =
  vc_environment :: "string option"
  vc_get_fills :: "string option \<Rightarrow> ('v, JSON) prog"
  vc_get_all_positions :: "('v, JSON) prog"
  vc_now :: "nat \<Rightarrow> timestamp"          \<comment> \<open>the process clock\<close>
  vc_clock :: "nat \<Rightarrow> Clock"            \<comment> \<open>the database clocks of a call\<close>

definition close_request :: "string \<Rightarrow> string \<Rightarrow> UUID \<Rightarrow> string \<Rightarrow> string \<Rightarrow> timestamp \<Rightarrow> CloseFill list \<Rightarrow> CloseRequest" where
  "close_request environment symbol dispatch_id entry_oid close_oid observed_at fills =
     \<lparr>cq_environment = environment, cq_symbol = symbol, cq_dispatch_id = dispatch_id, cq_entry_oid = entry_oid, cq_close_oid = close_oid,
      cq_authenticated = True, cq_observed_at = Some observed_at, cq_flat_quantity = 0, cq_fills = fills, cq_max_snapshot_age = 30000000\<rparr>"

definition release_close ::
  "('v, 'z) Worker_scheme \<Rightarrow> 'v CloseClient \<Rightarrow> string \<Rightarrow> string \<Rightarrow> UUID \<Rightarrow> string \<Rightarrow> IntentRow \<Rightarrow> CloseItem list \<Rightarrow> ('v WorkerWorld, unit) prog" where
  "release_close c vc environment symbol dispatch_id entry_oid r items w =
     bindW (dbW c (\<lambda>_ db. release_verified_close (vc_clock vc (ww_tick w))
       (close_request environment symbol dispatch_id entry_oid (it_client_oid r) (vc_now vc (ww_tick w))
         (map (close_fill symbol (it_side r)) items)) db)) (\<lambda>_. returnW ()) w"

text \<open>One candidate. No fill matches a reservation without a symbol.\<close>

definition reconcile_close ::
  "('v, 'z) Worker_scheme \<Rightarrow> 'v CloseClient \<Rightarrow> string \<Rightarrow> UUID \<times> string \<times> string option \<times> string \<Rightarrow> ('v WorkerWorld, unit) prog" where
  "reconcile_close c vc environment candidate =
     (case candidate of (dispatch_id, entry_oid, owned_symbol, close_oid) \<Rightarrow>
      bindW (queryW c (\<lambda>db. get_intent db close_oid)) (\<lambda>found.
        case found of
          None \<Rightarrow> returnW ()
        | Some r \<Rightarrow>
            if it_state r \<in> {I_cancelled, I_rejected} then returnW ()
            else bindW (clientW c (vc_get_fills vc owned_symbol)) (\<lambda>raw.
              case Option.bind owned_symbol (\<lambda>symbol. map_option (Pair symbol) (close_evidence_of symbol r raw)) of
                None \<Rightarrow> returnW ()
              | Some (symbol, matches, items) \<Rightarrow>
                  bindW (dbW c (\<lambda>now db. unitT (update_intent now (filled_record r matches items) db))) (\<lambda>_.
                  bindW (clientW c (vc_get_all_positions vc)) (\<lambda>positions.
                    if verified_flat symbol positions then release_close c vc environment symbol dispatch_id entry_oid r items
                    else returnW ())))))"

fun reconcile_all ::
  "('v, 'z) Worker_scheme \<Rightarrow> 'v CloseClient \<Rightarrow> string \<Rightarrow> (UUID \<times> string \<times> string option \<times> string) list \<Rightarrow> ('v WorkerWorld, unit) prog" where
  "reconcile_all c vc environment [] = returnW ()"
| "reconcile_all c vc environment (x # xs) = bindW (reconcile_close c vc environment x) (\<lambda>_. reconcile_all c vc environment xs)"

definition reconcile :: "('v, 'z) Worker_scheme \<Rightarrow> 'v CloseClient \<Rightarrow> ('v WorkerWorld, unit) prog" where
  "reconcile c vc =
     (if vc_environment vc \<notin> {Some ''DEMO'', Some ''LIVE''} then returnW ()
      else bindW (queryW c (read_close_candidates (the (vc_environment vc)))) (reconcile_all c vc (the (vc_environment vc))))"

section \<open>Lemmas\<close>

definition bound_owner :: "Db \<Rightarrow> string \<Rightarrow> UUID option" where
  "bound_owner db close_oid = map_option cb_reservation_id (List.find (\<lambda>b. cb_close_client_order_id b = close_oid) (db_bindings db))"

text \<open>The bound closes of an admission whose outcome is still open.\<close>

definition outstanding :: "Db \<Rightarrow> UUID \<Rightarrow> string set" where
  "outstanding db rid = {cb_close_client_order_id b | b. b \<in> set (db_bindings db) \<and> cb_reservation_id b = rid
     \<and> (\<exists>i \<in> set (db_intents db). it_exchange i = BITGET \<and> it_client_oid i = cb_close_client_order_id b
          \<and> it_state i \<notin> {I_filled, I_reconciled, I_cancelled, I_rejected})}"

lemma bind_requested_close_True:
  assumes "bind_requested_close console environment close_oid expected db = Inr (db', True)"
  obtains env r x remaining where "environment = Some env" "env \<in> {''DEMO'', ''LIVE''}"
    "close_candidates console env close_oid db = [(r, x)]"
    "remaining_owned_quantity (rs_client_order_id r) db = Inr remaining" "it_requested_qty x \<le> remaining"
    "expected \<in> {None, Some remaining}" "bound_owner db close_oid \<in> {None, Some (rs_id r)}" "bound_owner db' close_oid = Some (rs_id r)"
    "db_intents db' = db_intents db"
    "set (db_bindings db') \<subseteq> insert \<lparr>cb_close_client_order_id = close_oid, cb_reservation_id = rs_id r\<rparr> (set (db_bindings db))"
proof -
  obtain env where env: "environment = Some env" "env \<in> {''DEMO'', ''LIVE''}"
    using assms by (auto simp: bind_requested_close_def split: if_splits)
  obtain r x where owner: "close_candidates console env close_oid db = [(r, x)]"
    using assms env by (auto simp: bind_requested_close_def split: if_splits list.splits prod.splits)
  obtain remaining where left: "remaining_owned_quantity (rs_client_order_id r) db = Inr remaining"
    using assms env owner by (auto simp: bind_requested_close_def split: if_splits sum.splits)
  have qty: "it_requested_qty x \<le> remaining" "expected \<in> {None, Some remaining}"
    using assms env owner left by (auto simp: bind_requested_close_def split: if_splits option.splits)
  show ?thesis
  proof (cases "List.find (\<lambda>b. cb_close_client_order_id b = close_oid) (db_bindings db)")
    case None
    then have "db' = db\<lparr>db_bindings := db_bindings db @ [\<lparr>cb_close_client_order_id = close_oid, cb_reservation_id = rs_id r\<rparr>]\<rparr>"
      using assms env owner left qty by (auto simp: bind_requested_close_def split: if_splits option.splits)
    then show ?thesis using None by (intro that [OF env owner left qty]) (simp_all add: bound_owner_def find_in_append)
  next
    case (Some b)
    then have "db' = db" "cb_reservation_id b = rs_id r"
      using assms env owner left qty by (auto simp: bind_requested_close_def split: if_splits option.splits)
    then show ?thesis using Some by (intro that [OF env owner left qty]) (auto simp: bound_owner_def)
  qed
qed

lemma close_candidates_member:
  "(r, x) \<in> set (close_candidates console env oid db) \<Longrightarrow> \<exists>e d. r \<in> set (db_reservations db) \<and> e \<in> set (db_intents db) \<and> x \<in> set (db_intents db)
     \<and> d \<in> set (db_dispatches db) \<and> close_candidate db env oid r e x d \<and> owner_source console db d"
  by (auto simp: close_candidates_def split: if_splits)

text \<open>The reconciliation claims no order and posts none.\<close>

lemma binding_kept: "bind_requested_close console environment oid expected db = Inr (db', ok) \<Longrightarrow> intents_kept db db'"
  by (auto simp: bind_requested_close_def split: if_splits list.splits prod.splits sum.splits option.splits intro: intents_kept_same)

lemma release_intents: "release_verified_close ck q db = Inr (db', a) \<Longrightarrow> intents_kept db db'"
  by (auto simp: release_verified_close_def bindE_Inr_iff run_simps split: if_splits list.splits option.splits intro: intents_kept_same)

lemma quietly_supply: "(\<And>x. quietly c (p x)) \<Longrightarrow> quietly c (\<lambda>w. p (f w) w)"
  by (rule quietlyI) (rule quietly_calm)

lemma quietly_verified_closes:
  assumes "others_spare (wk_id c) c"
  shows "quietly c (reconcile c vc)"
proof -
  have filled: "intents_kept db db'" if "update_intent now (filled_record r ms is) db = Inr db'" for now r ms "is" db db'
    by (rule intents_kept_readback [OF that]) (simp add: filled_record_def)
  have released: "quietly c (release_close c vc environment symbol did oid r items)" for environment symbol did oid r items
  proof -
    have "quietly c (bindW (dbW c (\<lambda>_ db. release_verified_close (vc_clock vc n)
        (close_request environment symbol did oid (it_client_oid r) (vc_now vc n) (map (close_fill symbol (it_side r)) items)) db)) (\<lambda>_. returnW ()))" for n
      by (auto intro!: quiet_rules assms dest: release_intents)
    then show ?thesis unfolding release_close_def [abs_def] by (rule quietly_supply)
  qed
  have one: "quietly c (reconcile_close c vc environment x)" for environment x
    unfolding reconcile_close_def by (auto intro!: quiet_rules assms released filled simp: run_simps split: prod.split option.split)
  have all: "quietly c (reconcile_all c vc environment xs)" for environment xs
    by (induction xs) (auto intro!: quiet_rules one)
  show ?thesis unfolding reconcile_def by (auto intro!: quiet_rules assms all)
qed

section \<open>Properties\<close>


definition bind_db :: Db where
  "bind_db = admit_db\<lparr>db_reservations := [exposed_row\<lparr>rs_dispatch_id := 1, rs_client_order_id := ''e0'', rs_symbol := Some ''ZROUSDT'',
       rs_environment := Some ''LIVE'', rs_state := R_consumed, rs_created_at := 1\<rparr>],
     db_intents :=
       [stored_row 2 ((new_record BITGET ''e0'' ''ZROUSDT'' ''BUY'')\<lparr>it_requested_qty := 5, it_filled_qty := 5, it_state := I_filled,
          it_margin_reservation_id := Some (rs_id exposed_row)\<rparr>),
        stored_row 3 ((new_record BITGET ''x0'' ''ZROUSDT'' ''SELL'')\<lparr>it_role := CLOSE, it_requested_qty := 3\<rparr>)]\<rparr>"

definition bind_result :: "Db \<times> bool" where
  "bind_result = projr (bind_requested_close False (Some ''LIVE'') ''x0'' None bind_db)"


end
