(* ===== verification/Provider_Reads.thy ===== *)
theory Provider_Reads
  imports Protection Live_Intents
begin

text \<open>
  What the trader concludes from provider reads: the typed account and position reads of
  \<open>exchanges/bitget/read_model.py\<close>, the confirmation of native protection of
  \<open>reconciliation_live.py\<close>, and the classification of orders without a detail of
  \<open>reconciliation.py\<close>, with its account reconciler. A read is a program over a world of any type. A
  numeral that \<open>Decimal\<close> would read as an infinity or a NaN, which the venue never sends, is read as an
  invalid one.
\<close>

section \<open>Texts and numbers of a payload\<close>

definition get_key :: "payload \<Rightarrow> string \<Rightarrow> JSON" where
  "get_key d k = get_first d [k] JNull"

text \<open>\<open>value is None or str(value).strip() == ""\<close>.\<close>

definition blank :: "JSON \<Rightarrow> bool" where
  "blank v = (case v of JNull \<Rightarrow> True | JStr s \<Rightarrow> str_strip s = [] | _ \<Rightarrow> False)"

text \<open>\<open>str(value).strip().lower()\<close> and \<open>str(value or "")\<close>.\<close>

definition norm_text :: "JSON \<Rightarrow> string" where
  "norm_text v = str_lower (str_strip (py_str v))"

definition text_or_empty :: "JSON \<Rightarrow> string" where
  "text_or_empty v = (if py_true v then py_str v else [])"

definition as_dict :: "JSON \<Rightarrow> payload option" where
  "as_dict v = (case v of JObj d \<Rightarrow> Some d | _ \<Rightarrow> None)"

text \<open>A list all of whose elements are objects.\<close>

definition dict_list :: "JSON \<Rightarrow> payload list option" where
  "dict_list v = (case v of JList xs \<Rightarrow> those (map as_dict xs) | _ \<Rightarrow> None)"

section \<open>Account and position\<close>

definition required_decimal :: "payload \<Rightarrow> string \<Rightarrow> (Exn, dec) raises" where
  "required_decimal d k =
     (if blank (get_key d k) then Inl (BitgetReadModelError (''Bitget response missing required field: '' @ k))
      else case to_decimal (get_key d k) of
             None \<Rightarrow> Inl (BitgetReadModelError (''Bitget response has invalid decimal field: '' @ k))
           | Some q \<Rightarrow> Inr q)"

fun optional_decimal :: "payload \<Rightarrow> string list \<Rightarrow> dec option" where
  "optional_decimal d [] = None"
| "optional_decimal d (k # ks) =
     (if blank (get_key d k) then optional_decimal d ks
      else case to_decimal (get_key d k) of
             Some q \<Rightarrow> if 0 \<le> q then Some q else optional_decimal d ks
           | None \<Rightarrow> optional_decimal d ks)"

definition required_text :: "payload \<Rightarrow> string \<Rightarrow> (Exn, string) raises" where
  "required_text d k =
     (if blank (get_key d k) then Inl (BitgetReadModelError (''Bitget response missing required field: '' @ k))
      else Inr (py_str (get_key d k)))"

definition is_open_position :: "payload \<Rightarrow> (Exn, bool) raises" where
  "is_open_position row =
     (case to_decimal (get_first row [''total''] (JStr ''0'')) of
        None \<Rightarrow> Inl (BitgetReadModelError ''Bitget position response has invalid decimal field: total'')
      | Some q \<Rightarrow> Inr (0 < q))"

record BitgetAccountState =
  as_available :: dec
  as_total_balance :: dec
  as_equity :: dec
  as_margin_coin :: string
  as_observed_at :: timestamp
  as_margin_mode :: string
  as_position_mode :: string
  as_long_leverage :: dec
  as_short_leverage :: dec

definition account_state :: "timestamp \<Rightarrow> JSON \<Rightarrow> (Exn, BitgetAccountState) raises" where
  "account_state now payload =
     (case as_dict payload of
        None \<Rightarrow> Inl (BitgetReadModelError ''Bitget account response must be an object'')
      | Some d \<Rightarrow>
          bindE (required_decimal d ''available'') (\<lambda>available.
          bindE (required_decimal d ''usdtEquity'') (\<lambda>total.
          bindE (required_decimal d ''accountEquity'') (\<lambda>equity.
          bindE (required_text d ''marginCoin'') (\<lambda>coin.
          bindE (required_text d ''marginMode'') (\<lambda>mode.
          bindE (required_text d ''posMode'') (\<lambda>pos_mode.
          bindE (required_decimal d ''isolatedLongLever'') (\<lambda>long_lever.
          bindE (required_decimal d ''isolatedShortLever'') (\<lambda>short_lever.
            Inr \<lparr>as_available = available, as_total_balance = total, as_equity = equity, as_margin_coin = str_upper coin,
              as_observed_at = now, as_margin_mode = str_lower mode, as_position_mode = pos_mode,
              as_long_leverage = long_lever, as_short_leverage = short_lever\<rparr>)))))))))"

definition read_account_state :: "timestamp \<Rightarrow> ('w, JSON) prog \<Rightarrow> ('w, BitgetAccountState) prog" where
  "read_account_state now get_account = bindW get_account (\<lambda>payload. liftE (account_state now payload))"

record BitgetPositionState =
  bp_symbol :: string
  bp_hold_side :: string
  bp_quantity :: dec
  bp_entry_price :: dec
  bp_margin_mode :: string
  bp_leverage :: dec
  bp_stop_loss_id :: "string option"
  bp_take_profit_id :: "string option"
  bp_mark_price :: "dec option"
  bp_margin_usdt :: "dec option"

definition truthy_text :: "JSON \<Rightarrow> string option" where
  "truthy_text v = (if py_true v then Some (py_str v) else None)"

definition position_of_row :: "payload \<Rightarrow> (Exn, BitgetPositionState) raises" where
  "position_of_row row =
     bindE (required_text row ''symbol'') (\<lambda>symbol.
     bindE (required_text row ''holdSide'') (\<lambda>side.
     bindE (required_decimal row ''total'') (\<lambda>quantity.
     bindE (required_decimal row ''openPriceAvg'') (\<lambda>entry.
     bindE (required_text row ''marginMode'') (\<lambda>mode.
     bindE (required_decimal row ''leverage'') (\<lambda>leverage.
       Inr \<lparr>bp_symbol = symbol, bp_hold_side = str_lower side, bp_quantity = quantity, bp_entry_price = entry,
         bp_margin_mode = str_lower mode, bp_leverage = leverage, bp_stop_loss_id = truthy_text (get_key row ''stopLossId''),
         bp_take_profit_id = truthy_text (get_key row ''takeProfitId''), bp_mark_price = optional_decimal row [''markPrice''],
         bp_margin_usdt = optional_decimal row [''marginSize'', ''margin'']\<rparr>))))))"

fun open_rows :: "JSON list \<Rightarrow> (Exn, payload list) raises" where
  "open_rows [] = Inr []"
| "open_rows (x # xs) =
     (case as_dict x of
        None \<Rightarrow> open_rows xs
      | Some row \<Rightarrow> bindE (is_open_position row) (\<lambda>opened. bindE (open_rows xs) (\<lambda>rows. Inr (if opened then row # rows else rows))))"

definition position_state :: "JSON \<Rightarrow> (Exn, BitgetPositionState option) raises" where
  "position_state payload =
     (case payload of
        JList xs \<Rightarrow>
          bindE (open_rows xs) (\<lambda>rows.
            case rows of
              [] \<Rightarrow> Inr None
            | [row] \<Rightarrow> bindE (position_of_row row) (\<lambda>p. Inr (Some p))
            | _ \<Rightarrow> Inl (BitgetReadModelError ''Bitget position response has multiple active sides''))
      | _ \<Rightarrow> Inl (BitgetReadModelError ''Bitget position response must be a list''))"

definition read_position_state :: "('w, JSON) prog \<Rightarrow> ('w, BitgetPositionState option) prog" where
  "read_position_state get_single_position = bindW get_single_position (\<lambda>payload. liftE (position_state payload))"

section \<open>Plans\<close>

datatype ProtectionReadiness = Ready_flat | Ready_protected | Missing_stop_loss | Missing_take_profit

definition evaluate_position_protection :: "('w, BitgetPositionState option) prog \<Rightarrow> ('w, ProtectionReadiness) prog" where
  "evaluate_position_protection read_position =
     bindW read_position (\<lambda>position. returnW (case position of
        None \<Rightarrow> Ready_flat
      | Some p \<Rightarrow> if bp_stop_loss_id p = None then Missing_stop_loss
                  else if bp_take_profit_id p = None then Missing_take_profit else Ready_protected))"

record NativeProtectionExpectation =
  ne_symbol :: string
  ne_hold_side :: string
  ne_quantity :: dec
  ne_stop_loss :: "dec option"
  ne_take_profit :: "dec option"
  ne_stop_loss_client_oid :: "string option"
  ne_take_profit_client_oid :: "string option"
  ne_stop_loss_provider_order_id :: "string option"
  ne_take_profit_provider_order_id :: "string option"
  ne_stop_loss_size :: "dec option"
  ne_take_profit_size :: "dec option"
  ne_position_level :: bool

text \<open>The first check that failed.\<close>

definition first_failure :: "(bool \<times> 'a) list \<Rightarrow> 'a option" where
  "first_failure checks = map_option snd (List.find fst checks)"

definition not_positive :: "dec option \<Rightarrow> bool" where
  "not_positive v = (case v of None \<Rightarrow> False | Some x \<Rightarrow> x \<le> 0)"

definition exceeds :: "dec option \<Rightarrow> dec \<Rightarrow> bool" where
  "exceeds v limit = (case v of None \<Rightarrow> False | Some x \<Rightarrow> limit < x)"

definition make_expectation :: "NativeProtectionExpectation \<Rightarrow> (Exn, NativeProtectionExpectation) raises" where
  "make_expectation e =
     (case first_failure
        [(str_strip (ne_symbol e) = [], ''native protection symbol is required''),
         (str_lower (str_strip (ne_hold_side e)) \<notin> {''long'', ''short'', ''buy'', ''sell''}, ''native protection hold side is invalid''),
         (ne_quantity e \<le> 0, ''native protection quantity must be finite and positive''),
         (ne_stop_loss e = None \<and> ne_take_profit e = None, ''native protection requires a stop loss or take profit''),
         (not_positive (ne_stop_loss e), ''native protection stop loss must be finite and positive''),
         (not_positive (ne_take_profit e), ''native protection take profit must be finite and positive''),
         (not_positive (ne_stop_loss_size e), ''native protection stop loss size must be finite and positive''),
         (not_positive (ne_take_profit_size e), ''native protection take profit size must be finite and positive''),
         (exceeds (ne_stop_loss_size e) (ne_quantity e), ''native protection stop loss size exceeds position quantity''),
         (exceeds (ne_take_profit_size e) (ne_quantity e), ''native protection take profit size exceeds position quantity'')] of
        Some m \<Rightarrow> Inl (ValueError m)
      | None \<Rightarrow> Inr e)"

text \<open>\<open>_positive_decimal\<close>: the first field that is not null decides.\<close>

fun positive_decimal :: "payload \<Rightarrow> string list \<Rightarrow> dec option" where
  "positive_decimal d [] = None"
| "positive_decimal d (k # ks) =
     (if get_key d k = JNull then positive_decimal d ks
      else case to_decimal (get_key d k) of Some q \<Rightarrow> if 0 \<le> q then Some q else None | None \<Rightarrow> None)"

definition row_size :: "payload \<Rightarrow> dec option" where
  "row_size d = positive_decimal d [''total'', ''size'', ''quantity'']"

definition canonical_hold_side :: "JSON \<Rightarrow> string option" where
  "canonical_hold_side v =
     (let s = norm_text v in
      if s \<in> {''long'', ''buy''} then Some ''buy'' else if s \<in> {''short'', ''sell''} then Some ''sell'' else None)"

definition plan_hold_side :: "payload \<Rightarrow> string option" where
  "plan_hold_side plan =
     (if get_key plan ''holdSide'' \<noteq> JNull then canonical_hold_side (get_key plan ''holdSide'')
      else let pos_side = str_lower (str_strip (text_or_empty (get_key plan ''posSide''))) in
        if pos_side \<in> {''long'', ''short''} then canonical_hold_side (JStr pos_side)
        else if pos_side = ''net'' \<and> str_lower (str_strip (text_or_empty (get_key plan ''posMode''))) = ''one_way_mode''
        then map_of [(''sell'', ''buy''), (''buy'', ''sell'')] (str_lower (str_strip (text_or_empty (get_key plan ''side''))))
        else None)"

text \<open>\<open>_parse_decimal\<close>: the first field that is present decides.\<close>

fun plan_decimal :: "bool \<Rightarrow> payload \<Rightarrow> string list \<Rightarrow> dec option" where
  "plan_decimal zero_if_empty d [] = (if zero_if_empty then Some 0 else None)"
| "plan_decimal zero_if_empty d (k # ks) =
     (case map_of d k of
        None \<Rightarrow> plan_decimal zero_if_empty d ks
      | Some v \<Rightarrow> if blank v then (if zero_if_empty then Some 0 else None) else to_decimal v)"

definition plan_type :: "payload \<Rightarrow> string" where
  "plan_type plan = norm_text (get_first plan [''planType'', ''type''] (JStr ''''))"

definition plan_field :: "payload \<Rightarrow> string \<Rightarrow> string \<Rightarrow> JSON" where
  "plan_field plan leg field =
     (if get_key plan (leg @ field) \<noteq> JNull then get_key plan (leg @ field)
      else get_key plan (case map_of [(''TriggerType'', ''triggerType''), (''ExecutePrice'', ''executePrice'')] field of
                           Some g \<Rightarrow> g | None \<Rightarrow> field))"

text \<open>The first field with a text, stripped.\<close>

definition first_text :: "payload \<Rightarrow> string list \<Rightarrow> string option" where
  "first_text plan ks =
     map_option (\<lambda>k. str_strip (py_str (get_key plan k))) (List.find (\<lambda>k. \<not> blank (get_key plan k)) ks)"

definition plan_order_id :: "payload \<Rightarrow> string option" where
  "plan_order_id plan = first_text plan [''orderId'', ''planOrderId'', ''id'']"

definition plan_client_oid :: "payload \<Rightarrow> string \<Rightarrow> string option" where
  "plan_client_oid plan leg = first_text plan [leg @ ''ClientOid'', ''clientOid'', ''clientOrderId'']"

definition ACTIVE_PLAN_STATUSES :: "string list" where
  "ACTIVE_PLAN_STATUSES =
     [''active'', ''in_progress'', ''in_progress_tracking'', ''live'', ''new'', ''not_triggered'', ''not_trigger'', ''open'', ''pending'', ''waiting'']"

definition leg_name :: "string \<Rightarrow> string" where
  "leg_name leg = (if leg = ''stopLoss'' then ''stop-loss'' else ''take-profit'')"

definition leg_size :: "NativeProtectionExpectation \<Rightarrow> string \<Rightarrow> dec option" where
  "leg_size e leg = (if leg = ''stopLoss'' then ne_stop_loss_size e else ne_take_profit_size e)"

definition leg_client_oid :: "NativeProtectionExpectation \<Rightarrow> string \<Rightarrow> string option" where
  "leg_client_oid e leg = (if leg = ''stopLoss'' then ne_stop_loss_client_oid e else ne_take_profit_client_oid e)"

definition expected_plan_type :: "NativeProtectionExpectation \<Rightarrow> string \<Rightarrow> string" where
  "expected_plan_type e leg =
     (let position_level = ne_position_level e \<and> leg_size e leg = None in
      if leg = ''stopLoss'' \<and> position_level then ''pos_loss''
      else if leg = ''stopSurplus'' \<and> position_level then ''pos_profit''
      else if leg = ''stopLoss'' then ''loss_plan'' else ''profit_plan'')"

text \<open>An expected value that must match when there is one.\<close>

definition agrees :: "'a option \<Rightarrow> 'a option \<Rightarrow> bool" where
  "agrees expected observed \<longleftrightarrow> expected = None \<or> observed = expected"

definition exact_plans :: "payload list \<Rightarrow> NativeProtectionExpectation \<Rightarrow> string \<Rightarrow> string option \<Rightarrow> payload list" where
  "exact_plans plans e leg provider_order_id =
     filter (\<lambda>p. agrees (leg_client_oid e leg) (plan_client_oid p leg))
       (filter (\<lambda>p. agrees provider_order_id (plan_order_id p))
         (filter (\<lambda>p. plan_type p = expected_plan_type e leg) plans))"

definition find_exact_plan :: "payload list \<Rightarrow> NativeProtectionExpectation \<Rightarrow> string \<Rightarrow> string option \<Rightarrow> string + payload" where
  "find_exact_plan plans e leg provider_order_id =
     (case exact_plans plans e leg provider_order_id of [p] \<Rightarrow> Inr p | _ \<Rightarrow> Inl (leg_name leg @ ''-plan-not-unique''))"

definition leg_checks :: "payload \<Rightarrow> NativeProtectionExpectation \<Rightarrow> string \<Rightarrow> dec \<Rightarrow> string option \<Rightarrow> (bool \<times> string) list" where
  "leg_checks plan e leg trigger provider_order_id =
     (let expected_size = leg_size e leg; client_oid = leg_client_oid e leg; position_plan = (ne_position_level e \<and> expected_size = None) in
       [(str_upper (str_strip (py_str (get_first plan [''symbol''] (JStr '''')))) \<noteq> str_upper (str_strip (ne_symbol e)), ''-symbol-mismatch''),
        (plan_hold_side plan \<noteq> canonical_hold_side (JStr (ne_hold_side e)), ''-side-mismatch''),
        (norm_text (get_first plan [''planStatus'', ''status''] (JStr '''')) \<notin> set ACTIVE_PLAN_STATUSES, ''-status-mismatch''),
        (plan_order_id plan = None, ''-id-missing''),
        (\<not> agrees provider_order_id (plan_order_id plan), ''-id-mismatch''),
        (plan_client_oid plan leg = None, ''-client-oid-missing''),
        (\<not> agrees client_oid (plan_client_oid plan leg), ''-client-oid-mismatch''),
        (plan_decimal False plan [leg @ ''TriggerPrice'', ''triggerPrice''] \<noteq> Some trigger, ''-trigger-mismatch''),
        (str_lower (str_strip (text_or_empty (plan_field plan leg ''TriggerType''))) \<noteq> ''mark_price'', ''-trigger-type-mismatch''),
        (plan_decimal True plan [leg @ ''ExecutePrice'', ''executePrice'', ''price''] \<noteq> Some 0, ''-execute-mode-mismatch''),
        (get_key plan ''orderType'' \<noteq> JNull \<and> norm_text (get_key plan ''orderType'') \<noteq> ''market'', ''-execute-mode-mismatch''),
        (get_key plan ''posMode'' \<noteq> JNull \<and> norm_text (get_key plan ''posMode'') \<noteq> ''one_way_mode'', ''-position-mode-mismatch''),
        (\<not> position_plan \<and> get_key plan ''marginMode'' \<noteq> JNull \<and> norm_text (get_key plan ''marginMode'') \<noteq> ''isolated'',
           ''-margin-mode-mismatch''),
        (position_plan \<and> plan_decimal True plan [''size''] \<noteq> Some 0, ''-size-mismatch''),
        (\<not> position_plan \<and> expected_size = None, ''-size-expectation-missing''),
        (\<not> position_plan \<and> plan_decimal False plan [''size'', ''executeSize'', ''quantity''] \<noteq> expected_size, ''-size-mismatch'')])"

definition verify_exact_leg :: "payload \<Rightarrow> NativeProtectionExpectation \<Rightarrow> string \<Rightarrow> dec \<Rightarrow> string option \<Rightarrow> string option" where
  "verify_exact_leg plan e leg trigger provider_order_id =
     map_option (\<lambda>reason. leg_name leg @ reason) (first_failure (leg_checks plan e leg trigger provider_order_id))"

section \<open>Confirming native protection\<close>

definition degraded_report :: "dec \<Rightarrow> string \<Rightarrow> ProtectionReport" where
  "degraded_report quantity reason = \<lparr>pr_state = P_degraded, pr_observed_quantity = quantity, pr_reason = Some reason\<rparr>"

definition protected_report :: "dec \<Rightarrow> ProtectionReport" where
  "protected_report quantity = \<lparr>pr_state = P_venue_protected, pr_observed_quantity = quantity, pr_reason = None\<rparr>"

definition sized_rows :: "JSON \<Rightarrow> payload list option" where
  "sized_rows v =
     (case dict_list v of None \<Rightarrow> None | Some rows \<Rightarrow> if list_all (\<lambda>row. row_size row \<noteq> None) rows then Some rows else None)"

definition open_sized :: "payload list \<Rightarrow> payload list" where
  "open_sized rows = filter (\<lambda>row. case row_size row of None \<Rightarrow> False | Some q \<Rightarrow> 0 < q) rows"

definition text_id :: "JSON \<Rightarrow> string option" where
  "text_id v = (let s = str_strip (text_or_empty v) in if s = [] then None else Some s)"

definition leg_provider_id :: "NativeProtectionExpectation \<Rightarrow> string \<Rightarrow> string option" where
  "leg_provider_id e leg = (if leg = ''stopLoss'' then ne_stop_loss_provider_order_id e else ne_take_profit_provider_order_id e)"

definition leg_position_level :: "NativeProtectionExpectation \<Rightarrow> string \<Rightarrow> bool" where
  "leg_position_level e leg \<longleftrightarrow> ne_position_level e \<and> leg_size e leg = None"

definition observed_leg_id :: "payload \<Rightarrow> string \<Rightarrow> string option" where
  "observed_leg_id position leg = text_id (get_key position (if leg = ''stopLoss'' then ''stopLossId'' else ''takeProfitId''))"

text \<open>An identifier the position row exposes must be the one the placement returned.\<close>

definition leg_id_mismatch :: "NativeProtectionExpectation \<Rightarrow> payload \<Rightarrow> string \<Rightarrow> bool" where
  "leg_id_mismatch e position leg \<longleftrightarrow> leg_position_level e leg \<and> leg_provider_id e leg \<noteq> None
     \<and> observed_leg_id position leg \<noteq> None \<and> observed_leg_id position leg \<noteq> leg_provider_id e leg"

definition or_text :: "string option \<Rightarrow> string option \<Rightarrow> string option" where
  "or_text a b = (case a of None \<Rightarrow> b | Some s \<Rightarrow> if s = [] then b else a)"

definition leg_plan_id :: "NativeProtectionExpectation \<Rightarrow> payload \<Rightarrow> string \<Rightarrow> string option" where
  "leg_plan_id e position leg =
     or_text (leg_provider_id e leg) (if leg_position_level e leg then observed_leg_id position leg else None)"

definition position_checks :: "NativeProtectionExpectation \<Rightarrow> payload \<Rightarrow> dec \<Rightarrow> (bool \<times> string) list" where
  "position_checks e position q =
     [(str_upper (str_strip (py_str (get_first position [''symbol''] (JStr '''')))) \<noteq> str_upper (str_strip (ne_symbol e)),
         ''position-symbol-mismatch''),
      (canonical_hold_side (get_first position [''holdSide'', ''side''] JNull) \<noteq> canonical_hold_side (JStr (ne_hold_side e)),
         ''position-side-mismatch''),
      (norm_text (get_first position [''marginMode''] (JStr '''')) \<noteq> ''isolated'', ''margin-mode-not-isolated''),
      (norm_text (get_first position [''posMode''] (JStr '''')) \<notin> {''one_way_mode'', ''one-way'', ''one_way''},
         ''position-mode-not-one-way''),
      (q \<noteq> ne_quantity e, ''position-quantity-mismatch''),
      ((case ne_stop_loss_size e of None \<Rightarrow> False | Some sz \<Rightarrow> sz < q), ''stop-loss-size-does-not-cover-position''),
      (leg_id_mismatch e position ''stopLoss'', ''stop-loss-id-mismatch''),
      (leg_id_mismatch e position ''stopSurplus'', ''take-profit-id-mismatch'')]"

definition exact_position :: "NativeProtectionExpectation \<Rightarrow> JSON \<Rightarrow> ProtectionReport + payload \<times> dec" where
  "exact_position e v =
     (case sized_rows v of
        None \<Rightarrow> Inl (failed_report 0 ''provider-position-invalid'')
      | Some rows \<Rightarrow>
          (case open_sized rows of
             [position] \<Rightarrow>
               (case row_size position of
                  None \<Rightarrow> Inl (failed_report 0 ''provider-position-invalid'')
                | Some q \<Rightarrow>
                    (case first_failure (position_checks e position q) of
                       Some reason \<Rightarrow> Inl (degraded_report q reason)
                     | None \<Rightarrow> Inr (position, q)))
           | _ \<Rightarrow> Inl (failed_report 0 ''position-not-open'')))"

text \<open>Why a leg of the expectation is not covered by the pending plans; \<open>None\<close> when it is.\<close>

definition leg_refusal :: "NativeProtectionExpectation \<Rightarrow> payload \<Rightarrow> payload list \<Rightarrow> string \<Rightarrow> dec option \<Rightarrow> string option" where
  "leg_refusal e position plans leg trigger =
     (case trigger of
        None \<Rightarrow> None
      | Some t \<Rightarrow>
          (case find_exact_plan plans e leg (leg_plan_id e position leg) of
             Inl reason \<Rightarrow> Some (if leg_position_level e leg \<and> observed_leg_id position leg = None then ''missing-'' @ leg_name leg else reason)
           | Inr plan \<Rightarrow> verify_exact_leg plan e leg t (leg_plan_id e position leg)))"

definition exact_verdict :: "NativeProtectionExpectation \<Rightarrow> payload \<Rightarrow> dec \<Rightarrow> payload list \<Rightarrow> ProtectionReport" where
  "exact_verdict e position q plans =
     (case leg_refusal e position plans ''stopLoss'' (ne_stop_loss e) of
        Some reason \<Rightarrow> degraded_report q reason
      | None \<Rightarrow>
          (case leg_refusal e position plans ''stopSurplus'' (ne_take_profit e) of
             Some reason \<Rightarrow> degraded_report q reason
           | None \<Rightarrow> protected_report q))"

definition plans_unreadable :: "dec \<Rightarrow> Exn \<Rightarrow> ProtectionReport" where
  "plans_unreadable q e =
     (if contains_str (exn_message e) ''400172'' then degraded_report q ''provider-plans-unavailable''
      else failed_report q ''provider-plans-read-failed'')"

text \<open>The plans, when they can be read as a list of objects.\<close>

definition with_plans :: "('w, JSON) prog \<Rightarrow> dec \<Rightarrow> (payload list \<Rightarrow> ('w, ProtectionReport) prog) \<Rightarrow> ('w, ProtectionReport) prog" where
  "with_plans read_pending_plans q f =
     bindW (attemptW read_pending_plans) (\<lambda>r.
       case r of
         Inl e \<Rightarrow> returnW (plans_unreadable q e)
       | Inr v \<Rightarrow> (case dict_list v of None \<Rightarrow> returnW (failed_report q ''provider-plans-invalid'') | Some plans \<Rightarrow> f plans))"

definition confirm_exact_native_protection ::
  "('w, JSON) prog \<Rightarrow> ('w, JSON) prog \<Rightarrow> NativeProtectionExpectation \<Rightarrow> ('w, ProtectionReport) prog" where
  "confirm_exact_native_protection read_position read_pending_plans e =
     bindW (attemptW read_position) (\<lambda>r.
       case r of
         Inl _ \<Rightarrow> returnW (failed_report 0 ''provider-read-failed'')
       | Inr v \<Rightarrow>
           (case exact_position e v of
              Inl report \<Rightarrow> returnW report
            | Inr (position, q) \<Rightarrow> with_plans read_pending_plans q (\<lambda>plans. returnW (exact_verdict e position q plans))))"

text \<open>The stop of a position without an intended trigger: one active stop of its symbol and side that covers it.\<close>

definition native_stops :: "string \<Rightarrow> string option \<Rightarrow> payload list \<Rightarrow> payload list" where
  "native_stops symbol hold_side plans =
     filter (\<lambda>plan. plan_type plan = ''pos_loss''
       \<and> str_upper (str_strip (py_str (get_first plan [''symbol''] (JStr '''')))) = symbol
       \<and> (hold_side = None \<or> plan_hold_side plan = hold_side)
       \<and> norm_text (get_first plan [''planStatus'', ''status''] (JStr '''')) \<in> set ACTIVE_PLAN_STATUSES) plans"

definition stop_verdict :: "string \<Rightarrow> string option \<Rightarrow> dec \<Rightarrow> payload list \<Rightarrow> ProtectionReport" where
  "stop_verdict symbol hold_side q plans =
     (case native_stops symbol hold_side plans of
        [stop] \<Rightarrow>
          if (case plan_decimal True stop [''size''] of None \<Rightarrow> False | Some sz \<Rightarrow> sz \<noteq> 0 \<and> sz < q)
          then degraded_report q ''stop-loss-size-does-not-cover-position''
          else (case plan_decimal False stop [''stopLossTriggerPrice'', ''triggerPrice''] of
                  None \<Rightarrow> degraded_report q ''stop-loss-trigger-unreadable''
                | Some t \<Rightarrow> if t \<le> 0 then degraded_report q ''stop-loss-trigger-unreadable'' else protected_report q)
      | [] \<Rightarrow> degraded_report q ''missing-stop-loss''
      | _ \<Rightarrow> degraded_report q ''stop-loss-plan-not-unique'')"

definition confirm_native_stop_protection ::
  "('w, JSON) prog \<Rightarrow> ('w, JSON) prog \<Rightarrow> string \<Rightarrow> dec \<Rightarrow> ('w, ProtectionReport) prog" where
  "confirm_native_stop_protection read_position read_pending_plans symbol expected_quantity =
     bindW (attemptW read_position) (\<lambda>r.
       case r of
         Inl _ \<Rightarrow> returnW (failed_report 0 ''provider-read-failed'')
       | Inr v \<Rightarrow>
           (case sized_rows v of
              None \<Rightarrow> returnW (failed_report 0 ''provider-position-invalid'')
            | Some rows \<Rightarrow>
                let expected_symbol = str_upper (str_strip symbol) in
                (case filter (\<lambda>row. str_upper (str_strip (py_str (get_first row [''symbol''] (JStr '''')))) = expected_symbol) (open_sized rows) of
                   [position] \<Rightarrow>
                     let q = the (row_size position) in
                     if norm_text (get_first position [''marginMode''] (JStr '''')) \<noteq> ''isolated''
                     then returnW (degraded_report q ''margin-mode-not-isolated'')
                     else if q \<noteq> expected_quantity then returnW (degraded_report q ''position-quantity-mismatch'')
                     else with_plans read_pending_plans q (\<lambda>plans. returnW
                       (stop_verdict expected_symbol (canonical_hold_side (get_first position [''holdSide'', ''side''] JNull)) q plans))
                 | _ \<Rightarrow> returnW (failed_report 0 ''position-not-open''))))"

text \<open>The quantity-only form: both provider identifiers, each naming one plan with a readable trigger,
  then the exact check against those triggers on the same snapshots.\<close>

definition legacy_trigger :: "payload list \<Rightarrow> string \<Rightarrow> string \<Rightarrow> string \<Rightarrow> string + dec" where
  "legacy_trigger plans leg wanted_type order_id =
     (case filter (\<lambda>plan. plan_type plan = wanted_type \<and> plan_order_id plan = Some order_id) plans of
        [plan] \<Rightarrow>
          (case plan_decimal False plan [leg @ ''TriggerPrice'', ''triggerPrice''] of
             None \<Rightarrow> Inl (leg_name leg @ ''-trigger-mismatch'')
           | Some t \<Rightarrow> if t \<le> 0 then Inl (leg_name leg @ ''-trigger-mismatch'') else Inr t)
      | _ \<Rightarrow> Inl (leg_name leg @ ''-plan-not-unique''))"

definition legacy_verdict :: "JSON \<Rightarrow> payload \<Rightarrow> dec \<Rightarrow> dec \<Rightarrow> string \<Rightarrow> string \<Rightarrow> payload list \<Rightarrow> ('w, ProtectionReport) prog" where
  "legacy_verdict raw_position position q expected_quantity sl_id tp_id plans =
     (case legacy_trigger plans ''stopLoss'' ''pos_loss'' sl_id of
        Inl reason \<Rightarrow> returnW (degraded_report q reason)
      | Inr sl \<Rightarrow>
          (case legacy_trigger plans ''stopSurplus'' ''pos_profit'' tp_id of
             Inl reason \<Rightarrow> returnW (degraded_report q reason)
           | Inr tp \<Rightarrow>
               (case make_expectation \<lparr>ne_symbol = text_or_empty (get_key position ''symbol''), ne_hold_side = text_or_empty (get_key position ''holdSide''),
                   ne_quantity = expected_quantity, ne_stop_loss = Some sl, ne_take_profit = Some tp, ne_stop_loss_client_oid = None,
                   ne_take_profit_client_oid = None, ne_stop_loss_provider_order_id = Some sl_id, ne_take_profit_provider_order_id = Some tp_id,
                   ne_stop_loss_size = None, ne_take_profit_size = None, ne_position_level = True\<rparr> of
                  Inl _ \<Rightarrow> returnW (failed_report q ''provider-position-invalid'')
                | Inr e \<Rightarrow> confirm_exact_native_protection (returnW raw_position) (returnW (JList (map JObj plans))) e)))"

definition confirm_legacy_native_protection ::
  "('w, JSON) prog \<Rightarrow> ('w, JSON) prog \<Rightarrow> dec \<Rightarrow> ('w, ProtectionReport) prog" where
  "confirm_legacy_native_protection read_position read_pending_plans expected_quantity =
     bindW (attemptW read_position) (\<lambda>r.
       case r of
         Inl _ \<Rightarrow> returnW (failed_report 0 ''provider-read-failed'')
       | Inr v \<Rightarrow>
           (case sized_rows v of
              None \<Rightarrow> returnW (failed_report 0 ''provider-position-invalid'')
            | Some rows \<Rightarrow>
                (case open_sized rows of
                   [position] \<Rightarrow>
                     let q = the (row_size position) in
                     if norm_text (get_first position [''marginMode''] (JStr '''')) \<noteq> ''isolated''
                     then returnW (degraded_report q ''margin-mode-not-isolated'')
                     else if q \<noteq> expected_quantity then returnW (degraded_report q ''position-quantity-mismatch'')
                     else (case (observed_leg_id position ''stopLoss'', observed_leg_id position ''stopSurplus'') of
                             (None, _) \<Rightarrow> returnW (degraded_report q ''missing-stop-loss'')
                           | (Some _, None) \<Rightarrow> returnW (degraded_report q ''missing-take-profit'')
                           | (Some sl_id, Some tp_id) \<Rightarrow>
                               with_plans read_pending_plans q (legacy_verdict v position q expected_quantity sl_id tp_id))
                 | _ \<Rightarrow> returnW (failed_report 0 ''position-not-open''))))"

definition confirm_native_protection ::
  "('w, JSON) prog \<Rightarrow> ('w, JSON) prog \<Rightarrow> dec option \<Rightarrow> NativeProtectionExpectation option \<Rightarrow> ('w, ProtectionReport) prog" where
  "confirm_native_protection read_position read_pending_plans expected_quantity expectation =
     (case expectation of
        Some e \<Rightarrow>
          if (case expected_quantity of None \<Rightarrow> False | Some q \<Rightarrow> q \<noteq> ne_quantity e)
          then returnW (degraded_report (ne_quantity e) ''protection-quantity-mismatch'')
          else confirm_exact_native_protection read_position read_pending_plans e
      | None \<Rightarrow>
          (case expected_quantity of
             None \<Rightarrow> raiseW (ValueError ''expected quantity or native protection expectation is required'')
           | Some q \<Rightarrow> confirm_legacy_native_protection read_position read_pending_plans q))"

section \<open>Orders without a detail\<close>

record AmbiguousOrderResult =
  ao_status :: LiveOrderStatus
  ao_filled_qty :: dec
  ao_avg_price :: "dec option"
  ao_fee :: dec
  ao_provider_order_id :: "string option"
  ao_provider_fill_ids :: "string list"
  ao_provider_fills :: "payload list"

definition complete_fills :: "JSON \<Rightarrow> JSON list \<times> bool" where
  "complete_fills v =
     (case v of
        JList xs \<Rightarrow> (xs, dict_list v \<noteq> None)
      | JObj d \<Rightarrow>
          (case get_key d ''fillList'' of
             JList rows \<Rightarrow> if dict_list (JList rows) \<noteq> None then (rows, \<not> py_true (get_key d ''endId'')) else ([], False)
           | _ \<Rightarrow> ([], False))
      | _ \<Rightarrow> ([], False))"

fun flat_rows :: "JSON list \<Rightarrow> string \<Rightarrow> bool option" where
  "flat_rows [] symbol = Some True"
| "flat_rows (row # rows) symbol =
     (case as_dict row of
        None \<Rightarrow> None
      | Some d \<Rightarrow>
          if get_first d [''symbol''] (JStr symbol) \<noteq> JStr symbol then flat_rows rows symbol
          else (case to_decimal (get_first d [''total'', ''size'', ''quantity''] JNull) of
                  None \<Rightarrow> None
                | Some q \<Rightarrow> if q \<noteq> 0 then Some False else flat_rows rows symbol))"

definition flat_position :: "JSON \<Rightarrow> string \<Rightarrow> bool option" where
  "flat_position v symbol =
     (case (case v of JObj d \<Rightarrow> get_first d [''data'', ''positionList''] JNull | _ \<Rightarrow> v) of
        JList rows \<Rightarrow> flat_rows rows symbol | _ \<Rightarrow> None)"

definition no_pending_orders :: "JSON \<Rightarrow> string \<Rightarrow> bool option" where
  "no_pending_orders v symbol =
     (case dict_list (case v of JObj d \<Rightarrow> get_first d [''entrustedList'', ''data''] JNull | _ \<Rightarrow> v) of
        None \<Rightarrow> None
      | Some rows \<Rightarrow> Some (\<not> list_ex (\<lambda>row. get_first row [''symbol''] (JStr symbol) = JStr symbol) rows))"

text \<open>The fills of an order: tied to it by its client order id or by the provider's.\<close>

definition fill_tied :: "string \<Rightarrow> string option \<Rightarrow> payload \<Rightarrow> bool" where
  "fill_tied oid provider_order_id fill \<longleftrightarrow>
     get_first fill [''clientOid'', ''client_oid''] JNull = JStr oid
     \<or> (provider_order_id \<noteq> None \<and> Some (py_str (get_first fill [''orderId'', ''order_id''] JNull)) = provider_order_id)"

definition as_fill :: "JSON \<Rightarrow> (Exn, payload) raises" where
  "as_fill v = (case as_dict v of None \<Rightarrow> Inl (OtherError ''AttributeError'' []) | Some d \<Rightarrow> Inr d)"

definition tied_fills :: "string \<Rightarrow> string option \<Rightarrow> JSON list \<Rightarrow> (Exn, payload list) raises" where
  "tied_fills oid provider_order_id fills =
     bindE (mapE as_fill fills) (\<lambda>ds. Inr (map normalize_fill (filter (fill_tied oid provider_order_id) ds)))"

text \<open>The three reads together: when one raises, none counts.\<close>

record MissingEvidence =
  mv_fills :: "JSON list"
  mv_complete :: bool
  mv_flat :: bool
  mv_no_pending :: bool

definition missing_evidence ::
  "string \<Rightarrow> ('w, JSON) prog \<Rightarrow> ('w, JSON) prog \<Rightarrow> ('w, JSON) prog \<Rightarrow> ('w, MissingEvidence) prog" where
  "missing_evidence symbol read_fills read_position read_pending_orders =
     bindW (attemptW (bindW read_fills (\<lambda>fills. bindW read_position (\<lambda>position. bindW read_pending_orders (\<lambda>pending.
         returnW (complete_fills fills, position, pending)))))) (\<lambda>r.
       returnW (case r of
         Inl _ \<Rightarrow> \<lparr>mv_fills = [], mv_complete = False, mv_flat = False, mv_no_pending = False\<rparr>
       | Inr ((fills, whole), position, pending) \<Rightarrow>
           \<lparr>mv_fills = fills, mv_complete = whole, mv_flat = (flat_position position symbol = Some True),
            mv_no_pending = (no_pending_orders pending symbol = Some True)\<rparr>))"

definition missing_status :: "IntentRole \<Rightarrow> dec \<Rightarrow> MissingEvidence \<Rightarrow> dec \<Rightarrow> bool \<Rightarrow> LiveOrderStatus" where
  "missing_status role requested ev filled missing_order_confirmed =
     (let settled = (mv_flat ev \<and> mv_no_pending ev); safe = (mv_complete ev \<and> settled);
          fill_evidence_safe = (mv_complete ev \<and> (role = ENTRY \<or> settled)) in
      if fill_evidence_safe \<and> requested \<le> filled then Order_filled
      else if fill_evidence_safe \<and> 0 < filled then Order_partial
      else if (safe \<or> settled \<and> filled = 0) \<and> missing_order_confirmed then Order_rejected
      else Order_unknown)"

definition classify_missing_detail ::
  "('a) LiveIntentRecord_scheme \<Rightarrow> ('w, JSON) prog \<Rightarrow> ('w, JSON) prog \<Rightarrow> ('w, JSON) prog \<Rightarrow> string option \<Rightarrow> bool
    \<Rightarrow> ('w, AmbiguousOrderResult) prog" where
  "classify_missing_detail r read_fills read_position read_pending_orders provider_order_id missing_order_confirmed =
     bindW (missing_evidence (it_symbol r) read_fills read_position read_pending_orders) (\<lambda>ev.
     bindW (liftE (tied_fills (it_client_oid r) provider_order_id (mv_fills ev))) (\<lambda>matching.
       returnW (case summarize_fills matching of
         (filled, avg, fee, ids) \<Rightarrow>
           \<lparr>ao_status = missing_status (it_role r) (it_requested_qty r) ev filled missing_order_confirmed, ao_filled_qty = filled,
            ao_avg_price = avg, ao_fee = fee, ao_provider_order_id = provider_order_id, ao_provider_fill_ids = ids,
            ao_provider_fills = matching\<rparr>)))"

text \<open>The state an outcome is stored as.\<close>

definition outcome_intent_state :: "LiveOrderStatus \<Rightarrow> IntentState" where
  "outcome_intent_state status =
     (case status of Order_accepted \<Rightarrow> I_acknowledged | Order_partial \<Rightarrow> I_partially_filled | Order_filled \<Rightarrow> I_filled
      | Order_rejected \<Rightarrow> I_rejected | Order_unknown \<Rightarrow> I_unknown)"

definition order_not_found :: "bool \<Rightarrow> Exn \<Rightarrow> bool" where
  "order_not_found by_code e =
     (case e of
        BitgetApiError code m \<Rightarrow> (if by_code then code = ''40109'' \<or> contains_str (str_lower m) ''cannot be found''
                                  else contains_str m ''40109'' \<or> contains_str m ''cannot be found'')
      | BitgetUnknownResultError m \<Rightarrow> (if by_code then contains_str (str_lower m) ''cannot be found''
                                  else contains_str m ''40109'' \<or> contains_str m ''cannot be found'')
      | _ \<Rightarrow> False)"

text \<open>\<open>fills\<close> as a list of objects, or the error.\<close>

definition fills_list :: "string \<Rightarrow> JSON \<Rightarrow> (Exn, payload list) raises" where
  "fills_list message v =
     (case dict_list (case v of JObj d \<Rightarrow> get_first d [''fillList''] (JList []) | _ \<Rightarrow> v) of
        None \<Rightarrow> Inl (ValueError message) | Some ds \<Rightarrow> Inr ds)"

definition reconciled_missing :: "LiveIntentRecord \<Rightarrow> AmbiguousOrderResult \<Rightarrow> LiveIntentRecord" where
  "reconciled_missing r out =
     r\<lparr>it_filled_qty := ao_filled_qty out, it_avg_price := ao_avg_price out, it_fee := ao_fee out,
       it_provider_fill_ids := ao_provider_fill_ids out, it_provider_fills := ao_provider_fills out,
       it_provider_order_id := or_text (ao_provider_order_id out) (it_provider_order_id r),
       it_state := outcome_intent_state (ao_status out)\<rparr>"

definition reconciled_detail :: "LiveIntentRecord \<Rightarrow> payload \<Rightarrow> payload list \<Rightarrow> LiveIntentRecord" where
  "reconciled_detail r detail fills =
     (let pid = get_first detail [''orderId'', ''providerOrderId''] JNull;
          r1 = (if pid = JNull then r else r\<lparr>it_provider_order_id := Some (py_str pid)\<rparr>);
          matching = map normalize_fill (filter (fill_tied (it_client_oid r) (it_provider_order_id r1)) fills);
          (filled, avg, fee, ids) = summarize_fills matching; status = classify_live_order detail matching in
      r1\<lparr>it_filled_qty := filled, it_avg_price := avg, it_fee := fee, it_provider_fill_ids := ids, it_provider_fills := matching,
         it_state := outcome_intent_state (if status = Order_filled \<and> filled \<le> 0 then Order_unknown else status)\<rparr>)"

definition reconcile_unknown_intent ::
  "LiveIntentRecord \<Rightarrow> ('w, JSON) prog \<Rightarrow> ('w, JSON) prog \<Rightarrow> ('w, JSON) prog \<Rightarrow> ('w, JSON) prog \<Rightarrow> ('w, LiveIntentRecord) prog" where
  "reconcile_unknown_intent r read_order_detail read_fills read_position read_pending_orders =
     bindW (tryW (bindW read_order_detail (\<lambda>v. returnW (v, False))) (order_not_found True) (\<lambda>_. returnW (JObj [], True))) (\<lambda>(v, not_found).
       case as_dict v of
         None \<Rightarrow> raiseW (ValueError ''provider-order-detail-invalid'')
       | Some [] \<Rightarrow>
           bindW (classify_missing_detail r read_fills read_position read_pending_orders (it_provider_order_id r) not_found) (\<lambda>out.
             returnW (reconciled_missing r out))
       | Some detail \<Rightarrow>
           bindW read_fills (\<lambda>fills. bindW (liftE (fills_list ''provider-fills-invalid'' fills)) (\<lambda>ds.
             returnW (reconciled_detail r detail ds))))"

section \<open>The account reconciler\<close>

datatype ReconcilerStatus = RC_starting | RC_ok | RC_degraded | RC_killed

record Reconciler =
  rc_status :: ReconcilerStatus
  rc_last_mismatches :: "string list"
  rc_last_tick_seconds :: rat
  rc_known_order_ids :: "string list"
  rc_notified :: "ReconcilerStatus list"   \<comment> \<open>what the status callbacks were called with\<close>

record ReconcilerConfig =
  rf_stale_threshold_seconds :: rat
  rf_kill_on_missing_protection :: bool
  rf_expected_margin_mode :: string
  rf_symbol :: string

record 'v ReconcilerClient =
  rl_get_positions :: "('v, payload list) prog"
  rl_get_orders :: "('v, payload list) prog"
  rl_get_fills :: "('v, payload list) prog"
  rl_get_margin_mode :: "string \<Rightarrow> ('v, string) prog"

definition PnL_net :: "dec \<Rightarrow> dec \<Rightarrow> dec \<Rightarrow> dec \<Rightarrow> dec" where
  "PnL_net profit loss fees unrealized = dec_add (dec_sub (dec_sub profit loss) fees) unrealized"

definition rc_set_status :: "ReconcilerStatus \<Rightarrow> Reconciler \<Rightarrow> Reconciler" where
  "rc_set_status s rc = (if s = rc_status rc then rc else rc\<lparr>rc_status := s, rc_notified := rc_notified rc @ [s]\<rparr>)"

definition margin_mismatch :: "ReconcilerConfig \<Rightarrow> string \<Rightarrow> (Exn, string list) raises" where
  "margin_mismatch cfg mode =
     (if str_lower mode = rf_expected_margin_mode cfg then Inr []
      else let reason = ''wrong margin mode: '' @ mode in
        if rf_kill_on_missing_protection cfg then Inl (KillSwitchTrigger reason) else Inr [reason])"

definition unknown_orders :: "string list \<Rightarrow> payload list \<Rightarrow> string list" where
  "unknown_orders known orders =
     List.map_filter (\<lambda>order. let oid = get_key order ''order_id'' in
       if py_true oid \<and> oid \<notin> JStr ` set known then Some (''unknown order '' @ py_str oid) else None) orders"

definition unprotected_positions :: "payload list \<Rightarrow> payload list \<Rightarrow> string list" where
  "unprotected_positions positions orders =
     List.map_filter (\<lambda>position. let symbol = get_key position ''symbol'';
         roles = map (\<lambda>order. get_key order ''role'') (filter (\<lambda>order. get_key order ''symbol'' = symbol) orders) in
       if {JStr ''SL'', JStr ''TP''} \<subseteq> set roles then None else Some (''protection missing for position '' @ py_str symbol)) positions"

definition unknown_fills :: "string list \<Rightarrow> payload list \<Rightarrow> payload list \<Rightarrow> string list" where
  "unknown_fills known orders fills =
     List.map_filter (\<lambda>fill. let first = get_key fill ''order_id''; oid = (if py_true first then first else get_key fill ''orderId'') in
       if py_true oid \<and> oid \<notin> set (map (\<lambda>order. get_key order ''order_id'') orders) \<union> JStr ` set known
       then Some (''unknown order '' @ py_str oid @ '' in fills'') else None) fills"

definition rc_reconcile :: "'v ReconcilerClient \<Rightarrow> ReconcilerConfig \<Rightarrow> string list \<Rightarrow> ('v, string list) prog" where
  "rc_reconcile client cfg known =
     bindW (rl_get_margin_mode client (rf_symbol cfg)) (\<lambda>mode.
     bindW (liftE (margin_mismatch cfg mode)) (\<lambda>m0.
     bindW (rl_get_positions client) (\<lambda>positions.
     bindW (rl_get_orders client) (\<lambda>orders.
     bindW (rl_get_fills client) (\<lambda>fills.
       let m = m0 @ unknown_orders known orders @ unprotected_positions positions orders in
       if rf_kill_on_missing_protection cfg \<and> list_ex (\<lambda>x. contains_str x ''protection'') m
       then raiseW (KillSwitchTrigger ''missing_protection'')
       else returnW (m @ unknown_fills known orders fills))))))"

text \<open>One tick at time \<open>now\<close>; a kill is re-raised after the status is set, any other error is a degraded tick.\<close>

definition rc_tick :: "'v ReconcilerClient \<Rightarrow> ReconcilerConfig \<Rightarrow> rat \<Rightarrow> Reconciler \<Rightarrow> 'v \<Rightarrow> Exn option \<times> Reconciler \<times> 'v" where
  "rc_tick client cfg now rc v =
     (if rc_last_tick_seconds rc \<noteq> 0 \<and> rf_stale_threshold_seconds cfg < now - rc_last_tick_seconds rc
      then (Some (KillSwitchTrigger ''stale_reconciliation''), rc_set_status RC_killed rc, v)
      else case rc_reconcile client cfg (rc_known_order_ids rc) v of
             (Inl (KillSwitchTrigger reason), v') \<Rightarrow> (Some (KillSwitchTrigger reason), rc_set_status RC_killed rc, v')
           | (Inl _, v') \<Rightarrow>
               (None, (rc_set_status RC_degraded rc)\<lparr>rc_last_mismatches := [''reconciliation failed''], rc_last_tick_seconds := now\<rparr>, v')
           | (Inr m, v') \<Rightarrow>
               (None, (rc_set_status (if m \<noteq> [] then RC_degraded else RC_ok) rc)\<lparr>rc_last_mismatches := m, rc_last_tick_seconds := now\<rparr>, v'))"

section \<open>Lemmas\<close>

declare get_first.simps [simp del] plan_decimal.simps [simp del] positive_decimal.simps [simp del]

lemma first_failure_None: "first_failure checks = None \<longleftrightarrow> list_all (\<lambda>c. \<not> fst c) checks"
  by (auto simp: first_failure_def find_None_iff_none list_all_iff)

lemma attempt_bind: "bindW (attemptW p) f w = (case p w of (r, w1) \<Rightarrow> f r w1)"
  by (simp add: bindW_def attemptW_def split: prod.split)

lemma report_states [simp]:
  "pr_state (failed_report q r) = P_failed" "pr_state (degraded_report q r) = P_degraded" "pr_state (protected_report q) = P_venue_protected"
  by (simp_all add: failed_report_def degraded_report_def protected_report_def)

lemma plans_unreadable_state: "pr_state (plans_unreadable q e) \<noteq> P_venue_protected"
  by (simp add: plans_unreadable_def)

text \<open>What a plan of the venue must be to cover a leg of a position.\<close>

definition plan_covers :: "NativeProtectionExpectation \<Rightarrow> string \<Rightarrow> dec \<Rightarrow> payload \<Rightarrow> bool" where
  "plan_covers e leg trigger plan \<longleftrightarrow>
     plan_type plan = expected_plan_type e leg
     \<and> str_upper (str_strip (py_str (get_first plan [''symbol''] (JStr '''')))) = str_upper (str_strip (ne_symbol e))
     \<and> plan_hold_side plan = canonical_hold_side (JStr (ne_hold_side e))
     \<and> norm_text (get_first plan [''planStatus'', ''status''] (JStr '''')) \<in> set ACTIVE_PLAN_STATUSES
     \<and> agrees (leg_client_oid e leg) (plan_client_oid plan leg)
     \<and> plan_decimal False plan [leg @ ''TriggerPrice'', ''triggerPrice''] = Some trigger
     \<and> str_lower (str_strip (text_or_empty (plan_field plan leg ''TriggerType''))) = ''mark_price''
     \<and> plan_decimal True plan [leg @ ''ExecutePrice'', ''executePrice'', ''price''] = Some 0
     \<and> (if leg_position_level e leg then plan_decimal True plan [''size''] = Some 0
        else leg_size e leg \<noteq> None \<and> plan_decimal False plan [''size'', ''executeSize'', ''quantity''] = leg_size e leg)"

lemma leg_covered:
  assumes "leg_refusal e position plans leg (Some trigger) = None"
  obtains plan where "exact_plans plans e leg (leg_plan_id e position leg) = [plan]" "plan \<in> set plans" "plan_covers e leg trigger plan"
proof -
  from assms obtain plan where found: "find_exact_plan plans e leg (leg_plan_id e position leg) = Inr plan"
    and ok: "verify_exact_leg plan e leg trigger (leg_plan_id e position leg) = None"
    by (auto simp: leg_refusal_def split: sum.splits)
  have one: "exact_plans plans e leg (leg_plan_id e position leg) = [plan]"
    using found by (auto simp: find_exact_plan_def split: list.splits)
  then have member: "plan \<in> set (exact_plans plans e leg (leg_plan_id e position leg))" by simp
  then have "plan \<in> set plans" "plan_type plan = expected_plan_type e leg" "agrees (leg_client_oid e leg) (plan_client_oid plan leg)"
    by (auto simp: exact_plans_def)
  moreover have "plan_covers e leg trigger plan"
    using ok [unfolded verify_exact_leg_def leg_checks_def Let_def option.map_disc_iff first_failure_None list.pred_inject fst_conv,
      folded leg_position_level_def] calculation(2,3)
    unfolding plan_covers_def by (cases "leg_position_level e leg") (simp_all del: not_None_eq)
  ultimately show ?thesis using that one by blast
qed

lemma exact_position_found:
  assumes "exact_position e v = Inr (position, q)"
  obtains rows where "sized_rows v = Some rows" "open_sized rows = [position]" "row_size position = Some q" "q = ne_quantity e"
    "norm_text (get_first position [''marginMode''] (JStr '''')) = ''isolated''"
    "canonical_hold_side (get_first position [''holdSide'', ''side''] JNull) = canonical_hold_side (JStr (ne_hold_side e))"
proof -
  from assms obtain rows where rows: "sized_rows v = Some rows" "open_sized rows = [position]" "row_size position = Some q"
    "first_failure (position_checks e position q) = None"
    by (auto simp: exact_position_def split: option.splits list.splits)
  then show ?thesis using that by (simp add: first_failure_None position_checks_def)
qed

section \<open>Properties\<close>

text \<open>
  Native protection is confirmed only by the venue itself. When the confirmation against an
  expected protection answers venue-protected, the position read and the plan read both returned, the
  position read shows exactly one open position, isolated and of the expected side and quantity, and
  for each expected trigger the plan read shows exactly one plan of the leg's kind that covers it: active,
  of the symbol and side, on the mark price, at exactly that trigger, executing at market, for the whole position or
  the expected size.
\<close>

lemma native_protection_confirmed:
  assumes "confirm_native_protection read_position read_pending_plans expected (Some e) w = (Inr report, w')"
    and "pr_state report = P_venue_protected"
  shows "\<exists>v w1 v2 rows position plans. read_position w = (Inr v, w1) \<and> read_pending_plans w1 = (Inr v2, w')
    \<and> sized_rows v = Some rows \<and> open_sized rows = [position] \<and> row_size position = Some (ne_quantity e)
    \<and> norm_text (get_first position [''marginMode''] (JStr '''')) = ''isolated''
    \<and> canonical_hold_side (get_first position [''holdSide'', ''side''] JNull) = canonical_hold_side (JStr (ne_hold_side e))
    \<and> dict_list v2 = Some plans \<and> pr_observed_quantity report = ne_quantity e
    \<and> (\<forall>t. ne_stop_loss e = Some t \<longrightarrow> (\<exists>plan \<in> set plans.
         exact_plans plans e ''stopLoss'' (leg_plan_id e position ''stopLoss'') = [plan] \<and> plan_covers e ''stopLoss'' t plan))
    \<and> (\<forall>t. ne_take_profit e = Some t \<longrightarrow> (\<exists>plan \<in> set plans.
         exact_plans plans e ''stopSurplus'' (leg_plan_id e position ''stopSurplus'') = [plan] \<and> plan_covers e ''stopSurplus'' t plan))"
proof -
  have run: "confirm_exact_native_protection read_position read_pending_plans e w = (Inr report, w')"
    using assms by (auto simp: confirm_native_protection_def returnW_def split: if_splits option.splits)
  then obtain v w1 position q where read: "read_position w = (Inr v, w1)" and pos: "exact_position e v = Inr (position, q)"
    and rest: "with_plans read_pending_plans q (\<lambda>plans. returnW (exact_verdict e position q plans)) w1 = (Inr report, w')"
    using assms(2) unfolding confirm_exact_native_protection_def attempt_bind
    by (auto simp: returnW_def exact_position_def split: prod.splits sum.splits option.splits list.splits)
  from rest obtain v2 plans where plans: "read_pending_plans w1 = (Inr v2, w')" "dict_list v2 = Some plans"
    and report: "report = exact_verdict e position q plans"
    using assms(2) plans_unreadable_state unfolding with_plans_def attempt_bind
    by (auto simp: returnW_def split: prod.splits sum.splits option.splits)
  have legs: "leg_refusal e position plans ''stopLoss'' (ne_stop_loss e) = None" "leg_refusal e position plans ''stopSurplus'' (ne_take_profit e) = None"
    "report = protected_report q"
    using assms(2) unfolding report exact_verdict_def by (auto split: option.splits)
  obtain rows where rows: "sized_rows v = Some rows" "open_sized rows = [position]" "row_size position = Some q" "q = ne_quantity e"
    "norm_text (get_first position [''marginMode''] (JStr '''')) = ''isolated''"
    "canonical_hold_side (get_first position [''holdSide'', ''side''] JNull) = canonical_hold_side (JStr (ne_hold_side e))"
    by (rule exact_position_found [OF pos])
  have covered: "\<exists>plan \<in> set plans. exact_plans plans e leg (leg_plan_id e position leg) = [plan] \<and> plan_covers e leg t plan"
    if "leg_refusal e position plans leg (Some t) = None" for leg t
    using leg_covered [OF that] by metis
  have "pr_observed_quantity report = ne_quantity e" using legs(3) rows(4) by (simp add: protected_report_def)
  then show ?thesis using read plans rows covered legs(1,2) by metis
qed

definition sample_position_row :: payload where
  "sample_position_row = [(''symbol'', JStr ''ZROUSDT''), (''holdSide'', JStr ''long''), (''total'', JStr ''5''), (''marginMode'', JStr ''isolated''),
     (''posMode'', JStr ''one_way_mode'')]"

definition sample_stop_plan :: payload where
  "sample_stop_plan = [(''planType'', JStr ''pos_loss''), (''symbol'', JStr ''ZROUSDT''), (''posSide'', JStr ''long''), (''planStatus'', JStr ''live''),
     (''orderId'', JStr ''p1''), (''clientOid'', JStr ''e0-sl''), (''triggerPrice'', JStr ''1.5''), (''triggerType'', JStr ''mark_price''), (''size'', JStr '''')]"

definition sample_expectation :: NativeProtectionExpectation where
  "sample_expectation = \<lparr>ne_symbol = ''ZROUSDT'', ne_hold_side = ''buy'', ne_quantity = 5, ne_stop_loss = Some (3 / 2), ne_take_profit = None,
     ne_stop_loss_client_oid = Some ''e0-sl'', ne_take_profit_client_oid = None, ne_stop_loss_provider_order_id = None,
     ne_take_profit_provider_order_id = None, ne_stop_loss_size = None, ne_take_profit_size = None, ne_position_level = True\<rparr>"

definition sample_confirmation :: "(Exn, ProtectionReport) raises \<times> unit" where
  "sample_confirmation = confirm_native_protection (returnW (JList [JObj sample_position_row])) (returnW (JList [JObj sample_stop_plan])) None
     (Some sample_expectation) ()"

lemma native_protection_confirmed_sample:
  "pr_observed_quantity (projr (fst sample_confirmation)) = 5
   \<and> (\<exists>plans plan. dict_list (JList [JObj sample_stop_plan]) = Some plans \<and> plan \<in> set plans \<and> plan_covers sample_expectation ''stopLoss'' (3 / 2) plan)"
proof -
  have "case fst sample_confirmation of Inl _ \<Rightarrow> False | Inr r \<Rightarrow> pr_state r = P_venue_protected" by code_simp
  then obtain report where run: "sample_confirmation = (Inr report, ())" and protected: "pr_state report = P_venue_protected"
    by (metis (mono_tags, lifting) old.unit.exhaust prod.collapse sum.case_eq_if sum.collapse(2))
  have "ne_stop_loss sample_expectation = Some (3 / 2)" "ne_quantity sample_expectation = 5" by (simp_all add: sample_expectation_def)
  then show ?thesis
    using native_protection_confirmed [OF run [unfolded sample_confirmation_def] protected] run
    by (metis fst_conv returnW_def sum.sel(2) prod.inject sum.inject(2))
qed

text \<open>
  An order without a detail is classified on evidence. It is taken for executed only on fills tied to it,
  read whole; it is taken for rejected only when the missing order was confirmed, the position read shows the
  symbol flat, no order of the symbol is pending and no fill is tied to it; when a read raises it stays unknown.
\<close>

theorem classify_missing_detail_evidence:
  assumes "classify_missing_detail r read_fills read_position read_pending_orders pid confirmed w = (Inr out, w')" and "0 < it_requested_qty r"
  shows "(ao_status out \<in> {Order_filled, Order_partial} \<longrightarrow>
       0 < ao_filled_qty out \<and> (\<exists>v w1. read_fills w = (Inr v, w1) \<and> snd (complete_fills v)
         \<and> tied_fills (it_client_oid r) pid (fst (complete_fills v)) = Inr (ao_provider_fills out)))
    \<and> (ao_status out = Order_rejected \<longrightarrow> confirmed \<and> ao_filled_qty out \<le> 0
        \<and> (\<exists>v w1 p w2 o'. read_fills w = (Inr v, w1) \<and> read_position w1 = (Inr p, w2) \<and> read_pending_orders w2 = (Inr o', w')
             \<and> flat_position p (it_symbol r) = Some True \<and> no_pending_orders o' (it_symbol r) = Some True))
    \<and> ao_status out \<noteq> Order_accepted"
proof -
  from assms(1) obtain ev w1 matching where ev: "missing_evidence (it_symbol r) read_fills read_position read_pending_orders w = (Inr ev, w1)"
    and matching: "tied_fills (it_client_oid r) pid (mv_fills ev) = Inr matching" and w': "w' = w1"
    and out: "out = (case summarize_fills matching of (filled, avg, fee, ids) \<Rightarrow>
           \<lparr>ao_status = missing_status (it_role r) (it_requested_qty r) ev filled confirmed, ao_filled_qty = filled,
            ao_avg_price = avg, ao_fee = fee, ao_provider_order_id = pid, ao_provider_fill_ids = ids, ao_provider_fills = matching\<rparr>)"
    unfolding classify_missing_detail_def by (fastforce elim!: bindW_InrE simp: liftE_def returnW_def)
  have status: "ao_status out = missing_status (it_role r) (it_requested_qty r) ev (ao_filled_qty out) confirmed" "ao_provider_fills out = matching"
    unfolding out by (simp_all split: prod.split)
  consider (raised) "\<not> mv_complete ev" "\<not> mv_flat ev" | (read) v x1 p x2 o' where "read_fills w = (Inr v, x1)" "read_position x1 = (Inr p, x2)"
      "read_pending_orders x2 = (Inr o', w1)" "mv_fills ev = fst (complete_fills v)" "mv_complete ev = snd (complete_fills v)"
      "mv_flat ev \<longleftrightarrow> flat_position p (it_symbol r) = Some True" "mv_no_pending ev \<longleftrightarrow> no_pending_orders o' (it_symbol r) = Some True"
    using ev unfolding missing_evidence_def attempt_bind
    by (auto simp: bindW_def returnW_def split: prod.splits sum.splits)
  then show ?thesis
  proof cases
    case raised
    then show ?thesis using status by (simp add: missing_status_def)
  next
    case read
    then show ?thesis using status matching assms(2) w' by (auto simp: missing_status_def Let_def split: if_splits)
  qed
qed

end
