(* ===== verification/Async_Execution.thy ===== *)
theory Async_Execution
  imports Fallback_Protection Provider_Reads Capability_Store Dispatch_Repository Reservations
begin

text \<open>
  \<open>exchanges/bitget/async_execution.py\<close>, with \<open>ensure_leverage\<close> of \<open>async_venue.py\<close>: the entry POST and
  its read-back, the post-fill comparison, cancellation, native protection with its bounded grace, the
  hand-over to the local price monitor, and the opt-in emergency containment. The venue client is a record
  of programs over a venue state \<open>'v\<close>; the intent store, the capability table, the observation log and
  the kill switch are the modelled tables; other workers are interleaved at every effect, as in
  \<open>Workers\<close>. Quantities and prices are passed to the client as numbers, not as their texts. The clock
  of an observation is that of the transaction that writes it. Log lines are left out.
\<close>

section \<open>The process and its client\<close>

text \<open>What the adapters keep in memory: the degraded flag of the execution client, the readiness of the
  dispatch adapter, and the venue as the process sees it.\<close>

record 'v Process =
  pw_degraded :: bool
  pw_recovery_ready :: bool
  pw_recovery_issues :: "string list"
  pw_venue :: 'v

record 'v ExecClient = "'v Process Worker" +
  ec_get_account :: "string \<Rightarrow> ('v, JSON) prog"
  ec_place_entry_order :: "string \<Rightarrow> string \<Rightarrow> dec \<Rightarrow> string \<Rightarrow> dec option \<Rightarrow> ('v, payload) prog"
  ec_get_order_detail :: "string \<Rightarrow> string \<Rightarrow> ('v, JSON) prog"
  ec_get_fills :: "string \<Rightarrow> ('v, JSON) prog"
  ec_get_single_position :: "string \<Rightarrow> ('v, JSON) prog"
  ec_get_pending_orders :: "string \<Rightarrow> ('v, JSON) prog"
  ec_cancel_entry_order :: "string \<Rightarrow> string \<Rightarrow> ('v, JSON) prog"
  ec_get_pending_plan_orders :: "string \<Rightarrow> ('v, JSON) prog"
  ec_place_position_tpsl ::
    "string \<Rightarrow> string \<Rightarrow> dec \<Rightarrow> dec \<Rightarrow> dec option \<Rightarrow> string \<Rightarrow> string option \<Rightarrow> ('v, JSON) prog"
  ec_place_market_close :: "string \<Rightarrow> string \<Rightarrow> dec \<Rightarrow> string \<Rightarrow> ('v, payload) prog"
  ec_set_leverage :: "string \<Rightarrow> string \<Rightarrow> ('v, JSON) prog"
  ec_sleep :: "rat \<Rightarrow> ('v, unit) prog"
  ec_monotonic :: "'v \<Rightarrow> rat"
  ec_jitter :: "nat \<Rightarrow> rat"
  ec_uuid :: "nat \<Rightarrow> string"
  ec_client_environment :: "string option"
  ec_environment :: string
  ec_capability_repository :: bool
  ec_reconciliation_repository :: bool
  ec_entry_admission_latch :: bool
  ec_fallback_protection_enabled :: bool
  ec_emergency_containment_enabled :: bool
  ec_protection_grace_seconds :: rat
  ec_protection_grace_interval_seconds :: rat

definition on_venue :: "('v, 'a) prog \<Rightarrow> ('v Process, 'a) prog" where
  "on_venue p s = (case p (pw_venue s) of (r, v) \<Rightarrow> (r, s\<lparr>pw_venue := v\<rparr>))"

definition apiW :: "('v, 'z) ExecClient_scheme \<Rightarrow> ('v, 'a) prog \<Rightarrow> ('v Process WorkerWorld, 'a) prog" where
  "apiW c p = clientW c (on_venue p)"

definition processW :: "('v Process \<Rightarrow> 'a) \<Rightarrow> ('v Process WorkerWorld, 'a) prog" where
  "processW f w = (Inr (f (ww_venue w)), w)"

definition set_processW :: "('v Process \<Rightarrow> 'v Process) \<Rightarrow> ('v Process WorkerWorld, unit) prog" where
  "set_processW f w = (Inr (), w\<lparr>ww_venue := f (ww_venue w)\<rparr>)"

definition degradeW :: "('v Process WorkerWorld, unit) prog" where
  "degradeW = set_processW (\<lambda>s. s\<lparr>pw_degraded := True\<rparr>)"

text \<open>A record as the store reads it back: the raw provider fills are no column of the table.\<close>

definition stored_record :: "IntentRow \<Rightarrow> LiveIntentRecord" where
  "stored_record i = (LiveIntentRecord.truncate i)\<lparr>it_provider_fills := []\<rparr>"

definition getW :: "('v, 'z) Worker_scheme \<Rightarrow> string \<Rightarrow> ('v WorkerWorld, LiveIntentRecord option) prog" where
  "getW c oid = queryW c (\<lambda>db. map_option stored_record (get_intent db oid))"

definition updateW :: "('v, 'z) Worker_scheme \<Rightarrow> LiveIntentRecord \<Rightarrow> ('v WorkerWorld, unit) prog" where
  "updateW c r = dbW c (\<lambda>now db. unitT (update_intent now r db))"

section \<open>Results\<close>

record AsyncExecutionResult =
  xr_client_oid :: string
  xr_status :: LiveOrderStatus
  xr_filled_qty :: dec
  xr_avg_price :: "dec option"
  xr_fee :: dec
  xr_provider_order_id :: "string option"
  xr_provider_fill_ids :: "string list"
  xr_provider_fills :: "payload list"
  xr_provider_terminal :: bool

record AsyncProtectionResult =
  xp_state :: ProtectionState
  xp_observed_quantity :: dec
  xp_reason :: "string option"
  xp_emergency_close_oid :: "string option"

definition protection_result :: "ProtectionState \<Rightarrow> dec \<Rightarrow> string \<Rightarrow> AsyncProtectionResult" where
  "protection_result st q reason =
     \<lparr>xp_state = st, xp_observed_quantity = q, xp_reason = Some reason, xp_emergency_close_oid = None\<rparr>"

definition report_result :: "ProtectionReport \<Rightarrow> AsyncProtectionResult" where
  "report_result report =
     \<lparr>xp_state = pr_state report, xp_observed_quantity = pr_observed_quantity report, xp_reason = pr_reason report,
      xp_emergency_close_oid = None\<rparr>"

definition ambiguous_post :: "Exn \<Rightarrow> bool" where
  "ambiguous_post e = (case e of BitgetUnknownResultError _ \<Rightarrow> True | TimeoutError _ \<Rightarrow> True | _ \<Rightarrow> False)"

definition is_api_error :: "Exn \<Rightarrow> bool" where
  "is_api_error e = (case e of BitgetApiError _ _ \<Rightarrow> True | BitgetUnknownResultError _ \<Rightarrow> True | _ \<Rightarrow> False)"

definition api_code :: "Exn \<Rightarrow> string" where
  "api_code e = (case e of BitgetApiError code _ \<Rightarrow> code | _ \<Rightarrow> [])"

text \<open>\<open>a or b\<close>.\<close>

definition py_or :: "JSON \<Rightarrow> JSON \<Rightarrow> JSON" where
  "py_or a b = (if py_true a then a else b)"

fun detail_decimal :: "payload \<Rightarrow> string list \<Rightarrow> dec option" where
  "detail_decimal d [] = None"
| "detail_decimal d (k # ks) =
     (case to_decimal (get_key d k) of Some q \<Rightarrow> if 0 < q then Some q else detail_decimal d ks | None \<Rightarrow> detail_decimal d ks)"

section \<open>Read-back\<close>

text \<open>The provider order id: the detail's, else the acknowledgement's, else the stored one.\<close>

definition readback_order_id :: "LiveIntentRecord \<Rightarrow> payload \<Rightarrow> payload option \<Rightarrow> string option" where
  "readback_order_id r detail submitted =
     (let of_detail = py_or (get_key detail ''orderId'') (get_key detail ''providerOrderId'');
          pid = (if of_detail \<noteq> JNull then of_detail
                 else case submitted of None \<Rightarrow> JNull | Some d \<Rightarrow> py_or (get_key d ''orderId'') (get_key d ''providerOrderId''))
      in if pid = JNull then it_provider_order_id r else Some (py_str pid))"

definition TERMINAL_STATUSES :: "string list" where
  "TERMINAL_STATUSES = [''filled'', ''full-fill'', ''full_fill'', ''cancelled'', ''canceled'', ''rejected'', ''expired'']"

definition detail_number :: "payload \<Rightarrow> string \<Rightarrow> (Exn, dec) raises" where
  "detail_number detail k =
     (case to_decimal (get_first detail [k] (JStr ''0'')) of None \<Rightarrow> Inl (OtherError ''InvalidOperation'' []) | Some q \<Rightarrow> Inr q)"

text \<open>The detail of a waiting entry must be that of the very order.\<close>

definition waiting_entry_owned :: "LiveIntentRecord \<Rightarrow> payload \<Rightarrow> dec \<Rightarrow> (Exn, unit) raises" where
  "waiting_entry_owned r detail filled =
     (let foreign = Inl (ValueError ''Bitget waiting entry ownership mismatch''); text_of = (\<lambda>k. py_str (get_first detail [k] (JStr ''''))) in
      if text_of ''clientOid'' \<noteq> it_client_oid r \<or> str_upper (text_of ''symbol'') \<noteq> it_symbol r \<or> str_upper (text_of ''side'') \<noteq> it_side r
         \<or> str_lower (text_of ''orderType'') \<noteq> ''limit'' \<or> str_upper (text_of ''reduceOnly'') \<notin> {''NO'', ''FALSE''}
      then foreign
      else bindE (detail_number detail ''price'') (\<lambda>price.
        if Some price \<noteq> it_limit_price r then foreign
        else bindE (detail_number detail ''size'') (\<lambda>sz.
          if sz \<noteq> it_requested_qty r \<or> it_requested_qty r < filled then foreign else Inr ())))"

definition detail_result :: "LiveIntentRecord \<Rightarrow> payload \<Rightarrow> payload option \<Rightarrow> payload list \<Rightarrow> (Exn, AsyncExecutionResult) raises" where
  "detail_result r detail submitted fills =
     (let pid = readback_order_id r detail submitted;
          typed = map normalize_fill (filter (fill_tied (it_client_oid r) pid) fills);
          (fill_qty, fill_avg, fee, ids) = summarize_fills typed in
      if detail = [] then
        Inr \<lparr>xr_client_oid = it_client_oid r,
          xr_status = (if it_requested_qty r \<le> fill_qty then Order_filled else if 0 < fill_qty then Order_partial
                       else if submitted \<noteq> None then Order_accepted else Order_unknown),
          xr_filled_qty = fill_qty, xr_avg_price = fill_avg, xr_fee = fee,
          xr_provider_order_id = (if pid = Some [] then None else pid), xr_provider_fill_ids = ids, xr_provider_fills = typed,
          xr_provider_terminal = False\<rparr>
      else
        let (filled, avg) = (case detail_decimal detail [''filledQty'', ''filledSize'', ''baseVolume''] of
              Some q \<Rightarrow> if fill_qty < q then (q, detail_decimal detail [''avgPrice'', ''priceAvg'', ''averagePrice'']) else (fill_qty, fill_avg)
            | None \<Rightarrow> (fill_qty, fill_avg)) in
        bindE (if it_order_type r = ''limit'' then waiting_entry_owned r detail filled else Inr ()) (\<lambda>_.
          Inr \<lparr>xr_client_oid = it_client_oid r, xr_status = classify_live_order detail typed, xr_filled_qty = filled,
            xr_avg_price = avg, xr_fee = fee, xr_provider_order_id = pid, xr_provider_fill_ids = ids, xr_provider_fills = typed,
            xr_provider_terminal = (str_lower (py_str (get_first detail [''state'', ''status''] (JStr ''''))) \<in> set TERMINAL_STATUSES)\<rparr>))"

definition missing_result :: "LiveIntentRecord \<Rightarrow> AmbiguousOrderResult \<Rightarrow> AsyncExecutionResult" where
  "missing_result r out =
     \<lparr>xr_client_oid = it_client_oid r, xr_status = ao_status out, xr_filled_qty = ao_filled_qty out, xr_avg_price = ao_avg_price out,
      xr_fee = ao_fee out, xr_provider_order_id = ao_provider_order_id out, xr_provider_fill_ids = ao_provider_fill_ids out,
      xr_provider_fills = ao_provider_fills out, xr_provider_terminal = False\<rparr>"

definition missing_order_id :: "LiveIntentRecord \<Rightarrow> payload option \<Rightarrow> string option" where
  "missing_order_id r submitted =
     (let d = (case submitted of None \<Rightarrow> [] | Some d \<Rightarrow> d); pid = py_or (get_key d ''orderId'') (get_key d ''providerOrderId'') in
      if py_true pid then Some (py_str pid) else it_provider_order_id r)"

definition reconcile_intent ::
  "('v, 'z) ExecClient_scheme \<Rightarrow> LiveIntentRecord \<Rightarrow> payload option \<Rightarrow> ('v Process WorkerWorld, AsyncExecutionResult) prog" where
  "reconcile_intent c r submitted =
     bindW (tryW (bindW (apiW c (ec_get_order_detail c (it_symbol r) (it_client_oid r))) (\<lambda>v. returnW (Some v)))
        (order_not_found False) (\<lambda>_. returnW None)) (\<lambda>detail.
       case detail of
         None \<Rightarrow>
           bindW (classify_missing_detail r (apiW c (ec_get_fills c (it_symbol r))) (apiW c (ec_get_single_position c (it_symbol r)))
              (apiW c (ec_get_pending_orders c (it_symbol r))) (missing_order_id r submitted) True) (\<lambda>out. returnW (missing_result r out))
       | Some v \<Rightarrow>
           bindW (apiW c (ec_get_fills c (it_symbol r))) (\<lambda>fills.
           case as_dict v of
             None \<Rightarrow> raiseW (ValueError ''Bitget order detail response must be an object'')
           | Some d \<Rightarrow>
               bindW (liftE (fills_list ''Bitget fills response must be a list of objects'' fills)) (\<lambda>fs.
                 liftE (detail_result r d submitted fs))))"

section \<open>The post-fill comparison\<close>

definition post_fill_verdict :: "LiveIntentRecord \<Rightarrow> BitgetPositionState \<Rightarrow> dec \<Rightarrow> int \<Rightarrow> dec \<Rightarrow> string \<times> string option" where
  "post_fill_verdict r p expected leverage margin =
     (let mode = str_upper (bp_margin_mode p); tolerance = max (1 / 10) (dec_mul margin (1 / 10)) in
      if bp_leverage p \<noteq> of_int leverage \<or> Some mode \<noteq> it_margin_mode r
      then (''mismatch'', Some ''leverage-or-margin-mode-mismatch'')
      else case bp_margin_usdt p of
        None \<Rightarrow> (''unavailable'', Some ''provider-margin-unavailable'')
      | Some observed \<Rightarrow>
          if it_dispatch_id r \<noteq> None \<and> bp_quantity p \<noteq> expected then (''mismatch'', Some ''split-position-quantity-mismatch'')
          else if it_dispatch_id r \<noteq> None \<and> observed \<le> dec_add margin tolerance
          then (''within_tolerance'', Some ''split-filled-margin-within-reserved-cap'')
          else if observed = margin then (''matched'', None)
          else if dec_abs (dec_sub observed margin) \<le> tolerance then (''within_tolerance'', Some ''margin-rounding-or-fee-tolerance'')
          else (''mismatch'', Some ''margin-mismatch''))"

definition post_fill_observation ::
  "LiveIntentRecord \<Rightarrow> int \<Rightarrow> dec \<Rightarrow> BitgetPositionState option \<Rightarrow> string \<times> string option \<Rightarrow> timestamp \<Rightarrow> PostFillObservation" where
  "post_fill_observation r leverage margin p verdict now =
     \<lparr>po_exchange = exchange_value (it_exchange r), po_client_order_id = it_client_oid r, po_planned_leverage = of_int leverage,
      po_planned_margin_usdt = margin, po_planned_notional_usdt = it_planned_notional_usdt r,
      po_observed_leverage = map_option bp_leverage p, po_observed_margin_mode = map_option (\<lambda>x. str_upper (bp_margin_mode x)) p,
      po_observed_quantity = map_option bp_quantity p, po_observed_entry_price = map_option bp_entry_price p,
      po_observed_mark_price = Option.bind p bp_mark_price, po_observed_margin_usdt = Option.bind p bp_margin_usdt,
      po_status = fst verdict, po_reason = snd verdict, po_observed_at = now, po_created_at = now\<rparr>"

definition expected_position ::
  "('v, 'z) ExecClient_scheme \<Rightarrow> bool \<Rightarrow> LiveIntentRecord \<Rightarrow> ('v Process WorkerWorld, dec) prog" where
  "expected_position c with_store r =
     (if with_store then
        bindW (attemptW (dbW c (\<lambda>now db. bindE (remaining_owned_quantity (it_client_oid r) db) (\<lambda>q. Inr (db, q))))) (\<lambda>x.
          returnW (case x of Inr q \<Rightarrow> q | Inl _ \<Rightarrow> it_filled_qty r))
      else returnW (it_filled_qty r))"

definition observe_post_fill ::
  "('v, 'z) ExecClient_scheme \<Rightarrow> bool \<Rightarrow> LiveIntentRecord \<Rightarrow> int \<Rightarrow> dec
    \<Rightarrow> ('v Process WorkerWorld, BitgetPositionState option \<times> string \<times> string option) prog" where
  "observe_post_fill c with_store r leverage margin =
     bindW (attemptW (bindW (read_position_state (apiW c (ec_get_single_position c (it_symbol r)))) (\<lambda>p.
        case p of
          None \<Rightarrow> returnW (None, ''unavailable'', Some ''position-unavailable'')
        | Some s \<Rightarrow> bindW (expected_position c with_store r) (\<lambda>q. returnW (Some s, post_fill_verdict r s q leverage margin))))) (\<lambda>x.
       returnW (case x of
          Inr ob \<Rightarrow> ob
        | Inl e \<Rightarrow> (None, ''unavailable'', Some (''provider-position-read-failed:'' @ exn_name e))))"

definition reconcile_post_fill ::
  "('v, 'z) ExecClient_scheme \<Rightarrow> bool \<Rightarrow> LiveIntentRecord \<Rightarrow> LiveOrderStatus \<Rightarrow> ('v Process WorkerWorld, unit) prog" where
  "reconcile_post_fill c with_store r status =
     (if status \<notin> {Order_filled, Order_partial} \<or> it_role r \<noteq> ENTRY \<or> it_entry_leg r \<noteq> None then returnW ()
      else case (it_planned_leverage r, it_planned_margin_usdt r) of
        (Some leverage, Some margin) \<Rightarrow>
          bindW (observe_post_fill c with_store r leverage margin) (\<lambda>(p, verdict).
          bindW (if ec_reconciliation_repository c
                 then dbW c (\<lambda>now db. unitT (record_observation (post_fill_observation r leverage margin p verdict now) db))
                 else returnW ()) (\<lambda>_.
            if fst verdict = ''mismatch'' then
              bindW degradeW (\<lambda>_.
                if ec_entry_admission_latch c
                then dbW c (\<lambda>now db. unitT (latch_kill_switch now ''bitget'' ''post-fill-margin-or-leverage-mismatch'' db))
                else returnW ())
            else returnW ()))
      | _ \<Rightarrow> returnW ())"

section \<open>Leverage and entry\<close>

definition clockW :: "('v, 'z) Worker_scheme \<Rightarrow> ('v WorkerWorld, timestamp) prog" where
  "clockW c w = (Inr (wk_now c (ww_tick w)), w)"

definition SUPPORTED_POSITION_MODES :: "string list" where
  "SUPPORTED_POSITION_MODES = [''one_way_mode'', ''one-way'', ''one_way'']"

definition leverage_matches :: "BitgetAccountState \<Rightarrow> int \<Rightarrow> bool" where
  "leverage_matches account planned \<longleftrightarrow> as_margin_mode account = ''isolated''
     \<and> str_lower (as_position_mode account) \<in> set SUPPORTED_POSITION_MODES
     \<and> as_long_leverage account = of_int planned \<and> as_short_leverage account = of_int planned"

definition read_accountW :: "('v, 'z) ExecClient_scheme \<Rightarrow> string \<Rightarrow> ('v Process WorkerWorld, BitgetAccountState) prog" where
  "read_accountW c symbol = bindW (clockW c) (\<lambda>now. read_account_state now (apiW c (ec_get_account c symbol)))"

definition ensure_leverage :: "('v, 'z) ExecClient_scheme \<Rightarrow> string \<Rightarrow> int \<Rightarrow> ('v Process WorkerWorld, BitgetAccountState) prog" where
  "ensure_leverage c symbol planned =
     (if planned < 1 then raiseW (ValueError ''planned leverage must be a positive integer'')
      else
        bindW (apiW c (ec_set_leverage c symbol (show_int planned))) (\<lambda>_.
        bindW (read_accountW c symbol) (\<lambda>account.
          if leverage_matches account planned then returnW account
          else
            bindW (apiW c (ec_sleep c 2)) (\<lambda>_.
            bindW (read_accountW c symbol) (\<lambda>again.
              if leverage_matches again planned then returnW again
              else raiseW (ValueError ''Bitget account planned leverage was not confirmed''))))))"

definition entry_evidence_missing :: "LiveIntentRecord \<Rightarrow> bool" where
  "entry_evidence_missing r \<longleftrightarrow> it_role r = ENTRY \<and>
     (it_planned_leverage r = None \<or> it_margin_mode r \<noteq> Some ''ISOLATED'' \<or> it_planned_margin_usdt r = None
      \<or> it_balance_snapshot_id r = None \<or> it_margin_reservation_id r = None)"

text \<open>The order POST of an entry.\<close>

definition post_entry :: "('v, 'z) ExecClient_scheme \<Rightarrow> LiveIntentRecord \<Rightarrow> ('v Process WorkerWorld, payload) prog" where
  "post_entry c r = postW c (it_client_oid r)
     (on_venue (ec_place_entry_order c (it_symbol r) (it_side r) (it_requested_qty r) (it_client_oid r)
        (if it_order_type r = ''limit'' then it_limit_price r else None)))"

text \<open>\<open>final_entry_check\<close> is \<open>check\<close>, the last step before the POST; an ambiguous POST is read back without its answer.\<close>

definition async_submit_entry ::
  "('v, 'z) ExecClient_scheme \<Rightarrow> ('v Process WorkerWorld, unit) prog \<Rightarrow> LiveIntentRecord
    \<Rightarrow> ('v Process WorkerWorld, AsyncExecutionResult) prog" where
  "async_submit_entry c check r =
     bindW (processW pw_degraded) (\<lambda>degraded.
       if degraded then raiseW (OtherError ''RuntimeError'' ''Bitget execution is degraded; additional dispatches are blocked'')
       else if entry_evidence_missing r then raiseW (ValueError ''Bitget entry lacks durable isolated-margin admission evidence'')
       else
         bindW (case it_planned_leverage r of
                  Some leverage \<Rightarrow> if it_role r = ENTRY then bindW (ensure_leverage c (it_symbol r) leverage) (\<lambda>_. returnW ()) else returnW ()
                | None \<Rightarrow> returnW ()) (\<lambda>_.
         bindW check (\<lambda>_.
         bindW (tryW (bindW (post_entry c r) (\<lambda>d. returnW (Some d))) ambiguous_post (\<lambda>_. returnW None)) (\<lambda>submitted.
         bindW (reconcile_intent c r submitted) (\<lambda>result.
         bindW (reconcile_post_fill c False r (xr_status result)) (\<lambda>_. returnW result))))))"

definition async_cancel_pending_entry ::
  "('v, 'z) ExecClient_scheme \<Rightarrow> LiveIntentRecord \<Rightarrow> ('v Process WorkerWorld, bool) prog
    \<Rightarrow> ('v Process WorkerWorld, AsyncExecutionResult) prog" where
  "async_cancel_pending_entry c r claim_post =
     bindW (reconcile_intent c r None) (\<lambda>before.
       if xr_provider_terminal before \<or> xr_status before = Order_unknown then returnW before
       else
         bindW claim_post (\<lambda>claimed.
           if \<not> claimed then returnW before
           else
             bindW (tryW (bindW (apiW c (ec_cancel_entry_order c (it_symbol r) (it_client_oid r))) (\<lambda>_. returnW ()))
                (\<lambda>e. ambiguous_post e \<or> is_api_error e) (\<lambda>_. returnW ())) (\<lambda>_.
             reconcile_intent c r None)))"

section \<open>Capability evidence\<close>

definition next_capability ::
  "string \<Rightarrow> string \<Rightarrow> BitgetProtectionCapability option \<Rightarrow> NativeProtectionState \<Rightarrow> string option \<Rightarrow> bool option \<Rightarrow> timestamp
    \<Rightarrow> BitgetProtectionCapability" where
  "next_capability environment symbol current native_state last_error fallback_allowed now =
     (let base = (case current of None \<Rightarrow> default_capability ''bitget'' environment symbol | Some k \<Rightarrow> k) in
      base\<lparr>cp_exchange := ''bitget'', cp_environment := environment, cp_symbol := symbol, cp_native_state := native_state,
        cp_fallback_allowed := (case fallback_allowed of None \<Rightarrow> cp_fallback_allowed base | Some b \<Rightarrow> b),
        cp_last_verified_at := (if native_state = N_VERIFIED then Some now else cp_last_verified_at base),
        cp_last_error := last_error\<rparr>)"

definition persist_capability ::
  "('v, 'z) ExecClient_scheme \<Rightarrow> string \<Rightarrow> NativeProtectionState \<Rightarrow> string option \<Rightarrow> bool option \<Rightarrow> ('v Process WorkerWorld, unit) prog" where
  "persist_capability c symbol native_state last_error fallback_allowed =
     (if \<not> ec_capability_repository c then returnW ()
      else
        bindW (dbW c (\<lambda>now db. bindE (cap_get ''bitget'' (ec_environment c) symbol db) (\<lambda>k. Inr (db, k)))) (\<lambda>current.
        dbW c (\<lambda>now db.
          bindE (make_capability (next_capability (ec_environment c) symbol current native_state last_error fallback_allowed now))
            (\<lambda>k. unitT (cap_upsert k db)))))"

section \<open>Ownership of a position for the local monitor\<close>

text \<open>\<open>Decimal(str(value))\<close>; a text that reads as an infinity or a NaN counts as no number.\<close>

definition py_decimal :: "JSON \<Rightarrow> (Exn, dec) raises" where
  "py_decimal v = (case to_decimal v of None \<Rightarrow> Inl (OtherError ''InvalidOperation'' []) | Some q \<Rightarrow> Inr q)"

definition epoch_text :: "JSON \<Rightarrow> string option" where
  "epoch_text v = (case v of JStr s \<Rightarrow> if canonical_epoch s then Some s else None | _ \<Rightarrow> None)"

definition entry_identity_ok ::
  "('v, 'z) ExecClient_scheme \<Rightarrow> LiveIntentRecord \<Rightarrow> ProtectionPlan \<Rightarrow> LiveIntentRecord option \<Rightarrow> bool" where
  "entry_identity_ok c r plan known \<longleftrightarrow> ec_client_environment c \<in> {Some ''DEMO'', Some ''LIVE''}
     \<and> ec_client_environment c = Some (ec_environment c) \<and> known = Some r \<and> it_role r = ENTRY
     \<and> it_state r \<in> {I_filled, I_partially_filled} \<and> it_provider_order_id r \<notin> {None, Some []}
     \<and> it_symbol r = pp_symbol plan \<and> it_side r = (if pp_direction plan = LONG then ''BUY'' else ''SELL'')"

fun active_rows :: "JSON list \<Rightarrow> (Exn, payload list) raises" where
  "active_rows [] = Inr []"
| "active_rows (v # vs) =
     bindE (as_fill v) (\<lambda>d. bindE (py_decimal (get_first d [''total''] (JStr ''0''))) (\<lambda>q.
     bindE (active_rows vs) (\<lambda>ds. Inr (if 0 < q then d # ds else ds))))"

text \<open>The one open position of the symbol: its creation time, its epoch.\<close>

definition position_epoch :: "LiveIntentRecord \<Rightarrow> Direction \<Rightarrow> JSON \<Rightarrow> (Exn, string) raises" where
  "position_epoch r direction v =
     (case v of
        JList rows \<Rightarrow>
          bindE (active_rows rows) (\<lambda>active.
            case active of
              [p] \<Rightarrow>
                (case epoch_text (get_key p ''cTime'') of
                   None \<Rightarrow> Inl (ValueError ''fallback-position-identity-unproven'')
                 | Some epoch \<Rightarrow>
                     if get_key p ''symbol'' \<noteq> JStr (it_symbol r)
                        \<or> get_key p ''holdSide'' \<noteq> JStr (if direction = LONG then ''long'' else ''short'')
                     then Inl (ValueError ''fallback-position-identity-unproven'')
                     else bindE (py_decimal (get_key p ''total'')) (\<lambda>q.
                       if q \<noteq> it_filled_qty r then Inl (ValueError ''fallback-position-identity-unproven'') else Inr epoch))
            | _ \<Rightarrow> Inl (ValueError ''fallback-position-ambiguous''))
      | _ \<Rightarrow> Inl (ValueError ''fallback-position-unproven''))"

definition foreign_fill :: "LiveIntentRecord \<Rightarrow> payload \<Rightarrow> (Exn, bool) raises" where
  "foreign_fill r f =
     (if get_key f ''symbol'' \<noteq> JStr (it_symbol r) then Inr True
      else case get_key f ''clientOid'' of
        JObj _ \<Rightarrow> Inl (TypeError ''unhashable'')
      | JList _ \<Rightarrow> Inl (TypeError ''unhashable'')
      | oid \<Rightarrow>
          if oid \<notin> {JNull, JStr (it_client_oid r)} \<or> get_key f ''side'' \<noteq> JStr (str_lower (it_side r))
             \<or> get_key f ''tradeSide'' \<noteq> JStr ''open'' \<or> \<not> py_true (get_key f ''tradeId'') \<or> epoch_text (get_key f ''cTime'') = None
          then Inr True
          else bindE (py_decimal (get_first f [''baseVolume''] (JStr ''0''))) (\<lambda>q. Inr (q \<le> 0)))"

fun any_foreign :: "LiveIntentRecord \<Rightarrow> payload list \<Rightarrow> (Exn, bool) raises" where
  "any_foreign r [] = Inr False"
| "any_foreign r (f # fs) = bindE (foreign_fill r f) (\<lambda>b. if b then Inr True else any_foreign r fs)"

definition fill_rows_of :: "JSON \<Rightarrow> (Exn, payload list) raises" where
  "fill_rows_of v =
     (case (case v of JObj d \<Rightarrow> get_key d ''fillList'' | _ \<Rightarrow> v) of
        JList rows \<Rightarrow> mapE as_fill rows | _ \<Rightarrow> Inl (ValueError ''fallback-fill-evidence-unavailable''))"

definition fill_epochs :: "payload list \<Rightarrow> int list" where
  "fill_epochs fs = map digits_val (List.map_filter (\<lambda>f. epoch_text (get_key f ''cTime'')) fs)"

text \<open>The entry's own fills open the position at its epoch and add up to the executed quantity.\<close>

definition epoch_proven :: "LiveIntentRecord \<Rightarrow> string \<Rightarrow> payload list \<Rightarrow> (Exn, unit) raises" where
  "epoch_proven r epoch fills =
     (let owned = filter (\<lambda>f. Some (get_key f ''orderId'') = map_option JStr (it_provider_order_id r)) fills in
      bindE (any_foreign r owned) (\<lambda>foreign.
        if owned = [] \<or> foreign then Inl (ValueError ''fallback-fill-identity-unproven'')
        else bindE (mapE (\<lambda>f. py_decimal (get_key f ''baseVolume'')) owned) (\<lambda>volumes.
          if \<not> distinct (map (\<lambda>f. get_key f ''tradeId'') owned) \<or> Min (set (fill_epochs owned)) \<noteq> digits_val epoch
             \<or> dec_sum volumes 0 \<noteq> it_filled_qty r
          then Inl (ValueError ''fallback-entry-position-epoch-mismatch'') else Inr ())))"

definition fallback_identity ::
  "('v, 'z) ExecClient_scheme \<Rightarrow> LiveIntentRecord \<Rightarrow> ProtectionPlan \<Rightarrow> ('v Process WorkerWorld, string) prog" where
  "fallback_identity c r plan =
     bindW (getW c (it_client_oid r)) (\<lambda>known.
       if \<not> entry_identity_ok c r plan known then raiseW (ValueError ''fallback-entry-identity-unproven'')
       else
         bindW (apiW c (ec_get_single_position c (it_symbol r))) (\<lambda>v.
         bindW (liftE (position_epoch r (pp_direction plan) v)) (\<lambda>epoch.
         bindW (apiW c (ec_get_fills c (it_symbol r))) (\<lambda>fs.
         bindW (liftE (bindE (fill_rows_of fs) (epoch_proven r epoch))) (\<lambda>_. returnW epoch)))))"

definition direction_value :: "Direction \<Rightarrow> string" where
  "direction_value d = (case d of LONG \<Rightarrow> ''LONG'' | SHORT \<Rightarrow> ''SHORT'')"

definition fallback_registration ::
  "('v, 'z) ExecClient_scheme \<Rightarrow> nat \<Rightarrow> LiveIntentRecord \<Rightarrow> ProtectionPlan \<Rightarrow> dec \<Rightarrow> string \<Rightarrow> FallbackRow" where
  "fallback_registration c n r plan entry_price epoch =
     \<lparr>fb_id = ec_uuid c n, fb_exchange = exchange_value (it_exchange r), fb_symbol = it_symbol r,
      fb_direction = direction_value (pp_direction plan), fb_entry_price = entry_price, fb_stop_loss = pp_stop_loss plan,
      fb_take_profits = pp_take_profits plan, fb_quantity = it_filled_qty r, fb_position_key = Some (it_client_oid r),
      fb_provider_position_epoch = Some epoch, fb_environment = Some (ec_environment c), fb_state = FB_active,
      fb_close_price = None, fb_close_reason = None, fb_close_order_id = None\<rparr>"

definition register_owned ::
  "('v, 'z) ExecClient_scheme \<Rightarrow> LiveIntentRecord \<Rightarrow> ProtectionPlan \<Rightarrow> dec \<Rightarrow> ('v Process WorkerWorld, string) prog" where
  "register_owned c r plan entry_price =
     bindW (fallback_identity c r plan) (\<lambda>epoch.
     bindW (\<lambda>w. (Inr (ww_tick w), w)) (\<lambda>n.
       dbW c (\<lambda>now. register_fallback (fallback_registration c n r plan entry_price epoch))))"

section \<open>Local management and containment\<close>

definition reason_or :: "string option \<Rightarrow> string \<Rightarrow> string" where
  "reason_or reason fallback = (case reason of None \<Rightarrow> fallback | Some s \<Rightarrow> if s = [] then fallback else s)"

definition usable_price :: "dec option \<Rightarrow> dec option" where
  "usable_price v = (case v of None \<Rightarrow> None | Some p \<Rightarrow> if p \<le> 0 then None else Some p)"

definition unmanaged_verdict ::
  "('v, 'z) ExecClient_scheme \<Rightarrow> ProtectionPlan \<Rightarrow> ProtectionReport \<Rightarrow> string \<Rightarrow> ('v Process WorkerWorld, AsyncProtectionResult) prog" where
  "unmanaged_verdict c plan report reason =
     bindW (persist_capability c (pp_symbol plan) N_FAILED (Some reason) None) (\<lambda>_.
     bindW degradeW (\<lambda>_. returnW (protection_result P_degraded (pr_observed_quantity report) reason)))"

fun open_position_rows :: "JSON list \<Rightarrow> dec option \<Rightarrow> dec option" where
  "open_position_rows [] acc = acc"
| "open_position_rows (v # vs) acc =
     (case as_dict v of
        None \<Rightarrow> open_position_rows vs acc
      | Some d \<Rightarrow>
          let raw = get_first d [''total'', ''size'', ''quantity''] JNull in
          if blank raw then open_position_rows vs acc
          else case to_decimal raw of
                 None \<Rightarrow> open_position_rows vs acc
               | Some q \<Rightarrow> open_position_rows vs (Some (dec_add (case acc of None \<Rightarrow> 0 | Some t \<Rightarrow> t) (dec_abs q))))"

definition open_position_quantity :: "JSON \<Rightarrow> dec option" where
  "open_position_quantity v =
     (case (case v of JObj d \<Rightarrow> get_first d [''data'', ''positionList''] (JList []) | _ \<Rightarrow> v) of
        JList [] \<Rightarrow> Some 0
      | JList rows \<Rightarrow> open_position_rows rows None
      | _ \<Rightarrow> None)"

definition status_intent_state :: "LiveOrderStatus \<Rightarrow> IntentState" where
  "status_intent_state s =
     (case s of Order_accepted \<Rightarrow> I_acknowledged | Order_partial \<Rightarrow> I_partially_filled | Order_filled \<Rightarrow> I_filled
      | Order_rejected \<Rightarrow> I_rejected | Order_unknown \<Rightarrow> I_unknown)"

definition intent_result :: "LiveIntentRecord \<Rightarrow> AsyncExecutionResult \<Rightarrow> LiveIntentRecord" where
  "intent_result r res =
     r\<lparr>it_state := status_intent_state (xr_status res), it_filled_qty := xr_filled_qty res, it_avg_price := xr_avg_price res,
       it_fee := xr_fee res, it_provider_order_id := or_text (xr_provider_order_id res) (it_provider_order_id r),
       it_provider_fill_ids := xr_provider_fill_ids res, it_provider_fills := xr_provider_fills res\<rparr>"

text \<open>Best effort: what the read-back fails to settle stays as it is stored.\<close>

definition settle_close ::
  "('v, 'z) ExecClient_scheme \<Rightarrow> LiveIntentRecord \<Rightarrow> payload option \<Rightarrow> ('v Process WorkerWorld, unit) prog" where
  "settle_close c r submitted =
     bindW (attemptW (bindW (reconcile_intent c r submitted) (\<lambda>res. updateW c (intent_result r res)))) (\<lambda>_. returnW ())"

definition post_close :: "('v, 'z) ExecClient_scheme \<Rightarrow> LiveIntentRecord \<Rightarrow> ('v Process WorkerWorld, payload) prog" where
  "post_close c r = postW c (it_client_oid r)
     (on_venue (ec_place_market_close c (it_symbol r) (it_side r) (it_requested_qty r) (it_client_oid r)))"

definition close_acknowledged :: "LiveIntentRecord \<Rightarrow> payload option \<Rightarrow> LiveIntentRecord" where
  "close_acknowledged r submitted =
     (case submitted of
        None \<Rightarrow> r\<lparr>it_state := I_unknown\<rparr>
      | Some d \<Rightarrow> r\<lparr>it_provider_order_id := (let pid = get_key d ''orderId'' in if pid = JNull then None else Some (py_str pid)),
                   it_state := I_submitted\<rparr>)"

definition contain_close :: "('v, 'z) ExecClient_scheme \<Rightarrow> LiveIntentRecord \<Rightarrow> ('v Process WorkerWorld, unit) prog" where
  "contain_close c r =
     bindW (tryW (bindW (post_close c r) (\<lambda>d. returnW (Some d))) ambiguous_post (\<lambda>_. returnW None)) (\<lambda>submitted.
       let acknowledged = close_acknowledged r submitted in
       bindW (updateW c acknowledged) (\<lambda>_. settle_close c acknowledged submitted))"

definition contain ::
  "('v, 'z) ExecClient_scheme \<Rightarrow> LiveIntentRecord \<Rightarrow> ProtectionReport \<Rightarrow> ('v Process WorkerWorld, AsyncProtectionResult) prog" where
  "contain c entry report =
     (if pr_reason report = Some ''position-not-open'' then returnW (report_result report)
      else
        bindW (attemptW (bindW (apiW c (ec_get_single_position c (it_symbol entry))) (\<lambda>v. returnW (open_position_quantity v)))) (\<lambda>x.
          case x of
            Inl _ \<Rightarrow> returnW (protection_result (pr_state report) (pr_observed_quantity report) ''position-read-failed'')
          | Inr None \<Rightarrow> returnW (protection_result (pr_state report) (pr_observed_quantity report) ''position-read-invalid'')
          | Inr (Some open_qty) \<Rightarrow>
              if open_qty \<le> 0 then returnW (protection_result (pr_state report) 0 ''position-already-flat'')
              else if min (it_filled_qty entry) open_qty \<le> 0
              then returnW (protection_result (pr_state report) (pr_observed_quantity report) ''close-quantity-invalid'')
              else
                bindW (liftE (build_emergency_close_intent entry (min (it_filled_qty entry) open_qty))) (\<lambda>close.
                  let closed = (report_result report)\<lparr>xp_emergency_close_oid := Some (it_client_oid close)\<rparr> in
                  bindW (grantW c (it_client_oid close) (\<lambda>now. claim None now close)) (\<lambda>won.
                    if won then bindW (contain_close c close) (\<lambda>_. returnW closed) else returnW closed))))"

definition contain_or_local_management ::
  "('v, 'z) ExecClient_scheme \<Rightarrow> LiveIntentRecord \<Rightarrow> ProtectionPlan \<Rightarrow> ProtectionReport
    \<Rightarrow> ('v Process WorkerWorld, AsyncProtectionResult) prog" where
  "contain_or_local_management c r plan report =
     (if ec_emergency_containment_enabled c then contain c r report
      else
        let base = reason_or (pr_reason report) ''native-protection-unconfirmed'' in
        if \<not> ec_fallback_protection_enabled c then unmanaged_verdict c plan report (base @ '':fallback-monitor-mutations-disabled'')
        else case usable_price (it_avg_price r) of
          None \<Rightarrow> unmanaged_verdict c plan report (base @ '':fallback-entry-price-unavailable'')
        | Some price \<Rightarrow>
            bindW (attemptW (register_owned c r plan price)) (\<lambda>x.
              case x of
                Inl e \<Rightarrow> unmanaged_verdict c plan report (base @ '':fallback-registration-failed:'' @ exn_name e)
              | Inr _ \<Rightarrow> returnW (protection_result P_degraded (pr_observed_quantity report) (base @ ''-locally-managed''))))"

section \<open>Native protection\<close>

definition hold_side :: "ProtectionPlan \<Rightarrow> string" where
  "hold_side plan = (if pp_direction plan = LONG then ''buy'' else ''sell'')"

definition first_target :: "ProtectionPlan \<Rightarrow> dec option" where
  "first_target plan = (case pp_take_profits plan of [] \<Rightarrow> None | tp # _ \<Rightarrow> Some tp)"

definition stop_oid :: "LiveIntentRecord \<Rightarrow> string" where
  "stop_oid r = it_client_oid r @ ''-sl''"

definition target_oid :: "LiveIntentRecord \<Rightarrow> ProtectionPlan \<Rightarrow> string option" where
  "target_oid r plan = (if pp_take_profits plan = [] then None else Some (it_client_oid r @ ''-tp''))"

definition protection_record :: "LiveIntentRecord \<Rightarrow> ProtectionPlan \<Rightarrow> string \<Rightarrow> IntentRole \<Rightarrow> LiveIntentRecord" where
  "protection_record r plan oid role =
     (new_record (it_exchange r) oid (pp_symbol plan) (opposite_side (it_side r)))
       \<lparr>it_role := role, it_requested_qty := it_filled_qty r, it_planned_stop_loss := Some (pp_stop_loss plan),
        it_planned_take_profits := Some (pp_take_profits plan), it_protection_root_oid := Some (it_client_oid r)\<rparr>"

definition protection_records :: "LiveIntentRecord \<Rightarrow> ProtectionPlan \<Rightarrow> LiveIntentRecord list" where
  "protection_records r plan =
     protection_record r plan (stop_oid r) SL
       # (case target_oid r plan of None \<Rightarrow> [] | Some oid \<Rightarrow> [protection_record r plan oid TP])"

definition native_expectation ::
  "LiveIntentRecord \<Rightarrow> ProtectionPlan \<Rightarrow> string option \<Rightarrow> string option \<Rightarrow> NativeProtectionExpectation" where
  "native_expectation r plan sl_id tp_id =
     \<lparr>ne_symbol = pp_symbol plan, ne_hold_side = hold_side plan, ne_quantity = it_filled_qty r,
      ne_stop_loss = Some (pp_stop_loss plan), ne_take_profit = first_target plan,
      ne_stop_loss_client_oid = Some (stop_oid r), ne_take_profit_client_oid = target_oid r plan,
      ne_stop_loss_provider_order_id = sl_id, ne_take_profit_provider_order_id = tp_id,
      ne_stop_loss_size = None, ne_take_profit_size = None, ne_position_level = True\<rparr>"

definition confirmW ::
  "('v, 'z) ExecClient_scheme \<Rightarrow> string \<Rightarrow> NativeProtectionExpectation \<Rightarrow> ('v Process WorkerWorld, ProtectionReport) prog" where
  "confirmW c symbol e =
     confirm_native_protection (apiW c (ec_get_single_position c symbol)) (apiW c (ec_get_pending_plan_orders c symbol)) None (Some e)"

definition expect_and_confirm ::
  "('v, 'z) ExecClient_scheme \<Rightarrow> LiveIntentRecord \<Rightarrow> ProtectionPlan \<Rightarrow> string option \<Rightarrow> string option
    \<Rightarrow> ('v Process WorkerWorld, ProtectionReport) prog" where
  "expect_and_confirm c r plan sl_id tp_id =
     bindW (liftE (make_expectation (native_expectation r plan sl_id tp_id))) (confirmW c (pp_symbol plan))"

definition placement_plan_id :: "payload list \<Rightarrow> string \<Rightarrow> string \<Rightarrow> string option" where
  "placement_plan_id rows oid leg =
     map_option (\<lambda>row. str_strip (py_str (get_first row [''orderId'', ''planOrderId''] JNull)))
       (List.find (\<lambda>row. let returned = get_first row [leg @ ''ClientOid'', ''clientOid''] JNull;
                             pid = get_first row [''orderId'', ''planOrderId''] JNull in
          returned \<noteq> JNull \<and> py_str returned = oid \<and> pid \<noteq> JNull \<and> str_strip (py_str pid) \<noteq> []) rows)"

text \<open>At most \<open>left\<close> placements under the one claim, a second apart; a parameter rejection ends them.\<close>

fun place_retry ::
  "('v, 'z) ExecClient_scheme \<Rightarrow> LiveIntentRecord \<Rightarrow> ProtectionPlan \<Rightarrow> nat \<Rightarrow> Exn \<Rightarrow> ('v Process WorkerWorld, JSON) prog" where
  "place_retry c r plan 0 last_error = raiseW last_error"
| "place_retry c r plan (Suc left) last_error =
     bindW (attemptW (apiW c (ec_place_position_tpsl c (pp_symbol plan) (hold_side plan) (it_filled_qty r) (pp_stop_loss plan)
          (first_target plan) (stop_oid r) (target_oid r plan)))) (\<lambda>x.
       case x of
         Inr placement \<Rightarrow> returnW placement
       | Inl e \<Rightarrow>
           if is_api_error e \<and> (api_code e = ''43011'' \<or> contains_str (exn_message e) ''43011'') then raiseW e
           else if left = 0 then raiseW e
           else bindW (apiW c (ec_sleep c 1)) (\<lambda>_. place_retry c r plan left e))"

definition place_protection_with_retry ::
  "('v, 'z) ExecClient_scheme \<Rightarrow> LiveIntentRecord \<Rightarrow> ProtectionPlan \<Rightarrow> ('v Process WorkerWorld, JSON) prog" where
  "place_protection_with_retry c r plan = place_retry c r plan 3 (AssertionError [])"

fun acknowledge_all ::
  "('v, 'z) ExecClient_scheme \<Rightarrow> LiveIntentRecord list \<Rightarrow> string option \<Rightarrow> string option \<Rightarrow> ('v Process WorkerWorld, unit) prog" where
  "acknowledge_all c [] sl_id tp_id = returnW ()"
| "acknowledge_all c (p # ps) sl_id tp_id =
     bindW (updateW c (p\<lparr>it_provider_order_id := (if it_role p = SL then sl_id else tp_id), it_state := I_acknowledged\<rparr>)) (\<lambda>_.
       acknowledge_all c ps sl_id tp_id)"

text \<open>The body of the \<open>try\<close>: a final answer when the placement was claimed before, else the read-back of the placement.\<close>

definition place_and_confirm ::
  "('v, 'z) ExecClient_scheme \<Rightarrow> LiveIntentRecord \<Rightarrow> ProtectionPlan
    \<Rightarrow> ('v Process WorkerWorld, AsyncProtectionResult + ProtectionReport) prog" where
  "place_and_confirm c r plan =
     bindW (dbW c (\<lambda>now. claim_protection now (protection_records r plan))) (\<lambda>claimed.
       if \<not> claimed then bindW (expect_and_confirm c r plan None None) (\<lambda>report. returnW (Inl (report_result report)))
       else
         bindW (place_protection_with_retry c r plan) (\<lambda>placement.
           case dict_list placement of
             None \<Rightarrow> raiseW (BitgetApiError [] ''Bitget protection placement response is invalid'')
           | Some rows \<Rightarrow>
               let sl_id = placement_plan_id rows (stop_oid r) ''stopLoss'';
                   tp_id = Option.bind (target_oid r plan) (\<lambda>oid. placement_plan_id rows oid ''stopSurplus'') in
               if sl_id = None \<or> first_target plan \<noteq> None \<and> tp_id = None
               then raiseW (BitgetApiError [] ''Bitget protection placement IDs are incomplete'')
               else bindW (acknowledge_all c (protection_records r plan) sl_id tp_id) (\<lambda>_.
                      bindW (expect_and_confirm c r plan sl_id tp_id) (\<lambda>report. returnW (Inr report)))))"

section \<open>The grace\<close>

definition grace_budget :: "('v, 'z) ExecClient_scheme \<Rightarrow> rat" where
  "grace_budget c = max 0 (ec_protection_grace_seconds c)"

definition grace_interval :: "('v, 'z) ExecClient_scheme \<Rightarrow> rat" where
  "grace_interval c = max (1 / 10) (ec_protection_grace_interval_seconds c)"

definition monotonicW :: "('v, 'z) ExecClient_scheme \<Rightarrow> ('v Process WorkerWorld, rat) prog" where
  "monotonicW c = processW (\<lambda>s. ec_monotonic c (pw_venue s))"

definition grace_error :: "ProtectionReport \<Rightarrow> Exn \<Rightarrow> ProtectionReport" where
  "grace_error first e = failed_report (pr_observed_quantity first) (''grace-read-error:'' @ exn_name e)"

text \<open>The re-reads: \<open>fuel\<close> bounds them, and running out of it is an error of its own.\<close>

fun grace_loop ::
  "('v, 'z) ExecClient_scheme \<Rightarrow> NativeProtectionExpectation \<Rightarrow> ProtectionReport \<Rightarrow> rat \<Rightarrow> nat \<Rightarrow> ProtectionReport \<Rightarrow> nat
    \<Rightarrow> ('v Process WorkerWorld, ProtectionReport \<times> nat) prog" where
  "grace_loop c e first deadline 0 report attempts = raiseW (OtherError ''OutOfFuel'' [])"
| "grace_loop c e first deadline (Suc fuel) report attempts =
     bindW (monotonicW c) (\<lambda>t.
       if deadline \<le> t then returnW (report, attempts)
       else
         bindW (apiW c (ec_sleep c (grace_interval c + ec_jitter c attempts))) (\<lambda>_.
         bindW (attemptW (apiW c (ec_get_single_position c (ne_symbol e)))) (\<lambda>x.
           case x of
             Inl err \<Rightarrow> grace_loop c e first deadline fuel (grace_error first err) (attempts + 1)
           | Inr v \<Rightarrow>
               if open_position_quantity v = Some 0 then returnW (report, attempts + 1)
               else
                 bindW (attemptW (confirmW c (ne_symbol e) e)) (\<lambda>y.
                   case y of
                     Inl err \<Rightarrow> grace_loop c e first deadline fuel (grace_error first err) (attempts + 1)
                   | Inr found \<Rightarrow>
                       if pr_state found = P_venue_protected then returnW (found, attempts + 1)
                       else grace_loop c e first deadline fuel found (attempts + 1)))))"

definition grace_fuel :: "('v, 'z) ExecClient_scheme \<Rightarrow> nat" where
  "grace_fuel c = Suc (nat \<lceil>grace_budget c / grace_interval c\<rceil>)"

text \<open>The provider order id of the last record of a role.\<close>

definition role_order_id :: "IntentRole \<Rightarrow> LiveIntentRecord list \<Rightarrow> string option" where
  "role_order_id role rs = Option.bind (List.find (\<lambda>p. it_role p = role) (rev rs)) it_provider_order_id"

definition await_native_protection ::
  "('v, 'z) ExecClient_scheme \<Rightarrow> LiveIntentRecord \<Rightarrow> ProtectionPlan \<Rightarrow> ProtectionReport
    \<Rightarrow> ('v Process WorkerWorld, ProtectionReport \<times> nat) prog" where
  "await_native_protection c r plan first =
     (if grace_budget c \<le> 0 \<or> it_filled_qty r \<le> 0 then returnW (first, 0)
      else
        bindW (queryW c (\<lambda>db. map stored_record (protection_intents db (it_client_oid r)))) (\<lambda>records.
        bindW (liftE (make_expectation (native_expectation r plan (role_order_id SL records) (role_order_id TP records)))) (\<lambda>e.
        bindW (monotonicW c) (\<lambda>t. grace_loop c e first (t + grace_budget c) (grace_fuel c) first 0))))"

section \<open>Protecting a filled position\<close>

definition unsupported_symbol :: "Exn \<Rightarrow> bool" where
  "unsupported_symbol e \<longleftrightarrow> is_api_error e \<and> contains_str (exn_message e) ''43011''
     \<and> (contains_str (str_lower (exn_message e)) ''symbol does not support''
        \<or> contains_str (str_lower (exn_message e)) ''symbol is not supported'')"

definition degraded_as :: "dec \<Rightarrow> string \<Rightarrow> ('v Process WorkerWorld, AsyncProtectionResult) prog" where
  "degraded_as quantity reason = bindW degradeW (\<lambda>_. returnW (protection_result P_degraded quantity reason))"

text \<open>The venue has no native protection for the symbol.\<close>

definition unsupported_protection ::
  "('v, 'z) ExecClient_scheme \<Rightarrow> LiveIntentRecord \<Rightarrow> ProtectionPlan \<Rightarrow> ('v Process WorkerWorld, AsyncProtectionResult) prog" where
  "unsupported_protection c r plan =
     bindW (persist_capability c (pp_symbol plan) N_UNSUPPORTED (Some ''native-protection-unsupported'') (Some True)) (\<lambda>_.
     bindW (attemptW
       (if \<not> ec_fallback_protection_enabled c then
          bindW (persist_capability c (pp_symbol plan) N_UNSUPPORTED (Some ''fallback-monitor-mutations-disabled'') (Some False)) (\<lambda>_.
          degraded_as (it_filled_qty r) ''fallback-monitor-mutations-disabled'')
        else case usable_price (it_avg_price r) of
          None \<Rightarrow> degraded_as (it_filled_qty r) ''fallback-entry-price-unavailable''
        | Some price \<Rightarrow>
            bindW (register_owned c r plan price) (\<lambda>_.
            degraded_as (it_filled_qty r) ''native-protection-unsupported-fallback-registered-not-enforcing''))) (\<lambda>x.
       case x of
         Inr res \<Rightarrow> returnW res
       | Inl _ \<Rightarrow> degraded_as (it_filled_qty r) ''fallback-registration-failed''))"

definition opt_text :: "string option \<Rightarrow> string" where
  "opt_text v = (case v of None \<Rightarrow> ''None'' | Some s \<Rightarrow> s)"

definition settle_report ::
  "('v, 'z) ExecClient_scheme \<Rightarrow> LiveIntentRecord \<Rightarrow> ProtectionPlan \<Rightarrow> ProtectionReport
    \<Rightarrow> ('v Process WorkerWorld, AsyncProtectionResult) prog" where
  "settle_report c r plan report =
     (if pr_state report = P_venue_protected
      then bindW (persist_capability c (pp_symbol plan) N_VERIFIED None None) (\<lambda>_. returnW (report_result report))
      else
        bindW (await_native_protection c r plan report) (\<lambda>(late, attempts).
          if pr_state late = P_venue_protected then
            bindW (persist_capability c (pp_symbol plan) N_VERIFIED None None) (\<lambda>_.
            returnW (protection_result (pr_state late) (pr_observed_quantity late)
              (opt_text (pr_reason late) @ ''-after-grace:'' @ show_int (int attempts))))
          else
            bindW (persist_capability c (pp_symbol plan) N_FAILED
              (Some (reason_or (pr_reason late) ''native-protection-unconfirmed'' @ ''|grace:'' @ show_int (int attempts))) None) (\<lambda>_.
            bindW degradeW (\<lambda>_. contain_or_local_management c r plan late))))"

definition protect_filled_position ::
  "('v, 'z) ExecClient_scheme \<Rightarrow> LiveIntentRecord \<Rightarrow> ProtectionPlan \<Rightarrow> ('v Process WorkerWorld, AsyncProtectionResult) prog" where
  "protect_filled_position c r plan =
     (if it_filled_qty r \<le> 0 then bindW degradeW (\<lambda>_. returnW (protection_result P_failed 0 ''no-filled-quantity''))
      else if pp_quantity plan \<noteq> it_filled_qty r then
        bindW degradeW (\<lambda>_. contain_or_local_management c r plan (failed_report (it_filled_qty r) ''protection-quantity-mismatch''))
      else
        bindW (attemptW (place_and_confirm c r plan)) (\<lambda>x.
          case x of
            Inr (Inl res) \<Rightarrow> returnW res
          | Inr (Inr report) \<Rightarrow> settle_report c r plan report
          | Inl e \<Rightarrow>
              if unsupported_symbol e then unsupported_protection c r plan
              else if is_api_error e \<and> api_code e = ''43011'' then
                bindW (persist_capability c (pp_symbol plan) N_FAILED (Some ''native-protection-parameter-rejected'') (Some False)) (\<lambda>_.
                degraded_as (it_filled_qty r) ''native-protection-parameter-rejected'')
              else settle_report c r plan (failed_report 0 ''protection-submit-failed'')))"

section \<open>What the effects keep\<close>

lemma intents_kept_insert_all: "insert_all now rs db = Inr (db', won) \<Longrightarrow> intents_kept db db'"
proof (induction rs arbitrary: db won)
  case Nil
  then show ?case by (simp add: intents_kept_def)
next
  case (Cons r rs)
  then obtain db1 w ws where "insert_intent now r db = Inr (db1, w)" "insert_all now rs db1 = Inr (db', ws)"
    by (auto simp: bindE_Inr_iff split: prod.splits)
  then show ?case using Cons.IH intents_kept_insert intents_kept_trans by blast
qed

lemma intents_kept_claim_protection: "claim_protection now rs db = Inr (db', won) \<Longrightarrow> intents_kept db db'"
  by (auto simp: claim_protection_def bindE_Inr_iff intents_kept_def split: prod.splits if_splits
      dest: intents_kept_insert_all [unfolded intents_kept_def])

lemma kept_tables:
  "register_fallback f db = Inr (db', k) \<Longrightarrow> intents_kept db db'"
  "record_observation ob db = Inr db' \<Longrightarrow> intents_kept db db'"
  "latch_kill_switch now scope reason db = Inr db' \<Longrightarrow> intents_kept db db'"
  "cap_upsert cap db = Inr db' \<Longrightarrow> intents_kept db db'"
  by (auto simp: register_fallback_def record_observation_def latch_kill_switch_def cap_upsert_def enqueue_def Let_def
      split: if_splits option.splits intro!: intents_kept_same)

lemma claim_grants:
  assumes "it_exchange r = BITGET" "it_state r \<noteq> I_staged"
  shows "grants (it_client_oid r) (\<lambda>now. claim a now r)"
  unfolding grants_def
proof (intro allI impI conjI)
  fix now db db' won
  assume "unique_intents db" and run: "claim a now r db = Inr (db', won)"
  from run have ins: "insert_intent now r db = Inr (db', won)" by (rule claim_Inr)
  show "intents_kept db db'" using ins by (rule intents_kept_insert)
  assume won
  then have ins': "insert_intent now r db = Inr (db', True)" using ins by simp
  show "\<not> live_order db (it_client_oid r)" using insert_intent_won(1) [OF ins'] assms(1) by (simp add: live_order_def)
  show "live_order db' (it_client_oid r)" using insert_intent_live [OF ins' assms] .
qed

section \<open>Programs that neither claim nor post\<close>

lemma quietly_api [quiet_rules]: "others_spare (wk_id c) c \<Longrightarrow> quietly c (apiW c p)"
  unfolding apiW_def by (rule quietly_client)

lemma quietly_process [quiet_rules]:
  "quietly c (processW f)" "quietly c (set_processW g)" "quietly c degradeW" "quietly c (clockW c')" "quietly c (monotonicW c'')"
  "quietly c (\<lambda>w. (Inr (ww_tick w), w))"
  by (auto intro!: quietlyI calm_start calm_venue simp: processW_def set_processW_def degradeW_def clockW_def monotonicW_def)

lemma quietly_dbread [quiet_rules]:
  "others_spare (wk_id c) c \<Longrightarrow> quietly c (dbW c (\<lambda>now db. bindE (f now db) (\<lambda>x. Inr (db, g now db x))))"
  by (rule quietly_db) (auto simp: bindE_Inr_iff intents_kept_def)

lemma quietly_store [quiet_rules]:
  assumes "others_spare (wk_id c) c"
  shows "quietly c (getW c oid)" "it_state r \<noteq> I_staged \<Longrightarrow> quietly c (updateW c r)"
  unfolding getW_def updateW_def using assms
  by (auto intro!: quietly_query quietly_db intents_kept_readback simp: run_simps)

lemma quietly_missing [quiet_rules]:
  "quietly c a \<Longrightarrow> quietly c b \<Longrightarrow> quietly c d \<Longrightarrow> quietly c (classify_missing_detail r a b d pid confirmed)"
  unfolding classify_missing_detail_def missing_evidence_def by (intro quiet_rules) simp_all

lemma quietly_position [quiet_rules]: "quietly c a \<Longrightarrow> quietly c (read_position_state a)"
  unfolding read_position_state_def by (intro quiet_rules)

lemma quietly_confirm [quiet_rules]:
  assumes "others_spare (wk_id c) c"
  shows "quietly c (confirmW c symbol e)"
  unfolding confirmW_def confirm_native_protection_def confirm_exact_native_protection_def with_plans_def using assms
  by (auto intro!: quiet_rules split: sum.split option.split prod.split)

lemma quietly_expect [quiet_rules]: "others_spare (wk_id c) c \<Longrightarrow> quietly c (expect_and_confirm c r plan sl tp)"
  unfolding expect_and_confirm_def by (intro quiet_rules)

lemma quietly_reconcile_intent [quiet_rules]:
  assumes "others_spare (wk_id c) c"
  shows "quietly c (reconcile_intent c r submitted)"
  unfolding reconcile_intent_def using assms by (auto intro!: quiet_rules split: option.split)

lemma quietly_post_fill [quiet_rules]:
  assumes "others_spare (wk_id c) c"
  shows "quietly c (reconcile_post_fill c with_store r status)"
proof -
  have ob: "quietly c (observe_post_fill c with_store r l m)" for l m
    unfolding observe_post_fill_def expected_position_def using assms
    by (auto intro!: quiet_rules quietly_dbread [where g = "\<lambda>_ _ q. q"] split: option.split)
  have writes: "quietly c (dbW c (\<lambda>now db. unitT (record_observation (o' now) db)))"
    "quietly c (dbW c (\<lambda>now db. unitT (latch_kill_switch now scope reason db)))" for o' scope reason
    using assms by (auto intro!: quietly_db dest: kept_tables simp: run_simps)
  show ?thesis unfolding reconcile_post_fill_def
    by (auto intro!: quiet_rules ob writes split: option.split prod.split)
qed

lemma quietly_account [quiet_rules]:
  assumes "others_spare (wk_id c) c"
  shows "quietly c (ensure_leverage c symbol l)"
  unfolding ensure_leverage_def read_accountW_def read_account_state_def using assms by (auto intro!: quiet_rules)

lemma quietly_capability [quiet_rules]:
  assumes "others_spare (wk_id c) c"
  shows "quietly c (persist_capability c symbol st err may)"
  unfolding persist_capability_def using assms
  by (auto intro!: quiet_rules quietly_dbread [where g = "\<lambda>_ _ k. k"] simp: run_simps dest: kept_tables)

lemma quietly_register [quiet_rules]:
  assumes "others_spare (wk_id c) c"
  shows "quietly c (register_owned c r plan price)"
  unfolding register_owned_def fallback_identity_def using assms by (auto intro!: quiet_rules dest: kept_tables)

lemma quietly_retry: "others_spare (wk_id c) c \<Longrightarrow> quietly c (place_retry c r plan n e)"
  by (induction n arbitrary: e) (auto intro!: quiet_rules split: sum.split)

lemma quietly_acknowledge:
  assumes "others_spare (wk_id c) c"
  shows "quietly c (acknowledge_all c ps sl tp)"
  by (induction ps) (auto intro!: quiet_rules quietly_store [OF assms])

lemma quietly_place [quiet_rules]:
  assumes "others_spare (wk_id c) c"
  shows "quietly c (place_and_confirm c r plan)"
  unfolding place_and_confirm_def place_protection_with_retry_def Let_def using assms
  by (auto intro!: quiet_rules quietly_retry quietly_acknowledge dest: intents_kept_claim_protection split: option.split)

lemma quietly_grace [quiet_rules]:
  assumes "others_spare (wk_id c) c"
  shows "quietly c (await_native_protection c r plan first)"
proof -
  have "quietly c (grace_loop c e first deadline n report attempts)" for e deadline n report attempts
    using assms by (induction n arbitrary: report attempts) (auto intro!: quiet_rules split: sum.split)
  then show ?thesis unfolding await_native_protection_def using assms by (auto intro!: quiet_rules)
qed

lemma quietly_verdicts [quiet_rules]:
  assumes "others_spare (wk_id c) c"
  shows "quietly c (unmanaged_verdict c plan report reason)" "quietly c (degraded_as q reason)" "quietly c (unsupported_protection c r plan)"
  unfolding unmanaged_verdict_def degraded_as_def unsupported_protection_def using assms
  by (auto intro!: quiet_rules split: option.split sum.split)

text \<open>Without the containment opt-in nothing is posted or claimed as an order.\<close>

lemma quietly_local:
  assumes "others_spare (wk_id c) c" "\<not> ec_emergency_containment_enabled c"
  shows "quietly c (contain_or_local_management c r plan report)"
  unfolding contain_or_local_management_def Let_def using assms by (auto intro!: quiet_rules split: option.split sum.split)

lemma quietly_protect:
  assumes "others_spare (wk_id c) c" "\<not> ec_emergency_containment_enabled c"
  shows "quietly c (protect_filled_position c r plan)"
  unfolding protect_filled_position_def settle_report_def using assms
  by (auto intro!: quiet_rules quietly_local split: sum.split prod.split)

section \<open>Programs that post\<close>

text \<open>An order POST whose ambiguous answers are caught.\<close>

lemma safely_caught_post:
  assumes "others_spare (wk_id c) c" "\<And>x. quietly c (k x)"
  shows "safely c {oid} (bindW (tryW (bindW (postW c oid p) (\<lambda>d. returnW (Some d))) caught (\<lambda>_. returnW None)) k) {}"
  by (rule safely_bind [OF safely_try [OF safely_bind [OF safely_post [OF assms(1)] safely_return(1)] safely_return(1)]
      quietly_safely [OF assms(2)]])

lemma safely_contain_close:
  assumes "others_spare (wk_id c) c" "it_state r \<noteq> I_staged"
  shows "safely c {it_client_oid r} (contain_close c r) {}"
proof -
  have "it_state (close_acknowledged r submitted) \<noteq> I_staged" for submitted
    by (simp add: close_acknowledged_def split: option.split)
  moreover have "it_state (intent_result r' res) \<noteq> I_staged" for r' res
    by (simp add: intent_result_def status_intent_state_def split: LiveOrderStatus.split)
  ultimately show ?thesis unfolding contain_close_def post_close_def settle_close_def Let_def
    by (intro safely_caught_post quiet_rules quietly_store assms(1)) simp_all
qed

lemma emergency_close_fields:
  assumes "build_emergency_close_intent entry q = Inr close"
  shows "it_exchange close = it_exchange entry" "it_state close \<noteq> I_staged" "it_client_oid close = it_client_oid entry @ ''-emergency''"
  using assms by (auto simp: build_emergency_close_intent_def new_record_def split: if_splits)

lemma safely_lift: "(\<And>x. v = Inr x \<Longrightarrow> safely c {} (f x) T) \<Longrightarrow> safely c {} (bindW (liftE v) f) T"
  by (cases v) (auto simp: safely_def triple_def bindW_def liftE_def)

lemma safely_contain:
  assumes "others_spare (wk_id c) c" "it_exchange entry = BITGET"
  shows "safely c {} (contain c entry report) {}"
proof -
  have close: "safely c {} (bindW (grantW c (it_client_oid close) (\<lambda>now. claim None now close))
      (\<lambda>won. if won then bindW (contain_close c close) (\<lambda>_. returnW res) else returnW res)) {}"
    if "build_emergency_close_intent entry q = Inr close" for close q res
  proof -
    have fields: "it_exchange close = BITGET" "it_state close \<noteq> I_staged" using emergency_close_fields [OF that] assms(2) by simp_all
    show ?thesis
      by (rule safely_grant_then [OF assms(1) claim_grants [OF fields]])
        (simp_all add: safely_return safely_bind [OF safely_contain_close [OF assms(1) fields(2)]])
  qed
  show ?thesis unfolding contain_def Let_def
    by (auto intro!: safely_return safely_quiet_bind [OF quietly_attempt] quiet_rules assms(1) safely_lift close split: sum.split option.split)
qed

lemma safely_protect:
  assumes "others_spare (wk_id c) c" "it_exchange r = BITGET"
  shows "safely c {} (protect_filled_position c r plan) {}"
proof -
  have local: "safely c {} (contain_or_local_management c r plan report) {}" for report
    using quietly_local [OF assms(1), THEN quietly_safely] safely_contain [OF assms]
    by (cases "ec_emergency_containment_enabled c") (simp_all add: contain_or_local_management_def)
  have settle: "safely c {} (settle_report c r plan report) {}" for report
    unfolding settle_report_def
    by (auto intro!: safely_quiet_bind [OF quietly_grace] safely_quiet_bind [OF quietly_capability] safely_quiet_bind [OF quietly_process(3)]
        safely_return local assms(1) split: prod.split)
  show ?thesis unfolding protect_filled_position_def
    by (auto intro!: safely_quiet_bind [OF quietly_attempt [OF quietly_place]] safely_quiet_bind [OF quietly_process(3)] safely_return settle local
        quietly_safely [OF quietly_verdicts(3)] safely_quiet_bind [OF quietly_capability] quietly_safely [OF quietly_verdicts(2)]
        assms(1) split: sum.split)
qed

lemma safely_submit_entry:
  assumes "others_spare (wk_id c) c" "quietly c check"
  shows "safely c {it_client_oid r} (async_submit_entry c check r) {}"
proof -
  have leverage: "quietly c (case it_planned_leverage r of
      Some l \<Rightarrow> if it_role r = ENTRY then bindW (ensure_leverage c (it_symbol r) l) (\<lambda>_. returnW ()) else returnW ()
    | None \<Rightarrow> returnW ())"
    using assms(1) by (auto intro!: quiet_rules split: option.split)
  have tail: "quietly c (bindW (reconcile_intent c r submitted) (\<lambda>result.
      bindW (reconcile_post_fill c False r (xr_status result)) (\<lambda>_. returnW result)))" for submitted
    using assms(1) by (intro quiet_rules)
  show ?thesis unfolding async_submit_entry_def post_entry_def
    by (intro safely_quiet_bind [OF quietly_process(1)])
      (auto intro!: safely_return safely_quiet_bind [OF leverage] safely_quiet_bind [OF assms(2)] safely_caught_post [OF assms(1) tail])
qed

lemma quietly_cancel [quiet_rules]:
  assumes "others_spare (wk_id c) c" "quietly c claim_post"
  shows "quietly c (async_cancel_pending_entry c r claim_post)"
  unfolding async_cancel_pending_entry_def by (auto intro!: quiet_rules assms)

section \<open>The grace ends\<close>

text \<open>The clock of the process never goes back, a read or another worker does not turn it back, and a
  sleep returns after at least its duration.\<close>

definition clock :: "('v, 'z) ExecClient_scheme \<Rightarrow> 'v Process WorkerWorld \<Rightarrow> rat" where
  "clock c w = ec_monotonic c (pw_venue (ww_venue w))"

definition keeps_time :: "('v, 'z) ExecClient_scheme \<Rightarrow> ('v, 'a) prog \<Rightarrow> bool" where
  "keeps_time c p \<longleftrightarrow> (\<forall>v. ec_monotonic c v \<le> ec_monotonic c (snd (p v)))"

definition steady_clock :: "('v, 'z) ExecClient_scheme \<Rightarrow> bool" where
  "steady_clock c \<longleftrightarrow> (\<forall>n w. clock c w \<le> clock c (wk_others c n w))
     \<and> (\<forall>symbol. keeps_time c (ec_get_single_position c symbol) \<and> keeps_time c (ec_get_pending_plan_orders c symbol))
     \<and> (\<forall>d v. fst (ec_sleep c d v) = Inr () \<and> ec_monotonic c v + d \<le> ec_monotonic c (snd (ec_sleep c d v)))
     \<and> (\<forall>n. 0 \<le> ec_jitter c n)"

lemma steady_reads:
  assumes "steady_clock c"
  shows "keeps_time c (ec_get_single_position c symbol)" "keeps_time c (ec_get_pending_plan_orders c symbol)"
  using assms by (simp_all add: steady_clock_def)

lemma clock_others: "steady_clock c \<Longrightarrow> clock c w \<le> clock c (othersW c w)"
  by (simp add: steady_clock_def othersW_def clock_def)

lemma apiW_result: "apiW c p w = (let w1 = othersW c w; (r, v) = p (pw_venue (ww_venue w1)) in (r, w1\<lparr>ww_venue := (ww_venue w1)\<lparr>pw_venue := v\<rparr>\<rparr>))"
  by (simp add: apiW_def clientW_def on_venue_def Let_def split: prod.split)

lemma clock_api:
  assumes "steady_clock c" "keeps_time c p"
  shows "keepsW (\<lambda>w w'. clock c w \<le> clock c w') (apiW c p)"
  unfolding keepsW_def
proof
  fix w
  have "clock c (othersW c w) \<le> clock c (snd (apiW c p w))"
    using assms(2) unfolding keeps_time_def by (simp add: apiW_result clock_def Let_def split: prod.split) (metis snd_conv)
  then show "clock c w \<le> clock c (snd (apiW c p w))" using clock_others [OF assms(1), of w] by linarith
qed

lemma clock_sleep:
  assumes "steady_clock c"
  obtains w1 where "apiW c (ec_sleep c d) w = (Inr (), w1)" "clock c w + d \<le> clock c w1"
proof -
  obtain r v where sleep: "ec_sleep c d (pw_venue (ww_venue (othersW c w))) = (r, v)" by fastforce
  then have "r = Inr ()" "clock c (othersW c w) + d \<le> ec_monotonic c v"
    using assms unfolding steady_clock_def clock_def by (metis fst_conv, metis snd_conv)
  then show ?thesis using that clock_others [OF assms, of w] sleep by (fastforce simp: apiW_result clock_def Let_def)
qed

lemma clock_confirm:
  assumes "steady_clock c"
  shows "keepsW (\<lambda>w w'. clock c w \<le> clock c w') (confirmW c symbol e)"
proof -
  have reads: "keepsW (\<lambda>w w'. clock c w \<le> clock c w') (apiW c (ec_get_single_position c symbol))"
    "keepsW (\<lambda>w w'. clock c w \<le> clock c w') (apiW c (ec_get_pending_plan_orders c symbol))"
    by (rule clock_api [OF assms steady_reads(1) [OF assms]], rule clock_api [OF assms steady_reads(2) [OF assms]])
  have rel: "reflp (\<lambda>w w'. clock c w \<le> clock c w')" "transp (\<lambda>w w'. clock c w \<le> clock c w')"
    by (auto intro: reflpI transpI)
  show ?thesis unfolding confirmW_def confirm_native_protection_def confirm_exact_native_protection_def with_plans_def
    by (auto intro!: keepsW_bind [OF rel(2)] keepsW_attempt reads keepsW_return [OF rel(1)] split: sum.split option.split prod.split)
qed

text \<open>Fuel for every interval that still fits before the deadline is enough.\<close>

lemma grace_loop_returns:
  assumes "steady_clock c" "deadline \<le> clock c w + of_nat n * grace_interval c"
  shows "\<exists>late m w'. grace_loop c e first deadline (Suc n) report attempts w = (Inr (late, m), w') \<and> m \<le> attempts + n"
  using assms(2)
proof (induction n arbitrary: w report attempts)
  case 0
  then show ?case by (auto simp: monotonicW_def processW_def bindW_def returnW_def clock_def)
next
  case (Suc n)
  show ?case
  proof (cases "deadline \<le> clock c w")
    case True
    then show ?thesis by (auto simp: monotonicW_def processW_def bindW_def returnW_def clock_def)
  next
    case False
    have "0 \<le> ec_jitter c attempts" using assms(1) by (simp add: steady_clock_def)
    moreover obtain w1 where sleep: "apiW c (ec_sleep c (grace_interval c + ec_jitter c attempts)) w = (Inr (), w1)"
      "clock c w + (grace_interval c + ec_jitter c attempts) \<le> clock c w1" by (rule clock_sleep [OF assms(1)])
    ultimately have w1: "deadline \<le> clock c w1 + of_nat n * grace_interval c" using Suc.prems by (simp add: algebra_simps)
    have again: "\<exists>late m w'. grace_loop c e first deadline (Suc n) rep (attempts + 1) v = (Inr (late, m), w') \<and> m \<le> attempts + Suc n"
      if "clock c w1 \<le> clock c v" for v rep
      using Suc.IH [of v rep "attempts + 1"] w1 that by fastforce
    obtain x w2 where read: "apiW c (ec_get_single_position c (ne_symbol e)) w1 = (x, w2)" by fastforce
    have w2: "clock c w1 \<le> clock c w2"
      using keepsW_D [OF clock_api [OF assms(1) steady_reads(1) [OF assms(1)]] read] .
    obtain y w3 where confirm: "confirmW c (ne_symbol e) e w2 = (y, w3)" by fastforce
    have w3: "clock c w1 \<le> clock c w3" using keepsW_D [OF clock_confirm [OF assms(1)] confirm] w2 by linarith
    have start: "monotonicW c w = (Inr (clock c w), w)" by (simp add: monotonicW_def processW_def clock_def)
    show ?thesis
      using False sleep(1) read confirm again [OF w2] again [OF w3]
      by (subst grace_loop.simps(2)) (auto simp: start bindW_def attemptW_def returnW_def split: sum.splits)
  qed
qed

lemma grace_fuel_enough: "grace_budget c \<le> of_nat (nat \<lceil>grace_budget c / grace_interval c\<rceil>) * grace_interval c"
proof -
  have pos: "0 < grace_interval c" "0 \<le> grace_budget c" by (simp_all add: grace_interval_def grace_budget_def)
  have "grace_budget c / grace_interval c \<le> of_int \<lceil>grace_budget c / grace_interval c\<rceil>" by simp
  also have "\<dots> = of_nat (nat \<lceil>grace_budget c / grace_interval c\<rceil>)" using pos by simp
  finally show ?thesis using pos(1) by (simp add: divide_le_eq)
qed

section \<open>Results of protection\<close>

text \<open>What a program returns, when it returns.\<close>

definition yields :: "('w, 'a) prog \<Rightarrow> ('a \<Rightarrow> bool) \<Rightarrow> bool" where
  "yields p Q \<longleftrightarrow> (\<forall>w x w'. p w = (Inr x, w') \<longrightarrow> Q x)"

named_theorems yield_rules \<open>what programs return\<close>

lemma yields_return [yield_rules]: "Q x \<Longrightarrow> yields (returnW x) Q" "yields (raiseW e) Q"
  by (simp_all add: yields_def returnW_def raiseW_def)

lemma yields_bind: "yields m R \<Longrightarrow> (\<And>x. R x \<Longrightarrow> yields (f x) Q) \<Longrightarrow> yields (bindW m f) Q"
  unfolding yields_def by (blast elim: bindW_InrE)

lemma yields_then [yield_rules]: "(\<And>x. yields (f x) Q) \<Longrightarrow> yields (bindW m f) Q"
  by (rule yields_bind [where R = "\<lambda>_. True"]) (simp_all add: yields_def)

lemma yields_attempt: "yields p Q \<Longrightarrow> yields (attemptW p) (\<lambda>x. case x of Inl _ \<Rightarrow> True | Inr y \<Rightarrow> Q y)"
  by (auto simp: yields_def attemptW_def split: prod.splits sum.splits)

lemma yields_attempt_bind:
  assumes "yields p R" "\<And>e. yields (f (Inl e)) Q" "\<And>y. R y \<Longrightarrow> yields (f (Inr y)) Q"
  shows "yields (bindW (attemptW p) f) Q"
  by (rule yields_bind [OF yields_attempt [OF assms(1)]]) (use assms(2,3) in \<open>auto split: sum.splits\<close>)

lemma yields_if [yield_rules]: "(b \<Longrightarrow> yields p Q) \<Longrightarrow> (\<not> b \<Longrightarrow> yields q Q) \<Longrightarrow> yields (if b then p else q) Q"
  by simp

lemma yieldsD: "yields p Q \<Longrightarrow> p w = (Inr x, w') \<Longrightarrow> Q x"
  unfolding yields_def by blast

lemma yields_mono: "yields p R \<Longrightarrow> (\<And>x. R x \<Longrightarrow> Q x) \<Longrightarrow> yields p Q"
  by (simp add: yields_def)

text \<open>The venue showed the exact protection of the filled quantity: a position read and a plan read that agree with the
  expectation under some plan identifiers.\<close>

definition venue_protects :: "('v, 'z) ExecClient_scheme \<Rightarrow> LiveIntentRecord \<Rightarrow> ProtectionPlan \<Rightarrow> bool" where
  "venue_protects c r plan \<longleftrightarrow> (\<exists>e w0 w1 w2 v v2 position plans sl tp. e = native_expectation r plan sl tp
     \<and> apiW c (ec_get_single_position c (pp_symbol plan)) w0 = (Inr v, w1)
     \<and> apiW c (ec_get_pending_plan_orders c (pp_symbol plan)) w1 = (Inr v2, w2)
     \<and> (\<exists>rows. sized_rows v = Some rows \<and> open_sized rows = [position]) \<and> row_size position = Some (it_filled_qty r)
     \<and> dict_list v2 = Some plans \<and> (\<exists>p \<in> set plans. plan_covers e ''stopLoss'' (pp_stop_loss plan) p)
     \<and> (\<forall>t. first_target plan = Some t \<longrightarrow> (\<exists>p \<in> set plans. plan_covers e ''stopSurplus'' t p)))"

definition sound_report :: "('v, 'z) ExecClient_scheme \<Rightarrow> LiveIntentRecord \<Rightarrow> ProtectionPlan \<Rightarrow> ProtectionReport \<Rightarrow> bool" where
  "sound_report c r plan report \<longleftrightarrow>
     (pr_state report = P_venue_protected \<longrightarrow> pr_observed_quantity report = it_filled_qty r \<and> venue_protects c r plan)"

definition sound_result :: "('v, 'z) ExecClient_scheme \<Rightarrow> LiveIntentRecord \<Rightarrow> ProtectionPlan \<Rightarrow> AsyncProtectionResult \<Rightarrow> bool" where
  "sound_result c r plan res \<longleftrightarrow>
     (xp_state res = P_venue_protected \<longrightarrow> xp_observed_quantity res = it_filled_qty r \<and> venue_protects c r plan)"

lemma result_states [simp]:
  "xp_state (protection_result st q reason) = st" "xp_observed_quantity (protection_result st q reason) = q"
  "xp_reason (protection_result st q reason) = Some reason"
  "xp_state (report_result report) = pr_state report" "xp_observed_quantity (report_result report) = pr_observed_quantity report"
  by (simp_all add: protection_result_def report_result_def)

lemma sound_confirm:
  assumes "e = native_expectation r plan sl tp"
  shows "yields (confirmW c (ne_symbol e) e) (sound_report c r plan)"
  unfolding yields_def sound_report_def
proof (intro allI impI)
  fix w report w'
  assume run: "confirmW c (ne_symbol e) e w = (Inr report, w')" and protected: "pr_state report = P_venue_protected"
  have fields: "ne_symbol e = pp_symbol plan" "ne_quantity e = it_filled_qty r" "ne_stop_loss e = Some (pp_stop_loss plan)"
    "ne_take_profit e = first_target plan" by (simp_all add: assms native_expectation_def)
  from native_protection_confirmed [OF run [unfolded confirmW_def fields(1)] protected, unfolded fields]
  obtain v w1 v2 rows position plans where reads: "apiW c (ec_get_single_position c (pp_symbol plan)) w = (Inr v, w1)"
      "apiW c (ec_get_pending_plan_orders c (pp_symbol plan)) w1 = (Inr v2, w')"
    and position: "sized_rows v = Some rows" "open_sized rows = [position]" "row_size position = Some (it_filled_qty r)"
    and plans: "dict_list v2 = Some plans" "pr_observed_quantity report = it_filled_qty r"
    and stop: "\<exists>p \<in> set plans. plan_covers e ''stopLoss'' (pp_stop_loss plan) p"
    and target: "\<forall>t. first_target plan = Some t \<longrightarrow> (\<exists>p \<in> set plans. plan_covers e ''stopSurplus'' t p)"
    by fastforce
  have "venue_protects c r plan" unfolding venue_protects_def
    by (rule exI [of _ e], rule exI [of _ w], rule exI [of _ w1], rule exI [of _ w'], rule exI [of _ v], rule exI [of _ v2],
        rule exI [of _ position], rule exI [of _ plans], rule exI [of _ sl], rule exI [of _ tp])
      (use assms reads position plans stop target in blast)
  then show "pr_observed_quantity report = it_filled_qty r \<and> venue_protects c r plan" using plans(2) by blast
qed

lemma sound_expect: "yields (expect_and_confirm c r plan sl tp) (sound_report c r plan)"
  unfolding expect_and_confirm_def
proof (rule yields_bind [where R = "\<lambda>e. e = native_expectation r plan sl tp"])
  show "yields (liftE (make_expectation (native_expectation r plan sl tp))) (\<lambda>e. e = native_expectation r plan sl tp)"
    by (auto simp: yields_def liftE_def make_expectation_def split: option.splits)
next
  fix e assume e: "e = native_expectation r plan sl tp"
  then show "yields (confirmW c (pp_symbol plan) e) (sound_report c r plan)"
    using sound_confirm [OF e] by (simp add: native_expectation_def)
qed

lemma sound_failed: "sound_report c r plan (failed_report q m)" "sound_report c r plan (grace_error first e)"
  by (simp_all add: sound_report_def grace_error_def)

lemma sound_grace:
  assumes "sound_report c r plan first"
  shows "yields (await_native_protection c r plan first) (\<lambda>(late, n). sound_report c r plan late)"
proof -
  have loop: "yields (grace_loop c e first deadline n report attempts) (\<lambda>(late, n). sound_report c r plan late)"
    if "sound_report c r plan report" "e = native_expectation r plan sl tp" for e sl tp deadline n report attempts
    using that(1)
  proof (induction n arbitrary: report attempts)
    case 0
    then show ?case by (simp add: yields_return)
  next
    case (Suc n)
    show ?case
      by (auto intro!: yield_rules yields_bind [OF yields_attempt [OF sound_confirm [OF that(2)]]] Suc.IH Suc.prems sound_failed
          split: sum.split sum.splits)
  qed
  have expect: "yields (liftE (make_expectation e)) (\<lambda>x. x = e)" for e
    by (auto simp: yields_def liftE_def make_expectation_def split: option.splits)
  show ?thesis unfolding await_native_protection_def
    by (auto intro!: yield_rules assms yields_bind [OF expect] loop)
qed

lemma sound_unprotected:
  assumes "pr_state report \<noteq> P_venue_protected"
  shows "yields (contain c r report) (\<lambda>res. xp_state res \<noteq> P_venue_protected)"
    "yields (contain_or_local_management c r plan report) (\<lambda>res. xp_state res \<noteq> P_venue_protected)"
proof -
  show contained: "yields (contain c r report) (\<lambda>res. xp_state res \<noteq> P_venue_protected)"
    unfolding contain_def Let_def using assms by (auto intro!: yield_rules split: sum.split option.split)
  show "yields (contain_or_local_management c r plan report) (\<lambda>res. xp_state res \<noteq> P_venue_protected)"
    unfolding contain_or_local_management_def unmanaged_verdict_def Let_def
    by (auto intro!: yield_rules contained split: sum.split option.split)
qed

lemma sound_settle:
  assumes "sound_report c r plan report"
  shows "yields (settle_report c r plan report) (sound_result c r plan)"
proof -
  have unprotected: "yields (contain_or_local_management c r plan late) (sound_result c r plan)" if "pr_state late \<noteq> P_venue_protected" for late
    by (rule yields_mono [OF sound_unprotected(2) [OF that]]) (simp add: sound_result_def)
  have protected: "yields (bindW p (\<lambda>_. returnW res)) (sound_result c r plan)" if "sound_result c r plan res"
    for p :: "('a Process WorkerWorld, unit) prog" and res
    using that by (intro yields_then yields_return)
  have now: "sound_result c r plan (report_result report)" using assms by (simp add: sound_report_def sound_result_def)
  have late: "sound_result c r plan (protection_result P_venue_protected (pr_observed_quantity late) m)"
    if "sound_report c r plan late" "pr_state late = P_venue_protected" for late m
    using that by (simp add: sound_report_def sound_result_def)
  show ?thesis unfolding settle_report_def
    by (intro yields_if protected now yields_bind [OF sound_grace [OF assms]])
      (auto intro!: late yields_then yields_return unprotected)
qed

lemma sound_place:
  "yields (place_and_confirm c r plan) (\<lambda>x. case x of Inl res \<Rightarrow> sound_result c r plan res | Inr report \<Rightarrow> sound_report c r plan report)"
proof -
  have adopted: "sound_report c r plan report \<Longrightarrow> sound_result c r plan (report_result report)" for report
    by (simp add: sound_report_def sound_result_def)
  have acknowledged: "yields (if b then raiseW e else bindW p (\<lambda>_. bindW (expect_and_confirm c r plan sl tp) (\<lambda>report. returnW (Inr report))))
      (\<lambda>x. case x of Inl res \<Rightarrow> sound_result c r plan res | Inr report \<Rightarrow> sound_report c r plan report)"
    for b e sl tp and p :: "('a Process WorkerWorld, unit) prog"
    by (intro yields_if yields_return yields_then yields_bind [OF sound_expect]) simp
  show ?thesis unfolding place_and_confirm_def Let_def
    by (intro yields_then yields_if yields_bind [OF sound_expect] yields_return(1))
      (simp_all add: adopted acknowledged yields_then yields_return split: option.split)
qed

lemma sound_protect: "yields (protect_filled_position c r plan) (sound_result c r plan)"
proof -
  have degraded: "yields (degraded_as q reason) (\<lambda>res. xp_state res = P_degraded)" for q reason
    unfolding degraded_as_def by (auto intro!: yield_rules)
  have unsupported: "yields (unsupported_protection c r plan) (\<lambda>res. xp_state res = P_degraded)"
  proof -
    have "yields (if \<not> ec_fallback_protection_enabled c then
          bindW (persist_capability c (pp_symbol plan) N_UNSUPPORTED (Some ''fallback-monitor-mutations-disabled'') (Some False)) (\<lambda>_.
          degraded_as (it_filled_qty r) ''fallback-monitor-mutations-disabled'')
        else case usable_price (it_avg_price r) of
          None \<Rightarrow> degraded_as (it_filled_qty r) ''fallback-entry-price-unavailable''
        | Some price \<Rightarrow> bindW (register_owned c r plan price) (\<lambda>_.
            degraded_as (it_filled_qty r) ''native-protection-unsupported-fallback-registered-not-enforcing'')) (\<lambda>res. xp_state res = P_degraded)"
      by (auto intro!: yield_rules degraded split: option.split)
    note body = yields_attempt_bind [OF this]
    show ?thesis unfolding unsupported_protection_def by (rule yields_then, rule body) (simp_all add: yields_return degraded)
  qed
  note weaken = yields_mono [where Q = "sound_result c r plan"]
  have local: "yields (contain_or_local_management c r plan (failed_report q m)) (sound_result c r plan)" for q m
    by (rule weaken [OF sound_unprotected(2)]) (simp_all add: sound_result_def)
  have others: "yields (degraded_as q m) (sound_result c r plan)" "yields (unsupported_protection c r plan) (sound_result c r plan)" for q m
    by (rule weaken [OF degraded], simp add: sound_result_def) (rule weaken [OF unsupported], simp add: sound_result_def)
  show ?thesis unfolding protect_filled_position_def
    by (intro yields_if yields_then local yields_attempt_bind [OF sound_place])
      (auto intro!: yields_then yields_return others sound_settle sound_failed simp: sound_result_def split: sum.split)
qed

section \<open>Examples\<close>

text \<open>A venue whose state is its clock in seconds: the plans it accepted become readable at six.\<close>

definition sample_target_plan :: payload where
  "sample_target_plan = [(''planType'', JStr ''pos_profit''), (''symbol'', JStr ''ZROUSDT''), (''posSide'', JStr ''long''), (''planStatus'', JStr ''live''),
     (''orderId'', JStr ''p2''), (''clientOid'', JStr ''e0-tp''), (''triggerPrice'', JStr ''3''), (''triggerType'', JStr ''mark_price''), (''size'', JStr '''')]"

definition sample_placement :: JSON where
  "sample_placement = JList [JObj [(''stopLossClientOid'', JStr ''e0-sl''), (''orderId'', JStr ''p1'')],
     JObj [(''stopSurplusClientOid'', JStr ''e0-tp''), (''orderId'', JStr ''p2'')]]"

definition sample_exec :: "rat ExecClient" where
  "sample_exec = \<lparr>wk_id = 1, wk_others = (\<lambda>n w. w), wk_db_down = (\<lambda>n. False), wk_now = (\<lambda>n. 5),
     ec_get_account = (\<lambda>symbol. returnW JNull), ec_place_entry_order = (\<lambda>symbol side q oid price. returnW [(''orderId'', JStr ''o1'')]),
     ec_get_order_detail = (\<lambda>symbol oid. returnW (JObj [(''orderId'', JStr ''o1''), (''state'', JStr ''filled''), (''clientOid'', JStr oid),
        (''filledQty'', JStr ''5''), (''avgPrice'', JStr ''2'')])),
     ec_get_fills = (\<lambda>symbol. returnW (JList [])),
     ec_get_single_position = (\<lambda>symbol. returnW (JList [JObj sample_position_row])),
     ec_get_pending_orders = (\<lambda>symbol. returnW (JList [])), ec_cancel_entry_order = (\<lambda>symbol oid. returnW JNull),
     ec_get_pending_plan_orders = (\<lambda>symbol t. (Inr (JList (if t < 6 then [] else [JObj sample_stop_plan, JObj sample_target_plan])), t)),
     ec_place_position_tpsl = (\<lambda>symbol side q sl tp sl_oid tp_oid. returnW sample_placement),
     ec_place_market_close = (\<lambda>symbol side q oid. returnW [(''orderId'', JStr ''o2'')]), ec_set_leverage = (\<lambda>symbol l. returnW JNull),
     ec_sleep = (\<lambda>d t. (Inr (), t + d)), ec_monotonic = (\<lambda>t. t), ec_jitter = (\<lambda>n. 0), ec_uuid = (\<lambda>n. ''u''),
     ec_client_environment = Some ''LIVE'', ec_environment = ''LIVE'', ec_capability_repository = True,
     ec_reconciliation_repository = True, ec_entry_admission_latch = True, ec_fallback_protection_enabled = True,
     ec_emergency_containment_enabled = False, ec_protection_grace_seconds = 10, ec_protection_grace_interval_seconds = 3\<rparr>"

definition sample_entry :: LiveIntentRecord where
  "sample_entry = (new_record BITGET ''e0'' ''ZROUSDT'' ''BUY'')\<lparr>it_state := I_filled, it_requested_qty := 5, it_filled_qty := 5,
     it_avg_price := Some 2, it_provider_order_id := Some ''o1''\<rparr>"

definition sample_exit_plan :: ProtectionPlan where
  "sample_exit_plan = \<lparr>pp_exchange = BITGET, pp_symbol = ''ZROUSDT'', pp_direction = LONG, pp_quantity = 5, pp_stop_loss = 3 / 2,
     pp_take_profits = [3]\<rparr>"

definition sample_exec_world :: "rat Process WorkerWorld" where
  "sample_exec_world = \<lparr>ww_db = empty_db, ww_venue = \<lparr>pw_degraded = False, pw_recovery_ready = True, pw_recovery_issues = [], pw_venue = 0\<rparr>,
     ww_tick = 0, ww_wins = [], ww_posts = []\<rparr>"

definition sample_protection :: "(Exn, AsyncProtectionResult) raises \<times> rat Process WorkerWorld" where
  "sample_protection = protect_filled_position sample_exec sample_entry sample_exit_plan sample_exec_world"

lemma sample_exec_alone: "others_spare (wk_id sample_exec) sample_exec" "\<not> ec_emergency_containment_enabled sample_exec"
  by (simp_all add: sample_exec_def others_spare_def spares_def)

lemma sample_world_ok: "orders_ok sample_exec_world"
  by (simp add: orders_ok_def sample_exec_world_def unique_intents_def empty_db_def)

lemma sample_clock: "steady_clock sample_exec"
  by (auto simp: steady_clock_def keeps_time_def sample_exec_def clock_def returnW_def)

lemma sample_protected: "fst sample_protection = Inr (protection_result P_venue_protected 5 ''None-after-grace:2'')"
  by code_simp

section \<open>Properties\<close>

lemma expectation_valid:
  assumes "str_strip (pp_symbol plan) \<noteq> []" "0 < pp_stop_loss plan" "list_all (\<lambda>tp. 0 < tp) (pp_take_profits plan)" "0 < it_filled_qty r"
  shows "make_expectation (native_expectation r plan sl tp) = Inr (native_expectation r plan sl tp)"
proof -
  have side: "str_lower (str_strip (hold_side plan)) \<in> {''long'', ''short'', ''buy'', ''sell''}"
  proof -
    have "str_lower (str_strip ''buy'') = ''buy''" "str_lower (str_strip ''sell'') = ''sell''" by code_simp+
    then show ?thesis by (simp add: hold_side_def)
  qed
  show ?thesis using assms side
    by (auto simp: make_expectation_def native_expectation_def first_failure_def not_positive_def exceeds_def first_target_def
        split: option.split list.split)
qed

text \<open>
  C23: waiting for the venue to confirm protection ends. With a clock that does not go back and a sleep that lasts
  at least as long as asked, whatever the reads answer and whatever other workers do, the grace returns a report after at most
  budget / interval (rounded up) re-reads: it neither loops nor runs out of the fuel of the model.
\<close>

theorem grace_terminates:
  assumes "steady_clock c" and "\<not> wk_db_down c (ww_tick w)"
    and "str_strip (pp_symbol plan) \<noteq> []" "0 < pp_stop_loss plan" "list_all (\<lambda>tp. 0 < tp) (pp_take_profits plan)"
  shows "\<exists>late n w'. await_native_protection c r plan first w = (Inr (late, n), w') \<and> n \<le> nat \<lceil>grace_budget c / grace_interval c\<rceil>"
proof (cases "grace_budget c \<le> 0 \<or> it_filled_qty r \<le> 0")
  case True
  then show ?thesis by (auto simp: await_native_protection_def returnW_def)
next
  case False
  obtain records w1 where records: "queryW c (\<lambda>db. map stored_record (protection_intents db (it_client_oid r))) w = (Inr records, w1)"
    using assms(2) by (simp add: queryW_def dbW_def transactW_def)
  define e where "e = native_expectation r plan (role_order_id SL records) (role_order_id TP records)"
  have valid: "make_expectation e = Inr e" unfolding e_def using expectation_valid assms(3-5) False by simp
  have time: "monotonicW c w1 = (Inr (clock c w1), w1)" by (simp add: monotonicW_def processW_def clock_def)
  have "\<exists>late n w'. grace_loop c e first (clock c w1 + grace_budget c) (grace_fuel c) first 0 w1 = (Inr (late, n), w')
      \<and> n \<le> 0 + nat \<lceil>grace_budget c / grace_interval c\<rceil>"
    unfolding grace_fuel_def by (rule grace_loop_returns [OF assms(1)]) (use grace_fuel_enough [of c] in simp)
  then show ?thesis using False records valid time by (simp add: await_native_protection_def bindW_def liftE_def e_def del: grace_loop.simps)
qed

theorem grace_terminates_witness:
  "case await_native_protection sample_exec sample_entry sample_exit_plan (failed_report 0 ''x'') sample_exec_world of
     (Inr (late, n), w') \<Rightarrow> pr_state late = P_venue_protected \<and> n = 2 \<and> n \<le> 4 | _ \<Rightarrow> False"
proof -
  have up: "\<not> wk_db_down sample_exec (ww_tick sample_exec_world)" by (simp add: sample_exec_def)
  have plan: "str_strip (pp_symbol sample_exit_plan) \<noteq> []" "0 < pp_stop_loss sample_exit_plan"
    "list_all (\<lambda>tp. 0 < tp) (pp_take_profits sample_exit_plan)" by code_simp+
  have steps: "nat \<lceil>grace_budget sample_exec / grace_interval sample_exec\<rceil> = 4" by code_simp
  obtain late n w' where run: "await_native_protection sample_exec sample_entry sample_exit_plan (failed_report 0 ''x'') sample_exec_world
      = (Inr (late, n), w')" "n \<le> 4"
    using grace_terminates [OF sample_clock up plan, where first = "failed_report 0 ''x''" and r = sample_entry] steps by auto
  have "case fst (await_native_protection sample_exec sample_entry sample_exit_plan (failed_report 0 ''x'') sample_exec_world) of
      Inr (late, n) \<Rightarrow> pr_state late = P_venue_protected \<and> n = 2 | _ \<Rightarrow> False" by code_simp
  then show ?thesis using run by simp
qed

text \<open>
  C17: a filled position whose protection the venue does not confirm is never closed for that reason unless
  containment was opted into. Without the opt-in, protecting a position claims and posts no order at
  all, on every answer and failure of the venue and the database and under any interleaving of other
  workers.
\<close>

theorem containment_is_opt_in:
  assumes "others_spare (wk_id c) c" and "\<not> ec_emergency_containment_enabled c" and "orders_ok w"
    and "protect_filled_position c r plan w = (res, w')"
  shows "entries_of (wk_id c) w' = entries_of (wk_id c) w \<and> orders_ok w'"
proof -
  have quiet: "quietly c (protect_filled_position c r plan)" by (rule quietly_protect [OF assms(1,2)])
  then have "orders_ok w'" using safely_posted_once [OF quietly_safely [OF quiet] assms(3)] assms(4) by simp
  then show ?thesis using quietly_entries [OF quiet assms(3,4)] by simp
qed

theorem containment_is_opt_in_witness:
  "entries_of 1 (snd (protect_filled_position sample_exec sample_entry (sample_exit_plan\<lparr>pp_quantity := 4\<rparr>) sample_exec_world)) = ([], [])
   \<and> fst (protect_filled_position sample_exec sample_entry (sample_exit_plan\<lparr>pp_quantity := 4\<rparr>) sample_exec_world)
       = Inr (protection_result P_degraded 5 ''protection-quantity-mismatch:fallback-registration-failed:ValueError'')"
proof -
  have "entries_of (wk_id sample_exec) (snd (protect_filled_position sample_exec sample_entry (sample_exit_plan\<lparr>pp_quantity := 4\<rparr>) sample_exec_world))
      = entries_of (wk_id sample_exec) sample_exec_world"
    using containment_is_opt_in [OF sample_exec_alone sample_world_ok prod.collapse [symmetric]] by blast
  moreover have "wk_id sample_exec = 1" by (simp add: sample_exec_def)
  moreover have "entries_of 1 sample_exec_world = ([], [])" by (simp add: entries_of_def sample_exec_world_def)
  ultimately show ?thesis by simp code_simp
qed

text \<open>
  C8: a protected verdict is the venue's word on the exact position. When protecting a filled position
  returns venue-protected, immediately or in the grace, the quantity it reports is the filled quantity, and
  a position read and a plan read of the venue showed exactly one open position of that quantity with an
  active stop at the planned price and, when there is a target, an active take-profit at it.
\<close>

theorem protected_verdict_exact:
  assumes "protect_filled_position c r plan w = (Inr res, w')" and "xp_state res = P_venue_protected"
  shows "xp_observed_quantity res = it_filled_qty r \<and> venue_protects c r plan"
  using yieldsD [OF sound_protect assms(1)] assms(2) by (simp add: sound_result_def)

theorem protected_verdict_exact_witness:
  "fst sample_protection = Inr (protection_result P_venue_protected 5 ''None-after-grace:2'') \<and> venue_protects sample_exec sample_entry sample_exit_plan"
proof -
  have run: "protect_filled_position sample_exec sample_entry sample_exit_plan sample_exec_world
      = (Inr (protection_result P_venue_protected 5 ''None-after-grace:2''), snd sample_protection)"
    using sample_protected unfolding sample_protection_def by (metis prod.collapse)
  show ?thesis using protected_verdict_exact [OF run] sample_protected by simp
qed

text \<open>
  C34: an entry whose fills were read back is never handed to the local price monitor. The identity check compares
  the record in hand, which carries the raw provider fills, with the record the store reads back, which
  never does; so for every record with raw fills the registration fails, and local management answers with a
  fallback failure instead of the locally-managed mark.
\<close>

theorem read_back_fills_block_local_management:
  assumes "it_provider_fills r \<noteq> []" and "\<not> ec_emergency_containment_enabled c"
    and "contain_or_local_management c r plan report w = (Inr res, w')"
  shows "isl (fst (register_owned c r plan price v)) \<and> xp_state res = P_degraded
    \<and> (\<exists>failure. xp_reason res = Some (reason_or (pr_reason report) ''native-protection-unconfirmed'' @ '':fallback-'' @ failure))"
proof -
  have stored: "stored_record i \<noteq> r" for i
  proof
    assume "stored_record i = r"
    then have "it_provider_fills r = it_provider_fills (stored_record i)" by simp
    then show False using assms(1) by (simp add: stored_record_def)
  qed
  have "\<not> entry_identity_ok c r plan (map_option stored_record found)" for found
    using stored by (auto simp: entry_identity_ok_def)
  then have known: "yields (getW c oid) (\<lambda>known. \<not> entry_identity_ok c r plan known)" for oid
    by (auto simp: yields_def getW_def queryW_def dbW_def transactW_def split: if_splits)
  have refused: "yields (register_owned c r plan price) (\<lambda>_. False)" for price
    unfolding register_owned_def fallback_identity_def
    by (rule yields_bind [where R = "\<lambda>_. False"], rule yields_bind [OF known]) (simp_all add: yields_return)
  have first: "isl (fst (register_owned c r plan price v))"
    using refused [of price] unfolding yields_def by (cases "register_owned c r plan price v"; cases "fst (register_owned c r plan price v)") auto
  define failed where "failed = (\<lambda>res :: AsyncProtectionResult. xp_state res = P_degraded
    \<and> (\<exists>failure. xp_reason res = Some (reason_or (pr_reason report) ''native-protection-unconfirmed'' @ '':fallback-'' @ failure)))"
  have unmanaged: "yields (unmanaged_verdict c plan report (reason_or (pr_reason report) ''native-protection-unconfirmed'' @ '':fallback-'' @ m)) failed" for m
    unfolding unmanaged_verdict_def by (auto intro!: yield_rules simp: failed_def)
  have all: "yields (contain_or_local_management c r plan report) failed"
    unfolding contain_or_local_management_def Let_def using assms(2) unmanaged [of "''monitor-mutations-disabled''"]
      unmanaged [of "''entry-price-unavailable''"] unmanaged [of "''registration-failed:'' @ _"]
    by (auto intro!: yields_attempt_bind [OF refused] split: option.split)
  then show ?thesis using first yieldsD [OF all assms(3)] unfolding failed_def by blast
qed

text \<open>A position the entry demonstrably opened: registering it succeeds exactly when the record in hand
  carries no raw fills.\<close>

definition sample_owned_exec :: "rat ExecClient" where
  "sample_owned_exec = sample_exec\<lparr>
     ec_get_single_position := (\<lambda>symbol. returnW (JList [JObj ((''cTime'', JStr ''1700000000000'') # sample_position_row)])),
     ec_get_fills := (\<lambda>symbol. returnW (JList [JObj [(''symbol'', JStr ''ZROUSDT''), (''clientOid'', JStr ''e0''), (''side'', JStr ''buy''),
        (''tradeSide'', JStr ''open''), (''tradeId'', JStr ''t1''), (''cTime'', JStr ''1700000000000''), (''orderId'', JStr ''o1''),
        (''baseVolume'', JStr ''5'')]]))\<rparr>"

definition sample_filled_entry :: LiveIntentRecord where
  "sample_filled_entry = sample_entry\<lparr>it_provider_fills := [[(''tradeId'', JStr ''t1'')]], it_provider_fill_ids := [''t1'']\<rparr>"

definition sample_owned_world :: "rat Process WorkerWorld" where
  "sample_owned_world = sample_exec_world\<lparr>ww_db := empty_db\<lparr>db_intents := [LiveIntentRecord.extend
     (sample_filled_entry\<lparr>it_provider_fills := []\<rparr>) (IntentRow.fields 1)]\<rparr>\<rparr>"

definition local_management :: "LiveIntentRecord \<Rightarrow> (Exn, AsyncProtectionResult) raises \<times> rat Process WorkerWorld" where
  "local_management r = contain_or_local_management sample_owned_exec r sample_exit_plan (failed_report 5 ''unconfirmed'') sample_owned_world"

theorem read_back_fills_block_local_management_witness:
  "isl (fst (register_owned sample_owned_exec sample_filled_entry sample_exit_plan 2 sample_owned_world))
   \<and> fst (local_management sample_filled_entry) = Inr (protection_result P_degraded 5 ''unconfirmed:fallback-registration-failed:ValueError'')
   \<and> fst (local_management (sample_filled_entry\<lparr>it_provider_fills := []\<rparr>)) = Inr (protection_result P_degraded 5 ''unconfirmed-locally-managed'')"
proof -
  have result: "fst (local_management sample_filled_entry) = Inr (protection_result P_degraded 5 ''unconfirmed:fallback-registration-failed:ValueError'')"
    by code_simp
  have cleared: "fst (local_management (sample_filled_entry\<lparr>it_provider_fills := []\<rparr>)) = Inr (protection_result P_degraded 5 ''unconfirmed-locally-managed'')"
    by code_simp
  have run: "contain_or_local_management sample_owned_exec sample_filled_entry sample_exit_plan (failed_report 5 ''unconfirmed'') sample_owned_world
      = (Inr (protection_result P_degraded 5 ''unconfirmed:fallback-registration-failed:ValueError''), snd (local_management sample_filled_entry))"
    using result unfolding local_management_def by (metis prod.collapse)
  have fills: "it_provider_fills sample_filled_entry \<noteq> []" by (simp add: sample_filled_entry_def)
  have opt_in: "\<not> ec_emergency_containment_enabled sample_owned_exec" by (simp add: sample_owned_exec_def sample_exec_def)
  from read_back_fills_block_local_management [OF fills opt_in run, of 2 sample_owned_world] result cleared show ?thesis by blast
qed

end
