(* ===== verification/Dispatch_Execution.thy ===== *)
theory Dispatch_Execution
  imports Dispatcher Async_Execution
begin

text \<open>
  \<open>execution/bitget_dispatch_execution.py\<close>: the adapter the dispatcher calls. It claims an entry
  durably, checks it again at the last moment, submits it once, reads it back, protects it, and after a
  restart recovers entries by reads alone. It runs over the programs of \<open>Async_Execution\<close>, with the intent
  store, the reservations, the dispatch repository and the kill switch as the modelled tables. The
  recovery reader and the resolver of native closes, objects handed to the adapter, are parameters. The
  optional collaborators are flags; the legacy store without a \<open>claim\<close> is left out. When the write of
  a veto itself fails, the error handler here starts from the record before the veto.
\<close>

section \<open>The adapter\<close>

type_synonym 'v exec_world = "'v Process WorkerWorld"

record 'v RecoveryReader =
  rp_verify_account_binding :: "('v exec_world, unit) prog"
  rp_begin :: "('v exec_world, unit) prog"
  rp_read :: "LiveIntentRecord \<Rightarrow> ProtectionPlan \<Rightarrow> ('v exec_world, AsyncProtectionResult) prog"
  rp_position_is_flat :: "(string \<Rightarrow> ('v exec_world, bool) prog) option"
  rp_retire_proved_empty_orphans :: "('v exec_world, unit) prog"
  rp_settle_absent_protection :: "('v exec_world, unit) prog"
  rp_inventory :: "('v exec_world, string list) prog option"

record 'v DispatchExec = "'v ExecClient" +
  de_claim_authority :: authority
  de_reservations :: bool
  de_dispatch_repository :: bool
  de_kill_switch :: bool
  de_reader :: "'v RecoveryReader option"
  de_native_close_resolver :: "(LiveIntentRecord \<Rightarrow> ('v exec_world, bool) prog) option"
  de_console_cancel_claim :: "(string \<Rightarrow> Db \<Rightarrow> bool transaction) option"
  de_console_enabled :: bool
  de_scope :: string
  de_source_token :: "string \<Rightarrow> string"   \<comment> \<open>\<open>uuid5(NAMESPACE_URL, text).hex[:16]\<close>\<close>
  de_dispatch_token :: "UUID \<Rightarrow> string"   \<comment> \<open>\<open>dispatch.id.hex[:16]\<close>\<close>
  de_uuid :: "nat \<Rightarrow> UUID"

text \<open>Repository calls with the transaction's clock and a fresh identifier.\<close>

definition repoD :: "('v, 'z) DispatchExec_scheme \<Rightarrow> (timestamp \<Rightarrow> UUID \<Rightarrow> Db \<Rightarrow> 'a transaction) \<Rightarrow> ('v exec_world, 'a) prog" where
  "repoD c f w = dbW c (\<lambda>now. f now (de_uuid c (ww_tick w))) w"

definition unresolvedD :: "('v, 'z) DispatchExec_scheme \<Rightarrow> ('v exec_world, string list) prog" where
  "unresolvedD c = (if de_dispatch_repository c then queryW c unresolved_protection_issues else returnW [])"

definition eligibleD :: "('v, 'z) DispatchExec_scheme \<Rightarrow> BitgetDispatch \<Rightarrow> ('v exec_world, bool) prog" where
  "eligibleD c d =
     (if de_dispatch_repository c then repoD c (\<lambda>now tid. entry_source_eligible (de_console_enabled c) (de_scope c) now tid (bd_id d))
      else returnW True)"

definition has_inventory :: "('v, 'z) DispatchExec_scheme \<Rightarrow> bool" where
  "has_inventory c \<longleftrightarrow> (case de_reader c of None \<Rightarrow> False | Some r \<Rightarrow> rp_inventory r \<noteq> None)"

text \<open>Unresolved protection, or recovery not ready when the reader has an inventory.\<close>

definition entry_blocked :: "('v, 'z) DispatchExec_scheme \<Rightarrow> ('v exec_world, bool) prog" where
  "entry_blocked c =
     bindW (unresolvedD c) (\<lambda>issues.
     bindW (processW pw_recovery_ready) (\<lambda>ready. returnW (issues \<noteq> [] \<or> has_inventory c \<and> \<not> ready)))"

definition resolve_reservation :: "('v, 'z) DispatchExec_scheme \<Rightarrow> LiveIntentRecord \<Rightarrow> string \<Rightarrow> ('v exec_world, unit) prog" where
  "resolve_reservation c r outcome =
     (case it_margin_reservation_id r of
        Some rid \<Rightarrow> if de_reservations c then dbW c (\<lambda>now db. unitT (resolve now rid outcome db)) else returnW ()
      | None \<Rightarrow> returnW ())"

definition release_reservation :: "('v, 'z) DispatchExec_scheme \<Rightarrow> BitgetEntrySubmission \<Rightarrow> ('v exec_world, unit) prog" where
  "release_reservation c s =
     (if de_reservations c then dbW c (\<lambda>now db. unitT (resolve now (es_margin_reservation_id s) ''REJECTED'' db)) else returnW ())"

section \<open>Records\<close>

definition entry_side :: "BitgetDispatch \<Rightarrow> string" where
  "entry_side d = (if bd_direction d = ''LONG'' then ''BUY'' else ''SELL'')"

definition dispatch_client_oid :: "('v, 'z) DispatchExec_scheme \<Rightarrow> BitgetDispatch \<Rightarrow> string" where
  "dispatch_client_oid c d =
     (let token = (case (bd_source_channel_id d, bd_source_message_id d) of
        (Some channel, Some message) \<Rightarrow> de_source_token c (''fatty-bitget-entry:'' @ show_int channel @ '':'' @ show_int message @ '':''
            @ bd_pair_token d @ '':'' @ entry_side d)
      | _ \<Rightarrow> de_dispatch_token c (bd_id d))
      in ''live-bitget-'' @ bd_pair_token d @ ''-'' @ token)"

text \<open>Every construction or \<open>replace\<close> of a record runs its checks.\<close>

definition checked :: "LiveIntentRecord \<Rightarrow> (Exn, LiveIntentRecord) raises" where
  "checked r = bindE (post_init r) (\<lambda>_. Inr r)"

definition dispatch_intent :: "('v, 'z) DispatchExec_scheme \<Rightarrow> BitgetDispatch \<Rightarrow> BitgetEntrySubmission \<Rightarrow> (Exn, LiveIntentRecord) raises" where
  "dispatch_intent c d s =
     (if es_quantity s \<le> 0 then Inl (ValueError ''dispatch quantity must be positive'')
      else checked ((new_record BITGET (dispatch_client_oid c d) (bd_pair_token d) (entry_side d))
        \<lparr>it_requested_qty := es_quantity s, it_order_type := str_lower (bd_order_type d),
         it_limit_price := (if bd_order_type d = ''LIMIT'' then Some (bd_entry_price d) else None),
         it_planned_leverage := Some (es_effective_leverage s), it_planned_margin_usdt := Some (es_planned_margin_usdt s),
         it_planned_notional_usdt := Some (es_planned_notional_usdt s), it_margin_mode := Some (es_margin_mode s),
         it_balance_snapshot_id := Some (es_balance_snapshot_id s), it_margin_reservation_id := Some (es_margin_reservation_id s),
         it_planned_stop_loss := Some (es_planned_stop_loss s), it_planned_take_profits := Some (es_planned_take_profits s)\<rparr>))"

definition or_price :: "dec option \<Rightarrow> dec \<Rightarrow> dec" where
  "or_price a b = (case a of None \<Rightarrow> b | Some p \<Rightarrow> if p = 0 then b else p)"

definition or_target :: "dec option \<Rightarrow> dec list \<Rightarrow> dec list" where
  "or_target a bs = (case a of None \<Rightarrow> bs | Some p \<Rightarrow> if p = 0 then bs else [p])"

definition dispatch_protection_plan :: "BitgetDispatch \<Rightarrow> LiveIntentRecord \<Rightarrow> dec \<Rightarrow> (Exn, ProtectionPlan) raises" where
  "dispatch_protection_plan d r quantity =
     (case (it_planned_stop_loss r, it_planned_take_profits r) of
        (Some sl, Some tps) \<Rightarrow>
          bindE (direction_of (bd_direction d)) (\<lambda>direction.
            make_protection_plan \<lparr>pp_exchange = BITGET, pp_symbol = bd_pair_token d, pp_direction = direction, pp_quantity = quantity,
              pp_stop_loss = or_price (it_active_stop_loss_price r) sl, pp_take_profits = or_target (it_active_take_profit_price r) tps\<rparr>)
      | _ \<Rightarrow> Inl (ValueError ''durable validated protection plan is missing''))"

definition dispatcher_status :: "LiveOrderStatus \<Rightarrow> string" where
  "dispatcher_status s =
     (case s of Order_accepted \<Rightarrow> ''ACKNOWLEDGED'' | Order_partial \<Rightarrow> ''PARTIAL'' | Order_filled \<Rightarrow> ''FILLED''
      | Order_rejected \<Rightarrow> ''REJECTED'' | Order_unknown \<Rightarrow> ''UNKNOWN'')"

definition unprotected_status :: "LiveOrderStatus \<Rightarrow> string option \<Rightarrow> string" where
  "unprotected_status s reason =
     (let managed = (case reason of None \<Rightarrow> False | Some m \<Rightarrow> ends_with m ''-locally-managed'') in
      if s = Order_partial then (if managed then ''PARTIAL_LOCALLY_MANAGED'' else ''PARTIAL_UNPROTECTED'')
      else (if managed then ''FILLED_LOCALLY_MANAGED'' else ''FILLED_UNPROTECTED''))"

definition unproven_fill_status :: "LiveOrderStatus \<Rightarrow> string" where
  "unproven_fill_status s = (if s = Order_partial then ''PARTIAL_UNPROTECTED'' else ''FILLED_UNPROTECTED'')"

section \<open>Read-back\<close>

definition readback_result :: "LiveIntentRecord \<Rightarrow> AsyncExecutionResult \<Rightarrow> LiveIntentRecord" where
  "readback_result r res = (intent_result r res)\<lparr>it_provider_terminal := (xr_provider_terminal res \<or> xr_status res = Order_filled)\<rparr>"

definition persist_entry_readback ::
  "('v, 'z) DispatchExec_scheme \<Rightarrow> LiveIntentRecord \<Rightarrow> AsyncExecutionResult \<Rightarrow> ('v exec_world, LiveIntentRecord) prog" where
  "persist_entry_readback c r res =
     (if xr_client_oid res \<noteq> it_client_oid r then raiseW (ValueError ''Bitget readback client OID does not match durable intent'')
      else if xr_filled_qty res < it_filled_qty r
      then raiseW (ValueError ''Bitget readback quantity regression or non-finite quantity'')
      else bindW (updateW c (readback_result r res)) (\<lambda>_. returnW (readback_result r res)))"

text \<open>The GET-only read-back of a stored leg, persisted.\<close>

definition reconcile_stored ::
  "('v, 'z) DispatchExec_scheme \<Rightarrow> LiveIntentRecord \<Rightarrow> ('v exec_world, LiveIntentRecord \<times> AsyncExecutionResult) prog" where
  "reconcile_stored c r =
     bindW (reconcile_intent c r None) (\<lambda>res. bindW (persist_entry_readback c r res) (\<lambda>r'. returnW (r', res)))"

definition read_recovery_protection ::
  "('v, 'z) DispatchExec_scheme \<Rightarrow> LiveIntentRecord \<Rightarrow> BitgetDispatch \<Rightarrow> dec option \<Rightarrow> ('v exec_world, AsyncProtectionResult) prog" where
  "read_recovery_protection c r d quantity =
     (let target = (case quantity of None \<Rightarrow> it_filled_qty r | Some q \<Rightarrow> q) in
      if it_planned_stop_loss r = None \<or> it_planned_take_profits r = None
      then returnW (protection_result P_degraded target ''recovery-validated-plan-missing'')
      else
        bindW (liftE (dispatch_protection_plan d r target)) (\<lambda>plan.
          case de_reader c of
            None \<Rightarrow> returnW (protection_result P_degraded target ''recovery-reader-unwired'')
          | Some reader \<Rightarrow>
              bindW (attemptW (rp_read reader r plan)) (\<lambda>x.
                case x of
                  Inr res \<Rightarrow> returnW res
                | Inl e \<Rightarrow> returnW (protection_result P_degraded target (''recovery-read-error:'' @ exn_name e)))))"

definition verified_for :: "AsyncProtectionResult \<Rightarrow> dec \<Rightarrow> bool" where
  "verified_for p quantity \<longleftrightarrow> xp_state p = P_venue_protected \<and> xp_observed_quantity p = quantity"

section \<open>Split entries\<close>

definition split_mismatch :: "LiveIntentRecord \<Rightarrow> LiveIntentRecord \<Rightarrow> bool" where
  "split_mismatch mleg limit \<longleftrightarrow> it_entry_leg mleg \<noteq> Some ''market'' \<or> it_entry_leg limit \<noteq> Some ''limit''
     \<or> it_dispatch_id mleg = None \<or> it_dispatch_id mleg \<noteq> it_dispatch_id limit
     \<or> it_client_oid limit \<noteq> it_client_oid mleg @ ''-limit'' \<or> it_symbol limit \<noteq> it_symbol mleg \<or> it_side limit \<noteq> it_side mleg
     \<or> it_margin_reservation_id limit \<noteq> it_margin_reservation_id mleg
     \<or> it_planned_stop_loss limit \<noteq> it_planned_stop_loss mleg \<or> it_planned_take_profits limit \<noteq> it_planned_take_profits mleg
     \<or> it_order_type mleg \<noteq> ''market'' \<or> it_order_type limit \<noteq> ''limit''
     \<or> dec_mul (it_requested_qty mleg) 3 \<noteq> it_requested_qty limit
     \<or> it_filled_qty mleg < 0 \<or> it_requested_qty mleg < it_filled_qty mleg
     \<or> it_filled_qty limit < 0 \<or> it_requested_qty limit < it_filled_qty limit"

definition split_average :: "LiveIntentRecord list \<Rightarrow> dec \<Rightarrow> dec option" where
  "split_average legs quantity =
     (let priced = map (\<lambda>leg. (it_filled_qty leg, it_avg_price leg)) (filter (\<lambda>leg. 0 < it_filled_qty leg) legs) in
      if 0 < quantity \<and> list_all (\<lambda>x. snd x \<noteq> None) priced
      then Some (dec_div (dec_sum (map (\<lambda>(q, p). dec_mul q (the p)) priced) 0) quantity) else None)"

definition aggregate_split :: "LiveIntentRecord \<Rightarrow> LiveIntentRecord \<Rightarrow> (Exn, LiveIntentRecord) raises" where
  "aggregate_split mleg limit =
     (if split_mismatch mleg limit then Inl (ValueError ''split durable ownership mismatch'')
      else
        let quantity = dec_add (it_filled_qty mleg) (it_filled_qty limit);
            requested = dec_add (it_requested_qty mleg) (it_requested_qty limit) in
        checked (mleg\<lparr>it_requested_qty := requested, it_filled_qty := quantity, it_avg_price := split_average [mleg, limit] quantity,
          it_fee := dec_add (it_fee mleg) (it_fee limit), it_entry_leg := None,
          it_state := (if quantity = requested then I_filled else if 0 < quantity then I_partially_filled
                       else if I_unknown \<in> {it_state mleg, it_state limit} then I_unknown else I_acknowledged),
          it_provider_fill_ids := unique (it_provider_fill_ids mleg @ it_provider_fill_ids limit)\<rparr>))"

definition aggregate_result :: "LiveIntentRecord \<Rightarrow> AsyncExecutionResult" where
  "aggregate_result r =
     \<lparr>xr_client_oid = it_client_oid r,
      xr_status = (if it_filled_qty r = it_requested_qty r then Order_filled else if 0 < it_filled_qty r then Order_partial
                   else if it_state r = I_unknown then Order_unknown else Order_accepted),
      xr_filled_qty = it_filled_qty r, xr_avg_price = it_avg_price r, xr_fee = it_fee r,
      xr_provider_order_id = it_provider_order_id r, xr_provider_fill_ids = [], xr_provider_fills = [], xr_provider_terminal = False\<rparr>"

text \<open>An order that was never sent is retired.\<close>

definition retired :: "IntentState \<Rightarrow> LiveIntentRecord \<Rightarrow> LiveIntentRecord" where
  "retired st r = r\<lparr>it_state := st, it_provider_terminal := True\<rparr>"

definition retireD :: "('v, 'z) DispatchExec_scheme \<Rightarrow> IntentState \<Rightarrow> LiveIntentRecord \<Rightarrow> ('v exec_world, unit) prog" where
  "retireD c st r = updateW c (retired st r)"

definition reconcile_waiting_leg ::
  "('v, 'z) DispatchExec_scheme \<Rightarrow> LiveIntentRecord \<Rightarrow> LiveIntentRecord \<Rightarrow> ('v exec_world, LiveIntentRecord) prog" where
  "reconcile_waiting_leg c mleg limit =
     bindW (liftE (aggregate_split mleg limit)) (\<lambda>_.
       if it_state limit = I_staged then bindW (retireD c I_cancelled limit) (\<lambda>_. returnW (retired I_cancelled limit))
       else if it_provider_terminal limit then returnW limit
       else bindW (reconcile_stored c limit) (\<lambda>(limit', _). returnW limit'))"

section \<open>The last check before the POST\<close>

definition killed :: "('v, 'z) DispatchExec_scheme \<Rightarrow> ('v exec_world, bool) prog" where
  "killed c =
     (if de_kill_switch c then
        bindW (queryW c (kill_switch_active ''global'')) (\<lambda>a.
        bindW (queryW c (kill_switch_active ''bitget'')) (\<lambda>b.
        bindW (queryW c (kill_switch_active PROTECTION_STREAM_SCOPE)) (\<lambda>s. returnW (a \<or> b \<or> s))))
      else returnW False)"

definition refuse_entry :: "('v, 'z) DispatchExec_scheme \<Rightarrow> LiveIntentRecord \<Rightarrow> ('v exec_world, string option) prog" where
  "refuse_entry c r =
     bindW (retireD c I_rejected r) (\<lambda>_. bindW (resolve_reservation c (retired I_rejected r) ''REJECTED'') (\<lambda>_. returnW (Some ''REJECTED'')))"

definition limit_withdrawn :: "('v, 'z) DispatchExec_scheme \<Rightarrow> LiveIntentRecord \<Rightarrow> ('v exec_world, string option) prog" where
  "limit_withdrawn c r =
     (if it_entry_leg r = Some ''limit'' then
        bindW (getW c (it_client_oid r)) (\<lambda>current.
          case current of
            None \<Rightarrow> returnW (Some ''REJECTED'')
          | Some k \<Rightarrow>
              if it_cancel_requested_by k \<noteq> None \<or> it_provider_terminal k
              then bindW (retireD c I_cancelled r) (\<lambda>_. returnW (Some ''REJECTED'')) else returnW None)
      else returnW None)"

definition final_entry_veto ::
  "('v, 'z) DispatchExec_scheme \<Rightarrow> BitgetDispatch \<Rightarrow> LiveIntentRecord \<Rightarrow> ('v exec_world, string option) prog" where
  "final_entry_veto c d r =
     bindW (limit_withdrawn c r) (\<lambda>withdrawn.
       if withdrawn \<noteq> None then returnW withdrawn
       else bindW (entry_blocked c) (\<lambda>blocked.
         if blocked then refuse_entry c r
         else bindW (eligibleD c d) (\<lambda>eligible.
           if \<not> eligible then
             bindW (retireD c I_rejected r) (\<lambda>_. bindW (eligibleD c d) (\<lambda>_. returnW (Some ''EXPIRED'')))
           else bindW (killed c) (\<lambda>k. if k then refuse_entry c r else returnW None))))"

definition veto_before_claim :: "('v, 'z) DispatchExec_scheme \<Rightarrow> BitgetDispatch \<Rightarrow> ('v exec_world, string option) prog" where
  "veto_before_claim c d =
     bindW (entry_blocked c) (\<lambda>blocked.
       if blocked then returnW (Some ''REJECTED'')
       else bindW (eligibleD c d) (\<lambda>eligible. returnW (if eligible then None else Some ''EXPIRED'')))"

definition final_check :: "('v, 'z) DispatchExec_scheme \<Rightarrow> BitgetDispatch \<Rightarrow> LiveIntentRecord \<Rightarrow> ('v exec_world, unit) prog" where
  "final_check c d r =
     bindW (final_entry_veto c d r) (\<lambda>veto. case veto of None \<Rightarrow> returnW () | Some outcome \<Rightarrow> raiseW (BitgetEntryVeto outcome))"

definition submit_guarded ::
  "('v, 'z) DispatchExec_scheme \<Rightarrow> BitgetDispatch \<Rightarrow> LiveIntentRecord \<Rightarrow> ('v exec_world, AsyncExecutionResult) prog" where
  "submit_guarded c d r = async_submit_entry c (final_check c d r) r"

section \<open>Split submission\<close>

text \<open>The handlers of the split: a veto retires the limit leg that was never sent; any other error leaves the margin unknown.\<close>

definition split_failed :: "('v, 'z) DispatchExec_scheme \<Rightarrow> LiveIntentRecord \<Rightarrow> LiveIntentRecord \<Rightarrow> Exn \<Rightarrow> ('v exec_world, string) prog" where
  "split_failed c mleg limit e =
     (case e of
        BitgetEntryVeto outcome \<Rightarrow>
          bindW (getW c (it_client_oid limit)) (\<lambda>current.
          bindW (case current of
                   Some k \<Rightarrow> if it_state k = I_staged then retireD c I_cancelled k else returnW ()
                 | None \<Rightarrow> returnW ()) (\<lambda>_.
            returnW (if 0 < it_filled_qty mleg then ''PARTIAL'' else outcome)))
      | _ \<Rightarrow> bindW (resolve_reservation c mleg ''UNKNOWN'') (\<lambda>_. raiseW e))"

definition try_split ::
  "('v, 'z) DispatchExec_scheme \<Rightarrow> LiveIntentRecord \<Rightarrow> LiveIntentRecord \<Rightarrow> ('v exec_world, string) prog \<Rightarrow> ('v exec_world, string) prog" where
  "try_split c mleg limit p = tryW p (\<lambda>_. True) (split_failed c mleg limit)"

text \<open>The aggregate verdict, with a fresh protection proof when \<open>prove\<close>.\<close>

definition split_verdict ::
  "('v, 'z) DispatchExec_scheme \<Rightarrow> BitgetDispatch \<Rightarrow> LiveIntentRecord \<Rightarrow> bool \<Rightarrow> ('v exec_world, string) prog" where
  "split_verdict c d aggregate prove =
     (let status = dispatcher_status (xr_status (aggregate_result aggregate)) in
      if prove then
        bindW (read_recovery_protection c aggregate d None) (\<lambda>proof.
          returnW (if verified_for proof (it_filled_qty aggregate) then status else ''PARTIAL_UNPROTECTED''))
      else returnW status)"

definition refetch :: "('v, 'z) DispatchExec_scheme \<Rightarrow> string \<Rightarrow> ('v exec_world, LiveIntentRecord) prog" where
  "refetch c oid = bindW (getW c oid) (\<lambda>r. case r of None \<Rightarrow> raiseW (AssertionError []) | Some k \<Rightarrow> returnW k)"

text \<open>The waiting leg, once the market leg is filled and protected.\<close>

definition submit_limit_leg ::
  "('v, 'z) DispatchExec_scheme \<Rightarrow> BitgetDispatch \<Rightarrow> LiveIntentRecord \<Rightarrow> LiveIntentRecord \<Rightarrow> ('v exec_world, string) prog" where
  "submit_limit_leg c d mleg limit =
     bindW (bindW (grantW c (it_client_oid limit) (\<lambda>now. claim_entry_post (de_claim_authority c) (it_client_oid limit))) (\<lambda>claimed.
        if claimed then
          bindW (refetch c (it_client_oid limit)) (\<lambda>leg.
          bindW (submit_guarded c d leg) (\<lambda>res. persist_entry_readback c leg res))
        else refetch c (it_client_oid limit))) (\<lambda>leg.
     bindW (liftE (aggregate_split mleg leg)) (\<lambda>aggregate.
     bindW (resolve_reservation c mleg ''FILLED'') (\<lambda>_.
     bindW (reconcile_post_fill c True aggregate (xr_status (aggregate_result aggregate))) (\<lambda>_.
       split_verdict c d aggregate (0 < it_filled_qty leg)))))"

text \<open>After the market leg was submitted and read back as \<open>mleg\<close> with status \<open>st\<close>.\<close>

definition protect_market_leg ::
  "('v, 'z) DispatchExec_scheme \<Rightarrow> BitgetDispatch \<Rightarrow> LiveIntentRecord \<Rightarrow> LiveIntentRecord \<Rightarrow> LiveOrderStatus \<Rightarrow> ('v exec_world, string) prog" where
  "protect_market_leg c d mleg limit st =
     (if it_filled_qty mleg \<le> 0 then
        bindW (retireD c I_cancelled limit) (\<lambda>_.
        bindW (resolve_reservation c mleg (dispatcher_status st)) (\<lambda>_. returnW (dispatcher_status st)))
      else
        bindW (liftE (dispatch_protection_plan d mleg (it_filled_qty mleg))) (\<lambda>plan.
        bindW (protect_filled_position c mleg plan) (\<lambda>p.
          if \<not> verified_for p (it_filled_qty mleg) \<or> st \<noteq> Order_filled then
            bindW (retireD c I_cancelled limit) (\<lambda>_.
            bindW (resolve_reservation c mleg ''FILLED'') (\<lambda>_.
              returnW (if \<not> verified_for p (it_filled_qty mleg) then unprotected_status Order_partial (xp_reason p) else ''PARTIAL'')))
          else submit_limit_leg c d mleg limit)))"

text \<open>A split that was claimed before: reads only.\<close>

definition replay_split ::
  "('v, 'z) DispatchExec_scheme \<Rightarrow> BitgetDispatch \<Rightarrow> string \<Rightarrow> string \<Rightarrow> ('v exec_world, string) prog" where
  "replay_split c d root_oid limit_oid =
     bindW (getW c root_oid) (\<lambda>mleg'. bindW (getW c limit_oid) (\<lambda>limit'.
       case (mleg', limit') of
         (Some mleg, Some limit) \<Rightarrow>
           bindW (reconcile_stored c mleg) (\<lambda>(mleg, _).
           bindW (reconcile_waiting_leg c mleg limit) (\<lambda>limit.
           bindW (liftE (aggregate_split mleg limit)) (\<lambda>aggregate.
             split_verdict c d aggregate (0 < it_filled_qty aggregate))))
       | _ \<Rightarrow> raiseW (ValueError ''split replay lacks durable legs'')))"

definition split_legs ::
  "('v, 'z) DispatchExec_scheme \<Rightarrow> BitgetDispatch \<Rightarrow> BitgetEntrySubmission \<Rightarrow> EntryRoute
    \<Rightarrow> (Exn, LiveIntentRecord \<times> LiveIntentRecord) raises" where
  "split_legs c d s route =
     (if er_market_quantity route \<le> 0 \<or> er_limit_quantity route \<noteq> dec_mul (er_market_quantity route) 3
      then Inl (ValueError ''split requires exact 25/75 quantities'')
      else if dec_add (er_market_quantity route) (er_limit_quantity route) \<noteq> es_quantity s
      then Inl (ValueError ''split exceeds admitted quantity'')
      else
        bindE (dispatch_intent c d s) (\<lambda>r.
        bindE (checked (r\<lparr>it_requested_qty := er_market_quantity route, it_dispatch_id := Some (bd_id d), it_entry_leg := Some ''market''\<rparr>))
          (\<lambda>mleg.
        bindE (checked (mleg\<lparr>it_client_oid := it_client_oid mleg @ ''-limit'', it_requested_qty := er_limit_quantity route,
            it_entry_leg := Some ''limit'', it_order_type := ''limit'', it_limit_price := er_limit_price route, it_state := I_staged\<rparr>))
          (\<lambda>limit. Inr (mleg, limit)))))"

definition submit_split ::
  "('v, 'z) DispatchExec_scheme \<Rightarrow> BitgetDispatch \<Rightarrow> BitgetEntrySubmission \<Rightarrow> EntryRoute \<Rightarrow> ('v exec_world, string) prog" where
  "submit_split c d s route =
     bindW (liftE (split_legs c d s route)) (\<lambda>(mleg, limit).
     bindW (getW c (it_client_oid mleg)) (\<lambda>existing.
     bindW (if existing = None then veto_before_claim c d else returnW None) (\<lambda>veto.
       case veto of
         Some outcome \<Rightarrow> bindW (release_reservation c s) (\<lambda>_. returnW outcome)
       | None \<Rightarrow>
           bindW (grantW c (it_client_oid mleg) (\<lambda>now. claim_split (de_claim_authority c) now mleg limit)) (\<lambda>claimed.
             if \<not> claimed then replay_split c d (it_client_oid mleg) (it_client_oid limit)
             else
               bindW (attemptW (bindW (submit_guarded c d mleg) (\<lambda>res.
                   bindW (persist_entry_readback c mleg res) (\<lambda>mleg'. returnW (mleg', xr_status res))))) (\<lambda>x.
                 case x of
                   Inl e \<Rightarrow> split_failed c mleg limit e
                 | Inr (mleg', st) \<Rightarrow> try_split c mleg' limit (protect_market_leg c d mleg' limit st))))))"

section \<open>Submitting an entry\<close>

text \<open>The error handler of the submission: a veto is its outcome, anything else leaves the intent and its margin unknown.\<close>

definition entry_failed ::
  "('v, 'z) DispatchExec_scheme \<Rightarrow> LiveIntentRecord \<Rightarrow> Exn \<Rightarrow> ('v exec_world, string + 'a) prog" where
  "entry_failed c r e =
     (case e of
        BitgetEntryVeto outcome \<Rightarrow> returnW (Inl outcome)
      | _ \<Rightarrow>
          bindW (attemptW (bindW (updateW c (r\<lparr>it_state := I_unknown\<rparr>)) (\<lambda>_. resolve_reservation c r ''UNKNOWN''))) (\<lambda>_. raiseW e))"

definition guarded ::
  "('v, 'z) DispatchExec_scheme \<Rightarrow> LiveIntentRecord \<Rightarrow> ('v exec_world, string + 'a) prog \<Rightarrow> ('v exec_world, string + 'a) prog" where
  "guarded c r p = tryW p (\<lambda>_. True) (entry_failed c r)"

text \<open>The claim won: check, then the one submission.\<close>

definition submit_claimed ::
  "('v, 'z) DispatchExec_scheme \<Rightarrow> BitgetDispatch \<Rightarrow> LiveIntentRecord
    \<Rightarrow> ('v exec_world, string + bool \<times> LiveIntentRecord \<times> AsyncExecutionResult) prog" where
  "submit_claimed c d r =
     guarded c r (bindW (final_entry_veto c d r) (\<lambda>veto.
       case veto of
         Some outcome \<Rightarrow> returnW (Inl outcome)
       | None \<Rightarrow> bindW (submit_guarded c d r) (\<lambda>res. returnW (Inr (True, r, res)))))"

text \<open>The claim lost: the stored intent is read back.\<close>

definition replay_claimed ::
  "('v, 'z) DispatchExec_scheme \<Rightarrow> LiveIntentRecord
    \<Rightarrow> ('v exec_world, string + bool \<times> LiveIntentRecord \<times> AsyncExecutionResult) prog" where
  "replay_claimed c r =
     bindW (guarded c r (bindW (getW c (it_client_oid r)) (\<lambda>existing.
        case existing of
          None \<Rightarrow> raiseW (OtherError ''RuntimeError'' ''entry intent claim lost without a durable record'')
        | Some k \<Rightarrow> returnW (Inr k)))) (\<lambda>x.
       case x of
         Inl outcome \<Rightarrow> returnW (Inl outcome)
       | Inr k \<Rightarrow> guarded c k (bindW (reconcile_intent c k None) (\<lambda>res. returnW (Inr (False, k, res)))))"

definition claim_and_submit ::
  "('v, 'z) DispatchExec_scheme \<Rightarrow> BitgetDispatch \<Rightarrow> LiveIntentRecord
    \<Rightarrow> ('v exec_world, string + bool \<times> LiveIntentRecord \<times> AsyncExecutionResult) prog" where
  "claim_and_submit c d r =
     bindW (attemptW (grantW c (it_client_oid r) (\<lambda>now. claim (de_claim_authority c) now r))) (\<lambda>x.
       case x of
         Inl e \<Rightarrow> entry_failed c r e
       | Inr won \<Rightarrow> if won then submit_claimed c d r else replay_claimed c r)"

definition protect_entry ::
  "('v, 'z) DispatchExec_scheme \<Rightarrow> BitgetDispatch \<Rightarrow> bool \<Rightarrow> LiveIntentRecord \<Rightarrow> AsyncExecutionResult
    \<Rightarrow> ('v exec_world, AsyncProtectionResult) prog" where
  "protect_entry c d claimed r res =
     (if claimed then bindW (liftE (dispatch_protection_plan d r (xr_filled_qty res))) (protect_filled_position c r)
      else read_recovery_protection c r d None)"

definition settle_entry ::
  "('v, 'z) DispatchExec_scheme \<Rightarrow> BitgetDispatch \<Rightarrow> bool \<Rightarrow> LiveIntentRecord \<Rightarrow> AsyncExecutionResult \<Rightarrow> ('v exec_world, string) prog" where
  "settle_entry c d claimed r0 res =
     bindW (persist_entry_readback c r0 res) (\<lambda>r.
     bindW (reconcile_post_fill c True r (xr_status res)) (\<lambda>_.
     bindW (resolve_reservation c r (dispatcher_status (xr_status res))) (\<lambda>_.
       if xr_status res \<notin> {Order_filled, Order_partial} then returnW (dispatcher_status (xr_status res))
       else
         bindW (attemptW (protect_entry c d claimed r res)) (\<lambda>x.
           returnW (case x of
             Inl _ \<Rightarrow> unproven_fill_status (xr_status res)
           | Inr p \<Rightarrow> if verified_for p (xr_filled_qty res) then dispatcher_status (xr_status res)
                      else unprotected_status (xr_status res) (xp_reason p))))))"

text \<open>Before a first claim: nothing unresolved, recovery ready, the source still eligible.\<close>

definition entry_precheck :: "('v, 'z) DispatchExec_scheme \<Rightarrow> BitgetDispatch \<Rightarrow> string \<Rightarrow> ('v exec_world, string option) prog" where
  "entry_precheck c d oid =
     bindW (getW c oid) (\<lambda>first.
     bindW (if first = None then entry_blocked c else returnW False) (\<lambda>blocked.
       if blocked then returnW (Some ''REJECTED'')
       else
         bindW (getW c oid) (\<lambda>again.
         bindW (if again = None then eligibleD c d else returnW True) (\<lambda>eligible.
           returnW (if eligible then None else Some ''EXPIRED'')))))"

definition submit_single ::
  "('v, 'z) DispatchExec_scheme \<Rightarrow> BitgetDispatch \<Rightarrow> BitgetEntrySubmission \<Rightarrow> ('v exec_world, string) prog" where
  "submit_single c d s =
     bindW (liftE (dispatch_intent c d s)) (\<lambda>r.
     bindW (entry_precheck c d (it_client_oid r)) (\<lambda>refused.
       case refused of
         Some outcome \<Rightarrow> returnW outcome
       | None \<Rightarrow>
           bindW (claim_and_submit c d r) (\<lambda>x.
             case x of
               Inl outcome \<Rightarrow> returnW outcome
             | Inr (claimed, r', res) \<Rightarrow> settle_entry c d claimed r' res)))"

text \<open>A stored split is replayed with its own quantities.\<close>

definition replay_submission ::
  "BitgetEntrySubmission \<Rightarrow> LiveIntentRecord \<Rightarrow> LiveIntentRecord \<Rightarrow> (Exn, BitgetEntrySubmission) raises" where
  "replay_submission s existing child =
     make_submission (s\<lparr>es_quantity := dec_add (it_requested_qty existing) (it_requested_qty child),
       es_entry_route := Some \<lparr>er_mode = SPLIT_MARKET_LIMIT, er_market_quantity = it_requested_qty existing,
         er_limit_quantity = it_requested_qty child, er_limit_price = it_limit_price child, er_reason = ''durable-split-replay''\<rparr>\<rparr>)"

definition durable_submission ::
  "('v, 'z) DispatchExec_scheme \<Rightarrow> BitgetDispatch \<Rightarrow> BitgetEntrySubmission \<Rightarrow> ('v exec_world, BitgetEntrySubmission) prog" where
  "durable_submission c d s =
     bindW (getW c (dispatch_client_oid c d)) (\<lambda>existing.
       case existing of
         None \<Rightarrow> returnW s
       | Some k \<Rightarrow>
           if it_entry_leg k \<noteq> Some ''market'' then returnW s
           else bindW (getW c (it_client_oid k @ ''-limit'')) (\<lambda>child.
                  case child of
                    None \<Rightarrow> raiseW (ValueError ''split replay lacks durable limit child'')
                  | Some l \<Rightarrow> liftE (replay_submission s k l)))"

definition dispatch_submit_entry ::
  "('v, 'z) DispatchExec_scheme \<Rightarrow> BitgetDispatch \<Rightarrow> BitgetEntrySubmission \<Rightarrow> ('v exec_world, string) prog" where
  "dispatch_submit_entry c d s0 =
     bindW (durable_submission c d s0) (\<lambda>s.
       case es_entry_route s of
         None \<Rightarrow> submit_single c d s
       | Some route \<Rightarrow>
           if 0 < er_limit_quantity route \<and> 0 < er_market_quantity route then submit_split c d s route else submit_single c d s)"

section \<open>Recovery\<close>

definition recovery_owned :: "('v, 'z) DispatchExec_scheme \<Rightarrow> BitgetDispatch \<Rightarrow> LiveIntentRecord \<Rightarrow> bool" where
  "recovery_owned c d r \<longleftrightarrow> it_exchange r = BITGET \<and> it_role r = ENTRY \<and> it_client_oid r = dispatch_client_oid c d
     \<and> it_symbol r = bd_pair_token d \<and> it_side r = entry_side d"

definition remainingD :: "('v, 'z) DispatchExec_scheme \<Rightarrow> string \<Rightarrow> ('v exec_world, dec) prog" where
  "remainingD c oid = dbW c (\<lambda>now db. bindE (remaining_owned_quantity oid db) (\<lambda>q. Inr (db, q)))"

definition transitionD ::
  "('v, 'z) DispatchExec_scheme \<Rightarrow> BitgetDispatch \<Rightarrow> DispatchState \<Rightarrow> DispatchState \<Rightarrow> string \<Rightarrow> ('v exec_world, unit) prog" where
  "transitionD c d expected target reason = repoD c (\<lambda>now tid db. unitT (transition now tid (bd_id d) expected target (Some reason) db))"

definition resolve_native_close :: "('v, 'z) DispatchExec_scheme \<Rightarrow> LiveIntentRecord \<Rightarrow> ('v exec_world, bool) prog" where
  "resolve_native_close c r =
     (case de_native_close_resolver c of
        None \<Rightarrow> returnW False
      | Some resolver \<Rightarrow> bindW (attemptW (resolver r)) (\<lambda>x. returnW (case x of Inl _ \<Rightarrow> False | Inr b \<Rightarrow> b)))"

text \<open>The close-side records of an entry: its closes, its plans, and every settled close of its symbol.\<close>

definition close_records :: "('v, 'z) DispatchExec_scheme \<Rightarrow> LiveIntentRecord \<Rightarrow> ('v exec_world, LiveIntentRecord list) prog" where
  "close_records c r =
     bindW (getW c (it_client_oid r @ ''-emergency'')) (\<lambda>a.
     bindW (getW c (it_client_oid r @ ''-close'')) (\<lambda>b.
     bindW (getW c (it_client_oid r @ ''-native-close'')) (\<lambda>n.
     bindW (queryW c (\<lambda>db. map stored_record (protection_intents db (it_client_oid r)))) (\<lambda>plans.
     bindW (queryW c (\<lambda>db. map stored_record (symbol_close_intents db (it_symbol r)))) (\<lambda>closes.
       returnW (List.map_filter id [a, b, n] @ plans @ closes))))))"

definition closed_lifecycle_reason ::
  "('v, 'z) DispatchExec_scheme \<Rightarrow> LiveIntentRecord \<Rightarrow> ('v exec_world, string option) prog" where
  "closed_lifecycle_reason c r =
     (case Option.bind (de_reader c) rp_position_is_flat of
        None \<Rightarrow> returnW None
      | Some flat \<Rightarrow>
          bindW (close_records c r) (\<lambda>records.
            if dec_sum (map it_filled_qty records) 0 < it_filled_qty r then returnW None
            else
              bindW (attemptW (flat (it_symbol r))) (\<lambda>x.
                if x \<noteq> Inr True then returnW None
                else bindW (updateW c (r\<lparr>it_state := I_reconciled\<rparr>)) (\<lambda>_. returnW (Some ''recovery-closed-close-fill-verified'')))))"

definition recovery_target :: "string \<Rightarrow> DispatchState" where
  "recovery_target status =
     (if status = ''FILLED'' then FILLED else if status = ''PARTIAL'' then PARTIALLY_FILLED
      else if status = ''ACKNOWLEDGED'' then ACKNOWLEDGED else if status = ''REJECTED'' then REJECTED else UNKNOWN)"

definition recovery_reason ::
  "('v, 'z) DispatchExec_scheme \<Rightarrow> BitgetDispatch \<Rightarrow> string \<Rightarrow> LiveIntentRecord \<Rightarrow> AsyncExecutionResult \<Rightarrow> ('v exec_world, string) prog" where
  "recovery_reason c d oid r res =
     (if xr_filled_qty res \<le> 0 then returnW (''recovery-entry-'' @ str_lower (dispatcher_status (xr_status res)))
      else
        bindW (remainingD c oid) (\<lambda>expected.
        bindW (read_recovery_protection c r d (Some expected)) (\<lambda>p.
          if verified_for p expected then returnW ''recovery-protection-verified''
          else
            bindW (queryW c (is_locally_managed (it_client_oid r))) (\<lambda>managed.
              returnW (if managed then ''recovery-protection-locally-managed''
                       else ''recovery-missing-protection:'' @ reason_or (xp_reason p) ''unconfirmed'')))))"

definition recovery_issue :: "bool \<Rightarrow> AsyncExecutionResult \<Rightarrow> string \<Rightarrow> string list" where
  "recovery_issue has_limit res reason =
     (let status = dispatcher_status (xr_status res) in
      if reason \<in> {''recovery-protection-verified'', ''recovery-protection-locally-managed''} \<or> status = ''REJECTED''
         \<or> has_limit \<and> xr_filled_qty res = 0 \<and> status = ''ACKNOWLEDGED''
      then [] else [reason])"

text \<open>Reads back the entry and its waiting leg: the whole entry and its result.\<close>

definition recover_readback ::
  "('v, 'z) DispatchExec_scheme \<Rightarrow> LiveIntentRecord \<Rightarrow> LiveIntentRecord option
    \<Rightarrow> ('v exec_world, LiveIntentRecord \<times> AsyncExecutionResult) prog" where
  "recover_readback c r limit =
     bindW (if it_entry_leg r \<noteq> Some ''market'' then returnW limit
            else case limit of
              None \<Rightarrow> raiseW (ValueError ''split root lacks durable limit child'')
            | Some l \<Rightarrow> bindW (reconcile_waiting_leg c r l) (\<lambda>l'. returnW (Some l'))) (\<lambda>limit'.
     bindW (reconcile_stored c r) (\<lambda>(r', res).
     bindW (reconcile_post_fill c True r' (xr_status res)) (\<lambda>_.
       case limit' of
         None \<Rightarrow> returnW (r', res)
       | Some l \<Rightarrow>
           bindW (liftE (aggregate_split r' l)) (\<lambda>aggregate.
           bindW (reconcile_post_fill c True aggregate (xr_status (aggregate_result aggregate))) (\<lambda>_.
             returnW (aggregate, aggregate_result aggregate))))))"

definition recover_settled ::
  "('v, 'z) DispatchExec_scheme \<Rightarrow> BitgetDispatch \<Rightarrow> LiveIntentRecord \<Rightarrow> string \<Rightarrow> ('v exec_world, unit) prog" where
  "recover_settled c d r reason =
     bindW (transitionD c d (bd_state d) CLOSING reason) (\<lambda>_.
     bindW (transitionD c d CLOSING CLOSED reason) (\<lambda>_. resolve_reservation c r ''FILLED''))"

definition recover_open ::
  "('v, 'z) DispatchExec_scheme \<Rightarrow> BitgetDispatch \<Rightarrow> string \<Rightarrow> bool \<Rightarrow> LiveIntentRecord \<Rightarrow> AsyncExecutionResult
    \<Rightarrow> ('v exec_world, string list) prog" where
  "recover_open c d oid has_limit r res =
     (let status = dispatcher_status (xr_status res) in
      bindW (recovery_reason c d oid r res) (\<lambda>reason.
      bindW (transitionD c d (bd_state d) (recovery_target status) reason) (\<lambda>_.
      bindW (resolve_reservation c r status) (\<lambda>_. returnW (recovery_issue has_limit res reason)))))"

text \<open>One candidate: the issues it leaves.\<close>

definition recover_one ::
  "('v, 'z) DispatchExec_scheme \<Rightarrow> BitgetDispatch \<Rightarrow> string \<Rightarrow> ('v exec_world, string list) prog" where
  "recover_one c d0 oid =
     bindW (liftE (bitget_symbol (bd_pair_token d0))) (\<lambda>symbol.
     bindW (getW c oid) (\<lambda>found.
       case found of
         None \<Rightarrow> raiseW (OtherError ''RuntimeError'' ''recovery candidate lacks durable entry intent'')
       | Some r \<Rightarrow>
           let d = d0\<lparr>bd_pair_token := symbol\<rparr> in
           if \<not> recovery_owned c d r then raiseW (ValueError ''recovery ownership mismatch'')
           else
             bindW (getW c (it_client_oid r @ ''-limit'')) (\<lambda>limit.
             bindW (recover_readback c r limit) (\<lambda>(whole, res).
             bindW (resolve_native_close c whole) (\<lambda>_.
             bindW (if 0 < xr_filled_qty res then closed_lifecycle_reason c whole else returnW None) (\<lambda>settlement.
               case settlement of
                 Some reason \<Rightarrow> bindW (recover_settled c d (whole\<lparr>it_state := I_reconciled\<rparr>) reason) (\<lambda>_. returnW [])
               | None \<Rightarrow> recover_open c d oid (limit \<noteq> None) whole res))))))"

fun recover_all ::
  "('v, 'z) DispatchExec_scheme \<Rightarrow> (BitgetDispatch \<times> string) list \<Rightarrow> ('v exec_world, string list) prog" where
  "recover_all c [] = returnW []"
| "recover_all c ((d, oid) # rest) =
     bindW (recover_one c d oid) (\<lambda>issues. bindW (recover_all c rest) (\<lambda>more. returnW (issues @ more)))"

definition with_reader ::
  "('v, 'z) DispatchExec_scheme \<Rightarrow> ('v RecoveryReader \<Rightarrow> ('v exec_world, unit) prog) \<Rightarrow> ('v exec_world, unit) prog" where
  "with_reader c f = (case de_reader c of None \<Rightarrow> returnW () | Some reader \<Rightarrow> f reader)"

definition inventoryD :: "('v, 'z) DispatchExec_scheme \<Rightarrow> ('v exec_world, string list) prog" where
  "inventoryD c =
     (case Option.bind (de_reader c) rp_inventory of
        Some inventory \<Rightarrow> inventory
      | None \<Rightarrow> queryW c (inventory_issues None))"

definition recover_entry_lifecycles :: "('v, 'z) DispatchExec_scheme \<Rightarrow> ('v exec_world, nat) prog" where
  "recover_entry_lifecycles c =
     bindW (set_processW (\<lambda>s. s\<lparr>pw_recovery_ready := False\<rparr>)) (\<lambda>_.
       if \<not> de_dispatch_repository c then raiseW (OtherError ''RuntimeError'' ''entry lifecycle recovery requires dispatch repository'')
       else
         bindW (with_reader c rp_verify_account_binding) (\<lambda>_.
         bindW (with_reader c rp_begin) (\<lambda>_.
         bindW (dbW c (\<lambda>now db. bindE (recovery_candidates (de_console_enabled c) db) (\<lambda>cs. Inr (db, cs)))) (\<lambda>candidates.
         bindW (recover_all c candidates) (\<lambda>issues.
         bindW (with_reader c rp_retire_proved_empty_orphans) (\<lambda>_.
         bindW (with_reader c rp_settle_absent_protection) (\<lambda>_.
         bindW (inventoryD c) (\<lambda>inventory.
         bindW (unresolvedD c) (\<lambda>unresolved.
           let all = sort (remdups (issues @ inventory @ unresolved)) in
           bindW (set_processW (\<lambda>s. s\<lparr>pw_recovery_issues := all, pw_recovery_ready := (all = [])\<rparr>)) (\<lambda>_.
             returnW (length candidates)))))))))))"

definition alert_blocked :: "('v, 'z) DispatchExec_scheme \<Rightarrow> ('v exec_world, unit) prog" where
  "alert_blocked c =
     bindW (processW pw_recovery_issues) (\<lambda>issues.
       if de_dispatch_repository c then dbW c (\<lambda>now db. unitT (alert_recovery_blocked issues db)) else returnW ())"

section \<open>The reservation-only sweep\<close>

definition sweep_one ::
  "('v, 'z) DispatchExec_scheme \<Rightarrow> UUID \<Rightarrow> string \<Rightarrow> bool \<Rightarrow> ('v exec_world, nat) prog" where
  "sweep_one c rid oid expired =
     (let escalate = (if expired then dbW c (\<lambda>now db. unitT (escalate_expired now rid db)) else returnW ()) in
      bindW (getW c oid) (\<lambda>found.
        case found of
          None \<Rightarrow> bindW escalate (\<lambda>_. returnW 0)
        | Some r \<Rightarrow>
            tryW
              (bindW (reconcile_stored c r) (\<lambda>(r', res).
               bindW (reconcile_post_fill c True r' (xr_status res)) (\<lambda>_.
                 if xr_status res \<in> {Order_filled, Order_partial, Order_rejected}
                 then bindW (resolve_reservation c r' (dispatcher_status (xr_status res))) (\<lambda>_. returnW 1)
                 else bindW escalate (\<lambda>_. returnW 0))))
              (\<lambda>_. True)
              (\<lambda>_. bindW (resolve_reservation c r ''UNKNOWN'') (\<lambda>_. bindW escalate (\<lambda>_. returnW 0)))))"

fun sweep_all :: "('v, 'z) DispatchExec_scheme \<Rightarrow> (UUID \<times> string \<times> bool) list \<Rightarrow> ('v exec_world, nat) prog" where
  "sweep_all c [] = returnW 0"
| "sweep_all c ((rid, oid, expired) # rest) =
     bindW (sweep_one c rid oid expired) (\<lambda>n. bindW (sweep_all c rest) (\<lambda>m. returnW (n + m)))"

definition reconcile_active_reservations :: "('v, 'z) DispatchExec_scheme \<Rightarrow> ('v exec_world, nat) prog" where
  "reconcile_active_reservations c =
     (if de_dispatch_repository c then recover_entry_lifecycles c
      else
        bindW (set_processW (\<lambda>s. s\<lparr>pw_recovery_ready := False\<rparr>)) (\<lambda>_.
          if \<not> de_reservations c then returnW 0
          else bindW (dbW c (\<lambda>now db. Inr (db, active_client_order_ids now db))) (sweep_all c)))"

section \<open>Cancelling waiting entries\<close>

definition claim_cancel_postD :: "('v, 'z) DispatchExec_scheme \<Rightarrow> string \<Rightarrow> ('v exec_world, bool) prog" where
  "claim_cancel_postD c oid =
     (case de_console_cancel_claim c of
        Some f \<Rightarrow> dbW c (\<lambda>now. f oid)
      | None \<Rightarrow> dbW c (\<lambda>now. claim_cancel_post oid))"

definition cancel_or_read ::
  "('v, 'z) DispatchExec_scheme \<Rightarrow> bool \<Rightarrow> LiveIntentRecord \<Rightarrow> ('v exec_world, LiveIntentRecord \<times> AsyncExecutionResult) prog" where
  "cancel_or_read c read_only r =
     bindW (if read_only then reconcile_intent c r None else async_cancel_pending_entry c r (claim_cancel_postD c (it_client_oid r))) (\<lambda>res.
     bindW (persist_entry_readback c r res) (\<lambda>r'. returnW (r', res)))"

definition mark_cancel :: "('v, 'z) DispatchExec_scheme \<Rightarrow> bool \<Rightarrow> UUID \<Rightarrow> string \<Rightarrow> ('v exec_world, unit) prog" where
  "mark_cancel c read_only management oid =
     (if read_only then returnW ()
      else bindW (dbW c (\<lambda>now. claim_cancel (de_claim_authority c) oid management)) (\<lambda>_. returnW ()))"

text \<open>A waiting entry that is not a leg: whether its cancellation is proved.\<close>

definition cancel_single ::
  "('v, 'z) DispatchExec_scheme \<Rightarrow> bool \<Rightarrow> UUID \<Rightarrow> LiveIntentRecord \<Rightarrow> ('v exec_world, bool) prog" where
  "cancel_single c read_only management limit =
     bindW (mark_cancel c read_only management (it_client_oid limit)) (\<lambda>_.
     bindW (getW c (it_client_oid limit)) (\<lambda>found.
       case found of
         None \<Rightarrow> returnW False
       | Some k \<Rightarrow>
           bindW (cancel_or_read c read_only k) (\<lambda>(k', res).
             if \<not> it_provider_terminal k' then returnW False
             else bindW (resolve_reservation c k' (dispatcher_status (xr_status res))) (\<lambda>_. returnW True))))"

definition cancel_plan :: "string \<Rightarrow> LiveIntentRecord \<Rightarrow> (Exn, ProtectionPlan) raises" where
  "cancel_plan symbol r =
     (case (if (case it_active_stop_loss_price r of None \<Rightarrow> True | Some p \<Rightarrow> p = 0) then it_planned_stop_loss r
            else it_active_stop_loss_price r, it_planned_take_profits r) of
        (Some sl, Some tps) \<Rightarrow> make_protection_plan \<lparr>pp_exchange = BITGET, pp_symbol = symbol,
            pp_direction = (if it_side r = ''BUY'' then LONG else SHORT), pp_quantity = it_filled_qty r, pp_stop_loss = sl,
            pp_take_profits = or_target (it_active_take_profit_price r) tps\<rparr>
      | _ \<Rightarrow> Inl (AssertionError []))"

definition cancelled_leg ::
  "('v, 'z) DispatchExec_scheme \<Rightarrow> bool \<Rightarrow> UUID \<Rightarrow> LiveIntentRecord \<Rightarrow> ('v exec_world, LiveIntentRecord option) prog" where
  "cancelled_leg c read_only management limit =
     bindW (if read_only then returnW (Some limit)
            else bindW (mark_cancel c False management (it_client_oid limit)) (\<lambda>_. getW c (it_client_oid limit))) (\<lambda>found.
       case found of
         None \<Rightarrow> returnW None
       | Some k \<Rightarrow>
           if it_provider_terminal k then returnW (Some k)
           else bindW (cancel_or_read c read_only k) (\<lambda>(k', _). returnW (if it_provider_terminal k' then Some k' else None)))"

definition base_oid :: "string \<Rightarrow> string" where
  "base_oid oid = (if ends_with oid ''-limit'' then take (length oid - 6) oid else oid)"

definition cancel_split ::
  "('v, 'z) DispatchExec_scheme \<Rightarrow> bool \<Rightarrow> string \<Rightarrow> UUID \<Rightarrow> LiveIntentRecord \<Rightarrow> ('v exec_world, bool) prog" where
  "cancel_split c read_only symbol management limit =
     bindW (getW c (base_oid (it_client_oid limit))) (\<lambda>found.
       case found of
         None \<Rightarrow> returnW False
       | Some mleg \<Rightarrow>
           bindW (liftE (aggregate_split mleg limit)) (\<lambda>_.
           bindW (cancelled_leg c read_only management limit) (\<lambda>leg.
             case leg of
               None \<Rightarrow> returnW False
             | Some l \<Rightarrow>
                 bindW (reconcile_stored c mleg) (\<lambda>(mleg', _).
                 bindW (liftE (aggregate_split mleg' l)) (\<lambda>aggregate.
                   if it_filled_qty aggregate \<le> 0 then returnW True
                   else
                     bindW (liftE (cancel_plan symbol aggregate)) (\<lambda>plan.
                     bindW (case de_reader c of
                              None \<Rightarrow> returnW ()
                            | Some reader \<Rightarrow> bindW (rp_read reader aggregate plan) (\<lambda>_. returnW ())) (\<lambda>_.
                       returnW True)))))))"

definition cancel_entry ::
  "('v, 'z) DispatchExec_scheme \<Rightarrow> bool \<Rightarrow> string \<Rightarrow> UUID \<Rightarrow> LiveIntentRecord \<Rightarrow> ('v exec_world, bool) prog" where
  "cancel_entry c read_only symbol management limit =
     (if read_only \<and> it_cancel_requested_by limit \<noteq> Some management then returnW True
      else if it_entry_leg limit \<noteq> Some ''limit'' then cancel_single c read_only management limit
      else cancel_split c read_only symbol management limit)"

fun cancel_all ::
  "('v, 'z) DispatchExec_scheme \<Rightarrow> bool \<Rightarrow> string \<Rightarrow> UUID \<Rightarrow> LiveIntentRecord list \<Rightarrow> ('v exec_world, bool) prog" where
  "cancel_all c read_only symbol management [] = returnW True"
| "cancel_all c read_only symbol management (r # rs) =
     bindW (cancel_entry c read_only symbol management r) (\<lambda>ok.
       if ok then cancel_all c read_only symbol management rs else returnW False)"

definition pendingD :: "('v, 'z) DispatchExec_scheme \<Rightarrow> string \<Rightarrow> UUID option \<Rightarrow> ('v exec_world, LiveIntentRecord list) prog" where
  "pendingD c symbol management =
     dbW c (\<lambda>now db. bindE (pending_entries db (Some symbol) management) (\<lambda>is. Inr (db, map stored_record is)))"

definition cancel_pending_entries ::
  "('v, 'z) DispatchExec_scheme \<Rightarrow> string \<Rightarrow> UUID \<Rightarrow> bool \<Rightarrow> ('v exec_world, bool) prog" where
  "cancel_pending_entries c symbol management read_only =
     bindW (attemptW
       (bindW (with_reader c rp_verify_account_binding) (\<lambda>_.
        bindW (pendingD c symbol (Some management)) (\<lambda>entries.
        bindW (cancel_all c read_only symbol management entries) (\<lambda>ok.
          if \<not> ok then returnW False
          else if read_only then returnW True
          else bindW (pendingD c symbol None) (\<lambda>rest. returnW (rest = [])))))))
       (\<lambda>x. returnW (case x of Inl _ \<Rightarrow> False | Inr b \<Rightarrow> b))"

section \<open>What the adapter keeps\<close>

text \<open>The collaborators that are parameters only read, or write what is no order: they neither claim nor post.\<close>

definition quiet_reader :: "('v, 'z) DispatchExec_scheme \<Rightarrow> 'v RecoveryReader \<Rightarrow> bool" where
  "quiet_reader c reader \<longleftrightarrow> quietly c (rp_verify_account_binding reader) \<and> quietly c (rp_begin reader)
     \<and> (\<forall>r plan. quietly c (rp_read reader r plan)) \<and> quietly c (rp_retire_proved_empty_orphans reader)
     \<and> quietly c (rp_settle_absent_protection reader)
     \<and> (\<forall>flat symbol. rp_position_is_flat reader = Some flat \<longrightarrow> quietly c (flat symbol))
     \<and> (\<forall>inventory. rp_inventory reader = Some inventory \<longrightarrow> quietly c inventory)"

definition reads_only :: "('v, 'z) DispatchExec_scheme \<Rightarrow> bool" where
  "reads_only c \<longleftrightarrow> others_spare (wk_id c) c
     \<and> (\<forall>reader. de_reader c = Some reader \<longrightarrow> quiet_reader c reader)
     \<and> (\<forall>resolver r. de_native_close_resolver c = Some resolver \<longrightarrow> quietly c (resolver r))
     \<and> (\<forall>f oid db db' won. de_console_cancel_claim c = Some f \<longrightarrow> f oid db = Inr (db', won) \<longrightarrow> intents_kept db db')"

lemma reads_onlyD:
  assumes "reads_only c"
  shows "others_spare (wk_id c) c" "de_reader c = Some reader \<Longrightarrow> quiet_reader c reader"
    "de_native_close_resolver c = Some resolver \<Longrightarrow> quietly c (resolver r)"
    "de_console_cancel_claim c = Some f \<Longrightarrow> f oid db = Inr (db', won) \<Longrightarrow> intents_kept db db'"
  using assms unfolding reads_only_def by blast+

lemma reservations_kept: "write_reservations rs db = Inr db' \<Longrightarrow> intents_kept db db'"
  by (auto simp: write_reservations_def run_simps split: if_splits intro: intents_kept_same)

lemma resolve_kept: "resolve now rid outcome db = Inr db' \<Longrightarrow> intents_kept db db'" "escalate_expired now rid db = Inr db' \<Longrightarrow> intents_kept db db'"
  by (auto simp: resolve_def escalate_expired_def Let_def intro: reservations_kept intents_kept_same split: if_splits option.splits)

lemma eligible_kept: "entry_source_eligible console scope now tid did db = Inr (db', ok) \<Longrightarrow> intents_kept db db'"
  by (auto simp: entry_source_eligible_def Let_def bindE_Inr_iff split: if_splits option.splits prod.splits
      intro: intents_kept_same dest: expire_source_dispatch_cases)

lemma transition_kept: "transition now tid did expected target reason db = Inr db' \<Longrightarrow> intents_kept db db'"
  by (auto simp: transition_def enqueue_def Let_def split: if_splits intro!: intents_kept_same)

lemma alert_kept: "alert_recovery_blocked issues db = Inr db' \<Longrightarrow> intents_kept db db'"
  by (auto simp: alert_recovery_blocked_def enqueue_def Let_def intro!: intents_kept_same)

lemma cancel_kept: "claim_cancel a oid m db = Inr (db', won) \<Longrightarrow> intents_kept db db'" "claim_cancel_post oid db = Inr (db', won) \<Longrightarrow> intents_kept db db'"
  by (auto simp: claim_cancel_def claim_cancel_post_def bindE_Inr_iff update_intents_def cancel_row_def
      dest!: sym [where t = db'] intro: intents_kept_update [unfolded update_intents_def fst_conv])

lemma find_key: "unique_intents db \<Longrightarrow> i \<in> set (db_intents db) \<Longrightarrow> it_exchange i = ex \<Longrightarrow> it_client_oid i = oid \<Longrightarrow> find_intent db ex oid = Some i"
proof -
  assume a: "unique_intents db" "i \<in> set (db_intents db)" "it_exchange i = ex" "it_client_oid i = oid"
  then obtain j where j: "find_intent db ex oid = Some j" using has_intent [of db ex oid] by blast
  then have "j \<in> set (db_intents db)" "it_exchange j = ex" "it_client_oid j = oid" using find_Some_props [of _ "db_intents db" j] by (auto simp: find_intent_def)
  then have "j = i" using a unfolding unique_intents_def distinct_map inj_on_def by (auto simp: ident_def)
  then show ?thesis using j by simp
qed

lemma entry_post_grants: "grants oid (\<lambda>now. claim_entry_post a oid)"
  unfolding grants_def
proof (intro allI impI)
  fix now db db' won
  assume unique: "unique_intents db" and run: "claim_entry_post a oid db = Inr (db', won)"
  then have db': "db' = fst (update_intents (postable oid) (\<lambda>i. i\<lparr>it_state := I_requested\<rparr>) db)"
    and won: "won \<longleftrightarrow> (\<exists>i \<in> set (db_intents db). postable oid i)"
    by (auto simp: claim_entry_post_def bindE_Inr_iff update_intents_def)
  have kept: "intents_kept db db'" unfolding db' by (rule intents_kept_update) simp_all
  have "\<not> live_order db oid \<and> live_order db' oid" if granted: "won"
  proof -
    obtain i where i: "i \<in> set (db_intents db)" "postable oid i" using granted won by blast
    then have found: "find_intent db BITGET oid = Some i" using find_key [OF unique i(1)] by (simp add: postable_def)
    have "find_intent db' BITGET oid = Some (i\<lparr>it_state := I_requested\<rparr>)"
      unfolding db' using find_update_intents [of "\<lambda>i. i\<lparr>it_state := I_requested\<rparr>" "postable oid" db BITGET oid] found i(2) by simp
    then show ?thesis using found i(2) by (simp add: live_order_def postable_def)
  qed
  then show "intents_kept db db' \<and> (won \<longrightarrow> \<not> live_order db oid \<and> live_order db' oid)" using kept by blast
qed

lemma split_grants:
  assumes "it_exchange mleg = BITGET" "it_state mleg \<noteq> I_staged"
  shows "grants (it_client_oid mleg) (\<lambda>now. claim_split a now mleg limit)"
  unfolding grants_def
proof (intro allI impI)
  fix now db db' won
  assume "unique_intents db" and run: "claim_split a now mleg limit db = Inr (db', won)"
  then obtain db1 claimed where one: "insert_intent now mleg db = Inr (db1, claimed)"
    and two: "\<not> claimed \<and> db' = db1 \<and> \<not> won \<or> claimed \<and> insert_intent now limit db1 = Inr (db', True) \<and> won"
    by (fastforce simp: claim_split_def bindE_Inr_iff split: if_splits prod.splits)
  show "intents_kept db db' \<and> (won \<longrightarrow> \<not> live_order db (it_client_oid mleg) \<and> live_order db' (it_client_oid mleg))"
  proof (cases claimed)
    case False
    then show ?thesis using two intents_kept_insert [OF one] by simp
  next
    case True
    then have one': "insert_intent now mleg db = Inr (db1, True)" and kept: "intents_kept db1 db'"
      using one two intents_kept_insert by auto
    have "\<not> live_order db (it_client_oid mleg)" using insert_intent_won(1) [OF one'] assms(1) by (simp add: live_order_def)
    then show ?thesis using intents_kept_trans [OF intents_kept_insert [OF one] kept] kept insert_intent_live [OF one' assms]
      by (simp add: intents_kept_def)
  qed
qed

section \<open>Quiet parts\<close>

lemma quietly_repo:
  assumes "others_spare (wk_id c) c" "\<And>now tid db db' a. f now tid db = Inr (db', a) \<Longrightarrow> intents_kept db db'"
  shows "quietly c (repoD c f)"
proof (rule quietlyI)
  fix base T w assume safe: "safe c base T w"
  have "quietly c (dbW c (\<lambda>now. f now (de_uuid c (ww_tick w))))" by (rule quietly_db [OF assms(1)]) (rule assms(2))
  from quietly_calm [OF this safe] show "calm c base T (entries_of (wk_id c) w) (snd (repoD c f w))" by (simp add: repoD_def)
qed

lemma quietly_retire: "others_spare (wk_id c) c \<Longrightarrow> st \<noteq> I_staged \<Longrightarrow> quietly c (retireD c st r)"
  unfolding retireD_def by (rule quietly_store) (simp_all add: retired_def)

lemma quietly_resolve: "others_spare (wk_id c) c \<Longrightarrow> quietly c (resolve_reservation c r outcome)"
  unfolding resolve_reservation_def by (auto intro!: quiet_rules dest: resolve_kept simp: run_simps split: option.split)

lemma quietly_release: "others_spare (wk_id c) c \<Longrightarrow> quietly c (release_reservation c s)"
  unfolding release_reservation_def by (auto intro!: quiet_rules dest: resolve_kept simp: run_simps)

lemma quietly_eligible: "others_spare (wk_id c) c \<Longrightarrow> quietly c (eligibleD c d)"
  unfolding eligibleD_def by (auto intro!: quietly_repo quiet_rules dest: eligible_kept)

lemma quietly_transition: "others_spare (wk_id c) c \<Longrightarrow> quietly c (transitionD c d expected target reason)"
  unfolding transitionD_def by (auto intro!: quietly_repo dest: transition_kept simp: run_simps)

lemma quietly_blocked: "others_spare (wk_id c) c \<Longrightarrow> quietly c (entry_blocked c)"
  unfolding entry_blocked_def unresolvedD_def by (auto intro!: quiet_rules)

lemmas quiet_steps = quietly_retire quietly_resolve quietly_release quietly_eligible quietly_transition quietly_blocked

lemma quietly_veto: "others_spare (wk_id c) c \<Longrightarrow> quietly c (final_entry_veto c d r)"
  unfolding final_entry_veto_def limit_withdrawn_def refuse_entry_def killed_def
  by (auto intro!: quiet_rules quiet_steps split: option.split)

lemma quietly_check: "others_spare (wk_id c) c \<Longrightarrow> quietly c (final_check c d r)"
  unfolding final_check_def by (auto intro!: quiet_rules quietly_veto split: option.split)

lemma quietly_before_claim: "others_spare (wk_id c) c \<Longrightarrow> quietly c (veto_before_claim c d)"
  unfolding veto_before_claim_def by (auto intro!: quiet_rules quiet_steps)

lemma result_state: "it_state (intent_result r res) \<noteq> I_staged" "it_state (readback_result r res) \<noteq> I_staged"
  by (simp_all add: readback_result_def intent_result_def status_intent_state_def split: LiveOrderStatus.split)

lemma quietly_persist: "others_spare (wk_id c) c \<Longrightarrow> quietly c (persist_entry_readback c r res)"
  unfolding persist_entry_readback_def by (auto intro!: quiet_rules quietly_store(2) simp: result_state)

lemma quietly_stored: "others_spare (wk_id c) c \<Longrightarrow> quietly c (reconcile_stored c r)"
  unfolding reconcile_stored_def by (intro quiet_rules quietly_persist)

lemma quietly_waiting: "others_spare (wk_id c) c \<Longrightarrow> quietly c (reconcile_waiting_leg c r limit)"
  unfolding reconcile_waiting_leg_def by (auto intro!: quiet_rules quietly_retire quietly_stored split: prod.split)

lemma quietly_proof:
  assumes "reads_only c"
  shows "quietly c (read_recovery_protection c r d q)"
  unfolding read_recovery_protection_def Let_def using reads_onlyD(2) [OF assms]
  by (auto intro!: quiet_rules simp: quiet_reader_def split: option.split sum.split)

lemma quietly_verdict: "reads_only c \<Longrightarrow> quietly c (split_verdict c d aggregate prove)"
  unfolding split_verdict_def Let_def by (auto intro!: quiet_rules quietly_proof)

lemma quietly_split_failed:
  fixes c :: "('v, 'z) DispatchExec_scheme"
  assumes "others_spare (wk_id c) c"
  shows "quietly c (split_failed c mleg limit e)"
proof -
  have stop: "quietly c (bindW (resolve_reservation c mleg ''UNKNOWN'') (\<lambda>_. raiseW e' :: ('v exec_world, string) prog))" for e'
    using assms by (intro quiet_rules quietly_resolve)
  have veto: "quietly c (bindW (getW c (it_client_oid limit)) (\<lambda>current.
      bindW (case current of Some k \<Rightarrow> if it_state k = I_staged then retireD c I_cancelled k else returnW () | None \<Rightarrow> returnW ()) (\<lambda>_.
        (returnW s :: ('v exec_world, string) prog))))" for s
    using assms by (auto intro!: quiet_rules quietly_retire split: option.split)
  show ?thesis unfolding split_failed_def by (cases e) (simp_all only: Exn.case veto stop)
qed

lemma quietly_replay_split: "reads_only c \<Longrightarrow> quietly c (replay_split c d a b)"
  unfolding replay_split_def using reads_onlyD(1)
  by (auto intro!: quiet_rules quietly_stored quietly_waiting quietly_verdict split: option.split prod.split)

lemma quietly_refetch: "others_spare (wk_id c) c \<Longrightarrow> quietly c (refetch c oid)"
  unfolding refetch_def by (auto intro!: quiet_rules split: option.split)

lemma refetch_oid: "yields (refetch c oid) (\<lambda>r. it_client_oid r = oid)"
proof -
  have "yields (getW c oid) (\<lambda>x. case x of None \<Rightarrow> True | Some r \<Rightarrow> it_client_oid r = oid)"
    by (auto simp: yields_def getW_def queryW_def dbW_def transactW_def stored_record_def get_intent_def LiveIntentRecord.truncate_def
        dest: find_Some_props split: if_splits option.splits)
  then show ?thesis unfolding refetch_def
    by (rule yields_bind) (auto intro: yields_return split: option.splits)
qed

lemma quietly_entry_failed:
  fixes c :: "('v, 'z) DispatchExec_scheme"
  assumes others: "others_spare (wk_id c) c"
  shows "quietly c (entry_failed c r e :: ('v exec_world, string + 'a) prog)"
proof -
  have "quietly c (bindW (attemptW (bindW (updateW c (r\<lparr>it_state := I_unknown\<rparr>)) (\<lambda>_. resolve_reservation c r ''UNKNOWN'')))
      (\<lambda>_. raiseW e' :: ('v exec_world, string + 'a) prog))" for e'
    using others by (intro quiet_rules quietly_store quietly_resolve) simp_all
  then show ?thesis unfolding entry_failed_def by (cases e) (simp_all only: Exn.case quietly_return)
qed

lemma quietly_guarded: "others_spare (wk_id c) c \<Longrightarrow> quietly c p \<Longrightarrow> quietly c (guarded c r p)"
  unfolding guarded_def by (intro quietly_try quietly_entry_failed)

lemma quietly_replay_claimed: "others_spare (wk_id c) c \<Longrightarrow> quietly c (replay_claimed c r)"
  unfolding replay_claimed_def by (auto intro!: quiet_rules quietly_guarded split: option.split sum.split)

lemma quietly_precheck: "others_spare (wk_id c) c \<Longrightarrow> quietly c (entry_precheck c d oid)"
  unfolding entry_precheck_def by (auto intro!: quiet_rules quiet_steps)

lemma quietly_durable: "others_spare (wk_id c) c \<Longrightarrow> quietly c (durable_submission c d s)"
  unfolding durable_submission_def by (auto intro!: quiet_rules split: option.split)

end
