(* ===== verification/Dispatch_Safety.thy ===== *)
theory Dispatch_Safety
  imports Dispatch_Execution
begin

text \<open>
  The dispatch adapter among other workers: however the other processes interleave, an entry, a split
  entry and the close that contains one are each posted at most once, only after their durable claim;
  and recovery, the reservation sweep and the cancellation of waiting entries claim and post nothing.
\<close>

section \<open>Rules\<close>

lemma safely_yield_bind:
  assumes "safely c T m T1" "yields m R" "\<And>x. R x \<Longrightarrow> safely c T1 (f x) T2"
  shows "safely c T (bindW m f) T2"
proof (rule safelyI)
  fix base w assume safe: "safe c base T w"
  obtain r w' where run: "m w = (r, w')" by (cases "m w")
  have mid: "safe c base (if isl r then {} else T1) w'" by (rule safelyD [OF assms(1) safe run])
  show "case bindW m f w of (s, v) \<Rightarrow> safe c base (if isl s then {} else T2) v"
  proof (cases r)
    case (Inl e)
    then show ?thesis using run mid by (simp add: bindW_def)
  next
    case (Inr x)
    then have "R x" using yieldsD [OF assms(2)] run by simp
    obtain s v where rest: "f x w' = (s, v)" by (cases "f x w'")
    have "safe c base (if isl s then {} else T2) v" using safelyD [OF assms(3) [OF \<open>R x\<close>] _ rest] mid Inr by simp
    then show ?thesis using run rest Inr by (simp add: bindW_def)
  qed
qed

lemma safely_quiet_yield: "quietly c m \<Longrightarrow> yields m R \<Longrightarrow> (\<And>x. R x \<Longrightarrow> safely c T (f x) T2) \<Longrightarrow> safely c T (bindW m f) T2"
  by (rule safely_yield_bind [OF quietly_safely])

lemma safely_if: "(b \<Longrightarrow> safely c T p T') \<Longrightarrow> (\<not> b \<Longrightarrow> safely c T q T') \<Longrightarrow> safely c T (if b then p else q) T'"
  by simp

lemma yields_lift: "(\<And>x. v = Inr x \<Longrightarrow> R x) \<Longrightarrow> yields (liftE v) R"
  by (simp add: yields_def liftE_def)

lemma safely_attempt_grant:
  assumes "others_spare (wk_id c) c" "grants oid f" "\<And>e. safely c {} (g (Inl e)) T" "safely c {} (g (Inr False)) T"
    "safely c {oid} (g (Inr True)) T"
  shows "safely c {} (bindW (attemptW (grantW c oid f)) g) T"
proof (rule safelyI)
  fix base w assume safe: "safe c base {} w"
  obtain r w1 where run: "grantW c oid f w = (r, w1)" by (cases "grantW c oid f w")
  have mid: "safe c base (case r of Inr True \<Rightarrow> {oid} | _ \<Rightarrow> {}) w1"
    using safely_grant [OF assms(1,2), unfolded triple_def, rule_format, OF safe] run by (auto split: sum.splits bool.splits)
  have cont: "safely c (case r of Inr True \<Rightarrow> {oid} | _ \<Rightarrow> {}) (g r) T"
    using assms(3-5) by (auto split: sum.split bool.split)
  obtain s v where rest: "g r w1 = (s, v)" by (cases "g r w1")
  show "case bindW (attemptW (grantW c oid f)) g w of (s, v) \<Rightarrow> safe c base (if isl s then {} else T) v"
    using safelyD [OF cont mid rest] run rest by (simp add: bindW_def attemptW_def)
qed

section \<open>Submitting\<close>

lemma safely_guarded_submit: "others_spare (wk_id c) c \<Longrightarrow> safely c {it_client_oid r} (submit_guarded c d r) {}"
  unfolding submit_guarded_def by (intro safely_submit_entry quietly_check)

lemma safely_limit_leg:
  assumes "reads_only c"
  shows "safely c {} (submit_limit_leg c d mleg limit) {}"
proof -
  note others = reads_onlyD(1) [OF assms]
  have posted: "safely c {it_client_oid limit} (bindW (refetch c (it_client_oid limit)) (\<lambda>leg.
      bindW (submit_guarded c d leg) (\<lambda>res. persist_entry_readback c leg res))) {}"
    by (rule safely_quiet_yield [OF quietly_refetch [OF others] refetch_oid])
      (use safely_guarded_submit [OF others] quietly_persist [OF others] in \<open>metis safely_bind quietly_safely\<close>)
  have claimed: "safely c {} (bindW (grantW c (it_client_oid limit) (\<lambda>now. claim_entry_post (de_claim_authority c) (it_client_oid limit)))
      (\<lambda>claimed. if claimed then bindW (refetch c (it_client_oid limit)) (\<lambda>leg.
          bindW (submit_guarded c d leg) (\<lambda>res. persist_entry_readback c leg res))
        else refetch c (it_client_oid limit))) {}"
    by (rule safely_grant_then [OF others entry_post_grants])
      (simp_all add: posted quietly_safely [OF quietly_refetch [OF others]])
  have rest: "quietly c (bindW (liftE (aggregate_split mleg leg)) (\<lambda>aggregate.
     bindW (resolve_reservation c mleg ''FILLED'') (\<lambda>_.
     bindW (reconcile_post_fill c True aggregate (xr_status (aggregate_result aggregate))) (\<lambda>_.
       split_verdict c d aggregate (0 < it_filled_qty leg)))))" for leg
    by (intro quiet_rules quietly_resolve quietly_verdict others assms)
  show ?thesis unfolding submit_limit_leg_def by (rule safely_bind [OF claimed quietly_safely [OF rest]])
qed

lemma safely_market_leg:
  assumes "reads_only c" "it_exchange mleg = BITGET"
  shows "safely c {} (protect_market_leg c d mleg limit st) {}"
proof -
  note others = reads_onlyD(1) [OF assms(1)]
  have stop: "quietly c (bindW (retireD c I_cancelled limit) (\<lambda>_. bindW (resolve_reservation c mleg outcome) (\<lambda>_. returnW x)))" for outcome x
    by (intro quiet_rules quietly_retire quietly_resolve others) simp
  have protect: "safely c {} (bindW (protect_filled_position c mleg plan) (\<lambda>p.
      if \<not> verified_for p (it_filled_qty mleg) \<or> st \<noteq> Order_filled then
        bindW (retireD c I_cancelled limit) (\<lambda>_. bindW (resolve_reservation c mleg ''FILLED'') (\<lambda>_.
          returnW (if \<not> verified_for p (it_filled_qty mleg) then unprotected_status Order_partial (xp_reason p) else ''PARTIAL'')))
      else submit_limit_leg c d mleg limit)) {}" for plan
    by (rule safely_bind [OF safely_protect [OF others assms(2)]])
      (intro safely_if safely_limit_leg [OF assms(1)] quietly_safely [OF stop])
  show ?thesis unfolding protect_market_leg_def
    by (intro safely_if quietly_safely [OF stop] safely_quiet_bind [OF quietly_return(3)] protect)
qed

lemma dispatch_intent_fields:
  assumes "dispatch_intent c d s = Inr r"
  shows "it_exchange r = BITGET" "it_state r = I_requested" "it_client_oid r = dispatch_client_oid c d"
  using assms by (auto simp: dispatch_intent_def checked_def bindE_Inr_iff new_record_def split: if_splits)

lemma split_legs_fields:
  assumes "split_legs c d s route = Inr (mleg, limit)"
  shows "it_exchange mleg = BITGET" "it_state mleg = I_requested" "it_client_oid mleg = dispatch_client_oid c d"
  using assms dispatch_intent_fields by (auto simp: split_legs_def checked_def bindE_Inr_iff split: if_splits)


lemma readback_fields:
  "yields (persist_entry_readback c r res) (\<lambda>r'. it_exchange r' = it_exchange r \<and> it_client_oid r' = it_client_oid r)"
  unfolding persist_entry_readback_def by (auto intro!: yield_rules simp: readback_result_def intent_result_def)

lemma safely_split:
  assumes "reads_only c"
  shows "safely c {} (submit_split c d s route) {}"
proof -
  note others = reads_onlyD(1) [OF assms]
  have posted: "safely c {it_client_oid mleg} (bindW (attemptW (bindW (submit_guarded c d mleg) (\<lambda>res.
        bindW (persist_entry_readback c mleg res) (\<lambda>mleg'. returnW (mleg', xr_status res))))) (\<lambda>x.
      case x of Inl e \<Rightarrow> split_failed c mleg limit e
      | Inr (mleg', st) \<Rightarrow> try_split c mleg' limit (protect_market_leg c d mleg' limit st))) {}"
    if bitget: "it_exchange mleg = BITGET" for mleg limit
  proof -
    have submit: "safely c {it_client_oid mleg} (bindW (submit_guarded c d mleg) (\<lambda>res.
        bindW (persist_entry_readback c mleg res) (\<lambda>mleg'. returnW (mleg', xr_status res)))) {}"
      by (intro safely_bind [OF safely_guarded_submit] others quietly_safely quiet_rules quietly_persist)
    have fields: "yields (bindW (submit_guarded c d mleg) (\<lambda>res.
        bindW (persist_entry_readback c mleg res) (\<lambda>mleg'. returnW (mleg', xr_status res)))) (\<lambda>x. it_exchange (fst x) = BITGET)"
      by (intro yields_then yields_bind [OF readback_fields] yield_rules) (simp add: bitget)
    have split: "safely c {} (try_split c mleg' limit (protect_market_leg c d mleg' limit st)) {}" if "it_exchange mleg' = BITGET" for mleg' st
      unfolding try_split_def by (intro safely_try safely_market_leg assms that quietly_safely quietly_split_failed others)
    show ?thesis
      by (rule safely_yield_bind [OF safely_attempt [OF submit] yields_attempt [OF fields]])
        (auto intro: split quietly_safely [OF quietly_split_failed [OF others]] split: sum.splits)
  qed
  have claimed: "safely c {} (bindW (grantW c (it_client_oid mleg) (\<lambda>now. claim_split (de_claim_authority c) now mleg limit)) (\<lambda>claimed.
      if \<not> claimed then replay_split c d (it_client_oid mleg) (it_client_oid limit)
      else bindW (attemptW (bindW (submit_guarded c d mleg) (\<lambda>res.
        bindW (persist_entry_readback c mleg res) (\<lambda>mleg'. returnW (mleg', xr_status res))))) (\<lambda>x.
      case x of Inl e \<Rightarrow> split_failed c mleg limit e
      | Inr (mleg', st) \<Rightarrow> try_split c mleg' limit (protect_market_leg c d mleg' limit st)))) {}"
    if "it_exchange mleg = BITGET" "it_state mleg = I_requested" for mleg limit
    by (rule safely_grant_then [OF others split_grants])
      (use that posted quietly_safely [OF quietly_replay_split [OF assms]] in simp_all)
  have first: "quietly c (if existing = None then veto_before_claim c d else returnW None)" for existing :: "LiveIntentRecord option"
    by (intro quiet_rules quietly_before_claim others)
  have released: "quietly c (bindW (release_reservation c s) (\<lambda>_. returnW outcome))" for outcome :: string
    by (intro quiet_rules quietly_release others)
  have legs: "safely c {} (case x of (mleg, limit) \<Rightarrow>
      bindW (getW c (it_client_oid mleg)) (\<lambda>existing.
      bindW (if existing = None then veto_before_claim c d else returnW None) (\<lambda>veto.
        case veto of
          Some outcome \<Rightarrow> bindW (release_reservation c s) (\<lambda>_. returnW outcome)
        | None \<Rightarrow>
            bindW (grantW c (it_client_oid mleg) (\<lambda>now. claim_split (de_claim_authority c) now mleg limit)) (\<lambda>claimed.
              if \<not> claimed then replay_split c d (it_client_oid mleg) (it_client_oid limit)
              else bindW (attemptW (bindW (submit_guarded c d mleg) (\<lambda>res.
                bindW (persist_entry_readback c mleg res) (\<lambda>mleg'. returnW (mleg', xr_status res))))) (\<lambda>x.
              case x of Inl e \<Rightarrow> split_failed c mleg limit e
              | Inr (mleg', st) \<Rightarrow> try_split c mleg' limit (protect_market_leg c d mleg' limit st)))))) {}"
    if "it_exchange (fst x) = BITGET \<and> it_state (fst x) = I_requested" for x
    using that by (cases x) (auto intro!: safely_quiet_bind [OF quietly_store(1)] safely_quiet_bind [OF first] claimed
        quietly_safely [OF released] others split: option.split)
  show ?thesis unfolding submit_split_def
    by (rule safely_quiet_yield [OF quietly_return(3) yields_lift legs]) (auto dest: split_legs_fields)
qed

lemma safely_claim_submit:
  assumes "reads_only c" "it_exchange r = BITGET" "it_state r = I_requested"
  shows "safely c {} (claim_and_submit c d r) {}"
proof -
  note others = reads_onlyD(1) [OF assms(1)]
  have submit: "safely c {it_client_oid r} (submit_claimed c d r) {}"
    unfolding submit_claimed_def guarded_def
    by (auto intro!: safely_try safely_quiet_bind [OF quietly_veto] safely_bind [OF safely_guarded_submit] safely_return safely_stop others
        quietly_safely [OF quietly_entry_failed] split: option.split)
  show ?thesis unfolding claim_and_submit_def
    by (rule safely_attempt_grant [OF others claim_grants])
      (use assms in \<open>simp_all add: submit quietly_safely [OF quietly_entry_failed] quietly_safely [OF quietly_replay_claimed] others\<close>)
qed


lemma claim_submit_record:
  assumes "it_exchange r = BITGET"
  shows "yields (claim_and_submit c d r) (\<lambda>x. case x of Inr (True, r', _) \<Rightarrow> it_exchange r' = BITGET | _ \<Rightarrow> True)"
proof -
  have failed: "yields (entry_failed c k e) (\<lambda>x. isl x)" for k e
    by (cases e) (auto simp: entry_failed_def intro!: yield_rules)
  have tried: "yields (guarded c k p) Q" if "yields p Q" "\<And>x. isl x \<Longrightarrow> Q x" for k p Q
    using that(1) yieldsD [OF failed] that(2) by (fastforce simp: guarded_def yields_def tryW_def split: prod.splits sum.splits)
  show ?thesis unfolding claim_and_submit_def submit_claimed_def replay_claimed_def
    by (auto intro!: yield_rules tried yields_mono [OF failed] simp: assms split: sum.split option.split)
qed

lemma safely_settle:
  assumes "reads_only c" "claimed \<Longrightarrow> it_exchange r = BITGET"
  shows "safely c {} (settle_entry c d claimed r res) {}"
proof -
  note others = reads_onlyD(1) [OF assms(1)]
  have protect: "safely c {} (protect_entry c d claimed k res) {}" if "it_exchange k = it_exchange r" for k
    unfolding protect_entry_def
    by (intro safely_if safely_quiet_bind [OF quietly_return(3)] safely_protect others quietly_safely quietly_proof assms(1))
      (simp add: assms(2) that)
  show ?thesis unfolding settle_entry_def
    by (intro safely_quiet_yield [OF quietly_persist readback_fields] safely_quiet_bind [OF quietly_post_fill]
        safely_quiet_bind [OF quietly_resolve] safely_if safely_return others safely_bind [OF safely_attempt] protect) simp
qed

lemma safely_single:
  assumes "reads_only c"
  shows "safely c {} (submit_single c d s) {}"
proof -
  note others = reads_onlyD(1) [OF assms]
  have settled: "safely c {} (case x of Inl outcome \<Rightarrow> returnW outcome | Inr (claimed, r', res) \<Rightarrow> settle_entry c d claimed r' res) {}"
    if "case x of Inr (True, r', _) \<Rightarrow> it_exchange r' = BITGET | _ \<Rightarrow> True" for x
    using that by (auto intro!: safely_return safely_settle assms split: sum.splits bool.splits)
  have submit: "safely c {} (bindW (claim_and_submit c d r) (\<lambda>x. case x of Inl outcome \<Rightarrow> returnW outcome
      | Inr (claimed, r', res) \<Rightarrow> settle_entry c d claimed r' res)) {}" if "it_exchange r = BITGET \<and> it_state r = I_requested" for r
    by (rule safely_yield_bind [OF safely_claim_submit claim_submit_record settled]) (use that assms in auto)
  have rest: "safely c {} (bindW (entry_precheck c d (it_client_oid r)) (\<lambda>refused. case refused of Some outcome \<Rightarrow> returnW outcome
      | None \<Rightarrow> bindW (claim_and_submit c d r) (\<lambda>x. case x of Inl outcome \<Rightarrow> returnW outcome
          | Inr (claimed, r', res) \<Rightarrow> settle_entry c d claimed r' res))) {}"
    if "it_exchange r = BITGET \<and> it_state r = I_requested" for r
    by (rule safely_quiet_bind [OF quietly_precheck [OF others]]) (auto intro!: submit [OF that] safely_return split: option.split)
  show ?thesis unfolding submit_single_def
    by (rule safely_quiet_yield [OF quietly_return(3) yields_lift rest]) (auto dest: dispatch_intent_fields)
qed

lemma safely_dispatch:
  assumes "reads_only c"
  shows "safely c {} (dispatch_submit_entry c d s) {}"
  unfolding dispatch_submit_entry_def
  by (rule safely_quiet_bind [OF quietly_durable [OF reads_onlyD(1) [OF assms]]])
    (auto intro: safely_single safely_split assms split: option.split)

section \<open>Recovery, sweep and cancellation\<close>

lemma quietly_with_reader:
  "others_spare (wk_id c) c \<Longrightarrow> (\<And>reader. de_reader c = Some reader \<Longrightarrow> quietly c (f reader)) \<Longrightarrow> quietly c (with_reader c f)"
  unfolding with_reader_def by (auto intro: quietly_return split: option.split)

lemma quietly_readback_whole: "reads_only c \<Longrightarrow> quietly c (recover_readback c r limit)"
  unfolding recover_readback_def using reads_onlyD(1)
  by (auto intro!: quiet_rules quietly_waiting quietly_stored split: option.split prod.split)

lemma quietly_close_records: "others_spare (wk_id c) c \<Longrightarrow> quietly c (close_records c r)"
  unfolding close_records_def by (auto intro!: quiet_rules)

lemma quietly_closed_lifecycle:
  assumes "reads_only c"
  shows "quietly c (closed_lifecycle_reason c r)"
proof -
  have flat: "quietly c (flat symbol)" if "Option.bind (de_reader c) rp_position_is_flat = Some flat" for flat symbol
    using that reads_onlyD(2) [OF assms] by (auto simp: quiet_reader_def Option.bind_eq_Some_conv)
  show ?thesis unfolding closed_lifecycle_reason_def
    using reads_onlyD(1) [OF assms] by (auto intro!: quiet_rules quietly_close_records flat quietly_store(2) split: option.split)
qed

lemma quietly_native_close: "reads_only c \<Longrightarrow> quietly c (resolve_native_close c r)"
  unfolding resolve_native_close_def by (auto intro!: quiet_rules dest: reads_onlyD(3) split: option.split)

lemma quietly_remaining: "others_spare (wk_id c) c \<Longrightarrow> quietly c (remainingD c oid)"
  unfolding remainingD_def by (rule quietly_db) (auto simp: bindE_Inr_iff intro: intents_kept_same)

lemma quietly_recovery_reason: "reads_only c \<Longrightarrow> quietly c (recovery_reason c d oid r res)"
  unfolding recovery_reason_def using reads_onlyD(1) by (auto intro!: quiet_rules quietly_remaining quietly_proof)

lemma quietly_recover_outcome:
  assumes "reads_only c"
  shows "quietly c (recover_settled c d r reason)" "quietly c (recover_open c d oid has_limit r res)"
  unfolding recover_settled_def recover_open_def Let_def
  by (intro quiet_rules quietly_transition quietly_resolve quietly_recovery_reason reads_onlyD(1) [OF assms] assms)+

lemma quietly_recover_one:
  assumes "reads_only c"
  shows "quietly c (recover_one c d oid)"
  unfolding recover_one_def Let_def using reads_onlyD(1) [OF assms]
  by (auto intro!: quiet_rules quietly_readback_whole quietly_native_close quietly_closed_lifecycle quietly_recover_outcome assms
      split: option.split prod.split)

lemma quietly_recover_all: "reads_only c \<Longrightarrow> quietly c (recover_all c ds)"
  by (induction ds) (auto intro!: quiet_rules quietly_recover_one)

lemma quietly_unresolved: "others_spare (wk_id c) c \<Longrightarrow> quietly c (unresolvedD c)"
  unfolding unresolvedD_def by (auto intro!: quiet_rules)

lemma quietly_recover_lifecycles:
  assumes "reads_only c"
  shows "quietly c (recover_entry_lifecycles c)"
proof -
  note others = reads_onlyD(1) [OF assms]
  have candidates: "quietly c (dbW c (\<lambda>now db. bindE (recovery_candidates (de_console_enabled c) db) (\<lambda>cs. Inr (db, cs))))"
    by (rule quietly_db [OF others]) (auto simp: bindE_Inr_iff intro: intents_kept_same)
  have inventory: "quietly c (inventoryD c)"
    unfolding inventoryD_def using reads_onlyD(2) [OF assms] others
    by (auto intro!: quiet_rules simp: quiet_reader_def Option.bind_eq_Some_conv split: option.split)
  show ?thesis unfolding recover_entry_lifecycles_def Let_def
    using reads_onlyD(2) [OF assms] others
    by (auto intro!: quiet_rules candidates inventory quietly_with_reader quietly_recover_all quietly_unresolved assms simp: quiet_reader_def)
qed

lemma quietly_option: "quietly c p \<Longrightarrow> (\<And>y. quietly c (f y)) \<Longrightarrow> quietly c (case x of None \<Rightarrow> p | Some y \<Rightarrow> f y)"
  by (cases x) simp_all

lemma quietly_escalate: "others_spare (wk_id c) c \<Longrightarrow> quietly c (if expired then dbW c (\<lambda>now db. unitT (escalate_expired now rid db)) else returnW ())"
  by (intro quiet_rules) (auto simp: run_simps dest: resolve_kept(2))

lemma quietly_sweep_one:
  assumes "others_spare (wk_id c) c"
  shows "quietly c (sweep_one c rid oid expired)"
proof -
  have rest: "quietly c (bindW (if expired then dbW c (\<lambda>now db. unitT (escalate_expired now rid db)) else returnW ()) (\<lambda>_. returnW n))" for n :: nat
    by (intro quietly_bind quietly_escalate assms quietly_return)
  have swept: "quietly c (case x of (r', res) \<Rightarrow> bindW (reconcile_post_fill c True r' (xr_status res)) (\<lambda>_.
      if xr_status res \<in> {Order_filled, Order_partial, Order_rejected}
      then bindW (resolve_reservation c r' (dispatcher_status (xr_status res))) (\<lambda>_. returnW 1)
      else bindW (if expired then dbW c (\<lambda>now db. unitT (escalate_expired now rid db)) else returnW ()) (\<lambda>_. returnW (0 :: nat))))" for x
    by (cases x) (simp only: prod.case, intro quietly_bind quietly_post_fill quietly_if rest quietly_resolve quietly_return assms)
  show ?thesis unfolding sweep_one_def Let_def
    by (intro quietly_bind [OF quietly_store(1)] quietly_option rest quietly_try quietly_bind [OF quietly_stored] swept
        quietly_bind [OF quietly_resolve] assms)
qed

lemma quietly_sweep: "others_spare (wk_id c) c \<Longrightarrow> quietly c (sweep_all c rs)"
  by (induction rs) (auto intro!: quiet_rules quietly_sweep_one)

lemma quietly_reservations:
  assumes "reads_only c"
  shows "quietly c (reconcile_active_reservations c)"
  unfolding reconcile_active_reservations_def using reads_onlyD(1) [OF assms]
  by (auto intro!: quiet_rules quietly_recover_lifecycles quietly_sweep assms intro: intents_kept_same)

lemma quietly_cancel_claim: "reads_only c \<Longrightarrow> quietly c (claim_cancel_postD c oid)"
  unfolding claim_cancel_postD_def using reads_onlyD(1)
  by (auto intro!: quiet_rules dest: cancel_kept reads_onlyD(4) split: option.split)

lemma quietly_cancel_parts:
  assumes "reads_only c"
  shows "quietly c (cancel_or_read c read_only r)" "quietly c (mark_cancel c read_only management oid)"
  unfolding cancel_or_read_def mark_cancel_def using reads_onlyD(1) [OF assms]
  by (auto intro!: quiet_rules quietly_cancel_claim quietly_persist assms dest: cancel_kept)

lemma quietly_cancel_entry:
  assumes "reads_only c"
  shows "quietly c (cancel_entry c read_only symbol management r)"
  unfolding cancel_entry_def cancel_single_def cancel_split_def cancelled_leg_def
  using reads_onlyD(1) [OF assms] reads_onlyD(2) [OF assms]
  by (auto intro!: quiet_rules quietly_cancel_parts quietly_resolve quietly_stored assms simp: quiet_reader_def split: option.split prod.split)

lemma quietly_cancel_all: "reads_only c \<Longrightarrow> quietly c (cancel_all c read_only symbol management rs)"
  by (induction rs) (auto intro!: quiet_rules quietly_cancel_entry)

lemma quietly_cancel_pending:
  assumes "reads_only c"
  shows "quietly c (cancel_pending_entries c symbol management read_only)"
proof -
  have pending: "quietly c (pendingD c symbol m)" for m
    unfolding pendingD_def by (rule quietly_db [OF reads_onlyD(1) [OF assms]]) (auto simp: bindE_Inr_iff intro: intents_kept_same)
  show ?thesis unfolding cancel_pending_entries_def
    using reads_onlyD(2) [OF assms] reads_onlyD(1) [OF assms]
    by (auto intro!: quiet_rules quietly_with_reader pending quietly_cancel_all assms simp: quiet_reader_def)
qed


section \<open>Verdicts\<close>

text \<open>What a protected verdict rests on: the venue's own reads for an entry submitted by this call, the recovery
  reader's for one replayed.\<close>

definition protection_shown ::
  "('v, 'z) DispatchExec_scheme \<Rightarrow> BitgetDispatch \<Rightarrow> bool \<Rightarrow> LiveIntentRecord \<Rightarrow> dec \<Rightarrow> bool" where
  "protection_shown c d claimed r quantity \<longleftrightarrow>
     (if claimed then \<exists>plan. dispatch_protection_plan d r quantity = Inr plan \<and> pp_quantity plan = quantity \<and> venue_protects c r plan
      else \<exists>reader plan w1 p w2. dispatch_protection_plan d r (it_filled_qty r) = Inr plan \<and> de_reader c = Some reader
         \<and> rp_read reader r plan w1 = (Inr p, w2) \<and> verified_for p quantity)"

lemma protection_plan_quantity: "dispatch_protection_plan d r q = Inr plan \<Longrightarrow> pp_quantity plan = q"
  by (auto simp: dispatch_protection_plan_def make_protection_plan_def bindE_Inr_iff Let_def split: option.splits if_splits)

lemma unproven_words:
  "unprotected_status st reason \<noteq> ''FILLED''" "unprotected_status st reason \<noteq> ''PARTIAL''"
  "unproven_fill_status st \<noteq> ''FILLED''" "unproven_fill_status st \<noteq> ''PARTIAL''"
  "dispatcher_status st = ''FILLED'' \<longleftrightarrow> st = Order_filled" "dispatcher_status st = ''PARTIAL'' \<longleftrightarrow> st = Order_partial"
  by (auto simp: unprotected_status_def unproven_fill_status_def Let_def dispatcher_status_def split: LiveOrderStatus.split)

lemma reader_vouches: "yields (read_recovery_protection c r d None) (\<lambda>p. verified_for p quantity \<longrightarrow> protection_shown c d False r quantity)"
proof -
  have degraded: "\<not> verified_for (protection_result P_degraded target reason) quantity" for target reason
    by (simp add: verified_for_def)
  have read: "yields (rp_read reader r plan) (\<lambda>p. \<exists>w1 w2. rp_read reader r plan w1 = (Inr p, w2))" for reader plan
    by (auto simp: yields_def)
  have vouch: "yields (case de_reader c of
      None \<Rightarrow> returnW (protection_result P_degraded target ''recovery-reader-unwired'')
    | Some reader \<Rightarrow> bindW (attemptW (rp_read reader r plan)) (\<lambda>x. case x of Inr res \<Rightarrow> returnW res
        | Inl e \<Rightarrow> returnW (protection_result P_degraded target (''recovery-read-error:'' @ exn_name e))))
      (\<lambda>p. verified_for p quantity \<longrightarrow> protection_shown c d False r quantity)"
    if "dispatch_protection_plan d r (it_filled_qty r) = Inr plan" for plan target
    using that by (cases "de_reader c")
      (auto intro!: yields_return yields_attempt_bind [OF read] simp: degraded protection_shown_def, blast)
  show ?thesis unfolding read_recovery_protection_def Let_def
    by (auto intro!: yields_if yields_return yields_bind [OF yields_lift [where R = "\<lambda>plan. dispatch_protection_plan d r (it_filled_qty r) = Inr plan"] vouch] simp: degraded)
qed

lemma protect_entry_shown:
  "yields (protect_entry c d claimed r res) (\<lambda>p. verified_for p (xr_filled_qty res) \<longrightarrow> protection_shown c d claimed r (xr_filled_qty res))"
proof (cases claimed)
  case True
  have "yields (bindW (liftE (dispatch_protection_plan d r (xr_filled_qty res))) (protect_filled_position c r))
      (\<lambda>p. verified_for p (xr_filled_qty res) \<longrightarrow> protection_shown c d True r (xr_filled_qty res))"
    by (rule yields_bind [OF yields_lift [where R = "\<lambda>plan. dispatch_protection_plan d r (xr_filled_qty res) = Inr plan"]])
      (auto intro!: yields_mono [OF sound_protect] dest: protection_plan_quantity simp: sound_result_def verified_for_def protection_shown_def)
  then show ?thesis using True by (simp add: protect_entry_def)
next
  case False
  then show ?thesis using reader_vouches by (simp add: protect_entry_def)
qed

lemma persisted_record: "yields (persist_entry_readback c r res) (\<lambda>r'. r' = readback_result r res)"
  unfolding persist_entry_readback_def by (auto intro!: yield_rules)

lemma settle_entry_shown:
  "yields (settle_entry c d claimed r res) (\<lambda>out. out \<in> {''FILLED'', ''PARTIAL''} \<longrightarrow>
     protection_shown c d claimed (readback_result r res) (xr_filled_qty res))"
  unfolding settle_entry_def
  by (rule yields_bind [OF persisted_record], rule yields_then, rule yields_then, rule yields_if, rule yields_return)
    (auto simp: unproven_words intro!: yields_return yields_attempt_bind [OF protect_entry_shown])

lemma quietly_yield_bind:
  assumes "quietly c m" "yields m R" "\<And>x. R x \<Longrightarrow> quietly c (f x)"
  shows "quietly c (bindW m f)"
proof (rule quietlyI)
  fix base T w assume safe: "safe c base T w"
  obtain r w' where run: "m w = (r, w')" by (cases "m w")
  have mid: "calm c base T (entries_of (wk_id c) w) w'" using quietly_calm [OF assms(1) safe] run by simp
  show "calm c base T (entries_of (wk_id c) w) (snd (bindW m f w))"
  proof (cases r)
    case (Inl e)
    then show ?thesis using run mid by (simp add: bindW_def)
  next
    case (Inr x)
    then have "quietly c (f x)" using yieldsD [OF assms(2)] run assms(3) by simp
    moreover have "safe c base T w'" "entries_of (wk_id c) w' = entries_of (wk_id c) w" using mid by (simp_all add: calm_def)
    ultimately show ?thesis using quietly_calm [of c "f x" base T w'] run Inr by (simp add: bindW_def)
  qed
qed

lemma quiet_unless_protected:
  assumes "others_spare (wk_id c) c" "\<not> ec_emergency_containment_enabled c"
    "\<not> (st = Order_filled \<and> (\<exists>plan. dispatch_protection_plan d mleg (it_filled_qty mleg) = Inr plan \<and> venue_protects c mleg plan))"
  shows "quietly c (protect_market_leg c d mleg limit st)"
proof -
  have stop: "quietly c (bindW (retireD c I_cancelled limit) (\<lambda>_. bindW (resolve_reservation c mleg outcome) (\<lambda>_. returnW x)))"
    for outcome and x :: string
    by (intro quiet_rules quietly_retire quietly_resolve assms(1)) simp
  have stopped: "quietly c (if \<not> verified_for p (it_filled_qty mleg) \<or> st \<noteq> Order_filled then
        bindW (retireD c I_cancelled limit) (\<lambda>_. bindW (resolve_reservation c mleg ''FILLED'') (\<lambda>_.
          returnW (if \<not> verified_for p (it_filled_qty mleg) then unprotected_status Order_partial (xp_reason p) else ''PARTIAL'')))
      else submit_limit_leg c d mleg limit)"
    if "dispatch_protection_plan d mleg (it_filled_qty mleg) = Inr plan" "sound_result c mleg plan p" for plan p
    using that assms(3) stop by (auto simp: verified_for_def sound_result_def)
  show ?thesis unfolding protect_market_leg_def
    by (rule quietly_if [OF stop], rule quietly_yield_bind [OF quietly_return(3) yields_lift], assumption)
      (rule quietly_yield_bind [OF quietly_protect [OF assms(1,2)] sound_protect stopped])
qed

lemma find_update_general: "(\<And>i. P (g i) = P i) \<Longrightarrow> List.find P (update_where p g is) = map_option (\<lambda>i. if p i then g i else i) (List.find P is)"
  by (induction "is") auto

lemma updated_row:
  assumes "update_intent now r db = Inr db'" "get_intent db (it_client_oid r) = Some i" "readback_target r i"
  shows "get_intent db' (it_client_oid r) = Some (readback_row r i)"
proof -
  have "db_intents db' = update_where (readback_target r) (readback_row r) (db_intents db)"
    using assms(1) by (auto simp: update_intent_def Let_def bindE_Inr_iff update_intents_def split: if_splits
        dest!: insert_provider_fills_intents insert_status_derived_fill_props)
  then show ?thesis using assms(2,3) by (simp add: get_intent_def find_update_general readback_row_def)
qed

section \<open>Examples\<close>

text \<open>A split entry at a venue that fills the market leg, shows its protection, and keeps the limit leg waiting.\<close>

definition sample_dispatch_exec :: "rat DispatchExec" where
  "sample_dispatch_exec = ExecClient.extend (ExecClient.truncate sample_exec\<lparr>
     ec_get_account := (\<lambda>symbol. returnW (JObj [(''available'', JStr ''8''), (''usdtEquity'', JStr ''8''), (''accountEquity'', JStr ''8''),
        (''marginCoin'', JStr ''USDT''), (''marginMode'', JStr ''isolated''), (''posMode'', JStr ''one_way_mode''),
        (''isolatedLongLever'', JStr ''10''), (''isolatedShortLever'', JStr ''10'')])),
     ec_get_order_detail := (\<lambda>symbol oid. returnW (JObj (if oid = ''live-bitget-ZRO-d''
        then [(''orderId'', JStr ''o1''), (''state'', JStr ''filled''), (''clientOid'', JStr oid), (''filledQty'', JStr ''2''), (''avgPrice'', JStr ''1.6'')]
        else [(''orderId'', JStr ''o2''), (''state'', JStr ''live''), (''clientOid'', JStr oid), (''symbol'', JStr ''ZRO''), (''side'', JStr ''buy''),
          (''orderType'', JStr ''limit''), (''reduceOnly'', JStr ''NO''), (''price'', JStr ''1.58''), (''size'', JStr ''6'')]))),
     ec_get_single_position := (\<lambda>symbol. returnW (JList [JObj [(''symbol'', JStr ''ZRO''), (''holdSide'', JStr ''long''), (''total'', JStr ''2''),
        (''marginMode'', JStr ''isolated''), (''posMode'', JStr ''one_way_mode'')]])),
     ec_get_pending_plan_orders := (\<lambda>symbol. returnW (JList [
        JObj [(''planType'', JStr ''pos_loss''), (''symbol'', JStr ''ZRO''), (''posSide'', JStr ''long''), (''planStatus'', JStr ''live''),
          (''orderId'', JStr ''p1''), (''clientOid'', JStr ''live-bitget-ZRO-d-sl''), (''triggerPrice'', JStr ''1.57''),
          (''triggerType'', JStr ''mark_price''), (''size'', JStr '''')],
        JObj [(''planType'', JStr ''pos_profit''), (''symbol'', JStr ''ZRO''), (''posSide'', JStr ''long''), (''planStatus'', JStr ''live''),
          (''orderId'', JStr ''p2''), (''clientOid'', JStr ''live-bitget-ZRO-d-tp''), (''triggerPrice'', JStr ''1.7''),
          (''triggerType'', JStr ''mark_price''), (''size'', JStr '''')]])),
     ec_place_position_tpsl := (\<lambda>symbol side q sl tp sl_oid tp_oid. returnW (JList [
        JObj [(''stopLossClientOid'', JStr sl_oid), (''orderId'', JStr ''p1'')],
        JObj [(''stopSurplusClientOid'', JStr ''live-bitget-ZRO-d-tp''), (''orderId'', JStr ''p2'')]]))\<rparr>)
     (DispatchExec.fields None False False False None None None False [] (\<lambda>s. ''d'') (\<lambda>d. ''d'') int)"

definition split_submission :: BitgetEntrySubmission where
  "split_submission = sample_submission\<lparr>es_quantity := 8,
     es_entry_route := Some \<lparr>er_mode = SPLIT_MARKET_LIMIT, er_market_quantity = 2, er_limit_quantity = 6, er_limit_price = Some (158 / 100), er_reason = ''r''\<rparr>\<rparr>"

definition split_dispatch :: BitgetDispatch where
  "split_dispatch = dispatch_from_row (hd (db_dispatches queue_db)) (hd (db_signals queue_db)) (hd (db_messages queue_db)) ''r''"

definition split_world :: "rat Process WorkerWorld" where
  "split_world = sample_exec_world\<lparr>ww_db := queue_db\<lparr>db_reservations := [exposed_row\<lparr>rs_state := R_reserved, rs_has_exposure := False,
     rs_client_order_id := ''live-bitget-ZRO-d'', rs_symbol := Some ''ZRO''\<rparr>]\<rparr>\<rparr>"

definition split_run :: "(Exn, string) raises \<times> rat Process WorkerWorld" where
  "split_run = dispatch_submit_entry sample_dispatch_exec split_dispatch split_submission split_world"

lemma sample_fields:
  "de_reader sample_dispatch_exec = None" "de_native_close_resolver sample_dispatch_exec = None"
  "de_console_cancel_claim sample_dispatch_exec = None" "wk_others sample_dispatch_exec = (\<lambda>n w. w)"
  by (simp_all add: sample_dispatch_exec_def sample_exec_def ExecClient.defs DispatchExec.defs)

lemma sample_reads_only: "reads_only sample_dispatch_exec" "wk_id sample_dispatch_exec = 1" "\<not> ec_emergency_containment_enabled sample_dispatch_exec"
  by (simp_all add: sample_dispatch_exec_def sample_exec_def reads_only_def others_spare_def spares_def ExecClient.defs DispatchExec.defs)

lemma split_world_ok: "orders_ok split_world"
  by (simp add: orders_ok_def split_world_def sample_exec_world_def unique_intents_def queue_db_def admit_db_def empty_db_def)

lemma split_run_result:
  "fst split_run = Inr ''PARTIAL'' \<and> ww_posts (snd split_run) = [(1, ''live-bitget-ZRO-d''), (1, ''live-bitget-ZRO-d-limit'')]"
  by code_simp

section \<open>Properties\<close>

text \<open>
  C3: however the dispatcher, the other processes, the venue and the database interleave, submitting an entry, single or
  split, first attempt or replay, leaves every client order id posted at most once and only after its
  durable claim, and other workers' claims and posts untouched; this covers the entry, both legs of a
  split and the close that contains an unprotected position.
\<close>

theorem entry_posted_once:
  assumes "reads_only c" and "orders_ok w" and "dispatch_submit_entry c d s w = (res, w')"
  shows "orders_ok w' \<and> distinct (map snd (ww_posts w'))
    \<and> (\<forall>k. k \<noteq> wk_id c \<and> others_spare k c \<longrightarrow> entries_of k w' = entries_of k w)"
proof -
  have "snd (dispatch_submit_entry c d s w) = w'" using assms(3) by simp
  then show ?thesis by (rule safely_posted_once [OF safely_dispatch [OF assms(1)] assms(2)])
qed

theorem entry_posted_once_witness:
  "fst split_run = Inr ''PARTIAL'' \<and> orders_ok (snd split_run)
   \<and> ww_posts (snd split_run) = [(1, ''live-bitget-ZRO-d''), (1, ''live-bitget-ZRO-d-limit'')]"
proof -
  have run: "dispatch_submit_entry sample_dispatch_exec split_dispatch split_submission split_world = (fst split_run, snd split_run)"
    by (simp add: split_run_def)
  from entry_posted_once [OF sample_reads_only(1) split_world_ok run] split_run_result show ?thesis by blast
qed

text \<open>
  Recovery repairs by reads. Whatever it finds and whatever fails, the recovery of entry lifecycles (or the
  reservation sweep when there is no dispatch repository) and the cancellation of waiting entries claim and post
  no order: the adapter's entries of the log stay as they were.
\<close>

theorem recovery_posts_nothing:
  assumes "reads_only c" and "orders_ok w"
  shows "entries_of (wk_id c) (snd (reconcile_active_reservations c w)) = entries_of (wk_id c) w
    \<and> entries_of (wk_id c) (snd (cancel_pending_entries c symbol management read_only w)) = entries_of (wk_id c) w"
  using quietly_entries [OF quietly_reservations [OF assms(1)] assms(2) prod.collapse [symmetric]]
    quietly_entries [OF quietly_cancel_pending [OF assms(1)] assms(2) prod.collapse [symmetric]] by blast

definition swept_exec :: "rat DispatchExec" where
  "swept_exec = sample_dispatch_exec\<lparr>de_reservations := True\<rparr>"

definition split_market :: LiveIntentRecord where
  "split_market = fst (projr (split_legs sample_dispatch_exec split_dispatch split_submission (the (es_entry_route split_submission))))"

definition split_limit :: LiveIntentRecord where
  "split_limit = snd (projr (split_legs sample_dispatch_exec split_dispatch split_submission (the (es_entry_route split_submission))))"

definition claimed_world :: "rat Process WorkerWorld" where
  "claimed_world = split_world\<lparr>ww_db := (ww_db split_world)\<lparr>db_intents := [stored_row 5 split_market, stored_row 5 split_limit]\<rparr>,
     ww_wins := [(1, ''live-bitget-ZRO-d'')], ww_posts := [(1, ''live-bitget-ZRO-d'')]\<rparr>"

lemma claimed_world_ok: "orders_ok claimed_world"
  unfolding orders_ok_def by code_simp

theorem recovery_posts_nothing_witness:
  "fst (reconcile_active_reservations swept_exec claimed_world) = Inr 1
   \<and> entries_of 1 (snd (reconcile_active_reservations swept_exec claimed_world)) = ([(1, ''live-bitget-ZRO-d'')], [(1, ''live-bitget-ZRO-d'')])"
proof -
  have "reads_only swept_exec" "wk_id swept_exec = 1"
    using sample_reads_only(2) by (simp_all add: swept_exec_def reads_only_def others_spare_def spares_def sample_fields)
  moreover have "entries_of 1 claimed_world = ([(1, ''live-bitget-ZRO-d'')], [(1, ''live-bitget-ZRO-d'')])"
    by (simp add: entries_of_def claimed_world_def)
  moreover have "fst (reconcile_active_reservations swept_exec claimed_world) = Inr 1" by code_simp
  ultimately show ?thesis using recovery_posts_nothing [OF _ claimed_world_ok, of swept_exec] by simp
qed


definition filled_market :: LiveIntentRecord where
  "filled_market = split_market\<lparr>it_state := I_filled, it_filled_qty := 2, it_avg_price := Some (8 / 5)\<rparr>"

definition leg_run :: "(Exn, string) raises \<times> rat Process WorkerWorld" where
  "leg_run = protect_market_leg sample_dispatch_exec split_dispatch filled_market split_limit Order_filled claimed_world"


text \<open>
  C7: a filled verdict is never a guess. When the settlement of a single entry answers FILLED or PARTIAL,
  the protection of exactly the filled quantity was shown, by the venue's reads for an entry this call submitted, by the
  recovery reader for a replayed one; every other filled outcome carries an unprotected or locally-managed mark.
\<close>

theorem filled_verdict_shown:
  assumes "settle_entry c d claimed r res w = (Inr out, w')" and "out = ''FILLED'' \<or> out = ''PARTIAL''"
  shows "protection_shown c d claimed (readback_result r res) (xr_filled_qty res)"
  using yieldsD [OF settle_entry_shown assms(1)] assms(2) by simp

definition single_result :: AsyncExecutionResult where
  "single_result = (aggregate_result filled_market)\<lparr>xr_status := Order_filled, xr_filled_qty := 2, xr_avg_price := Some (8 / 5)\<rparr>"

theorem filled_verdict_shown_witness:
  "protection_shown sample_dispatch_exec split_dispatch True (readback_result split_market single_result) 2"
proof -
  have "fst (settle_entry sample_dispatch_exec split_dispatch True split_market single_result claimed_world) = Inr ''FILLED''" by code_simp
  then have run: "settle_entry sample_dispatch_exec split_dispatch True split_market single_result claimed_world
      = (Inr ''FILLED'', snd (settle_entry sample_dispatch_exec split_dispatch True split_market single_result claimed_world))"
    by (metis prod.collapse)
  have "xr_filled_qty single_result = 2" by (simp add: single_result_def)
  then show ?thesis using filled_verdict_shown [OF run] by simp
qed


definition waiting_filled :: LiveIntentRecord where
  "waiting_filled = split_limit\<lparr>it_state := I_filled, it_filled_qty := 6, it_avg_price := Some (158 / 100)\<rparr>"


end
