(* ===== verification/Recovery_Reader.thy ===== *)
theory Recovery_Reader
  imports Dispatch_Safety
begin

text \<open>
  \<open>execution/bitget_protection_recovery.py\<close>: the reader the service hands to the dispatch adapter. It
  proves the native protection of a recovered entry by reads, compares the account's positions and
  pending orders with what is owned, retires reservations of symbols the venue shows empty and settles
  protection orders the venue no longer holds. The positions it has verified in this pass are memory
  of the process, \<open>rv_verified\<close>, beside the venue. The repository is the one the service wires, with
  every optional method; the intent store and the reservations may be missing. Printed lines are left out.
\<close>

section \<open>Payloads\<close>

text \<open>\<open>payload.get("data") if isinstance(payload, dict) else payload\<close>.\<close>

definition payload_rows :: "JSON \<Rightarrow> JSON" where
  "payload_rows payload = (case payload of JObj d \<Rightarrow> get_key d ''data'' | v \<Rightarrow> v)"

definition row_open :: "JSON \<Rightarrow> dec option" where
  "row_open v =
     Option.bind (as_dict v) (\<lambda>row. Option.bind (to_decimal (get_first row [''total'', ''size''] JNull))
       (\<lambda>q. if q < 0 then None else Some q))"

definition position_quantity :: "JSON \<Rightarrow> dec option" where
  "position_quantity payload =
     (case payload_rows payload of
        JList rows \<Rightarrow> map_option (\<lambda>qs. dec_sum qs 0) (those (map row_open rows))
      | _ \<Rightarrow> None)"

definition is_empty_payload :: "JSON \<Rightarrow> bool" where
  "is_empty_payload payload \<longleftrightarrow> payload_rows payload = JList []"

definition row_symbol :: "payload \<Rightarrow> string option" where
  "row_symbol row = (case get_key row ''symbol'' of JStr s \<Rightarrow> if s = [] then None else Some s | _ \<Rightarrow> None)"

definition rows_for_symbol :: "JSON \<Rightarrow> string \<Rightarrow> payload list option" where
  "rows_for_symbol payload symbol =
     (case dict_list (payload_rows payload) of
        None \<Rightarrow> None
      | Some rows \<Rightarrow>
          if list_ex (\<lambda>row. row_symbol row = None) rows then None
          else Some (filter (\<lambda>row. map_option str_upper (row_symbol row) = Some (str_upper symbol)) rows))"

section \<open>The reader\<close>

type_synonym position_key = "JSON \<times> string option \<times> dec"

text \<open>What the reader keeps in memory, by client order id, and the venue.\<close>

record 'u ReaderVenue =
  rv_verified :: "(string \<times> position_key) list"
  rv_venue :: 'u

record 'u ReaderWiring =
  rw_get_all_positions :: "('u, JSON) prog"
  rw_get_pending_orders :: "('u, JSON) prog"
  rw_account_info :: "('u, JSON) prog option"
  rw_environment :: string
  rw_intent_store :: bool
  rw_reservations :: bool

text \<open>A call of the venue client.\<close>

definition at_venue :: "('u, 'a) prog \<Rightarrow> ('u ReaderVenue, 'a) prog" where
  "at_venue p s = (case p (rv_venue s) of (r, v) \<Rightarrow> (r, s\<lparr>rv_venue := v\<rparr>))"

definition readR :: "('u ReaderVenue, 'z) DispatchExec_scheme \<Rightarrow> ('u, 'a) prog \<Rightarrow> ('u ReaderVenue exec_world, 'a) prog" where
  "readR c p = apiW c (at_venue p)"

definition verifiedR :: "('u ReaderVenue exec_world, position_key list) prog" where
  "verifiedR = processW (\<lambda>s. map snd (rv_verified (pw_venue s)))"

definition set_verifiedR ::
  "((string \<times> position_key) list \<Rightarrow> (string \<times> position_key) list) \<Rightarrow> ('u ReaderVenue exec_world, unit) prog" where
  "set_verifiedR f = set_processW (\<lambda>s. s\<lparr>pw_venue := (pw_venue s)\<lparr>rv_verified := f (rv_verified (pw_venue s))\<rparr>\<rparr>)"

definition reader_begin :: "('u ReaderVenue exec_world, unit) prog" where
  "reader_begin = set_verifiedR (\<lambda>_. [])"

text \<open>A positive decimal account number in a string.\<close>

definition account_number :: "JSON \<Rightarrow> string option" where
  "account_number identity =
     (case identity of
        JObj d \<Rightarrow>
          (case get_key d ''userId'' of
             JStr s \<Rightarrow> if s \<noteq> [] \<and> list_all is_digit s \<and> 0 < digits_val s then Some s else None
           | _ \<Rightarrow> None)
      | _ \<Rightarrow> None)"

definition verify_account_binding ::
  "('u ReaderVenue, 'z) DispatchExec_scheme \<Rightarrow> 'u ReaderWiring \<Rightarrow> ('u ReaderVenue exec_world, unit) prog" where
  "verify_account_binding c rw =
     (case rw_account_info rw of
        None \<Rightarrow> returnW ()
      | Some info \<Rightarrow>
          bindW (readR c info) (\<lambda>identity.
            case account_number identity of
              None \<Rightarrow> raiseW (ValueError ''recovery authenticated account identity is invalid'')
            | Some account \<Rightarrow>
                bindW (queryW c (baseline_binding_issues (Some account) (Some (rw_environment rw)))) (\<lambda>issues.
                  if issues \<noteq> [] then raiseW (ValueError ''baseline account/environment binding mismatch'') else returnW ())))"

section \<open>One entry\<close>

definition fill_proof_missing :: "LiveIntentRecord \<Rightarrow> bool" where
  "fill_proof_missing r \<longleftrightarrow> it_provider_order_id r \<in> {None, Some []} \<or> it_provider_fill_ids r = []
     \<or> list_ex (\<lambda>fid. starts_with fid ''status-derived:'') (it_provider_fill_ids r)"

definition recovery_expectation :: "LiveIntentRecord \<Rightarrow> ProtectionPlan \<Rightarrow> NativeProtectionExpectation" where
  "recovery_expectation r plan = (native_expectation r plan None None)\<lparr>ne_quantity := pp_quantity plan\<rparr>"

definition verified_key :: "ProtectionPlan \<Rightarrow> position_key" where
  "verified_key plan = (JStr (pp_symbol plan), Some (hold_side plan), pp_quantity plan)"

definition read_protection ::
  "('u ReaderVenue, 'z) DispatchExec_scheme \<Rightarrow> LiveIntentRecord \<Rightarrow> ProtectionPlan \<Rightarrow> ('u ReaderVenue exec_world, AsyncProtectionResult) prog" where
  "read_protection c r plan =
     (if fill_proof_missing r then returnW (protection_result P_degraded (it_filled_qty r) ''entry-fill-proof-missing'')
      else
        bindW (liftE (make_expectation (recovery_expectation r plan))) (\<lambda>e.
        bindW (confirmW c (pp_symbol plan) e) (\<lambda>report.
        bindW (if pr_state report = P_venue_protected
               then set_verifiedR (dict_put (it_client_oid r) (verified_key plan)) else returnW ()) (\<lambda>_.
          returnW (report_result (report\<lparr>pr_reason :=
            (if pr_reason report = Some ''position-not-open'' then Some ''owned-flat-close-fill-unproven'' else pr_reason report)\<rparr>))))))"

section \<open>The account inventory\<close>

definition position_side :: "JSON \<Rightarrow> (Exn, string option) raises" where
  "position_side v =
     (case v of
        JStr s \<Rightarrow> Inr (map_of [(''long'', ''buy''), (''short'', ''sell''), (''buy'', ''buy''), (''sell'', ''sell'')] s)
      | JList _ \<Rightarrow> Inl (TypeError [])
      | JObj _ \<Rightarrow> Inl (TypeError [])
      | _ \<Rightarrow> Inr None)"

text \<open>A row of the account's positions: nothing when its quantity is zero.\<close>

definition observed_key :: "JSON \<Rightarrow> (Exn, position_key option) raises" where
  "observed_key v =
     (case as_dict v of
        None \<Rightarrow> Inl (ValueError ''recovery position row invalid'')
      | Some row \<Rightarrow>
          (case map_of row ''total'' of
             None \<Rightarrow> Inl (KeyError ''total'')
           | Some raw \<Rightarrow>
               (case to_decimal raw of
                  None \<Rightarrow> Inl (OtherError ''InvalidOperation'' [])
                | Some q \<Rightarrow>
                    if q < 0 then Inl (ValueError ''recovery position quantity invalid'')
                    else if q = 0 then Inr None
                    else bindE (position_side (get_key row ''holdSide'')) (\<lambda>side. Inr (Some (get_key row ''symbol'', side, q))))))"

definition locally_managed ::
  "('u ReaderVenue, 'z) DispatchExec_scheme \<Rightarrow> 'u ReaderWiring \<Rightarrow> position_key \<Rightarrow> ('u ReaderVenue exec_world, bool) prog" where
  "locally_managed c rw key =
     (case key of (symbol, side, quantity) \<Rightarrow>
        let text = str_strip (text_or_empty symbol) in
        case Option.bind side (map_of [(''buy'', ''LONG''), (''sell'', ''SHORT'')]) of
          None \<Rightarrow> returnW False
        | Some direction \<Rightarrow>
            if text = [] then returnW False
            else bindW (attemptW (queryW c (locally_managed_position text direction quantity (rw_environment rw)))) (\<lambda>x.
              returnW (x = Inr True)))"

text \<open>The rows in order: the open positions seen and the issues they raise.\<close>

fun review_positions ::
  "('u ReaderVenue, 'z) DispatchExec_scheme \<Rightarrow> 'u ReaderWiring \<Rightarrow> position_key list \<Rightarrow> JSON list
    \<Rightarrow> ('u ReaderVenue exec_world, position_key list \<times> string list) prog" where
  "review_positions c rw verified [] = returnW ([], [])"
| "review_positions c rw verified (v # vs) =
     bindW (liftE (observed_key v)) (\<lambda>seen.
       case seen of
         None \<Rightarrow> review_positions c rw verified vs
       | Some key \<Rightarrow>
           bindW (if count_list verified key = 1 then returnW True else locally_managed c rw key) (\<lambda>owned.
           bindW (review_positions c rw verified vs) (\<lambda>(keys, issues).
             returnW (key # keys, (if owned then [] else [''provider-position-not-uniquely-owned-and-protected'']) @ issues))))"

definition python_false :: "JSON \<Rightarrow> bool" where
  "python_false v =
     (case v of
        JBool b \<Rightarrow> \<not> b | JInt n \<Rightarrow> n = 0 | JFloat s \<Rightarrow> parse_decimal s = Some 0 | JDec q \<Rightarrow> q = 0 | _ \<Rightarrow> False)"

definition upper_is :: "JSON \<Rightarrow> string \<Rightarrow> bool" where
  "upper_is v s = (case v of JStr t \<Rightarrow> str_upper t = s | _ \<Rightarrow> False)"

definition matches_pending_entry :: "LiveIntentRecord \<Rightarrow> payload \<Rightarrow> bool" where
  "matches_pending_entry r row \<longleftrightarrow>
     it_role r = ENTRY \<and> it_order_type r = ''limit''
     \<and> upper_is (get_key row ''symbol'') (it_symbol r) \<and> upper_is (get_key row ''side'') (it_side r)
     \<and> get_key row ''orderType'' = JStr ''limit''
     \<and> (get_key row ''reduceOnly'' \<in> {JStr ''NO'', JStr ''no''} \<or> python_false (get_key row ''reduceOnly''))
     \<and> get_first row [''state'', ''status''] JNull \<in> {JStr ''live'', JStr ''partially_filled''}
     \<and> py_true (get_key row ''orderId'')
     \<and> (case it_provider_order_id r of None \<Rightarrow> True | Some pid \<Rightarrow> get_key row ''orderId'' = JStr pid)
     \<and> (case (to_decimal (get_key row ''price''), to_decimal (get_key row ''size''), to_decimal (get_first row [''baseVolume''] (JStr ''0''))) of
          (Some price, Some sz, Some filled) \<Rightarrow>
            it_limit_price r = Some price \<and> sz = it_requested_qty r \<and> 0 \<le> filled \<and> filled \<le> sz
        | _ \<Rightarrow> False)"

text \<open>The pending rows in order, with the client order ids matched before: those matched and the issues.\<close>

fun review_pending :: "LiveIntentRecord list \<Rightarrow> payload list \<Rightarrow> string list \<Rightarrow> string list \<times> string list" where
  "review_pending owned [] matched = (matched, [])"
| "review_pending owned (row # rows) matched =
     (case filter (\<lambda>r. get_key row ''clientOid'' = JStr (it_client_oid r)) owned of
        [r] \<Rightarrow>
          if matches_pending_entry r row
          then (case review_pending owned rows (it_client_oid r # matched) of (m, issues) \<Rightarrow>
                  (m, (if it_client_oid r \<in> set matched then [''pending-entry-duplicate''] else []) @ issues))
          else (case review_pending owned rows matched of (m, issues) \<Rightarrow> (m, ''pending-orders-require-reconciliation'' # issues))
      | _ \<Rightarrow> (case review_pending owned rows matched of (m, issues) \<Rightarrow> (m, ''pending-orders-require-reconciliation'' # issues)))"

definition pending_issues :: "LiveIntentRecord list \<Rightarrow> payload list \<Rightarrow> string list" where
  "pending_issues owned rows =
     (case review_pending owned rows [] of (matched, issues) \<Rightarrow>
        issues @ (if list_ex (\<lambda>r. it_client_oid r \<notin> set matched) owned then [''owned-pending-entry-inventory-mismatch''] else []))"

definition owned_pending :: "('u ReaderVenue, 'z) DispatchExec_scheme \<Rightarrow> 'u ReaderWiring \<Rightarrow> ('u ReaderVenue exec_world, LiveIntentRecord list) prog" where
  "owned_pending c rw =
     (if rw_intent_store rw
      then dbW c (\<lambda>now db. bindE (pending_entries db None None) (\<lambda>is. Inr (db, map stored_record is)))
      else returnW [])"

definition inventory_positions ::
  "('u ReaderVenue, 'z) DispatchExec_scheme \<Rightarrow> 'u ReaderWiring \<Rightarrow> JSON list \<Rightarrow> ('u ReaderVenue exec_world, string list) prog" where
  "inventory_positions c rw rows =
     bindW verifiedR (\<lambda>verified.
     bindW (review_positions c rw verified rows) (\<lambda>(observed, issues).
       returnW (issues @ (if list_ex (\<lambda>key. count_list observed key \<noteq> 1) verified then [''owned-position-inventory-mismatch''] else []))))"

definition inventory_pending ::
  "('u ReaderVenue, 'z) DispatchExec_scheme \<Rightarrow> 'u ReaderWiring \<Rightarrow> ('u ReaderVenue exec_world, string list) prog" where
  "inventory_pending c rw =
     bindW (readR c (rw_get_pending_orders rw)) (\<lambda>pending.
       case dict_list pending of
         None \<Rightarrow> raiseW (ValueError ''recovery pending inventory invalid'')
       | Some rows \<Rightarrow> bindW (owned_pending c rw) (\<lambda>owned. returnW (pending_issues owned rows)))"

definition inventory :: "('u ReaderVenue, 'z) DispatchExec_scheme \<Rightarrow> 'u ReaderWiring \<Rightarrow> ('u ReaderVenue exec_world, string list) prog" where
  "inventory c rw =
     bindW (verify_account_binding c rw) (\<lambda>_.
     bindW (queryW c (inventory_issues (Some (rw_environment rw)))) (\<lambda>ledger.
     bindW (readR c (rw_get_all_positions rw)) (\<lambda>positions.
       case positions of
         JList rows \<Rightarrow>
           bindW (inventory_positions c rw rows) (\<lambda>issues.
           bindW (inventory_pending c rw) (\<lambda>more. returnW (sort (remdups (ledger @ issues @ more)))))
       | _ \<Rightarrow> raiseW (ValueError ''recovery account positions invalid''))))"

section \<open>Retiring and settling what the venue does not hold\<close>

definition reader_position_is_flat :: "('u ReaderVenue, 'z) DispatchExec_scheme \<Rightarrow> string \<Rightarrow> ('u ReaderVenue exec_world, bool) prog" where
  "reader_position_is_flat c symbol =
     bindW (apiW c (ec_get_single_position c symbol)) (\<lambda>v. returnW (position_quantity v = Some 0))"

definition venue_empty :: "JSON \<Rightarrow> JSON \<Rightarrow> JSON \<Rightarrow> string \<Rightarrow> bool" where
  "venue_empty positions pending plans symbol \<longleftrightarrow>
     position_quantity positions = Some 0 \<and> rows_for_symbol pending symbol = Some [] \<and> is_empty_payload plans"

definition orphan_reads ::
  "('u ReaderVenue, 'z) DispatchExec_scheme \<Rightarrow> 'u ReaderWiring \<Rightarrow> string \<Rightarrow> ('u ReaderVenue exec_world, bool) prog" where
  "orphan_reads c rw symbol =
     bindW (apiW c (ec_get_single_position c symbol)) (\<lambda>positions.
     bindW (readR c (rw_get_pending_orders rw)) (\<lambda>pending.
     bindW (apiW c (ec_get_pending_plan_orders c symbol)) (\<lambda>plans.
       returnW (venue_empty positions pending plans symbol))))"

fun retire_orphans ::
  "('u ReaderVenue, 'z) DispatchExec_scheme \<Rightarrow> 'u ReaderWiring \<Rightarrow> OrphanCandidate list \<Rightarrow> ('u ReaderVenue exec_world, OrphanCandidate list) prog" where
  "retire_orphans c rw [] = returnW []"
| "retire_orphans c rw (row # rest) =
     (if oc_symbol row = [] then retire_orphans c rw rest
      else
        bindW (attemptW (orphan_reads c rw (oc_symbol row))) (\<lambda>x.
          if x \<noteq> Inr True then retire_orphans c rw rest
          else
            bindW (dbW c (\<lambda>now db. unitT (resolve now (oc_id row) ''REJECTED'' db))) (\<lambda>_.
            bindW (execW c (alert_orphan_retirement (show_int (oc_id row)))) (\<lambda>_.
            bindW (retire_orphans c rw rest) (\<lambda>retired_rows. returnW (row # retired_rows))))))"

definition retire_proved_empty_orphans ::
  "('u ReaderVenue, 'z) DispatchExec_scheme \<Rightarrow> 'u ReaderWiring \<Rightarrow> ('u ReaderVenue exec_world, OrphanCandidate list) prog" where
  "retire_proved_empty_orphans c rw =
     (if rw_reservations rw
      then bindW (queryW c (orphan_candidates (rw_environment rw))) (retire_orphans c rw) else returnW [])"

definition absent_reads ::
  "('u ReaderVenue, 'z) DispatchExec_scheme \<Rightarrow> 'u ReaderWiring \<Rightarrow> string \<Rightarrow> ('u ReaderVenue exec_world, bool) prog" where
  "absent_reads c rw symbol =
     bindW (apiW c (ec_get_single_position c symbol)) (\<lambda>positions.
     bindW (apiW c (ec_get_pending_plan_orders c symbol)) (\<lambda>plans.
     bindW (readR c (rw_get_pending_orders rw)) (\<lambda>pending.
       returnW (venue_empty positions pending plans symbol))))"

fun settle_intents ::
  "('u ReaderVenue, 'z) DispatchExec_scheme \<Rightarrow> 'u ReaderWiring \<Rightarrow> LiveIntentRecord list \<Rightarrow> ('u ReaderVenue exec_world, LiveIntentRecord list) prog" where
  "settle_intents c rw [] = returnW []"
| "settle_intents c rw (r # rest) =
     (if it_filled_qty r \<noteq> 0 then settle_intents c rw rest
      else
        bindW (attemptW (absent_reads c rw (it_symbol r))) (\<lambda>x.
          if x \<noteq> Inr True then settle_intents c rw rest
          else
            bindW (dbW c (\<lambda>now. settle_absent (it_client_oid r))) (\<lambda>changed.
              if changed = 0 then settle_intents c rw rest
              else
                bindW (execW c (alert_protection_settled (it_client_oid r))) (\<lambda>_.
                bindW (settle_intents c rw rest) (\<lambda>settled. returnW (r # settled))))))"

definition settle_absent_protection ::
  "('u ReaderVenue, 'z) DispatchExec_scheme \<Rightarrow> 'u ReaderWiring \<Rightarrow> ('u ReaderVenue exec_world, LiveIntentRecord list) prog" where
  "settle_absent_protection c rw =
     (if rw_intent_store rw
      then bindW (queryW c (\<lambda>db. map stored_record (unknown_non_entry db))) (settle_intents c rw) else returnW [])"

definition recovery_reader :: "('u ReaderVenue, 'z) DispatchExec_scheme \<Rightarrow> 'u ReaderWiring \<Rightarrow> 'u ReaderVenue RecoveryReader" where
  "recovery_reader c rw =
     \<lparr>rp_verify_account_binding = verify_account_binding c rw, rp_begin = reader_begin, rp_read = read_protection c,
      rp_position_is_flat = Some (reader_position_is_flat c),
      rp_retire_proved_empty_orphans = bindW (retire_proved_empty_orphans c rw) (\<lambda>_. returnW ()),
      rp_settle_absent_protection = bindW (settle_absent_protection c rw) (\<lambda>_. returnW ()),
      rp_inventory = Some (inventory c rw)\<rparr>"

section \<open>The reader only reads orders\<close>

lemma quietly_cong:
  assumes "wk_id c' = wk_id c" "wk_others c' = wk_others c"
  shows "quietly c' p \<longleftrightarrow> quietly c p"
proof -
  have "others_spare k c' \<longleftrightarrow> others_spare k c" for k using assms(2) by (simp add: others_spare_def)
  then have "safe c' base T w \<longleftrightarrow> safe c base T w" for base T w using assms(1) by (simp add: safe_def)
  then have "calm c' base T mine w \<longleftrightarrow> calm c base T mine w" for base T mine w using assms(1) by (simp add: calm_def)
  then show ?thesis by (simp add: quietly_def triple_def)
qed

lemma quietly_readR [quiet_rules]: "others_spare (wk_id c) c \<Longrightarrow> quietly c (readR c p)"
  unfolding readR_def by (rule quietly_api)

lemma quietly_memory [quiet_rules]: "quietly c verifiedR" "quietly c (set_verifiedR f)" "quietly c reader_begin"
  unfolding verifiedR_def set_verifiedR_def reader_begin_def by (rule quietly_process)+

lemma quietly_binding: "others_spare (wk_id c) c \<Longrightarrow> quietly c (verify_account_binding c rw)"
  unfolding verify_account_binding_def by (auto intro!: quiet_rules split: option.split)

lemma quietly_read_protection: "others_spare (wk_id c) c \<Longrightarrow> quietly c (read_protection c r plan)"
  unfolding read_protection_def by (intro quiet_rules)

lemma quietly_managed: "others_spare (wk_id c) c \<Longrightarrow> quietly c (locally_managed c rw key)"
  unfolding locally_managed_def Let_def by (auto intro!: quiet_rules split: prod.split option.split)

lemma quietly_review: "others_spare (wk_id c) c \<Longrightarrow> quietly c (review_positions c rw verified vs)"
  by (induction vs) (auto intro!: quiet_rules quietly_managed split: option.split prod.split)

lemma quietly_owned_pending: "others_spare (wk_id c) c \<Longrightarrow> quietly c (owned_pending c rw)"
  unfolding owned_pending_def by (auto intro!: quiet_rules simp: bindE_Inr_iff intro: intents_kept_same)

lemma quietly_inventory: "others_spare (wk_id c) c \<Longrightarrow> quietly c (inventory c rw)"
  unfolding inventory_def inventory_positions_def inventory_pending_def
  by (auto intro!: quiet_rules quietly_binding quietly_review quietly_owned_pending split: JSON.split prod.split option.split)

lemma quietly_absence: "others_spare (wk_id c) c \<Longrightarrow> quietly c (orphan_reads c rw symbol)"
  "others_spare (wk_id c) c \<Longrightarrow> quietly c (absent_reads c rw symbol)"
  unfolding orphan_reads_def absent_reads_def by (intro quiet_rules; assumption)+

lemma orphan_alert_kept: "alert_orphan_retirement rid db = Inr db' \<Longrightarrow> intents_kept db db'"
  "alert_protection_settled oid db = Inr db' \<Longrightarrow> intents_kept db db'"
  by (auto simp: alert_orphan_retirement_def alert_protection_settled_def enqueue_def Let_def intro!: intents_kept_same)

lemma settle_absent_kept: "settle_absent oid db = Inr (db', n) \<Longrightarrow> intents_kept db db'"
  by (auto simp: settle_absent_def Let_def dest!: sym [where t = db']
      intro: intents_kept_update [where g = "\<lambda>i. i\<lparr>it_state := I_cancelled\<rparr>", unfolded update_intents_def fst_conv])

lemma quietly_retire_orphans: "others_spare (wk_id c) c \<Longrightarrow> quietly c (retire_orphans c rw rows)"
  by (induction rows) (auto intro!: quiet_rules quietly_absence dest: resolve_kept orphan_alert_kept simp: run_simps)

lemma quietly_settle_intents: "others_spare (wk_id c) c \<Longrightarrow> quietly c (settle_intents c rw rs)"
  by (induction rs) (auto intro!: quiet_rules quietly_absence dest: settle_absent_kept orphan_alert_kept simp: run_simps)

lemma reader_quiet:
  assumes "others_spare (wk_id c) c"
  shows "quiet_reader c (recovery_reader c rw)"
  unfolding quiet_reader_def recovery_reader_def reader_position_is_flat_def retire_proved_empty_orphans_def settle_absent_protection_def
  using assms by (auto intro!: quiet_rules quietly_binding quietly_read_protection quietly_inventory quietly_retire_orphans quietly_settle_intents)

section \<open>What a clean inventory accounts for\<close>

text \<open>Every open position is verified exactly once in this pass or managed locally, and every verified
  position is open exactly once.\<close>

definition positions_accounted :: "(position_key \<Rightarrow> bool) \<Rightarrow> position_key list \<Rightarrow> position_key list \<Rightarrow> bool" where
  "positions_accounted managed verified observed \<longleftrightarrow>
     (\<forall>key \<in> set observed. count_list verified key = 1 \<or> managed key) \<and> (\<forall>key \<in> set verified. count_list observed key = 1)"

text \<open>The pending orders are, one to one, exactly the waiting entries owned.\<close>

definition pending_accounted :: "LiveIntentRecord list \<Rightarrow> payload list \<Rightarrow> bool" where
  "pending_accounted owned rows \<longleftrightarrow>
     (\<forall>row \<in> set rows. \<exists>r. filter (\<lambda>r. get_key row ''clientOid'' = JStr (it_client_oid r)) owned = [r] \<and> matches_pending_entry r row)
     \<and> distinct (map (\<lambda>row. get_key row ''clientOid'') rows)
     \<and> (\<forall>r \<in> set owned. \<exists>row \<in> set rows. get_key row ''clientOid'' = JStr (it_client_oid r))"

lemma review_pending_clean:
  assumes "review_pending owned rows matched = (m, [])"
  shows "(\<forall>row \<in> set rows. \<exists>r. filter (\<lambda>r. get_key row ''clientOid'' = JStr (it_client_oid r)) owned = [r] \<and> matches_pending_entry r row)
    \<and> distinct (map (\<lambda>row. get_key row ''clientOid'') rows)
    \<and> (\<forall>row \<in> set rows. get_key row ''clientOid'' \<notin> JStr ` set matched)
    \<and> JStr ` set m = JStr ` set matched \<union> (\<lambda>row. get_key row ''clientOid'') ` set rows"
  using assms
proof (induction rows arbitrary: matched)
  case (Cons row rows)
  from Cons.prems obtain r where r: "filter (\<lambda>r. get_key row ''clientOid'' = JStr (it_client_oid r)) owned = [r]"
      "matches_pending_entry r row" "it_client_oid r \<notin> set matched"
    and rest: "review_pending owned rows (it_client_oid r # matched) = (m, [])"
    by (auto split: list.splits if_splits prod.splits)
  have "r \<in> set (filter (\<lambda>r. get_key row ''clientOid'' = JStr (it_client_oid r)) owned)" unfolding r(1) by simp
  then have key: "get_key row ''clientOid'' = JStr (it_client_oid r)" by simp
  from Cons.IH [OF rest] r key show ?case by auto
qed simp

lemma pending_issues_clean:
  assumes "pending_issues owned rows = []"
  shows "pending_accounted owned rows"
proof -
  obtain m where run: "review_pending owned rows [] = (m, [])" and all: "\<forall>r \<in> set owned. it_client_oid r \<in> set m"
    using assms by (auto simp: pending_issues_def list_ex_iff split: prod.splits if_splits)
  note facts = review_pending_clean [OF run]
  have keys: "JStr ` set m = (\<lambda>row. get_key row ''clientOid'') ` set rows" using facts by (elim conjE) simp
  have "\<exists>row \<in> set rows. get_key row ''clientOid'' = JStr (it_client_oid r)" if "r \<in> set owned" for r
  proof -
    have "JStr (it_client_oid r) \<in> JStr ` set m" using all that by (intro imageI) blast
    then show ?thesis unfolding keys by auto
  qed
  then show ?thesis using facts unfolding pending_accounted_def by blast
qed

lemma yields_ran: "yields p (\<lambda>x. \<exists>v v'. p v = (Inr x, v'))"
  by (auto simp: yields_def)

lemma review_positions_clean:
  "yields (review_positions c rw verified vs) (\<lambda>(observed, issues). (\<exists>seen. mapE observed_key vs = Inr seen \<and> observed = List.map_filter (\<lambda>x. x) seen)
     \<and> (issues = [] \<longrightarrow> (\<forall>key \<in> set observed. count_list verified key = 1 \<or> (\<exists>v v'. locally_managed c rw key v = (Inr True, v')))))"
proof (induction vs)
  case Nil
  then show ?case by (simp add: yields_def returnW_def List.map_filter_def)
next
  case (Cons v vs)
  have seen: "yields (liftE (observed_key v)) (\<lambda>seen. observed_key v = Inr seen)" by (simp add: yields_def liftE_def)
  have owned: "yields (if count_list verified key = 1 then returnW True else locally_managed c rw key)
      (\<lambda>b. b \<longrightarrow> count_list verified key = 1 \<or> (\<exists>v v'. locally_managed c rw key v = (Inr True, v')))" for key
  proof (rule yields_if)
    show "yields (returnW True) (\<lambda>b. b \<longrightarrow> count_list verified key = 1 \<or> (\<exists>v v'. locally_managed c rw key v = (Inr True, v')))"
      if "count_list verified key = 1" using that by (simp add: yields_return)
    show "yields (locally_managed c rw key) (\<lambda>b. b \<longrightarrow> count_list verified key = 1 \<or> (\<exists>v v'. locally_managed c rw key v = (Inr True, v')))"
      by (rule yields_mono [OF yields_ran]) metis
  qed
  show ?case
  proof (simp only: review_positions.simps, rule yields_bind [OF seen])
    fix seen assume key: "observed_key v = Inr seen"
    show "yields (case seen of None \<Rightarrow> review_positions c rw verified vs
       | Some key \<Rightarrow> bindW (if count_list verified key = 1 then returnW True else locally_managed c rw key) (\<lambda>owned.
           bindW (review_positions c rw verified vs) (\<lambda>(keys, issues).
             returnW (key # keys, (if owned then [] else [''provider-position-not-uniquely-owned-and-protected'']) @ issues))))
       (\<lambda>(observed, issues). (\<exists>seen. mapE observed_key (v # vs) = Inr seen \<and> observed = List.map_filter (\<lambda>x. x) seen)
         \<and> (issues = [] \<longrightarrow> (\<forall>key \<in> set observed. count_list verified key = 1 \<or> (\<exists>v v'. locally_managed c rw key v = (Inr True, v')))))"
    proof (cases seen)
      case None
      then show ?thesis using key
        by (simp, intro yields_mono [OF Cons.IH]) (auto simp: List.map_filter_simps)
    next
      case (Some k)
      then show ?thesis using key
        by (simp only: option.case, intro yields_bind [OF owned] yields_bind [OF Cons.IH], clarify, intro yields_return(1))
          (auto simp: List.map_filter_simps)
    qed
  qed
qed

lemma bind_known: "m w = (Inr x, w1) \<Longrightarrow> bindW m f w = f x w1"
  by (simp add: bindW_def)

lemma inventory_positions_clean:
  assumes "inventory_positions c rw rows w = (Inr [], w')" "verified = map snd (rv_verified (pw_venue (ww_venue w)))"
  obtains seen where "mapE observed_key rows = Inr seen"
    "positions_accounted (\<lambda>key. \<exists>v v'. locally_managed c rw key v = (Inr True, v')) verified (List.map_filter (\<lambda>x. x) seen)"
proof -
  have "verifiedR w = (Inr verified, w)" by (simp add: verifiedR_def processW_def assms(2))
  have "bindW verifiedR f w = f verified w" for f by (rule bind_known) fact
  from assms(1) [unfolded inventory_positions_def this]
  obtain observed issues where review: "review_positions c rw verified rows w = (Inr (observed, issues), w')"
    and "issues = []" "\<not> list_ex (\<lambda>key. count_list observed key \<noteq> 1) verified"
    by (elim bindW_InrE) (auto simp: returnW_def split: prod.splits if_splits)
  with yieldsD [OF review_positions_clean review] that show ?thesis by (auto simp: positions_accounted_def list_ex_iff)
qed

lemma inventory_pending_clean:
  assumes "inventory_pending c rw w = (Inr [], w')"
  obtains pending rows owned w1 where "readR c (rw_get_pending_orders rw) w = (Inr pending, w1)" "dict_list pending = Some rows"
    "owned_pending c rw w1 = (Inr owned, w')" "pending_accounted owned rows"
proof -
  from assms obtain pending w1 where read: "readR c (rw_get_pending_orders rw) w = (Inr pending, w1)"
    and rest: "(case dict_list pending of
         None \<Rightarrow> raiseW (ValueError ''recovery pending inventory invalid'')
       | Some rows \<Rightarrow> bindW (owned_pending c rw) (\<lambda>owned. returnW (pending_issues owned rows))) w1 = (Inr [], w')"
    unfolding inventory_pending_def by (elim bindW_InrE)
  then obtain rows where rows: "dict_list pending = Some rows" by (cases "dict_list pending") (auto simp: raiseW_def)
  with rest obtain owned where "owned_pending c rw w1 = (Inr owned, w')" "pending_issues owned rows = []"
    by (auto simp: returnW_def elim!: bindW_InrE)
  then show ?thesis using that read rows pending_issues_clean by blast
qed

lemma inventory_clean:
  assumes "inventory c rw w = (Inr [], w')"
  shows "\<exists>rows seen pending pending_rows owned w1 w2 w3 w4 w5.
     readR c (rw_get_all_positions rw) w1 = (Inr (JList rows), w2) \<and> mapE observed_key rows = Inr seen
     \<and> positions_accounted (\<lambda>key. \<exists>v v'. locally_managed c rw key v = (Inr True, v'))
         (map snd (rv_verified (pw_venue (ww_venue w2)))) (List.map_filter (\<lambda>x. x) seen)
     \<and> readR c (rw_get_pending_orders rw) w3 = (Inr pending, w4) \<and> dict_list pending = Some pending_rows
     \<and> owned_pending c rw w4 = (Inr owned, w5) \<and> pending_accounted owned pending_rows"
proof -
  from assms obtain ledger positions w1 w2 where read: "readR c (rw_get_all_positions rw) w1 = (Inr positions, w2)"
    and rest: "(case positions of
         JList rows \<Rightarrow>
           bindW (inventory_positions c rw rows) (\<lambda>issues.
           bindW (inventory_pending c rw) (\<lambda>more. returnW (sort (remdups (ledger @ issues @ more)))))
       | _ \<Rightarrow> raiseW (ValueError ''recovery account positions invalid'')) w2 = (Inr [], w')"
    unfolding inventory_def by (elim bindW_InrE)
  then obtain rows where rows: "positions = JList rows" by (cases positions) (auto simp: raiseW_def)
  have none: "xs = []" if "sort (remdups xs) = []" for xs :: "string list"
    using that by (metis set_empty set_remdups set_sort)
  from rest obtain w3 w4 where parts: "inventory_positions c rw rows w2 = (Inr [], w3)" "inventory_pending c rw w3 = (Inr [], w4)"
    unfolding rows JSON.case by (elim bindW_InrE) (auto simp: returnW_def dest!: none)
  obtain seen where "mapE observed_key rows = Inr seen"
    "positions_accounted (\<lambda>key. \<exists>v v'. locally_managed c rw key v = (Inr True, v'))
       (map snd (rv_verified (pw_venue (ww_venue w2)))) (List.map_filter (\<lambda>x. x) seen)"
    by (rule inventory_positions_clean [OF parts(1) refl])
  moreover obtain pending pending_rows owned w5 where "readR c (rw_get_pending_orders rw) w3 = (Inr pending, w5)"
    "dict_list pending = Some pending_rows" "owned_pending c rw w5 = (Inr owned, w4)" "pending_accounted owned pending_rows"
    by (rule inventory_pending_clean [OF parts(2)])
  ultimately show ?thesis using read rows by blast
qed

section \<open>What recovery may clear away\<close>

text \<open>The venue's own reads showed no position, no pending order and no plan of the symbol.\<close>

definition venue_shown_empty :: "('u ReaderVenue, 'z) DispatchExec_scheme \<Rightarrow> 'u ReaderWiring \<Rightarrow> string \<Rightarrow> bool" where
  "venue_shown_empty c rw symbol \<longleftrightarrow>
     (\<exists>positions pending plans. (\<exists>v v'. apiW c (ec_get_single_position c symbol) v = (Inr positions, v'))
        \<and> (\<exists>v v'. readR c (rw_get_pending_orders rw) v = (Inr pending, v'))
        \<and> (\<exists>v v'. apiW c (ec_get_pending_plan_orders c symbol) v = (Inr plans, v'))
        \<and> position_quantity positions = Some 0 \<and> rows_for_symbol pending symbol = Some [] \<and> is_empty_payload plans)"

lemma absence_shown:
  "yields (orphan_reads c rw symbol) (\<lambda>b. b \<longrightarrow> venue_shown_empty c rw symbol)"
  "yields (absent_reads c rw symbol) (\<lambda>b. b \<longrightarrow> venue_shown_empty c rw symbol)"
  unfolding orphan_reads_def absent_reads_def
  by (rule yields_bind [OF yields_ran], rule yields_bind [OF yields_ran], rule yields_bind [OF yields_ran], rule yields_return,
      use venue_shown_empty_def venue_empty_def in blast)+

lemma retired_shown:
  "yields (retire_orphans c rw rows) (\<lambda>retired. \<forall>row \<in> set retired. row \<in> set rows \<and> oc_symbol row \<noteq> [] \<and> venue_shown_empty c rw (oc_symbol row))"
proof (induction rows)
  case Nil
  then show ?case by (simp add: yields_return)
next
  case (Cons row rest)
  have skip: "yields (retire_orphans c rw rest) (\<lambda>retired. \<forall>x \<in> set retired. x \<in> set (row # rest) \<and> oc_symbol x \<noteq> [] \<and> venue_shown_empty c rw (oc_symbol x))"
    by (rule yields_mono [OF Cons.IH]) simp
  show ?case unfolding retire_orphans.simps
    by (rule yields_if [OF skip], rule yields_attempt_bind [OF absence_shown(1)])
      (auto intro!: yields_if skip skip [simplified] yields_then yields_bind [OF Cons.IH] yields_return)
qed

lemma settled_shown:
  "yields (settle_intents c rw rs) (\<lambda>settled. \<forall>r \<in> set settled. r \<in> set rs \<and> it_filled_qty r = 0 \<and> venue_shown_empty c rw (it_symbol r))"
proof (induction rs)
  case Nil
  then show ?case by (simp add: yields_return)
next
  case (Cons r rest)
  have skip: "yields (settle_intents c rw rest) (\<lambda>settled. \<forall>x \<in> set settled. x \<in> set (r # rest) \<and> it_filled_qty x = 0 \<and> venue_shown_empty c rw (it_symbol x))"
    by (rule yields_mono [OF Cons.IH]) simp
  show ?case unfolding settle_intents.simps
    by (rule yields_if [OF skip], rule yields_attempt_bind [OF absence_shown(2)])
      (auto intro!: yields_if skip skip [simplified] yields_then yields_bind [OF Cons.IH] yields_return)
qed

lemma query_value: "yields (queryW c f) (\<lambda>x. \<exists>db. x = f db)"
  by (auto simp: yields_def queryW_def dbW_def transactW_def split: if_splits)

lemma unknown_rows:
  assumes "r \<in> set (map stored_record (unknown_non_entry db))"
  shows "\<exists>db :: Db. \<exists>j \<in> set (db_intents db). it_client_oid j = it_client_oid r \<and> it_role j \<noteq> ENTRY \<and> it_state j = I_unknown"
proof -
  from assms obtain i where "i \<in> set (unknown_non_entry db)" "r = stored_record i" by auto
  then have "it_client_oid r = it_client_oid i" "\<exists>j \<in> set (db_intents db). it_client_oid i = it_client_oid j \<and> it_role j \<noteq> ENTRY \<and> it_state j = I_unknown"
    by (auto simp: unknown_non_entry_def set_map_filter get_intent_def stored_record_def LiveIntentRecord.truncate_def dest: find_Some_props)
  then show ?thesis by metis
qed


end
