(* ===== verification/Native_Close.thy ===== *)
theory Native_Close
  imports Recovery_Reader
begin

text \<open>
  \<open>exchanges/bitget/native_close.py\<close> with the resolver of \<open>service.py\<close>: a native plan the venue executed
  runs as an order whose client order id is the provider id of the plan. The fill is found, its order read
  back, the plan looked up by that id, and the close recorded and bound to the reservation of its entry. The read of an
  order by its provider id is a parameter. A fill handed to the binding is an object, as the callers give it.
\<close>

section \<open>One fill\<close>

definition native_error :: "string \<Rightarrow> Exn" where
  "native_error m = OtherError ''NativeCloseResolutionError'' m"

definition is_native_error :: "Exn \<Rightarrow> bool" where
  "is_native_error e \<longleftrightarrow> exn_name e = ''NativeCloseResolutionError''"

definition native_decimal :: "payload \<Rightarrow> string list \<Rightarrow> bool \<Rightarrow> (Exn, dec) raises" where
  "native_decimal d ks positive =
     (let raw = get_first d ks JNull in
      if blank raw then Inl (native_error (''venue fill field is missing: '' @ hd ks))
      else case to_decimal raw of
             None \<Rightarrow> Inl (native_error (''venue fill field is invalid: '' @ hd ks))
           | Some q \<Rightarrow> if positive \<and> q \<le> 0 then Inl (native_error (''venue fill field is not usable: '' @ hd ks)) else Inr q)"

definition native_side :: "payload \<Rightarrow> (Exn, string) raises" where
  "native_side d =
     (let raw = str_upper (case first_text d [''side'', ''orderSide''] of None \<Rightarrow> [] | Some s \<Rightarrow> s);
          trade = str_lower (case first_text d [''tradeSide''] of None \<Rightarrow> [] | Some s \<Rightarrow> s) in
      if raw \<in> {''BUY'', ''SELL''} then Inr raw
      else if contains_str trade ''sell'' then Inr ''SELL''
      else if contains_str trade ''buy'' then Inr ''BUY''
      else Inl (native_error ''venue fill side is missing or invalid''))"

record NativeFill =
  nf_symbol :: string
  nf_side :: string
  nf_provider_fill_id :: string
  nf_provider_order_id :: string
  nf_quantity :: dec
  nf_price :: dec
  nf_fee :: dec
  nf_realized_pnl :: dec
  nf_payload :: payload

definition native_text :: "payload \<Rightarrow> string list \<Rightarrow> string \<Rightarrow> (Exn, string) raises" where
  "native_text d ks missing = (case first_text d ks of None \<Rightarrow> Inl (native_error missing) | Some s \<Rightarrow> Inr s)"

definition PROFIT_FIELDS :: "string list" where
  "PROFIT_FIELDS = [''realizedPnl'', ''profit'', ''totalProfits'', ''realizedProfit'']"

definition normalize_plan_close_fill :: "payload \<Rightarrow> (Exn, NativeFill) raises" where
  "normalize_plan_close_fill payload =
     (let d = normalize_fill payload in
      bindE (native_text d [''fillId'', ''tradeId'', ''id''] ''venue fill ID is missing'') (\<lambda>fid.
      bindE (native_text d [''orderId'', ''ordId'', ''providerOrderId''] ''venue fill order ID is missing'') (\<lambda>oid.
      bindE (native_text d [''symbol'', ''instId''] ''venue fill symbol is missing'') (\<lambda>symbol.
      bindE (native_decimal d [''fee'', ''fillFee'', ''feeAmount''] False) (\<lambda>fee.
      bindE (if list_ex (\<lambda>k. map_of d k \<noteq> None) PROFIT_FIELDS then native_decimal d PROFIT_FIELDS False else Inr 0) (\<lambda>pnl.
      bindE (native_side d) (\<lambda>side.
      bindE (native_decimal d [''quantity'', ''fillSz'', ''fillQty'', ''size'', ''baseVolume''] True) (\<lambda>quantity.
      bindE (native_decimal d [''price'', ''fillPx'', ''fillPrice'', ''priceAvg''] True) (\<lambda>price.
        Inr \<lparr>nf_symbol = str_upper (str_strip symbol), nf_side = side, nf_provider_fill_id = fid, nf_provider_order_id = oid,
          nf_quantity = dec_abs quantity, nf_price = price, nf_fee = fee, nf_realized_pnl = pnl, nf_payload = d\<rparr>)))))))))"

text \<open>The client order id the venue reports for an executed order.\<close>

definition order_client_oid :: "JSON \<Rightarrow> string option" where
  "order_client_oid detail =
     (let rows = (case detail of JObj d \<Rightarrow> get_first d [''data'', ''orderList''] detail | v \<Rightarrow> v);
          first = (case rows of JObj d \<Rightarrow> Some (JObj d) | JList (x # xs) \<Rightarrow> Some x | _ \<Rightarrow> None) in
      Option.bind (Option.bind first as_dict) (\<lambda>d. first_text d [''clientOid'', ''client_oid'', ''clientOrderId'']))"

section \<open>Whose fill it is\<close>

record NativePlanClose =
  nc_exchange :: Exchange
  nc_symbol :: string
  nc_side :: string
  nc_root_oid :: string
  nc_plan_oid :: string
  nc_close_oid :: string
  nc_executed_order_id :: string
  nc_provider_fill_id :: string
  nc_quantity :: dec
  nc_price :: dec
  nc_fee :: dec
  nc_realized_pnl :: dec
  nc_payload :: payload

definition norm_symbol :: "string \<Rightarrow> string" where
  "norm_symbol s = str_upper (str_strip s)"

definition plan_close :: "LiveIntentRecord \<Rightarrow> LiveIntentRecord \<Rightarrow> NativeFill \<Rightarrow> NativePlanClose" where
  "plan_close entry plan fill =
     \<lparr>nc_exchange = it_exchange entry, nc_symbol = norm_symbol (it_symbol entry), nc_side = nf_side fill,
      nc_root_oid = it_client_oid entry, nc_plan_oid = it_client_oid plan, nc_close_oid = it_client_oid entry @ ''-native-close'',
      nc_executed_order_id = nf_provider_order_id fill, nc_provider_fill_id = nf_provider_fill_id fill,
      nc_quantity = nf_quantity fill, nc_price = nf_price fill, nc_fee = nf_fee fill, nc_realized_pnl = nf_realized_pnl fill,
      nc_payload = nf_payload fill\<rparr>"

definition native_rows :: "JSON \<Rightarrow> payload list option" where
  "native_rows v =
     (case (case v of JObj d \<Rightarrow> get_first d [''fillList'', ''entrustedList''] JNull | u \<Rightarrow> u) of
        JList xs \<Rightarrow> Some (List.map_filter as_dict xs) | _ \<Rightarrow> None)"

definition candidate_fill :: "LiveIntentRecord \<Rightarrow> NativeFill \<Rightarrow> bool" where
  "candidate_fill r fill \<longleftrightarrow> nf_symbol fill = norm_symbol (it_symbol r) \<and> nf_side fill = opposite_side (it_side r)
     \<and> nf_provider_fill_id fill \<notin> set (it_provider_fill_ids r)"

definition fill_clock :: "NativeFill \<Rightarrow> string" where
  "fill_clock fill = py_str (get_first (nf_payload fill) [''cTime''] (JStr ''''))"

text \<open>The newest first; a reversed stable sort keeps the order of equal keys.\<close>

definition candidate_fills :: "LiveIntentRecord \<Rightarrow> payload list \<Rightarrow> NativeFill list" where
  "candidate_fills r rows =
     rev (sort_key fill_clock (rev (filter (candidate_fill r)
       (List.map_filter (\<lambda>row. case normalize_plan_close_fill row of Inr fill \<Rightarrow> Some fill | Inl _ \<Rightarrow> None) rows))))"

text \<open>The reads of an order by its provider id.\<close>

type_synonym 'v order_reader = "string \<Rightarrow> string \<Rightarrow> ('v, JSON) prog"

definition plan_owner :: "('v, 'z) DispatchExec_scheme \<Rightarrow> string \<Rightarrow> ('v exec_world, LiveIntentRecord option) prog" where
  "plan_owner c oid = queryW c (\<lambda>db. map_option stored_record (protection_intent_by_provider_order_id db BITGET oid))"

definition owned_plan :: "LiveIntentRecord \<Rightarrow> string \<Rightarrow> LiveIntentRecord \<Rightarrow> bool" where
  "owned_plan r oid plan \<longleftrightarrow> it_role plan \<in> {SL, TP} \<and> it_protection_root_oid plan = Some (it_client_oid r)
     \<and> it_provider_order_id plan = Some oid \<and> norm_symbol (it_symbol plan) = norm_symbol (it_symbol r)"

text \<open>The plan of one fill: the executed order names it.\<close>

definition executed_plan ::
  "('v, 'z) DispatchExec_scheme \<Rightarrow> 'v order_reader \<Rightarrow> string \<Rightarrow> NativeFill \<Rightarrow> ('v exec_world, (string \<times> LiveIntentRecord) option) prog" where
  "executed_plan c order_detail symbol fill =
     bindW (attemptW (apiW c (order_detail symbol (nf_provider_order_id fill)))) (\<lambda>x.
       case x of
         Inl _ \<Rightarrow> returnW None
       | Inr detail \<Rightarrow>
           (case order_client_oid detail of
              None \<Rightarrow> returnW None
            | Some oid \<Rightarrow> bindW (plan_owner c oid) (\<lambda>found. returnW (map_option (\<lambda>plan. (oid, plan)) found))))"

fun first_owned ::
  "('v, 'z) DispatchExec_scheme \<Rightarrow> 'v order_reader \<Rightarrow> LiveIntentRecord \<Rightarrow> NativeFill list \<Rightarrow> ('v exec_world, NativePlanClose option) prog" where
  "first_owned c order_detail r [] = returnW None"
| "first_owned c order_detail r (fill # fills) =
     bindW (executed_plan c order_detail (it_symbol r) fill) (\<lambda>found.
       case found of
         Some (oid, plan) \<Rightarrow>
           if owned_plan r oid plan then returnW (Some (plan_close r plan fill)) else first_owned c order_detail r fills
       | None \<Rightarrow> first_owned c order_detail r fills)"

definition resolve_native_plan_close ::
  "('v, 'z) DispatchExec_scheme \<Rightarrow> 'v order_reader \<Rightarrow> LiveIntentRecord \<Rightarrow> ('v exec_world, NativePlanClose option) prog" where
  "resolve_native_plan_close c order_detail r =
     (if it_role r \<noteq> ENTRY \<or> it_filled_qty r \<le> 0 then returnW None
      else
        bindW (attemptW (apiW c (ec_get_fills c (it_symbol r)))) (\<lambda>x.
          case x of
            Inl _ \<Rightarrow> returnW None
          | Inr v \<Rightarrow>
              (case native_rows v of
                 None \<Rightarrow> returnW None
               | Some rows \<Rightarrow> first_owned c order_detail r (candidate_fills r rows))))"

section \<open>Recording the close\<close>

definition native_record :: "NativePlanClose \<Rightarrow> LiveIntentRecord" where
  "native_record n =
     (new_record (nc_exchange n) (nc_close_oid n) (nc_symbol n) (nc_side n))
       \<lparr>it_role := CLOSE, it_state := I_filled, it_requested_qty := nc_quantity n, it_filled_qty := nc_quantity n,
        it_avg_price := Some (nc_price n), it_fee := nc_fee n, it_provider_order_id := Some (nc_executed_order_id n),
        it_provider_fill_ids := [nc_provider_fill_id n], it_provider_fills := [nc_payload n]\<rparr>"

definition merged_close :: "LiveIntentRecord \<Rightarrow> NativePlanClose \<Rightarrow> LiveIntentRecord" where
  "merged_close existing n =
     existing\<lparr>it_state := I_filled, it_requested_qty := dec_add (it_requested_qty existing) (nc_quantity n),
       it_filled_qty := dec_add (it_filled_qty existing) (nc_quantity n),
       it_provider_fill_ids := it_provider_fill_ids existing @ [nc_provider_fill_id n],
       it_provider_fills := it_provider_fills existing @ [nc_payload n]\<rparr>"

definition write_close :: "('v, 'z) DispatchExec_scheme \<Rightarrow> NativePlanClose \<Rightarrow> ('v exec_world, bool) prog" where
  "write_close c n =
     bindW (tryW (dbW c (\<lambda>now. claim (de_claim_authority c) now (native_record n))) is_value_error
        (\<lambda>e. raiseW (native_error (''native close claim conflicts: '' @ exn_message e)))) (\<lambda>created.
     if created then bindW (updateW c (native_record n)) (\<lambda>_. returnW True)
     else
       bindW (getW c (nc_close_oid n)) (\<lambda>found.
         case found of
           None \<Rightarrow> raiseW (native_error ''native close claim has no durable record'')
         | Some existing \<Rightarrow>
             if it_provider_order_id existing \<noteq> Some (nc_executed_order_id n)
             then raiseW (native_error ''native close provider order ID conflicts'')
             else if nc_provider_fill_id n \<notin> set (it_provider_fill_ids existing)
             then bindW (updateW c (merged_close existing n)) (\<lambda>_. returnW False)
             else returnW False))"

definition reconcile_native_plan_close :: "('v, 'z) DispatchExec_scheme \<Rightarrow> NativePlanClose \<Rightarrow> ('v exec_world, bool) prog" where
  "reconcile_native_plan_close c n =
     bindW (write_close c n) (\<lambda>created.
     bindW (execW c (bind_native_close (nc_root_oid n) (nc_close_oid n) (nc_plan_oid n) (nc_executed_order_id n))) (\<lambda>_.
       returnW created))"

text \<open>The binding of a single fill, as the live monitor receives it.\<close>

definition bind_native_plan_close_from_fill ::
  "('v, 'z) DispatchExec_scheme \<Rightarrow> 'v order_reader \<Rightarrow> payload \<Rightarrow> ('v exec_world, bool) prog" where
  "bind_native_plan_close_from_fill c order_detail payload =
     (case normalize_plan_close_fill payload of
        Inl _ \<Rightarrow> returnW False
      | Inr fill \<Rightarrow>
          bindW (executed_plan c order_detail (nf_symbol fill) fill) (\<lambda>found.
            case found of
              None \<Rightarrow> returnW False
            | Some (oid, plan) \<Rightarrow>
                if it_role plan \<notin> {SL, TP} then returnW False
                else case it_protection_root_oid plan of
                  None \<Rightarrow> returnW False
                | Some root_oid \<Rightarrow>
                    bindW (getW c root_oid) (\<lambda>owner.
                      case owner of
                        None \<Rightarrow> returnW False
                      | Some r \<Rightarrow>
                          if it_role r \<noteq> ENTRY \<or> it_provider_order_id plan \<noteq> Some oid
                             \<or> norm_symbol (it_symbol plan) \<noteq> norm_symbol (it_symbol r)
                          then returnW False
                          else bindW (reconcile_native_plan_close c (plan_close r plan fill)) (\<lambda>_. returnW True))))"

section \<open>The wiring of the service\<close>

definition native_close_resolver ::
  "('v, 'z) DispatchExec_scheme \<Rightarrow> 'v order_reader \<Rightarrow> LiveIntentRecord \<Rightarrow> ('v exec_world, bool) prog" where
  "native_close_resolver c order_detail r =
     bindW (resolve_native_plan_close c order_detail r) (\<lambda>found.
       case found of
         None \<Rightarrow> returnW False
       | Some n \<Rightarrow> bindW (reconcile_native_plan_close c n) (\<lambda>_. returnW True))"

definition wired ::
  "('u ReaderVenue, 'z) DispatchExec_scheme \<Rightarrow> 'u ReaderWiring \<Rightarrow> 'u ReaderVenue order_reader \<Rightarrow> ('u ReaderVenue, 'z) DispatchExec_scheme" where
  "wired c rw order_detail =
     c\<lparr>de_reader := Some (recovery_reader c rw), de_native_close_resolver := Some (native_close_resolver c order_detail)\<rparr>"

section \<open>Resolving and recording post nothing\<close>

lemma claim_kept: "claim a now r db = Inr (db', won) \<Longrightarrow> intents_kept db db'"
  by (auto simp: claim_def bindE_Inr_iff dest: intents_kept_insert)

lemma bind_native_rows:
  assumes "bind_native_close base close plan executed db = Inr db'"
  obtains rid where "native_close_owner db base plan close executed = Some (Some rid)" "db_intents db' = db_intents db" "db_fills db' = db_fills db"
    "\<exists>b \<in> set (db_bindings db'). cb_close_client_order_id b = close \<and> cb_reservation_id b = rid"
proof -
  from assms obtain rid where owner: "native_close_owner db base plan close executed = Some (Some rid)"
    by (auto simp: bind_native_close_def split: option.splits)
  show ?thesis
  proof (cases "List.find (\<lambda>b. cb_close_client_order_id b = close) (db_bindings db)")
    case None
    then show ?thesis using assms owner by (intro that [OF owner]) (auto simp: bind_native_close_def)
  next
    case (Some b)
    then have "b \<in> set (db_bindings db)" "cb_close_client_order_id b = close" using find_Some_props [OF Some] by auto
    then show ?thesis using Some assms owner by (intro that [OF owner]) (auto simp: bind_native_close_def split: if_splits)
  qed
qed

lemma quietly_executed: "others_spare (wk_id c) c \<Longrightarrow> quietly c (executed_plan c order_detail symbol fill)"
  unfolding executed_plan_def plan_owner_def by (auto intro!: quiet_rules split: option.split sum.split)

lemma quietly_first_owned: "others_spare (wk_id c) c \<Longrightarrow> quietly c (first_owned c order_detail r fills)"
  by (induction fills) (auto intro!: quiet_rules quietly_executed split: option.split prod.split)

lemma quietly_write_close: "others_spare (wk_id c) c \<Longrightarrow> quietly c (write_close c n)"
  unfolding write_close_def
  by (auto intro!: quiet_rules quietly_store(2) dest: claim_kept simp: native_record_def merged_close_def split: option.split)

lemma quietly_resolver: "others_spare (wk_id c) c \<Longrightarrow> quietly c (native_close_resolver c order_detail r)"
  unfolding native_close_resolver_def resolve_native_plan_close_def reconcile_native_plan_close_def
  by (auto intro!: quiet_rules quietly_first_owned quietly_write_close elim!: bind_native_rows intro: intents_kept_same
      split: option.split sum.split)

lemma wired_reads_only:
  assumes "others_spare (wk_id c) c" "de_console_cancel_claim c = None"
  shows "reads_only (wired c rw order_detail)"
proof -
  let ?c = "wired c rw order_detail"
  have same: "wk_id ?c = wk_id c" "wk_others ?c = wk_others c" by (simp_all add: wired_def)
  have quiet: "quietly ?c p \<longleftrightarrow> quietly c p" for p by (rule quietly_cong [OF same])
  have "others_spare (wk_id ?c) ?c" using assms(1) same by (simp add: others_spare_def)
  moreover have "quiet_reader ?c (recovery_reader c rw)"
    using reader_quiet [OF assms(1)] unfolding quiet_reader_def quiet .
  moreover have "quietly ?c (native_close_resolver c order_detail r)" for r
    using quietly_resolver [OF assms(1)] unfolding quiet .
  ultimately show ?thesis using assms(2) unfolding reads_only_def by (simp add: wired_def)
qed

section \<open>What a resolved close rests on\<close>

text \<open>The venue's fills of the symbol hold a fill against the entry whose executed order names the plan.\<close>

definition close_shown ::
  "('v, 'z) DispatchExec_scheme \<Rightarrow> 'v order_reader \<Rightarrow> LiveIntentRecord \<Rightarrow> NativePlanClose \<Rightarrow> bool" where
  "close_shown c order_detail r n \<longleftrightarrow>
     (\<exists>v rows row fill plan detail oid. (\<exists>w w'. apiW c (ec_get_fills c (it_symbol r)) w = (Inr v, w')) \<and> native_rows v = Some rows
        \<and> row \<in> set rows \<and> normalize_plan_close_fill row = Inr fill \<and> nf_symbol fill = norm_symbol (it_symbol r)
        \<and> nf_side fill = opposite_side (it_side r) \<and> nf_provider_fill_id fill \<notin> set (it_provider_fill_ids r)
        \<and> (\<exists>w w'. apiW c (order_detail (it_symbol r) (nf_provider_order_id fill)) w = (Inr detail, w'))
        \<and> order_client_oid detail = Some oid
        \<and> (\<exists>db. map_option stored_record (protection_intent_by_provider_order_id db BITGET oid) = Some plan)
        \<and> it_role plan \<in> {SL, TP} \<and> it_protection_root_oid plan = Some (it_client_oid r) \<and> it_provider_order_id plan = Some oid
        \<and> norm_symbol (it_symbol plan) = norm_symbol (it_symbol r) \<and> n = plan_close r plan fill)"

lemma close_shownI:
  assumes "\<exists>w w'. apiW c (ec_get_fills c (it_symbol r)) w = (Inr v, w')" "native_rows v = Some rows" "row \<in> set rows"
    "normalize_plan_close_fill row = Inr fill" "candidate_fill r fill"
    "\<exists>w w'. apiW c (order_detail (it_symbol r) (nf_provider_order_id fill)) w = (Inr detail, w')" "order_client_oid detail = Some oid"
    "\<exists>db. map_option stored_record (protection_intent_by_provider_order_id db BITGET oid) = Some plan" "owned_plan r oid plan"
    "n = plan_close r plan fill"
  shows "close_shown c order_detail r n"
  using assms unfolding close_shown_def candidate_fill_def owned_plan_def by blast

lemma executed_shown:
  "yields (executed_plan c order_detail symbol fill) (\<lambda>found. \<forall>oid plan. found = Some (oid, plan) \<longrightarrow>
     (\<exists>detail. (\<exists>w w'. apiW c (order_detail symbol (nf_provider_order_id fill)) w = (Inr detail, w')) \<and> order_client_oid detail = Some oid
        \<and> (\<exists>db. map_option stored_record (protection_intent_by_provider_order_id db BITGET oid) = Some plan)))"
proof -
  have found: "yields (bindW (plan_owner c oid) (\<lambda>found. returnW (map_option (\<lambda>plan. (oid, plan)) found)))
      (\<lambda>found. \<forall>o' plan. found = Some (o', plan) \<longrightarrow> o' = oid
         \<and> (\<exists>db. map_option stored_record (protection_intent_by_provider_order_id db BITGET oid) = Some plan))" for oid
    unfolding plan_owner_def by (rule yields_bind [OF query_value]) (auto intro!: yields_return)
  show ?thesis unfolding executed_plan_def
    by (rule yields_attempt_bind [OF yields_ran])
      (auto intro!: yields_return yields_mono [OF found] split: option.split, metis)
qed

lemma first_owned_shown:
  "yields (first_owned c order_detail r fills) (\<lambda>found. \<forall>n. found = Some n \<longrightarrow>
     (\<exists>fill \<in> set fills. \<exists>plan detail oid. (\<exists>w w'. apiW c (order_detail (it_symbol r) (nf_provider_order_id fill)) w = (Inr detail, w'))
        \<and> order_client_oid detail = Some oid
        \<and> (\<exists>db. map_option stored_record (protection_intent_by_provider_order_id db BITGET oid) = Some plan)
        \<and> owned_plan r oid plan \<and> n = plan_close r plan fill))"
proof (induction fills)
  case Nil
  then show ?case by (simp add: yields_return)
next
  case (Cons fill fills)
  note later = yields_mono [OF Cons.IH]
  show ?case unfolding first_owned.simps
    by (rule yields_bind [OF executed_shown])
      (auto intro!: later yields_return split: option.split prod.split | blast)+
qed

lemma candidate_members:
  assumes "fill \<in> set (candidate_fills r rows)"
  obtains row where "row \<in> set rows" "normalize_plan_close_fill row = Inr fill" "candidate_fill r fill"
proof -
  from assms obtain row where row: "row \<in> set rows" "(case normalize_plan_close_fill row of Inr fill \<Rightarrow> Some fill | Inl _ \<Rightarrow> None) = Some fill"
    "candidate_fill r fill" by (auto simp: candidate_fills_def set_map_filter)
  then have "normalize_plan_close_fill row = Inr fill" by (cases "normalize_plan_close_fill row") simp_all
  then show ?thesis using that row by blast
qed

lemma resolve_shown:
  "yields (resolve_native_plan_close c order_detail r) (\<lambda>found. \<forall>n. found = Some n \<longrightarrow>
     it_role r = ENTRY \<and> 0 < it_filled_qty r \<and> close_shown c order_detail r n)"
proof -
  have rows: "yields (first_owned c order_detail r (candidate_fills r rows)) (\<lambda>found. \<forall>n. found = Some n \<longrightarrow> close_shown c order_detail r n)"
    if "native_rows v = Some rows" "\<exists>w w'. apiW c (ec_get_fills c (it_symbol r)) w = (Inr v, w')" for v rows
    by (rule yields_mono [OF first_owned_shown]) (use that in \<open>fastforce intro: close_shownI elim: candidate_members\<close>)
  show ?thesis unfolding resolve_native_plan_close_def
    by (rule yields_if, simp add: yields_return, rule yields_attempt_bind [OF yields_ran])
      (auto intro!: yields_return yields_mono [OF rows] split: option.split)
qed

end
