(* ===== verification/Recovery_Wiring.thy ===== *)
theory Recovery_Wiring
  imports Native_Close
begin

text \<open>
  The dispatch adapter as \<open>service.py\<close> wires it, with the recovery reader of \<open>Recovery_Reader\<close> and the
  resolver of \<open>Native_Close\<close>: what the adapter promises when its collaborators are the real ones. The examples
  are a split entry after a restart, its market leg filled and protected, its limit leg waiting.
\<close>

section \<open>Examples\<close>

definition reader_oid :: string where
  "reader_oid = ''live-bitget-ZROUSDT-d''"

definition reader_pending :: payload where
  "reader_pending = [(''clientOid'', JStr (reader_oid @ ''-limit'')), (''orderId'', JStr ''o2''), (''symbol'', JStr ''ZROUSDT''), (''side'', JStr ''buy''),
     (''orderType'', JStr ''limit''), (''reduceOnly'', JStr ''NO''), (''state'', JStr ''live''), (''price'', JStr ''1.58''), (''size'', JStr ''6'')]"

definition reader_exec :: "unit ReaderVenue DispatchExec" where
  "reader_exec = ExecClient.extend \<lparr>wk_id = 1, wk_others = (\<lambda>n w. w), wk_db_down = (\<lambda>n. False), wk_now = (\<lambda>n. 5),
     ec_get_account = (\<lambda>symbol. returnW JNull), ec_place_entry_order = (\<lambda>symbol side q oid price. returnW [(''orderId'', JStr ''o1'')]),
     ec_get_order_detail = (\<lambda>symbol oid. returnW (JObj (if oid = reader_oid
        then [(''orderId'', JStr ''o1''), (''state'', JStr ''filled''), (''clientOid'', JStr oid), (''filledQty'', JStr ''2''), (''avgPrice'', JStr ''1.6'')]
        else reader_pending))),
     ec_get_fills = (\<lambda>symbol. returnW (JList [
        JObj [(''tradeId'', JStr ''f1''), (''orderId'', JStr ''o1''), (''clientOid'', JStr reader_oid), (''size'', JStr ''2''), (''price'', JStr ''1.6''), (''fee'', JStr ''0'')]])),
     ec_get_single_position = (\<lambda>symbol. returnW (JList [JObj [(''symbol'', JStr ''ZROUSDT''), (''holdSide'', JStr ''long''), (''total'', JStr ''2''),
        (''openPriceAvg'', JStr ''1.6''), (''marginMode'', JStr ''isolated''), (''leverage'', JStr ''20''), (''posMode'', JStr ''one_way_mode'')]])),
     ec_get_pending_orders = (\<lambda>symbol. returnW (JList [JObj reader_pending])), ec_cancel_entry_order = (\<lambda>symbol oid. returnW JNull),
     ec_get_pending_plan_orders = (\<lambda>symbol. returnW (JList [
        JObj [(''planType'', JStr ''pos_loss''), (''symbol'', JStr ''ZROUSDT''), (''posSide'', JStr ''long''), (''planStatus'', JStr ''live''),
          (''orderId'', JStr ''p1''), (''clientOid'', JStr (reader_oid @ ''-sl'')), (''triggerPrice'', JStr ''1.57''),
          (''triggerType'', JStr ''mark_price''), (''size'', JStr '''')],
        JObj [(''planType'', JStr ''pos_profit''), (''symbol'', JStr ''ZROUSDT''), (''posSide'', JStr ''long''), (''planStatus'', JStr ''live''),
          (''orderId'', JStr ''p2''), (''clientOid'', JStr (reader_oid @ ''-tp'')), (''triggerPrice'', JStr ''1.7''),
          (''triggerType'', JStr ''mark_price''), (''size'', JStr '''')]])),
     ec_place_position_tpsl = (\<lambda>symbol side q sl tp sl_oid tp_oid. returnW JNull),
     ec_place_market_close = (\<lambda>symbol side q oid. returnW [(''orderId'', JStr ''o9'')]), ec_set_leverage = (\<lambda>symbol l. returnW JNull),
     ec_sleep = (\<lambda>d. returnW ()), ec_monotonic = (\<lambda>t. 0), ec_jitter = (\<lambda>n. 0), ec_uuid = (\<lambda>n. ''u''),
     ec_client_environment = Some ''LIVE'', ec_environment = ''LIVE'', ec_capability_repository = True,
     ec_reconciliation_repository = True, ec_entry_admission_latch = True, ec_fallback_protection_enabled = True,
     ec_emergency_containment_enabled = False, ec_protection_grace_seconds = 10, ec_protection_grace_interval_seconds = 3\<rparr>
     (DispatchExec.fields None True True True None None None False [] (\<lambda>s. ''d'') (\<lambda>d. ''d'') int)"

definition reader_wiring :: "unit ReaderWiring" where
  "reader_wiring = \<lparr>rw_get_all_positions = returnW (JList [JObj [(''symbol'', JStr ''ZROUSDT''), (''holdSide'', JStr ''long''), (''total'', JStr ''2'')]]),
     rw_get_pending_orders = returnW (JList [JObj reader_pending]), rw_account_info = Some (returnW (JObj [(''userId'', JStr ''42'')])),
     rw_environment = ''LIVE'', rw_intent_store = True, rw_reservations = True\<rparr>"

definition reader_leg :: "string \<Rightarrow> LiveIntentRecord" where
  "reader_leg oid = (new_record BITGET oid ''ZROUSDT'' ''BUY'')\<lparr>it_dispatch_id := Some 1, it_margin_reservation_id := Some 7,
     it_balance_snapshot_id := Some 3, it_planned_margin_usdt := Some 1, it_planned_leverage := Some 20, it_margin_mode := Some ''ISOLATED'',
     it_planned_stop_loss := Some (157 / 100), it_planned_take_profits := Some [17 / 10]\<rparr>"

definition reader_market :: LiveIntentRecord where
  "reader_market = (reader_leg reader_oid)\<lparr>it_state := I_filled, it_requested_qty := 2, it_filled_qty := 2, it_avg_price := Some (8 / 5),
     it_provider_order_id := Some ''o1'', it_provider_fill_ids := [''f1''], it_entry_leg := Some ''market''\<rparr>"

definition reader_limit :: LiveIntentRecord where
  "reader_limit = (reader_leg (reader_oid @ ''-limit''))\<lparr>it_state := I_acknowledged, it_requested_qty := 6, it_order_type := ''limit'',
     it_limit_price := Some (158 / 100), it_provider_order_id := Some ''o2'', it_entry_leg := Some ''limit''\<rparr>"

definition reader_db :: Db where
  "reader_db = admit_db\<lparr>db_dispatches := map (\<lambda>d. d\<lparr>ds_state := ACKNOWLEDGED\<rparr>) (db_dispatches admit_db),
     db_reservations := [exposed_row\<lparr>rs_client_order_id := reader_oid, rs_symbol := Some ''ZROUSDT'', rs_environment := Some ''LIVE''\<rparr>],
     db_intents := [LiveIntentRecord.extend reader_market (IntentRow.fields 5), LiveIntentRecord.extend reader_limit (IntentRow.fields 5)]\<rparr>"

definition reader_world :: "unit ReaderVenue exec_world" where
  "reader_world = \<lparr>ww_db = reader_db, ww_venue = \<lparr>pw_degraded = False, pw_recovery_ready = False, pw_recovery_issues = [],
     pw_venue = \<lparr>rv_verified = [], rv_venue = ()\<rparr>\<rparr>, ww_tick = 0, ww_wins = [(1, reader_oid), (1, reader_oid @ ''-limit'')],
     ww_posts = [(1, reader_oid), (1, reader_oid @ ''-limit'')]\<rparr>"

definition plan_order :: "unit ReaderVenue order_reader" where
  "plan_order = (\<lambda>symbol oid. returnW (JObj [(''orderId'', JStr oid), (''clientOid'', JStr ''p1'')]))"

definition service_exec :: "unit ReaderVenue DispatchExec" where
  "service_exec = wired reader_exec reader_wiring plan_order"

text \<open>The same position after a hand-over: managed locally, no order of it left in the tables.\<close>

definition managed_row :: FallbackRow where
  "managed_row = \<lparr>fb_id = reader_oid, fb_exchange = ''bitget'', fb_symbol = ''ZROUSDT'', fb_direction = ''LONG'', fb_entry_price = 8 / 5,
     fb_stop_loss = 157 / 100, fb_take_profits = [17 / 10], fb_quantity = 2, fb_position_key = Some reader_oid, fb_provider_position_epoch = None,
     fb_environment = Some ''LIVE'', fb_state = FB_active, fb_close_price = None, fb_close_reason = None, fb_close_order_id = None\<rparr>"

definition managed_world :: "unit ReaderVenue exec_world" where
  "managed_world = reader_world\<lparr>ww_db := empty_db\<lparr>db_fallback := [managed_row]\<rparr>\<rparr>"

definition managed_wiring :: "unit ReaderWiring" where
  "managed_wiring = reader_wiring\<lparr>rw_get_pending_orders := returnW (JList [])\<rparr>"

definition ready_run :: "(Exn, nat) raises \<times> unit ReaderVenue exec_world" where
  "ready_run = recover_entry_lifecycles (wired reader_exec managed_wiring plan_order) managed_world"

lemma ready_run_ready: "fst ready_run = Inr 0 \<and> pw_recovery_ready (ww_venue (snd ready_run))"
  by code_simp

lemma reader_alone: "others_spare (wk_id reader_exec) reader_exec" "de_console_cancel_claim reader_exec = None" "wk_id service_exec = 1"
  by (simp_all add: service_exec_def wired_def reader_exec_def others_spare_def spares_def ExecClient.defs DispatchExec.defs)

lemma reader_world_ok: "orders_ok reader_world"
  unfolding orders_ok_def by code_simp

text \<open>The stop was executed: the venue reports its fill, the position is closed.\<close>

definition stop_fill :: payload where
  "stop_fill = [(''tradeId'', JStr ''f2''), (''orderId'', JStr ''x1''), (''symbol'', JStr ''ZROUSDT''), (''side'', JStr ''sell''), (''tradeSide'', JStr ''close''),
     (''size'', JStr ''2''), (''price'', JStr ''1.57''), (''fee'', JStr ''0.01''), (''profit'', JStr ''-0.06''), (''cTime'', JStr ''9'')]"

definition stopped_exec :: "unit ReaderVenue DispatchExec" where
  "stopped_exec = reader_exec\<lparr>ec_get_fills := (\<lambda>symbol. returnW (JList [JObj stop_fill]))\<rparr>"

definition reader_stop :: LiveIntentRecord where
  "reader_stop = (new_record BITGET (reader_oid @ ''-sl'') ''ZROUSDT'' ''SELL'')\<lparr>it_role := SL, it_state := I_acknowledged, it_requested_qty := 2,
     it_planned_stop_loss := Some (157 / 100), it_planned_take_profits := Some [17 / 10], it_provider_order_id := Some ''p1'',
     it_protection_root_oid := Some reader_oid\<rparr>"

definition stopped_world :: "unit ReaderVenue exec_world" where
  "stopped_world = reader_world\<lparr>ww_db := reader_db\<lparr>db_intents := db_intents reader_db @ [LiveIntentRecord.extend reader_stop (IntentRow.fields 5)]\<rparr>\<rparr>"

definition stop_run :: "(Exn, bool) raises \<times> unit ReaderVenue exec_world" where
  "stop_run = native_close_resolver stopped_exec plan_order reader_market stopped_world"

lemma stop_run_bound: "fst stop_run = Inr True"
  by code_simp

section \<open>Lemmas\<close>

lemma recovery_readied:
  assumes "recover_entry_lifecycles c w = (Inr n, w')" "pw_recovery_ready (ww_venue w')"
  obtains w1 w2 where "inventoryD c w1 = (Inr [], w2)"
proof -
  from assms(1) obtain issues inventory unresolved w1 w2 w3 where run: "inventoryD c w1 = (Inr inventory, w2)"
    and last: "set_processW (\<lambda>s. s\<lparr>pw_recovery_issues := sort (remdups (issues @ inventory @ unresolved)),
         pw_recovery_ready := (sort (remdups (issues @ inventory @ unresolved)) = [])\<rparr>) w3 = (Inr (), w')"
    unfolding recover_entry_lifecycles_def
    by (elim bindW_InrE) (auto simp: raiseW_def Let_def returnW_def elim!: bindW_InrE split: if_splits)
  have "sort (remdups (issues @ inventory @ unresolved)) = []"
    using last assms(2) by (auto simp: set_processW_def)
  then have "set (issues @ inventory @ unresolved) = {}" by (metis set_empty set_remdups set_sort)
  then show ?thesis using that run by simp
qed

lemma resolver_recorded:
  assumes "native_close_resolver c order_detail r w = (Inr True, w')"
  obtains n v where "close_shown c order_detail r n" "it_role r = ENTRY" "0 < it_filled_qty r"
    "bind_native_close (nc_root_oid n) (nc_close_oid n) (nc_plan_oid n) (nc_executed_order_id n) v = Inr (ww_db w')"
proof -
  from assms obtain found w1 where resolved: "resolve_native_plan_close c order_detail r w = (Inr found, w1)"
    and rest: "(case found of None \<Rightarrow> returnW False | Some n \<Rightarrow> bindW (reconcile_native_plan_close c n) (\<lambda>_. returnW True)) w1 = (Inr True, w')"
    unfolding native_close_resolver_def by (elim bindW_InrE)
  then obtain n where n: "found = Some n" by (cases found) (auto simp: returnW_def)
  with rest obtain b w2 w3 where bound: "execW c (bind_native_close (nc_root_oid n) (nc_close_oid n) (nc_plan_oid n) (nc_executed_order_id n)) w2 = (Inr b, w')"
    by (auto simp: reconcile_native_plan_close_def returnW_def elim!: bindW_InrE)
  then obtain v where "bind_native_close (nc_root_oid n) (nc_close_oid n) (nc_plan_oid n) (nc_executed_order_id n) v = Inr (ww_db w')"
    by (auto simp: execW_def dbW_def transactW_def run_simps split: if_splits sum.splits)
  with yieldsD [OF resolve_shown resolved] n that show ?thesis by blast
qed

section \<open>Properties\<close>

text \<open>
  C1: the service posts each order once. With the collaborators it wires, however the dispatcher, the other processes, the
  venue and the database interleave, submitting an entry leaves every client order id posted at most once and
  only after its durable claim, and other workers' entries untouched; recovering the entry lifecycles, with every read,
  retirement and native close that involves, claims and posts nothing.
\<close>

theorem service_posts_once:
  assumes "others_spare (wk_id c) c" and "de_console_cancel_claim c = None" and "orders_ok w"
    and "dispatch_submit_entry (wired c rw order_detail) d s w = (res, w')"
  shows "orders_ok w' \<and> distinct (map snd (ww_posts w'))
    \<and> (\<forall>k. k \<noteq> wk_id c \<and> others_spare k c \<longrightarrow> entries_of k w' = entries_of k w)
    \<and> entries_of (wk_id c) (snd (reconcile_active_reservations (wired c rw order_detail) w)) = entries_of (wk_id c) w"
proof -
  note reads = wired_reads_only [OF assms(1,2), of rw order_detail]
  have same: "wk_id (wired c rw order_detail) = wk_id c" "others_spare k (wired c rw order_detail) = others_spare k c" for k
    by (simp_all add: wired_def others_spare_def)
  have "snd (dispatch_submit_entry (wired c rw order_detail) d s w) = w'" using assms(4) by simp
  from safely_posted_once [OF safely_dispatch [OF reads] assms(3) this]
    quietly_entries [OF quietly_reservations [OF reads] assms(3) prod.collapse [symmetric]]
  show ?thesis by (simp add: same)
qed

definition service_c :: "unit ReaderVenue DispatchExec" where
  "service_c = reader_exec\<lparr>de_dispatch_repository := False, de_reservations := False, de_kill_switch := False,
     ec_get_order_detail := (\<lambda>symbol oid. returnW (JObj [(''orderId'', JStr ''o1''), (''state'', JStr ''cancelled''), (''clientOid'', JStr oid)]))\<rparr>"

definition service_world :: "unit ReaderVenue exec_world" where
  "service_world = managed_world\<lparr>ww_db := ww_db split_world, ww_wins := [], ww_posts := [],
     ww_venue := (ww_venue managed_world)\<lparr>pw_recovery_ready := True\<rparr>\<rparr>"

definition service_run :: "(Exn, string) raises \<times> unit ReaderVenue exec_world" where
  "service_run = dispatch_submit_entry (wired service_c managed_wiring plan_order) split_dispatch sample_submission service_world"

text \<open>The account cannot be read after the claim: the entry stays claimed and is not posted.\<close>

lemma service_run_posts: "ww_wins (snd service_run) = [(1, ''live-bitget-ZRO-d'')] \<and> ww_posts (snd service_run) = []"
  by code_simp

theorem service_posts_once_witness:
  "ww_wins (snd service_run) = [(1, ''live-bitget-ZRO-d'')] \<and> ww_posts (snd service_run) = [] \<and> orders_ok (snd service_run)
   \<and> entries_of 1 (snd (reconcile_active_reservations (wired service_c managed_wiring plan_order) service_world)) = ([], [])"
proof -
  have alone: "others_spare (wk_id service_c) service_c" "de_console_cancel_claim service_c = None" "wk_id service_c = 1"
    by (simp_all add: service_c_def reader_exec_def others_spare_def spares_def ExecClient.defs DispatchExec.defs)
  have start: "orders_ok service_world" using split_world_ok by (simp add: orders_ok_def service_world_def managed_world_def)
  have run: "dispatch_submit_entry (wired service_c managed_wiring plan_order) split_dispatch sample_submission service_world = (fst service_run, snd service_run)"
    by (simp add: service_run_def)
  have "entries_of 1 service_world = ([], [])" by (simp add: entries_of_def service_world_def)
  then show ?thesis using service_posts_once [OF alone(1,2) start run] service_run_posts alone(3) by simp
qed



text \<open>
  C12: a native close is booked only on the venue's own evidence. When the resolver reports that it booked a close
  of an entry, the venue's fills of the symbol hold a fill against the entry, not one of its own, whose executed order reads
  back under the identifier of a stop or target plan that the ledger records for exactly this entry; and the stored close
  has the quantity its ledger fills add up to and is bound to the reservation of the entry.
\<close>

theorem native_close_owned:
  assumes "native_close_resolver c order_detail r w = (Inr True, w')"
  shows "it_role r = ENTRY \<and> 0 < it_filled_qty r \<and> (\<exists>n e k rid. close_shown c order_detail r n \<and> nc_root_oid n = it_client_oid r
    \<and> find_intent (ww_db w') BITGET (it_client_oid r) = Some e \<and> it_role e = ENTRY \<and> it_margin_reservation_id e = Some rid
    \<and> find_intent (ww_db w') BITGET (nc_close_oid n) = Some k \<and> it_role k = CLOSE \<and> it_side k \<noteq> it_side e
    \<and> it_provider_order_id k = Some (nc_executed_order_id n) \<and> 0 < it_filled_qty k \<and> it_filled_qty k = real_quantity (ww_db w') k
    \<and> (\<exists>b \<in> set (db_bindings (ww_db w')). cb_close_client_order_id b = nc_close_oid n \<and> cb_reservation_id b = rid))"
proof -
  obtain n v where shown: "close_shown c order_detail r n" and entry: "it_role r = ENTRY" "0 < it_filled_qty r"
    and bound: "bind_native_close (nc_root_oid n) (nc_close_oid n) (nc_plan_oid n) (nc_executed_order_id n) v = Inr (ww_db w')"
    by (rule resolver_recorded [OF assms])
  have oid: "nc_root_oid n = it_client_oid r" using shown by (auto simp: close_shown_def plan_close_def)
  obtain rid where owner: "native_close_owner v (nc_root_oid n) (nc_plan_oid n) (nc_close_oid n) (nc_executed_order_id n) = Some (Some rid)"
    and tables: "db_intents (ww_db w') = db_intents v" "db_fills (ww_db w') = db_fills v"
    and binding: "\<exists>b \<in> set (db_bindings (ww_db w')). cb_close_client_order_id b = nc_close_oid n \<and> cb_reservation_id b = rid"
    by (rule bind_native_rows [OF bound])
  have same: "find_intent (ww_db w') ex oid = find_intent v ex oid" "real_quantity (ww_db w') k = real_quantity v k" for ex oid k
    using tables by (simp_all add: find_intent_def real_quantity_def real_fills_def fills_of_def)
  obtain e k where "find_intent v BITGET (it_client_oid r) = Some e" "it_role e = ENTRY" "it_margin_reservation_id e = Some rid"
    "find_intent v BITGET (nc_close_oid n) = Some k" "it_role k = CLOSE" "it_side k \<noteq> it_side e"
    "it_provider_order_id k = Some (nc_executed_order_id n)" "0 < it_filled_qty k" "it_filled_qty k = real_quantity v k"
    using owner unfolding native_close_owner_def oid by (auto split: option.splits if_splits)
  then show ?thesis using shown entry binding oid unfolding same by blast
qed

theorem native_close_owned_witness:
  "fst stop_run = Inr True \<and> (\<exists>n k. close_shown stopped_exec plan_order reader_market n
     \<and> find_intent (ww_db (snd stop_run)) BITGET (nc_close_oid n) = Some k \<and> it_filled_qty k = real_quantity (ww_db (snd stop_run)) k)"
proof -
  have run: "native_close_resolver stopped_exec plan_order reader_market stopped_world = (Inr True, snd stop_run)"
    using stop_run_bound by (metis prod.collapse stop_run_def)
  from native_close_owned [OF run] stop_run_bound show ?thesis by blast
qed

text \<open>
  A native close of two fills is never verified again. The second fill raises the filled quantity of the stored close, while the requested
  quantity, no column of the update, stays that of the first; the release of a reservation after a verified close
  refuses a close whose two quantities differ, whatever evidence it is given.
\<close>

theorem second_fill_blocks_release:
  assumes "get_intent db (it_client_oid i) = Some i" and "it_requested_qty i = it_filled_qty i"
    and "dec_add (it_filled_qty i) (nc_quantity n) \<noteq> it_filled_qty i"
    and "update_intent now (merged_close (stored_record i) n) db = Inr db'"
  shows "\<exists>i'. get_intent db' (it_client_oid i) = Some i' \<and> nc_provider_fill_id n \<in> set (it_provider_fill_ids i')
    \<and> \<not> closing_bound q m e i'"
proof -
  have same: "it_client_oid (merged_close (stored_record i) n) = it_client_oid i" "readback_target (merged_close (stored_record i) n) i"
    by (simp_all add: merged_close_def stored_record_def LiveIntentRecord.truncate_def readback_target_def)
  have "get_intent db' (it_client_oid i) = Some (readback_row (merged_close (stored_record i) n) i)"
    using updated_row [OF assms(4)] assms(1) same by simp
  moreover have "nc_provider_fill_id n \<in> set (it_provider_fill_ids (readback_row (merged_close (stored_record i) n) i))"
    "\<not> closing_bound q m e (readback_row (merged_close (stored_record i) n) i)"
    using assms(2,3) by (auto simp: readback_row_def merged_close_def stored_record_def LiveIntentRecord.truncate_def closing_bound_def)
  ultimately show ?thesis by blast
qed

text \<open>A symbol the venue shows empty, with a reservation that has no entry and a stop of unknown outcome.\<close>

definition empty_exec :: "unit ReaderVenue DispatchExec" where
  "empty_exec = reader_exec\<lparr>ec_get_single_position := (\<lambda>symbol. returnW (JList [])), ec_get_pending_plan_orders := (\<lambda>symbol. returnW (JList []))\<rparr>"

definition left_world :: "unit ReaderVenue exec_world" where
  "left_world = reader_world\<lparr>ww_db := reader_db\<lparr>db_intents := [LiveIntentRecord.extend (reader_stop\<lparr>it_state := I_unknown\<rparr>) (IntentRow.fields 5)]\<rparr>\<rparr>"

definition retire_run :: "(Exn, OrphanCandidate list) raises \<times> unit ReaderVenue exec_world" where
  "retire_run = retire_proved_empty_orphans empty_exec managed_wiring left_world"

definition settle_run :: "(Exn, LiveIntentRecord list) raises \<times> unit ReaderVenue exec_world" where
  "settle_run = settle_absent_protection empty_exec managed_wiring left_world"

definition left_orphan :: OrphanCandidate where
  "left_orphan = \<lparr>oc_id = 7, oc_symbol = ''ZROUSDT'', oc_client_order_id = reader_oid, oc_state = R_unknown\<rparr>"

lemma left_runs: "fst retire_run = Inr [left_orphan]" "fst settle_run = Inr [reader_stop\<lparr>it_state := I_unknown\<rparr>]"
  by code_simp+


end
