(* ===== verification/Management_Store.thy ===== *)
theory Management_Store
  imports Freshness Kill_Switch
begin

text \<open>
  The queue of source-management updates (take-profit booked, stop to entry, close) and the fence of
  the orders they may post: \<open>storage/source_management.py\<close>, the in-memory store of
  \<open>execution/source_management.py\<close>, and the enrolment of \<open>analyzer/postgres_worker.py\<close>. A
  transaction reads the database clock once. The texts of the alerts are left out, their
  deduplication keys are kept.
\<close>

section \<open>Updates\<close>

record SourceManagementUpdate =
  su_id :: UUID
  su_source_message_id :: UUID
  su_revision :: string
  su_symbol :: string
  su_action :: ManagementAction
  su_state :: string
  su_attempts :: int

definition OPEN_UPDATES :: "string list" where
  "OPEN_UPDATES = [''queued'', ''claimed'', ''reconciliation-pending'']"

definition SETTLED_UPDATES :: "string list" where
  "SETTLED_UPDATES = [''reconciled'', ''failed'', ''cancelled-flat'', ''entries-cancelled'']"

section \<open>The tables\<close>

text \<open>The checks of a row: a known state, and a deadline while the update is open.\<close>

definition management_check :: "ManagementRow \<Rightarrow> bool" where
  "management_check r \<longleftrightarrow> mu_state r \<in> set (OPEN_UPDATES @ SETTLED_UPDATES)
     \<and> (mu_state r \<in> set SETTLED_UPDATES \<or> mu_deadline_at r \<noteq> None)"

definition update_management :: "(ManagementRow \<Rightarrow> bool) \<Rightarrow> (ManagementRow \<Rightarrow> ManagementRow) \<Rightarrow> Db \<Rightarrow> (Exn, Db) raises" where
  "update_management p f db =
     (if \<exists>r \<in> set (db_management db). p r \<and> \<not> management_check (f r)
      then Inl (StorageError ''source_management_updates check'')
      else Inr (db\<lparr>db_management := update_where p f (db_management db)\<rparr>))"

definition find_management :: "UUID \<Rightarrow> Db \<Rightarrow> ManagementRow option" where
  "find_management uid db = List.find (\<lambda>r. mu_id r = uid) (db_management db)"

definition find_message :: "UUID \<Rightarrow> Db \<Rightarrow> SourceMessage option" where
  "find_message mid db = List.find (\<lambda>m. tm_id m = mid) (db_messages db)"

section \<open>Enrolment\<close>

definition MANAGEMENT_DEADLINE_MINUTES :: int where
  "MANAGEMENT_DEADLINE_MINUTES = 30"

definition enroll_management ::
  "timestamp \<Rightarrow> UUID \<Rightarrow> UUID \<Rightarrow> string \<Rightarrow> string \<Rightarrow> ManagementAction \<Rightarrow> Db \<Rightarrow> (Exn, Db) raises" where
  "enroll_management now uid mid revision symbol action db =
     (if \<exists>r \<in> set (db_management db). mu_source_message_id r = mid \<and> mu_revision r = revision \<and> mu_symbol r = symbol \<and> mu_action r = action
      then Inr db
      else if find_management uid db \<noteq> None then Inl (StorageError ''source_management_updates_pkey'')
      else if find_message mid db = None then Inl (StorageError ''source_management_updates_source_message_id_fkey'')
      else Inr (db\<lparr>db_management := db_management db @
        [\<lparr>mu_id = uid, mu_source_message_id = mid, mu_revision = revision, mu_symbol = symbol, mu_action = action, mu_state = ''queued'',
          mu_claimed_by = None, mu_claimed_at = None, mu_updated_at = now, mu_attempts = 0, mu_last_error = None,
          mu_deadline_at = Some (now + MANAGEMENT_DEADLINE_MINUTES * 60000000)\<rparr>]\<rparr>))"

section \<open>The durable store\<close>

text \<open>An update that may already have acted at the venue: it holds a provider intent or a cancellation claim.\<close>

definition fenced_update :: "Db \<Rightarrow> UUID \<Rightarrow> bool" where
  "fenced_update db uid \<longleftrightarrow> uid \<in> fst ` set (db_management_intents db)
     \<or> (\<exists>i \<in> set (db_intents db). it_cancel_requested_by i = Some uid)"

definition source_lapsed :: "Db \<Rightarrow> timestamp \<Rightarrow> ManagementRow \<Rightarrow> bool" where
  "source_lapsed db now r \<longleftrightarrow>
     (case find_message (mu_source_message_id r) db of None \<Rightarrow> False | Some m \<Rightarrow> \<not> source_eligible db now m)"

definition fail_lapsed :: "timestamp \<Rightarrow> Db \<Rightarrow> (Exn, Db) raises" where
  "fail_lapsed now db =
     update_management (\<lambda>r. source_lapsed db now r \<and> mu_state r \<in> set OPEN_UPDATES \<and> \<not> fenced_update db (mu_id r))
       (\<lambda>r. r\<lparr>mu_state := ''failed'', mu_updated_at := now\<rparr>) db"

definition past :: "timestamp \<Rightarrow> timestamp option \<Rightarrow> bool" where
  "past now t = (case t of None \<Rightarrow> False | Some d \<Rightarrow> d \<le> now)"

definition fail_overdue :: "timestamp \<Rightarrow> Db \<Rightarrow> (Exn, Db) raises" where
  "fail_overdue now db =
     update_management (\<lambda>r. mu_state r \<in> {''queued'', ''claimed''} \<and> past now (mu_deadline_at r) \<and> \<not> fenced_update db (mu_id r))
       (\<lambda>r. r\<lparr>mu_state := ''failed'', mu_last_error := Some ''management-execution-budget-expired'', mu_updated_at := now\<rparr>) db"

definition claimable :: "timestamp \<Rightarrow> ManagementRow \<Rightarrow> bool" where
  "claimable now r \<longleftrightarrow> mu_state r \<in> set OPEN_UPDATES
     \<and> (mu_state r \<noteq> ''reconciliation-pending'' \<or> mu_deadline_at r = None \<or> past now (mu_deadline_at r))"

text \<open>The oldest claimable row no other transaction holds locked.\<close>

definition candidate_update :: "timestamp \<Rightarrow> UUID list \<Rightarrow> Db \<Rightarrow> ManagementRow option" where
  "candidate_update now locked db =
     (case sort_key mu_updated_at (sort_key mu_id (filter (\<lambda>r. claimable now r \<and> mu_id r \<notin> set locked) (db_management db))) of
        [] \<Rightarrow> None | r # _ \<Rightarrow> Some r)"

definition row_update :: "ManagementRow \<Rightarrow> SourceManagementUpdate" where
  "row_update r =
     \<lparr>su_id = mu_id r, su_source_message_id = mu_source_message_id r, su_revision = mu_revision r, su_symbol = mu_symbol r,
      su_action = mu_action r, su_state = mu_state r, su_attempts = 0\<rparr>"

definition claimed_row :: "timestamp \<Rightarrow> string \<Rightarrow> ManagementRow \<Rightarrow> ManagementRow" where
  "claimed_row now worker r = r\<lparr>mu_state := ''claimed'', mu_claimed_by := Some worker, mu_claimed_at := Some now, mu_updated_at := now\<rparr>"

definition pg_claim_update :: "timestamp \<Rightarrow> UUID list \<Rightarrow> string \<Rightarrow> Db \<Rightarrow> SourceManagementUpdate option transaction" where
  "pg_claim_update now locked worker db =
     (if worker = [] then Inl (ValueError ''worker_id is required'')
      else
        bindE (fail_lapsed now db) (\<lambda>db1.
        bindE (fail_overdue now db1) (\<lambda>db2.
          case candidate_update now locked db2 of
            None \<Rightarrow> Inr (db2, None)
          | Some r \<Rightarrow>
              bindE (update_management (\<lambda>x. mu_id x = mu_id r) (claimed_row now worker) db2) (\<lambda>db3.
                Inr (db3, Some (row_update (claimed_row now worker r)))))))"

definition pg_get_update :: "UUID \<Rightarrow> Db \<Rightarrow> (Exn, SourceManagementUpdate) raises" where
  "pg_get_update uid db =
     (case find_management uid db of None \<Rightarrow> Inl (LookupError ''unknown management update'') | Some r \<Rightarrow> Inr (row_update r))"

definition parked_row :: "timestamp \<Rightarrow> string \<Rightarrow> int \<Rightarrow> int \<Rightarrow> ManagementRow \<Rightarrow> ManagementRow" where
  "parked_row now reason retry_seconds max_attempts r =
     (let spent = max_attempts \<le> mu_attempts r + 1 in
      r\<lparr>mu_attempts := mu_attempts r + 1, mu_last_error := Some (take 400 reason), mu_updated_at := now,
        mu_deadline_at := (if spent then None else Some (now + max 0 retry_seconds * 1000000)),
        mu_state := (if spent then ''failed'' else ''reconciliation-pending'')\<rparr>)"

definition pg_park :: "timestamp \<Rightarrow> UUID \<Rightarrow> string \<Rightarrow> int \<Rightarrow> int \<Rightarrow> Db \<Rightarrow> string transaction" where
  "pg_park now uid reason retry_seconds max_attempts db =
     (if max_attempts < 1 then Inl (ValueError ''max_attempts must be positive'')
      else case find_management uid db of
        None \<Rightarrow> Inl (LookupError ''unknown management update'')
      | Some r \<Rightarrow>
          let state = mu_state (parked_row now reason retry_seconds max_attempts r) in
          bindE (update_management (\<lambda>x. mu_id x = uid) (parked_row now reason retry_seconds max_attempts) db) (\<lambda>db1.
            Inr (if state = ''failed'' then enqueue (ManagementDeadLetterKey uid) db1 else db1, state)))"

definition pg_update_state :: "timestamp \<Rightarrow> UUID \<Rightarrow> string \<Rightarrow> Db \<Rightarrow> (Exn, Db) raises" where
  "pg_update_state now uid state db =
     update_management (\<lambda>r. mu_id r = uid) (\<lambda>r. r\<lparr>mu_state := state, mu_updated_at := now\<rparr>) db"

definition pg_alert_outcome :: "UUID \<Rightarrow> Db \<Rightarrow> (Exn, Db) raises" where
  "pg_alert_outcome uid db = Inr (enqueue (ManagementOutcomeKey uid) db)"

definition pg_persist_intent :: "UUID \<Rightarrow> string \<Rightarrow> Db \<Rightarrow> bool transaction" where
  "pg_persist_intent uid oid db =
     (if find_management uid db = None then Inl (StorageError ''source_management_provider_intents_fkey'')
      else if (uid, oid) \<in> set (db_management_intents db) then Inr (db, False)
      else Inr (db\<lparr>db_management_intents := db_management_intents db @ [(uid, oid)]\<rparr>, True))"

definition pg_has_intent :: "UUID \<Rightarrow> string \<Rightarrow> Db \<Rightarrow> bool" where
  "pg_has_intent uid oid db \<longleftrightarrow> (uid, oid) \<in> set (db_management_intents db)"

definition pg_is_eligible :: "timestamp \<Rightarrow> UUID \<Rightarrow> Db \<Rightarrow> bool" where
  "pg_is_eligible now uid db =
     (case find_management uid db of
        None \<Rightarrow> False
      | Some r \<Rightarrow>
          (case find_message (mu_source_message_id r) db of
             None \<Rightarrow> False
           | Some m \<Rightarrow> source_eligible db now m \<and> tm_revision_hash m = mu_revision r))"

definition pg_has_cancellation :: "UUID \<Rightarrow> Db \<Rightarrow> bool" where
  "pg_has_cancellation uid db \<longleftrightarrow>
     (\<exists>i \<in> set (db_intents db). it_exchange i = BITGET \<and> it_role i = ENTRY \<and> it_cancel_requested_by i = Some uid)"

section \<open>The in-memory store\<close>

text \<open>The dictionary of updates in insertion order: replacing a value keeps its place, \<open>pop\<close> and insertion move it to the end.\<close>

record MemManagement =
  mm_updates :: "SourceManagementUpdate list"
  mm_intents :: "(UUID \<times> string) list"
  mm_eligible :: bool
  mm_cancellations :: "UUID list"
  mm_outcomes :: "(string \<times> string) list"

definition mem_claim_update :: "string \<Rightarrow> MemManagement \<Rightarrow> (Exn, MemManagement \<times> SourceManagementUpdate option) raises" where
  "mem_claim_update worker s =
     (if worker = [] then Inl (ValueError ''worker_id is required'')
      else case List.find (\<lambda>u. su_state u \<in> set OPEN_UPDATES) (mm_updates s) of
        None \<Rightarrow> Inr (s, None)
      | Some u \<Rightarrow>
          let claimed = u\<lparr>su_state := ''claimed''\<rparr> in
          Inr (s\<lparr>mm_updates := update_where (\<lambda>x. su_id x = su_id u) (\<lambda>_. claimed) (mm_updates s)\<rparr>, Some claimed))"

definition mem_find_update :: "UUID \<Rightarrow> MemManagement \<Rightarrow> SourceManagementUpdate option" where
  "mem_find_update uid s = List.find (\<lambda>u. su_id u = uid) (mm_updates s)"

definition mem_get_update :: "UUID \<Rightarrow> MemManagement \<Rightarrow> (Exn, SourceManagementUpdate) raises" where
  "mem_get_update uid s = (case mem_find_update uid s of None \<Rightarrow> Inl (KeyError (show_int uid)) | Some u \<Rightarrow> Inr u)"

definition mem_update_state :: "UUID \<Rightarrow> string \<Rightarrow> MemManagement \<Rightarrow> (Exn, MemManagement) raises" where
  "mem_update_state uid state s =
     bindE (mem_get_update uid s) (\<lambda>u.
       Inr (s\<lparr>mm_updates := filter (\<lambda>x. su_id x \<noteq> uid) (mm_updates s) @ [u\<lparr>su_state := state\<rparr>]\<rparr>))"

definition mem_alert_outcome :: "SourceManagementUpdate \<Rightarrow> string \<Rightarrow> MemManagement \<Rightarrow> MemManagement" where
  "mem_alert_outcome u state s = s\<lparr>mm_outcomes := mm_outcomes s @ [(su_symbol u, state)]\<rparr>"

definition parked_update :: "int \<Rightarrow> SourceManagementUpdate \<Rightarrow> SourceManagementUpdate" where
  "parked_update max_attempts u =
     u\<lparr>su_attempts := su_attempts u + 1,
       su_state := (if max_attempts \<le> su_attempts u + 1 then ''failed'' else ''reconciliation-pending'')\<rparr>"

definition mem_park :: "UUID \<Rightarrow> int \<Rightarrow> MemManagement \<Rightarrow> (Exn, MemManagement \<times> string) raises" where
  "mem_park uid max_attempts s =
     (if max_attempts < 1 then Inl (ValueError ''max_attempts must be positive'')
      else bindE (mem_get_update uid s) (\<lambda>u.
        Inr (s\<lparr>mm_updates := update_where (\<lambda>x. su_id x = uid) (\<lambda>_. parked_update max_attempts u) (mm_updates s)\<rparr>,
             su_state (parked_update max_attempts u))))"

definition mem_persist_intent :: "UUID \<Rightarrow> string \<Rightarrow> MemManagement \<Rightarrow> (Exn, MemManagement \<times> bool) raises" where
  "mem_persist_intent uid oid s =
     (if (uid, oid) \<in> set (mm_intents s) then Inr (s, False) else Inr (s\<lparr>mm_intents := mm_intents s @ [(uid, oid)]\<rparr>, True))"

definition mem_has_intent :: "UUID \<Rightarrow> string \<Rightarrow> MemManagement \<Rightarrow> bool" where
  "mem_has_intent uid oid s \<longleftrightarrow> (uid, oid) \<in> set (mm_intents s)"

section \<open>The fence\<close>

text \<open>Both stores grant the intent of an order of an update once, by the claim contract of the intent stores.\<close>

interpretation pg_fence: intent_claims "\<lambda>(uid, oid). pg_persist_intent uid oid"
  "\<lambda>db (uid, oid). if pg_has_intent uid oid db then Some () else None" "\<lambda>k. k"
  by unfold_locales (auto simp: pg_persist_intent_def pg_has_intent_def split: if_splits)

interpretation mem_fence: intent_claims "\<lambda>(uid, oid). mem_persist_intent uid oid"
  "\<lambda>s (uid, oid). if mem_has_intent uid oid s then Some () else None" "\<lambda>k. k"
  by unfold_locales (auto simp: mem_persist_intent_def mem_has_intent_def split: if_splits)

section \<open>The queue contract\<close>

text \<open>Runs of a queue: anyone may claim; the holder of a claimed update parks it against the budget \<open>m\<close> or
  settles it; the analyzer enrols new updates. The count is that of the parks of \<open>uid\<close>.\<close>

inductive queue_run ::
  "('c \<Rightarrow> 's \<Rightarrow> (Exn, 's \<times> SourceManagementUpdate option) raises) \<Rightarrow> ('c \<Rightarrow> UUID \<Rightarrow> int \<Rightarrow> 's \<Rightarrow> (Exn, 's \<times> string) raises)
    \<Rightarrow> ('c \<Rightarrow> UUID \<Rightarrow> string \<Rightarrow> 's \<Rightarrow> (Exn, 's) raises) \<Rightarrow> ('s \<Rightarrow> UUID \<Rightarrow> (string \<times> int) option) \<Rightarrow> ('s \<Rightarrow> bool) \<Rightarrow> int \<Rightarrow> UUID \<Rightarrow> 's \<Rightarrow> nat \<Rightarrow> 's \<Rightarrow> bool"
  for claim_op park_op settle_op status ok m uid s0 where
  start: "queue_run claim_op park_op settle_op status ok m uid s0 0 s0"
| claims: "queue_run claim_op park_op settle_op status ok m uid s0 k s \<Longrightarrow> claim_op c s = Inr (s', r)
    \<Longrightarrow> queue_run claim_op park_op settle_op status ok m uid s0 k s'"
| parks: "queue_run claim_op park_op settle_op status ok m uid s0 k s \<Longrightarrow> map_option fst (status s i) = Some ''claimed''
    \<Longrightarrow> park_op c i m s = Inr (s', st) \<Longrightarrow> queue_run claim_op park_op settle_op status ok m uid s0 (if i = uid then Suc k else k) s'"
| settles: "queue_run claim_op park_op settle_op status ok m uid s0 k s \<Longrightarrow> map_option fst (status s i) = Some ''claimed''
    \<Longrightarrow> settle_op c i st s = Inr s' \<Longrightarrow> queue_run claim_op park_op settle_op status ok m uid s0 k s'"
| others: "queue_run claim_op park_op settle_op status ok m uid s0 k s
    \<Longrightarrow> ok s' \<Longrightarrow> (\<forall>i. status s' i = status s i \<or> status s i = None \<and> status s' i = Some (''queued'', 0))
    \<Longrightarrow> queue_run claim_op park_op settle_op status ok m uid s0 k s'"

locale management_queue =
  fixes status :: "'s \<Rightarrow> UUID \<Rightarrow> (string \<times> int) option"
    and ok :: "'s \<Rightarrow> bool"
    and claim_op :: "'c \<Rightarrow> 's \<Rightarrow> (Exn, 's \<times> SourceManagementUpdate option) raises"
    and park_op :: "'c \<Rightarrow> UUID \<Rightarrow> int \<Rightarrow> 's \<Rightarrow> (Exn, 's \<times> string) raises"
    and settle_op :: "'c \<Rightarrow> UUID \<Rightarrow> string \<Rightarrow> 's \<Rightarrow> (Exn, 's) raises"
  assumes claim_ok: "ok s \<Longrightarrow> claim_op c s = Inr (s', r) \<Longrightarrow> ok s'"
    and park_ok: "ok s \<Longrightarrow> park_op c i m s = Inr (s', st) \<Longrightarrow> ok s'"
    and settle_ok: "ok s \<Longrightarrow> settle_op c i st s = Inr s' \<Longrightarrow> ok s'"
    and claim_open: "ok s \<Longrightarrow> claim_op c s = Inr (s', Some u) \<Longrightarrow>
      \<exists>st n. status s (su_id u) = Some (st, n) \<and> st \<in> set OPEN_UPDATES \<and> status s' (su_id u) = Some (''claimed'', n)"
    and claim_frame: "ok s \<Longrightarrow> claim_op c s = Inr (s', r) \<Longrightarrow> status s' i = status s i
      \<or> (\<exists>st n. status s i = Some (st, n) \<and> st \<in> set OPEN_UPDATES \<and> status s' i \<in> {Some (''claimed'', n), Some (''failed'', n)})"
    and park_counts: "ok s \<Longrightarrow> park_op c i m s = Inr (s', st) \<Longrightarrow> 1 \<le> m \<and> (\<exists>old n. status s i = Some (old, n)
      \<and> st = (if m \<le> n + 1 then ''failed'' else ''reconciliation-pending'') \<and> status s' i = Some (st, n + 1))"
    and park_frame: "ok s \<Longrightarrow> park_op c i m s = Inr (s', st) \<Longrightarrow> j \<noteq> i \<Longrightarrow> status s' j = status s j"
    and settle_counts: "ok s \<Longrightarrow> settle_op c i st s = Inr s' \<Longrightarrow> map_option snd (status s' j) = map_option snd (status s j)"
    and settle_frame: "ok s \<Longrightarrow> settle_op c i st s = Inr s' \<Longrightarrow> j \<noteq> i \<Longrightarrow> status s' j = status s j"
begin

definition in_budget :: "int \<Rightarrow> UUID \<Rightarrow> nat \<Rightarrow> 's \<Rightarrow> bool" where
  "in_budget m uid k s \<longleftrightarrow> (case status s uid of
     None \<Rightarrow> k = 0
     | Some (old, n) \<Rightarrow> int k = n \<and> n \<le> m \<and> (old \<in> set OPEN_UPDATES \<longrightarrow> n < m))"

lemma open_states: "''claimed'' \<in> set OPEN_UPDATES" "''failed'' \<notin> set OPEN_UPDATES" "''queued'' \<in> set OPEN_UPDATES"
  by (simp_all add: OPEN_UPDATES_def)

lemma run_in_budget:
  assumes "queue_run claim_op park_op settle_op status ok m uid s0 k s" "ok s0" "in_budget m uid 0 s0" "1 \<le> m"
  shows "ok s \<and> in_budget m uid k s"
  using assms
proof (induction rule: queue_run.induct)
  case start
  then show ?case by simp
next
  case (claims k s c s' r)
  then have now: "ok s" "in_budget m uid k s" by simp_all
  then show ?case using claim_ok [OF now(1) claims(2)] claim_frame [OF now(1) claims(2), of uid] open_states
    by (auto simp: in_budget_def split: option.splits prod.splits)
next
  case (parks k s i c s' st)
  then have now: "ok s" "in_budget m uid k s" by simp_all
  note counts = park_ok [OF now(1) parks(3)] park_counts [OF now(1) parks(3)] park_frame [OF now(1) parks(3), of uid]
  show ?case
  proof (cases "i = uid")
    case True
    then show ?thesis using now counts parks(2) open_states
      by (auto simp: in_budget_def split: option.splits prod.splits if_splits)
  next
    case False
    then show ?thesis using now counts by (simp add: in_budget_def)
  qed
next
  case (settles k s i c st s')
  then have now: "ok s" "in_budget m uid k s" by simp_all
  then show ?case using settle_ok [OF now(1) settles(3)] settle_counts [OF now(1) settles(3), of uid] settle_frame [OF now(1) settles(3), of uid]
      settles(2) open_states
    by (cases "i = uid") (auto simp: in_budget_def split: option.splits prod.splits)
next
  case (others k s s')
  then have ih: "in_budget m uid k s" by simp
  from others(3) have "status s' uid = status s uid \<or> status s uid = None \<and> status s' uid = Some (''queued'', 0)" by blast
  then show ?case using ih others(2) others.prems(3) by (elim disjE) (simp_all add: in_budget_def)
qed

text \<open>The budget bounds the parks of an update; once it is spent no claim returns the update again.\<close>

lemma budget_bounds:
  assumes "queue_run claim_op park_op settle_op status ok m uid s0 k s" "ok s0" "status s0 uid \<in> {None, Some (''queued'', 0)}" "1 \<le> m"
  shows "int k \<le> m" "int k = m \<Longrightarrow> claim_op c s = Inr (s', Some u) \<Longrightarrow> su_id u \<noteq> uid"
proof -
  have "in_budget m uid 0 s0" using assms(3,4) by (auto simp: in_budget_def)
  from run_in_budget [OF assms(1,2) this assms(4)] have inv: "ok s" "in_budget m uid k s" by simp_all
  then show "int k \<le> m" using assms(4) by (auto simp: in_budget_def split: option.splits prod.splits)
  show "su_id u \<noteq> uid" if "int k = m" "claim_op c s = Inr (s', Some u)"
    using claim_open [OF inv(1) that(2)] inv(2) that(1) by (auto simp: in_budget_def)
qed

end

section \<open>Both queues keep the contract\<close>

definition pg_status :: "Db \<Rightarrow> UUID \<Rightarrow> (string \<times> int) option" where
  "pg_status db uid = map_option (\<lambda>r. (mu_state r, mu_attempts r)) (find_management uid db)"

definition unique_updates :: "Db \<Rightarrow> bool" where
  "unique_updates db \<longleftrightarrow> distinct (map mu_id (db_management db))"

definition mem_status :: "MemManagement \<Rightarrow> UUID \<Rightarrow> (string \<times> int) option" where
  "mem_status s uid = map_option (\<lambda>u. (su_state u, su_attempts u)) (mem_find_update uid s)"

definition unique_mem_updates :: "MemManagement \<Rightarrow> bool" where
  "unique_mem_updates s \<longleftrightarrow> distinct (map su_id (mm_updates s))"

lemma find_management_update:
  assumes "update_management p f db = Inr db'" "\<And>r. mu_id (f r) = mu_id r"
  shows "find_management uid db' = map_option (\<lambda>r. if p r then f r else r) (find_management uid db)"
    "unique_updates db' = unique_updates db" "db_outbox db' = db_outbox db" "db_management_intents db' = db_management_intents db"
    "db_intents db' = db_intents db" "db_messages db' = db_messages db"
proof -
  have db': "db' = db\<lparr>db_management := update_where p f (db_management db)\<rparr>"
    using assms(1) by (auto simp: update_management_def split: if_splits)
  have "List.find (\<lambda>r. mu_id r = uid) (update_where p f rs) = map_option (\<lambda>r. if p r then f r else r) (List.find (\<lambda>r. mu_id r = uid) rs)" for rs
    using assms(2) by (induction rs) (auto simp: update_where_def)
  then show "find_management uid db' = map_option (\<lambda>r. if p r then f r else r) (find_management uid db)"
    by (simp add: db' find_management_def)
  show "unique_updates db' = unique_updates db" using assms(2) by (simp add: db' unique_updates_def map_update_where)
  show "db_outbox db' = db_outbox db" "db_management_intents db' = db_management_intents db" "db_intents db' = db_intents db" "db_messages db' = db_messages db"
    by (simp_all add: db')
qed

lemma pg_status_others:
  assumes "update_management (\<lambda>x. mu_id x = uid) f db = Inr db'" "\<And>r. mu_id (f r) = mu_id r" "j \<noteq> uid"
  shows "pg_status db' j = pg_status db j"
proof (cases "find_management j db")
  case (Some x)
  then have "mu_id x = j" by (auto simp: find_management_def dest: find_Some_props)
  then show ?thesis using assms(3) Some find_management_update(1) [OF assms(1,2), of j] by (simp add: pg_status_def)
qed (use find_management_update(1) [OF assms(1,2), of j] in \<open>simp add: pg_status_def\<close>)

lemma find_distinct: "distinct (map k xs) \<Longrightarrow> x \<in> set xs \<Longrightarrow> List.find (\<lambda>y. k y = k x) xs = Some x"
  by (induction xs) (auto simp: image_iff)

lemma find_unique: "unique_updates db \<Longrightarrow> r \<in> set (db_management db) \<Longrightarrow> find_management (mu_id r) db = Some r"
  unfolding unique_updates_def find_management_def by (rule find_distinct)

lemma fail_lapsed_status:
  assumes "fail_lapsed now db = Inr db'"
  shows "unique_updates db' = unique_updates db" "pg_status db' i = pg_status db i
    \<or> (\<exists>st n. pg_status db i = Some (st, n) \<and> st \<in> set OPEN_UPDATES \<and> pg_status db' i = Some (''failed'', n))"
proof -
  note new = find_management_update [OF assms [unfolded fail_lapsed_def]]
  show "unique_updates db' = unique_updates db" by (rule new(2)) simp
  have "find_management i db' = map_option (\<lambda>r. if source_lapsed db now r \<and> mu_state r \<in> set OPEN_UPDATES \<and> \<not> fenced_update db (mu_id r) then r\<lparr>mu_state := ''failed'', mu_updated_at := now\<rparr> else r) (find_management i db)"
    by (rule new(1)) simp
  then show "pg_status db' i = pg_status db i
    \<or> (\<exists>st n. pg_status db i = Some (st, n) \<and> st \<in> set OPEN_UPDATES \<and> pg_status db' i = Some (''failed'', n))"
    by (cases "find_management i db") (auto simp: pg_status_def OPEN_UPDATES_def)
qed

lemma fail_overdue_status:
  assumes "fail_overdue now db = Inr db'"
  shows "unique_updates db' = unique_updates db" "pg_status db' i = pg_status db i
    \<or> (\<exists>st n. pg_status db i = Some (st, n) \<and> st \<in> set OPEN_UPDATES \<and> pg_status db' i = Some (''failed'', n))"
proof -
  note new = find_management_update [OF assms [unfolded fail_overdue_def]]
  show "unique_updates db' = unique_updates db" by (rule new(2)) simp
  have "find_management i db' = map_option (\<lambda>r. if mu_state r \<in> {''queued'', ''claimed''} \<and> past now (mu_deadline_at r) \<and> \<not> fenced_update db (mu_id r) then r\<lparr>mu_state := ''failed'', mu_last_error := Some ''management-execution-budget-expired'', mu_updated_at := now\<rparr> else r) (find_management i db)"
    by (rule new(1)) simp
  then show "pg_status db' i = pg_status db i
    \<or> (\<exists>st n. pg_status db i = Some (st, n) \<and> st \<in> set OPEN_UPDATES \<and> pg_status db' i = Some (''failed'', n))"
    by (cases "find_management i db") (auto simp: pg_status_def OPEN_UPDATES_def)
qed

lemma candidate_member: "candidate_update now locked db = Some r \<Longrightarrow> r \<in> set (db_management db) \<and> claimable now r \<and> mu_id r \<notin> set locked"
proof -
  assume found: "candidate_update now locked db = Some r"
  then obtain rest where sorted: "sort_key mu_updated_at (sort_key mu_id (filter (\<lambda>r. claimable now r \<and> mu_id r \<notin> set locked) (db_management db))) = r # rest"
    unfolding candidate_update_def by (auto split: list.splits)
  have "r \<in> set (sort_key mu_updated_at (sort_key mu_id (filter (\<lambda>r. claimable now r \<and> mu_id r \<notin> set locked) (db_management db))))"
    unfolding sorted by simp
  then show ?thesis by simp
qed

lemma failed_closed: "''failed'' \<notin> set OPEN_UPDATES"
  by (simp add: OPEN_UPDATES_def)

lemma pg_claim_cases:
  assumes "pg_claim_update now locked worker db = Inr (db', found)" "unique_updates db"
  obtains db2 where "unique_updates db2" "\<And>i. pg_status db2 i = pg_status db i
      \<or> (\<exists>st n. pg_status db i = Some (st, n) \<and> st \<in> set OPEN_UPDATES \<and> pg_status db2 i = Some (''failed'', n))"
    "found = None \<and> db' = db2 \<or> (\<exists>r. found = Some (row_update (claimed_row now worker r)) \<and> r \<in> set (db_management db2) \<and> claimable now r
       \<and> update_management (\<lambda>x. mu_id x = mu_id r) (claimed_row now worker) db2 = Inr db')"
proof -
  from assms(1) obtain db1 db2 where one: "fail_lapsed now db = Inr db1" and two: "fail_overdue now db1 = Inr db2"
    and rest: "found = None \<and> db' = db2 \<or> (\<exists>r. found = Some (row_update (claimed_row now worker r)) \<and> candidate_update now locked db2 = Some r
       \<and> update_management (\<lambda>x. mu_id x = mu_id r) (claimed_row now worker) db2 = Inr db')"
    by (auto simp: pg_claim_update_def bindE_Inr_iff split: if_splits option.splits)
  show ?thesis
  proof (rule that)
    show "unique_updates db2" using assms(2) fail_lapsed_status(1) [OF one] fail_overdue_status(1) [OF two] by simp
    show "pg_status db2 i = pg_status db i
      \<or> (\<exists>st n. pg_status db i = Some (st, n) \<and> st \<in> set OPEN_UPDATES \<and> pg_status db2 i = Some (''failed'', n))" for i
      using fail_lapsed_status(2) [OF one, of i] fail_overdue_status(2) [OF two, of i] failed_closed by auto
    show "found = None \<and> db' = db2 \<or> (\<exists>r. found = Some (row_update (claimed_row now worker r)) \<and> r \<in> set (db_management db2) \<and> claimable now r
       \<and> update_management (\<lambda>x. mu_id x = mu_id r) (claimed_row now worker) db2 = Inr db')"
      using rest candidate_member by blast
  qed
qed

lemma pg_claim_status:
  assumes "pg_claim_update now locked worker db = Inr (db', found)" "unique_updates db"
  shows "unique_updates db'"
    and "found = Some u \<Longrightarrow> \<exists>st n. pg_status db (su_id u) = Some (st, n) \<and> st \<in> set OPEN_UPDATES \<and> pg_status db' (su_id u) = Some (''claimed'', n)"
    and "pg_status db' i = pg_status db i
      \<or> (\<exists>st n. pg_status db i = Some (st, n) \<and> st \<in> set OPEN_UPDATES \<and> pg_status db' i \<in> {Some (''claimed'', n), Some (''failed'', n)})"
proof -
  obtain db2 where two: "unique_updates db2" "\<And>i. pg_status db2 i = pg_status db i
      \<or> (\<exists>st n. pg_status db i = Some (st, n) \<and> st \<in> set OPEN_UPDATES \<and> pg_status db2 i = Some (''failed'', n))"
    and last: "found = None \<and> db' = db2 \<or> (\<exists>r. found = Some (row_update (claimed_row now worker r)) \<and> r \<in> set (db_management db2) \<and> claimable now r
       \<and> update_management (\<lambda>x. mu_id x = mu_id r) (claimed_row now worker) db2 = Inr db')"
    by (rule pg_claim_cases [OF assms]) blast
  have status: "\<exists>st n. pg_status db (mu_id r) = Some (st, n) \<and> st \<in> set OPEN_UPDATES \<and> pg_status db' (mu_id r) = Some (''claimed'', n)"
      "j \<noteq> mu_id r \<Longrightarrow> pg_status db' j = pg_status db2 j" "unique_updates db' = unique_updates db2"
    if "r \<in> set (db_management db2)" "claimable now r" "update_management (\<lambda>x. mu_id x = mu_id r) (claimed_row now worker) db2 = Inr db'" for r j
  proof -
    note new = find_management_update [OF that(3)]
    have r: "find_management (mu_id r) db2 = Some r" using find_unique two(1) that(1) .
    have "pg_status db2 (mu_id r) = Some (mu_state r, mu_attempts r)" "mu_state r \<in> set OPEN_UPDATES"
      using r that(2) by (simp_all add: pg_status_def claimable_def)
    then have "pg_status db (mu_id r) = Some (mu_state r, mu_attempts r)" using two(2) [of "mu_id r"] failed_closed by auto
    then show "\<exists>st n. pg_status db (mu_id r) = Some (st, n) \<and> st \<in> set OPEN_UPDATES \<and> pg_status db' (mu_id r) = Some (''claimed'', n)"
      using r that(2) new(1) [of "mu_id r"] by (auto simp: pg_status_def claimed_row_def claimable_def)
    show "j \<noteq> mu_id r \<Longrightarrow> pg_status db' j = pg_status db2 j"
      by (rule pg_status_others [OF that(3)]) (simp_all add: claimed_row_def)
    show "unique_updates db' = unique_updates db2" using new(2) by (simp add: claimed_row_def)
  qed
  show "unique_updates db'" using last status(3) two(1) by blast
  show "found = Some u \<Longrightarrow> \<exists>st n. pg_status db (su_id u) = Some (st, n) \<and> st \<in> set OPEN_UPDATES \<and> pg_status db' (su_id u) = Some (''claimed'', n)"
    using last status(1) by (auto simp: row_update_def claimed_row_def)
  show "pg_status db' i = pg_status db i
      \<or> (\<exists>st n. pg_status db i = Some (st, n) \<and> st \<in> set OPEN_UPDATES \<and> pg_status db' i \<in> {Some (''claimed'', n), Some (''failed'', n)})"
    using last
  proof (elim disjE exE conjE)
    assume "db' = db2"
    then show ?thesis using two(2) [of i] by auto
  next
    fix r assume r: "r \<in> set (db_management db2)" "claimable now r"
      "update_management (\<lambda>x. mu_id x = mu_id r) (claimed_row now worker) db2 = Inr db'"
    show ?thesis
    proof (cases "i = mu_id r")
      case True
      then show ?thesis using status(1) [OF r] by blast
    next
      case False
      then show ?thesis using status(2) [OF r False] two(2) [of i] by auto
    qed
  qed
qed

definition pg_claim_op :: "timestamp \<times> UUID list \<times> string \<times> string \<times> int \<Rightarrow> Db \<Rightarrow> SourceManagementUpdate option transaction" where
  "pg_claim_op = (\<lambda>(now, locked, worker, reason, retry). pg_claim_update now locked worker)"

definition pg_park_op :: "timestamp \<times> UUID list \<times> string \<times> string \<times> int \<Rightarrow> UUID \<Rightarrow> int \<Rightarrow> Db \<Rightarrow> string transaction" where
  "pg_park_op = (\<lambda>(now, locked, worker, reason, retry) uid m. pg_park now uid reason retry m)"

definition pg_settle_op :: "timestamp \<times> UUID list \<times> string \<times> string \<times> int \<Rightarrow> UUID \<Rightarrow> string \<Rightarrow> Db \<Rightarrow> (Exn, Db) raises" where
  "pg_settle_op = (\<lambda>(now, locked, worker, reason, retry). pg_update_state now)"

lemma pg_park_status:
  assumes "pg_park now uid reason retry m db = Inr (db', st)"
  shows "unique_updates db' = unique_updates db" "1 \<le> m" "\<exists>old n. pg_status db uid = Some (old, n)
      \<and> st = (if m \<le> n + 1 then ''failed'' else ''reconciliation-pending'') \<and> pg_status db' uid = Some (st, n + 1)"
    "j \<noteq> uid \<Longrightarrow> pg_status db' j = pg_status db j"
    "st = ''failed'' \<Longrightarrow> ManagementDeadLetterKey uid \<in> set (db_outbox db')"
proof -
  from assms obtain r db1 where r: "find_management uid db = Some r" and m: "1 \<le> m"
    and st: "st = mu_state (parked_row now reason retry m r)"
    and one: "update_management (\<lambda>x. mu_id x = uid) (parked_row now reason retry m) db = Inr db1"
    and db': "db' = (if st = ''failed'' then enqueue (ManagementDeadLetterKey uid) db1 else db1)"
    by (auto simp: pg_park_def Let_def bindE_Inr_iff split: if_splits option.splits)
  have same: "pg_status db' = pg_status db1" "unique_updates db' = unique_updates db1"
    by (auto simp: db' enqueue_def pg_status_def find_management_def unique_updates_def fun_eq_iff)
  note new = find_management_update [OF one]
  have id: "mu_id (parked_row now reason retry m x) = mu_id x" for x by (simp add: parked_row_def Let_def)
  show "unique_updates db' = unique_updates db" using same(2) new(2) id by simp
  show "1 \<le> m" by (rule m)
  have ruid: "mu_id r = uid" using r by (auto simp: find_management_def dest: find_Some_props)
  show "\<exists>old n. pg_status db uid = Some (old, n)
      \<and> st = (if m \<le> n + 1 then ''failed'' else ''reconciliation-pending'') \<and> pg_status db' uid = Some (st, n + 1)"
    using r ruid st new(1) [of uid] id unfolding same(1) by (auto simp: pg_status_def parked_row_def Let_def)
  show "j \<noteq> uid \<Longrightarrow> pg_status db' j = pg_status db j"
    unfolding same(1) by (rule pg_status_others [OF one id])
  show "st = ''failed'' \<Longrightarrow> ManagementDeadLetterKey uid \<in> set (db_outbox db')" by (simp add: db' enqueue_def)
qed

lemma pg_settle_status:
  assumes "pg_update_state now uid st db = Inr db'"
  shows "unique_updates db' = unique_updates db" "map_option snd (pg_status db' j) = map_option snd (pg_status db j)"
    "j \<noteq> uid \<Longrightarrow> pg_status db' j = pg_status db j"
proof -
  note new = find_management_update [OF assms [unfolded pg_update_state_def]]
  show "unique_updates db' = unique_updates db" using new(2) by simp
  show "map_option snd (pg_status db' j) = map_option snd (pg_status db j)"
    using new(1) [of j] by (cases "find_management j db") (simp_all add: pg_status_def)
  show "j \<noteq> uid \<Longrightarrow> pg_status db' j = pg_status db j"
    by (rule pg_status_others [OF assms [unfolded pg_update_state_def]]) simp_all
qed

interpretation pg_queue: management_queue pg_status unique_updates pg_claim_op pg_park_op pg_settle_op
proof (unfold_locales, goal_cases)
  case (1 s c s' r)
  then show ?case using pg_claim_status(1) by (auto simp: pg_claim_op_def split: prod.splits)
next
  case (2 s c i m s' st)
  then show ?case using pg_park_status(1) by (auto simp: pg_park_op_def split: prod.splits)
next
  case (3 s c i st s')
  then show ?case using pg_settle_status(1) by (auto simp: pg_settle_op_def split: prod.splits)
next
  case (4 s c s' u)
  then show ?case using pg_claim_status(2) by (auto simp: pg_claim_op_def split: prod.splits)
next
  case (5 s c s' r i)
  then show ?case using pg_claim_status(3) by (auto simp: pg_claim_op_def split: prod.splits)
next
  case (6 s c i m s' st)
  obtain now locked worker reason retry where c: "c = (now, locked, worker, reason, retry)" by (cases c)
  then have "pg_park now i reason retry m s = Inr (s', st)" using 6(2) by (simp add: pg_park_op_def)
  from pg_park_status(2,3) [OF this] show ?case by blast
next
  case (7 s c i m s' st j)
  then show ?case using pg_park_status(4) by (auto simp: pg_park_op_def split: prod.splits)
next
  case (8 s c i st s' j)
  then show ?case using pg_settle_status(2) by (auto simp: pg_settle_op_def split: prod.splits)
next
  case (9 s c i st s' j)
  then show ?case using pg_settle_status(3) by (auto simp: pg_settle_op_def split: prod.splits)
qed

lemma mem_find_replaced:
  assumes "su_id v = uid"
  shows "List.find (\<lambda>u. su_id u = j) (update_where (\<lambda>u. su_id u = uid) (\<lambda>_. v) us)
    = (if j = uid then map_option (\<lambda>_. v) (List.find (\<lambda>u. su_id u = uid) us) else List.find (\<lambda>u. su_id u = j) us)"
  using assms by (induction us) (auto simp: update_where_def)

lemma mem_ids_where: "su_id v = uid \<Longrightarrow> map su_id (update_where (\<lambda>x. su_id x = uid) (\<lambda>_. v) us) = map su_id us"
  by (rule map_update_where) simp

definition mem_claim_op :: "string \<Rightarrow> MemManagement \<Rightarrow> (Exn, MemManagement \<times> SourceManagementUpdate option) raises" where
  "mem_claim_op = mem_claim_update"

definition mem_park_op :: "string \<Rightarrow> UUID \<Rightarrow> int \<Rightarrow> MemManagement \<Rightarrow> (Exn, MemManagement \<times> string) raises" where
  "mem_park_op = (\<lambda>_. mem_park)"

definition mem_settle_op :: "string \<Rightarrow> UUID \<Rightarrow> string \<Rightarrow> MemManagement \<Rightarrow> (Exn, MemManagement) raises" where
  "mem_settle_op = (\<lambda>_. mem_update_state)"

lemma mem_claim_status:
  assumes "mem_claim_update worker s = Inr (s', found)" "unique_mem_updates s"
  shows "unique_mem_updates s'"
    and "found = Some u \<Longrightarrow> \<exists>st n. mem_status s (su_id u) = Some (st, n) \<and> st \<in> set OPEN_UPDATES \<and> mem_status s' (su_id u) = Some (''claimed'', n)"
    and "mem_status s' i = mem_status s i \<or> (\<exists>st n. mem_status s i = Some (st, n) \<and> st \<in> set OPEN_UPDATES
      \<and> mem_status s' i \<in> {Some (''claimed'', n), Some (''failed'', n)})"
proof -
  consider "found = None" "s' = s" | x where "x \<in> set (mm_updates s)" "su_state x \<in> set OPEN_UPDATES" "found = Some (x\<lparr>su_state := ''claimed''\<rparr>)"
      "s' = s\<lparr>mm_updates := update_where (\<lambda>y. su_id y = su_id x) (\<lambda>_. x\<lparr>su_state := ''claimed''\<rparr>) (mm_updates s)\<rparr>"
  proof (cases "List.find (\<lambda>u. su_state u \<in> set OPEN_UPDATES) (mm_updates s)")
    case None
    then show ?thesis using assms(1) by (intro that(1)) (simp_all add: mem_claim_update_def split: if_splits)
  next
    case (Some x)
    then show ?thesis using assms(1) find_Some_props [OF Some] by (intro that(2) [of x]) (auto simp: mem_claim_update_def Let_def split: if_splits)
  qed
  then have all: "unique_mem_updates s'
    \<and> (\<forall>u. found = Some u \<longrightarrow> (\<exists>st n. mem_status s (su_id u) = Some (st, n) \<and> st \<in> set OPEN_UPDATES \<and> mem_status s' (su_id u) = Some (''claimed'', n)))
    \<and> (mem_status s' i = mem_status s i \<or> (\<exists>st n. mem_status s i = Some (st, n) \<and> st \<in> set OPEN_UPDATES
      \<and> mem_status s' i \<in> {Some (''claimed'', n), Some (''failed'', n)}))"
  proof cases
    case 1
    then show ?thesis using assms(2) by simp
  next
    case (2 x)
    have x: "mem_find_update (su_id x) s = Some x"
      unfolding mem_find_update_def by (rule find_distinct [OF assms(2) [unfolded unique_mem_updates_def] 2(1)])
    have new: "mem_find_update j s' = (if j = su_id x then Some (x\<lparr>su_state := ''claimed''\<rparr>) else mem_find_update j s)" for j
      using x unfolding 2(4) mem_find_update_def by (simp add: mem_find_replaced)
    have "unique_mem_updates s'" using assms(2) unfolding 2(4) unique_mem_updates_def by (simp add: mem_ids_where)
    then show ?thesis using x 2(2,3) by (auto simp: mem_status_def new)
  qed
  show "unique_mem_updates s'" by (rule conjunct1 [OF all])
  show "found = Some u \<Longrightarrow> \<exists>st n. mem_status s (su_id u) = Some (st, n) \<and> st \<in> set OPEN_UPDATES \<and> mem_status s' (su_id u) = Some (''claimed'', n)"
    by (rule conjunct1 [OF conjunct2 [OF all], rule_format])
  show "mem_status s' i = mem_status s i \<or> (\<exists>st n. mem_status s i = Some (st, n) \<and> st \<in> set OPEN_UPDATES
      \<and> mem_status s' i \<in> {Some (''claimed'', n), Some (''failed'', n)})"
    by (rule conjunct2 [OF conjunct2 [OF all]])
qed

lemma mem_park_status:
  assumes "mem_park uid m s = Inr (s', st)"
  shows "unique_mem_updates s' = unique_mem_updates s" "1 \<le> m" "\<exists>old n. mem_status s uid = Some (old, n)
      \<and> st = (if m \<le> n + 1 then ''failed'' else ''reconciliation-pending'') \<and> mem_status s' uid = Some (st, n + 1)"
    "j \<noteq> uid \<Longrightarrow> mem_status s' j = mem_status s j"
proof -
  from assms obtain u where u: "mem_find_update uid s = Some u" and m: "1 \<le> m" and st: "st = su_state (parked_update m u)"
    and s': "s' = s\<lparr>mm_updates := update_where (\<lambda>x. su_id x = uid) (\<lambda>_. parked_update m u) (mm_updates s)\<rparr>"
    by (auto simp: mem_park_def mem_get_update_def bindE_Inr_iff split: if_splits option.splits)
  have id: "su_id u = uid" using u by (auto simp: mem_find_update_def dest: find_Some_props)
  have new: "mem_find_update j s' = (if j = uid then Some (parked_update m u) else mem_find_update j s)" for j
    using u mem_find_replaced [of "parked_update m u" uid j "mm_updates s"] id unfolding s' mem_find_update_def by (simp add: parked_update_def)
  show "unique_mem_updates s' = unique_mem_updates s" using mem_ids_where [of "parked_update m u" uid] id by (simp add: s' unique_mem_updates_def parked_update_def)
  show "1 \<le> m" by (rule m)
  show "\<exists>old n. mem_status s uid = Some (old, n)
      \<and> st = (if m \<le> n + 1 then ''failed'' else ''reconciliation-pending'') \<and> mem_status s' uid = Some (st, n + 1)"
    using u st by (auto simp: mem_status_def new parked_update_def)
  show "j \<noteq> uid \<Longrightarrow> mem_status s' j = mem_status s j" by (simp add: mem_status_def new)
qed

lemma mem_settle_status:
  assumes "mem_update_state uid st s = Inr s'"
  shows "unique_mem_updates s \<Longrightarrow> unique_mem_updates s'" "map_option snd (mem_status s' j) = map_option snd (mem_status s j)"
    "j \<noteq> uid \<Longrightarrow> mem_status s' j = mem_status s j"
proof -
  from assms obtain u where u: "mem_find_update uid s = Some u"
    and s': "s' = s\<lparr>mm_updates := filter (\<lambda>x. su_id x \<noteq> uid) (mm_updates s) @ [u\<lparr>su_state := st\<rparr>]\<rparr>"
    by (auto simp: mem_update_state_def mem_get_update_def bindE_Inr_iff split: option.splits)
  have id: "su_id u = uid" using u by (auto simp: mem_find_update_def dest: find_Some_props)
  have rest: "List.find (\<lambda>u. su_id u = k) (filter (\<lambda>x. su_id x \<noteq> uid) us) = (if k = uid then None else List.find (\<lambda>u. su_id u = k) us)" for k us
    by (induction us) auto
  have new: "mem_find_update j s' = (if j = uid then Some (u\<lparr>su_state := st\<rparr>) else mem_find_update j s)" for j
    using id unfolding s' mem_find_update_def by (simp add: find_in_append rest split: option.split)
  show "unique_mem_updates s \<Longrightarrow> unique_mem_updates s'"
    using id by (auto simp: s' unique_mem_updates_def distinct_map_filter)
  show "map_option snd (mem_status s' j) = map_option snd (mem_status s j)" using u by (simp add: mem_status_def new)
  show "j \<noteq> uid \<Longrightarrow> mem_status s' j = mem_status s j" by (simp add: mem_status_def new)
qed

interpretation mem_queue: management_queue mem_status unique_mem_updates mem_claim_op mem_park_op mem_settle_op
proof (unfold_locales, goal_cases)
  case (1 s c s' r)
  then show ?case using mem_claim_status(1) unfolding mem_claim_op_def by blast
next
  case (2 s c i m s' st)
  then show ?case using mem_park_status(1) unfolding mem_park_op_def by blast
next
  case (3 s c i st s')
  then show ?case using mem_settle_status(1) unfolding mem_settle_op_def by blast
next
  case (4 s c s' u)
  then show ?case using mem_claim_status(2) unfolding mem_claim_op_def by blast
next
  case (5 s c s' r i)
  then show ?case using mem_claim_status(3) unfolding mem_claim_op_def by blast
next
  case (6 s c i m s' st)
  from 6(2) show ?case using mem_park_status(2,3) [of i m s s' st] unfolding mem_park_op_def by simp
next
  case (7 s c i m s' st j)
  then show ?case using mem_park_status(4) unfolding mem_park_op_def by blast
next
  case (8 s c i st s' j)
  then show ?case using mem_settle_status(2) unfolding mem_settle_op_def by blast
next
  case (9 s c i st s' j)
  then show ?case using mem_settle_status(3) unfolding mem_settle_op_def by blast
qed

section \<open>Properties\<close>


definition managed_message :: SourceMessage where
  "managed_message = \<lparr>tm_id = 3, tm_channel_id = 5, tm_message_id = 7, tm_ingestion_origin = ''realtime'', tm_received_at = Some 10,
     tm_entry_expires_at = Some 300000000, tm_entry_rejection_reason = None, tm_re_admission_reference = None,
     tm_raw_text = ''TP1 booked $ZRO'', tm_revision_hash = ''r1''\<rparr>"

definition managed_db :: Db where
  "managed_db = projr (bindE (enroll_management 20 7 3 ''r1'' ''ZROUSDT'' TP1_BOOKED (empty_db\<lparr>db_messages := [managed_message]\<rparr>))
     (enroll_management 21 8 3 ''r1'' ''ZROUSDT'' SL_TO_ENTRY))"

definition managed_claimed :: Db where
  "managed_claimed = fst (projr (pg_claim_update 30 [] ''w'' managed_db))"

definition managed_parked :: Db where
  "managed_parked = fst (projr (pg_park 40 7 ''pending'' 60 1 managed_claimed))"

definition managed_next :: "Db \<times> SourceManagementUpdate option" where
  "managed_next = projr (pg_claim_update 50 [] ''w'' managed_parked)"


text \<open>
  C31: A row of before the deadline rule blocks the queue. When the oldest claimable update has no deadline, every claim
  is refused by the check of the table and nothing is claimed.
\<close>

theorem undated_row_blocks_queue:
  assumes "fail_lapsed now db = Inr db1" and "fail_overdue now db1 = Inr db2"
    and "candidate_update now locked db2 = Some r" and "mu_deadline_at r = None" and "worker \<noteq> []"
  shows "pg_claim_update now locked worker db = Inl (StorageError ''source_management_updates check'')"
proof -
  have "r \<in> set (db_management db2)" using candidate_member [OF assms(3)] by simp
  moreover have "\<not> management_check (claimed_row now worker r)"
    using assms(4) by (simp add: management_check_def claimed_row_def SETTLED_UPDATES_def)
  ultimately have "update_management (\<lambda>x. mu_id x = mu_id r) (claimed_row now worker) db2 = Inl (StorageError ''source_management_updates check'')"
    unfolding update_management_def by auto
  then show ?thesis using assms by (simp add: pg_claim_update_def)
qed

definition undated_db :: Db where
  "undated_db = managed_db\<lparr>db_management := map (\<lambda>r. if mu_id r = 7 then r\<lparr>mu_deadline_at := None\<rparr> else r) (db_management managed_db)\<rparr>"

theorem undated_row_blocks_queue_witness:
  "mu_id (the (candidate_update 30 [] undated_db)) = 7 \<and> length (db_management undated_db) = 2
   \<and> pg_claim_update 30 [] ''w'' undated_db = Inl (StorageError ''source_management_updates check'')"
proof -
  have "fail_lapsed 30 undated_db = Inr undated_db" "fail_overdue 30 undated_db = Inr undated_db"
    "candidate_update 30 [] undated_db = Some (the (candidate_update 30 [] undated_db))"
    "mu_deadline_at (the (candidate_update 30 [] undated_db)) = None" "mu_id (the (candidate_update 30 [] undated_db)) = 7"
    "length (db_management undated_db) = 2"
    by code_simp+
  moreover have "''w'' \<noteq> []" by simp
  ultimately show ?thesis using undated_row_blocks_queue by blast
qed

end
