(* ===== verification/Contract_Metadata.thy ===== *)
theory Contract_Metadata
  imports Provider_Reads Audit_Evidence Sizing
begin

text \<open>
  \<open>exchanges/bitget/metadata.py\<close>: the public contract catalog, the metadata of one contract and the
  maintenance-margin tiers of its position levels. The audit evidence of the catalog (its hash and
  samples) is left out. A numeral that \<open>Decimal\<close> would read as an infinity or a NaN is read as an
  invalid one.
\<close>

section \<open>The catalog\<close>

definition public_symbol :: "JSON \<Rightarrow> string option" where
  "public_symbol v = (case v of JStr s \<Rightarrow> if 2 \<le> length s \<and> length s \<le> 32 \<and> list_all is_alnum s then Some s else None | _ \<Rightarrow> None)"

definition requested_symbol :: "string \<Rightarrow> string option" where
  "requested_symbol s = (if 2 \<le> length s \<and> length s \<le> 20 \<and> list_all is_alnum s then Some (str_upper s) else None)"

definition catalog_symbol :: "JSON \<Rightarrow> string option" where
  "catalog_symbol row = (case row of JObj d \<Rightarrow> public_symbol (get_key d ''symbol'') | _ \<Rightarrow> None)"

definition find_contract :: "JSON \<Rightarrow> string \<Rightarrow> (Exn, payload) raises" where
  "find_contract contracts symbol =
     (case requested_symbol symbol of
        None \<Rightarrow> Inl (BitgetApiError [] ''Bitget requested contract symbol is invalid'')
      | Some requested \<Rightarrow>
          (case contracts of
             JList rows \<Rightarrow>
               if \<not> list_all (\<lambda>row. catalog_symbol row \<noteq> None) rows
               then Inl (BitgetApiError [] ''Bitget contracts response contains invalid rows'')
               else (case filter (\<lambda>row. map_option str_upper (catalog_symbol row) = Some requested) rows of
                       [] \<Rightarrow> Inl (KeyError (''unknown Bitget contract: '' @ requested))
                     | [row] \<Rightarrow> Inr (the (as_dict row))
                     | _ \<Rightarrow> Inl (BitgetApiError [] ''Bitget requested contract is ambiguous''))
           | _ \<Rightarrow> Inl (BitgetApiError [] ''Bitget contracts response is invalid'')))"

section \<open>Metadata of a contract\<close>

definition contract_decimal :: "JSON \<Rightarrow> string \<Rightarrow> bool \<Rightarrow> (Exn, dec) raises" where
  "contract_decimal v field positive =
     (case to_decimal v of
        None \<Rightarrow> Inl (ValueError (''invalid '' @ field))
      | Some q \<Rightarrow> if positive \<and> q \<le> 0 then Inl (ValueError (field @ '' must be positive'')) else Inr q)"

definition contract_integer :: "JSON \<Rightarrow> string \<Rightarrow> int \<Rightarrow> int \<Rightarrow> (Exn, int) raises" where
  "contract_integer v field low high =
     bindE (contract_decimal v field False) (\<lambda>q.
       if q \<noteq> of_int \<lfloor>q\<rfloor> \<or> q < of_int low \<or> of_int high < q then Inl (ValueError (''invalid '' @ field)) else Inr \<lfloor>q\<rfloor>)"

definition optional_limit :: "JSON \<Rightarrow> string \<Rightarrow> (Exn, dec option) raises" where
  "optional_limit v field =
     (if v \<in> {JNull, JStr []} then Inr None else bindE (contract_decimal v field True) (\<lambda>q. Inr (Some q)))"

text \<open>The model's constructor validates the fields.\<close>

definition make_metadata :: "SymbolMetadata \<Rightarrow> (Exn, SymbolMetadata) raises" where
  "make_metadata m = (if valid_metadata m then Inr m else Inl (ValidationError ''SymbolMetadata'' []))"

definition metadata_from_contract :: "payload \<Rightarrow> (Exn, SymbolMetadata) raises" where
  "metadata_from_contract contract =
     (case public_symbol (get_key contract ''symbol'') of
        None \<Rightarrow> Inl (ValueError ''contract symbol is invalid'')
      | Some raw \<Rightarrow>
          bindE (contract_integer (get_key contract ''pricePlace'') ''price precision'' 0 12) (\<lambda>precision.
          bindE (contract_decimal (get_key contract ''priceEndStep'') ''price end step'' True) (\<lambda>end_step.
          bindE (contract_decimal (get_key contract ''sizeMultiplier'') ''size multiplier'' True) (\<lambda>size_step.
          bindE (contract_decimal (get_key contract ''minTradeNum'') ''minimum order quantity'' True) (\<lambda>min_qty.
          bindE (optional_limit (get_key contract ''maxOrderQty'') ''maximum limit order quantity'') (\<lambda>max_qty.
          bindE (optional_limit (get_key contract ''maxMarketOrderQty'') ''maximum market order quantity'') (\<lambda>max_market_qty.
          bindE (contract_decimal (get_first contract [''minTradeUSDT''] (JStr ''0'')) ''minimum notional'' False) (\<lambda>min_notional.
          bindE (contract_integer (get_key contract ''maxLever'') ''maximum leverage'' 1 MAX_VENUE_LEVERAGE_CEILING) (\<lambda>max_leverage.
          bindE (contract_decimal (get_first contract [''contractValue'', ''contractSize''] (JStr ''1'')) ''contract value'' True) (\<lambda>contract_value.
            make_metadata \<lparr>sm_symbol = str_upper raw, sm_price_precision = precision,
              sm_price_tick = dec_mul end_step (pow10 (- precision)), sm_size_step = size_step, sm_min_order_qty = min_qty,
              sm_max_order_qty = max_qty, sm_max_market_order_qty = max_market_qty, sm_contract_value = contract_value,
              sm_max_leverage = max_leverage, sm_min_notional = min_notional, sm_mm_tiers = []\<rparr>))))))))))"

section \<open>Maintenance-margin tiers\<close>

text \<open>\<open>raw in (None, "", 0, "0")\<close>: equality of Python, which no number type tells apart.\<close>

definition zero_number :: "JSON \<Rightarrow> bool" where
  "zero_number v = (case v of JInt n \<Rightarrow> n = 0 | JBool b \<Rightarrow> \<not> b | JFloat s \<Rightarrow> parse_decimal s = Some 0 | JDec d \<Rightarrow> d = 0 | _ \<Rightarrow> False)"

definition tier_bound :: "JSON \<Rightarrow> (Exn, dec option) raises" where
  "tier_bound raw =
     (if raw \<in> {JNull, JStr [], JStr ''0''} \<or> zero_number raw then Inr None
      else bindE (contract_decimal raw ''position-lever endUnit'' False) (\<lambda>q. Inr (Some q)))"

definition position_tier :: "payload \<Rightarrow> (Exn, MMTier) raises" where
  "position_tier row =
     bindE (tier_bound (get_key row ''endUnit'')) (\<lambda>bound.
     bindE (contract_decimal (get_key row ''keepMarginRate'') ''keepMarginRate'' False) (\<lambda>mmr.
       let tier = \<lparr>mm_upper_bound_notional = bound, mm_mmr = mmr\<rparr> in
       if mmr \<le> 0 \<or> 1 < mmr then Inl (ValueError ''keepMarginRate must be in (0, 1]'')
       else if \<not> valid_tier tier then Inl (ValidationError ''MMTier'' [])
       else Inr tier))"

text \<open>Bounded tiers by their bounds, the unbounded ones last: the stable order of the pair the source sorts by.\<close>

definition tier_order :: "MMTier list \<Rightarrow> MMTier list" where
  "tier_order tiers =
     sort_key (\<lambda>t. the (mm_upper_bound_notional t)) (filter (\<lambda>t. mm_upper_bound_notional t \<noteq> None) tiers)
       @ filter (\<lambda>t. mm_upper_bound_notional t = None) tiers"

definition widest_open :: "MMTier list \<Rightarrow> MMTier list" where
  "widest_open tiers = butlast tiers @ [(last tiers)\<lparr>mm_upper_bound_notional := None\<rparr>]"

definition mm_tiers_from_position_lever :: "payload list \<Rightarrow> string \<Rightarrow> (Exn, MMTier list) raises" where
  "mm_tiers_from_position_lever rows symbol =
     (let requested = str_upper symbol;
          matching = filter (\<lambda>row. str_upper (py_str (get_first row [''symbol''] (JStr []))) = requested) rows in
      if matching = [] then Inl (ValueError (''unknown Bitget position-lever symbol: '' @ requested))
      else bindE (mapE position_tier matching) (\<lambda>tiers. Inr (widest_open (tier_order tiers))))"

section \<open>Lemmas\<close>

definition narrower :: "MMTier \<Rightarrow> MMTier \<Rightarrow> bool" where
  "narrower t u = (case mm_upper_bound_notional u of
     None \<Rightarrow> True | Some b \<Rightarrow> (case mm_upper_bound_notional t of None \<Rightarrow> False | Some a \<Rightarrow> a \<le> b))"

lemma tier_order_set: "set (tier_order tiers) = set tiers"
  by (auto simp: tier_order_def)

lemma tier_order_sorted: "sorted_wrt narrower (tier_order tiers)"
proof -
  let ?bounded = "filter (\<lambda>t. mm_upper_bound_notional t \<noteq> None) tiers"
  have "sorted_wrt (\<lambda>t u. the (mm_upper_bound_notional t) \<le> the (mm_upper_bound_notional u))
      (sort_key (\<lambda>t. the (mm_upper_bound_notional t)) ?bounded)"
    using sorted_sort_key [of "\<lambda>t. the (mm_upper_bound_notional t)" ?bounded] by (simp add: sorted_map)
  then have "sorted_wrt narrower (sort_key (\<lambda>t. the (mm_upper_bound_notional t)) ?bounded)"
    by (rule sorted_wrt_mono_rel [rotated]) (auto simp: narrower_def)
  moreover have "sorted_wrt narrower (filter (\<lambda>t. mm_upper_bound_notional t = None) tiers)"
    by (induction tiers) (auto simp: narrower_def)
  ultimately show ?thesis unfolding tier_order_def by (auto simp: sorted_wrt_append narrower_def)
qed

lemma list_all2_source: "list_all2 P xs ys \<Longrightarrow> y \<in> set ys \<Longrightarrow> \<exists>x \<in> set xs. P x y"
  by (induction rule: list_all2_induct) auto

lemma find_split: "List.find P xs = Some x \<Longrightarrow> \<exists>before after. xs = before @ x # after \<and> P x \<and> (\<forall>u \<in> set before. \<not> P u)"
proof (induction xs)
  case (Cons y ys)
  show ?case
  proof (cases "P y")
    case True
    then show ?thesis using Cons.prems by (intro exI [of "\<lambda>b. \<exists>a. y # ys = b @ x # a \<and> P x \<and> (\<forall>u \<in> set b. \<not> P u)" "[]"]) simp
  next
    case False
    then obtain before after where "ys = before @ x # after" "P x" "\<forall>u \<in> set before. \<not> P u" using Cons by auto
    then show ?thesis using False by (intro exI [of "\<lambda>b. \<exists>a. y # ys = b @ x # a \<and> P x \<and> (\<forall>u \<in> set b. \<not> P u)" "y # before"]) auto
  qed
qed simp

section \<open>Properties\<close>

text \<open>
  The metadata of a contract is legal for sizing: whatever the venue lists, the normalisation returns positive steps and
  minima within the model's ranges, for exactly the requested symbol, or it raises.
\<close>

theorem contract_metadata_legal:
  assumes "find_contract contracts symbol = Inr row" and "metadata_from_contract row = Inr m"
  shows "valid_metadata m \<and> sm_symbol m = str_upper symbol \<and> sm_mm_tiers m = []
    \<and> (\<exists>rows. contracts = JList rows \<and> JObj row \<in> set rows)"
proof -
  from assms(1) obtain requested rows r where req: "requested_symbol symbol = Some requested" and rows: "contracts = JList rows"
    "list_all (\<lambda>row. catalog_symbol row \<noteq> None) rows"
    and only: "filter (\<lambda>row. map_option str_upper (catalog_symbol row) = Some requested) rows = [r]" and row: "row = the (as_dict r)"
    by (auto simp: find_contract_def split: option.splits JSON.splits if_splits list.splits)
  have "r \<in> set (filter (\<lambda>row. map_option str_upper (catalog_symbol row) = Some requested) rows)" unfolding only by simp
  then have r: "r \<in> set rows" "map_option str_upper (catalog_symbol r) = Some requested" by simp_all
  then have obj: "r = JObj row" using row by (auto simp: catalog_symbol_def as_dict_def split: JSON.splits)
  have "requested = str_upper symbol" using req by (simp add: requested_symbol_def split: if_splits)
  moreover obtain raw where raw: "public_symbol (get_key row ''symbol'') = Some raw" "str_upper raw = requested"
    using r(2) obj by (auto simp: catalog_symbol_def)
  moreover have "valid_metadata m" "sm_symbol m = str_upper raw" "sm_mm_tiers m = []"
    using assms(2) raw(1) by (auto simp: metadata_from_contract_def bindE_Inr_iff make_metadata_def split: if_splits)
  ultimately show ?thesis using rows(1) r(1) obj by simp
qed

text \<open>
  The maintenance rate is that of the tightest tier. From the position levels of a symbol every notional gets a positive rate,
  that of the narrowest listed tier that covers it, and beyond the widest tier the widest tier's.
\<close>

theorem tightest_tier:
  assumes "mm_tiers_from_position_lever rows symbol = Inr ts"
    and "mapE position_tier (filter (\<lambda>row. str_upper (py_str (get_first row [''symbol''] (JStr []))) = str_upper symbol) rows) = Inr tiers"
  shows "\<exists>t \<in> set tiers. select_mmr notional ts = Inr (mm_mmr t) \<and> 0 < mm_mmr t \<and> mm_mmr t \<le> 1
    \<and> (if \<exists>u \<in> set tiers. tier_applies notional u
       then \<forall>u \<in> set tiers. tier_applies notional u \<longrightarrow> tier_applies notional t \<and> narrower t u
       else \<forall>u \<in> set tiers. narrower u t)"
proof -
  define os where "os = tier_order tiers"
  have ts: "ts = widest_open os" using assms by (auto simp: mm_tiers_from_position_lever_def Let_def os_def split: if_splits)
  have "tiers \<noteq> []" using assms by (auto simp: mm_tiers_from_position_lever_def Let_def mapE_Inr_iff split: if_splits)
  then have ne: "os \<noteq> []" using tier_order_set [of tiers] by (auto simp: os_def)
  have members: "set os = set tiers" by (simp add: os_def tier_order_set)
  have sorted: "sorted_wrt narrower os" by (simp add: os_def tier_order_sorted)
  have rates: "\<forall>t \<in> set tiers. 0 < mm_mmr t \<and> mm_mmr t \<le> 1"
  proof
    fix t assume "t \<in> set tiers"
    then obtain row where "position_tier row = Inr t" using list_all2_source [OF assms(2) [unfolded mapE_Inr_iff]] by blast
    then show "0 < mm_mmr t \<and> mm_mmr t \<le> 1" by (auto simp: position_tier_def bindE_Inr_iff Let_def split: if_splits)
  qed
  show ?thesis
  proof (cases "List.find (tier_applies notional) (butlast os)")
    case (Some t)
    from find_split [OF this] obtain before after where split: "butlast os = before @ t # after"
      "tier_applies notional t" "\<forall>u \<in> set before. \<not> tier_applies notional u" by blast
    have os: "os = before @ t # after @ [last os]" using ne split(1) by (metis append_butlast_last_id append.assoc append_Cons)
    have select: "select_mmr notional ts = Inr (mm_mmr t)"
      using Some by (simp add: ts widest_open_def select_mmr_def find_in_append)
    have "narrower t u" if "u \<in> set os" "tier_applies notional u" for u
    proof -
      have "sorted_wrt narrower (before @ t # after @ [last os])" unfolding os [symmetric] by (rule sorted)
      moreover have "u \<in> set (before @ t # after @ [last os])" unfolding os [symmetric] by (rule that(1))
      ultimately show ?thesis using that(2) split(3) by (auto simp: sorted_wrt_append narrower_def split: option.splits)
    qed
    moreover have "t \<in> set tiers" using find_Some_props [OF Some] members by (auto dest: in_set_butlastD)
    ultimately show ?thesis using select split(2) rates members by (intro bexI [of _ t]) auto
  next
    case None
    have select: "select_mmr notional ts = Inr (mm_mmr (last os))"
      using None by (simp add: ts widest_open_def select_mmr_def find_in_append tier_applies_def)
    have os: "os = butlast os @ [last os]" using ne by simp
    have early: "\<forall>u \<in> set (butlast os). \<not> tier_applies notional u" using None by (simp add: find_None_iff_none)
    have wide: "narrower u (last os)" if "u \<in> set tiers" for u
    proof -
      have "sorted_wrt narrower (butlast os @ [last os])" unfolding os [symmetric] by (rule sorted)
      moreover have "u \<in> set (butlast os @ [last os])" unfolding os [symmetric] using that members by simp
      ultimately show ?thesis by (auto simp: sorted_wrt_append narrower_def split: option.splits)
    qed
    have only: "u = last os" if "u \<in> set tiers" "tier_applies notional u" for u
    proof -
      have "u \<in> set (butlast os @ [last os])" unfolding os [symmetric] using that members by simp
      then show ?thesis using that(2) early by auto
    qed
    have last: "last os \<in> set tiers" using last_in_set [OF ne] unfolding members .
    have "if \<exists>u \<in> set tiers. tier_applies notional u
       then \<forall>u \<in> set tiers. tier_applies notional u \<longrightarrow> tier_applies notional (last os) \<and> narrower (last os) u
       else \<forall>u \<in> set tiers. narrower u (last os)"
    proof (cases "\<exists>u \<in> set tiers. tier_applies notional u")
      case True
      then have "tier_applies notional (last os)" using only by blast
      moreover have "narrower (last os) u" if "u \<in> set tiers" "tier_applies notional u" for u
        using only [OF that] wide [OF last] by simp
      ultimately show ?thesis using True by simp
    next
      case False
      then show ?thesis using wide by simp
    qed
    then show ?thesis using select rates last by blast
  qed
qed

end
