(* ===== verification/Operator_Gateway.thy ===== *)
theory Operator_Gateway
  imports Dispatch_Execution Verified_Closes Contract_Metadata
begin

text \<open>
  \<open>operator/bitget_gateway.py\<close>: the operator's and the source management's access to the venue. Reads
  give sanitized rows; a close is recorded before it is posted; a stop is moved only on the native plan an owned
  entry holds, and is done when the venue shows it. The intent store is the durable one, with its close
  lifecycle. The event loop the gateway keeps, and the fields of a row that are only displayed, are left
  out; the venue answers an order with an object. The clock and the fresh identifiers are supplies.
\<close>

section \<open>The client\<close>

record 'v OperatorClient =
  oc_get_ticker :: "string \<Rightarrow> ('v, JSON) prog"
  oc_get_account :: "('v, JSON) prog"
  oc_get_all_positions :: "('v, JSON) prog"
  oc_get_pending_orders :: "string option \<Rightarrow> ('v, JSON) prog"
  oc_get_contracts :: "('v, JSON) prog"
  oc_modify_position_stop_loss :: "string \<Rightarrow> string \<Rightarrow> string \<Rightarrow> dec \<Rightarrow> ('v, JSON) prog"
  oc_get_fills :: "string option \<Rightarrow> ('v, JSON) prog"
  oc_entry_execution :: bool
  oc_close_oid :: "nat \<Rightarrow> string"
  oc_now :: "nat \<Rightarrow> timestamp"
  oc_clock :: "nat \<Rightarrow> Clock"

definition pendingE :: "string \<Rightarrow> Exn" where
  "pendingE m = SourceManagementReconciliationPending m"

definition gateway_decimal :: "JSON \<Rightarrow> string \<Rightarrow> (Exn, dec) raises" where
  "gateway_decimal v field =
     (case to_decimal v of None \<Rightarrow> Inl (ValueError (''Bitget '' @ field @ '' is invalid'')) | Some q \<Rightarrow> Inr q)"

definition gateway_optional_decimal :: "JSON \<Rightarrow> string \<Rightarrow> (Exn, dec option) raises" where
  "gateway_optional_decimal v field =
     (if v = JNull \<or> (case v of JList _ \<Rightarrow> False | JObj _ \<Rightarrow> False | JDec _ \<Rightarrow> False | _ \<Rightarrow> str_strip (py_str v) \<in> {[], ''0'', ''0.0''})
      then Inr None
      else bindE (gateway_decimal v field) (\<lambda>q. Inr (Some q)))"

definition gateway_rows :: "JSON \<Rightarrow> string \<Rightarrow> (Exn, payload list) raises" where
  "gateway_rows v field =
     (case dict_list v of None \<Rightarrow> Inl (ValueError (''Bitget '' @ field @ '' response is invalid'')) | Some rows \<Rightarrow> Inr rows)"

section \<open>Reads\<close>

definition get_price :: "('v, 'z) DispatchExec_scheme \<Rightarrow> 'v OperatorClient \<Rightarrow> string \<Rightarrow> ('v exec_world, dec) prog" where
  "get_price c g symbol =
     bindW (apiW c (oc_get_ticker g (str_upper symbol))) (\<lambda>v.
       case as_dict v of
         None \<Rightarrow> raiseW (ValueError ''Bitget ticker response is invalid'')
       | Some d \<Rightarrow> liftE (gateway_decimal (get_first d [''lastPr'', ''last''] JNull) ''ticker price''))"

definition get_balance :: "('v, 'z) DispatchExec_scheme \<Rightarrow> 'v OperatorClient \<Rightarrow> ('v exec_world, dec) prog" where
  "get_balance c g =
     bindW (apiW c (oc_get_account g)) (\<lambda>v.
       case as_dict v of
         None \<Rightarrow> raiseW (ValueError ''Bitget account response is invalid'')
       | Some d \<Rightarrow> liftE (gateway_decimal (get_first d [''available'', ''availableBalance''] JNull) ''available balance''))"

record OperatorPosition =
  op_symbol :: string
  op_side :: string
  op_size :: dec
  op_entry :: dec
  op_stop_loss :: "dec option"
  op_take_profit :: "dec option"
  op_stop_loss_id :: JSON
  op_take_profit_id :: JSON

text \<open>\<open>a or b or c\<close> of the listed fields.\<close>

fun first_true :: "payload \<Rightarrow> string list \<Rightarrow> JSON" where
  "first_true d [] = JNull"
| "first_true d [k] = get_key d k"
| "first_true d (k # ks) = py_or (get_key d k) (first_true d ks)"

text \<open>A row of another symbol or without size is skipped, an unreadable one refuses the whole answer.\<close>

definition operator_position :: "string option \<Rightarrow> payload \<Rightarrow> (Exn, OperatorPosition option) raises" where
  "operator_position expected row =
     (let symbol = str_upper (py_str (get_first row [''symbol''] (JStr [])));
          side = str_lower (py_str (get_first row [''holdSide'', ''side''] (JStr []))) in
      if (case expected of None \<Rightarrow> False | Some s \<Rightarrow> symbol \<noteq> s) then Inr None
      else bindE (gateway_decimal (get_first row [''total'', ''size''] JNull) ''position size'') (\<lambda>size.
        if size < 0 \<or> symbol = [] then Inl (ValueError ''Bitget position quantity/symbol is invalid'')
        else if size = 0 then Inr None
        else if side \<notin> {''long'', ''short''} then Inl (ValueError ''Bitget position side is invalid'')
        else bindE (gateway_decimal (get_first row [''openPriceAvg'', ''entryPrice''] (JStr ''0'')) ''position entry'') (\<lambda>entry.
          bindE (gateway_optional_decimal (first_true row [''stopLossTriggerPrice'', ''presetStopLossPrice'', ''stopLoss'', ''stopLossPrice''])
            ''position stop loss'') (\<lambda>sl.
          bindE (gateway_optional_decimal (first_true row [''stopSurplusTriggerPrice'', ''presetStopSurplusPrice'', ''takeProfit'', ''takeProfitPrice''])
            ''position take profit'') (\<lambda>tp.
            Inr (Some \<lparr>op_symbol = symbol, op_side = str_upper side, op_size = size, op_entry = entry, op_stop_loss = sl,
              op_take_profit = tp, op_stop_loss_id = get_key row ''stopLossId'', op_take_profit_id = get_key row ''takeProfitId''\<rparr>))))))"

definition operator_positions :: "string option \<Rightarrow> JSON \<Rightarrow> (Exn, OperatorPosition list) raises" where
  "operator_positions expected v =
     bindE (gateway_rows v ''positions'') (\<lambda>rows.
     bindE (mapE (operator_position expected) rows) (\<lambda>ps. Inr (List.map_filter (\<lambda>p. p) ps)))"

text \<open>\<open>symbol.upper() if symbol else None\<close>.\<close>

definition upper_symbol :: "string option \<Rightarrow> string option" where
  "upper_symbol symbol = (case symbol of Some (x # xs) \<Rightarrow> Some (str_upper (x # xs)) | _ \<Rightarrow> None)"

definition get_positions ::
  "('v, 'z) DispatchExec_scheme \<Rightarrow> 'v OperatorClient \<Rightarrow> string option \<Rightarrow> ('v exec_world, OperatorPosition list) prog" where
  "get_positions c g symbol =
     bindW (apiW c (oc_get_all_positions g)) (\<lambda>v. liftE (operator_positions (upper_symbol symbol) v))"

record OperatorOrder =
  oo_symbol :: string
  oo_order_id :: string
  oo_side :: string
  oo_price :: dec
  oo_size :: dec
  oo_role :: string
  oo_state :: string

definition operator_order :: "payload \<Rightarrow> (Exn, OperatorOrder) raises" where
  "operator_order row =
     (let side = str_upper (py_str (get_first row [''side''] (JStr []))) in
      if side \<notin> {''BUY'', ''SELL''} then Inl (ValueError ''Bitget order side is invalid'')
      else
        bindE (gateway_decimal (get_first row [''price''] (JStr ''0'')) ''order price'') (\<lambda>price.
        bindE (gateway_decimal (get_first row [''size''] (JStr ''0'')) ''order size'') (\<lambda>size.
          Inr \<lparr>oo_symbol = str_upper (py_str (get_first row [''symbol''] (JStr []))),
            oo_order_id = py_str (get_first row [''orderId''] (JStr [])), oo_side = side, oo_price = price, oo_size = size,
            oo_role = str_upper (py_str (get_first row [''role'', ''orderType''] (JStr ''ORDER''))),
            oo_state = str_upper (py_str (get_first row [''status'', ''state''] (JStr ''UNKNOWN'')))\<rparr>)))"

definition get_orders ::
  "('v, 'z) DispatchExec_scheme \<Rightarrow> 'v OperatorClient \<Rightarrow> string option \<Rightarrow> ('v exec_world, OperatorOrder list) prog" where
  "get_orders c g symbol =
     bindW (apiW c (oc_get_pending_orders g (upper_symbol symbol))) (\<lambda>v.
       liftE (bindE (gateway_rows v ''orders'') (mapE operator_order)))"

definition symbol_metadata :: "('v, 'z) DispatchExec_scheme \<Rightarrow> 'v OperatorClient \<Rightarrow> string \<Rightarrow> ('v exec_world, SymbolMetadata) prog" where
  "symbol_metadata c g symbol =
     bindW (apiW c (oc_get_contracts g)) (\<lambda>v. liftE (
       bindE (gateway_rows v ''contracts'') (\<lambda>rows.
         let matching = filter (\<lambda>row. str_upper (py_str (get_first row [''symbol''] (JStr []))) = str_upper symbol) rows in
         if length matching \<noteq> 1 then Inl (ValueError ''Bitget contract must resolve uniquely'')
         else bindE (find_contract (JList (map JObj matching)) symbol) metadata_from_contract)))"

section \<open>Closing\<close>

text \<open>\<open>save\<close> claims the record and does not look at the outcome.\<close>

definition save_intent :: "('v, 'z) DispatchExec_scheme \<Rightarrow> LiveIntentRecord \<Rightarrow> ('v exec_world, unit) prog" where
  "save_intent c r = bindW (dbW c (\<lambda>now. claim (de_claim_authority c) now r)) (\<lambda>_. returnW ())"

definition bind_close :: "('v, 'z) DispatchExec_scheme \<Rightarrow> string \<Rightarrow> ('v exec_world, bool) prog" where
  "bind_close c oid = dbW c (\<lambda>now. bind_requested_close (de_console_enabled c) (ec_client_environment c) oid None)"

definition close_client :: "('v, 'z) DispatchExec_scheme \<Rightarrow> 'v OperatorClient \<Rightarrow> 'v Process CloseClient" where
  "close_client c g =
     \<lparr>vc_environment = ec_client_environment c, vc_get_fills = (\<lambda>s. on_venue (oc_get_fills g s)),
      vc_get_all_positions = on_venue (oc_get_all_positions g), vc_now = oc_now g, vc_clock = oc_clock g\<rparr>"

definition managed_close_record :: "string \<Rightarrow> string \<Rightarrow> string \<Rightarrow> dec \<Rightarrow> LiveIntentRecord" where
  "managed_close_record oid symbol side quantity =
     (new_record BITGET oid symbol side)\<lparr>it_role := CLOSE, it_state := I_requested, it_requested_qty := quantity\<rparr>"

definition answered :: "LiveIntentRecord \<Rightarrow> payload \<Rightarrow> LiveIntentRecord" where
  "answered r d = (if get_key d ''orderId'' = JNull then r else r\<lparr>it_provider_order_id := Some (py_str (get_key d ''orderId''))\<rparr>)"

text \<open>The post, with the ambiguous outcome as \<open>None\<close>.\<close>

definition try_close :: "('v, 'z) DispatchExec_scheme \<Rightarrow> LiveIntentRecord \<Rightarrow> ('v exec_world, payload option) prog" where
  "try_close c r = tryW (bindW (post_close c r) (\<lambda>d. returnW (Some d))) ambiguous_post (\<lambda>_. returnW None)"

text \<open>The word the operator is answered.\<close>

definition close_position :: "('v, 'z) DispatchExec_scheme \<Rightarrow> 'v OperatorClient \<Rightarrow> string \<Rightarrow> ('v exec_world, string) prog" where
  "close_position c g target =
     (if starts_with target ''position_id='' then raiseW (ValueError ''Bitget close requires a symbol'')
      else
        let symbol = str_upper target in
        bindW (get_positions c g (Some symbol)) (\<lambda>positions.
          case positions of
            [] \<Rightarrow> returnW ''not-open''
          | [p] \<Rightarrow> (\<lambda>w.
              let r = managed_close_record (oc_close_oid g (ww_tick w)) symbol (if op_side p = ''LONG'' then ''SELL'' else ''BUY'') (op_size p) in
              bindW (save_intent c r) (\<lambda>_.
              bindW (bind_close c (it_client_oid r)) (\<lambda>_.
              bindW (try_close c r) (\<lambda>submitted.
                case submitted of
                  None \<Rightarrow> bindW (updateW c (r\<lparr>it_state := I_unknown\<rparr>)) (\<lambda>_. returnW ''reconciliation-pending'')
                | Some d \<Rightarrow>
                    let r1 = answered r d in
                    bindW (updateW c r1) (\<lambda>_.
                    bindW (get_positions c g (Some symbol)) (\<lambda>left.
                      if left \<noteq> [] then returnW ''reconciliation-pending''
                      else bindW (updateW c (r1\<lparr>it_state := I_reconciled, it_filled_qty := op_size p\<rparr>)) (\<lambda>_. returnW ''closed'')))))) w)
          | _ \<Rightarrow> raiseW (ValueError ''Bitget close target resolves to multiple positions'')))"

text \<open>The cancellation of owned waiting entries; what stays unknown is pending.\<close>

definition gateway_cancel ::
  "('v, 'z) DispatchExec_scheme \<Rightarrow> 'v OperatorClient \<Rightarrow> string \<Rightarrow> UUID \<Rightarrow> bool \<Rightarrow> ('v exec_world, bool) prog" where
  "gateway_cancel c g symbol management read_only =
     (if \<not> oc_entry_execution g then raiseW (pendingE ''owned entry cancellation is not wired'')
      else tryW (cancel_pending_entries c (str_upper symbol) management read_only) ambiguous_post
        (\<lambda>_. raiseW (pendingE ''owned entry cancellation result is unknown'')))"

text \<open>At most \<open>n\<close> reconciliations, until the stored close is settled.\<close>

fun await_settled ::
  "('v, 'z) DispatchExec_scheme \<Rightarrow> 'v OperatorClient \<Rightarrow> string \<Rightarrow> nat \<Rightarrow> ('v exec_world, unit) prog" where
  "await_settled c g oid 0 = returnW ()"
| "await_settled c g oid (Suc n) =
     bindW (reconcile c (close_client c g)) (\<lambda>_.
     bindW (getW c oid) (\<lambda>found.
       if (case found of None \<Rightarrow> False | Some r \<Rightarrow> it_state r \<in> {I_filled, I_reconciled}) then returnW ()
       else bindW (apiW c (ec_sleep c (1 / 5))) (\<lambda>_. await_settled c g oid n)))"

definition close_reduce_only ::
  "('v, 'z) DispatchExec_scheme \<Rightarrow> 'v OperatorClient \<Rightarrow> string \<Rightarrow> string \<Rightarrow> dec \<Rightarrow> string \<Rightarrow> ('v exec_world, unit) prog" where
  "close_reduce_only c g symbol side quantity oid =
     bindW (getW c oid) (\<lambda>existing.
       if existing \<noteq> None then raiseW (pendingE ''existing close intent requires reconciliation'')
       else
         let r = managed_close_record oid symbol side quantity in
         bindW (save_intent c r) (\<lambda>_.
         bindW (bind_close c oid) (\<lambda>bound.
           if \<not> bound then raiseW (pendingE ''exact close ownership binding is unconfirmed'')
           else bindW (try_close c r) (\<lambda>submitted.
             case submitted of
               None \<Rightarrow> bindW (updateW c (r\<lparr>it_state := I_unknown\<rparr>)) (\<lambda>_. raiseW (pendingE ''close result is unknown''))
             | Some d \<Rightarrow> bindW (updateW c ((answered r d)\<lparr>it_state := I_submitted\<rparr>)) (\<lambda>_. await_settled c g oid 5)))))"

text \<open>\<open>a % b\<close> of a positive divisor; a quotient beyond 28 digits raises in Python.\<close>

definition dec_rem :: "dec \<Rightarrow> dec \<Rightarrow> dec" where
  "dec_rem a b = dec_round (a - b * integral_down (a / b))"

definition half_close :: "SymbolMetadata \<Rightarrow> dec \<Rightarrow> (Exn, dec) raises" where
  "half_close m quantity =
     (if quantity \<le> 0 then Inl (ValueError ''TP1 position quantity is invalid'')
      else bindE (round_qty_to_step (dec_div quantity 2) (sm_size_step m)) (\<lambda>close.
        let residual = dec_sub quantity close in
        if close < sm_min_order_qty m \<or> residual < sm_size_step m \<or> dec_rem residual (sm_size_step m) \<noteq> 0
           \<or> (case sm_max_market_order_qty m of None \<Rightarrow> False | Some limit \<Rightarrow> limit < close)
        then Inl (ValueError ''TP1 half close cannot preserve a nonzero lot-safe residual'')
        else Inr close))"

definition normalize_tp1_close_quantity ::
  "('v, 'z) DispatchExec_scheme \<Rightarrow> 'v OperatorClient \<Rightarrow> string \<Rightarrow> dec \<Rightarrow> ('v exec_world, dec) prog" where
  "normalize_tp1_close_quantity c g symbol quantity =
     bindW (symbol_metadata c g symbol) (\<lambda>m. liftE (half_close m quantity))"

section \<open>Stops\<close>

text \<open>The exact protection of a symbol, by a fresh position read and the given plans or a fresh read of them.\<close>

definition symbol_rows :: "JSON \<Rightarrow> string \<Rightarrow> (Exn, JSON) raises" where
  "symbol_rows v symbol =
     bindE (gateway_rows v ''positions'') (\<lambda>rows.
       Inr (JList (map JObj (filter (\<lambda>row. str_upper (py_str (get_first row [''symbol''] (JStr []))) = symbol) rows))))"

definition confirm_stop_protection ::
  "('v, 'z) DispatchExec_scheme \<Rightarrow> 'v OperatorClient \<Rightarrow> NativeProtectionExpectation \<Rightarrow> JSON option \<Rightarrow> ('v exec_world, bool) prog" where
  "confirm_stop_protection c g e plans =
     bindW (bindW (apiW c (oc_get_all_positions g)) (\<lambda>v. liftE (symbol_rows v (ne_symbol e)))) (\<lambda>rows.
     bindW (case plans of Some v \<Rightarrow> returnW v | None \<Rightarrow> apiW c (ec_get_pending_plan_orders c (ne_symbol e))) (\<lambda>pending.
     bindW (confirm_native_protection (returnW rows) (returnW pending) None (Some e)) (\<lambda>report.
       returnW (pr_state report = P_venue_protected))))"

text \<open>The plan of a leg runs under its own record when the entry owns one, else under the entry's.\<close>

definition native_plan_oid :: "('v, 'z) DispatchExec_scheme \<Rightarrow> LiveIntentRecord \<Rightarrow> IntentRole \<Rightarrow> ('v exec_world, string) prog" where
  "native_plan_oid c entry role =
     bindW (getW c (it_client_oid entry @ (if role = SL then ''-sl'' else ''-tp''))) (\<lambda>found.
       returnW (case found of
          Some k \<Rightarrow> if it_role k = role \<and> it_protection_root_oid k = Some (it_client_oid entry) then it_client_oid k else it_client_oid entry
        | None \<Rightarrow> it_client_oid entry))"

definition stop_expectation ::
  "string \<Rightarrow> string \<Rightarrow> dec \<Rightarrow> dec \<Rightarrow> dec \<Rightarrow> string \<Rightarrow> string \<Rightarrow> string \<Rightarrow> string \<Rightarrow> NativeProtectionExpectation" where
  "stop_expectation symbol side quantity stop target sl_oid tp_oid sl_id tp_id =
     \<lparr>ne_symbol = symbol, ne_hold_side = side, ne_quantity = quantity, ne_stop_loss = Some stop, ne_take_profit = Some target,
      ne_stop_loss_client_oid = Some sl_oid, ne_take_profit_client_oid = Some tp_oid, ne_stop_loss_provider_order_id = Some sl_id,
      ne_take_profit_provider_order_id = Some tp_id, ne_stop_loss_size = None, ne_take_profit_size = None, ne_position_level = True\<rparr>"

text \<open>A text that is there and not empty.\<close>

definition given :: "string option \<Rightarrow> bool" where
  "given t = (case t of None \<Rightarrow> False | Some s \<Rightarrow> s \<noteq> [])"

definition stop_owned :: "LiveIntentRecord \<Rightarrow> LiveIntentRecord option \<Rightarrow> bool" where
  "stop_owned r entry \<longleftrightarrow> it_role r = SL \<and> (case entry of None \<Rightarrow> False | Some e \<Rightarrow> it_role e = ENTRY)
     \<and> given (it_provider_order_id r) \<and> given (it_stop_mutation_take_profit_id r) \<and> it_planned_stop_loss r \<noteq> None
     \<and> it_planned_take_profits r \<notin> {None, Some []}"

text \<open>The local price lane follows the stop the venue holds; a failure parks the update.\<close>

definition sync_local_levels :: "('v, 'z) DispatchExec_scheme \<Rightarrow> LiveIntentRecord \<Rightarrow> LiveIntentRecord \<Rightarrow> ('v exec_world, unit) prog" where
  "sync_local_levels c entry r =
     (case it_planned_stop_loss r of
        None \<Rightarrow> raiseW (pendingE ''managed stop levels are incomplete'')
      | Some stop \<Rightarrow>
          if it_requested_qty r \<le> 0 then raiseW (pendingE ''managed stop levels are incomplete'')
          else bindW (attemptW (dbW c (\<lambda>now. update_fallback_levels (it_client_oid entry) stop (it_requested_qty r) (ec_client_environment c)))) (\<lambda>x.
            case x of Inl _ \<Rightarrow> raiseW (pendingE ''local lane level sync failed'') | Inr _ \<Rightarrow> returnW ()))"

definition reconcile_stop_intent ::
  "('v, 'z) DispatchExec_scheme \<Rightarrow> 'v OperatorClient \<Rightarrow> LiveIntentRecord \<Rightarrow> ('v exec_world, unit) prog" where
  "reconcile_stop_intent c g r =
     bindW (getW c (case it_stop_mutation_root_oid r of None \<Rightarrow> [] | Some oid \<Rightarrow> oid)) (\<lambda>found.
       if \<not> stop_owned r found then raiseW (pendingE ''stop mutation ownership is unconfirmed'')
       else
         let entry = the found; stop = the (it_planned_stop_loss r) in
         bindW (native_plan_oid c entry SL) (\<lambda>sl_oid.
         bindW (native_plan_oid c entry TP) (\<lambda>tp_oid.
         bindW (liftE (make_expectation (stop_expectation (it_symbol r) (if it_side r = ''SELL'' then ''long'' else ''short'') (it_requested_qty r) stop
           (hd (the (it_planned_take_profits r))) sl_oid tp_oid (the (it_provider_order_id r)) (the (it_stop_mutation_take_profit_id r))))) (\<lambda>e.
         bindW (attemptW (confirm_stop_protection c g e None)) (\<lambda>x.
           case x of
             Inl _ \<Rightarrow> raiseW (pendingE ''stop-loss readback failed'')
           | Inr False \<Rightarrow> raiseW (pendingE ''stop-loss readback is unconfirmed'')
           | Inr True \<Rightarrow>
               bindW (execW c (update_active_stop (it_symbol r) (it_client_oid entry) stop (it_client_oid r))) (\<lambda>_.
               bindW (updateW c (r\<lparr>it_state := I_reconciled\<rparr>)) (\<lambda>_. sync_local_levels c entry r)))))))"

definition reconcile_stop_loss :: "('v, 'z) DispatchExec_scheme \<Rightarrow> 'v OperatorClient \<Rightarrow> string \<Rightarrow> ('v exec_world, unit) prog" where
  "reconcile_stop_loss c g oid =
     bindW (getW c oid) (\<lambda>found.
       case found of
         None \<Rightarrow> raiseW (pendingE ''claimed stop intent is not available'')
       | Some r \<Rightarrow> reconcile_stop_intent c g r)"

text \<open>The native stop plan of the position: unique under its identifier.\<close>

definition stop_plans :: "string \<Rightarrow> payload list \<Rightarrow> payload list" where
  "stop_plans sl_id plans =
     filter (\<lambda>row. py_str (get_first row [''orderId'', ''planOrderId'', ''id''] (JStr [])) = sl_id
       \<and> str_lower (py_str (get_first row [''planType'', ''type''] (JStr []))) = ''pos_loss'') plans"

definition plan_root_oid :: "payload \<Rightarrow> string" where
  "plan_root_oid plan = str_strip (text_or_empty (first_true plan [''stopLossClientOid'', ''clientOid'', ''clientOrderId'']))"

text \<open>The entry behind a plan: that of a stop record, or the record of the plan itself.\<close>

definition plan_entry :: "('v, 'z) DispatchExec_scheme \<Rightarrow> string \<Rightarrow> ('v exec_world, string \<times> LiveIntentRecord option) prog" where
  "plan_entry c oid =
     bindW (getW c oid) (\<lambda>found.
       case found of
         Some k \<Rightarrow> if it_role k = SL \<and> given (it_protection_root_oid k)
           then bindW (getW c (the (it_protection_root_oid k))) (\<lambda>entry. returnW (the (it_protection_root_oid k), entry))
           else returnW (oid, found)
       | None \<Rightarrow> returnW (oid, None))"

definition owns_stop :: "string \<Rightarrow> string \<Rightarrow> LiveIntentRecord \<Rightarrow> bool" where
  "owns_stop symbol side e \<longleftrightarrow> it_role e = ENTRY \<and> str_upper (it_symbol e) = symbol
     \<and> str_upper (it_side e) \<in> (if side = ''LONG'' then {''BUY'', ''LONG''} else {''SELL'', ''SHORT''})
     \<and> it_entry_leg e \<noteq> Some ''limit'' \<and> it_planned_stop_loss e \<noteq> None \<and> it_planned_take_profits e \<notin> {None, Some []}"

text \<open>The owned quantity must be the live one; a reconciliation of the closes may still settle it.\<close>

definition owns_exactly ::
  "('v, 'z) DispatchExec_scheme \<Rightarrow> 'v OperatorClient \<Rightarrow> string \<Rightarrow> dec \<Rightarrow> ('v exec_world, bool) prog" where
  "owns_exactly c g oid quantity =
     bindW (remainingD c oid) (\<lambda>owned.
       if owned = quantity then returnW True
       else bindW (reconcile c (close_client c g)) (\<lambda>_.
         bindW (attemptW (remainingD c oid)) (\<lambda>x. returnW (case x of Inl _ \<Rightarrow> False | Inr q \<Rightarrow> q = quantity))))"

definition stop_record :: "string \<Rightarrow> string \<Rightarrow> string \<Rightarrow> dec \<Rightarrow> dec \<Rightarrow> string \<Rightarrow> string \<Rightarrow> string \<Rightarrow> LiveIntentRecord \<Rightarrow> LiveIntentRecord" where
  "stop_record oid symbol side quantity stop sl_id tp_id entry_oid e =
     (new_record BITGET oid symbol (if side = ''LONG'' then ''SELL'' else ''BUY''))
       \<lparr>it_role := SL, it_state := I_requested, it_requested_qty := quantity, it_provider_order_id := Some sl_id,
        it_planned_stop_loss := Some stop, it_planned_take_profits := Some (or_target (it_active_take_profit_price e) (the (it_planned_take_profits e))),
        it_stop_mutation_root_oid := Some entry_oid, it_stop_mutation_take_profit_id := Some tp_id\<rparr>"

text \<open>The claimed modification: posted once, acknowledged with its own identifiers, then read back.\<close>

definition modify_stop ::
  "('v, 'z) DispatchExec_scheme \<Rightarrow> 'v OperatorClient \<Rightarrow> LiveIntentRecord \<Rightarrow> string \<Rightarrow> string \<Rightarrow> ('v exec_world, unit) prog" where
  "modify_stop c g r sl_id plan_oid =
     bindW (attemptW (postW c (it_client_oid r)
       (on_venue (oc_modify_position_stop_loss g (it_symbol r) sl_id plan_oid (the (it_planned_stop_loss r)))))) (\<lambda>x.
       case x of
         Inl _ \<Rightarrow> bindW (updateW c (r\<lparr>it_state := I_unknown\<rparr>)) (\<lambda>_. raiseW (pendingE ''stop modification result is unknown''))
       | Inr v \<Rightarrow>
           if (case as_dict v of None \<Rightarrow> True
               | Some d \<Rightarrow> text_or_empty (get_key d ''orderId'') \<noteq> sl_id \<or> text_or_empty (get_key d ''clientOid'') \<noteq> plan_oid)
           then bindW (updateW c (r\<lparr>it_state := I_unknown\<rparr>)) (\<lambda>_. raiseW (pendingE ''stop modification acknowledgement is invalid''))
           else bindW (updateW c (r\<lparr>it_state := I_acknowledged\<rparr>)) (\<lambda>_. reconcile_stop_intent c g (r\<lparr>it_state := I_acknowledged\<rparr>)))"

definition claim_stop ::
  "('v, 'z) DispatchExec_scheme \<Rightarrow> 'v OperatorClient \<Rightarrow> LiveIntentRecord \<Rightarrow> string \<Rightarrow> string \<Rightarrow> ('v exec_world, unit) prog" where
  "claim_stop c g r sl_id plan_oid =
     bindW (grantW c (it_client_oid r) (\<lambda>now. claim (de_claim_authority c) now r)) (\<lambda>won.
       if won then modify_stop c g r sl_id plan_oid
       else bindW (getW c (it_client_oid r)) (\<lambda>previous.
         case previous of
           None \<Rightarrow> raiseW (pendingE ''stop intent claim was lost'')
         | Some k \<Rightarrow> reconcile_stop_intent c g k))"

text \<open>The checked stop of an owned plan.\<close>

definition move_owned_stop ::
  "('v, 'z) DispatchExec_scheme \<Rightarrow> 'v OperatorClient \<Rightarrow> string \<Rightarrow> string \<Rightarrow> dec \<Rightarrow> dec \<Rightarrow> string \<Rightarrow> string \<Rightarrow> string \<Rightarrow> JSON \<Rightarrow> payload
    \<Rightarrow> ('v exec_world, unit) prog" where
  "move_owned_stop c g symbol side quantity stop oid sl_id tp_id pending plan =
     bindW (plan_entry c (plan_root_oid plan)) (\<lambda>(entry_oid, found).
       if (case found of None \<Rightarrow> True | Some e \<Rightarrow> \<not> owns_stop symbol side e)
       then raiseW (ValueError ''native SL ownership does not match the live residual'')
       else bindW (owns_exactly c g entry_oid quantity) (\<lambda>exact.
         if \<not> exact then raiseW (ValueError ''native SL ownership does not match the live residual'')
         else
           let e = the found in
           bindW (native_plan_oid c e TP) (\<lambda>tp_oid.
           bindW (liftE (make_expectation (stop_expectation symbol (str_lower side) quantity
             (or_price (it_active_stop_loss_price e) (the (it_planned_stop_loss e)))
             (or_price (it_active_take_profit_price e) (hd (the (it_planned_take_profits e)))) (plan_root_oid plan) tp_oid sl_id tp_id))) (\<lambda>x.
           bindW (confirm_stop_protection c g x (Some pending)) (\<lambda>shown.
             if \<not> shown then raiseW (ValueError ''owned native protection strict pre-readback failed'')
             else bindW (liftE (checked (stop_record oid symbol side quantity stop sl_id tp_id entry_oid e))) (\<lambda>r.
               claim_stop c g r sl_id (plan_root_oid plan)))))))"

text \<open>A first request: the live position, its plan identifiers, its unique native stop plan.\<close>

definition request_stop ::
  "('v, 'z) DispatchExec_scheme \<Rightarrow> 'v OperatorClient \<Rightarrow> string \<Rightarrow> string \<Rightarrow> dec \<Rightarrow> dec \<Rightarrow> string \<Rightarrow> ('v exec_world, unit) prog" where
  "request_stop c g symbol side quantity stop oid =
     bindW (get_positions c g (Some symbol)) (\<lambda>positions.
       case positions of
         [p] \<Rightarrow>
           if op_side p \<noteq> side \<or> op_size p \<noteq> quantity then raiseW (ValueError ''Bitget position changed before stop-loss modification'')
           else
             let sl_id = str_strip (text_or_empty (op_stop_loss_id p)); tp_id = str_strip (text_or_empty (op_take_profit_id p)) in
             if sl_id = [] \<or> tp_id = [] then raiseW (ValueError ''owned native SL and retained TP identities are required'')
             else bindW (apiW c (ec_get_pending_plan_orders c symbol)) (\<lambda>pending.
               bindW (liftE (gateway_rows pending ''pending protection'')) (\<lambda>plans.
                 case stop_plans sl_id plans of
                   [plan] \<Rightarrow> move_owned_stop c g symbol side quantity stop oid sl_id tp_id pending plan
                 | _ \<Rightarrow> raiseW (ValueError ''native SL plan was not found uniquely'')))
       | _ \<Rightarrow> raiseW (ValueError ''Bitget position changed before stop-loss modification''))"

definition replace_stop_loss ::
  "('v, 'z) DispatchExec_scheme \<Rightarrow> 'v OperatorClient \<Rightarrow> string \<Rightarrow> string \<Rightarrow> dec \<Rightarrow> dec \<Rightarrow> string \<Rightarrow> ('v exec_world, unit) prog" where
  "replace_stop_loss c g symbol side quantity stop_loss oid =
     bindW (getW c oid) (\<lambda>existing.
       case existing of
         Some r \<Rightarrow>
           if it_symbol r \<noteq> str_upper symbol \<or> it_side r \<noteq> (if side = ''LONG'' then ''SELL'' else ''BUY'')
           then raiseW (pendingE ''stop mutation intent conflicts'')
           else reconcile_stop_intent c g r
       | None \<Rightarrow>
           if side \<notin> {''LONG'', ''SHORT''} \<or> stop_loss \<le> 0 then raiseW (ValueError ''stop-loss request is invalid'')
           else
             bindW (symbol_metadata c g (str_upper symbol)) (\<lambda>m.
             bindW (liftE (round_price_to_tick stop_loss (sm_price_tick m))) (\<lambda>stop.
               request_stop c g (str_upper symbol) side quantity stop oid)))"

end
