(* ===== verification/Source_Management.thy ===== *)
theory Source_Management
  imports Management_Store Operator_Gateway
begin

text \<open>
  \<open>execution/source_management.py\<close>: the executor of one claimed source-management update. The store and the
  gateway are the two protocols of the source, records of programs over any world; the executor neither knows
  the tables nor the venue. Every order of an update carries an identifier derived from the update, and an
  intent for it is persisted before it is posted. Printed lines are left out.
\<close>

section \<open>The two protocols\<close>

record 'w ManagementStore =
  sm_claim :: "string \<Rightarrow> ('w, SourceManagementUpdate option) prog"
  sm_update_state :: "UUID \<Rightarrow> string \<Rightarrow> ('w, unit) prog"
  sm_alert_outcome :: "(SourceManagementUpdate \<Rightarrow> string \<Rightarrow> ('w, unit) prog) option"
  sm_park :: "UUID \<Rightarrow> string \<Rightarrow> int \<Rightarrow> int \<Rightarrow> ('w, string) prog"
  sm_persist_provider_intent :: "UUID \<Rightarrow> string \<Rightarrow> ('w, bool) prog"
  sm_has_provider_intent :: "UUID \<Rightarrow> string \<Rightarrow> ('w, bool) prog"
  sm_management_is_eligible :: "UUID \<Rightarrow> ('w, bool) prog"
  sm_has_claimed_cancellation :: "UUID \<Rightarrow> ('w, bool) prog"

record 'w ManagementGateway =
  mg_get_positions :: "string \<Rightarrow> ('w, OperatorPosition list) prog"
  mg_get_orders :: "string \<Rightarrow> ('w, OperatorOrder list) prog"
  mg_cancel_pending_entries :: "string \<Rightarrow> UUID \<Rightarrow> bool \<Rightarrow> ('w, bool) prog"
  mg_close_reduce_only :: "string \<Rightarrow> string \<Rightarrow> dec \<Rightarrow> string \<Rightarrow> ('w, unit) prog"
  mg_normalize_tp1_close_quantity :: "(string \<Rightarrow> dec \<Rightarrow> ('w, dec) prog) option"
  mg_reconcile_stop_loss :: "string \<Rightarrow> ('w, unit) prog"
  mg_replace_stop_loss :: "string \<Rightarrow> string \<Rightarrow> dec \<Rightarrow> dec \<Rightarrow> string \<Rightarrow> ('w, unit) prog"

record 'w ManagementExecutor =
  mx_store :: "'w ManagementStore"
  mx_gateway :: "'w ManagementGateway"
  mx_mutations_enabled :: bool
  mx_max_attempts :: int
  mx_retry_seconds :: int
  mx_hex :: "UUID \<Rightarrow> string"   \<comment> \<open>\<open>update.id.hex\<close>\<close>

definition make_executor ::
  "'w ManagementStore \<Rightarrow> 'w ManagementGateway \<Rightarrow> bool \<Rightarrow> int \<Rightarrow> int \<Rightarrow> (UUID \<Rightarrow> string) \<Rightarrow> 'w ManagementExecutor" where
  "make_executor s g enabled max_attempts retry_seconds hex =
     \<lparr>mx_store = s, mx_gateway = g, mx_mutations_enabled = enabled, mx_max_attempts = max 1 max_attempts,
      mx_retry_seconds = max 0 retry_seconds, mx_hex = hex\<rparr>"

definition stop_order_oid :: "'w ManagementExecutor \<Rightarrow> SourceManagementUpdate \<Rightarrow> string" where
  "stop_order_oid x u = ''source-management-'' @ mx_hex x (su_id u) @ ''-sl''"

definition close_order_oid :: "'w ManagementExecutor \<Rightarrow> SourceManagementUpdate \<Rightarrow> string" where
  "close_order_oid x u = ''source-management-'' @ mx_hex x (su_id u) @ ''-close''"

section \<open>Steps\<close>

definition finish :: "'w ManagementExecutor \<Rightarrow> SourceManagementUpdate \<Rightarrow> string \<Rightarrow> ('w, unit) prog" where
  "finish x u state =
     bindW (sm_update_state (mx_store x) (su_id u) state) (\<lambda>_.
       case sm_alert_outcome (mx_store x) of None \<Rightarrow> returnW () | Some alert \<Rightarrow> alert u state)"

text \<open>Finished with a word to return.\<close>

definition finish_as :: "'w ManagementExecutor \<Rightarrow> SourceManagementUpdate \<Rightarrow> string \<Rightarrow> string \<Rightarrow> ('w, string option) prog" where
  "finish_as x u state word = bindW (finish x u state) (\<lambda>_. returnW (Some word))"

definition require_eligible :: "'w ManagementExecutor \<Rightarrow> SourceManagementUpdate \<Rightarrow> ('w, unit) prog" where
  "require_eligible x u =
     bindW (sm_management_is_eligible (mx_store x) (su_id u)) (\<lambda>ok.
       if ok then returnW () else raiseW (ValueError ''source management revision is no longer eligible''))"

definition one_position :: "OperatorPosition list \<Rightarrow> (Exn, OperatorPosition) raises" where
  "one_position positions =
     (case positions of
        [p] \<Rightarrow>
          if op_size p \<le> 0 then Inl (ValueError ''management position size is invalid'')
          else if op_side p \<notin> {''LONG'', ''SHORT''} then Inl (ValueError ''management position side is invalid'')
          else if op_entry p \<le> 0 then Inl (ValueError ''management position entry is invalid'')
          else Inr p
      | _ \<Rightarrow> Inl (ValueError ''management target must resolve to exactly one open Bitget position''))"

text \<open>A close claim that can never be posted again is retired on GET-only proof that the venue holds no work.\<close>

definition retire_close_claim :: "'w ManagementExecutor \<Rightarrow> SourceManagementUpdate \<Rightarrow> OperatorPosition list \<Rightarrow> ('w, bool) prog" where
  "retire_close_claim x u positions =
     (if positions \<noteq> [] then returnW False
      else
        bindW (attemptW
          (bindW (mg_get_orders (mx_gateway x) (su_symbol u)) (\<lambda>orders.
           bindW (mg_cancel_pending_entries (mx_gateway x) (su_symbol u) (su_id u) True) (\<lambda>owned_terminal.
             returnW (orders, owned_terminal))))) (\<lambda>r.
          case r of
            Inl _ \<Rightarrow> returnW False
          | Inr (orders, owned_terminal) \<Rightarrow>
              if orders \<noteq> [] \<or> \<not> owned_terminal then returnW False
              else bindW (finish x u ''reconciled'') (\<lambda>_. returnW True)))"

definition retired_or_pending ::
  "'w ManagementExecutor \<Rightarrow> SourceManagementUpdate \<Rightarrow> OperatorPosition list \<Rightarrow> string \<Rightarrow> ('w, string option) prog" where
  "retired_or_pending x u positions reason =
     bindW (retire_close_claim x u positions) (\<lambda>retired.
       if retired then returnW (Some ''reconciled'') else raiseW (pendingE reason))"

text \<open>A lapsed update: what it claimed before is reconciled by reads, the rest is refused.\<close>

definition lapsed_update :: "'w ManagementExecutor \<Rightarrow> SourceManagementUpdate \<Rightarrow> ('w, string option) prog" where
  "lapsed_update x u =
     bindW (sm_has_provider_intent (mx_store x) (su_id u) (close_order_oid x u)) (\<lambda>claimed.
       if claimed then
         bindW (mg_get_positions (mx_gateway x) (su_symbol u)) (\<lambda>positions.
           retired_or_pending x u positions ''stale close claim still requires authenticated execution reconciliation'')
       else
         bindW (sm_has_claimed_cancellation (mx_store x) (su_id u)) (\<lambda>cancelling.
         bindW (if cancelling then mg_cancel_pending_entries (mx_gateway x) (su_symbol u) (su_id u) True else returnW True) (\<lambda>terminal.
           if \<not> terminal then raiseW (pendingE ''stale cancellation claim still requires terminal readback'')
           else raiseW (ValueError ''source management revision is no longer eligible''))))"

definition close_side :: "OperatorPosition \<Rightarrow> string" where
  "close_side p = (if op_side p = ''LONG'' then ''SELL'' else ''BUY'')"

definition post_reduction :: "'w ManagementExecutor \<Rightarrow> SourceManagementUpdate \<Rightarrow> OperatorPosition \<Rightarrow> dec \<Rightarrow> ('w, unit) prog" where
  "post_reduction x u p quantity =
     mg_close_reduce_only (mx_gateway x) (su_symbol u) (close_side p) quantity (close_order_oid x u)"

definition close_all :: "'w ManagementExecutor \<Rightarrow> SourceManagementUpdate \<Rightarrow> OperatorPosition \<Rightarrow> ('w, string option) prog" where
  "close_all x u p =
     bindW (require_eligible x u) (\<lambda>_.
     bindW (sm_persist_provider_intent (mx_store x) (su_id u) (close_order_oid x u)) (\<lambda>won.
       if \<not> won then
         bindW (sm_update_state (mx_store x) (su_id u) ''reconciliation-pending'') (\<lambda>_. returnW (Some ''reconciliation-pending''))
       else
         bindW (post_reduction x u p (op_size p)) (\<lambda>_.
         bindW (mg_get_positions (mx_gateway x) (su_symbol u)) (\<lambda>left.
           if left \<noteq> [] then raiseW (ValueError ''close was not confirmed by provider position readback'') else returnW None))))"

text \<open>The stop of the position to its entry price; a lost claim is reconciled by reads.\<close>

definition stop_to_entry :: "'w ManagementExecutor \<Rightarrow> SourceManagementUpdate \<Rightarrow> OperatorPosition \<Rightarrow> ('w, string option) prog" where
  "stop_to_entry x u p =
     bindW (require_eligible x u) (\<lambda>_.
     bindW (sm_persist_provider_intent (mx_store x) (su_id u) (stop_order_oid x u)) (\<lambda>won.
       if \<not> won then
         bindW (mg_reconcile_stop_loss (mx_gateway x) (stop_order_oid x u)) (\<lambda>_. finish_as x u ''reconciled'' ''reconciled'')
       else
         bindW (mg_replace_stop_loss (mx_gateway x) (su_symbol u) (op_side p) (op_size p) (op_entry p) (stop_order_oid x u)) (\<lambda>_.
           returnW None)))"

definition half_quantity :: "'w ManagementExecutor \<Rightarrow> SourceManagementUpdate \<Rightarrow> OperatorPosition \<Rightarrow> ('w, dec) prog" where
  "half_quantity x u p =
     (case mg_normalize_tp1_close_quantity (mx_gateway x) of
        Some normalizer \<Rightarrow> normalizer (su_symbol u) (op_size p)
      | None \<Rightarrow> returnW (dec_div (op_size p) 2))"

definition book_half :: "'w ManagementExecutor \<Rightarrow> SourceManagementUpdate \<Rightarrow> OperatorPosition \<Rightarrow> ('w, string option) prog" where
  "book_half x u p =
     bindW (sm_has_provider_intent (mx_store x) (su_id u) (close_order_oid x u)) (\<lambda>claimed.
       if claimed then raiseW (pendingE ''existing TP1 close intent requires execution reconciliation'')
       else
         bindW (half_quantity x u p) (\<lambda>quantity.
         bindW (require_eligible x u) (\<lambda>_.
         bindW (sm_persist_provider_intent (mx_store x) (su_id u) (close_order_oid x u)) (\<lambda>won.
           if \<not> won then raiseW (pendingE ''TP1 close claim was lost'')
           else
             bindW (post_reduction x u p quantity) (\<lambda>_.
             bindW (mg_get_positions (mx_gateway x) (su_symbol u)) (\<lambda>left.
             bindW (liftE (one_position left)) (\<lambda>remaining.
               if op_size remaining \<noteq> dec_sub (op_size p) quantity
               then raiseW (pendingE ''TP1 reduction differs from the claimed half close'')
               else stop_to_entry x u remaining)))))))"

text \<open>Nothing is open.\<close>

definition flat_update :: "'w ManagementExecutor \<Rightarrow> SourceManagementUpdate \<Rightarrow> bool \<Rightarrow> ('w, string option) prog" where
  "flat_update x u cancels_entries =
     (if cancels_entries then
        bindW (sm_has_provider_intent (mx_store x) (su_id u) (close_order_oid x u)) (\<lambda>claimed.
          if claimed then retired_or_pending x u [] ''existing close intent requires execution reconciliation''
          else finish_as x u ''cancelled-flat'' ''cancelled-flat'')
      else finish_as x u ''failed'' ''failed'')"

definition open_update :: "'w ManagementExecutor \<Rightarrow> SourceManagementUpdate \<Rightarrow> OperatorPosition list \<Rightarrow> ('w, string option) prog" where
  "open_update x u positions =
     (if su_action u = TP_BOOKED then finish_as x u ''entries-cancelled'' ''entries-cancelled''
      else bindW (liftE (one_position positions)) (\<lambda>p.
        case su_action u of
          MANAGED_CLOSE \<Rightarrow> close_all x u p
        | TP1_BOOKED \<Rightarrow> book_half x u p
        | _ \<Rightarrow> stop_to_entry x u p))"

definition cancels_entries :: "ManagementAction \<Rightarrow> bool" where
  "cancels_entries a \<longleftrightarrow> a \<in> {MANAGED_CLOSE, TP1_BOOKED, TP_BOOKED}"

text \<open>An eligible update: waiting entries first, then a fresh position read.\<close>

definition act_update :: "'w ManagementExecutor \<Rightarrow> SourceManagementUpdate \<Rightarrow> ('w, string option) prog" where
  "act_update x u =
     bindW (if cancels_entries (su_action u) then mg_cancel_pending_entries (mx_gateway x) (su_symbol u) (su_id u) False else returnW True) (\<lambda>terminal.
       if \<not> terminal then raiseW (pendingE ''owned pending entries are not proved terminal'')
       else bindW (mg_get_positions (mx_gateway x) (su_symbol u)) (\<lambda>positions.
         if positions = [] then flat_update x u (cancels_entries (su_action u)) else open_update x u positions))"

definition manage_update :: "'w ManagementExecutor \<Rightarrow> SourceManagementUpdate \<Rightarrow> ('w, string option) prog" where
  "manage_update x u =
     (if \<not> mx_mutations_enabled x then finish_as x u ''failed'' ''mutations-disabled''
      else
        bindW (if su_action u \<in> {TP1_BOOKED, SL_TO_ENTRY} then sm_has_provider_intent (mx_store x) (su_id u) (stop_order_oid x u)
               else returnW False) (\<lambda>claimed.
          if claimed then
            bindW (mg_reconcile_stop_loss (mx_gateway x) (stop_order_oid x u)) (\<lambda>_. finish_as x u ''reconciled'' ''reconciled'')
          else
            bindW (sm_management_is_eligible (mx_store x) (su_id u)) (\<lambda>eligible.
              if eligible then act_update x u else lapsed_update x u)))"

section \<open>One run\<close>

definition is_pending :: "Exn \<Rightarrow> bool" where
  "is_pending e = (case e of SourceManagementReconciliationPending _ \<Rightarrow> True | _ \<Rightarrow> False)"

definition refused_value :: "Exn \<Rightarrow> bool" where
  "refused_value e \<longleftrightarrow> is_value_error e \<or> (case e of KeyError _ \<Rightarrow> True | TypeError _ \<Rightarrow> True | _ \<Rightarrow> False)"

definition message_or_name :: "Exn \<Rightarrow> string" where
  "message_or_name e = (if exn_message e = [] then exn_name e else exn_message e)"

text \<open>A pending reconciliation counts an attempt; a refused value fails the update.\<close>

definition guarded_update :: "'w ManagementExecutor \<Rightarrow> SourceManagementUpdate \<Rightarrow> ('w, string option) prog" where
  "guarded_update x u =
     tryW (manage_update x u) (\<lambda>e. is_pending e \<or> refused_value e) (\<lambda>e.
       if is_pending e
       then bindW (sm_park (mx_store x) (su_id u) (message_or_name e) (mx_retry_seconds x) (mx_max_attempts x)) (\<lambda>state. returnW (Some state))
       else finish_as x u ''failed'' ''failed'')"

definition manage_once :: "'w ManagementExecutor \<Rightarrow> string \<Rightarrow> ('w, string) prog" where
  "manage_once x worker =
     bindW (sm_claim (mx_store x) worker) (\<lambda>claimed.
       case claimed of
         None \<Rightarrow> returnW ''idle''
       | Some u \<Rightarrow>
           bindW (guarded_update x u) (\<lambda>word.
             case word of
               Some w \<Rightarrow> returnW w
             | None \<Rightarrow> bindW (finish x u ''reconciled'') (\<lambda>_. returnW ''reconciled'')))"

section \<open>The in-memory store\<close>

text \<open>The store of the tests beside a gateway's own world.\<close>

definition on_memory :: "(MemManagement \<Rightarrow> (Exn, MemManagement \<times> 'a) raises) \<Rightarrow> (MemManagement \<times> 'v, 'a) prog" where
  "on_memory f w = (case f (fst w) of Inl e \<Rightarrow> (Inl e, w) | Inr (s, a) \<Rightarrow> (Inr a, (s, snd w)))"

definition mem_management_store :: "(MemManagement \<times> 'v) ManagementStore" where
  "mem_management_store =
     \<lparr>sm_claim = (\<lambda>worker. on_memory (mem_claim_update worker)),
      sm_update_state = (\<lambda>uid state. on_memory (\<lambda>s. bindE (mem_update_state uid state s) (\<lambda>s1. Inr (s1, ())))),
      sm_alert_outcome = Some (\<lambda>u state. on_memory (\<lambda>s. Inr (mem_alert_outcome u state s, ()))),
      sm_park = (\<lambda>uid reason retry_seconds max_attempts. on_memory (mem_park uid max_attempts)),
      sm_persist_provider_intent = (\<lambda>uid oid. on_memory (mem_persist_intent uid oid)),
      sm_has_provider_intent = (\<lambda>uid oid. on_memory (\<lambda>s. Inr (s, mem_has_intent uid oid s))),
      sm_management_is_eligible = (\<lambda>uid. on_memory (\<lambda>s. Inr (s, mm_eligible s))),
      sm_has_claimed_cancellation = (\<lambda>uid. on_memory (\<lambda>s. Inr (s, uid \<in> set (mm_cancellations s))))\<rparr>"

end
