(* ===== verification/Management_Order.thy ===== *)
theory Management_Order
  imports Source_Management
begin

text \<open>
  The order of the calls of one run of the source-management executor. The executor runs on a store and a gateway
  that note each call with its answer; noting changes nothing, and a small calculus over the notes shows what
  stands before every order and every settlement.
\<close>

section \<open>What a run does, in order\<close>

text \<open>The calls of a run with their answers. A call that may move the venue is noted whatever becomes of it, a read when it answers.\<close>

datatype ManagementEvent =
    Ev_claim "SourceManagementUpdate option"
  | Ev_settle UUID string
  | Ev_alert UUID string
  | Ev_park UUID string
  | Ev_persist UUID string bool
  | Ev_has UUID string bool
  | Ev_eligible UUID bool
  | Ev_cancelling UUID bool
  | Ev_positions string "OperatorPosition list"
  | Ev_orders string "OperatorOrder list"
  | Ev_cancel string UUID bool bool
  | Ev_half string dec dec
  | Ev_close string string dec string
  | Ev_check_stop string
  | Ev_stop string string dec dec string

type_synonym 'w observed_world = "'w \<times> ManagementEvent list"

definition observe :: "('a \<Rightarrow> ManagementEvent) \<Rightarrow> ('w, 'a) prog \<Rightarrow> ('w observed_world, 'a) prog" where
  "observe f p s = (case p (fst s) of
     (Inl e, w) \<Rightarrow> (Inl e, (w, snd s))
   | (Inr a, w) \<Rightarrow> (Inr a, (w, snd s @ [f a])))"

definition note_call :: "ManagementEvent \<Rightarrow> ('w, 'a) prog \<Rightarrow> ('w observed_world, 'a) prog" where
  "note_call ev p s = (case p (fst s) of (r, w) \<Rightarrow> (r, (w, snd s @ [ev])))"

definition observed_store :: "'w ManagementStore \<Rightarrow> 'w observed_world ManagementStore" where
  "observed_store s =
     \<lparr>sm_claim = (\<lambda>worker. observe Ev_claim (sm_claim s worker)),
      sm_update_state = (\<lambda>i st. observe (\<lambda>_. Ev_settle i st) (sm_update_state s i st)),
      sm_alert_outcome = map_option (\<lambda>alert u st. observe (\<lambda>_. Ev_alert (su_id u) st) (alert u st)) (sm_alert_outcome s),
      sm_park = (\<lambda>i reason retry m. observe (Ev_park i) (sm_park s i reason retry m)),
      sm_persist_provider_intent = (\<lambda>i oid. observe (Ev_persist i oid) (sm_persist_provider_intent s i oid)),
      sm_has_provider_intent = (\<lambda>i oid. observe (Ev_has i oid) (sm_has_provider_intent s i oid)),
      sm_management_is_eligible = (\<lambda>i. observe (Ev_eligible i) (sm_management_is_eligible s i)),
      sm_has_claimed_cancellation = (\<lambda>i. observe (Ev_cancelling i) (sm_has_claimed_cancellation s i))\<rparr>"

definition observed_gateway :: "'w ManagementGateway \<Rightarrow> 'w observed_world ManagementGateway" where
  "observed_gateway g =
     \<lparr>mg_get_positions = (\<lambda>symbol. observe (Ev_positions symbol) (mg_get_positions g symbol)),
      mg_get_orders = (\<lambda>symbol. observe (Ev_orders symbol) (mg_get_orders g symbol)),
      mg_cancel_pending_entries = (\<lambda>symbol i ro. observe (Ev_cancel symbol i ro) (mg_cancel_pending_entries g symbol i ro)),
      mg_close_reduce_only = (\<lambda>symbol side q oid. note_call (Ev_close symbol side q oid) (mg_close_reduce_only g symbol side q oid)),
      mg_normalize_tp1_close_quantity = map_option (\<lambda>f symbol q. observe (Ev_half symbol q) (f symbol q)) (mg_normalize_tp1_close_quantity g),
      mg_reconcile_stop_loss = (\<lambda>oid. observe (\<lambda>_. Ev_check_stop oid) (mg_reconcile_stop_loss g oid)),
      mg_replace_stop_loss = (\<lambda>symbol side q stop oid. note_call (Ev_stop symbol side q stop oid) (mg_replace_stop_loss g symbol side q stop oid))\<rparr>"

definition observed :: "'w ManagementExecutor \<Rightarrow> 'w observed_world ManagementExecutor" where
  "observed x =
     \<lparr>mx_store = observed_store (mx_store x), mx_gateway = observed_gateway (mx_gateway x), mx_mutations_enabled = mx_mutations_enabled x,
      mx_max_attempts = mx_max_attempts x, mx_retry_seconds = mx_retry_seconds x, mx_hex = mx_hex x\<rparr>"

lemmas observed_defs = observed_def observed_store_def observed_gateway_def

lemma observed_oids [simp]: "stop_order_oid (observed x) u = stop_order_oid x u" "close_order_oid (observed x) u = close_order_oid x u"
  by (simp_all add: stop_order_oid_def close_order_oid_def observed_def)

section \<open>Observation changes nothing\<close>

text \<open>The observed program does to the world what the program does.\<close>

definition erases :: "('w observed_world, 'a) prog \<Rightarrow> ('w, 'a) prog \<Rightarrow> bool" where
  "erases q p \<longleftrightarrow> (\<forall>w t r v s. q (w, t) = (r, v, s) \<longrightarrow> p w = (r, v))"

named_theorems erase_rules \<open>observed programs\<close>

lemma erasesD: "erases q p \<Longrightarrow> q (w, t) = (r, v, s) \<Longrightarrow> p w = (r, v)"
  unfolding erases_def by blast

lemma erases_observe [erase_rules]: "erases (observe f p) p" "erases (note_call ev p) p"
  by (auto simp: erases_def observe_def note_call_def split: prod.splits sum.splits)

lemma erases_return [erase_rules]: "erases (returnW a) (returnW a)" "erases (raiseW e) (raiseW e)" "erases (liftE r) (liftE r)"
  by (auto simp: erases_def returnW_def raiseW_def liftE_def)

lemma erases_bind [erase_rules]:
  assumes "erases m m'" "\<And>a. erases (f a) (f' a)"
  shows "erases (bindW m f) (bindW m' f')"
  unfolding erases_def
proof (intro allI impI)
  fix w t r v s assume run: "bindW m f (w, t) = (r, v, s)"
  obtain r0 v0 s0 where m: "m (w, t) = (r0, v0, s0)" by (cases "m (w, t)")
  from erasesD [OF assms(1) m] have "m' w = (r0, v0)" .
  then show "bindW m' f' w = (r, v)" using m run erasesD [OF assms(2)] by (cases r0) (simp_all add: bindW_def)
qed

lemma erases_attempt [erase_rules]:
  assumes "erases m m'"
  shows "erases (attemptW m) (attemptW m')"
  unfolding erases_def
proof (intro allI impI)
  fix w t r v s assume run: "attemptW m (w, t) = (r, v, s)"
  obtain r0 v0 s0 where m: "m (w, t) = (r0, v0, s0)" by (cases "m (w, t)")
  from erasesD [OF assms m] show "attemptW m' w = (r, v)" using m run by (simp add: attemptW_def)
qed

lemma erases_try [erase_rules]:
  assumes "erases m m'" "\<And>e. erases (h e) (h' e)"
  shows "erases (tryW m caught h) (tryW m' caught h')"
  unfolding erases_def
proof (intro allI impI)
  fix w t r v s assume run: "tryW m caught h (w, t) = (r, v, s)"
  obtain r0 v0 s0 where m: "m (w, t) = (r0, v0, s0)" by (cases "m (w, t)")
  from erasesD [OF assms(1) m] have "m' w = (r0, v0)" .
  then show "tryW m' caught h' w = (r, v)" using m run erasesD [OF assms(2)] by (cases r0) (auto simp: tryW_def split: if_splits)
qed

lemma erases_if [erase_rules]: "erases p p' \<Longrightarrow> erases q q' \<Longrightarrow> erases (if b then p else q) (if b then p' else q')"
  by simp

lemma erases_finish [erase_rules]: "erases (finish (observed x) u st) (finish x u st)" "erases (finish_as (observed x) u st word) (finish_as x u st word)"
proof -
  show *: "erases (finish (observed x) u st) (finish x u st)"
    unfolding finish_def observed_defs by (cases "sm_alert_outcome (mx_store x)") (auto intro!: erase_rules)
  show "erases (finish_as (observed x) u st word) (finish_as x u st word)"
    unfolding finish_as_def by (auto intro!: erase_rules *)
qed

lemma observed_ops [simp]:
  "sm_claim (mx_store (observed x)) worker = observe Ev_claim (sm_claim (mx_store x) worker)"
  "sm_update_state (mx_store (observed x)) i st = observe (\<lambda>_. Ev_settle i st) (sm_update_state (mx_store x) i st)"
  "sm_park (mx_store (observed x)) i reason retry m = observe (Ev_park i) (sm_park (mx_store x) i reason retry m)"
  "sm_persist_provider_intent (mx_store (observed x)) i oid = observe (Ev_persist i oid) (sm_persist_provider_intent (mx_store x) i oid)"
  "sm_has_provider_intent (mx_store (observed x)) i oid = observe (Ev_has i oid) (sm_has_provider_intent (mx_store x) i oid)"
  "sm_management_is_eligible (mx_store (observed x)) i = observe (Ev_eligible i) (sm_management_is_eligible (mx_store x) i)"
  "sm_has_claimed_cancellation (mx_store (observed x)) i = observe (Ev_cancelling i) (sm_has_claimed_cancellation (mx_store x) i)"
  "mg_get_positions (mx_gateway (observed x)) symbol = observe (Ev_positions symbol) (mg_get_positions (mx_gateway x) symbol)"
  "mg_get_orders (mx_gateway (observed x)) symbol = observe (Ev_orders symbol) (mg_get_orders (mx_gateway x) symbol)"
  "mg_cancel_pending_entries (mx_gateway (observed x)) symbol i ro = observe (Ev_cancel symbol i ro) (mg_cancel_pending_entries (mx_gateway x) symbol i ro)"
  "mg_close_reduce_only (mx_gateway (observed x)) symbol side q oid = note_call (Ev_close symbol side q oid) (mg_close_reduce_only (mx_gateway x) symbol side q oid)"
  "mg_reconcile_stop_loss (mx_gateway (observed x)) oid = observe (\<lambda>_. Ev_check_stop oid) (mg_reconcile_stop_loss (mx_gateway x) oid)"
  "mg_replace_stop_loss (mx_gateway (observed x)) symbol side q stop oid = note_call (Ev_stop symbol side q stop oid) (mg_replace_stop_loss (mx_gateway x) symbol side q stop oid)"
  "mg_normalize_tp1_close_quantity (mx_gateway (observed x))
     = map_option (\<lambda>f symbol q. observe (Ev_half symbol q) (f symbol q)) (mg_normalize_tp1_close_quantity (mx_gateway x))"
  "mx_mutations_enabled (observed x) = mx_mutations_enabled x" "mx_max_attempts (observed x) = mx_max_attempts x"
  "mx_retry_seconds (observed x) = mx_retry_seconds x"
  by (simp_all add: observed_defs)

lemma erases_steps [erase_rules]:
  "erases (require_eligible (observed x) u) (require_eligible x u)"
  "erases (retired_or_pending (observed x) u ps reason) (retired_or_pending x u ps reason)"
  "erases (post_reduction (observed x) u p q) (post_reduction x u p q)"
  "erases (half_quantity (observed x) u p) (half_quantity x u p)"
proof -
  show "erases (require_eligible (observed x) u) (require_eligible x u)"
    unfolding require_eligible_def by (auto intro!: erase_rules)
  have "erases (retire_close_claim (observed x) u ps) (retire_close_claim x u ps)"
    unfolding retire_close_claim_def by (auto intro!: erase_rules split: sum.split prod.split)
  then show "erases (retired_or_pending (observed x) u ps reason) (retired_or_pending x u ps reason)"
    unfolding retired_or_pending_def by (auto intro!: erase_rules)
  show "erases (post_reduction (observed x) u p q) (post_reduction x u p q)"
    unfolding post_reduction_def by (auto intro!: erase_rules)
  show "erases (half_quantity (observed x) u p) (half_quantity x u p)"
    unfolding half_quantity_def by (cases "mg_normalize_tp1_close_quantity (mx_gateway x)") (auto intro!: erase_rules)
qed

lemma erases_actions [erase_rules]:
  "erases (stop_to_entry (observed x) u p) (stop_to_entry x u p)"
  "erases (close_all (observed x) u p) (close_all x u p)"
  "erases (lapsed_update (observed x) u) (lapsed_update x u)"
  "erases (flat_update (observed x) u b) (flat_update x u b)"
  unfolding stop_to_entry_def close_all_def lapsed_update_def flat_update_def by (auto intro!: erase_rules)

lemma erases_act [erase_rules]: "erases (act_update (observed x) u) (act_update x u)"
proof -
  have half: "erases (book_half (observed x) u p) (book_half x u p)" for p
    unfolding book_half_def by (auto intro!: erase_rules)
  have "erases (open_update (observed x) u ps) (open_update x u ps)" for ps
    unfolding open_update_def by (auto intro!: erase_rules half split: ManagementAction.split)
  then show ?thesis unfolding act_update_def by (auto intro!: erase_rules)
qed

text \<open>
  Observing a run does not change it: with its calls noted, a run answers the same and leaves the same world.
\<close>

theorem observation_changes_nothing:
  "manage_once (observed x) worker (w, t) = (r, v, t') \<Longrightarrow> manage_once x worker w = (r, v)"
proof -
  have "erases (guarded_update (observed x) u) (guarded_update x u)" for u
    unfolding guarded_update_def manage_update_def by (auto intro!: erase_rules)
  then have "erases (manage_once (observed x) worker) (manage_once x worker)"
    unfolding manage_once_def by (auto intro!: erase_rules split: option.split)
  then show "manage_once (observed x) worker (w, t) = (r, v, t') \<Longrightarrow> manage_once x worker w = (r, v)" by (rule erasesD)
qed

section \<open>A calculus of notes\<close>

text \<open>From the notes \<open>T\<close>, the program ends with an outcome and notes that satisfy \<open>R\<close>.\<close>

definition traced :: "ManagementEvent list \<Rightarrow> ('w observed_world, 'a) prog \<Rightarrow> (Exn + 'a \<Rightarrow> ManagementEvent list \<Rightarrow> bool) \<Rightarrow> bool" where
  "traced T p R \<longleftrightarrow> (\<forall>w r v t. p (w, T) = (r, v, t) \<longrightarrow> R r t)"

lemma tracedD: "traced T p R \<Longrightarrow> p (w, T) = (r, v, t) \<Longrightarrow> R r t"
  unfolding traced_def by blast

named_theorems trace_rules \<open>what the notes of a program say\<close>

lemma traced_leaf [simp]:
  "traced T (returnW a) R \<longleftrightarrow> R (Inr a) T" "traced T (raiseW e) R \<longleftrightarrow> R (Inl e) T"
  by (simp_all add: traced_def returnW_def raiseW_def)

lemma traced_lift [trace_rules]:
  assumes "\<And>a. r = Inr a \<Longrightarrow> R (Inr a) T" "\<And>e. r = Inl e \<Longrightarrow> R (Inl e) T"
  shows "traced T (liftE r) R"
  using assms by (cases r) (auto simp: traced_def liftE_def)

lemma traced_observe [trace_rules]:
  assumes "\<And>a. R (Inr a) (T @ [f a])" "\<And>e. R (Inl e) T"
  shows "traced T (observe f p) R"
  unfolding traced_def observe_def using assms by (auto split: prod.splits sum.splits)

lemma traced_note [trace_rules]:
  assumes "\<And>a. R (Inr a) (T @ [ev])" "\<And>e. R (Inl e) (T @ [ev])"
  shows "traced T (note_call ev p) R"
  unfolding traced_def note_call_def
proof (intro allI impI)
  fix w r v t assume "(case p (fst (w, T)) of (r, w') \<Rightarrow> (r, w', snd (w, T) @ [ev])) = (r, v, t)"
  then show "R r t" using assms by (cases r) (auto split: prod.splits)
qed

lemma traced_bind [trace_rules]:
  assumes "traced T m (\<lambda>r t. case r of Inl e \<Rightarrow> R (Inl e) t | Inr a \<Rightarrow> traced t (k a) R)"
  shows "traced T (bindW m k) R"
  unfolding traced_def
proof (intro allI impI)
  fix w r v t assume run: "bindW m k (w, T) = (r, v, t)"
  obtain r0 v0 t0 where m: "m (w, T) = (r0, v0, t0)" by (cases "m (w, T)")
  from tracedD [OF assms m] m run show "R r t" by (cases r0) (auto simp: bindW_def dest: tracedD)
qed

lemma traced_try [trace_rules]:
  assumes "traced T m (\<lambda>r t. case r of Inl e \<Rightarrow> (if caught e then traced t (h e) R else R (Inl e) t) | Inr a \<Rightarrow> R (Inr a) t)"
  shows "traced T (tryW m caught h) R"
  unfolding traced_def
proof (intro allI impI)
  fix w r v t assume run: "tryW m caught h (w, T) = (r, v, t)"
  obtain r0 v0 t0 where m: "m (w, T) = (r0, v0, t0)" by (cases "m (w, T)")
  from tracedD [OF assms m] m run show "R r t" by (cases r0) (auto simp: tryW_def dest: tracedD split: if_splits)
qed

lemma traced_attempt [trace_rules]:
  assumes "traced T m (\<lambda>r t. R (Inr r) t)"
  shows "traced T (attemptW m) R"
  using assms by (auto simp: traced_def attemptW_def split: prod.splits)

lemma traced_if [trace_rules]: "(b \<Longrightarrow> traced T p R) \<Longrightarrow> (\<not> b \<Longrightarrow> traced T q R) \<Longrightarrow> traced T (if b then p else q) R"
  by simp

section \<open>What stands before an order\<close>

text \<open>The last calls.\<close>

primrec ends :: "'a list \<Rightarrow> 'a list \<Rightarrow> bool" where
  "ends evs [] \<longleftrightarrow> evs = []"
| "ends evs (y # ys) \<longleftrightarrow> evs = y # ys \<or> ends evs ys"

lemma ends_iff: "ends evs ys \<longleftrightarrow> (\<exists>zs. ys = zs @ evs)"
  by (induction ys) (auto simp: Cons_eq_append_conv)

text \<open>The calls that lead to a reduction of the position \<open>p\<close> by \<open>q\<close>: waiting entries terminal, a fresh position, eligibility, the intent won.\<close>

definition reduction_calls :: "'w ManagementExecutor \<Rightarrow> SourceManagementUpdate \<Rightarrow> OperatorPosition \<Rightarrow> dec \<Rightarrow> ManagementEvent list" where
  "reduction_calls x u p q =
     [Ev_cancel (su_symbol u) (su_id u) False True, Ev_positions (su_symbol u) [p]]
     @ (if su_action u = TP1_BOOKED
        then Ev_has (su_id u) (close_order_oid x u) False
             # (if mg_normalize_tp1_close_quantity (mx_gateway x) = None then [] else [Ev_half (su_symbol u) (op_size p) q])
        else [])
     @ [Ev_eligible (su_id u) True, Ev_persist (su_id u) (close_order_oid x u) True]"

definition reduction_order :: "'w ManagementExecutor \<Rightarrow> SourceManagementUpdate \<Rightarrow> ManagementEvent list \<Rightarrow> OperatorPosition \<Rightarrow> dec \<Rightarrow> bool" where
  "reduction_order x u pre p q \<longleftrightarrow>
     0 < op_size p \<and> op_side p \<in> {''LONG'', ''SHORT''} \<and> su_action u \<in> {MANAGED_CLOSE, TP1_BOOKED} \<and>
     ends (reduction_calls x u p q) pre \<and>
     (su_action u = MANAGED_CLOSE \<longrightarrow> q = op_size p) \<and>
     (su_action u = TP1_BOOKED \<longrightarrow> mg_normalize_tp1_close_quantity (mx_gateway x) = None \<longrightarrow> q = dec_div (op_size p) 2)"

text \<open>A stop moves to the entry of the position just read; after a half close that position is what the half close left.\<close>

definition stop_order :: "'w ManagementExecutor \<Rightarrow> SourceManagementUpdate \<Rightarrow> ManagementEvent list \<Rightarrow> OperatorPosition \<Rightarrow> bool" where
  "stop_order x u pre p \<longleftrightarrow>
     0 < op_size p \<and> 0 < op_entry p \<and> op_side p \<in> {''LONG'', ''SHORT''} \<and> su_action u \<in> {TP1_BOOKED, SL_TO_ENTRY} \<and>
     ends [Ev_positions (su_symbol u) [p], Ev_eligible (su_id u) True, Ev_persist (su_id u) (stop_order_oid x u) True] pre \<and>
     (su_action u = TP1_BOOKED \<longrightarrow> (\<exists>p0 q. op_size p = dec_sub (op_size p0) q \<and>
        ends (reduction_calls x u p0 q @
          [Ev_close (su_symbol u) (close_side p0) q (close_order_oid x u), Ev_positions (su_symbol u) [p],
          Ev_eligible (su_id u) True, Ev_persist (su_id u) (stop_order_oid x u) True]) pre))"

text \<open>A flat symbol with no waiting order and no waiting entry of its own.\<close>

definition retirement :: "'w ManagementExecutor \<Rightarrow> SourceManagementUpdate \<Rightarrow> ManagementEvent list \<Rightarrow> bool" where
  "retirement x u pre \<longleftrightarrow>
     ends [Ev_positions (su_symbol u) [], Ev_orders (su_symbol u) [], Ev_cancel (su_symbol u) (su_id u) True True] pre \<or>
     ends [Ev_positions (su_symbol u) [], Ev_has (su_id u) (close_order_oid x u) True, Ev_orders (su_symbol u) [],
       Ev_cancel (su_symbol u) (su_id u) True True] pre"

text \<open>What a call of the run of update \<open>u\<close> presupposes of the calls before it.\<close>

fun justified :: "'w ManagementExecutor \<Rightarrow> SourceManagementUpdate \<Rightarrow> ManagementEvent list \<Rightarrow> ManagementEvent \<Rightarrow> bool" where
  "justified x u pre (Ev_close symbol side q oid) \<longleftrightarrow>
     symbol = su_symbol u \<and> oid = close_order_oid x u \<and> (\<forall>s d r. Ev_close s d r oid \<notin> set pre) \<and>
     (\<exists>p. side = close_side p \<and> reduction_order x u pre p q)"
| "justified x u pre (Ev_stop symbol side q stop oid) \<longleftrightarrow>
     symbol = su_symbol u \<and> oid = stop_order_oid x u \<and> (\<forall>s d r l. Ev_stop s d r l oid \<notin> set pre) \<and>
     (\<exists>p. side = op_side p \<and> q = op_size p \<and> stop = op_entry p \<and> stop_order x u pre p)"
| "justified x u pre (Ev_claim v) \<longleftrightarrow> pre = [] \<and> v = Some u"
| "justified x u pre (Ev_settle i state) \<longleftrightarrow>
     i = su_id u \<and>
     (state = ''reconciled'' \<longrightarrow> retirement x u pre \<or>
        (case su_action u of
           MANAGED_CLOSE \<Rightarrow> ends [Ev_positions (su_symbol u) []] pre
         | TP_BOOKED \<Rightarrow> False
         | _ \<Rightarrow> ends [Ev_check_stop (stop_order_oid x u)] pre
              \<or> (\<exists>side q level. ends [Ev_stop (su_symbol u) side q level (stop_order_oid x u)] pre)))"
| "justified x u pre ev \<longleftrightarrow> True"

primrec orderly :: "'w ManagementExecutor \<Rightarrow> SourceManagementUpdate \<Rightarrow> ManagementEvent list \<Rightarrow> ManagementEvent list \<Rightarrow> bool" where
  "orderly x u pre [] \<longleftrightarrow> True"
| "orderly x u pre (ev # evs) \<longleftrightarrow> justified x u pre ev \<and> orderly x u (pre @ [ev]) evs"

lemma orderly_append: "orderly x u pre (evs @ evs') \<longleftrightarrow> orderly x u pre evs \<and> orderly x u (pre @ evs) evs'"
  by (induction evs arbitrary: pre) auto

lemma orderly_at: "orderly x u [] (pre @ ev # post) \<Longrightarrow> justified x u pre ev"
  by (simp add: orderly_append)

section \<open>The steps of a run\<close>

lemma one_position_ok: "one_position ps = Inr p \<longleftrightarrow> ps = [p] \<and> 0 < op_size p \<and> op_side p \<in> {''LONG'', ''SHORT''} \<and> 0 < op_entry p"
  by (auto simp: one_position_def not_le split: list.splits if_splits)

lemmas trace_eval = retirement_def reduction_calls_def reduction_order_def stop_order_def

lemma traced_finish [trace_rules]:
  assumes "R (Inr ()) (T @ [Ev_settle (su_id u) st])" "R (Inr ()) (T @ [Ev_settle (su_id u) st, Ev_alert (su_id u) st])"
    "\<And>e. R (Inl e) (T @ [Ev_settle (su_id u) st])" "\<And>e. R (Inl e) T"
  shows "traced T (finish (observed x) u st) R"
  unfolding finish_def observed_defs using assms by (cases "sm_alert_outcome (mx_store x)") (auto intro!: trace_rules)

text \<open>The run of update \<open>u\<close> is in order, and a silent end may be settled as reconciled.\<close>

abbreviation run_ok :: "'w ManagementExecutor \<Rightarrow> SourceManagementUpdate \<Rightarrow> Exn + string option \<Rightarrow> ManagementEvent list \<Rightarrow> bool" where
  "run_ok x u r t \<equiv> orderly x u [] t \<and> t \<noteq> [] \<and> hd t = Ev_claim (Some u) \<and>
     (case r of Inl e \<Rightarrow> True | Inr word \<Rightarrow> word = None \<longrightarrow> justified x u t (Ev_settle (su_id u) ''reconciled''))"

lemma traced_close_all:
  assumes "one_position [p] = Inr p" "su_action u = MANAGED_CLOSE" "T = [Ev_claim (Some u), Ev_eligible (su_id u) True, Ev_cancel (su_symbol u) (su_id u) False True, Ev_positions (su_symbol u) [p]]"
  shows "traced T (close_all (observed x) u p) (run_ok x u)"
  using assms unfolding close_all_def require_eligible_def post_reduction_def
  by (auto intro!: trace_rules simp: trace_eval one_position_ok)

lemma traced_book_half:
  assumes "one_position [p] = Inr p" "su_action u = TP1_BOOKED"
    "T = [Ev_claim (Some u), Ev_has (su_id u) (stop_order_oid x u) False, Ev_eligible (su_id u) True, Ev_cancel (su_symbol u) (su_id u) False True, Ev_positions (su_symbol u) [p]]"
  shows "traced T (book_half (observed x) u p) (run_ok x u)"
  using assms unfolding book_half_def stop_to_entry_def require_eligible_def post_reduction_def half_quantity_def finish_as_def
  by (cases "mg_normalize_tp1_close_quantity (mx_gateway x)") (auto intro!: trace_rules simp: trace_eval one_position_ok)

lemma traced_stop_to_entry:
  assumes "one_position [p] = Inr p" "su_action u = SL_TO_ENTRY"
    "T = [Ev_claim (Some u), Ev_has (su_id u) (stop_order_oid x u) False, Ev_eligible (su_id u) True, Ev_positions (su_symbol u) [p]]"
  shows "traced T (stop_to_entry (observed x) u p) (run_ok x u)"
  using assms unfolding stop_to_entry_def require_eligible_def finish_as_def
  by (auto intro!: trace_rules simp: trace_eval one_position_ok)

text \<open>The calls before the eligibility check.\<close>

definition checked_before :: "'w ManagementExecutor \<Rightarrow> SourceManagementUpdate \<Rightarrow> ManagementEvent list" where
  "checked_before x u = Ev_claim (Some u) # (if su_action u \<in> {TP1_BOOKED, SL_TO_ENTRY} then [Ev_has (su_id u) (stop_order_oid x u) False] else [])"

lemma traced_retired:
  assumes "orderly x u [] T" "T \<noteq> [] \<and> hd T = Ev_claim (Some u)" "ps = [] \<Longrightarrow> ends [Ev_positions (su_symbol u) []] T \<or> ends [Ev_positions (su_symbol u) [], Ev_has (su_id u) (close_order_oid x u) True] T"
  shows "traced T (retired_or_pending (observed x) u ps reason) (run_ok x u)"
  using assms unfolding retired_or_pending_def retire_close_claim_def
  by (auto intro!: trace_rules simp: trace_eval orderly_append ends_iff hd_append split: if_splits)

lemma traced_act:
  shows "traced (checked_before x u @ [Ev_eligible (su_id u) True]) (act_update (observed x) u) (run_ok x u)"
  unfolding act_update_def flat_update_def open_update_def retired_or_pending_def retire_close_claim_def finish_as_def
  by (cases "su_action u") (auto intro!: trace_rules traced_close_all traced_book_half traced_stop_to_entry
    simp: trace_eval one_position_ok cancels_entries_def checked_before_def)

lemma traced_lapsed:
  "traced (checked_before x u @ [Ev_eligible (su_id u) False]) (lapsed_update (observed x) u) (run_ok x u)"
  unfolding lapsed_update_def retired_or_pending_def retire_close_claim_def finish_as_def
  by (cases "su_action u") (auto intro!: trace_rules simp: trace_eval checked_before_def)

lemma traced_manage: "traced [Ev_claim (Some u)] (manage_update (observed x) u) (run_ok x u)"
proof -
  have "su_action u \<in> {TP1_BOOKED, SL_TO_ENTRY} \<or> su_action u \<in> {MANAGED_CLOSE, TP_BOOKED}" by (cases "su_action u") auto
  then show ?thesis
    unfolding manage_update_def finish_as_def
    using traced_act [of x u] traced_lapsed [of x u] by (auto intro!: trace_rules simp: trace_eval checked_before_def)
qed

lemma traced_mono: "traced T p R \<Longrightarrow> (\<And>r t. R r t \<Longrightarrow> R' r t) \<Longrightarrow> traced T p R'"
  unfolding traced_def by blast

lemma traced_guarded: "traced [Ev_claim (Some u)] (guarded_update (observed x) u) (run_ok x u)"
  unfolding guarded_update_def finish_as_def
  by (rule traced_try, rule traced_mono [OF traced_manage])
    (auto intro!: trace_rules simp: orderly_append split: sum.splits)

text \<open>The notes of a run: nothing claimed, or one update handled in order.\<close>

definition run_record :: "'w ManagementExecutor \<Rightarrow> ManagementEvent list \<Rightarrow> bool" where
  "run_record x evs \<longleftrightarrow> evs = [] \<or> evs = [Ev_claim None] \<or> (\<exists>u. orderly x u [] evs \<and> evs \<noteq> [] \<and> hd evs = Ev_claim (Some u))"

lemma traced_run: "traced [] (manage_once (observed x) worker) (\<lambda>r. run_record x)"
proof -
  have claimed: "traced [Ev_claim (Some u)]
      (bindW (guarded_update (observed x) u) (\<lambda>word. case word of Some w \<Rightarrow> returnW w
         | None \<Rightarrow> bindW (finish (observed x) u ''reconciled'') (\<lambda>_. returnW ''reconciled''))) (\<lambda>r t. orderly x u [] t \<and> t \<noteq> [] \<and> hd t = Ev_claim (Some u))" for u
    by (rule traced_bind, rule traced_mono [OF traced_guarded])
      (auto intro!: trace_rules simp: orderly_append split: sum.splits option.splits)
  show ?thesis unfolding manage_once_def
    by (auto intro!: trace_rules traced_mono [OF claimed] simp: run_record_def split: option.split)
qed


lemma run_justified:
  assumes run: "manage_once (observed x) worker (w, []) = (r, w', pre @ ev # post)" and ev: "\<And>v. ev \<noteq> Ev_claim v"
  shows "\<exists>u. hd pre = Ev_claim (Some u) \<and> justified x u pre ev"
proof -
  from tracedD [OF traced_run run] have "run_record x (pre @ ev # post)" .
  then obtain u where u: "orderly x u [] (pre @ ev # post)" "hd (pre @ ev # post) = Ev_claim (Some u)"
    using ev by (auto simp: run_record_def append_eq_Cons_conv)
  then have "pre \<noteq> []" using ev by (cases pre) auto
  then show ?thesis using u orderly_at [OF u(1)] by auto
qed

section \<open>The orders of a run\<close>

text \<open>
  C27: A run posts a reduction only for the update it claimed, under the identifier of that update, against the side and
  with the size of the single position it read after its waiting entries were shown terminal (half of it, or what the
  gateway made of it, for a booked take profit), after a last eligibility check and the won intent; and only once.
\<close>

theorem reductions_justified:
  assumes "manage_once (observed x) worker (w, []) = (r, w', pre @ Ev_close symbol side q oid # post)"
  shows "\<exists>u p. hd pre = Ev_claim (Some u) \<and> symbol = su_symbol u \<and> oid = close_order_oid x u \<and> side = close_side p
    \<and> reduction_order x u pre p q \<and> (\<forall>s d n. Ev_close s d n oid \<notin> set pre)"
  using run_justified [OF assms] by auto

text \<open>
  C28: A run moves a stop only to the entry price, and with the side and size, of the single position it read just before a last
  eligibility check and the won intent; after a booked take profit that position is what the half close of the
  same run left; and only once.
\<close>

theorem stops_justified:
  assumes "manage_once (observed x) worker (w, []) = (r, w', pre @ Ev_stop symbol side q level oid # post)"
  shows "\<exists>u p. hd pre = Ev_claim (Some u) \<and> symbol = su_symbol u \<and> oid = stop_order_oid x u \<and> side = op_side p
    \<and> q = op_size p \<and> level = op_entry p \<and> stop_order x u pre p \<and> (\<forall>s d n l. Ev_stop s d n l oid \<notin> set pre)"
  using run_justified [OF assms] by auto


section \<open>A run on the in-memory store\<close>

definition sample_update :: "ManagementAction \<Rightarrow> SourceManagementUpdate" where
  "sample_update a = \<lparr>su_id = 7, su_source_message_id = 1, su_revision = ''r'', su_symbol = ''BTCUSDT'', su_action = a, su_state = ''queued'', su_attempts = 0\<rparr>"

definition sample_position :: OperatorPosition where
  "sample_position = \<lparr>op_symbol = ''BTCUSDT'', op_side = ''LONG'', op_size = 4, op_entry = 100, op_stop_loss = None, op_take_profit = None,
     op_stop_loss_id = JNull, op_take_profit_id = JNull\<rparr>"

text \<open>A venue that is its open positions; a reduction takes the quantity off the first.\<close>

definition sample_gateway :: "(MemManagement \<times> OperatorPosition list) ManagementGateway" where
  "sample_gateway =
     \<lparr>mg_get_positions = (\<lambda>symbol w. (Inr (snd w), w)),
      mg_get_orders = (\<lambda>symbol. returnW []),
      mg_cancel_pending_entries = (\<lambda>symbol i ro. returnW True),
      mg_close_reduce_only = (\<lambda>symbol side q oid (s, ps).
        (Inr (), (s, filter (\<lambda>p. 0 < op_size p) (map (\<lambda>p. p\<lparr>op_size := op_size p - q\<rparr>) ps)))),
      mg_normalize_tp1_close_quantity = None,
      mg_reconcile_stop_loss = (\<lambda>oid. returnW ()),
      mg_replace_stop_loss = (\<lambda>symbol side q level oid. returnW ())\<rparr>"

definition sample_executor :: "(MemManagement \<times> OperatorPosition list) ManagementExecutor" where
  "sample_executor = make_executor mem_management_store sample_gateway True 5 60 (\<lambda>i. ''7'')"

definition sample_memory :: "ManagementAction \<Rightarrow> MemManagement" where
  "sample_memory a = \<lparr>mm_updates = [sample_update a], mm_intents = [], mm_eligible = True, mm_cancellations = [], mm_outcomes = []\<rparr>"

text \<open>A booked take profit: half is closed, the stop moves to the entry of the rest.\<close>

definition sample_run :: "(Exn + string) \<times> (MemManagement \<times> OperatorPosition list) observed_world" where
  "sample_run = manage_once (observed sample_executor) ''w'' ((sample_memory TP1_BOOKED, [sample_position]), [])"

definition sample_pre :: "nat \<Rightarrow> ManagementEvent list" where
  "sample_pre n = take n (snd (snd sample_run))"

definition sample_post :: "nat \<Rightarrow> ManagementEvent list" where
  "sample_post n = drop (Suc n) (snd (snd sample_run))"

lemma sample_split:
  "snd (snd sample_run) = sample_pre 8 @ Ev_close ''BTCUSDT'' ''SELL'' 2 ''source-management-7-close'' # sample_post 8"
  "snd (snd sample_run) = sample_pre 12 @ Ev_stop ''BTCUSDT'' ''LONG'' 2 100 ''source-management-7-sl'' # sample_post 12"
  "snd (snd sample_run) = sample_pre 13 @ Ev_settle 7 ''reconciled'' # sample_post 13"
  by code_simp+

lemma sample_run_events:
  "snd (snd sample_run) = evs \<Longrightarrow> manage_once (observed sample_executor) ''w'' ((sample_memory TP1_BOOKED, [sample_position]), [])
     = (fst sample_run, fst (snd sample_run), evs)"
  by (simp add: sample_run_def [symmetric] prod_eq_iff)

lemma reductions_justified_witness:
  "\<exists>u p. hd (sample_pre 8) = Ev_claim (Some u) \<and> ''BTCUSDT'' = su_symbol u \<and> ''source-management-7-close'' = close_order_oid sample_executor u
    \<and> ''SELL'' = close_side p \<and> reduction_order sample_executor u (sample_pre 8) p 2
    \<and> (\<forall>s d n. Ev_close s d n ''source-management-7-close'' \<notin> set (sample_pre 8))"
  by (rule reductions_justified [OF sample_run_events [OF sample_split(1)]])

lemma stops_justified_witness:
  "\<exists>u p. hd (sample_pre 12) = Ev_claim (Some u) \<and> ''BTCUSDT'' = su_symbol u \<and> ''source-management-7-sl'' = stop_order_oid sample_executor u
    \<and> ''LONG'' = op_side p \<and> 2 = op_size p \<and> 100 = op_entry p \<and> stop_order sample_executor u (sample_pre 12) p
    \<and> (\<forall>s d n l. Ev_stop s d n l ''source-management-7-sl'' \<notin> set (sample_pre 12))"
  by (rule stops_justified [OF sample_run_events [OF sample_split(2)]])


end
