(* ===== verification/Spec2Isabelle.thy ===== *)
theory Spec2Isabelle
  imports Live_Policy Reservations Entry_Routing Live_Entry Memory_Intents Capability_Store Watchdog Latch_Healer
    Dispatcher Fallback_Protection Verified_Closes Recovery_Wiring Management_Order
begin

text \<open>
  \<^bold>\<open>The program.\<close> The repository trades the signals of Telegram channels on Bitget futures. Messages are
  stored and analysed into canonical signals; each signal becomes a dispatch in a durable queue. A
  dispatcher worker claims a dispatch, checks the kill switches and the gates, sizes the entry under the
  LIVE risk policy, commits margin in a reservation ledger, routes the entry (market, limit, or a 25/75
  split) and hands it to an execution adapter, which claims an intent durably before every order, submits it once,
  reads it back and protects the filled position by venue plans; where a symbol refuses them, a local monitor
  watches the mark price and closes the position itself. After a restart the adapter recovers entries by reads alone.
  A watchdog latches a kill switch when the protection stream is
  down and a healer releases it after sustained health. Closes are bound to the admission that owns the
  position, and the margin is given back only on verified evidence. All state that matters is in
  PostgreSQL; the workers are processes that run concurrently on it.

  \<^bold>\<open>Shared vocabulary.\<close>
  \<^item> \<open>Trader_Prelude\<close>: results that may raise, stateful programs over a world whose changes stand when
    they raise, partial-correctness triples with an exceptional postcondition, Python strings, tables as
    lists of rows.
  \<^item> \<open>Dec28\<close>: Python's \<open>Decimal\<close> in its default context: rationals rounded half-even to 28 significant
    digits by every operation, \<open>quantize\<close> and integer conversions. Decimals are compared by value.
  \<^item> \<open>Raw_Json\<close>: JSON payloads, \<open>Decimal(text)\<close> and \<open>json.loads\<close>, whose fuel \<open>2 * length + 2\<close> covers the
    two calls the parser makes at most per character.
  \<^item> \<open>Trade_Store\<close>: the PostgreSQL tables as one record \<open>Db\<close>, with the constraints the statements rely on.
    A repository method is one function from the database to an error or the database after its commit
    (\<open>'a transaction\<close>); an error rolls back. Clock readings, fresh identifiers and the rows other
    transactions hold locked are arguments.
  \<^item> \<open>Workers\<close>: one worker among others over one database and one venue. Before each of its effects the others may
    do anything that keeps the log of claims and posts in order; a rely-guarantee argument then shows that a
    program posts each client order id at most once and only after its durable claim (\<open>safely\<close>), or
    claims and posts nothing at all (\<open>quietly\<close>).

  \<^bold>\<open>Components\<close>, in the order the program uses them (sources under \<open>src/src/fatty_trader\<close>):
  \<^item> \<open>Domain_Model\<close>: \<open>domain/enums.py\<close>, \<open>models.py\<close>, \<open>state_machines.py\<close>. What a resubmission and a position
    state presuppose along every run of the transition table, and that every state can terminate.
  \<^item> \<open>Liquidation\<close>, \<open>Sizing\<close>, \<open>Live_Policy\<close>: \<open>risk/liquidation.py\<close>, \<open>sizing.py\<close>, \<open>live_policy.py\<close>. Bounds of the
    roundings, the liquidation estimate and its guard, the paper plan, the
    metadata cache as a map, and the LIVE decision: every rail at once, the highest workable
    leverage, the all-in fallback as a last resort, no exception on valid inputs, legal split legs.
  \<^item> \<open>Fill_Evidence\<close>, \<open>Live_Intents\<close>, \<open>Memory_Intents\<close>: the order evidence and the intent stores of
    \<open>exchanges/bitget/live.py\<close> and \<open>storage/live_intents.py\<close>. Fill normalisation and classification,
    claims won once (by the locale \<open>intent_claims\<close>, interpreted by the table and by the
    in-memory store), the fill ledger, provider order ids and cancelled children along every run of the
    store, and the owned residual.
  \<^item> \<open>Freshness\<close>, \<open>Reservations\<close>: \<open>intake/freshness.py\<close> and \<open>storage/balance_reservations.py\<close>. Admission within
    every limit, exposure never lost, release on verified evidence.
  \<^item> \<open>Entry_Routing\<close>, \<open>Protection\<close>, \<open>Live_Entry\<close>: \<open>execution/entry_routing.py\<close>, \<open>protection.py\<close> and the entry
    workflow of \<open>live.py\<close> over a venue client that is a record of functions. Routing conserves quantity and
    splits only after a move; one entry order per intent, protected or closed.
  \<^item> \<open>Capability\<close>, \<open>Capability_Store\<close>: \<open>exchanges/bitget/protection_capability.py\<close> and
    \<open>storage/protection_capabilities.py\<close>. Both repositories answer alike.
  \<^item> \<open>Kill_Switch\<close>: \<open>storage/reconciliation.py\<close>; the locale \<open>kill_switch\<close> is the contract of both repositories.
  \<^item> \<open>Watchdog\<close>, \<open>Latch_Healer\<close>: \<open>execution/bitget_protection_watchdog.py\<close>, \<open>latch_healer.py\<close>,
    \<open>bitget_recovery.py\<close>. The latch happens exactly on an outage; releases are bounded.
  \<^item> \<open>Audit_Evidence\<close>, \<open>Dispatch_Repository\<close>: \<open>execution/bitget_dispatch_repository.py\<close> and
    \<open>bitget_runtime_readiness.py\<close>. Evidence is public and bounded; a lease is exclusive along every
    run of queue steps.
  \<^item> \<open>Admission\<close>, \<open>Dispatcher\<close>: \<open>execution/bitget_admission.py\<close>, \<open>risk/price_scale.py\<close>,
    \<open>execution/bitget_dispatcher.py\<close>. A pass submits once and safely and settles durably, for
    every preflight, routing and execution parameter.
  \<^item> \<open>Fallback_Protection\<close>: \<open>execution/bitget_fallback_protection.py\<close>. One close order per row for workers
    interleaved at every effect, settled on exact fills, registered once.
  \<^item> \<open>Verified_Closes\<close>: \<open>storage/verified_closes.py\<close>. Closes are bound exclusively.
  \<^item> \<open>Provider_Reads\<close>: \<open>exchanges/bitget/read_model.py\<close>, \<open>reconciliation_live.py\<close>, \<open>reconciliation.py\<close>. The
    account and position read models, the native protection checks, the classification of orders without
    detail, the periodic reconciler.
  \<^item> \<open>Async_Execution\<close>: \<open>exchanges/bitget/async_execution.py\<close> and the leverage of an entry in \<open>async_venue.py\<close>.
    Submission and read-back, placement of native protection with retry and a grace that ends, local management and
    opt-in containment; a protected verdict is the venue's word on the exact position.
  \<^item> \<open>Dispatch_Execution\<close>, \<open>Dispatch_Safety\<close>: \<open>execution/bitget_dispatch_execution.py\<close>, the adapter between the
    dispatcher and the async execution: claims, vetoes, single and split entries, replay, recovery, the reservation
    sweep, cancellation. Entries are posted once, the waiting leg only behind protection, filled verdicts rest on shown
    protection, and recovery posts nothing.
  \<^item> \<open>Recovery_Reader\<close>, \<open>Native_Close\<close>, \<open>Recovery_Wiring\<close>: \<open>execution/bitget_protection_recovery.py\<close>,
    \<open>exchanges/bitget/native_close.py\<close> and the resolver and wiring of \<open>service.py\<close>. The recovery reader issues GET
    reads only and calls the account ready only when every waiting and open order of the venue is accounted for;
    it clears an intent only on an absence the venue showed; the close of a natively executed plan is booked
    only to the entry that owns the plan. The wired worker posts each client order id at most once.

  \<^item> \<open>Contract_Metadata\<close>, \<open>Operator_Gateway\<close>: \<open>exchanges/bitget/metadata.py\<close> and \<open>operator/bitget_gateway.py\<close>. Legal
    contract metadata, the tightest maintenance tier, and the gateway through which an operator or a channel message
    closes a position or moves its stop.
  \<^item> \<open>Management_Store\<close>, \<open>Source_Management\<close>, \<open>Management_Order\<close>: \<open>storage/source_management.py\<close> and
    \<open>execution/source_management.py\<close>. The queue of management updates and its budget (the locale
    \<open>management_queue\<close>, interpreted by the table and by the in-memory store), and the order of the calls of a run: what stands
    before every reduction, every stop and every settlement.

  \<^bold>\<open>Bounds.\<close> Decimal results are exact while they fit 28 digits; the properties that need exactness
  state the digit bound. Loops are structural recursions on lists, so every model function is total;
  runs over time (queue steps, store steps, watchdog cycles) are inductive relations or folds over any
  number of steps. The grace loop runs on fuel \<open>budget / interval\<close> (rounded up) plus one: each round sleeps at
  least an interval on a steady clock, so the deadline comes first, and the termination property shows that the
  fuel never runs out.

  \<^bold>\<open>Not modelled.\<close> HTTP and websocket clients, Telegram and the analyser (external input), the console,
  notifications and formatting (output), process wiring, configuration and migrations. The monitor and stream loops
  and the paper lane are left out: they appear as parameters where a modelled component calls them.
  JSON evidence of audit rows and notification payloads are left out of the tables; the keys that make
  them unique are kept. Times are microseconds and UUIDs integers; text comparison is that of ASCII
  strings.
\<close>

end
